(* ===== verification/Prelude.thy ===== *)
theory Prelude
  imports Main
begin

text \<open>
  Shared material of the development. Nothing here is about the program: it is the small
  language in which the Go services are written down, and the proof rules for it.

  \<^item> \<open>('w, 'a) res\<close> is a resumption: a program that either is finished or makes one atomic step
    on the shared state \<open>'w\<close> and goes on. A Go service is a sequence of database transactions
    with pure code between them, and other requests may run between any two transactions, so
    one transaction is one \<^theory_text>\<open>Step\<close>.
  \<^item> \<open>run\<close> executes a resumption alone, without interference: the sequential meaning.
  \<^item> \<open>bindE\<close> sequences two programs that may return a Go \<open>error\<close>: the idiom
    \<^verbatim>\<open>x, err := f(); if err != nil { return err }\<close>.
  \<^item> \<open>rgs\<close> is a rely-guarantee judgement on resumptions and \<open>pool_step\<close> the interleaving
    semantics of a pool of them; the locale \<open>rely_guarantee\<close> proves the judgement sound
    for pools.
  \<^item> generic facts on lists used as database tables.
\<close>

named_theorems run_simps "execution of programs without interference"
named_theorems success_simps "what a successful execution entails"
named_theorems run_head "execution of a program from its first step on"

section \<open>Resumptions\<close>

datatype (dead 'w, 'a) res = Done 'a | Step "'w \<Rightarrow> ('w, 'a) res \<times> 'w"

primrec res_bind :: "('w, 'a) res \<Rightarrow> ('a \<Rightarrow> ('w, 'b) res) \<Rightarrow> ('w, 'b) res" where
  "res_bind (Done a) k = k a"
| "res_bind (Step f) k = Step (map_prod (\<lambda>r. res_bind r k) id \<circ> f)"

primrec run :: "('w, 'a) res \<Rightarrow> 'w \<Rightarrow> 'a \<times> 'w" where
  "run (Done a) = (\<lambda>w. (a, w))"
| "run (Step f) = (\<lambda>w. case (map_prod run id \<circ> f) w of (g, w') \<Rightarrow> g w')"

definition atomic :: "('w \<Rightarrow> 'a \<times> 'w) \<Rightarrow> ('w, 'a) res" where
  "atomic f = Step (map_prod Done id \<circ> f)"

lemma res_induct [case_names Done Step]:
  assumes "\<And>a. P (Done a)" and "\<And>f. (\<And>w. P (fst (f w))) \<Longrightarrow> P (Step f)"
  shows "P r"
proof (induction r)
  case (Done a)
  show ?case by (rule assms(1))
next
  case (Step f)
  have "P (fst (f w))" for w
    by (rule Step.IH [OF rangeI, of "fst (f w)" w]) (simp add: fsts.simps prod_eq_iff)
  then show ?case by (rule assms(2))
qed

lemma run_Done [run_simps]: "run (Done a) w = (a, w)"
  by simp

lemma run_Step: "run (Step f) w = run (fst (f w)) (snd (f w))"
  by (simp add: case_prod_beta map_prod_def)

lemma bind_Step: "res_bind (Step f) k = Step (\<lambda>w. (res_bind (fst (f w)) k, snd (f w)))"
  by (simp add: map_prod_def case_prod_beta comp_def)

lemma run_atomic [run_simps]: "run (atomic f) w = f w"
  by (simp add: atomic_def run_Step map_prod_def case_prod_beta del: run.simps(2))

lemma run_bind [run_simps]:
  "run (res_bind m k) w = (case run m w of (a, w') \<Rightarrow> run (k a) w')"
  by (induction m arbitrary: w rule: res_induct)
    (simp_all add: run_Step bind_Step del: run.simps(2) res_bind.simps(2))

section \<open>Programs that return errors\<close>

definition retE :: "'a \<Rightarrow> ('w, 'e + 'a) res" where
  "retE a = Done (Inr a)"

definition throwE :: "'e \<Rightarrow> ('w, 'e + 'a) res" where
  "throwE e = Done (Inl e)"

definition bindE :: "('w, 'e + 'a) res \<Rightarrow> ('a \<Rightarrow> ('w, 'e + 'b) res) \<Rightarrow> ('w, 'e + 'b) res" where
  "bindE m k = res_bind m (\<lambda>r. case r of Inl e \<Rightarrow> Done (Inl e) | Inr a \<Rightarrow> k a)"

text \<open>\<open>guardE b e k\<close> is the early return \<^verbatim>\<open>if !b { return e }\<close> before \<open>k\<close>.\<close>

definition guardE :: "bool \<Rightarrow> 'e \<Rightarrow> ('w, 'e + 'a) res \<Rightarrow> ('w, 'e + 'a) res" where
  "guardE b e k = (if b then k else throwE e)"

text \<open>A pure Go function that returns an error, lifted.\<close>

definition liftE :: "'e + 'a \<Rightarrow> ('w, 'e + 'a) res" where
  "liftE r = Done r"

text \<open>\<open>tryE m\<close> runs \<open>m\<close> and hands its error to the caller as a value.\<close>

definition tryE :: "('w, 'e + 'a) res \<Rightarrow> ('w, 'e + ('e + 'a)) res" where
  "tryE m = res_bind m (\<lambda>r. Done (Inr r))"

text \<open>A \<open>for\<close> loop whose body may return an error, which ends the loop.\<close>

fun forE :: "'a list \<Rightarrow> ('a \<Rightarrow> ('w, 'e + unit) res) \<Rightarrow> ('w, 'e + unit) res" where
  "forE [] body = retE ()"
| "forE (x # xs) body = bindE (body x) (\<lambda>_. forE xs body)"

text \<open>A loop that collects a result per element.\<close>

fun mapE :: "('a \<Rightarrow> ('w, 'e + 'b) res) \<Rightarrow> 'a list \<Rightarrow> ('w, 'e + 'b list) res" where
  "mapE f [] = retE []"
| "mapE f (x # xs) = bindE (f x) (\<lambda>y. bindE (mapE f xs) (\<lambda>ys. retE (y # ys)))"

lemma run_retE [run_simps, simp]: "run (retE a) w = (Inr a, w)"
  by (simp add: retE_def)

lemma run_throwE [run_simps, simp]: "run (throwE e) w = (Inl e, w)"
  by (simp add: throwE_def)

lemma run_liftE [run_simps, simp]: "run (liftE r) w = (r, w)"
  by (simp add: liftE_def)

lemma run_bindE [run_simps]:
  "run (bindE m k) w = (case run m w of (Inl e, w') \<Rightarrow> (Inl e, w') | (Inr a, w') \<Rightarrow> run (k a) w')"
  by (simp add: bindE_def run_bind split: prod.split sum.split)

lemma run_guardE [run_simps]: "run (guardE b e k) w = (if b then run k w else (Inl e, w))"
  by (simp add: guardE_def)

lemma run_tryE [run_simps]: "run (tryE m) w = (case run m w of (r, w') \<Rightarrow> (Inr r, w'))"
  by (simp add: tryE_def run_bind)

lemma run_if [run_simps]: "run (if b then m else n) w = (if b then run m w else run n w)"
  by simp

lemma run_bind_retE [run_head]: "run (bindE (retE a) k) w = run (k a) w"
  by (simp add: run_bindE)

lemma run_bind_throwE [run_head]: "run (bindE (throwE e) k) w = (Inl e, w)"
  by (simp add: run_bindE)

lemma run_bind_liftE [run_head]:
  "run (bindE (liftE r) k) w = (case r of Inl e \<Rightarrow> (Inl e, w) | Inr a \<Rightarrow> run (k a) w)"
  by (simp add: run_bindE split: sum.split)

lemma run_bind_assoc [run_head]:
  "run (bindE (bindE m f) k) w = run (bindE m (\<lambda>a. bindE (f a) k)) w"
  by (simp add: run_bindE split: sum.split prod.split)

lemma run_bind_guardE [run_head]:
  "run (bindE (guardE b e m) k) w = (if b then run (bindE m k) w else (Inl e, w))"
  by (simp add: run_bindE run_guardE)

lemma run_bind_tryE [run_head]:
  "run (bindE (tryE m) k) w = (case run m w of (r, w') \<Rightarrow> run (k r) w')"
  by (simp add: run_bindE run_tryE split: prod.split)

lemmas [run_head] = run_guardE

text \<open>Success of a composed program, read backwards.\<close>

lemma run_bindE_Inr [success_simps]:
  "run (bindE m k) w = (Inr b, w') \<longleftrightarrow>
     (\<exists>a w1. run m w = (Inr a, w1) \<and> run (k a) w1 = (Inr b, w'))"
  by (auto simp: run_bindE split: prod.splits sum.splits)

lemma run_guardE_Inr [success_simps]:
  "run (guardE c e k) w = (Inr b, w') \<longleftrightarrow> c \<and> run k w = (Inr b, w')"
  by (simp add: run_guardE)

lemma run_retE_Inr [success_simps]: "run (retE a) w = (Inr b, w') \<longleftrightarrow> b = a \<and> w' = w"
  by auto

lemma run_throwE_Inr [success_simps]: "run (throwE e) w = (Inr b, w') \<longleftrightarrow> False"
  by simp

lemma run_liftE_Inr [success_simps]: "run (liftE r) w = (Inr b, w') \<longleftrightarrow> r = Inr b \<and> w' = w"
  by auto

section \<open>Rely-guarantee for resumptions\<close>

text \<open>
  \<open>rgs R G r Q w\<close>: started in \<open>w\<close>, with other programs moving the state only as \<open>R\<close> allows
  between any two steps, every step of \<open>r\<close> is allowed by \<open>G\<close>, and if \<open>r\<close> ends, \<open>Q\<close> holds and
  stays true under \<open>R\<close>.
\<close>

primrec rgs :: "('w \<Rightarrow> 'w \<Rightarrow> bool) \<Rightarrow> ('w \<Rightarrow> 'w \<Rightarrow> bool) \<Rightarrow> ('w, 'a) res
    \<Rightarrow> ('a \<Rightarrow> 'w \<Rightarrow> bool) \<Rightarrow> 'w \<Rightarrow> bool" where
  "rgs R G (Done a) = (\<lambda>Q w. \<forall>w'. R w w' \<longrightarrow> Q a w')"
| "rgs R G (Step f) = (\<lambda>Q w. \<forall>w'. R w w' \<longrightarrow>
     (case (map_prod (rgs R G) id \<circ> f) w' of (p, w'') \<Rightarrow> G w' w'' \<and> p Q w''))"

lemma rgs_Step:
  "rgs R G (Step f) Q w \<longleftrightarrow>
     (\<forall>w'. R w w' \<longrightarrow> G w' (snd (f w')) \<and> rgs R G (fst (f w')) Q (snd (f w')))"
  by (simp add: map_prod_def case_prod_beta)

lemma rgs_mono:
  "rgs R G r P w \<Longrightarrow> (\<And>a w'. P a w' \<Longrightarrow> P' a w') \<Longrightarrow> rgs R G r P' w"
  by (induction r arbitrary: w rule: res_induct) (auto simp: rgs_Step simp del: rgs.simps(2))

text \<open>
  \<open>steps_in G r\<close>: every step of \<open>r\<close>, from whatever state, is allowed by \<open>G\<close>. Such a program meets its
  guarantee without relying on anything.
\<close>

primrec steps_in :: "('w \<Rightarrow> 'w \<Rightarrow> bool) \<Rightarrow> ('w, 'a) res \<Rightarrow> bool" where
  "steps_in G (Done a) = True"
| "steps_in G (Step f) = (\<forall>w. case (map_prod (steps_in G) id \<circ> f) w of (p, w') \<Rightarrow> G w w' \<and> p)"

lemma steps_in_Step: "steps_in G (Step f) \<longleftrightarrow> (\<forall>w. G w (snd (f w)) \<and> steps_in G (fst (f w)))"
  by (simp add: map_prod_def case_prod_beta)

lemma steps_in_rgs: "steps_in G r \<Longrightarrow> rgs R G r (\<lambda>_ _. True) w"
  by (induction r arbitrary: w rule: res_induct) (auto simp: rgs_Step steps_in_Step simp del: rgs.simps(2) steps_in.simps(2))

lemma steps_in_mono: "steps_in G r \<Longrightarrow> (\<And>w w'. G w w' \<Longrightarrow> G' w w') \<Longrightarrow> steps_in G' r"
  by (induction r rule: res_induct) (auto simp: steps_in_Step simp del: steps_in.simps(2))

lemma steps_in_bind: "steps_in G m \<Longrightarrow> (\<And>a. steps_in G (k a)) \<Longrightarrow> steps_in G (res_bind m k)"
  by (induction m rule: res_induct) (auto simp: steps_in_Step bind_Step simp del: steps_in.simps(2) res_bind.simps(2))

lemma steps_in_atomic: "steps_in G (atomic f) \<longleftrightarrow> (\<forall>w. G w (snd (f w)))"
  by (simp add: atomic_def steps_in_Step map_prod_def case_prod_beta del: steps_in.simps(2))

lemma steps_in_run:
  assumes "steps_in G m" "\<And>w. G w w" "\<And>u v w. G u v \<Longrightarrow> G v w \<Longrightarrow> G u w"
  shows "G w (snd (run m w))"
  using assms(1)
proof (induction m arbitrary: w rule: res_induct)
  case (Done a)
  show ?case by (simp add: assms(2))
next
  case (Step f)
  then have "G w (snd (f w))" "G (snd (f w)) (snd (run (fst (f w)) (snd (f w))))"
    by (simp_all add: steps_in_Step del: steps_in.simps(2))
  then show ?case by (auto simp: run_Step simp del: run.simps(2) intro: assms(3))
qed

named_theorems steps "programs all of whose steps a relation allows"

lemma steps_in_pure [simp, steps]: "steps_in G (retE a)" "steps_in G (throwE e)" "steps_in G (liftE r)"
  by (simp_all add: retE_def throwE_def liftE_def)

lemma steps_in_bindE [steps]: "steps_in G m \<Longrightarrow> (\<And>a. steps_in G (k a)) \<Longrightarrow> steps_in G (bindE m k)"
  by (auto simp: bindE_def intro!: steps_in_bind split: sum.split)

lemma steps_in_guardE [steps]: "steps_in G k \<Longrightarrow> steps_in G (guardE b e k)"
  by (simp add: guardE_def)

lemma steps_in_tryE [steps]: "steps_in G m \<Longrightarrow> steps_in G (tryE m)"
  by (auto simp: tryE_def intro: steps_in_bind)

lemma steps_in_forE [steps]: "(\<And>x. x \<in> set xs \<Longrightarrow> steps_in G (body x)) \<Longrightarrow> steps_in G (forE xs body)"
  by (induction xs) (auto intro: steps_in_bindE)

lemma steps_in_mapE [steps]: "(\<And>x. steps_in G (f x)) \<Longrightarrow> steps_in G (mapE f xs)"
  by (induction xs) (auto intro!: steps_in_bindE)

text \<open>
  Two programs on one state, with the schedule given: at each place of the list, the first program makes a step
  if it is \<open>True\<close>, the second otherwise.
\<close>

definition step_res :: "('w, 'a) res \<Rightarrow> 'w \<Rightarrow> ('w, 'a) res \<times> 'w" where
  "step_res r w = (case r of Done a \<Rightarrow> (Done a, w) | Step f \<Rightarrow> f w)"

fun interleave :: "bool list \<Rightarrow> ('w, 'a) res \<Rightarrow> ('w, 'b) res \<Rightarrow> 'w \<Rightarrow> ('w, 'a) res \<times> ('w, 'b) res \<times> 'w" where
  "interleave [] m n w = (m, n, w)"
| "interleave (True # bs) m n w = (case step_res m w of (m', w') \<Rightarrow> interleave bs m' n w')"
| "interleave (False # bs) m n w = (case step_res n w of (n', w') \<Rightarrow> interleave bs m n' w')"

named_theorems step_simps "execution of a program step by step"

lemma res_bind_assoc: "res_bind (res_bind m f) k = res_bind m (\<lambda>a. res_bind (f a) k)"
  by (induction m rule: res_induct) (simp_all add: bind_Step del: res_bind.simps(2))

lemma bindE_pure [step_simps]:
  "bindE (retE a) k = k a" "bindE (throwE e) k = throwE e"
  "bindE (liftE r) k = (case r of Inl e \<Rightarrow> throwE e | Inr a \<Rightarrow> k a)"
  "bindE (guardE b e m) k = guardE b e (bindE m k)"
  by (simp_all add: bindE_def retE_def throwE_def liftE_def guardE_def split: sum.split)

lemma bindE_assoc [step_simps]: "bindE (bindE m f) k = bindE m (\<lambda>a. bindE (f a) k)"
proof -
  have "(\<lambda>r. res_bind (case r of Inl e \<Rightarrow> Done (Inl e) | Inr a \<Rightarrow> f a) (case_sum (\<lambda>e. Done (Inl e)) k))
      = case_sum (\<lambda>e. Done (Inl e)) (\<lambda>a. res_bind (f a) (case_sum (\<lambda>e. Done (Inl e)) k))"
    by (rule ext) (simp split: sum.split)
  then show ?thesis by (simp add: bindE_def res_bind_assoc)
qed

lemma step_atomic [step_simps]:
  "step_res (Done a) w = (Done a, w)"
  "step_res (retE b) w = (retE b, w)"
  "step_res (throwE e) w = (throwE e, w)"
  "step_res (atomic f) w = (case f w of (r, w') \<Rightarrow> (Done r, w'))"
  "step_res (bindE (atomic f) k) w = (case f w of (r, w') \<Rightarrow> (case r of Inl e \<Rightarrow> throwE e | Inr a \<Rightarrow> k a, w'))"
  by (simp_all add: step_res_def atomic_def bindE_def bind_Step map_prod_def retE_def throwE_def split: prod.split sum.split
      del: res_bind.simps(2))

lemma bindE_tryE [step_simps]: "bindE (tryE m) k = res_bind m k"
  by (simp add: bindE_def tryE_def res_bind_assoc)

lemma res_bind_pure [step_simps]:
  "res_bind (retE a) k = k (Inr a)" "res_bind (throwE e) k = k (Inl e)" "res_bind (liftE r) k = k r"
  by (simp_all add: retE_def throwE_def liftE_def)

lemma bindE_res_bind [step_simps]: "bindE (res_bind m f) g = res_bind m (\<lambda>r. bindE (f r) g)"
  by (simp add: bindE_def res_bind_assoc)

lemma res_bind_bindE [step_simps]:
  "res_bind (bindE m f) k = res_bind m (\<lambda>r. case r of Inl e \<Rightarrow> k (Inl e) | Inr a \<Rightarrow> res_bind (f a) k)"
proof -
  have "(\<lambda>r. res_bind (case r of Inl e \<Rightarrow> Done (Inl e) | Inr a \<Rightarrow> f a) k)
      = case_sum (\<lambda>e. k (Inl e)) (\<lambda>a. res_bind (f a) k)"
    by (rule ext) (simp split: sum.split)
  then show ?thesis by (simp add: bindE_def res_bind_assoc)
qed

lemma step_res_bind [step_simps]: "step_res (res_bind (atomic f) k) w = (case f w of (r, w') \<Rightarrow> (k r, w'))"
  by (simp add: step_res_def atomic_def bind_Step map_prod_def split: prod.split del: res_bind.simps(2))

text \<open>
  A pool of running programs, each tagged with the name \<open>'t\<close> of its request. A step runs one
  atomic step of one member; a member may also vanish (its process died), a new one may be
  spawned, and the environment may move the state on its own (the clock advances).
\<close>

inductive pool_step :: "('t \<Rightarrow> ('w, 'a) res \<Rightarrow> 't set \<Rightarrow> 'w \<Rightarrow> bool) \<Rightarrow> ('w \<Rightarrow> 'w \<Rightarrow> bool)
    \<Rightarrow> ('t \<times> ('w, 'a) res) list \<times> 'w \<Rightarrow> ('t \<times> ('w, 'a) res) list \<times> 'w \<Rightarrow> bool"
  for spawnable :: "'t \<Rightarrow> ('w, 'a) res \<Rightarrow> 't set \<Rightarrow> 'w \<Rightarrow> bool" and env :: "'w \<Rightarrow> 'w \<Rightarrow> bool" where
  pool_run: "ts = xs @ (t, Step f) # ys \<Longrightarrow> f w = (r, w')
    \<Longrightarrow> pool_step spawnable env (ts, w) (xs @ (t, r) # ys, w')"
| pool_die: "ts = xs @ (t, r) # ys \<Longrightarrow> pool_step spawnable env (ts, w) (xs @ ys, w)"
| pool_spawn: "spawnable t r (fst ` set ts) w \<Longrightarrow> pool_step spawnable env (ts, w) ((t, r) # ts, w)"
| pool_env: "env w w' \<Longrightarrow> pool_step spawnable env (ts, w) (ts, w')"

inductive pool_reach :: "('t \<Rightarrow> ('w, 'a) res \<Rightarrow> 't set \<Rightarrow> 'w \<Rightarrow> bool) \<Rightarrow> ('w \<Rightarrow> 'w \<Rightarrow> bool)
    \<Rightarrow> 'w \<Rightarrow> ('t \<times> ('w, 'a) res) list \<times> 'w \<Rightarrow> bool"
  for spawnable env w0 where
  reach_start: "pool_reach spawnable env w0 ([], w0)"
| reach_step: "pool_reach spawnable env w0 s \<Longrightarrow> pool_step spawnable env s s'
    \<Longrightarrow> pool_reach spawnable env w0 s'"

text \<open>
  The contract between the members of a pool. \<open>R t\<close> is what the request named \<open>t\<close> relies on,
  \<open>G t\<close> what it guarantees; requests with different names must fit together.
\<close>

locale rely_guarantee =
  fixes R :: "'t \<Rightarrow> 'w \<Rightarrow> 'w \<Rightarrow> bool" and G :: "'t \<Rightarrow> 'w \<Rightarrow> 'w \<Rightarrow> bool"
    and I :: "'w \<Rightarrow> bool"
  assumes rely_refl: "R t w w"
    and rely_trans: "R t w w' \<Longrightarrow> R t w' w'' \<Longrightarrow> R t w w''"
    and guar_rely: "t \<noteq> u \<Longrightarrow> G t w w' \<Longrightarrow> R u w w'"
    and guar_inv: "G t w w' \<Longrightarrow> I w \<Longrightarrow> I w'"
begin

lemma rgs_later: "rgs (R t) H r Q w \<Longrightarrow> R t w w' \<Longrightarrow> rgs (R t) H r Q w'"
  by (cases r) (auto intro: rely_trans)

lemma rgs_bind:
  "rgs (R t) H m (\<lambda>a w. rgs (R t) H (k a) Q w) w \<Longrightarrow> rgs (R t) H (res_bind m k) Q w"
  by (induction m arbitrary: w rule: res_induct)
    (auto simp: rgs_Step bind_Step rely_refl simp del: rgs.simps(2) res_bind.simps(2))

lemma rgs_atomic:
  assumes "\<And>w'. R t w w' \<Longrightarrow> H w' (snd (f w'))"
    and "\<And>w' w''. R t w w' \<Longrightarrow> R t (snd (f w')) w'' \<Longrightarrow> Q (fst (f w')) w''"
  shows "rgs (R t) H (atomic f) Q w"
  using assms by (auto simp: atomic_def rgs_Step map_prod_def case_prod_beta simp del: rgs.simps(2))

lemma rgs_bindE:
  assumes "rgs (R t) H m (\<lambda>r w. case r of Inl e \<Rightarrow> Q (Inl e) w | Inr a \<Rightarrow> rgs (R t) H (k a) Q w) w"
    and "\<And>e w w'. Q (Inl e) w \<Longrightarrow> R t w w' \<Longrightarrow> Q (Inl e) w'"
  shows "rgs (R t) H (bindE m k) Q w"
  unfolding bindE_def
  by (rule rgs_bind, rule rgs_mono [OF assms(1)]) (auto split: sum.splits intro: assms(2))

text \<open>The state at the end is one the relied-on relation leads to from the start, if the program's own steps are in it.\<close>

lemma rgs_history:
  assumes "rgs (R t) H m Q w" "\<And>w w'. H w w' \<Longrightarrow> R t w w'"
  shows "rgs (R t) H m (\<lambda>a w'. Q a w' \<and> R t w w') w"
  using assms(1)
proof (induction m arbitrary: w rule: res_induct)
  case (Done a)
  then show ?case by simp
next
  case (Step f)
  show ?case unfolding rgs_Step
  proof (intro allI impI conjI)
    fix w' assume w': "R t w w'"
    with Step.prems show H: "H w' (snd (f w'))" by (simp add: rgs_Step del: rgs.simps(2))
    have "rgs (R t) H (fst (f w')) Q (snd (f w'))" using Step.prems w' by (simp add: rgs_Step del: rgs.simps(2))
    then have "rgs (R t) H (fst (f w')) (\<lambda>a w''. Q a w'' \<and> R t (snd (f w')) w'') (snd (f w'))" by (rule Step.IH)
    moreover have "R t w (snd (f w'))" using w' assms(2) [OF H] by (rule rely_trans)
    ultimately show "rgs (R t) H (fst (f w')) (\<lambda>a w''. Q a w'' \<and> R t w w'') (snd (f w'))"
      by (blast intro: rgs_mono rely_trans)
  qed
qed

text \<open>
  Soundness for pools: if every spawned program meets its judgement and its name is new, and
  the environment respects every rely, the invariant holds in every reachable state.
\<close>

lemma pool_invariant:
  assumes reach: "pool_reach spawnable env w0 s"
    and init: "I w0"
    and spawn: "\<And>t r T w. spawnable t r T w \<Longrightarrow> I w \<Longrightarrow> t \<notin> T \<and> rgs (R t) (G t) r (\<lambda>_ _. True) w"
    and env_inv: "\<And>w w'. env w w' \<Longrightarrow> I w \<Longrightarrow> I w'"
    and env_rely: "\<And>t w w'. env w w' \<Longrightarrow> R t w w'"
  shows "I (snd s) \<and> distinct (map fst (fst s)) \<and>
    (\<forall>(t, r) \<in> set (fst s). rgs (R t) (G t) r (\<lambda>_ _. True) (snd s))"
  using reach
proof induction
  case reach_start
  show ?case using init by simp
next
  case (reach_step s s')
  from reach_step.hyps(2) reach_step.IH show ?case
  proof cases
    case (pool_run ts xs t f ys w r w')
    with reach_step.IH have "rgs (R t) (G t) (Step f) (\<lambda>_ _. True) w" by auto
    with pool_run have g: "G t w w'" and r: "rgs (R t) (G t) r (\<lambda>_ _. True) w'"
      using rely_refl [of t w] by (auto simp: rgs_Step simp del: rgs.simps(2))
    have "rgs (R u) (G u) q (\<lambda>_ _. True) w'" if "(u, q) \<in> set (xs @ ys)" for u q
    proof -
      from pool_run reach_step.IH have "distinct (map fst xs @ t # map fst ys)" by simp
      then have "t \<notin> fst ` set (xs @ ys)" by auto
      with that have "u \<noteq> t" by (metis fst_conv image_eqI)
      moreover from that pool_run reach_step.IH have "rgs (R u) (G u) q (\<lambda>_ _. True) w" by auto
      ultimately show ?thesis using guar_rely g by (metis rgs_later)
    qed
    with pool_run reach_step.IH g r show ?thesis using guar_inv by auto
  next
    case pool_die
    with reach_step.IH show ?thesis by auto
  next
    case (pool_spawn t r ts w)
    with reach_step.IH spawn [OF pool_spawn(3)] show ?thesis by auto
  next
    case (pool_env w w' ts)
    with reach_step.IH env_inv env_rely show ?thesis by (auto intro: rgs_later)
  qed
qed

text \<open>A step from a reachable state is one of the environment, or keeps the guarantee of its program.\<close>

lemma pool_step_guarantee:
  assumes reach: "pool_reach spawnable env w0 s" and pool_step: "pool_step spawnable env s s'"
    and init: "I w0"
    and spawn: "\<And>t r T w. spawnable t r T w \<Longrightarrow> I w \<Longrightarrow> t \<notin> T \<and> rgs (R t) (G t) r (\<lambda>_ _. True) w"
    and env_inv: "\<And>w w'. env w w' \<Longrightarrow> I w \<Longrightarrow> I w'"
    and env_rely: "\<And>t w w'. env w w' \<Longrightarrow> R t w w'"
  shows "snd s' = snd s \<or> env (snd s) (snd s') \<or> (\<exists>t. G t (snd s) (snd s'))"
  using pool_step
proof cases
  case (pool_run ts xs t f ys w r w')
  with pool_invariant [OF reach init spawn env_inv env_rely]
  have "rgs (R t) (G t) (Step f) (\<lambda>_ _. True) w" by auto
  with pool_run show ?thesis using rely_refl [of t w] by (auto simp: rgs_Step simp del: rgs.simps(2))
qed auto

end

text \<open>A member of a pool that runs without interference.\<close>

lemma pool_alone:
  assumes "run m w = (a, w')"
  shows "(pool_step spawnable env)\<^sup>*\<^sup>* (xs @ (t, m) # ys, w) (xs @ (t, Done a) # ys, w')"
  using assms
proof (induction m arbitrary: w rule: res_induct)
  case (Done b)
  then show ?case by simp
next
  case (Step f)
  have "pool_step spawnable env (xs @ (t, Step f) # ys, w) (xs @ (t, fst (f w)) # ys, snd (f w))"
    by (rule pool_run) auto
  moreover have "run (fst (f w)) (snd (f w)) = (a, w')" using Step.prems by (simp add: run_Step del: run.simps(2))
  then have "(pool_step spawnable env)\<^sup>*\<^sup>* (xs @ (t, fst (f w)) # ys, snd (f w)) (xs @ (t, Done a) # ys, w')"
    by (rule Step.IH)
  ultimately show ?case by (rule converse_rtranclp_into_rtranclp)
qed

lemma pool_spawn_alone:
  assumes "spawnable t m (fst ` set ts) w" "run m w = (a, w')"
  shows "(pool_step spawnable env)\<^sup>*\<^sup>* (ts, w) ((t, Done a) # ts, w')"
proof (rule converse_rtranclp_into_rtranclp)
  show "pool_step spawnable env (ts, w) ((t, m) # ts, w)" using assms(1) by (rule pool_spawn)
  show "(pool_step spawnable env)\<^sup>*\<^sup>* ((t, m) # ts, w) ((t, Done a) # ts, w')"
    using pool_alone [OF assms(2), of spawnable env "[]" t ts] by simp
qed

lemma pool_reach_star:
  "(pool_step spawnable env)\<^sup>*\<^sup>* s s' \<Longrightarrow> pool_reach spawnable env w0 s \<Longrightarrow> pool_reach spawnable env w0 s'"
  by (induction rule: rtranclp_induct) (auto intro: reach_step)

section \<open>Lists as database tables\<close>

text \<open>
  A table is the list of its rows. \<open>upd\<close> is \<^verbatim>\<open>UPDATE ... WHERE\<close>, \<open>del\<close> is \<^verbatim>\<open>DELETE ... WHERE\<close>;
  \<^verbatim>\<open>SELECT\<close> is \<open>filter\<close>, a single-row query is \<open>List.find\<close>, and \<^verbatim>\<open>EXISTS\<close> is \<open>list_ex\<close>.
\<close>

definition upd :: "('a \<Rightarrow> bool) \<Rightarrow> ('a \<Rightarrow> 'a) \<Rightarrow> 'a list \<Rightarrow> 'a list" where
  "upd p f xs = map (\<lambda>x. if p x then f x else x) xs"

definition del :: "('a \<Rightarrow> bool) \<Rightarrow> 'a list \<Rightarrow> 'a list" where
  "del p xs = filter (\<lambda>x. \<not> p x) xs"

lemma upd_simps [simp]:
  "upd p f [] = []" "upd p f (x # xs) = (if p x then f x else x) # upd p f xs"
  by (simp_all add: upd_def)

lemma del_simps [simp]:
  "del p [] = []" "del p (x # xs) = (if p x then del p xs else x # del p xs)"
  by (simp_all add: del_def)

lemma set_upd: "set (upd p f xs) = {x \<in> set xs. \<not> p x} \<union> f ` {x \<in> set xs. p x}"
  by (auto simp: upd_def)

lemma set_del [simp]: "set (del p xs) = {x \<in> set xs. \<not> p x}"
  by (auto simp: del_def)

lemma in_set_updE:
  assumes "y \<in> set (upd p f xs)"
  obtains (kept) "y \<in> set xs" "\<not> p y" | (changed) x where "x \<in> set xs" "p x" "y = f x"
  using assms by (auto simp: set_upd)

lemma map_upd: "(\<And>x. g (f x) = g x) \<Longrightarrow> map g (upd p f xs) = map g xs"
  by (simp add: upd_def)

lemma list_ex_upd: "list_ex q (upd p f xs) \<longleftrightarrow> list_ex (\<lambda>x. q (if p x then f x else x)) xs"
  by (induction xs) auto

lemma filter_upd_other:
  "(\<And>x. p x \<Longrightarrow> \<not> q x \<and> \<not> q (f x)) \<Longrightarrow> filter q (upd p f xs) = filter q xs"
  by (induction xs) auto

lemma filter_del_other: "(\<And>x. p x \<Longrightarrow> \<not> q x) \<Longrightarrow> filter q (del p xs) = filter q xs"
  by (induction xs) auto

lemma filter_eq_singleton: "distinct xs \<Longrightarrow> r \<in> set xs \<Longrightarrow> filter (\<lambda>x. x = r) xs = [r]"
  by (induction xs) (auto simp: filter_empty_conv)

lemma distinct_map_del: "distinct (map g xs) \<Longrightarrow> distinct (map g (del p xs))"
  by (simp add: del_def distinct_map_filter)

lemma find_SomeD: "List.find p xs = Some x \<Longrightarrow> x \<in> set xs \<and> p x"
  by (auto simp: find_Some_iff in_set_conv_nth)

lemma find_None_iff_ex: "List.find p xs = None \<longleftrightarrow> \<not> list_ex p xs"
  by (auto simp: find_None_iff list_ex_iff)

lemma find_append:
  "List.find p (xs @ ys) = (case List.find p xs of None \<Rightarrow> List.find p ys | Some x \<Rightarrow> Some x)"
  by (induction xs) auto

lemma find_unique:
  "distinct (map g xs) \<Longrightarrow> x \<in> set xs \<Longrightarrow> p x \<Longrightarrow> (\<And>y. p y \<Longrightarrow> g y = g x) \<Longrightarrow> List.find p xs = Some x"
proof (induction xs)
  case Nil
  then show ?case by simp
next
  case (Cons z zs)
  show ?case
  proof (cases "p z")
    case True
    then have "g z = g x" by (rule Cons.prems(4))
    moreover have "g z \<notin> g ` set zs" using Cons.prems(1) by simp
    ultimately have "x \<notin> set zs" by auto
    with Cons.prems(2) have "z = x" by simp
    with True show ?thesis by simp
  next
    case False
    with Cons.prems(2,3) have "x \<in> set zs" by auto
    moreover have "distinct (map g zs)" using Cons.prems(1) by simp
    ultimately have "List.find p zs = Some x" using Cons.prems(3,4) by (intro Cons.IH)
    with False show ?thesis by simp
  qed
qed

end
