(* ===== verification/Store.thy ===== *)
theory Store
  imports Prelude "HOL-Library.Char_ord" "HOL-Library.List_Lexorder"
begin

text \<open>
  The shared state of the Control Plane: the rows every bounded context keeps in the database
  (one \<^theory_text>\<open>record\<close> per struct of the \<^verbatim>\<open>domain\<close> packages, one list per table of \<^verbatim>\<open>migrations/\<close>),
  the clock, and the database itself as the services see it.

  Every repository method of the program opens one transaction, sets \<open>app.current_org_id\<close>, runs
  its statements and commits. \<open>tx\<close> is that pattern: one atomic step that either commits the
  body's changes, or returns the body's error with everything rolled back, or fails because
  the database does. Which transactions fail is the list \<open>faults\<close> of the state: nothing is assumed
  about it, except in statements that say the database does not fail (\<open>faults w = []\<close>).

  Identifiers are strings, as in the source; that a column of type \<open>uuid\<close> rejects a string
  which is not one is not modelled. The values of \<^verbatim>\<open>uuid.NewString()\<close> are arguments of the
  operations that call it. A time is the number of nanoseconds since the epoch. Strings are
  ordered by their bytes, as the database does (\<^verbatim>\<open>Char_ord\<close>, \<^verbatim>\<open>List_Lexorder\<close>).
\<close>

type_synonym id = string
type_synonym time = int
type_synonym payload = "(string \<times> string) list"

section \<open>Errors\<close>

text \<open>
  The sentinel errors of the \<^verbatim>\<open>domain\<close> packages, and what the database driver returns. Sentinels
  with the same name in different packages are one constructor here: no code compares a
  sentinel of one package with a value from another.
\<close>

datatype (plugins only: code size) err =
    ErrDB \<comment> \<open>the connection, the transaction or the statement failed\<close>
  | ErrNoRows \<comment> \<open>\<^verbatim>\<open>pgx.ErrNoRows\<close> returned as it is\<close>
  | ErrUniqueViolation \<comment> \<open>SQLSTATE 23505 returned as it is\<close>
  | ErrForeignKeyViolation
  | ErrCheckViolation
  | ErrRedis
  | ErrForbidden
  | ErrUserNotFound
  | ErrOrganizationNotFound
  | ErrOrganizationAlreadyArchived
  | ErrOrganizationArchived
  | ErrOrganizationSlugTaken
  | ErrProjectNotFound
  | ErrProjectAlreadyExists
  | ErrTeamNotFound
  | ErrTeamAlreadyExists
  | ErrRoleNotFound
  | ErrServiceAccountNotFound
  | ErrRoleAlreadyExists
  | ErrEnvironmentNotFound
  | ErrWorkspaceNotFound
  | ErrWorkspaceLocked
  | ErrVariableNotFound
  | ErrScopeNotFound
  | ErrSecretMountNotFound
  | ErrRunNotFound
  | ErrRunAlreadyTerminal
  | ErrInvalidTransition
  | ErrNoWorkerAvailable
  | ErrInvalidMasterKey
  | ErrDecryption \<comment> \<open>the error of \<^verbatim>\<open>cipher.AEAD.Open\<close>, wrapped\<close>
  | ErrUserAlreadyExists
  | ErrInvalidCredentials
  | ErrAPIKeyInvalid
  | ErrInvalidToken
  | ErrJWT \<comment> \<open>an error of the JWT library when it signs\<close>
  | ErrRefreshTokenInvalid
  | ErrPasswordResetTokenInvalid
  | ErrBcrypt \<comment> \<open>an error of \<^verbatim>\<open>bcrypt.GenerateFromPassword\<close>\<close>
  | ErrMachineNotFound
  | ErrMachineHasHistory
  | ErrMachineNameTaken
  | ErrNetworkNotFound
  | ErrNetworkInUse
  | ErrVolumeNotFound
  | ErrVolumeInUse
  | ErrComposeFileNotFound
  | ErrGlobalComposeFileExists
  | ErrComposeFileHasHistory
  | ErrVariableKeyTaken
  | ErrOperationNotFound
  | ErrYAML \<comment> \<open>an error of the YAML library returned as it is\<close>
  | ErrSSH \<comment> \<open>any error of the SSH client\<close>
  | NilPointer \<comment> \<open>a run-time panic: a nil pointer was dereferenced\<close>
  | ErrVault \<comment> \<open>any error of the Vault client; they differ only in their text\<close>
  | ValidationError string

section \<open>JSON\<close>

text \<open>
  The bodies of requests and responses are represented by the JSON value they encode; the text of the encoding
  is not modelled.
\<close>

datatype json = JNull | JBool bool | JInt int | JString string | JArray "json list" | JObject "(string \<times> json) list"

section \<open>Rows\<close>

record User =
  usr_ID :: id
  usr_Username :: string
  usr_Email :: string
  usr_AuthSource :: string
  usr_ExternalID :: "string option"
  usr_Status :: string
  usr_MFAEnrolled :: bool
  usr_CreatedAt :: time
  usr_IsPlatformAdmin :: bool
  usr_PasswordHash :: "string option"

record ServiceAccount =
  sa_ID :: id
  sa_OrganizationID :: id
  sa_Name :: string
  sa_Description :: string
  sa_CreatedAt :: time

record Organization =
  org_ID :: id
  org_Name :: string
  org_Slug :: string
  org_Settings :: payload
  org_Quota :: payload
  org_Status :: string
  org_ArchivedAt :: "time option"
  org_CreatedAt :: time

record OrganizationMembership =
  mem_ID :: id
  mem_OrganizationID :: id
  mem_UserID :: id
  mem_JoinedAt :: time
  mem_BlockedAt :: "time option"

record Project =
  prj_ID :: id
  prj_OrganizationID :: id
  prj_Name :: string
  prj_Slug :: string
  prj_Description :: string
  prj_CreatedAt :: time

record Team =
  team_ID :: id
  team_OrganizationID :: id
  team_Name :: string
  team_CreatedAt :: time

record TeamMembership =
  tm_ID :: id
  tm_TeamID :: id
  tm_OrganizationID :: id
  tm_UserID :: id
  tm_JoinedAt :: time

record Role =
  role_ID :: id
  role_OrganizationID :: "id option"
  role_Name :: string
  role_Permissions :: "string list"

record RoleBinding =
  rb_ID :: id
  rb_OrganizationID :: id
  rb_RoleID :: id
  rb_SubjectType :: string
  rb_SubjectID :: id
  rb_ScopeType :: string
  rb_ScopeID :: id
  rb_Effect :: string
  rb_CreatedAt :: time

record Environment =
  env_ID :: id
  env_OrganizationID :: id
  env_ProjectID :: id
  env_Name :: string
  env_PromotionRank :: int
  env_RequiresApproval :: bool
  env_CreatedAt :: time

record Workspace =
  ws_ID :: id
  ws_OrganizationID :: id
  ws_ProjectID :: id
  ws_EnvironmentID :: "id option"
  ws_Name :: string
  ws_ExecutionEngine :: string
  ws_VCSLinkID :: "id option"
  ws_CurrentStateVersionID :: "id option"
  ws_Locked :: bool
  ws_LockedByRunID :: "id option"
  ws_CreatedAt :: time

datatype RunStatus =
    RunStatusQueued | RunStatusPlanning | RunStatusPlanned | RunStatusPolicyCheck
  | RunStatusAwaitingApproval | RunStatusApplying | RunStatusApplied | RunStatusFailed
  | RunStatusErrored | RunStatusCanceled

datatype RunTrigger =
    RunTriggerManual | RunTriggerVCSPush | RunTriggerVCSPR | RunTriggerScheduled | RunTriggerAPI

record Run =
  run_ID :: id
  run_OrganizationID :: id
  run_WorkspaceID :: id
  run_Trigger :: RunTrigger
  run_TriggeredBy :: string
  run_Status :: RunStatus
  run_PlanOutputRef :: "string option"
  run_ApplyOutputRef :: "string option"
  run_CreatedAt :: time
  run_StartedAt :: "time option"
  run_FinishedAt :: "time option"

text \<open>A row of \<^verbatim>\<open>variables\<close>: the columns, with the nullable ones as options.\<close>

record VariableRow =
  vr_ID :: id
  vr_OrganizationID :: id
  vr_ScopeType :: string
  vr_ScopeID :: id
  vr_Key :: string
  vr_Category :: string
  vr_Sensitivity :: string
  vr_Value :: "string option"
  vr_SecretMountID :: "id option"
  vr_SecretPath :: "string option"
  vr_CreatedAt :: time

record SecretMount =
  sm_ID :: id
  sm_OrganizationID :: id
  sm_Name :: string
  sm_BackendType :: string
  sm_Address :: string
  sm_RoleID :: string
  sm_EncryptedSecretID :: string
  sm_SecretIDNonce :: string
  sm_SecretIDSalt :: string
  sm_CreatedAt :: time

text \<open>The tokens of Identity, and a row of \<^verbatim>\<open>api_keys\<close>: the struct with the column \<open>organization_id\<close>.\<close>

record RefreshToken =
  rt_ID :: id
  rt_UserID :: id
  rt_TokenHash :: string
  rt_ExpiresAt :: time
  rt_RevokedAt :: "time option"
  rt_CreatedAt :: time

record PasswordResetToken =
  prt_ID :: id
  prt_UserID :: id
  prt_TokenHash :: string
  prt_ExpiresAt :: time
  prt_UsedAt :: "time option"
  prt_CreatedAt :: time

record APIKey =
  ak_ID :: id
  ak_OwnerType :: string
  ak_OwnerID :: id
  ak_Name :: string
  ak_KeyHash :: string
  ak_Scopes :: "string list"
  ak_ExpiresAt :: time
  ak_LastUsedAt :: "time option"
  ak_RevokedAt :: "time option"
  ak_CreatedAt :: time

record APIKeyRow =
  akr_OrganizationID :: id
  akr_Key :: APIKey

text \<open>
  The tables of Fleet. \<open>MachineRow\<close> and \<open>FleetVariableRow\<close> are rows, whose nullable columns are options; the
  structs of \<^verbatim>\<open>fleet/domain\<close> for the other tables have the same fields as their rows.
\<close>

record MachineRow =
  mr_ID :: id
  mr_OrganizationID :: id
  mr_Name :: string
  mr_Host :: string
  mr_SSHPort :: int
  mr_SSHUser :: string
  mr_CredentialType :: string
  mr_CredentialStorage :: string
  mr_CredentialMountID :: "id option"
  mr_CredentialPath :: "string option"
  mr_EncryptedCredential :: "string option"
  mr_CredentialNonce :: "string option"
  mr_CredentialSalt :: "string option"
  mr_DeployBasePath :: string
  mr_ConnectionStatus :: string
  mr_DockerStatus :: string
  mr_LastCheckedAt :: "time option"
  mr_Archived :: bool
  mr_CreatedAt :: time

record Network =
  net_ID :: id
  net_OrganizationID :: id
  net_Name :: string
  net_External :: bool
  net_CreatedBy :: id
  net_CreatedAt :: time

record Volume =
  vol_ID :: id
  vol_OrganizationID :: id
  vol_Name :: string
  vol_HostPath :: string
  vol_CreatedBy :: id
  vol_CreatedAt :: time

record ComposeFile =
  cf_ID :: id
  cf_OrganizationID :: id
  cf_Name :: string
  cf_IsGlobal :: bool
  cf_ComposeContent :: string
  cf_CreatedBy :: id
  cf_CreatedAt :: time

record ComposeFileNetwork =
  cfn_OrganizationID :: id
  cfn_ComposeFileID :: id
  cfn_NetworkID :: id

record ComposeFileVolume =
  cfv_OrganizationID :: id
  cfv_ComposeFileID :: id
  cfv_VolumeID :: id
  cfv_ContainerPath :: string

record FleetVariableRow =
  fvr_ID :: id
  fvr_OrganizationID :: id
  fvr_ComposeFileID :: id
  fvr_Key :: string
  fvr_VarType :: string
  fvr_Value :: "string option"
  fvr_SecretMountID :: "id option"
  fvr_SecretPath :: "string option"
  fvr_FileTargetPath :: "string option"
  fvr_CreatedAt :: time

record Operation =
  op_ID :: id
  op_OrganizationID :: id
  op_ComposeFileID :: id
  op_MachineID :: id
  op_OperationType :: string
  op_Status :: string
  op_TriggeredBy :: id
  op_CreatedAt :: time
  op_StartedAt :: "time option"
  op_FinishedAt :: "time option"
  op_ExitCode :: "int option"
  op_Output :: string

record ComposeFileProject =
  cfp_OrganizationID :: id
  cfp_ComposeFileID :: id
  cfp_ProjectID :: id

record Event =
  ev_ID :: id
  ev_OrganizationID :: id
  ev_EventType :: string
  ev_Payload :: payload
  ev_OccurredAt :: time
  ev_PublishedAt :: "time option"

record Entry =
  ae_ID :: id
  ae_OrganizationID :: id
  ae_SourceEventID :: id
  ae_Actor :: string
  ae_Action :: string
  ae_TargetType :: string
  ae_TargetID :: string
  ae_Metadata :: payload
  ae_CreatedAt :: time

record IdempotencyKey =
  ik_OrganizationID :: id
  ik_RequestingUserID :: id
  ik_Key :: string
  ik_ResponseStatus :: int
  ik_ResponseBody :: "json option"
  ik_CreatedAt :: time

section \<open>The database\<close>

record db =
  users :: "User list"
  service_accounts :: "ServiceAccount list"
  organizations :: "Organization list"
  organization_memberships :: "OrganizationMembership list"
  projects :: "Project list"
  teams :: "Team list"
  team_memberships :: "TeamMembership list"
  roles :: "Role list"
  role_bindings :: "RoleBinding list"
  environments :: "Environment list"
  workspaces :: "Workspace list"
  runs :: "Run list"
  variables :: "VariableRow list"
  secret_mounts :: "SecretMount list"
  compose_file_projects :: "ComposeFileProject list"
  outbox_events :: "Event list"
  audit_entries :: "Entry list"
  idempotency_keys :: "IdempotencyKey list"
  refresh_tokens :: "RefreshToken list"
  password_reset_tokens :: "PasswordResetToken list"
  api_keys :: "APIKeyRow list"
  machines :: "MachineRow list"
  networks :: "Network list"
  volumes :: "Volume list"
  compose_files :: "ComposeFile list"
  compose_file_networks :: "ComposeFileNetwork list"
  compose_file_volumes :: "ComposeFileVolume list"
  fleet_variables :: "FleetVariableRow list"
  operations :: "Operation list"

definition empty_db :: db where
  "empty_db = \<lparr>users = [], service_accounts = [], organizations = [], organization_memberships = [],
     projects = [], teams = [], team_memberships = [], roles = [], role_bindings = [],
     environments = [], workspaces = [], runs = [], variables = [], secret_mounts = [],
     compose_file_projects = [], outbox_events = [], audit_entries = [], idempotency_keys = [],
     refresh_tokens = [], password_reset_tokens = [], api_keys = [], machines = [], networks = [], volumes = [],
     compose_files = [], compose_file_networks = [], compose_file_volumes = [], fleet_variables = [], operations = []\<rparr>"

section \<open>The Worker registry and Redis\<close>

text \<open>
  A command in a Worker's channel. The state of one replica's \<^verbatim>\<open>Registry\<close> and the keys the
  replicas share through Redis; an ownership key expires at the time kept with it. A Go channel
  is shared by reference: an entry names its channel, and \<open>reg_chans\<close> has what each one holds.
\<close>

record JobAssignment =
  ja_RunId :: id
  ja_OrganizationId :: id
  ja_WorkspaceId :: id
  ja_ExecutionEngine :: string
  ja_ConfigBundle :: string
  ja_CredentialBundle :: string

datatype WorkerCommand = AssignJob JobAssignment | CancelJob id

record workerEntry =
  we_supportedEngines :: "string list"
  we_jobs :: id

record Registry =
  reg_workers :: "id \<rightharpoonup> workerEntry"
  reg_runToWorker :: "id \<rightharpoonup> id"
  reg_chans :: "id \<Rightarrow> WorkerCommand list"

text \<open>A message on the channel of a Fleet operation (\<^verbatim>\<open>internal/fleet/adapters/redisstream\<close>).\<close>

record LogMessage =
  lm_Line :: string
  lm_Done :: bool
  lm_ExitCode :: "int option"

record redis =
  rds_runWorker :: "id \<rightharpoonup> id"
  rds_workerInstance :: "id \<rightharpoonup> string \<times> time"
  rds_messages :: "(string \<times> id) list"
  rds_logs :: "(string \<times> LogMessage) list"

text \<open>
  The requests the Vault client sends, through \<^verbatim>\<open>vaultapi.Client\<close>: a token is what \<^verbatim>\<open>SetToken\<close> stored, the
  empty string before it. \<open>VaultValue\<close> is a value of the maps \<^verbatim>\<open>map[string]any\<close> of the API.
\<close>

datatype VaultValue = VaultString string | VaultMap "(string \<times> VaultValue) list" | VaultOther

type_synonym vault_data = "(string \<times> VaultValue) list"

datatype VaultRequest =
    VaultWrite string string string vault_data \<comment> \<open>address, token, path, data\<close>
  | VaultRead string string string \<comment> \<open>address, token, path\<close>
  | VaultLookupSelf string string \<comment> \<open>address, token\<close>

text \<open>The rate limiters of \<^verbatim>\<open>internal/platform/ratelimit\<close>, which a replica keeps in memory.\<close>

record window =
  win_count :: int
  win_resetAt :: time

record Limiter =
  lim_windows :: "string \<rightharpoonup> window"
  lim_limit :: int
  lim_interval :: time

text \<open>
  What the SSH client of Fleet asks of a remote machine, through \<^verbatim>\<open>golang.org/x/crypto/ssh\<close> and \<^verbatim>\<open>github.com/pkg/sftp\<close>;
  every request is kept with the target of its connection.
\<close>

record ConnectionTarget =
  ct_Host :: string
  ct_Port :: int
  ct_User :: string
  ct_CredentialType :: string
  ct_Secret :: string

datatype SSHRequest =
    SSHDial
  | SSHNewSession
  | SSHCombinedOutput string
  | SFTPNewClient
  | SFTPMkdirAll string
  | SFTPCreate string
  | SFTPWrite string string \<comment> \<open>path, content\<close>
  | SSHStdoutPipe
  | SSHStart string
  | SSHReadAll \<comment> \<open>what the command prints until it closes its output\<close>
  | SSHWait

record world =
  db :: db
  clock :: time
  faults :: "bool list"
  registries :: "string \<Rightarrow> Registry"
  rds :: redis
  vault :: "VaultRequest list"
  limiters :: "string \<Rightarrow> Limiter"
  ssh :: "(ConnectionTarget \<times> SSHRequest) list"

type_synonym 'a io = "(world, err + 'a) res"

definition empty_registry :: Registry where
  "empty_registry = \<lparr>reg_workers = Map.empty, reg_runToWorker = Map.empty, reg_chans = (\<lambda>_. [])\<rparr>"

definition empty_world :: world where
  "empty_world = \<lparr>db = empty_db, clock = 0, faults = [], registries = (\<lambda>_. empty_registry),
     rds = \<lparr>rds_runWorker = Map.empty, rds_workerInstance = Map.empty, rds_messages = [], rds_logs = []\<rparr>,
     vault = [], limiters = (\<lambda>_. \<lparr>lim_windows = Map.empty, lim_limit = 0, lim_interval = 0\<rparr>), ssh = []\<rparr>"

section \<open>Transactions\<close>

definition fault_now :: "world \<Rightarrow> bool" where
  "fault_now w = (faults w \<noteq> [] \<and> hd (faults w))"

definition pop :: "world \<Rightarrow> world" where
  "pop w = w\<lparr>faults := tl (faults w)\<rparr>"

definition tx :: "(time \<Rightarrow> db \<Rightarrow> err + 'a \<times> db) \<Rightarrow> 'a io" where
  "tx body = atomic (\<lambda>w.
     if fault_now w then (Inl ErrDB, pop w)
     else case body (clock w) (db w) of
            Inl e \<Rightarrow> (Inl e, pop w)
          | Inr (a, d) \<Rightarrow> (Inr a, (pop w)\<lparr>db := d\<rparr>))"

text \<open>A transaction that only reads.\<close>

definition query :: "(db \<Rightarrow> err + 'a) \<Rightarrow> 'a io" where
  "query q = tx (\<lambda>_ d. case q d of Inl e \<Rightarrow> Inl e | Inr a \<Rightarrow> Inr (a, d))"

text \<open>\<^verbatim>\<open>time.Now()\<close>.\<close>

definition nowE :: "time io" where
  "nowE = atomic (\<lambda>w. (Inr (clock w), w))"

text \<open>A single-row query: no row is \<open>e\<close>.\<close>

definition oneRow :: "err \<Rightarrow> ('a \<Rightarrow> bool) \<Rightarrow> 'a list \<Rightarrow> err + 'a" where
  "oneRow e p rows = (case List.find p rows of None \<Rightarrow> Inl e | Some r \<Rightarrow> Inr r)"

lemma pop_simps [simp]:
  "db (pop w) = db w" "clock (pop w) = clock w" "registries (pop w) = registries w"
  "rds (pop w) = rds w" "vault (pop w) = vault w" "limiters (pop w) = limiters w" "ssh (pop w) = ssh w"
  "faults (pop w) = tl (faults w)"
  by (simp_all add: pop_def)

lemma pop_no_faults [simp]: "faults w = [] \<Longrightarrow> pop w = w"
  by (simp add: pop_def)

lemma fault_now_no_faults [simp]: "faults w = [] \<Longrightarrow> \<not> fault_now w"
  by (simp add: fault_now_def)

lemma fault_now_frame [simp]:
  "fault_now (w\<lparr>db := d\<rparr>) = fault_now w" "fault_now (w\<lparr>registries := r\<rparr>) = fault_now w"
  "fault_now (w\<lparr>rds := q\<rparr>) = fault_now w" "fault_now (w\<lparr>vault := v\<rparr>) = fault_now w"
  "fault_now (w\<lparr>ssh := s\<rparr>) = fault_now w"
  by (simp_all add: fault_now_def)

lemma pop_frame [simp]:
  "pop (w\<lparr>db := d\<rparr>) = (pop w)\<lparr>db := d\<rparr>" "pop (w\<lparr>registries := r\<rparr>) = (pop w)\<lparr>registries := r\<rparr>"
  "pop (w\<lparr>rds := q\<rparr>) = (pop w)\<lparr>rds := q\<rparr>" "pop (w\<lparr>vault := v\<rparr>) = (pop w)\<lparr>vault := v\<rparr>"
  "pop (w\<lparr>ssh := s\<rparr>) = (pop w)\<lparr>ssh := s\<rparr>"
  by (simp_all add: pop_def)

lemma run_tx [run_simps]:
  "run (tx body) w =
     (if fault_now w then (Inl ErrDB, pop w)
      else case body (clock w) (db w) of
             Inl e \<Rightarrow> (Inl e, pop w)
           | Inr (a, d) \<Rightarrow> (Inr a, (pop w)\<lparr>db := d\<rparr>))"
  by (simp add: tx_def run_atomic)

lemma run_query [run_simps]:
  "run (query q) w = (if fault_now w then (Inl ErrDB, pop w) else (q (db w), pop w))"
proof -
  have "(pop w)\<lparr>db := db w\<rparr> = pop w" by (simp add: pop_def)
  then show ?thesis by (simp add: query_def run_tx split: sum.split)
qed

lemma run_nowE [run_simps]: "run nowE w = (Inr (clock w), w)"
  by (simp add: nowE_def run_atomic)

lemma run_bind_tx [run_head]:
  "run (bindE (tx body) k) w =
     (if fault_now w then (Inl ErrDB, pop w)
      else case body (clock w) (db w) of
             Inl e \<Rightarrow> (Inl e, pop w)
           | Inr (a, d) \<Rightarrow> run (k a) ((pop w)\<lparr>db := d\<rparr>))"
  by (auto simp: run_bindE run_tx split: sum.split)

lemma run_bind_query [run_head]:
  "run (bindE (query q) k) w =
     (if fault_now w then (Inl ErrDB, pop w)
      else case q (db w) of Inl e \<Rightarrow> (Inl e, pop w) | Inr a \<Rightarrow> run (k a) (pop w))"
  by (auto simp: run_bindE run_query split: sum.split)

lemma run_bind_nowE [run_head]: "run (bindE nowE k) w = run (k (clock w)) w"
  by (simp add: run_bindE run_nowE)

lemma run_tx_Inr [success_simps]:
  "run (tx body) w = (Inr a, w') \<longleftrightarrow>
     \<not> fault_now w \<and> (\<exists>d. body (clock w) (db w) = Inr (a, d) \<and> w' = (pop w)\<lparr>db := d\<rparr>)"
  by (auto simp: run_tx split: sum.splits)

lemma run_query_Inr [success_simps]:
  "run (query q) w = (Inr a, w') \<longleftrightarrow> \<not> fault_now w \<and> q (db w) = Inr a \<and> w' = pop w"
  by (auto simp: run_query)

lemma run_nowE_Inr [success_simps]: "run nowE w = (Inr t, w') \<longleftrightarrow> t = clock w \<and> w' = w"
  by (auto simp: run_nowE)

lemma step_tx [step_simps]:
  "step_res (tx body) w = (if fault_now w then (throwE ErrDB, pop w)
     else case body (clock w) (db w) of Inl e \<Rightarrow> (throwE e, pop w) | Inr (a, d) \<Rightarrow> (retE a, (pop w)\<lparr>db := d\<rparr>))"
  "step_res (bindE (tx body) k) w = (if fault_now w then (throwE ErrDB, pop w)
     else case body (clock w) (db w) of Inl e \<Rightarrow> (throwE e, pop w) | Inr (a, d) \<Rightarrow> (k a, (pop w)\<lparr>db := d\<rparr>))"
  by (simp_all add: tx_def step_simps retE_def throwE_def split: sum.split prod.split)

lemma step_query [step_simps]:
  "step_res (bindE (query q) k) w = (if fault_now w then (throwE ErrDB, pop w)
     else case q (db w) of Inl e \<Rightarrow> (throwE e, pop w) | Inr a \<Rightarrow> (k a, pop w))"
proof -
  have "(pop w)\<lparr>db := db w\<rparr> = pop w" by (simp add: pop_def)
  then show ?thesis by (simp add: query_def step_simps split: sum.split)
qed

lemma step_nowE [step_simps]: "step_res (bindE nowE k) w = (k (clock w), w)"
  by (simp add: nowE_def step_simps)

lemma steps_in_tx:
  "(\<And>now d a d'. body now d = Inr (a, d') \<Longrightarrow> H d d') \<Longrightarrow> (\<And>d. H d d) \<Longrightarrow> steps_in (\<lambda>w w'. H (db w) (db w')) (tx body)"
  by (auto simp: tx_def steps_in_atomic split: sum.split)

lemma steps_in_query [steps]: "(\<And>d. H d d) \<Longrightarrow> steps_in (\<lambda>w w'. H (db w) (db w')) (query q)"
  unfolding query_def by (rule steps_in_tx) (auto split: sum.splits)

lemma steps_in_nowE [steps]: "(\<And>d. H d d) \<Longrightarrow> steps_in (\<lambda>w w'. H (db w) (db w')) nowE"
  by (simp add: nowE_def steps_in_atomic)

lemma oneRow_Inr [success_simps]:
  "oneRow e p rows = Inr r \<longleftrightarrow> List.find p rows = Some r"
  by (simp add: oneRow_def split: option.split)

lemma oneRow_InrD: "oneRow e p rows = Inr r \<Longrightarrow> r \<in> set rows \<and> p r"
  by (auto simp: success_simps dest: find_SomeD)

section \<open>Patterns of the source\<close>

text \<open>The verb \<^verbatim>\<open>%q\<close> of \<^verbatim>\<open>fmt.Sprintf\<close>, for a string without characters that need escaping.\<close>

definition goQuote :: "string \<Rightarrow> string" where
  "goQuote s = CHR 0x22 # s @ [CHR 0x22]"

text \<open>
  The regular expressions of the domain packages, as recognisers: \<open>namePattern\<close>
  \<^verbatim>\<open>^[a-zA-Z0-9][a-zA-Z0-9_-]*$\<close>, \<open>keyPattern\<close> \<^verbatim>\<open>^[A-Za-z_][A-Za-z0-9_]*$\<close> and \<open>slugPattern\<close>
  \<^verbatim>\<open>^[a-z0-9]+(-[a-z0-9]+)*$\<close>. Go's \<^verbatim>\<open>$\<close> without the \<^verbatim>\<open>m\<close> flag is the end of the text.
\<close>

definition in_range :: "char \<Rightarrow> char \<Rightarrow> char \<Rightarrow> bool" where
  "in_range lo hi c = (of_char lo \<le> (of_char c :: nat) \<and> (of_char c :: nat) \<le> of_char hi)"

definition is_lower :: "char \<Rightarrow> bool" where "is_lower = in_range CHR ''a'' CHR ''z''"
definition is_upper :: "char \<Rightarrow> bool" where "is_upper = in_range CHR ''A'' CHR ''Z''"
definition is_digit :: "char \<Rightarrow> bool" where "is_digit = in_range CHR ''0'' CHR ''9''"

definition is_alnum :: "char \<Rightarrow> bool" where
  "is_alnum c = (is_lower c \<or> is_upper c \<or> is_digit c)"

definition namePattern :: "string \<Rightarrow> bool" where
  "namePattern s = (case s of [] \<Rightarrow> False
     | c # cs \<Rightarrow> is_alnum c \<and> list_all (\<lambda>x. is_alnum x \<or> x = CHR ''_'' \<or> x = CHR ''-'') cs)"

definition keyPattern :: "string \<Rightarrow> bool" where
  "keyPattern s = (case s of [] \<Rightarrow> False
     | c # cs \<Rightarrow> (is_lower c \<or> is_upper c \<or> c = CHR ''_'')
         \<and> list_all (\<lambda>x. is_alnum x \<or> x = CHR ''_'') cs)"

text \<open>\<open>slug_go started s\<close>: the rest of a slug; \<open>started\<close> says the current group is not empty.\<close>

fun slug_go :: "bool \<Rightarrow> string \<Rightarrow> bool" where
  "slug_go started [] = started"
| "slug_go started (c # cs) =
     (if is_lower c \<or> is_digit c then slug_go True cs
      else if c = CHR ''-'' \<and> started then slug_go False cs
      else False)"

definition slugPattern :: "string \<Rightarrow> bool" where
  "slugPattern s = slug_go False s"

lemmas pattern_defs = in_range_def is_lower_def is_upper_def is_digit_def is_alnum_def

end
