(* ===== verification/Tenancy_Store.thy ===== *)
theory Tenancy_Store
  imports Store
begin

text \<open>
  Tenancy's aggregates (\<^verbatim>\<open>internal/tenancy/domain\<close>) and their repositories
  (\<^verbatim>\<open>internal/tenancy/adapters/postgres\<close>): organizations, memberships, projects and teams, with the
  unique and foreign key constraints of \<^verbatim>\<open>migrations/\<close> on every insert and delete, and the methods
  of Identity's \<open>UserRepository\<close> that Tenancy calls. The purge of a whole organization is not
  here (it needs the Fleet tables).
\<close>

section \<open>Domain\<close>

definition OrganizationStatusActive :: string where "OrganizationStatusActive = ''active''"
definition OrganizationStatusArchived :: string where "OrganizationStatusArchived = ''archived''"

definition NewOrganization :: "id \<Rightarrow> time \<Rightarrow> string \<Rightarrow> string \<Rightarrow> err + Organization" where
  "NewOrganization uuid now name slug =
     (if name = [] then Inl (ValidationError ''name is required'')
      else if \<not> slugPattern slug then
        Inl (ValidationError (''slug '' @ goQuote slug @ '' must be lowercase alphanumeric with hyphens''))
      else Inr \<lparr>org_ID = uuid, org_Name = name, org_Slug = slug, org_Settings = [], org_Quota = [],
        org_Status = OrganizationStatusActive, org_ArchivedAt = None, org_CreatedAt = now\<rparr>)"

definition Organization_Archive :: "time \<Rightarrow> Organization \<Rightarrow> err + Organization" where
  "Organization_Archive now og =
     (if org_Status og = OrganizationStatusArchived then Inl ErrOrganizationAlreadyArchived
      else Inr (og\<lparr>org_Status := OrganizationStatusArchived, org_ArchivedAt := Some now\<rparr>))"

definition NewOrganizationMembership :: "id \<Rightarrow> time \<Rightarrow> id \<Rightarrow> id \<Rightarrow> OrganizationMembership" where
  "NewOrganizationMembership uuid now organizationID userID =
     \<lparr>mem_ID = uuid, mem_OrganizationID = organizationID, mem_UserID = userID,
      mem_JoinedAt = now, mem_BlockedAt = None\<rparr>"

definition NewProject :: "id \<Rightarrow> time \<Rightarrow> id \<Rightarrow> string \<Rightarrow> string \<Rightarrow> string \<Rightarrow> err + Project" where
  "NewProject uuid now organizationID name slug description =
     (if organizationID = [] then Inl (ValidationError ''organization_id is required'')
      else if name = [] then Inl (ValidationError ''name is required'')
      else if \<not> slugPattern slug then
        Inl (ValidationError (''slug '' @ goQuote slug @ '' must be lowercase alphanumeric with hyphens''))
      else Inr \<lparr>prj_ID = uuid, prj_OrganizationID = organizationID, prj_Name = name,
        prj_Slug = slug, prj_Description = description, prj_CreatedAt = now\<rparr>)"

definition NewTeam :: "id \<Rightarrow> time \<Rightarrow> id \<Rightarrow> string \<Rightarrow> err + Team" where
  "NewTeam uuid now organizationID name =
     (if organizationID = [] then Inl (ValidationError ''organization_id is required'')
      else if name = [] then Inl (ValidationError ''name is required'')
      else Inr \<lparr>team_ID = uuid, team_OrganizationID = organizationID, team_Name = name,
        team_CreatedAt = now\<rparr>)"

definition NewTeamMembership :: "id \<Rightarrow> time \<Rightarrow> id \<Rightarrow> id \<Rightarrow> id \<Rightarrow> TeamMembership" where
  "NewTeamMembership uuid now teamID organizationID userID =
     \<lparr>tm_ID = uuid, tm_TeamID = teamID, tm_OrganizationID = organizationID, tm_UserID = userID,
      tm_JoinedAt = now\<rparr>"

section \<open>The outbox\<close>

text \<open>\<^verbatim>\<open>outbox.Write\<close>: an insert in the caller's own transaction.\<close>

definition outbox_Write :: "id \<Rightarrow> time \<Rightarrow> id \<Rightarrow> string \<Rightarrow> payload \<Rightarrow> db \<Rightarrow> err + db" where
  "outbox_Write uuid now organizationID eventType payload d =
     (if \<not> list_ex (\<lambda>og. org_ID og = organizationID) (organizations d) then Inl ErrForeignKeyViolation
      else if list_ex (\<lambda>e. ev_ID e = uuid) (outbox_events d) then Inl ErrUniqueViolation
      else Inr (d\<lparr>outbox_events := outbox_events d @
        [\<lparr>ev_ID = uuid, ev_OrganizationID = organizationID, ev_EventType = eventType,
          ev_Payload = payload, ev_OccurredAt = now, ev_PublishedAt = None\<rparr>]\<rparr>))"

section \<open>Organizations\<close>

definition OrganizationRepository_Create :: "id \<Rightarrow> Organization \<Rightarrow> id \<Rightarrow> unit io" where
  "OrganizationRepository_Create uuid og createdByUserID = tx (\<lambda>now d.
     if list_ex (\<lambda>x. org_ID x = org_ID og \<or> org_Slug x = org_Slug og) (organizations d)
     then Inl ErrOrganizationSlugTaken
     else case outbox_Write uuid now (org_ID og) ''OrganizationCreated''
            [(''actor'', createdByUserID), (''target_type'', ''organization''), (''target_id'', org_ID og),
             (''name'', org_Name og), (''slug'', org_Slug og)]
            (d\<lparr>organizations := organizations d @ [og\<lparr>org_ArchivedAt := None\<rparr>]\<rparr>) of
       Inl e \<Rightarrow> Inl e | Inr d' \<Rightarrow> Inr ((), d'))"

definition OrganizationRepository_GetByID :: "id \<Rightarrow> Organization io" where
  "OrganizationRepository_GetByID i =
     query (\<lambda>d. oneRow ErrOrganizationNotFound (\<lambda>og. org_ID og = i) (organizations d))"

definition OrganizationRepository_Archive :: "id \<Rightarrow> Organization \<Rightarrow> id \<Rightarrow> unit io" where
  "OrganizationRepository_Archive uuid og archivedByUserID = tx (\<lambda>now d.
     case outbox_Write uuid now (org_ID og) ''OrganizationArchived''
            [(''actor'', archivedByUserID), (''target_type'', ''organization''), (''target_id'', org_ID og)]
            (d\<lparr>organizations := upd (\<lambda>x. org_ID x = org_ID og)
                (\<lambda>x. x\<lparr>org_Status := org_Status og, org_ArchivedAt := org_ArchivedAt og\<rparr>) (organizations d)\<rparr>) of
       Inl e \<Rightarrow> Inl e | Inr d' \<Rightarrow> Inr ((), d'))"

definition IsArchived :: "id \<Rightarrow> bool io" where
  "IsArchived organizationID = query (\<lambda>d.
     case oneRow ErrOrganizationNotFound (\<lambda>og. org_ID og = organizationID) (organizations d) of
       Inl e \<Rightarrow> Inl e | Inr og \<Rightarrow> Inr (org_Status og = OrganizationStatusArchived))"

definition FindOrganizationsPastPurgeWindow :: "time \<Rightarrow> id list io" where
  "FindOrganizationsPastPurgeWindow archivedBefore = query (\<lambda>d.
     let evs = filter (\<lambda>e. ev_EventType e = ''OrganizationArchived'' \<and> ev_OccurredAt e < archivedBefore)
                 (outbox_events d);
         ids = map (\<lambda>e. map_of (ev_Payload e) ''target_id'') evs
     in if list_ex (\<lambda>i. i = None) ids then Inl ErrDB else Inr (map the ids))"

definition CountOrganizations :: "nat io" where
  "CountOrganizations = query (\<lambda>d. Inr (length (organizations d)))"

definition ListOrganizationsForUser :: "id \<Rightarrow> Organization list io" where
  "ListOrganizationsForUser userID = query (\<lambda>d.
     Inr (sort_key org_CreatedAt (concat (map (\<lambda>og. map (\<lambda>_. og)
       (filter (\<lambda>m. mem_OrganizationID m = org_ID og \<and> mem_UserID m = userID)
         (organization_memberships d))) (organizations d)))))"

section \<open>Memberships\<close>

definition MembershipRepository_Create :: "OrganizationMembership \<Rightarrow> unit io" where
  "MembershipRepository_Create m = tx (\<lambda>_ d.
     if \<not> list_ex (\<lambda>og. org_ID og = mem_OrganizationID m) (organizations d)
        \<or> \<not> list_ex (\<lambda>u. usr_ID u = mem_UserID m) (users d) then Inl ErrForeignKeyViolation
     else if list_ex (\<lambda>x. mem_ID x = mem_ID m \<or>
          mem_OrganizationID x = mem_OrganizationID m \<and> mem_UserID x = mem_UserID m)
          (organization_memberships d) then Inl ErrUniqueViolation
     else Inr ((), d\<lparr>organization_memberships :=
            organization_memberships d @ [m\<lparr>mem_BlockedAt := None\<rparr>]\<rparr>))"

definition is_member :: "db \<Rightarrow> id \<Rightarrow> id \<Rightarrow> bool" where
  "is_member d organizationID subjectID =
     (list_ex (\<lambda>m. mem_OrganizationID m = organizationID \<and> mem_UserID m = subjectID
          \<and> mem_BlockedAt m = None) (organization_memberships d)
      \<or> list_ex (\<lambda>s. sa_OrganizationID s = organizationID \<and> sa_ID s = subjectID) (service_accounts d))"

definition IsMember :: "id \<Rightarrow> id \<Rightarrow> bool io" where
  "IsMember organizationID subjectID = query (\<lambda>d. Inr (is_member d organizationID subjectID))"

definition MembershipExists :: "id \<Rightarrow> id \<Rightarrow> bool io" where
  "MembershipExists organizationID userID = query (\<lambda>d.
     Inr (list_ex (\<lambda>m. mem_OrganizationID m = organizationID \<and> mem_UserID m = userID)
       (organization_memberships d)))"

definition SetBlocked :: "id \<Rightarrow> id \<Rightarrow> bool \<Rightarrow> unit io" where
  "SetBlocked organizationID userID blocked = tx (\<lambda>now d.
     Inr ((), d\<lparr>organization_memberships :=
       upd (\<lambda>m. mem_OrganizationID m = organizationID \<and> mem_UserID m = userID)
         (\<lambda>m. m\<lparr>mem_BlockedAt := (if blocked then Some now else None)\<rparr>) (organization_memberships d)\<rparr>))"

definition MembershipRepository_Delete :: "id \<Rightarrow> id \<Rightarrow> unit io" where
  "MembershipRepository_Delete organizationID userID = tx (\<lambda>_ d.
     Inr ((), d\<lparr>organization_memberships :=
       del (\<lambda>m. mem_OrganizationID m = organizationID \<and> mem_UserID m = userID)
         (organization_memberships d)\<rparr>))"

definition MembershipRepository_ListByOrganization :: "id \<Rightarrow> OrganizationMembership list io" where
  "MembershipRepository_ListByOrganization organizationID = query (\<lambda>d.
     Inr (sort_key mem_JoinedAt (filter (\<lambda>m. mem_OrganizationID m = organizationID)
       (organization_memberships d))))"

section \<open>Projects\<close>

definition ProjectRepository_Create :: "Project \<Rightarrow> unit io" where
  "ProjectRepository_Create p = tx (\<lambda>_ d.
     if \<not> list_ex (\<lambda>og. org_ID og = prj_OrganizationID p) (organizations d) then Inl ErrForeignKeyViolation
     else if list_ex (\<lambda>x. prj_ID x = prj_ID p \<or>
          prj_OrganizationID x = prj_OrganizationID p \<and> prj_Slug x = prj_Slug p) (projects d)
     then Inl ErrProjectAlreadyExists
     else Inr ((), d\<lparr>projects := projects d @ [p]\<rparr>))"

definition ProjectRepository_GetByID :: "id \<Rightarrow> id \<Rightarrow> Project io" where
  "ProjectRepository_GetByID organizationID i = query (\<lambda>d.
     oneRow ErrProjectNotFound (\<lambda>p. prj_OrganizationID p = organizationID \<and> prj_ID p = i) (projects d))"

definition project_exists :: "db \<Rightarrow> id \<Rightarrow> id \<Rightarrow> bool" where
  "project_exists d organizationID projectID =
     list_ex (\<lambda>p. prj_OrganizationID p = organizationID \<and> prj_ID p = projectID) (projects d)"

definition ProjectExists :: "id \<Rightarrow> id \<Rightarrow> bool io" where
  "ProjectExists organizationID projectID =
     query (\<lambda>d. Inr (project_exists d organizationID projectID))"

definition ProjectRepository_ListByOrganization :: "id \<Rightarrow> Project list io" where
  "ProjectRepository_ListByOrganization organizationID = query (\<lambda>d.
     Inr (sort_key prj_CreatedAt (filter (\<lambda>p. prj_OrganizationID p = organizationID) (projects d))))"

text \<open>
  \<^verbatim>\<open>ProjectRepository.Purge\<close>. Row level security narrows every statement to the rows of the
  organization; the inner selects see only its rows too. Deleting a row that is still
  referenced fails and rolls everything back; links of Compose files go with the project.
\<close>

definition workspaces_of_project :: "db \<Rightarrow> id \<Rightarrow> id \<Rightarrow> id list" where
  "workspaces_of_project d organizationID projectID =
     map ws_ID (filter (\<lambda>x. ws_OrganizationID x = organizationID \<and> ws_ProjectID x = projectID)
       (workspaces d))"

definition environments_of_project :: "db \<Rightarrow> id \<Rightarrow> id \<Rightarrow> id list" where
  "environments_of_project d organizationID projectID =
     map env_ID (filter (\<lambda>x. env_OrganizationID x = organizationID \<and> env_ProjectID x = projectID)
       (environments d))"

definition ProjectRepository_Purge_body :: "id \<Rightarrow> id \<Rightarrow> db \<Rightarrow> err + db" where
  "ProjectRepository_Purge_body organizationID projectID d =
    (let wsids = workspaces_of_project d organizationID projectID;
         envids = environments_of_project d organizationID projectID;
         d1 = d\<lparr>runs := del (\<lambda>r. run_OrganizationID r = organizationID \<and> run_WorkspaceID r \<in> set wsids) (runs d)\<rparr>;
         d2 = d1\<lparr>variables := del (\<lambda>v. vr_OrganizationID v = organizationID \<and>
                (vr_ScopeType v = ''project'' \<and> vr_ScopeID v = projectID \<or>
                 vr_ScopeType v = ''environment'' \<and> vr_ScopeID v \<in> set envids \<or>
                 vr_ScopeType v = ''workspace'' \<and> vr_ScopeID v \<in> set wsids)) (variables d1)\<rparr>;
         d3 = d2\<lparr>role_bindings := del (\<lambda>b. rb_OrganizationID b = organizationID \<and>
                (rb_ScopeType b = ''project'' \<and> rb_ScopeID b = projectID \<or>
                 rb_ScopeType b = ''workspace'' \<and> rb_ScopeID b \<in> set wsids)) (role_bindings d2)\<rparr>;
         d4 = d3\<lparr>compose_file_projects := del (\<lambda>c. cfp_OrganizationID c = organizationID \<and>
                cfp_ProjectID c = projectID) (compose_file_projects d3)\<rparr>
     in if list_ex (\<lambda>r. run_WorkspaceID r \<in> set wsids) (runs d4) then Inl ErrForeignKeyViolation
        else
     let d5 = d4\<lparr>workspaces := del (\<lambda>x. ws_OrganizationID x = organizationID \<and> ws_ProjectID x = projectID)
                (workspaces d4)\<rparr>;
         d6 = d5\<lparr>environments := del (\<lambda>x. env_OrganizationID x = organizationID \<and> env_ProjectID x = projectID)
                (environments d5)\<rparr>
     in if list_ex (\<lambda>p. prj_OrganizationID p = organizationID \<and> prj_ID p = projectID) (projects d6)
           \<and> (list_ex (\<lambda>x. ws_ProjectID x = projectID) (workspaces d6)
              \<or> list_ex (\<lambda>x. env_ProjectID x = projectID) (environments d6))
        then Inl ErrForeignKeyViolation
        else Inr (d6\<lparr>projects := del (\<lambda>p. prj_OrganizationID p = organizationID \<and> prj_ID p = projectID)
                (projects d6)\<rparr>))"

definition ProjectRepository_Purge :: "id \<Rightarrow> id \<Rightarrow> unit io" where
  "ProjectRepository_Purge organizationID projectID = tx (\<lambda>_ d.
     case ProjectRepository_Purge_body organizationID projectID d of
       Inl e \<Rightarrow> Inl e | Inr d' \<Rightarrow> Inr ((), d'))"

section \<open>Teams\<close>

definition TeamRepository_Create :: "Team \<Rightarrow> unit io" where
  "TeamRepository_Create t = tx (\<lambda>_ d.
     if \<not> list_ex (\<lambda>og. org_ID og = team_OrganizationID t) (organizations d) then Inl ErrForeignKeyViolation
     else if list_ex (\<lambda>x. team_ID x = team_ID t \<or>
          team_OrganizationID x = team_OrganizationID t \<and> team_Name x = team_Name t) (teams d)
     then Inl ErrTeamAlreadyExists
     else Inr ((), d\<lparr>teams := teams d @ [t]\<rparr>))"

definition TeamRepository_Update :: "Team \<Rightarrow> unit io" where
  "TeamRepository_Update t = tx (\<lambda>_ d.
     if list_ex (\<lambda>x. team_ID x = team_ID t \<and> team_OrganizationID x = team_OrganizationID t) (teams d)
        \<and> list_ex (\<lambda>x. team_ID x \<noteq> team_ID t \<and> team_OrganizationID x = team_OrganizationID t
             \<and> team_Name x = team_Name t) (teams d)
     then Inl ErrTeamAlreadyExists
     else Inr ((), d\<lparr>teams := upd (\<lambda>x. team_ID x = team_ID t \<and> team_OrganizationID x = team_OrganizationID t)
            (\<lambda>x. x\<lparr>team_Name := team_Name t\<rparr>) (teams d)\<rparr>))"

definition TeamRepository_Delete :: "id \<Rightarrow> id \<Rightarrow> unit io" where
  "TeamRepository_Delete organizationID teamID = tx (\<lambda>_ d.
     let d1 = d\<lparr>team_memberships := del (\<lambda>m. tm_TeamID m = teamID \<and> tm_OrganizationID m = organizationID)
                (team_memberships d)\<rparr>
     in if list_ex (\<lambda>t. team_ID t = teamID \<and> team_OrganizationID t = organizationID) (teams d1)
           \<and> list_ex (\<lambda>m. tm_TeamID m = teamID) (team_memberships d1) then Inl ErrForeignKeyViolation
        else Inr ((), d1\<lparr>teams := del (\<lambda>t. team_ID t = teamID \<and> team_OrganizationID t = organizationID)
               (teams d1)\<rparr>))"

definition team_exists :: "db \<Rightarrow> id \<Rightarrow> id \<Rightarrow> bool" where
  "team_exists d organizationID teamID =
     list_ex (\<lambda>t. team_ID t = teamID \<and> team_OrganizationID t = organizationID) (teams d)"

definition TeamExists :: "id \<Rightarrow> id \<Rightarrow> bool io" where
  "TeamExists organizationID teamID = query (\<lambda>d. Inr (team_exists d organizationID teamID))"

definition TeamRepository_AddMember :: "TeamMembership \<Rightarrow> unit io" where
  "TeamRepository_AddMember m = tx (\<lambda>_ d.
     if \<not> list_ex (\<lambda>t. team_ID t = tm_TeamID m) (teams d)
        \<or> \<not> list_ex (\<lambda>og. org_ID og = tm_OrganizationID m) (organizations d)
        \<or> \<not> list_ex (\<lambda>u. usr_ID u = tm_UserID m) (users d) then Inl ErrForeignKeyViolation
     else if list_ex (\<lambda>x. tm_TeamID x = tm_TeamID m \<and> tm_UserID x = tm_UserID m) (team_memberships d)
     then Inr ((), d)
     else if list_ex (\<lambda>x. tm_ID x = tm_ID m) (team_memberships d) then Inl ErrUniqueViolation
     else Inr ((), d\<lparr>team_memberships := team_memberships d @ [m]\<rparr>))"

text \<open>The statement names no organization: row level security keeps it to the current one.\<close>

definition TeamRepository_RemoveMember :: "id \<Rightarrow> id \<Rightarrow> id \<Rightarrow> unit io" where
  "TeamRepository_RemoveMember organizationID teamID userID = tx (\<lambda>_ d.
     Inr ((), d\<lparr>team_memberships := del (\<lambda>m. tm_OrganizationID m = organizationID
            \<and> tm_TeamID m = teamID \<and> tm_UserID m = userID) (team_memberships d)\<rparr>))"

definition TeamRepository_ListMembers :: "id \<Rightarrow> id \<Rightarrow> TeamMembership list io" where
  "TeamRepository_ListMembers organizationID teamID = query (\<lambda>d.
     Inr (sort_key tm_JoinedAt (filter (\<lambda>m. tm_TeamID m = teamID \<and> tm_OrganizationID m = organizationID)
       (team_memberships d))))"

definition TeamRepository_GetByID :: "id \<Rightarrow> id \<Rightarrow> Team io" where
  "TeamRepository_GetByID organizationID teamID = query (\<lambda>d.
     oneRow ErrTeamNotFound (\<lambda>t. team_ID t = teamID \<and> team_OrganizationID t = organizationID) (teams d))"

definition TeamRepository_ListByOrganization :: "id \<Rightarrow> Team list io" where
  "TeamRepository_ListByOrganization organizationID = query (\<lambda>d.
     Inr (sort_key team_CreatedAt (filter (\<lambda>t. team_OrganizationID t = organizationID) (teams d))))"

section \<open>The users Tenancy reads\<close>

definition UserRepository_GetUser :: "id \<Rightarrow> (string \<times> string) option io" where
  "UserRepository_GetUser userID = query (\<lambda>d.
     Inr (map_option (\<lambda>u. (usr_Username u, usr_Email u))
       (List.find (\<lambda>u. usr_ID u = userID) (users d))))"

definition UserRepository_ListAll :: "(id \<times> string \<times> string) list io" where
  "UserRepository_ListAll = query (\<lambda>d.
     Inr (map (\<lambda>u. (usr_ID u, usr_Username u, usr_Email u)) (sort_key usr_Username (users d))))"

definition IsPlatformAdmin :: "id \<Rightarrow> bool io" where
  "IsPlatformAdmin userID = query (\<lambda>d.
     case oneRow ErrUserNotFound (\<lambda>u. usr_ID u = userID) (users d) of
       Inl e \<Rightarrow> Inl e | Inr u \<Rightarrow> Inr (usr_IsPlatformAdmin u))"

definition SetPlatformAdmin :: "id \<Rightarrow> bool \<Rightarrow> unit io" where
  "SetPlatformAdmin userID isAdmin = tx (\<lambda>_ d.
     Inr ((), d\<lparr>users := upd (\<lambda>u. usr_ID u = userID) (\<lambda>u. u\<lparr>usr_IsPlatformAdmin := isAdmin\<rparr>) (users d)\<rparr>))"

definition ServiceAccountExists :: "id \<Rightarrow> id \<Rightarrow> bool io" where
  "ServiceAccountExists organizationID serviceAccountID = query (\<lambda>d.
     Inr (list_ex (\<lambda>s. sa_OrganizationID s = organizationID \<and> sa_ID s = serviceAccountID)
       (service_accounts d)))"

lemmas tenancy_store_defs =
  OrganizationRepository_Create_def OrganizationRepository_GetByID_def OrganizationRepository_Archive_def
  IsArchived_def FindOrganizationsPastPurgeWindow_def CountOrganizations_def ListOrganizationsForUser_def
  MembershipRepository_Create_def IsMember_def MembershipExists_def SetBlocked_def
  MembershipRepository_Delete_def MembershipRepository_ListByOrganization_def
  ProjectRepository_Create_def ProjectRepository_GetByID_def ProjectExists_def
  ProjectRepository_ListByOrganization_def ProjectRepository_Purge_def
  TeamRepository_Create_def TeamRepository_Update_def TeamRepository_Delete_def TeamExists_def
  TeamRepository_AddMember_def TeamRepository_RemoveMember_def TeamRepository_ListMembers_def
  TeamRepository_GetByID_def TeamRepository_ListByOrganization_def
  UserRepository_GetUser_def UserRepository_ListAll_def IsPlatformAdmin_def SetPlatformAdmin_def ServiceAccountExists_def

end
