(* ===== verification/Rbac_Store.thy ===== *)
theory Rbac_Store
  imports Tenancy_Store
begin

text \<open>
  RBAC's aggregates (\<^verbatim>\<open>internal/rbac/domain\<close>) and repositories (\<^verbatim>\<open>internal/rbac/adapters/postgres\<close>):
  the permission enum, the built-in roles, role bindings, and the evaluation of a permission.
  A request carries the scopes of its API key (\<^verbatim>\<open>principal.WithScopes\<close>) as the argument \<open>ctx\<close>;
  the empty list is a request without that restriction.

  The locale \<open>iam_evaluation\<close> states what the two evaluation queries promise (some matching
  binding allows, none denies) and derives the consequences once; it is interpreted on
  \<open>has_permission_at_scope\<close> and on \<open>has_scoped_permission\<close>.
\<close>

section \<open>Domain\<close>

definition AllPermissions :: "string list" where
  "AllPermissions =
    [''organization:read'', ''organization:manage'', ''organization:delete'',
     ''project:read'', ''project:manage'', ''project:delete'',
     ''workspace:read'', ''workspace:manage'', ''workspace:apply'', ''workspace:delete'',
     ''machine:read'', ''machine:manage'', ''machine:delete'',
     ''network_volume:read'', ''network_volume:manage'', ''network_volume:delete'',
     ''compose_file:read'', ''compose_file:manage'', ''compose_file:delete'',
     ''operation:read'', ''operation:deploy'']"

definition RoleOwner :: string where "RoleOwner = ''owner''"
definition RoleAdmin :: string where "RoleAdmin = ''admin''"
definition RoleWrite :: string where "RoleWrite = ''write''"
definition RoleRead :: string where "RoleRead = ''read''"

definition BuiltinRoles :: "(string \<times> string list) list" where
  "BuiltinRoles =
    [(RoleOwner,
      [''organization:read'', ''organization:manage'', ''organization:delete'',
       ''project:read'', ''project:manage'', ''project:delete'',
       ''workspace:read'', ''workspace:manage'', ''workspace:apply'', ''workspace:delete'',
       ''machine:read'', ''machine:manage'', ''machine:delete'',
       ''network_volume:read'', ''network_volume:manage'', ''network_volume:delete'',
       ''compose_file:read'', ''compose_file:manage'', ''compose_file:delete'',
       ''operation:read'', ''operation:deploy'']),
     (RoleAdmin,
      [''organization:read'', ''organization:manage'',
       ''project:read'', ''project:manage'',
       ''workspace:read'', ''workspace:manage'', ''workspace:apply'',
       ''machine:read'', ''machine:manage'',
       ''network_volume:read'', ''network_volume:manage'',
       ''compose_file:read'', ''compose_file:manage'',
       ''operation:read'', ''operation:deploy'']),
     (RoleWrite,
      [''organization:read'',
       ''project:read'',
       ''workspace:read'', ''workspace:manage'', ''workspace:apply'',
       ''machine:read'', ''machine:manage'',
       ''network_volume:read'', ''network_volume:manage'',
       ''compose_file:read'', ''compose_file:manage'',
       ''operation:read'', ''operation:deploy'']),
     (RoleRead,
      [''organization:read'', ''project:read'', ''workspace:read'', ''machine:read'',
       ''network_volume:read'', ''compose_file:read'', ''operation:read''])]"

definition NewRole :: "id \<Rightarrow> id \<Rightarrow> string \<Rightarrow> string list \<Rightarrow> err + Role" where
  "NewRole uuid organizationID name permissions =
     (if organizationID = [] then Inl (ValidationError ''organization_id is required'')
      else if name = [] then Inl (ValidationError ''name is required'')
      else if permissions = [] then Inl (ValidationError ''permissions must not be empty'')
      else Inr \<lparr>role_ID = uuid, role_OrganizationID = Some organizationID, role_Name = name,
             role_Permissions = permissions\<rparr>)"

definition SubjectTypeUser :: string where "SubjectTypeUser = ''user''"
definition SubjectTypeTeam :: string where "SubjectTypeTeam = ''team''"
definition SubjectTypeServiceAccount :: string where "SubjectTypeServiceAccount = ''service_account''"
definition ScopeTypeOrganization :: string where "ScopeTypeOrganization = ''organization''"
definition ScopeTypeProject :: string where "ScopeTypeProject = ''project''"
definition ScopeTypeWorkspace :: string where "ScopeTypeWorkspace = ''workspace''"
definition EffectAllow :: string where "EffectAllow = ''allow''"
definition EffectDeny :: string where "EffectDeny = ''deny''"

definition ValidSubjectTypes :: "string list" where
  "ValidSubjectTypes = [SubjectTypeUser, SubjectTypeTeam, SubjectTypeServiceAccount]"
definition ValidScopeTypes :: "string list" where
  "ValidScopeTypes = [ScopeTypeOrganization, ScopeTypeProject, ScopeTypeWorkspace]"
definition ValidEffects :: "string list" where
  "ValidEffects = [EffectAllow, EffectDeny]"

lemmas rbac_consts = SubjectTypeUser_def SubjectTypeTeam_def SubjectTypeServiceAccount_def
  ScopeTypeOrganization_def ScopeTypeProject_def ScopeTypeWorkspace_def EffectAllow_def EffectDeny_def
  RoleOwner_def RoleAdmin_def RoleWrite_def RoleRead_def

definition NewRoleBinding ::
  "id \<Rightarrow> time \<Rightarrow> id \<Rightarrow> id \<Rightarrow> string \<Rightarrow> id \<Rightarrow> string \<Rightarrow> id \<Rightarrow> string \<Rightarrow> RoleBinding" where
  "NewRoleBinding uuid now organizationID roleID subjectType subjectID scopeType scopeID effect =
     \<lparr>rb_ID = uuid, rb_OrganizationID = organizationID, rb_RoleID = roleID,
      rb_SubjectType = subjectType, rb_SubjectID = subjectID, rb_ScopeType = scopeType,
      rb_ScopeID = scopeID, rb_Effect = effect, rb_CreatedAt = now\<rparr>"

definition NewOrganizationScopeBinding :: "id \<Rightarrow> time \<Rightarrow> id \<Rightarrow> id \<Rightarrow> id \<Rightarrow> RoleBinding" where
  "NewOrganizationScopeBinding uuid now organizationID roleID userID =
     \<lparr>rb_ID = uuid, rb_OrganizationID = organizationID, rb_RoleID = roleID,
      rb_SubjectType = SubjectTypeUser, rb_SubjectID = userID, rb_ScopeType = ScopeTypeOrganization,
      rb_ScopeID = organizationID, rb_Effect = EffectAllow, rb_CreatedAt = now\<rparr>"

text \<open>\<^verbatim>\<open>principal.ScopesFromContext\<close>.\<close>

definition ScopesFromContext :: "string list \<Rightarrow> string list \<times> bool" where
  "ScopesFromContext ctx = (ctx, length ctx > 0)"

section \<open>Roles\<close>

text \<open>The rows of \<^verbatim>\<open>roles\<close> that the row level security policy shows to an organization.\<close>

definition role_visible :: "id \<Rightarrow> Role \<Rightarrow> bool" where
  "role_visible organizationID r =
     (role_OrganizationID r = None \<or> role_OrganizationID r = Some organizationID)"

text \<open>
  \<open>order\<close> is the order in which the range over the Go map visits the entries of \<open>BuiltinRoles\<close>;
  \<open>u name\<close> is the id the database generates if it inserts the row. One statement is one
  transaction: there is none around the loop.
\<close>

definition SeedBuiltinRole :: "id \<Rightarrow> string \<Rightarrow> string list \<Rightarrow> unit io" where
  "SeedBuiltinRole uuid name permissions = tx (\<lambda>_ d.
     if list_ex (\<lambda>r. role_Name r = name \<and> role_OrganizationID r = None) (roles d)
     then Inr ((), d\<lparr>roles := upd (\<lambda>r. role_Name r = name \<and> role_OrganizationID r = None)
                       (\<lambda>r. r\<lparr>role_Permissions := permissions\<rparr>) (roles d)\<rparr>)
     else if list_ex (\<lambda>r. role_ID r = uuid) (roles d) then Inl ErrUniqueViolation
     else Inr ((), d\<lparr>roles := roles d @ [\<lparr>role_ID = uuid, role_OrganizationID = None,
                       role_Name = name, role_Permissions = permissions\<rparr>]\<rparr>))"

definition SeedBuiltinRoles :: "(string \<times> string list) list \<Rightarrow> (string \<Rightarrow> id) \<Rightarrow> unit io" where
  "SeedBuiltinRoles order u = forE order (\<lambda>(name, permissions). SeedBuiltinRole (u name) name permissions)"

definition RoleRepository_Create :: "Role \<Rightarrow> unit io" where
  "RoleRepository_Create role = (case role_OrganizationID role of
       None \<Rightarrow> throwE (ValidationError ''custom roles must have an organization_id'')
     | Some organizationID \<Rightarrow> tx (\<lambda>_ d.
         if \<not> list_ex (\<lambda>og. org_ID og = organizationID) (organizations d) then Inl ErrForeignKeyViolation
         else if list_ex (\<lambda>r. role_ID r = role_ID role \<or>
              role_OrganizationID r = Some organizationID \<and> role_Name r = role_Name role) (roles d)
         then Inl ErrRoleAlreadyExists
         else Inr ((), d\<lparr>roles := roles d @ [role]\<rparr>)))"

definition RoleRepository_Update :: "Role \<Rightarrow> unit io" where
  "RoleRepository_Update role = (case role_OrganizationID role of
       None \<Rightarrow> throwE (ValidationError ''built-in roles cannot be updated'')
     | Some organizationID \<Rightarrow> tx (\<lambda>_ d.
         Inr ((), d\<lparr>roles := upd (\<lambda>r. role_ID r = role_ID role \<and> role_OrganizationID r = Some organizationID)
                       (\<lambda>r. r\<lparr>role_Permissions := role_Permissions role\<rparr>) (roles d)\<rparr>)))"

text \<open>
  \<^verbatim>\<open>ORDER BY organization_id NULLS FIRST, name\<close>: the rows visible to one organization carry at
  most that one id, so the built-in roles come first, then the custom ones, each by name.
\<close>

definition sort_roles :: "Role list \<Rightarrow> Role list" where
  "sort_roles rs = sort_key role_Name (filter (\<lambda>r. role_OrganizationID r = None) rs)
     @ sort_key role_Name (filter (\<lambda>r. role_OrganizationID r \<noteq> None) rs)"

definition ListForOrganization :: "id \<Rightarrow> Role list io" where
  "ListForOrganization organizationID = query (\<lambda>d.
     Inr (sort_roles (filter (role_visible organizationID) (roles d))))"

definition RoleRepository_GetByID :: "id \<Rightarrow> id \<Rightarrow> Role io" where
  "RoleRepository_GetByID organizationID roleID = query (\<lambda>d.
     oneRow ErrRoleNotFound (\<lambda>r. role_visible organizationID r \<and> role_ID r = roleID) (roles d))"

section \<open>Role bindings\<close>

definition same_grant :: "RoleBinding \<Rightarrow> RoleBinding \<Rightarrow> bool" where
  "same_grant b c = (rb_RoleID b = rb_RoleID c \<and> rb_SubjectType b = rb_SubjectType c
     \<and> rb_SubjectID b = rb_SubjectID c \<and> rb_ScopeType b = rb_ScopeType c \<and> rb_ScopeID b = rb_ScopeID c)"

text \<open>\<^verbatim>\<open>INSERT INTO role_bindings\<close> under the table's checks, references and unique key.\<close>

definition insert_role_binding :: "RoleBinding \<Rightarrow> db \<Rightarrow> err + db" where
  "insert_role_binding b d =
     (if rb_SubjectType b \<notin> {''user'', ''team'', ''service_account''}
         \<or> rb_ScopeType b \<notin> {''organization'', ''project'', ''workspace''}
         \<or> rb_Effect b \<notin> {''allow'', ''deny''} then Inl ErrCheckViolation
      else if \<not> list_ex (\<lambda>og. org_ID og = rb_OrganizationID b) (organizations d)
         \<or> \<not> list_ex (\<lambda>r. role_ID r = rb_RoleID b) (roles d) then Inl ErrForeignKeyViolation
      else if list_ex (\<lambda>c. rb_ID c = rb_ID b \<or> same_grant c b) (role_bindings d) then Inl ErrUniqueViolation
      else Inr (d\<lparr>role_bindings := role_bindings d @ [b]\<rparr>))"

definition AssignRole :: "id \<Rightarrow> id \<Rightarrow> id \<Rightarrow> string \<Rightarrow> unit io" where
  "AssignRole uuid organizationID userID roleName = tx (\<lambda>now d.
     case oneRow ErrNoRows (\<lambda>r. role_Name r = roleName \<and> role_OrganizationID r = None) (roles d) of
       Inl e \<Rightarrow> Inl e
     | Inr r \<Rightarrow>
        (case insert_role_binding
                (NewOrganizationScopeBinding uuid now organizationID (role_ID r) userID) d of
           Inl e \<Rightarrow> Inl e | Inr d' \<Rightarrow> Inr ((), d')))"

definition is_org_scope_binding_of :: "id \<Rightarrow> id \<Rightarrow> RoleBinding \<Rightarrow> bool" where
  "is_org_scope_binding_of organizationID userID b =
     (rb_OrganizationID b = organizationID \<and> rb_SubjectType b = ''user'' \<and> rb_SubjectID b = userID
      \<and> rb_ScopeType b = ''organization'' \<and> rb_ScopeID b = organizationID)"

definition ReplaceRole :: "id \<Rightarrow> id \<Rightarrow> id \<Rightarrow> string \<Rightarrow> unit io" where
  "ReplaceRole uuid organizationID userID roleName = tx (\<lambda>now d.
     case oneRow ErrNoRows (\<lambda>r. role_Name r = roleName \<and> role_OrganizationID r = None) (roles d) of
       Inl e \<Rightarrow> Inl e
     | Inr r \<Rightarrow>
        (case insert_role_binding
                (NewOrganizationScopeBinding uuid now organizationID (role_ID r) userID)
                (d\<lparr>role_bindings := del (is_org_scope_binding_of organizationID userID) (role_bindings d)\<rparr>) of
           Inl e \<Rightarrow> Inl e | Inr d' \<Rightarrow> Inr ((), d')))"

definition GetOrgScopeRoleName :: "id \<Rightarrow> id \<Rightarrow> string option io" where
  "GetOrgScopeRoleName organizationID userID = query (\<lambda>d.
     Inr (case [role_Name r. b \<leftarrow> filter (is_org_scope_binding_of organizationID userID) (role_bindings d),
                 r \<leftarrow> filter (\<lambda>r. role_visible organizationID r \<and> role_ID r = rb_RoleID b) (roles d)] of
            [] \<Rightarrow> None | n # _ \<Rightarrow> Some n))"

text \<open>
  The query \<^verbatim>\<open>WITH matches AS ...\<close> of the two evaluation methods; \<open>in_scope\<close> is the part in
  which they differ.
\<close>

definition subject_matches :: "db \<Rightarrow> id \<Rightarrow> id \<Rightarrow> RoleBinding \<Rightarrow> bool" where
  "subject_matches d organizationID subjectID b =
     ((rb_SubjectType b = ''user'' \<or> rb_SubjectType b = ''service_account'') \<and> rb_SubjectID b = subjectID
      \<or> rb_SubjectType b = ''team'' \<and>
        list_ex (\<lambda>m. tm_TeamID m = rb_SubjectID b \<and> tm_UserID m = subjectID
           \<and> tm_OrganizationID m = organizationID) (team_memberships d))"

definition role_grants :: "db \<Rightarrow> id \<Rightarrow> string \<Rightarrow> RoleBinding \<Rightarrow> bool" where
  "role_grants d organizationID permission b =
     list_ex (\<lambda>r. role_visible organizationID r \<and> role_ID r = rb_RoleID b
        \<and> permission \<in> set (role_Permissions r)) (roles d)"

definition matches :: "(RoleBinding \<Rightarrow> bool) \<Rightarrow> db \<Rightarrow> id \<Rightarrow> id \<Rightarrow> string \<Rightarrow> RoleBinding list" where
  "matches in_scope d organizationID subjectID permission =
     filter (\<lambda>b. rb_OrganizationID b = organizationID \<and> subject_matches d organizationID subjectID b
       \<and> in_scope b \<and> role_grants d organizationID permission b) (role_bindings d)"

definition at_scope :: "id \<Rightarrow> id option \<Rightarrow> id option \<Rightarrow> RoleBinding \<Rightarrow> bool" where
  "at_scope organizationID projectID workspaceID b =
     (rb_ScopeType b = ''organization'' \<and> rb_ScopeID b = organizationID
      \<or> rb_ScopeType b = ''project'' \<and> projectID = Some (rb_ScopeID b)
      \<or> rb_ScopeType b = ''workspace'' \<and> workspaceID = Some (rb_ScopeID b))"

definition has_permission_at_scope :: "db \<Rightarrow> id \<Rightarrow> id \<Rightarrow> string \<Rightarrow> id option \<Rightarrow> id option \<Rightarrow> bool" where
  "has_permission_at_scope d organizationID subjectID permission projectID workspaceID =
    (let ms = matches (at_scope organizationID projectID workspaceID) d organizationID subjectID permission
     in list_ex (\<lambda>b. rb_Effect b = ''allow'') ms \<and> \<not> list_ex (\<lambda>b. rb_Effect b = ''deny'') ms)"

definition HasPermissionAtScope ::
  "string list \<Rightarrow> id \<Rightarrow> id \<Rightarrow> string \<Rightarrow> id option \<Rightarrow> id option \<Rightarrow> bool io" where
  "HasPermissionAtScope ctx organizationID subjectID permission projectID workspaceID =
    (let (scopes, ok) = ScopesFromContext ctx
     in if ok \<and> permission \<notin> set scopes then retE False
        else query (\<lambda>d. Inr (has_permission_at_scope d organizationID subjectID permission projectID workspaceID)))"

definition HasPermission :: "string list \<Rightarrow> id \<Rightarrow> id \<Rightarrow> string \<Rightarrow> bool io" where
  "HasPermission ctx organizationID userID permission =
     HasPermissionAtScope ctx organizationID userID permission None None"

definition has_scoped_permission :: "db \<Rightarrow> id \<Rightarrow> id \<Rightarrow> string \<Rightarrow> string \<Rightarrow> id \<Rightarrow> bool" where
  "has_scoped_permission d organizationID subjectID permission scopeType scopeID =
    (let ms = matches (\<lambda>b. rb_ScopeType b = scopeType \<and> rb_ScopeID b = scopeID)
                d organizationID subjectID permission
     in list_ex (\<lambda>b. rb_Effect b = ''allow'') ms \<and> \<not> list_ex (\<lambda>b. rb_Effect b = ''deny'') ms)"

definition HasScopedPermission ::
  "string list \<Rightarrow> id \<Rightarrow> id \<Rightarrow> string \<Rightarrow> string \<Rightarrow> id \<Rightarrow> bool io" where
  "HasScopedPermission ctx organizationID subjectID permission scopeType scopeID =
    (let (scopes, ok) = ScopesFromContext ctx
     in if ok \<and> permission \<notin> set scopes then retE False
        else query (\<lambda>d. Inr (has_scoped_permission d organizationID subjectID permission scopeType scopeID)))"

text \<open>\<^verbatim>\<open>ON CONFLICT (role_id, subject_type, subject_id, scope_type, scope_id) DO NOTHING\<close>.\<close>

definition RoleBindingRepository_Create :: "RoleBinding \<Rightarrow> unit io" where
  "RoleBindingRepository_Create b = tx (\<lambda>_ d.
     case insert_role_binding b d of
       Inr d' \<Rightarrow> Inr ((), d')
     | Inl e \<Rightarrow> if e = ErrUniqueViolation \<and> list_ex (\<lambda>c. same_grant c b) (role_bindings d)
                then Inr ((), d) else Inl e)"

definition RoleBindingRepository_Delete :: "id \<Rightarrow> id \<Rightarrow> unit io" where
  "RoleBindingRepository_Delete organizationID bindingID = tx (\<lambda>_ d.
     Inr ((), d\<lparr>role_bindings := del (\<lambda>b. rb_ID b = bindingID \<and> rb_OrganizationID b = organizationID)
                  (role_bindings d)\<rparr>))"

definition DeleteForSubject :: "id \<Rightarrow> string \<Rightarrow> id \<Rightarrow> unit io" where
  "DeleteForSubject organizationID subjectType subjectID = tx (\<lambda>_ d.
     Inr ((), d\<lparr>role_bindings := del (\<lambda>b. rb_OrganizationID b = organizationID
                  \<and> rb_SubjectType b = subjectType \<and> rb_SubjectID b = subjectID) (role_bindings d)\<rparr>))"

definition ListForSubject :: "id \<Rightarrow> id \<Rightarrow> RoleBinding list io" where
  "ListForSubject organizationID subjectID = query (\<lambda>d.
     Inr (sort_key rb_CreatedAt (filter (\<lambda>b. rb_OrganizationID b = organizationID
       \<and> (subjectID = [] \<or> rb_SubjectID b = subjectID)) (role_bindings d))))"

lemma insert_role_binding_Inr:
  "insert_role_binding b d = Inr d' \<Longrightarrow> d' = d\<lparr>role_bindings := role_bindings d @ [b]\<rparr>"
  by (simp add: insert_role_binding_def split: if_splits)

lemmas rbac_store_defs =
  SeedBuiltinRole_def ListForOrganization_def RoleRepository_GetByID_def AssignRole_def ReplaceRole_def
  GetOrgScopeRoleName_def RoleBindingRepository_Create_def RoleBindingRepository_Delete_def
  DeleteForSubject_def ListForSubject_def

section \<open>The contract of an evaluation\<close>

text \<open>
  \<open>allowed d s\<close> is the answer for a question \<open>s\<close> (who, what, where), and \<open>applies d s b\<close> says that the
  binding \<open>b\<close> is relevant for it. The law is the IAM rule; \<open>applies\<close> may look at everything but
  the table of bindings.
\<close>

locale iam_evaluation =
  fixes allowed :: "db \<Rightarrow> 's \<Rightarrow> bool" and applies :: "db \<Rightarrow> 's \<Rightarrow> RoleBinding \<Rightarrow> bool"
  assumes evaluates: "allowed d s \<longleftrightarrow>
      (\<exists>b \<in> set (role_bindings d). applies d s b \<and> rb_Effect b = ''allow'') \<and>
      (\<forall>b \<in> set (role_bindings d). applies d s b \<longrightarrow> rb_Effect b \<noteq> ''deny'')"
    and applies_bindings: "applies (d\<lparr>role_bindings := bs\<rparr>) s b = applies d s b"
begin

lemma deny_overrides:
  "b \<in> set (role_bindings d) \<Longrightarrow> applies d s b \<Longrightarrow> rb_Effect b = ''deny'' \<Longrightarrow> \<not> allowed d s"
  by (auto simp: evaluates)

lemma default_deny: "(\<And>b. b \<in> set (role_bindings d) \<Longrightarrow> \<not> applies d s b) \<Longrightarrow> \<not> allowed d s"
  by (auto simp: evaluates)

lemma add_deny:
  "applies d s b \<Longrightarrow> rb_Effect b = ''deny''
    \<Longrightarrow> \<not> allowed (d\<lparr>role_bindings := role_bindings d @ [b]\<rparr>) s"
  by (auto simp: evaluates applies_bindings)

lemma add_allow:
  "rb_Effect b = ''allow''
    \<Longrightarrow> allowed (d\<lparr>role_bindings := role_bindings d @ [b]\<rparr>) s \<longleftrightarrow>
        allowed d s \<or> (applies d s b \<and>
          (\<forall>c \<in> set (role_bindings d). applies d s c \<longrightarrow> rb_Effect c \<noteq> ''deny''))"
  by (auto simp: evaluates applies_bindings)

lemma del_allows_only:
  "(\<And>b. p b \<Longrightarrow> rb_Effect b = ''allow'')
    \<Longrightarrow> allowed (d\<lparr>role_bindings := del p (role_bindings d)\<rparr>) s \<Longrightarrow> allowed d s"
  by (fastforce simp: evaluates applies_bindings)

end

definition applies_at_scope :: "db \<Rightarrow> id \<times> id \<times> string \<times> id option \<times> id option \<Rightarrow> RoleBinding \<Rightarrow> bool" where
  "applies_at_scope d = (\<lambda>(organizationID, subjectID, permission, projectID, workspaceID) b.
     rb_OrganizationID b = organizationID \<and> subject_matches d organizationID subjectID b
     \<and> at_scope organizationID projectID workspaceID b \<and> role_grants d organizationID permission b)"

definition applies_scoped :: "db \<Rightarrow> id \<times> id \<times> string \<times> string \<times> id \<Rightarrow> RoleBinding \<Rightarrow> bool" where
  "applies_scoped d = (\<lambda>(organizationID, subjectID, permission, scopeType, scopeID) b.
     rb_OrganizationID b = organizationID \<and> subject_matches d organizationID subjectID b
     \<and> rb_ScopeType b = scopeType \<and> rb_ScopeID b = scopeID \<and> role_grants d organizationID permission b)"

interpretation iam_at_scope: iam_evaluation
  "\<lambda>d (organizationID, subjectID, permission, projectID, workspaceID).
     has_permission_at_scope d organizationID subjectID permission projectID workspaceID"
  applies_at_scope
  by unfold_locales
    (auto simp: has_permission_at_scope_def applies_at_scope_def matches_def list_ex_iff
       subject_matches_def role_grants_def split: prod.split)

interpretation iam_scoped: iam_evaluation
  "\<lambda>d (organizationID, subjectID, permission, scopeType, scopeID).
     has_scoped_permission d organizationID subjectID permission scopeType scopeID"
  applies_scoped
  by unfold_locales
    (auto simp: has_scoped_permission_def applies_scoped_def matches_def list_ex_iff
       subject_matches_def role_grants_def split: prod.split)

lemma HasPermissionAtScope_Inr [success_simps]:
  "run (HasPermissionAtScope ctx og s p pr wk) w = (Inr True, w') \<longleftrightarrow>
     \<not> fault_now w \<and> w' = pop w \<and> (ctx = [] \<or> p \<in> set ctx) \<and> has_permission_at_scope (db w) og s p pr wk"
  by (auto simp: HasPermissionAtScope_def ScopesFromContext_def run_query)

lemma HasPermission_Inr [success_simps]:
  "run (HasPermission ctx og s p) w = (Inr True, w') \<longleftrightarrow>
     \<not> fault_now w \<and> w' = pop w \<and> (ctx = [] \<or> p \<in> set ctx) \<and> has_permission_at_scope (db w) og s p None None"
  by (simp add: HasPermission_def HasPermissionAtScope_Inr)

lemma HasScopedPermission_Inr [success_simps]:
  "run (HasScopedPermission ctx og s p t i) w = (Inr True, w') \<longleftrightarrow>
     \<not> fault_now w \<and> w' = pop w \<and> (ctx = [] \<or> p \<in> set ctx) \<and> has_scoped_permission (db w) og s p t i"
  by (auto simp: HasScopedPermission_def ScopesFromContext_def run_query)

end
