(* ===== verification/Workspace_Store.thy ===== *)
theory Workspace_Store
  imports Rbac_Store
begin

text \<open>
  The Workspace context's aggregates (\<^verbatim>\<open>internal/workspace/domain\<close>) and repositories
  (\<^verbatim>\<open>internal/workspace/adapters/postgres\<close>): environments, workspaces, and the workspace lock.
  The locale \<open>workspace_lock\<close> is the contract of the lock; it is interpreted on the statements
  of \<open>TryLock\<close> and \<open>Unlock\<close>.
\<close>

section \<open>Domain\<close>

definition NewEnvironment :: "id \<Rightarrow> time \<Rightarrow> id \<Rightarrow> id \<Rightarrow> string \<Rightarrow> int \<Rightarrow> bool \<Rightarrow> err + Environment" where
  "NewEnvironment uuid now organizationID projectID name promotionRank requiresApproval =
     (if organizationID = [] \<or> projectID = []
      then Inl (ValidationError ''organization_id and project_id are required'')
      else if \<not> namePattern name then Inl (ValidationError (''name '' @ goQuote name @
        '' must start with a letter/digit and contain only letters, digits, - or _''))
      else Inr \<lparr>env_ID = uuid, env_OrganizationID = organizationID, env_ProjectID = projectID,
        env_Name = name, env_PromotionRank = promotionRank, env_RequiresApproval = requiresApproval,
        env_CreatedAt = now\<rparr>)"

definition ExecutionEngine_valid :: "string \<Rightarrow> bool" where
  "ExecutionEngine_valid e = (e \<in> {''terraform'', ''opentofu'', ''ansible'', ''helm'', ''packer'',
     ''kubespray'', ''kubernetes''})"

definition NewWorkspace :: "id \<Rightarrow> time \<Rightarrow> id \<Rightarrow> id \<Rightarrow> id option \<Rightarrow> string \<Rightarrow> string \<Rightarrow> err + Workspace" where
  "NewWorkspace uuid now organizationID projectID environmentID name engine =
     (if organizationID = [] \<or> projectID = []
      then Inl (ValidationError ''organization_id and project_id are required'')
      else if \<not> namePattern name then Inl (ValidationError
        ''name must start with a letter/digit and contain only letters, digits, - or _'')
      else if \<not> ExecutionEngine_valid engine then Inl (ValidationError
        ''execution_engine must be one of terraform, opentofu, ansible, helm, packer, kubespray, kubernetes - compose is no longer available here, link a Compose file to this project instead'')
      else Inr \<lparr>ws_ID = uuid, ws_OrganizationID = organizationID, ws_ProjectID = projectID,
        ws_EnvironmentID = environmentID, ws_Name = name, ws_ExecutionEngine = engine,
        ws_VCSLinkID = None, ws_CurrentStateVersionID = None, ws_Locked = False,
        ws_LockedByRunID = None, ws_CreatedAt = now\<rparr>)"

section \<open>Environments\<close>

definition EnvironmentRepository_Exists :: "id \<Rightarrow> id \<Rightarrow> bool io" where
  "EnvironmentRepository_Exists organizationID environmentID = query (\<lambda>d.
     Inr (list_ex (\<lambda>e. env_OrganizationID e = organizationID \<and> env_ID e = environmentID) (environments d)))"

definition EnvironmentRepository_Create :: "Environment \<Rightarrow> unit io" where
  "EnvironmentRepository_Create env = tx (\<lambda>_ d.
     if \<not> list_ex (\<lambda>og. org_ID og = env_OrganizationID env) (organizations d)
        \<or> \<not> list_ex (\<lambda>p. prj_ID p = env_ProjectID env) (projects d) then Inl ErrForeignKeyViolation
     else if list_ex (\<lambda>e. env_ID e = env_ID env \<or>
          env_ProjectID e = env_ProjectID env \<and> env_Name e = env_Name env) (environments d)
     then Inl ErrUniqueViolation
     else Inr ((), d\<lparr>environments := environments d @ [env]\<rparr>))"

definition EnvironmentRepository_GetByID :: "id \<Rightarrow> id \<Rightarrow> Environment io" where
  "EnvironmentRepository_GetByID organizationID i = query (\<lambda>d.
     oneRow ErrEnvironmentNotFound (\<lambda>e. env_OrganizationID e = organizationID \<and> env_ID e = i) (environments d))"

text \<open>\<^verbatim>\<open>ORDER BY promotion_rank, created_at\<close>: a stable sort by the second key, then by the first.\<close>

definition EnvironmentRepository_ListByProject :: "id \<Rightarrow> id \<Rightarrow> Environment list io" where
  "EnvironmentRepository_ListByProject organizationID projectID = query (\<lambda>d.
     Inr (sort_key env_PromotionRank (sort_key env_CreatedAt
       (filter (\<lambda>e. env_OrganizationID e = organizationID \<and> env_ProjectID e = projectID) (environments d)))))"

section \<open>Workspaces\<close>

definition is_ws :: "id \<Rightarrow> id \<Rightarrow> Workspace \<Rightarrow> bool" where
  "is_ws organizationID workspaceID x = (ws_OrganizationID x = organizationID \<and> ws_ID x = workspaceID)"

definition WorkspaceRepository_Create :: "Workspace \<Rightarrow> unit io" where
  "WorkspaceRepository_Create ws = tx (\<lambda>_ d.
     if ws_ExecutionEngine ws \<notin> {''terraform'', ''opentofu'', ''ansible'', ''helm'', ''compose'',
          ''packer'', ''kubespray'', ''kubernetes''} then Inl ErrCheckViolation
     else if \<not> list_ex (\<lambda>og. org_ID og = ws_OrganizationID ws) (organizations d)
        \<or> \<not> list_ex (\<lambda>p. prj_ID p = ws_ProjectID ws) (projects d) then Inl ErrForeignKeyViolation
     else if list_ex (\<lambda>x. ws_ID x = ws_ID ws \<or>
          ws_ProjectID x = ws_ProjectID ws \<and> ws_Name x = ws_Name ws) (workspaces d)
     then Inl ErrUniqueViolation
     else Inr ((), d\<lparr>workspaces := workspaces d @ [ws]\<rparr>))"

definition GetExecutionEngine :: "id \<Rightarrow> id \<Rightarrow> string io" where
  "GetExecutionEngine organizationID workspaceID = query (\<lambda>d.
     case oneRow ErrWorkspaceNotFound (is_ws organizationID workspaceID) (workspaces d) of
       Inl e \<Rightarrow> Inl e | Inr x \<Rightarrow> Inr (ws_ExecutionEngine x))"

definition WorkspaceRepository_GetByID :: "id \<Rightarrow> id \<Rightarrow> Workspace io" where
  "WorkspaceRepository_GetByID organizationID i = query (\<lambda>d.
     oneRow ErrWorkspaceNotFound (is_ws organizationID i) (workspaces d))"

definition WorkspaceExists :: "id \<Rightarrow> id \<Rightarrow> id \<Rightarrow> bool io" where
  "WorkspaceExists organizationID projectID workspaceID = query (\<lambda>d.
     Inr (list_ex (\<lambda>x. ws_OrganizationID x = organizationID \<and> ws_ProjectID x = projectID
       \<and> ws_ID x = workspaceID) (workspaces d)))"

definition WorkspaceRepository_Exists :: "id \<Rightarrow> id \<Rightarrow> bool io" where
  "WorkspaceRepository_Exists organizationID workspaceID = query (\<lambda>d.
     Inr (list_ex (is_ws organizationID workspaceID) (workspaces d)))"

definition GetScope :: "id \<Rightarrow> id \<Rightarrow> (id \<times> id option) io" where
  "GetScope organizationID workspaceID = query (\<lambda>d.
     case oneRow ErrWorkspaceNotFound (is_ws organizationID workspaceID) (workspaces d) of
       Inl e \<Rightarrow> Inl e | Inr x \<Rightarrow> Inr (ws_ProjectID x, ws_EnvironmentID x))"

definition try_lock :: "id \<Rightarrow> id \<Rightarrow> id \<Rightarrow> Workspace list \<Rightarrow> err + bool \<times> Workspace list" where
  "try_lock organizationID workspaceID runID wss =
     (case oneRow ErrWorkspaceNotFound (is_ws organizationID workspaceID) wss of
        Inl e \<Rightarrow> Inl e
      | Inr x \<Rightarrow> if ws_Locked x then Inr (False, wss)
          else Inr (True, upd (is_ws organizationID workspaceID)
                  (\<lambda>x. x\<lparr>ws_Locked := True, ws_LockedByRunID := Some runID\<rparr>) wss))"

definition TryLock :: "id \<Rightarrow> id \<Rightarrow> id \<Rightarrow> bool io" where
  "TryLock organizationID workspaceID runID = tx (\<lambda>_ d.
     case try_lock organizationID workspaceID runID (workspaces d) of
       Inl e \<Rightarrow> Inl e | Inr (locked, wss) \<Rightarrow> Inr (locked, d\<lparr>workspaces := wss\<rparr>))"

definition unlock :: "id \<Rightarrow> id \<Rightarrow> id \<Rightarrow> Workspace list \<Rightarrow> Workspace list" where
  "unlock organizationID workspaceID runID wss =
     upd (\<lambda>x. is_ws organizationID workspaceID x \<and> ws_LockedByRunID x = Some runID)
       (\<lambda>x. x\<lparr>ws_Locked := False, ws_LockedByRunID := None\<rparr>) wss"

definition Unlock :: "id \<Rightarrow> id \<Rightarrow> id \<Rightarrow> unit io" where
  "Unlock organizationID workspaceID runID = tx (\<lambda>_ d.
     Inr ((), d\<lparr>workspaces := unlock organizationID workspaceID runID (workspaces d)\<rparr>))"

text \<open>
  \<^verbatim>\<open>Purge\<close>: the first three statements bind only the workspace; row level security narrows them
  to the organization. The last one fails while a run of another organization refers to the row.
\<close>

definition WorkspaceRepository_Purge_body :: "id \<Rightarrow> id \<Rightarrow> db \<Rightarrow> err + db" where
  "WorkspaceRepository_Purge_body organizationID workspaceID d =
    (let d1 = d\<lparr>runs := del (\<lambda>r. run_OrganizationID r = organizationID \<and> run_WorkspaceID r = workspaceID) (runs d),
               variables := del (\<lambda>v. vr_OrganizationID v = organizationID \<and> vr_ScopeType v = ''workspace''
                  \<and> vr_ScopeID v = workspaceID) (variables d),
               role_bindings := del (\<lambda>b. rb_OrganizationID b = organizationID \<and> rb_ScopeType b = ''workspace''
                  \<and> rb_ScopeID b = workspaceID) (role_bindings d)\<rparr>
     in if list_ex (is_ws organizationID workspaceID) (workspaces d1)
           \<and> list_ex (\<lambda>r. run_WorkspaceID r = workspaceID) (runs d1) then Inl ErrForeignKeyViolation
        else Inr (d1\<lparr>workspaces := del (is_ws organizationID workspaceID) (workspaces d1)\<rparr>))"

definition WorkspaceRepository_Purge :: "id \<Rightarrow> id \<Rightarrow> unit io" where
  "WorkspaceRepository_Purge organizationID workspaceID = tx (\<lambda>_ d.
     case WorkspaceRepository_Purge_body organizationID workspaceID d of
       Inl e \<Rightarrow> Inl e | Inr d' \<Rightarrow> Inr ((), d'))"

definition WorkspaceRepository_ListByProject :: "id \<Rightarrow> id \<Rightarrow> Workspace list io" where
  "WorkspaceRepository_ListByProject organizationID projectID = query (\<lambda>d.
     Inr (sort_key ws_CreatedAt (filter (\<lambda>x. ws_OrganizationID x = organizationID \<and> ws_ProjectID x = projectID)
       (workspaces d))))"

lemmas workspace_store_defs =
  EnvironmentRepository_Exists_def EnvironmentRepository_Create_def EnvironmentRepository_GetByID_def
  EnvironmentRepository_ListByProject_def WorkspaceRepository_Create_def GetExecutionEngine_def
  WorkspaceRepository_GetByID_def WorkspaceExists_def WorkspaceRepository_Exists_def GetScope_def
  TryLock_def Unlock_def WorkspaceRepository_Purge_def WorkspaceRepository_ListByProject_def

section \<open>The contract of the lock\<close>

text \<open>
  \<open>holder s x\<close> is the run that holds resource \<open>x\<close>, if any; \<open>present s\<close> is the set of resources
  there are. The laws are those of a mutual exclusion lock with a named holder.
\<close>

locale workspace_lock =
  fixes present :: "'s \<Rightarrow> 'x set" and holder :: "'s \<Rightarrow> 'x \<Rightarrow> 'r option"
    and trylock :: "'x \<Rightarrow> 'r \<Rightarrow> 's \<Rightarrow> (bool \<times> 's) option" and release :: "'x \<Rightarrow> 'r \<Rightarrow> 's \<Rightarrow> 's"
    and wf :: "'s \<Rightarrow> bool"
  assumes trylock_absent: "wf s \<Longrightarrow> x \<notin> present s \<Longrightarrow> trylock x r s = None"
    and trylock_held: "wf s \<Longrightarrow> x \<in> present s \<Longrightarrow> holder s x \<noteq> None \<Longrightarrow> trylock x r s = Some (False, s)"
    and trylock_free: "wf s \<Longrightarrow> x \<in> present s \<Longrightarrow> holder s x = None
      \<Longrightarrow> \<exists>s'. trylock x r s = Some (True, s') \<and> wf s' \<and> present s' = present s
              \<and> holder s' = (holder s)(x \<mapsto> r)"
    and release_wf: "wf s \<Longrightarrow> wf (release x r s)"
    and release_present: "wf s \<Longrightarrow> present (release x r s) = present s"
    and release_holder: "wf s \<Longrightarrow> holder (release x r s) =
      (if holder s x = Some r then (holder s)(x := None) else holder s)"
begin

text \<open>While a run holds the lock no other run gets it.\<close>

lemma mutual_exclusion:
  "wf s \<Longrightarrow> trylock x r s = Some (True, s') \<Longrightarrow> \<exists>s''. trylock x q s' = Some (False, s'')"
  by (cases "x \<in> present s"; cases "holder s x")
    (auto simp: trylock_absent trylock_held dest!: trylock_free [of s x r] intro!: exI trylock_held)

lemma holder_after: "wf s \<Longrightarrow> trylock x r s = Some (True, s') \<Longrightarrow> wf s' \<and> holder s' x = Some r"
  by (cases "x \<in> present s"; cases "holder s x")
    (auto simp: trylock_absent trylock_held dest!: trylock_free [of s x r])

text \<open>A release by a run that is not the holder changes no lock.\<close>

lemma release_foreign: "wf s \<Longrightarrow> holder s x \<noteq> Some r \<Longrightarrow> holder (release x r s) = holder s"
  by (simp add: release_holder)

text \<open>Taking the lock and giving it back restores every lock.\<close>

lemma trylock_release:
  "wf s \<Longrightarrow> trylock x r s = Some (True, s') \<Longrightarrow> holder (release x r s') = holder s"
proof -
  assume s: "wf s" "trylock x r s = Some (True, s')"
  then have free: "x \<in> present s" "holder s x = None"
    by (cases "x \<in> present s"; cases "holder s x"; auto simp: trylock_absent trylock_held)+
  with trylock_free [of s x r] s show ?thesis by (auto simp: release_holder fun_upd_idem)
qed

end

text \<open>
  The lock columns are consistent: a row is locked exactly when it names a holder. This and
  the primary key are the well-formedness of the table.
\<close>

definition locks_wf :: "Workspace list \<Rightarrow> bool" where
  "locks_wf wss = (distinct (map ws_ID wss) \<and>
     list_all (\<lambda>x. ws_Locked x = (ws_LockedByRunID x \<noteq> None)) wss)"

definition ws_present :: "Workspace list \<Rightarrow> (id \<times> id) set" where
  "ws_present wss = set (map (\<lambda>x. (ws_OrganizationID x, ws_ID x)) wss)"

definition ws_holder :: "Workspace list \<Rightarrow> id \<times> id \<Rightarrow> id option" where
  "ws_holder wss = (\<lambda>(organizationID, workspaceID).
     case List.find (is_ws organizationID workspaceID) wss of None \<Rightarrow> None | Some x \<Rightarrow> ws_LockedByRunID x)"

lemma find_is_ws:
  assumes "distinct (map ws_ID wss)" "x \<in> set wss" "is_ws og i x"
  shows "List.find (is_ws og i) wss = Some x"
  using assms by (intro find_unique [where g = ws_ID]) (auto simp: is_ws_def)

lemma find_upd:
  assumes "\<And>x. p (f x) = p x"
  shows "List.find p (upd q f wss) =
    map_option (\<lambda>x. if q x then f x else x) (List.find p wss)"
  using assms by (induction wss) (auto simp: upd_def)

lemma ws_holder_upd:
  assumes "\<And>x. ws_OrganizationID (f x) = ws_OrganizationID x" "\<And>x. ws_ID (f x) = ws_ID x"
  shows "ws_holder (upd q f wss) (og, i) =
    (case List.find (is_ws og i) wss of None \<Rightarrow> None
       | Some x \<Rightarrow> if q x then ws_LockedByRunID (f x) else ws_LockedByRunID x)"
proof -
  have "List.find (is_ws og i) (upd q f wss) =
      map_option (\<lambda>x. if q x then f x else x) (List.find (is_ws og i) wss)"
    using assms by (intro find_upd) (simp add: is_ws_def)
  then show ?thesis by (auto simp: ws_holder_def split: option.split)
qed

lemma ws_present_find:
  "(og, i) \<in> ws_present wss \<longleftrightarrow> (\<exists>x. List.find (is_ws og i) wss = Some x)"
  by (induction wss) (auto simp: ws_present_def is_ws_def)

lemma locks_wf_upd:
  assumes "locks_wf wss" "\<And>x. ws_ID (f x) = ws_ID x"
    "\<And>x. ws_Locked (f x) = (ws_LockedByRunID (f x) \<noteq> None)"
  shows "locks_wf (upd q f wss)"
  using assms by (auto simp: locks_wf_def map_upd list_all_iff elim!: in_set_updE)

lemma ws_present_upd:
  "(\<And>x. ws_OrganizationID (f x) = ws_OrganizationID x) \<Longrightarrow> (\<And>x. ws_ID (f x) = ws_ID x)
    \<Longrightarrow> ws_present (upd q f wss) = ws_present wss"
  unfolding ws_present_def by (subst map_upd) simp_all

lemma locked_iff_holder:
  "locks_wf wss \<Longrightarrow> List.find (is_ws og i) wss = Some x \<Longrightarrow> ws_Locked x \<longleftrightarrow> ws_holder wss (og, i) \<noteq> None"
  by (auto simp: locks_wf_def list_all_iff ws_holder_def dest!: find_SomeD)

definition try_lock_opt :: "id \<times> id \<Rightarrow> id \<Rightarrow> Workspace list \<Rightarrow> (bool \<times> Workspace list) option" where
  "try_lock_opt = (\<lambda>(organizationID, workspaceID) runID wss.
     case try_lock organizationID workspaceID runID wss of Inl _ \<Rightarrow> None | Inr p \<Rightarrow> Some p)"

lemma try_lock_free:
  assumes "locks_wf wss" "(og, i) \<in> ws_present wss" "ws_holder wss (og, i) = None"
  shows "\<exists>wss'. try_lock_opt (og, i) r wss = Some (True, wss') \<and> locks_wf wss'
    \<and> ws_present wss' = ws_present wss \<and> ws_holder wss' = (ws_holder wss)((og, i) \<mapsto> r)"
proof -
  let ?f = "\<lambda>x. x\<lparr>ws_Locked := True, ws_LockedByRunID := Some r\<rparr>"
  let ?wss = "upd (is_ws og i) ?f wss"
  from assms(2) obtain x where x: "List.find (is_ws og i) wss = Some x" by (auto simp: ws_present_find)
  with assms have "\<not> ws_Locked x" by (simp add: locked_iff_holder)
  with x have "try_lock_opt (og, i) r wss = Some (True, ?wss)"
    by (simp add: try_lock_opt_def try_lock_def oneRow_def)
  moreover have "locks_wf ?wss" using assms(1) by (rule locks_wf_upd) simp_all
  moreover have "ws_present ?wss = ws_present wss" by (rule ws_present_upd) simp_all
  moreover have "ws_holder ?wss k = ((ws_holder wss)((og, i) \<mapsto> r)) k" for k
  proof (cases k)
    case (Pair a b)
    have "ws_holder ?wss (a, b) = (case List.find (is_ws a b) wss of None \<Rightarrow> None
        | Some y \<Rightarrow> if is_ws og i y then Some r else ws_LockedByRunID y)"
      by (subst ws_holder_upd) (simp_all split: option.split)
    with x show ?thesis
      by (auto simp: Pair ws_holder_def is_ws_def split: option.split dest!: find_SomeD)
  qed
  ultimately show ?thesis by blast
qed

lemma unlock_holder:
  "ws_holder (unlock og i r wss) =
    (if ws_holder wss (og, i) = Some r then (ws_holder wss)((og, i) := None) else ws_holder wss)"
proof
  fix k show "ws_holder (unlock og i r wss) k =
    (if ws_holder wss (og, i) = Some r then (ws_holder wss)((og, i) := None) else ws_holder wss) k"
  proof (cases k)
    case (Pair a b)
    have "ws_holder (unlock og i r wss) (a, b) = (case List.find (is_ws a b) wss of None \<Rightarrow> None
        | Some y \<Rightarrow> if is_ws og i y \<and> ws_LockedByRunID y = Some r then None else ws_LockedByRunID y)"
      unfolding unlock_def by (subst ws_holder_upd) (simp_all split: option.split)
    then show ?thesis
      by (auto simp: Pair ws_holder_def is_ws_def split: option.split dest!: find_SomeD)
  qed
qed

interpretation ws_lock: workspace_lock ws_present ws_holder try_lock_opt
  "\<lambda>(organizationID, workspaceID). unlock organizationID workspaceID" locks_wf
proof
  fix s :: "Workspace list" and x :: "id \<times> id" and r :: id
  assume wf: "locks_wf s"
  obtain og i where x: "x = (og, i)" by (cases x)
  show "x \<notin> ws_present s \<Longrightarrow> try_lock_opt x r s = None"
    by (cases "List.find (is_ws og i) s")
      (auto simp: x ws_present_find try_lock_opt_def try_lock_def oneRow_def)
  show "x \<in> ws_present s \<Longrightarrow> ws_holder s x \<noteq> None \<Longrightarrow> try_lock_opt x r s = Some (False, s)"
    using wf by (auto simp: x ws_present_find try_lock_opt_def try_lock_def oneRow_def locked_iff_holder)
  show "x \<in> ws_present s \<Longrightarrow> ws_holder s x = None \<Longrightarrow> \<exists>s'. try_lock_opt x r s = Some (True, s')
      \<and> locks_wf s' \<and> ws_present s' = ws_present s \<and> ws_holder s' = (ws_holder s)(x \<mapsto> r)"
    using wf try_lock_free by (simp add: x)
  show "locks_wf ((case x of (og, i) \<Rightarrow> unlock og i) r s)"
    using wf by (auto simp: x unlock_def intro: locks_wf_upd)
  show "ws_present ((case x of (og, i) \<Rightarrow> unlock og i) r s) = ws_present s"
    by (simp add: x unlock_def ws_present_upd)
  show "ws_holder ((case x of (og, i) \<Rightarrow> unlock og i) r s) =
      (if ws_holder s x = Some r then (ws_holder s)(x := None) else ws_holder s)"
    by (simp add: x unlock_holder)
qed

end
