(* ===== verification/Access.thy ===== *)
theory Access
  imports Workspace_Store
begin

text \<open>
  The gates every service passes: the \<open>project_visibility.go\<close> of each context (each context
  declares its own copy, so there is one definition per copy and a lemma that they agree), what
  the idiom \<^verbatim>\<open>isMember, err := ...; if !isMember\<close> and its permission counterpart do, and the
  contract \<open>gated\<close> of an operation that refuses unauthorized callers without any effect.
\<close>

section \<open>Visibility of projects and workspaces\<close>

definition Tenancy_canAccessProject :: "string list \<Rightarrow> id \<Rightarrow> id \<Rightarrow> id \<Rightarrow> bool io" where
  "Tenancy_canAccessProject ctx organizationID userID projectID =
     bindE (HasPermission ctx organizationID userID ''organization:manage'') (\<lambda>isAdmin.
     if isAdmin then retE True
     else HasScopedPermission ctx organizationID userID ''project:read'' ''project'' projectID)"

definition Workspace_canAccessProject :: "string list \<Rightarrow> id \<Rightarrow> id \<Rightarrow> id \<Rightarrow> bool io" where
  "Workspace_canAccessProject ctx organizationID userID projectID =
     bindE (HasPermission ctx organizationID userID ''organization:manage'') (\<lambda>isAdmin.
     if isAdmin then retE True
     else HasScopedPermission ctx organizationID userID ''project:read'' ''project'' projectID)"

definition Workspace_canAccessWorkspace :: "string list \<Rightarrow> id \<Rightarrow> id \<Rightarrow> id \<Rightarrow> id \<Rightarrow> bool io" where
  "Workspace_canAccessWorkspace ctx organizationID userID projectID workspaceID =
     bindE (Workspace_canAccessProject ctx organizationID userID projectID) (\<lambda>canAccess.
     if canAccess then retE True
     else HasScopedPermission ctx organizationID userID ''workspace:read'' ''workspace'' workspaceID)"

definition Execution_canAccessProject :: "string list \<Rightarrow> id \<Rightarrow> id \<Rightarrow> id \<Rightarrow> bool io" where
  "Execution_canAccessProject ctx organizationID userID projectID =
     bindE (HasPermission ctx organizationID userID ''organization:manage'') (\<lambda>isAdmin.
     if isAdmin then retE True
     else HasScopedPermission ctx organizationID userID ''project:read'' ''project'' projectID)"

definition Execution_canAccessWorkspace :: "string list \<Rightarrow> id \<Rightarrow> id \<Rightarrow> id \<Rightarrow> id \<Rightarrow> bool io" where
  "Execution_canAccessWorkspace ctx organizationID userID projectID workspaceID =
     bindE (Execution_canAccessProject ctx organizationID userID projectID) (\<lambda>canAccess.
     if canAccess then retE True
     else HasScopedPermission ctx organizationID userID ''workspace:read'' ''workspace'' workspaceID)"

definition Variables_canAccessProject :: "string list \<Rightarrow> id \<Rightarrow> id \<Rightarrow> id \<Rightarrow> bool io" where
  "Variables_canAccessProject ctx organizationID userID projectID =
     bindE (HasPermission ctx organizationID userID ''organization:manage'') (\<lambda>isAdmin.
     if isAdmin then retE True
     else HasScopedPermission ctx organizationID userID ''project:read'' ''project'' projectID)"

definition Variables_canAccessWorkspace :: "string list \<Rightarrow> id \<Rightarrow> id \<Rightarrow> id \<Rightarrow> id \<Rightarrow> bool io" where
  "Variables_canAccessWorkspace ctx organizationID userID projectID workspaceID =
     bindE (Variables_canAccessProject ctx organizationID userID projectID) (\<lambda>canAccess.
     if canAccess then retE True
     else HasScopedPermission ctx organizationID userID ''workspace:read'' ''workspace'' workspaceID)"

lemma canAccessProject_agree:
  "Tenancy_canAccessProject = Workspace_canAccessProject"
  "Execution_canAccessProject = Workspace_canAccessProject"
  "Variables_canAccessProject = Workspace_canAccessProject"
  by (simp_all add: fun_eq_iff Tenancy_canAccessProject_def Workspace_canAccessProject_def
      Execution_canAccessProject_def Variables_canAccessProject_def)

lemma canAccessWorkspace_agree:
  "Execution_canAccessWorkspace = Workspace_canAccessWorkspace"
  "Variables_canAccessWorkspace = Workspace_canAccessWorkspace"
  by (simp_all add: fun_eq_iff Workspace_canAccessWorkspace_def Execution_canAccessWorkspace_def
      Variables_canAccessWorkspace_def canAccessProject_agree)

section \<open>What the checks return\<close>

text \<open>The restriction of the request's API key: no scopes, or a scope list with the permission.\<close>

definition ctx_permits :: "string list \<Rightarrow> string \<Rightarrow> bool" where
  "ctx_permits ctx permission = (ctx = [] \<or> permission \<in> set ctx)"

definition permitted :: "string list \<Rightarrow> db \<Rightarrow> id \<Rightarrow> id \<Rightarrow> string \<Rightarrow> id option \<Rightarrow> id option \<Rightarrow> bool" where
  "permitted ctx d organizationID userID permission projectID workspaceID =
     (ctx_permits ctx permission \<and>
      has_permission_at_scope d organizationID userID permission projectID workspaceID)"

definition permitted_scoped :: "string list \<Rightarrow> db \<Rightarrow> id \<Rightarrow> id \<Rightarrow> string \<Rightarrow> string \<Rightarrow> id \<Rightarrow> bool" where
  "permitted_scoped ctx d organizationID userID permission scopeType scopeID =
     (ctx_permits ctx permission \<and>
      has_scoped_permission d organizationID userID permission scopeType scopeID)"

definition can_access_project :: "string list \<Rightarrow> db \<Rightarrow> id \<Rightarrow> id \<Rightarrow> id \<Rightarrow> bool" where
  "can_access_project ctx d organizationID userID projectID =
     (permitted ctx d organizationID userID ''organization:manage'' None None \<or>
      permitted_scoped ctx d organizationID userID ''project:read'' ''project'' projectID)"

definition can_access_workspace :: "string list \<Rightarrow> db \<Rightarrow> id \<Rightarrow> id \<Rightarrow> id \<Rightarrow> id \<Rightarrow> bool" where
  "can_access_workspace ctx d organizationID userID projectID workspaceID =
     (can_access_project ctx d organizationID userID projectID \<or>
      permitted_scoped ctx d organizationID userID ''workspace:read'' ''workspace'' workspaceID)"

lemma run_IsMember [run_simps]:
  "run (IsMember og u) w =
     (if fault_now w then (Inl ErrDB, pop w) else (Inr (is_member (db w) og u), pop w))"
  by (simp add: IsMember_def run_query)

lemma run_HasPermissionAtScope [run_simps]:
  "run (HasPermissionAtScope ctx og u p pr wk) w =
     (if \<not> ctx_permits ctx p then (Inr False, w)
      else if fault_now w then (Inl ErrDB, pop w)
      else (Inr (permitted ctx (db w) og u p pr wk), pop w))"
  by (auto simp: HasPermissionAtScope_def ScopesFromContext_def ctx_permits_def permitted_def run_query)

lemma run_HasPermission [run_simps]:
  "run (HasPermission ctx og u p) w =
     (if \<not> ctx_permits ctx p then (Inr False, w)
      else if fault_now w then (Inl ErrDB, pop w)
      else (Inr (permitted ctx (db w) og u p None None), pop w))"
  by (simp add: HasPermission_def run_HasPermissionAtScope)

lemma run_HasScopedPermission [run_simps]:
  "run (HasScopedPermission ctx og u p t i) w =
     (if \<not> ctx_permits ctx p then (Inr False, w)
      else if fault_now w then (Inl ErrDB, pop w)
      else (Inr (permitted_scoped ctx (db w) og u p t i), pop w))"
  by (auto simp: HasScopedPermission_def ScopesFromContext_def ctx_permits_def permitted_scoped_def run_query)

lemma run_bind_IsMember [run_head]:
  "run (bindE (IsMember og u) k) w =
     (if fault_now w then (Inl ErrDB, pop w) else run (k (is_member (db w) og u)) (pop w))"
  by (simp add: run_bindE run_IsMember)

lemma run_bind_HasPermissionAtScope [run_head]:
  "run (bindE (HasPermissionAtScope ctx og u p pr wk) k) w =
     (if \<not> ctx_permits ctx p then run (k False) w
      else if fault_now w then (Inl ErrDB, pop w)
      else run (k (permitted ctx (db w) og u p pr wk)) (pop w))"
  by (simp add: run_bindE run_HasPermissionAtScope)

lemma run_bind_HasPermission [run_head]:
  "run (bindE (HasPermission ctx og u p) k) w =
     (if \<not> ctx_permits ctx p then run (k False) w
      else if fault_now w then (Inl ErrDB, pop w)
      else run (k (permitted ctx (db w) og u p None None)) (pop w))"
  by (simp add: run_bindE run_HasPermission)

lemma permitted_ctx: "permitted ctx d og u p pr wk \<Longrightarrow> ctx_permits ctx p"
  by (simp add: permitted_def)

section \<open>Reading leaves the data alone\<close>

text \<open>\<open>reads m\<close>: the program \<open>m\<close> changes nothing of the state but the record of faults.\<close>

definition reads :: "'a io \<Rightarrow> bool" where
  "reads m = (\<forall>w. \<exists>n. snd (run m w) = w\<lparr>faults := drop n (faults w)\<rparr>)"

lemma drop_tl: "drop n (tl xs) = drop (Suc n) xs"
  by (cases xs) auto

lemma reads_query [intro!]: "reads (query q)"
proof -
  have "\<exists>n. pop w = w\<lparr>faults := drop n (faults w)\<rparr>" for w
    by (rule exI [of _ 1]) (simp add: pop_def drop_Suc)
  then show ?thesis by (simp add: reads_def run_query)
qed

lemma reads_pure [intro!]: "reads (retE a)" "reads (throwE e)" "reads (liftE r)"
proof -
  have "\<exists>n. w = w\<lparr>faults := drop n (faults w)\<rparr>" for w :: world
    by (rule exI [of _ 0]) simp
  then show "reads (retE a)" "reads (throwE e)" "reads (liftE r)" by (simp_all add: reads_def)
qed

lemma reads_nowE [intro!]: "reads nowE"
proof -
  have "\<exists>n. w = w\<lparr>faults := drop n (faults w)\<rparr>" for w :: world
    by (rule exI [of _ 0]) simp
  then show ?thesis by (simp add: reads_def run_nowE)
qed

lemma reads_bindE [intro]:
  assumes m: "reads m" and k: "\<And>a. reads (k a)"
  shows "reads (bindE m k)"
  unfolding reads_def
proof
  fix w
  obtain r v where r: "run m w = (r, v)" by fastforce
  from m [unfolded reads_def] r obtain n where v: "v = w\<lparr>faults := drop n (faults w)\<rparr>" by (metis snd_conv)
  show "\<exists>n. snd (run (bindE m k) w) = w\<lparr>faults := drop n (faults w)\<rparr>"
  proof (cases r)
    case (Inl e)
    with r v show ?thesis by (auto simp: run_bindE)
  next
    case (Inr a)
    from k [of a, unfolded reads_def] obtain j where "snd (run (k a) v) = v\<lparr>faults := drop j (faults v)\<rparr>" by blast
    with v have "snd (run (k a) v) = w\<lparr>faults := drop (j + n) (faults w)\<rparr>" by simp
    then show ?thesis using r Inr by (auto simp: run_bindE)
  qed
qed

lemma reads_guardE [intro!]: "reads k \<Longrightarrow> reads (guardE b e k)"
  by (auto simp: guardE_def)

lemma reads_if [intro!]: "reads m \<Longrightarrow> reads n \<Longrightarrow> reads (if b then m else n)"
  by simp

lemma reads_tryE [intro]: "reads m \<Longrightarrow> reads (tryE m)"
  by (simp add: reads_def run_tryE case_prod_beta)

lemma reads_mapE [intro]: "(\<And>x. reads (f x)) \<Longrightarrow> reads (mapE f xs)"
  by (induction xs) auto

lemma reads_IsMember [intro!]: "reads (IsMember og u)"
  by (auto simp: IsMember_def)

lemma reads_HasPermissionAtScope [intro!]: "reads (HasPermissionAtScope ctx og u p pr wk)"
  by (auto simp: HasPermissionAtScope_def ScopesFromContext_def)

lemma reads_HasPermission [intro!]: "reads (HasPermission ctx og u p)"
  by (auto simp: HasPermission_def)

lemma reads_HasScopedPermission [intro!]: "reads (HasScopedPermission ctx og u p t i)"
  by (auto simp: HasScopedPermission_def ScopesFromContext_def)

lemma reads_canAccessProject [intro!]: "reads (Workspace_canAccessProject ctx og u pr)"
  by (auto simp: Workspace_canAccessProject_def)

lemma reads_canAccessWorkspace [intro!]: "reads (Workspace_canAccessWorkspace ctx og u pr wk)"
  by (auto simp: Workspace_canAccessWorkspace_def)

lemma reads_db: "reads m \<Longrightarrow> run m w = (r, w') \<Longrightarrow> db w' = db w \<and> clock w' = clock w"
  unfolding reads_def by (metis (no_types, lifting) snd_conv world.select_convs(1,2) world.update_convs(3) world.surjective)

text \<open>A successful check, read backwards.\<close>

lemma IsMember_Inr [success_simps]:
  "run (IsMember og u) w = (Inr b, w') \<longleftrightarrow> \<not> fault_now w \<and> w' = pop w \<and> b = is_member (db w) og u"
  by (auto simp: run_IsMember)

lemma canAccessProject_True:
  "run (Workspace_canAccessProject ctx og u pr) w = (Inr True, w') \<Longrightarrow> can_access_project ctx (db w) og u pr"
  by (auto simp: Workspace_canAccessProject_def can_access_project_def run_bindE run_HasPermission
      run_HasScopedPermission permitted_def split: if_splits)

lemma canAccessWorkspace_True:
  "run (Workspace_canAccessWorkspace ctx og u pr wk) w = (Inr True, w') \<Longrightarrow>
     can_access_workspace ctx (db w) og u pr wk"
proof -
  assume *: "run (Workspace_canAccessWorkspace ctx og u pr wk) w = (Inr True, w')"
  then obtain c w1 where c: "run (Workspace_canAccessProject ctx og u pr) w = (Inr c, w1)"
    and k: "run (if c then retE True else
      HasScopedPermission ctx og u ''workspace:read'' ''workspace'' wk) w1 = (Inr True, w')"
    by (auto simp: Workspace_canAccessWorkspace_def run_bindE_Inr)
  have "db w1 = db w" using reads_db [OF reads_canAccessProject c] by simp
  with c k show ?thesis
    by (cases c) (auto simp: can_access_workspace_def run_HasScopedPermission
        dest!: canAccessProject_True split: if_splits)
qed

section \<open>Gated operations\<close>

text \<open>
  The contract of an operation that changes the database only for authorized callers: in every
  other case it returns an error and the database is as before.
\<close>

definition refuses :: "'a io \<Rightarrow> world \<Rightarrow> bool" where
  "refuses m w = (case run m w of (r, w') \<Rightarrow> (\<exists>e. r = Inl e) \<and> db w' = db w)"

locale gated =
  fixes exec :: "'i \<Rightarrow> 'a io" and authorized :: "'i \<Rightarrow> db \<Rightarrow> bool"
  assumes unauthorized_refused: "\<not> authorized i (db w) \<Longrightarrow> refuses (exec i) w"
begin

lemma success_authorized: "run (exec i) w = (Inr a, w') \<Longrightarrow> authorized i (db w)"
  using unauthorized_refused [of i w] by (auto simp: refuses_def)

lemma change_authorized: "db (snd (run (exec i) w)) \<noteq> db w \<Longrightarrow> authorized i (db w)"
  using unauthorized_refused [of i w] by (cases "authorized i (db w)") (auto simp: refuses_def case_prod_beta)

text \<open>No sequence of unauthorized requests ever changes the database.\<close>

lemma sequence_unchanged:
  "(\<And>i. i \<in> set is \<Longrightarrow> \<not> authorized i (db w))
    \<Longrightarrow> db (fold (\<lambda>i w. snd (run (exec i) w)) is w) = db w"
proof (induction "is" arbitrary: w)
  case Nil
  then show ?case by simp
next
  case (Cons i "is")
  let ?w = "snd (run (exec i) w)"
  have "db ?w = db w" using change_authorized [of i w] Cons.prems [of i] by auto
  moreover from this have "db (fold (\<lambda>i w. snd (run (exec i) w)) is ?w) = db ?w"
    using Cons.prems by (intro Cons.IH) simp
  ultimately show ?case by simp
qed

end

lemma refuses_db_only: "refuses m w \<longleftrightarrow> (\<exists>e w'. run m w = (Inl e, w') \<and> db w' = db w)"
  by (auto simp: refuses_def split: prod.splits)

text \<open>How the gates at the head of a service make it refuse.\<close>

lemma refuses_bindE:
  assumes "reads m"
    and "\<And>a v. run m w = (Inr a, v) \<Longrightarrow> db v = db w \<Longrightarrow> refuses (k a) v"
  shows "refuses (bindE m k) w"
proof -
  obtain r v where r: "run m w = (r, v)" by fastforce
  with reads_db [OF assms(1)] have v: "db v = db w" by simp
  show ?thesis
    using r v assms(2) by (cases r) (auto simp: refuses_def run_bindE split: prod.splits)
qed

lemma refuses_throwE [simp]: "refuses (throwE e) w"
  by (simp add: refuses_def)

lemma refuses_guardE: "(b \<Longrightarrow> refuses k w) \<Longrightarrow> refuses (guardE b e k) w"
  by (simp add: guardE_def)

lemma refuses_member:
  assumes "\<And>v. db v = db w \<Longrightarrow> is_member (db w) og u \<Longrightarrow> refuses k v"
  shows "refuses (bindE (IsMember og u) (\<lambda>m. guardE m e k)) w"
  by (rule refuses_bindE) (auto simp: run_IsMember intro!: refuses_guardE assms split: if_splits)

lemma refuses_permission_at_scope:
  assumes "\<And>v. db v = db w \<Longrightarrow> permitted ctx (db w) og u p pr wk \<Longrightarrow> refuses k v"
  shows "refuses (bindE (HasPermissionAtScope ctx og u p pr wk) (\<lambda>a. guardE a e k)) w"
  by (rule refuses_bindE) (auto simp: run_HasPermissionAtScope intro!: refuses_guardE assms split: if_splits)

lemma refuses_permission:
  assumes "\<And>v. db v = db w \<Longrightarrow> permitted ctx (db w) og u p None None \<Longrightarrow> refuses k v"
  shows "refuses (bindE (HasPermission ctx og u p) (\<lambda>a. guardE a e k)) w"
  using assms unfolding HasPermission_def by (rule refuses_permission_at_scope)

end
