(* ===== verification/Rbac.thy ===== *)
theory Rbac
  imports Access
begin

text \<open>
  RBAC's services (\<^verbatim>\<open>internal/rbac/application\<close>): custom roles and role bindings. The fields of an
  input struct are the arguments of its service, in the order of the struct.
\<close>

section \<open>Services\<close>

text \<open>The loop over the requested permissions of \<open>CreateRoleService\<close> and \<open>UpdateRoleService\<close>.\<close>

fun check_permissions :: "string list \<Rightarrow> err + string list" where
  "check_permissions [] = Inr []"
| "check_permissions (p # ps) =
     (if p \<notin> set AllPermissions then Inl (ValidationError (''unknown permission: '' @ p))
      else case check_permissions ps of Inl e \<Rightarrow> Inl e | Inr qs \<Rightarrow> Inr (p # qs))"

definition CreateRole_Execute :: "id \<Rightarrow> string list \<Rightarrow> id \<Rightarrow> id \<Rightarrow> string \<Rightarrow> string list \<Rightarrow> Role io" where
  "CreateRole_Execute uuid ctx organizationID requestingUserID name inPermissions =
     bindE (IsMember organizationID requestingUserID) (\<lambda>isMember.
     guardE isMember ErrForbidden (
     bindE (HasPermission ctx organizationID requestingUserID ''organization:manage'') (\<lambda>allowed.
     guardE allowed ErrForbidden (
     bindE (liftE (check_permissions inPermissions)) (\<lambda>permissions.
     bindE (liftE (NewRole uuid organizationID name permissions)) (\<lambda>role.
     bindE (RoleRepository_Create role) (\<lambda>_.
     retE role)))))))"

definition ListRoles_Execute :: "id \<Rightarrow> id \<Rightarrow> Role list io" where
  "ListRoles_Execute organizationID requestingUserID =
     bindE (IsMember organizationID requestingUserID) (\<lambda>isMember.
     guardE isMember ErrForbidden (
     ListForOrganization organizationID))"

definition UpdateRole_Execute :: "string list \<Rightarrow> id \<Rightarrow> id \<Rightarrow> id \<Rightarrow> string list \<Rightarrow> Role io" where
  "UpdateRole_Execute ctx organizationID requestingUserID roleID inPermissions =
     bindE (IsMember organizationID requestingUserID) (\<lambda>isMember.
     guardE isMember ErrForbidden (
     bindE (HasPermission ctx organizationID requestingUserID ''organization:manage'') (\<lambda>allowed.
     guardE allowed ErrForbidden (
     bindE (RoleRepository_GetByID organizationID roleID) (\<lambda>role.
     guardE (role_OrganizationID role \<noteq> None) ErrForbidden (
     bindE (liftE (check_permissions inPermissions)) (\<lambda>permissions.
     guardE (permissions \<noteq> []) (ValidationError ''permissions must not be empty'') (
     let role' = role\<lparr>role_Permissions := permissions\<rparr> in
     bindE (RoleRepository_Update role') (\<lambda>_.
     retE role')))))))))"

definition check_subject :: "id \<Rightarrow> string \<Rightarrow> id \<Rightarrow> unit io" where
  "check_subject organizationID subjectType subjectID =
     (if subjectType = SubjectTypeUser then
        bindE (IsMember organizationID subjectID) (\<lambda>subjectIsMember.
        guardE subjectIsMember (ValidationError ''subject.id is not a member of this organization'') (retE ()))
      else if subjectType = SubjectTypeTeam then
        bindE (TeamExists organizationID subjectID) (\<lambda>exists.
        guardE exists (ValidationError ''subject.id is not a team in this organization'') (retE ()))
      else if subjectType = SubjectTypeServiceAccount then
        bindE (ServiceAccountExists organizationID subjectID) (\<lambda>exists.
        guardE exists (ValidationError ''subject.id is not a service account in this organization'') (retE ()))
      else retE ())"

definition check_scope :: "id \<Rightarrow> string \<Rightarrow> id \<Rightarrow> unit io" where
  "check_scope organizationID scopeType scopeID =
     (if scopeType = ScopeTypeOrganization then
        guardE (scopeID = organizationID)
          (ValidationError ''scope.id must be this organization's id for scope.type organization'') (retE ())
      else if scopeType = ScopeTypeProject then
        bindE (ProjectExists organizationID scopeID) (\<lambda>exists.
        guardE exists (ValidationError ''scope.id is not a project in this organization'') (retE ()))
      else if scopeType = ScopeTypeWorkspace then
        bindE (WorkspaceRepository_Exists organizationID scopeID) (\<lambda>exists.
        guardE exists (ValidationError ''scope.id is not a workspace in this organization'') (retE ()))
      else retE ())"

definition CreateRoleBinding_Execute :: "id \<Rightarrow> string list \<Rightarrow> id \<Rightarrow> id \<Rightarrow> id \<Rightarrow> string \<Rightarrow> id \<Rightarrow> string \<Rightarrow> id
    \<Rightarrow> string \<Rightarrow> RoleBinding io" where
  "CreateRoleBinding_Execute uuid ctx organizationID requestingUserID roleID subjectType subjectID
       scopeType scopeID inEffect =
     bindE (IsMember organizationID requestingUserID) (\<lambda>isMember.
     guardE isMember ErrForbidden (
     bindE (HasPermission ctx organizationID requestingUserID ''organization:manage'') (\<lambda>allowed.
     guardE allowed ErrForbidden (
     guardE (subjectType \<in> set ValidSubjectTypes)
       (ValidationError ''subject.type must be one of: user, team, service_account'') (
     guardE (scopeType \<in> set ValidScopeTypes)
       (ValidationError ''scope.type must be one of: organization, project, workspace'') (
     let effect = (if inEffect = [] then EffectAllow else inEffect) in
     guardE (effect \<in> set ValidEffects) (ValidationError ''effect must be one of: allow, deny'') (
     bindE (RoleRepository_GetByID organizationID roleID) (\<lambda>role.
     guardE (\<not> (role_OrganizationID role \<noteq> None \<and> role_OrganizationID role \<noteq> Some organizationID))
       ErrRoleNotFound (
     bindE (check_subject organizationID subjectType subjectID) (\<lambda>_.
     bindE (check_scope organizationID scopeType scopeID) (\<lambda>_.
     bindE nowE (\<lambda>now.
     let binding = NewRoleBinding uuid now organizationID roleID subjectType subjectID scopeType scopeID effect in
     bindE (RoleBindingRepository_Create binding) (\<lambda>_.
     retE binding)))))))))))))"

definition DeleteRoleBinding_Execute :: "string list \<Rightarrow> id \<Rightarrow> id \<Rightarrow> id \<Rightarrow> unit io" where
  "DeleteRoleBinding_Execute ctx organizationID requestingUserID bindingID =
     bindE (IsMember organizationID requestingUserID) (\<lambda>isMember.
     guardE isMember ErrForbidden (
     bindE (HasPermission ctx organizationID requestingUserID ''organization:manage'') (\<lambda>allowed.
     guardE allowed ErrForbidden (
     RoleBindingRepository_Delete organizationID bindingID))))"

record RoleBindingSummary =
  rbs_Binding :: RoleBinding
  rbs_RoleName :: string
  rbs_SubjectName :: string
  rbs_ScopeName :: string

text \<open>The readers of display names that \<^verbatim>\<open>cmd/control-plane/main.go\<close> builds from \<open>GetByID\<close>.\<close>

definition ServiceAccountRepository_GetByID :: "id \<Rightarrow> id \<Rightarrow> ServiceAccount io" where
  "ServiceAccountRepository_GetByID organizationID i = query (\<lambda>d.
     oneRow ErrServiceAccountNotFound (\<lambda>s. sa_OrganizationID s = organizationID \<and> sa_ID s = i)
       (service_accounts d))"

definition teamNameReaderFunc :: "id \<Rightarrow> id \<Rightarrow> string option io" where
  "teamNameReaderFunc organizationID teamID =
     bindE (tryE (TeamRepository_GetByID organizationID teamID)) (\<lambda>r. case r of
       Inl e \<Rightarrow> if e = ErrTeamNotFound then retE None else throwE e
     | Inr team \<Rightarrow> retE (Some (team_Name team)))"

definition serviceAccountNameReaderFunc :: "id \<Rightarrow> id \<Rightarrow> string option io" where
  "serviceAccountNameReaderFunc organizationID serviceAccountID =
     bindE (tryE (ServiceAccountRepository_GetByID organizationID serviceAccountID)) (\<lambda>r. case r of
       Inl e \<Rightarrow> if e = ErrServiceAccountNotFound then retE None else throwE e
     | Inr sa \<Rightarrow> retE (Some (sa_Name sa)))"

definition projectNameReaderFunc :: "id \<Rightarrow> id \<Rightarrow> string option io" where
  "projectNameReaderFunc organizationID projectID =
     bindE (tryE (ProjectRepository_GetByID organizationID projectID)) (\<lambda>r. case r of
       Inl e \<Rightarrow> if e = ErrProjectNotFound then retE None else throwE e
     | Inr project \<Rightarrow> retE (Some (prj_Name project)))"

definition workspaceNameReaderFunc :: "id \<Rightarrow> id \<Rightarrow> string option io" where
  "workspaceNameReaderFunc organizationID workspaceID =
     bindE (tryE (WorkspaceRepository_GetByID organizationID workspaceID)) (\<lambda>r. case r of
       Inl e \<Rightarrow> if e = ErrWorkspaceNotFound then retE None else throwE e
     | Inr ws \<Rightarrow> retE (Some (ws_Name ws)))"

text \<open>\<^verbatim>\<open>if name, found, err := ...; err == nil && found { summary.X = name }\<close>.\<close>

definition nameOr :: "string option io \<Rightarrow> string io" where
  "nameOr m = bindE (tryE m) (\<lambda>r. case r of Inr (Some n) \<Rightarrow> retE n | _ \<Rightarrow> retE [])"

definition summarize :: "id \<Rightarrow> RoleBinding \<Rightarrow> RoleBindingSummary io" where
  "summarize organizationID b =
     bindE (nameOr (bindE (RoleRepository_GetByID organizationID (rb_RoleID b))
       (\<lambda>role. retE (Some (role_Name role))))) (\<lambda>roleName.
     bindE (if rb_SubjectType b = SubjectTypeUser then
              nameOr (bindE (UserRepository_GetUser (rb_SubjectID b)) (\<lambda>u. retE (map_option fst u)))
            else if rb_SubjectType b = SubjectTypeTeam then
              nameOr (teamNameReaderFunc organizationID (rb_SubjectID b))
            else if rb_SubjectType b = SubjectTypeServiceAccount then
              nameOr (serviceAccountNameReaderFunc organizationID (rb_SubjectID b))
            else retE []) (\<lambda>subjectName.
     bindE (if rb_ScopeType b = ScopeTypeProject then
              nameOr (projectNameReaderFunc organizationID (rb_ScopeID b))
            else if rb_ScopeType b = ScopeTypeWorkspace then
              nameOr (workspaceNameReaderFunc organizationID (rb_ScopeID b))
            else retE []) (\<lambda>scopeName.
     retE \<lparr>rbs_Binding = b, rbs_RoleName = roleName, rbs_SubjectName = subjectName,
           rbs_ScopeName = scopeName\<rparr>)))"

definition ListRoleBindings_Execute :: "id \<Rightarrow> id \<Rightarrow> id \<Rightarrow> RoleBindingSummary list io" where
  "ListRoleBindings_Execute organizationID subjectID requestingUserID =
     bindE (IsMember organizationID requestingUserID) (\<lambda>isMember.
     guardE isMember ErrForbidden (
     bindE (ListForSubject organizationID subjectID) (\<lambda>bindings.
     mapE (summarize organizationID) bindings)))"

section \<open>Facts on the services\<close>

lemma check_permissions_Inr:
  "check_permissions ps = Inr qs \<longleftrightarrow> qs = ps \<and> set ps \<subseteq> set AllPermissions"
proof (induction ps arbitrary: qs)
  case Nil
  then show ?case by auto
next
  case (Cons p ps)
  show ?case using Cons.IH [of ps] Cons.IH by (cases "check_permissions ps") auto
qed

lemma reads_check_subject [intro!]: "reads (check_subject og t i)"
  by (auto simp: check_subject_def TeamExists_def ServiceAccountExists_def)

lemma reads_check_scope [intro!]: "reads (check_scope og t i)"
  by (auto simp: check_scope_def ProjectExists_def WorkspaceRepository_Exists_def)

lemma check_scope_Inr:
  "run (check_scope og t i) w = (Inr (), w') \<Longrightarrow> t \<in> set ValidScopeTypes \<Longrightarrow>
     t = ''organization'' \<and> i = og \<or>
     t = ''project'' \<and> project_exists (db w) og i \<or>
     t = ''workspace'' \<and> list_ex (is_ws og i) (workspaces (db w))"
  by (auto simp: check_scope_def ValidScopeTypes_def rbac_consts success_simps ProjectExists_def
      WorkspaceRepository_Exists_def split: if_splits)

lemma RoleRepository_Create_Inr:
  "run (RoleRepository_Create role) w = (Inr u, w') \<Longrightarrow> \<exists>og. role_OrganizationID role = Some og \<and>
     roles (db w') = roles (db w) @ [role] \<and> role_bindings (db w') = role_bindings (db w)"
  by (auto simp: RoleRepository_Create_def success_simps split: option.splits if_splits)

lemma RoleRepository_Update_Inr:
  "run (RoleRepository_Update role) w = (Inr u, w') \<Longrightarrow> \<exists>og. role_OrganizationID role = Some og \<and>
     db w' = (db w)\<lparr>roles := upd (\<lambda>r. role_ID r = role_ID role \<and> role_OrganizationID r = Some og)
       (\<lambda>r. r\<lparr>role_Permissions := role_Permissions role\<rparr>) (roles (db w))\<rparr>"
  by (auto simp: RoleRepository_Update_def success_simps split: option.splits)

end
