(* ===== verification/Purge.thy ===== *)
theory Purge
  imports Access
begin

text \<open>
  \<^verbatim>\<open>OrganizationRepository.Purge\<close>: the hard delete of an organization. Its statements run in the
  order of the source, each failing (and rolling everything back) when a row it deletes is
  still referenced. The references of \<^verbatim>\<open>compose_file_networks\<close>, \<^verbatim>\<open>compose_file_volumes\<close>,
  \<^verbatim>\<open>compose_file_projects\<close> and \<^verbatim>\<open>fleet_variables\<close> are declared \<^verbatim>\<open>ON DELETE CASCADE\<close>: such rows go with the
  row they refer to. The last three groups of tables are deleted in this way only, or also.
\<close>

definition cf_of :: "id \<Rightarrow> db \<Rightarrow> id \<Rightarrow> bool" where
  "cf_of og d i = list_ex (\<lambda>c. cf_OrganizationID c = og \<and> cf_ID c = i) (compose_files d)"

definition net_of :: "id \<Rightarrow> db \<Rightarrow> id \<Rightarrow> bool" where
  "net_of og d i = list_ex (\<lambda>n. net_OrganizationID n = og \<and> net_ID n = i) (networks d)"

definition vol_of :: "id \<Rightarrow> db \<Rightarrow> id \<Rightarrow> bool" where
  "vol_of og d i = list_ex (\<lambda>v. vol_OrganizationID v = og \<and> vol_ID v = i) (volumes d)"

definition prj_of :: "id \<Rightarrow> db \<Rightarrow> id \<Rightarrow> bool" where
  "prj_of og d i = list_ex (\<lambda>p. prj_OrganizationID p = og \<and> prj_ID p = i) (projects d)"

definition purge_statements :: "id \<Rightarrow> (db \<Rightarrow> err + db) list" where
  "purge_statements og =
   [\<lambda>d. Inr (d\<lparr>runs := del (\<lambda>r. run_OrganizationID r = og) (runs d)\<rparr>),
    \<lambda>d. Inr (d\<lparr>outbox_events := del (\<lambda>e. ev_OrganizationID e = og) (outbox_events d)\<rparr>),
    \<lambda>d. Inr (d\<lparr>idempotency_keys := del (\<lambda>k. ik_OrganizationID k = og) (idempotency_keys d)\<rparr>),
    \<lambda>d. Inr (d\<lparr>variables := del (\<lambda>v. vr_OrganizationID v = og) (variables d)\<rparr>),
    \<lambda>d. Inr (d\<lparr>secret_mounts := del (\<lambda>s. sm_OrganizationID s = og) (secret_mounts d)\<rparr>),
    \<lambda>d. Inr (d\<lparr>operations := del (\<lambda>x. op_OrganizationID x = og) (operations d)\<rparr>),
    \<lambda>d. Inr (d\<lparr>fleet_variables := del (\<lambda>x. fvr_OrganizationID x = og) (fleet_variables d)\<rparr>),
    \<lambda>d. Inr (d\<lparr>compose_file_volumes := del (\<lambda>x. cfv_OrganizationID x = og) (compose_file_volumes d)\<rparr>),
    \<lambda>d. Inr (d\<lparr>compose_file_networks := del (\<lambda>x. cfn_OrganizationID x = og) (compose_file_networks d)\<rparr>),
    \<lambda>d. if list_ex (\<lambda>x. cf_of og d (op_ComposeFileID x)) (operations d) then Inl ErrForeignKeyViolation
        else Inr (d\<lparr>compose_files := del (\<lambda>x. cf_OrganizationID x = og) (compose_files d),
          fleet_variables := del (\<lambda>x. cf_of og d (fvr_ComposeFileID x)) (fleet_variables d),
          compose_file_volumes := del (\<lambda>x. cf_of og d (cfv_ComposeFileID x)) (compose_file_volumes d),
          compose_file_networks := del (\<lambda>x. cf_of og d (cfn_ComposeFileID x)) (compose_file_networks d),
          compose_file_projects := del (\<lambda>x. cf_of og d (cfp_ComposeFileID x)) (compose_file_projects d)\<rparr>),
    \<lambda>d. if list_ex (\<lambda>m. mr_OrganizationID m = og \<and> list_ex (\<lambda>x. op_MachineID x = mr_ID m) (operations d)) (machines d)
        then Inl ErrForeignKeyViolation
        else Inr (d\<lparr>machines := del (\<lambda>x. mr_OrganizationID x = og) (machines d)\<rparr>),
    \<lambda>d. Inr (d\<lparr>networks := del (\<lambda>x. net_OrganizationID x = og) (networks d),
          compose_file_networks := del (\<lambda>x. net_of og d (cfn_NetworkID x)) (compose_file_networks d)\<rparr>),
    \<lambda>d. Inr (d\<lparr>volumes := del (\<lambda>x. vol_OrganizationID x = og) (volumes d),
          compose_file_volumes := del (\<lambda>x. vol_of og d (cfv_VolumeID x)) (compose_file_volumes d)\<rparr>),
    \<lambda>d. Inr (d\<lparr>api_keys := del (\<lambda>x. akr_OrganizationID x = og) (api_keys d)\<rparr>),
    \<lambda>d. Inr (d\<lparr>service_accounts := del (\<lambda>s. sa_OrganizationID s = og) (service_accounts d)\<rparr>),
    \<lambda>d. if list_ex (\<lambda>x. ws_OrganizationID x = og \<and> list_ex (\<lambda>r. run_WorkspaceID r = ws_ID x) (runs d)) (workspaces d)
        then Inl ErrForeignKeyViolation
        else Inr (d\<lparr>workspaces := del (\<lambda>x. ws_OrganizationID x = og) (workspaces d)\<rparr>),
    \<lambda>d. Inr (d\<lparr>environments := del (\<lambda>e. env_OrganizationID e = og) (environments d)\<rparr>),
    \<lambda>d. Inr (d\<lparr>team_memberships := del (\<lambda>m. tm_OrganizationID m = og) (team_memberships d)\<rparr>),
    \<lambda>d. if list_ex (\<lambda>t. team_OrganizationID t = og \<and> list_ex (\<lambda>m. tm_TeamID m = team_ID t) (team_memberships d)) (teams d)
        then Inl ErrForeignKeyViolation
        else Inr (d\<lparr>teams := del (\<lambda>t. team_OrganizationID t = og) (teams d)\<rparr>),
    \<lambda>d. Inr (d\<lparr>role_bindings := del (\<lambda>b. rb_OrganizationID b = og) (role_bindings d)\<rparr>),
    \<lambda>d. if list_ex (\<lambda>r. role_OrganizationID r = Some og \<and> list_ex (\<lambda>b. rb_RoleID b = role_ID r) (role_bindings d)) (roles d)
        then Inl ErrForeignKeyViolation
        else Inr (d\<lparr>roles := del (\<lambda>r. role_OrganizationID r = Some og) (roles d)\<rparr>),
    \<lambda>d. if list_ex (\<lambda>p. prj_OrganizationID p = og \<and> (list_ex (\<lambda>x. ws_ProjectID x = prj_ID p) (workspaces d)
              \<or> list_ex (\<lambda>e. env_ProjectID e = prj_ID p) (environments d))) (projects d)
        then Inl ErrForeignKeyViolation
        else Inr (d\<lparr>projects := del (\<lambda>p. prj_OrganizationID p = og) (projects d),
          compose_file_projects := del (\<lambda>x. prj_of og d (cfp_ProjectID x)) (compose_file_projects d)\<rparr>),
    \<lambda>d. Inr (d\<lparr>organization_memberships := del (\<lambda>m. mem_OrganizationID m = og) (organization_memberships d)\<rparr>),
    \<lambda>d. Inr (d\<lparr>audit_entries := del (\<lambda>a. ae_OrganizationID a = og) (audit_entries d)\<rparr>),
    \<lambda>d. if list_ex (\<lambda>r. run_OrganizationID r = og) (runs d)
           \<or> list_ex (\<lambda>e. ev_OrganizationID e = og) (outbox_events d)
           \<or> list_ex (\<lambda>k. ik_OrganizationID k = og) (idempotency_keys d)
           \<or> list_ex (\<lambda>v. vr_OrganizationID v = og) (variables d)
           \<or> list_ex (\<lambda>s. sm_OrganizationID s = og) (secret_mounts d)
           \<or> list_ex (\<lambda>c. cfp_OrganizationID c = og) (compose_file_projects d)
           \<or> list_ex (\<lambda>x. op_OrganizationID x = og) (operations d)
           \<or> list_ex (\<lambda>x. fvr_OrganizationID x = og) (fleet_variables d)
           \<or> list_ex (\<lambda>x. cfv_OrganizationID x = og) (compose_file_volumes d)
           \<or> list_ex (\<lambda>x. cfn_OrganizationID x = og) (compose_file_networks d)
           \<or> list_ex (\<lambda>x. cf_OrganizationID x = og) (compose_files d)
           \<or> list_ex (\<lambda>x. mr_OrganizationID x = og) (machines d)
           \<or> list_ex (\<lambda>x. net_OrganizationID x = og) (networks d)
           \<or> list_ex (\<lambda>x. vol_OrganizationID x = og) (volumes d)
           \<or> list_ex (\<lambda>x. akr_OrganizationID x = og) (api_keys d)
           \<or> list_ex (\<lambda>s. sa_OrganizationID s = og) (service_accounts d)
           \<or> list_ex (\<lambda>x. ws_OrganizationID x = og) (workspaces d)
           \<or> list_ex (\<lambda>e. env_OrganizationID e = og) (environments d)
           \<or> list_ex (\<lambda>m. tm_OrganizationID m = og) (team_memberships d)
           \<or> list_ex (\<lambda>t. team_OrganizationID t = og) (teams d)
           \<or> list_ex (\<lambda>b. rb_OrganizationID b = og) (role_bindings d)
           \<or> list_ex (\<lambda>r. role_OrganizationID r = Some og) (roles d)
           \<or> list_ex (\<lambda>p. prj_OrganizationID p = og) (projects d)
           \<or> list_ex (\<lambda>m. mem_OrganizationID m = og) (organization_memberships d)
           \<or> list_ex (\<lambda>a. ae_OrganizationID a = og) (audit_entries d)
        then Inl ErrForeignKeyViolation
        else Inr (d\<lparr>organizations := del (\<lambda>g. org_ID g = og) (organizations d)\<rparr>)]"

fun exec_statements :: "(db \<Rightarrow> err + db) list \<Rightarrow> db \<Rightarrow> err + db" where
  "exec_statements [] d = Inr d"
| "exec_statements (s # ss) d = (case s d of Inl e \<Rightarrow> Inl e | Inr d' \<Rightarrow> exec_statements ss d')"

definition OrganizationRepository_Purge :: "id \<Rightarrow> unit io" where
  "OrganizationRepository_Purge organizationID = tx (\<lambda>_ d.
     case exec_statements (purge_statements organizationID) d of
       Inl e \<Rightarrow> Inl e | Inr d' \<Rightarrow> Inr ((), d'))"

section \<open>What a purge leaves\<close>

text \<open>
  The database without the rows of an organization; every other row is kept, in place, except the
  links and Fleet variables of others that refer to a row that is gone.
\<close>

definition without_org :: "id \<Rightarrow> db \<Rightarrow> db" where
  "without_org og d = d\<lparr>
     organizations := del (\<lambda>x. org_ID x = og) (organizations d),
     service_accounts := del (\<lambda>x. sa_OrganizationID x = og) (service_accounts d),
     organization_memberships := del (\<lambda>x. mem_OrganizationID x = og) (organization_memberships d),
     projects := del (\<lambda>x. prj_OrganizationID x = og) (projects d),
     teams := del (\<lambda>x. team_OrganizationID x = og) (teams d),
     team_memberships := del (\<lambda>x. tm_OrganizationID x = og) (team_memberships d),
     roles := del (\<lambda>x. role_OrganizationID x = Some og) (roles d),
     role_bindings := del (\<lambda>x. rb_OrganizationID x = og) (role_bindings d),
     environments := del (\<lambda>x. env_OrganizationID x = og) (environments d),
     workspaces := del (\<lambda>x. ws_OrganizationID x = og) (workspaces d),
     runs := del (\<lambda>x. run_OrganizationID x = og) (runs d),
     variables := del (\<lambda>x. vr_OrganizationID x = og) (variables d),
     secret_mounts := del (\<lambda>x. sm_OrganizationID x = og) (secret_mounts d),
     compose_file_projects := del (\<lambda>x. cf_of og d (cfp_ComposeFileID x) \<or> prj_of og d (cfp_ProjectID x)) (compose_file_projects d),
     outbox_events := del (\<lambda>x. ev_OrganizationID x = og) (outbox_events d),
     audit_entries := del (\<lambda>x. ae_OrganizationID x = og) (audit_entries d),
     idempotency_keys := del (\<lambda>x. ik_OrganizationID x = og) (idempotency_keys d),
     api_keys := del (\<lambda>x. akr_OrganizationID x = og) (api_keys d),
     machines := del (\<lambda>x. mr_OrganizationID x = og) (machines d),
     networks := del (\<lambda>x. net_OrganizationID x = og) (networks d),
     volumes := del (\<lambda>x. vol_OrganizationID x = og) (volumes d),
     compose_files := del (\<lambda>x. cf_OrganizationID x = og) (compose_files d),
     compose_file_networks := del (\<lambda>x. cfn_OrganizationID x = og \<or> cf_of og d (cfn_ComposeFileID x)
       \<or> net_of og d (cfn_NetworkID x)) (compose_file_networks d),
     compose_file_volumes := del (\<lambda>x. cfv_OrganizationID x = og \<or> cf_of og d (cfv_ComposeFileID x)
       \<or> vol_of og d (cfv_VolumeID x)) (compose_file_volumes d),
     fleet_variables := del (\<lambda>x. fvr_OrganizationID x = og \<or> cf_of og d (fvr_ComposeFileID x)) (fleet_variables d),
     operations := del (\<lambda>x. op_OrganizationID x = og) (operations d)\<rparr>"

text \<open>
  Some row of another organization refers to a row of this one, or a link of this one between a
  Compose file and a project belongs to neither's organization.
\<close>

definition referenced_from_outside :: "id \<Rightarrow> db \<Rightarrow> bool" where
  "referenced_from_outside og d =
    (list_ex (\<lambda>x. ws_OrganizationID x = og \<and>
        list_ex (\<lambda>r. run_OrganizationID r \<noteq> og \<and> run_WorkspaceID r = ws_ID x) (runs d)) (workspaces d)
     \<or> list_ex (\<lambda>t. team_OrganizationID t = og \<and>
        list_ex (\<lambda>m. tm_OrganizationID m \<noteq> og \<and> tm_TeamID m = team_ID t) (team_memberships d)) (teams d)
     \<or> list_ex (\<lambda>r. role_OrganizationID r = Some og \<and>
        list_ex (\<lambda>b. rb_OrganizationID b \<noteq> og \<and> rb_RoleID b = role_ID r) (role_bindings d)) (roles d)
     \<or> list_ex (\<lambda>p. prj_OrganizationID p = og \<and>
        (list_ex (\<lambda>x. ws_OrganizationID x \<noteq> og \<and> ws_ProjectID x = prj_ID p) (workspaces d)
         \<or> list_ex (\<lambda>e. env_OrganizationID e \<noteq> og \<and> env_ProjectID e = prj_ID p) (environments d))) (projects d)
     \<or> list_ex (\<lambda>x. op_OrganizationID x \<noteq> og \<and> cf_of og d (op_ComposeFileID x)) (operations d)
     \<or> list_ex (\<lambda>m. mr_OrganizationID m = og \<and>
        list_ex (\<lambda>x. op_OrganizationID x \<noteq> og \<and> op_MachineID x = mr_ID m) (operations d)) (machines d)
     \<or> list_ex (\<lambda>x. \<not> cf_of og d (cfp_ComposeFileID x) \<and> \<not> prj_of og d (cfp_ProjectID x)
        \<and> cfp_OrganizationID x = og) (compose_file_projects d))"

text \<open>
  The rows of the other organizations: every table without the rows of this one, the tables of users and their tokens as they are. And
  the links and Fleet variables of other organizations that a purge deletes because they refer to a row of this one.
\<close>

definition other_rows :: "id \<Rightarrow> db \<Rightarrow> db" where
  "other_rows og d = d\<lparr>
     organizations := del (\<lambda>x. org_ID x = og) (organizations d),
     service_accounts := del (\<lambda>x. sa_OrganizationID x = og) (service_accounts d),
     organization_memberships := del (\<lambda>x. mem_OrganizationID x = og) (organization_memberships d),
     projects := del (\<lambda>x. prj_OrganizationID x = og) (projects d),
     teams := del (\<lambda>x. team_OrganizationID x = og) (teams d),
     team_memberships := del (\<lambda>x. tm_OrganizationID x = og) (team_memberships d),
     roles := del (\<lambda>x. role_OrganizationID x = Some og) (roles d),
     role_bindings := del (\<lambda>x. rb_OrganizationID x = og) (role_bindings d),
     environments := del (\<lambda>x. env_OrganizationID x = og) (environments d),
     workspaces := del (\<lambda>x. ws_OrganizationID x = og) (workspaces d),
     runs := del (\<lambda>x. run_OrganizationID x = og) (runs d),
     variables := del (\<lambda>x. vr_OrganizationID x = og) (variables d),
     secret_mounts := del (\<lambda>x. sm_OrganizationID x = og) (secret_mounts d),
     compose_file_projects := del (\<lambda>x. cfp_OrganizationID x = og) (compose_file_projects d),
     outbox_events := del (\<lambda>x. ev_OrganizationID x = og) (outbox_events d),
     audit_entries := del (\<lambda>x. ae_OrganizationID x = og) (audit_entries d),
     idempotency_keys := del (\<lambda>x. ik_OrganizationID x = og) (idempotency_keys d),
     api_keys := del (\<lambda>x. akr_OrganizationID x = og) (api_keys d),
     machines := del (\<lambda>x. mr_OrganizationID x = og) (machines d),
     networks := del (\<lambda>x. net_OrganizationID x = og) (networks d),
     volumes := del (\<lambda>x. vol_OrganizationID x = og) (volumes d),
     compose_files := del (\<lambda>x. cf_OrganizationID x = og) (compose_files d),
     compose_file_networks := del (\<lambda>x. cfn_OrganizationID x = og) (compose_file_networks d),
     compose_file_volumes := del (\<lambda>x. cfv_OrganizationID x = og) (compose_file_volumes d),
     fleet_variables := del (\<lambda>x. fvr_OrganizationID x = og) (fleet_variables d),
     operations := del (\<lambda>x. op_OrganizationID x = og) (operations d)\<rparr>"

definition foreign_link_project :: "id \<Rightarrow> db \<Rightarrow> ComposeFileProject \<Rightarrow> bool" where
  "foreign_link_project og d x = (cf_of og d (cfp_ComposeFileID x) \<or> prj_of og d (cfp_ProjectID x))"

definition foreign_link_network :: "id \<Rightarrow> db \<Rightarrow> ComposeFileNetwork \<Rightarrow> bool" where
  "foreign_link_network og d x = (cf_of og d (cfn_ComposeFileID x) \<or> net_of og d (cfn_NetworkID x))"

definition foreign_link_volume :: "id \<Rightarrow> db \<Rightarrow> ComposeFileVolume \<Rightarrow> bool" where
  "foreign_link_volume og d x = (cf_of og d (cfv_ComposeFileID x) \<or> vol_of og d (cfv_VolumeID x))"

definition without_cascaded :: "id \<Rightarrow> db \<Rightarrow> db \<Rightarrow> db" where
  "without_cascaded og d e = e\<lparr>
     compose_file_projects := del (foreign_link_project og d) (compose_file_projects e),
     compose_file_networks := del (foreign_link_network og d) (compose_file_networks e),
     compose_file_volumes := del (foreign_link_volume og d) (compose_file_volumes e),
     fleet_variables := del (\<lambda>x. cf_of og d (fvr_ComposeFileID x)) (fleet_variables e)\<rparr>"

lemma list_ex_del [simp]: "list_ex q (del p xs) \<longleftrightarrow> list_ex (\<lambda>x. \<not> p x \<and> q x) xs"
  by (auto simp: list_ex_iff)

lemma list_ex_False [simp]: "\<not> list_ex (\<lambda>x. False) xs"
  by (simp add: list_ex_iff)

lemma del_del: "del p (del q xs) = del (\<lambda>x. q x \<or> p x) xs"
  by (simp add: del_def)

lemma list_ex_contradiction [simp]:
  "\<not> list_ex (\<lambda>x. f x \<noteq> c \<and> p x \<and> f x = c) xs" "\<not> list_ex (\<lambda>x. f x \<noteq> c \<and> p x \<and> q x \<and> f x = c) xs"
  by (auto simp: list_ex_iff)

lemma exec_purge_statements:
  "exec_statements (purge_statements og) d =
     (if referenced_from_outside og d then Inl ErrForeignKeyViolation else Inr (without_org og d))"
  by (simp add: purge_statements_def referenced_from_outside_def without_org_def del_del
      cf_of_def net_of_def vol_of_def prj_of_def)

lemma del_cong: "(\<And>x. x \<in> set xs \<Longrightarrow> p x \<longleftrightarrow> q x) \<Longrightarrow> del p xs = del q xs"
  by (auto simp: del_def intro: filter_cong)

text \<open>A purge that succeeds leaves the rows of the other organizations, less what the cascade takes of them.\<close>

lemma without_org_others:
  assumes "\<not> referenced_from_outside og d"
  shows "without_org og d = without_cascaded og d (other_rows og d)"
proof -
  have "del (\<lambda>x. cf_of og d (cfp_ComposeFileID x) \<or> prj_of og d (cfp_ProjectID x)) (compose_file_projects d)
      = del (\<lambda>x. cfp_OrganizationID x = og \<or> cf_of og d (cfp_ComposeFileID x) \<or> prj_of og d (cfp_ProjectID x)) (compose_file_projects d)"
    by (rule del_cong) (use assms in \<open>auto simp: referenced_from_outside_def list_ex_iff\<close>)
  then show ?thesis
    by (simp add: without_org_def without_cascaded_def other_rows_def del_del foreign_link_project_def foreign_link_network_def
        foreign_link_volume_def disj_assoc)
qed

text \<open>Without links from outside the cascade takes nothing.\<close>

lemma del_other: "(\<And>x. x \<in> set xs \<Longrightarrow> q x \<Longrightarrow> p x) \<Longrightarrow> del q (del p xs) = del p xs"
  unfolding del_del by (rule del_cong) auto

lemma without_cascaded_idle:
  assumes "\<forall>x \<in> set (compose_file_projects d). foreign_link_project og d x \<longrightarrow> cfp_OrganizationID x = og"
    and "\<forall>x \<in> set (compose_file_networks d). foreign_link_network og d x \<longrightarrow> cfn_OrganizationID x = og"
    and "\<forall>x \<in> set (compose_file_volumes d). foreign_link_volume og d x \<longrightarrow> cfv_OrganizationID x = og"
    and "\<forall>x \<in> set (fleet_variables d). cf_of og d (fvr_ComposeFileID x) \<longrightarrow> fvr_OrganizationID x = og"
  shows "without_cascaded og d (other_rows og d) = other_rows og d"
  using assms by (simp add: without_cascaded_def other_rows_def del_other)

end
