(* ===== verification/Tenancy.thy ===== *)
theory Tenancy
  imports Rbac Purge
begin

text \<open>Tenancy's services (\<^verbatim>\<open>internal/tenancy/application\<close>).\<close>

section \<open>Organizations\<close>

text \<open>\<open>u 0\<close> to \<open>u 3\<close>: the ids of the organization, its event, the membership and the binding.\<close>

definition CreateOrganization_Execute :: "(nat \<Rightarrow> id) \<Rightarrow> string \<Rightarrow> string \<Rightarrow> id \<Rightarrow> Organization io" where
  "CreateOrganization_Execute u name slug createdByUserID =
     bindE CountOrganizations (\<lambda>count.
     let isFirstOrgEver = (count = 0) in
     bindE (if \<not> isFirstOrgEver then
              bindE (IsPlatformAdmin createdByUserID) (\<lambda>isAdmin. guardE isAdmin ErrForbidden (retE ()))
            else retE ()) (\<lambda>_.
     bindE nowE (\<lambda>now.
     bindE (liftE (NewOrganization (u 0) now name slug)) (\<lambda>org.
     bindE (OrganizationRepository_Create (u 1) org createdByUserID) (\<lambda>_.
     bindE nowE (\<lambda>now'.
     bindE (MembershipRepository_Create (NewOrganizationMembership (u 2) now' (org_ID org) createdByUserID)) (\<lambda>_.
     bindE (AssignRole (u 3) (org_ID org) createdByUserID RoleOwner) (\<lambda>_.
     bindE (if isFirstOrgEver then SetPlatformAdmin createdByUserID True else retE ()) (\<lambda>_.
     retE org)))))))))"

definition GetOrganization_Execute :: "id \<Rightarrow> id \<Rightarrow> Organization io" where
  "GetOrganization_Execute i requestingUserID =
     bindE (IsMember i requestingUserID) (\<lambda>isMember.
     guardE isMember ErrOrganizationNotFound (
     OrganizationRepository_GetByID i))"

definition ArchiveOrganization_Execute :: "id \<Rightarrow> string list \<Rightarrow> id \<Rightarrow> id \<Rightarrow> Organization io" where
  "ArchiveOrganization_Execute uuid ctx organizationID requestingUserID =
     bindE (IsMember organizationID requestingUserID) (\<lambda>isMember.
     guardE isMember ErrOrganizationNotFound (
     bindE (HasPermission ctx organizationID requestingUserID ''organization:delete'') (\<lambda>allowed.
     guardE allowed ErrForbidden (
     bindE (OrganizationRepository_GetByID organizationID) (\<lambda>org.
     bindE nowE (\<lambda>now.
     bindE (liftE (Organization_Archive now org)) (\<lambda>org'.
     bindE (OrganizationRepository_Archive uuid org' requestingUserID) (\<lambda>_.
     retE org'))))))))"

definition DeleteOrganization_Execute :: "string list \<Rightarrow> id \<Rightarrow> id \<Rightarrow> unit io" where
  "DeleteOrganization_Execute ctx organizationID requestingUserID =
     bindE (IsMember organizationID requestingUserID) (\<lambda>isMember.
     guardE isMember ErrOrganizationNotFound (
     bindE (HasPermission ctx organizationID requestingUserID ''organization:delete'') (\<lambda>allowed.
     guardE allowed ErrForbidden (
     bindE (OrganizationRepository_GetByID organizationID) (\<lambda>_.
     OrganizationRepository_Purge organizationID)))))"

definition ListMyOrganizations_Execute :: "id \<Rightarrow> Organization list io" where
  "ListMyOrganizations_Execute userID = ListOrganizationsForUser userID"

text \<open>One sweep of the purge reaper: an organization that fails to purge is logged and skipped.\<close>

definition PurgeReaper_reapOnce :: "time \<Rightarrow> unit io" where
  "PurgeReaper_reapOnce purgeAfter =
     bindE nowE (\<lambda>now.
     bindE (FindOrganizationsPastPurgeWindow (now - purgeAfter)) (\<lambda>orgIDs.
     forE orgIDs (\<lambda>orgID. bindE (tryE (OrganizationRepository_Purge orgID)) (\<lambda>_. retE ()))))"

section \<open>Members\<close>

definition AddMember_Execute :: "(nat \<Rightarrow> id) \<Rightarrow> string list \<Rightarrow> id \<Rightarrow> id \<Rightarrow> id \<Rightarrow> unit io" where
  "AddMember_Execute u ctx organizationID requestingUserID newMemberUserID =
     bindE (IsMember organizationID requestingUserID) (\<lambda>isMember.
     guardE isMember ErrOrganizationNotFound (
     bindE (HasPermission ctx organizationID requestingUserID ''organization:manage'') (\<lambda>allowed.
     guardE allowed ErrForbidden (
     bindE nowE (\<lambda>now.
     bindE (MembershipRepository_Create (NewOrganizationMembership (u 0) now organizationID newMemberUserID)) (\<lambda>_.
     AssignRole (u 1) organizationID newMemberUserID RoleRead))))))"

definition RemoveMember_Execute :: "string list \<Rightarrow> id \<Rightarrow> id \<Rightarrow> id \<Rightarrow> unit io" where
  "RemoveMember_Execute ctx organizationID requestingUserID targetUserID =
     bindE (IsMember organizationID requestingUserID) (\<lambda>isRequesterMember.
     guardE isRequesterMember ErrOrganizationNotFound (
     bindE (HasPermission ctx organizationID requestingUserID ''organization:manage'') (\<lambda>allowed.
     guardE allowed ErrForbidden (
     bindE (MembershipExists organizationID targetUserID) (\<lambda>targetExists.
     guardE targetExists ErrOrganizationNotFound (
     bindE (DeleteForSubject organizationID SubjectTypeUser targetUserID) (\<lambda>_.
     MembershipRepository_Delete organizationID targetUserID)))))))"

definition BlockMember_Execute :: "string list \<Rightarrow> id \<Rightarrow> id \<Rightarrow> id \<Rightarrow> unit io" where
  "BlockMember_Execute ctx organizationID requestingUserID targetUserID =
     bindE (IsMember organizationID requestingUserID) (\<lambda>isRequesterMember.
     guardE isRequesterMember ErrOrganizationNotFound (
     bindE (HasPermission ctx organizationID requestingUserID ''organization:manage'') (\<lambda>allowed.
     guardE allowed ErrForbidden (
     bindE (MembershipExists organizationID targetUserID) (\<lambda>targetExists.
     guardE targetExists ErrOrganizationNotFound (
     SetBlocked organizationID targetUserID True))))))"

definition UnblockMember_Execute :: "string list \<Rightarrow> id \<Rightarrow> id \<Rightarrow> id \<Rightarrow> unit io" where
  "UnblockMember_Execute ctx organizationID requestingUserID targetUserID =
     bindE (IsMember organizationID requestingUserID) (\<lambda>isRequesterMember.
     guardE isRequesterMember ErrOrganizationNotFound (
     bindE (HasPermission ctx organizationID requestingUserID ''organization:manage'') (\<lambda>allowed.
     guardE allowed ErrForbidden (
     bindE (MembershipExists organizationID targetUserID) (\<lambda>targetExists.
     guardE targetExists ErrOrganizationNotFound (
     SetBlocked organizationID targetUserID False))))))"

definition validRoleNames :: "string list" where
  "validRoleNames = [''owner'', ''admin'', ''write'', ''read'']"

definition ChangeMemberRole_Execute :: "id \<Rightarrow> string list \<Rightarrow> id \<Rightarrow> id \<Rightarrow> id \<Rightarrow> string \<Rightarrow> unit io" where
  "ChangeMemberRole_Execute uuid ctx organizationID requestingUserID targetUserID roleName =
     guardE (roleName \<in> set validRoleNames)
       (ValidationError (''role '' @ goQuote roleName @ '' must be one of owner, admin, write, read'')) (
     bindE (IsMember organizationID requestingUserID) (\<lambda>isRequesterMember.
     guardE isRequesterMember ErrOrganizationNotFound (
     bindE (HasPermission ctx organizationID requestingUserID ''organization:manage'') (\<lambda>allowed.
     guardE allowed ErrForbidden (
     bindE (IsMember organizationID targetUserID) (\<lambda>isTargetMember.
     guardE isTargetMember ErrOrganizationNotFound (
     ReplaceRole uuid organizationID targetUserID roleName)))))))"

record MemberSummary =
  ms_UserID :: id
  ms_Username :: string
  ms_Email :: string
  ms_RoleName :: string
  ms_JoinedAt :: time
  ms_Blocked :: bool

text \<open>\<^verbatim>\<open>username, email, _, err := s.userReader.GetUser(...)\<close>: not found gives empty strings.\<close>

definition names_of :: "(string \<times> string) option \<Rightarrow> string \<times> string" where
  "names_of u = (case u of None \<Rightarrow> ([], []) | Some p \<Rightarrow> p)"

definition ListMembers_Execute :: "id \<Rightarrow> id \<Rightarrow> MemberSummary list io" where
  "ListMembers_Execute organizationID requestingUserID =
     bindE (IsMember organizationID requestingUserID) (\<lambda>isMember.
     guardE isMember ErrOrganizationNotFound (
     bindE (MembershipRepository_ListByOrganization organizationID) (\<lambda>memberships.
     mapE (\<lambda>m.
       bindE (UserRepository_GetUser (mem_UserID m)) (\<lambda>user.
       bindE (GetOrgScopeRoleName organizationID (mem_UserID m)) (\<lambda>roleName.
       retE \<lparr>ms_UserID = mem_UserID m, ms_Username = fst (names_of user), ms_Email = snd (names_of user),
             ms_RoleName = (case roleName of None \<Rightarrow> [] | Some n \<Rightarrow> n), ms_JoinedAt = mem_JoinedAt m,
             ms_Blocked = (mem_BlockedAt m \<noteq> None)\<rparr>))) memberships)))"

definition ListAvailableUsers_Execute :: "string list \<Rightarrow> id \<Rightarrow> id \<Rightarrow> (id \<times> string \<times> string) list io" where
  "ListAvailableUsers_Execute ctx organizationID requestingUserID =
     bindE (IsMember organizationID requestingUserID) (\<lambda>isMember.
     guardE isMember ErrOrganizationNotFound (
     bindE (HasPermission ctx organizationID requestingUserID ''organization:manage'') (\<lambda>allowed.
     guardE allowed ErrForbidden (
     bindE UserRepository_ListAll (\<lambda>allUsers.
     bindE (MembershipRepository_ListByOrganization organizationID) (\<lambda>memberships.
     let existing = map mem_UserID memberships in
     retE (filter (\<lambda>u. fst u \<notin> set existing) allUsers)))))))"

section \<open>Projects\<close>

definition CreateProject_Execute ::
  "id \<Rightarrow> string list \<Rightarrow> id \<Rightarrow> id \<Rightarrow> string \<Rightarrow> string \<Rightarrow> string \<Rightarrow> Project io" where
  "CreateProject_Execute uuid ctx organizationID requestingUserID name slug description =
     bindE (IsMember organizationID requestingUserID) (\<lambda>isMember.
     guardE isMember ErrOrganizationNotFound (
     bindE (HasPermission ctx organizationID requestingUserID ''project:manage'') (\<lambda>allowed.
     guardE allowed ErrForbidden (
     bindE (OrganizationRepository_GetByID organizationID) (\<lambda>org.
     guardE (org_Status org \<noteq> OrganizationStatusArchived) ErrOrganizationArchived (
     bindE nowE (\<lambda>now.
     bindE (liftE (NewProject uuid now organizationID name slug description)) (\<lambda>project.
     bindE (ProjectRepository_Create project) (\<lambda>_.
     retE project)))))))))"

definition GetProject_Execute :: "string list \<Rightarrow> id \<Rightarrow> id \<Rightarrow> id \<Rightarrow> Project io" where
  "GetProject_Execute ctx organizationID projectID requestingUserID =
     bindE (IsMember organizationID requestingUserID) (\<lambda>isMember.
     guardE isMember ErrOrganizationNotFound (
     bindE (Tenancy_canAccessProject ctx organizationID requestingUserID projectID) (\<lambda>allowed.
     guardE allowed ErrForbidden (
     ProjectRepository_GetByID organizationID projectID))))"

definition ListProjects_Execute :: "string list \<Rightarrow> id \<Rightarrow> id \<Rightarrow> Project list io" where
  "ListProjects_Execute ctx organizationID requestingUserID =
     bindE (IsMember organizationID requestingUserID) (\<lambda>isMember.
     guardE isMember ErrOrganizationNotFound (
     bindE (ProjectRepository_ListByOrganization organizationID) (\<lambda>projects.
     bindE (HasPermission ctx organizationID requestingUserID ''organization:manage'') (\<lambda>isAdmin.
     if isAdmin then retE projects
     else
       bindE (mapE (\<lambda>p.
         bindE (HasScopedPermission ctx organizationID requestingUserID ''project:read'' ''project'' (prj_ID p))
           (\<lambda>canAccess. retE (canAccess, p))) projects) (\<lambda>checked.
       retE (map snd (filter fst checked)))))))"

definition DeleteProject_Execute :: "string list \<Rightarrow> id \<Rightarrow> id \<Rightarrow> id \<Rightarrow> unit io" where
  "DeleteProject_Execute ctx organizationID projectID requestingUserID =
     bindE (IsMember organizationID requestingUserID) (\<lambda>isMember.
     guardE isMember ErrOrganizationNotFound (
     bindE (HasPermission ctx organizationID requestingUserID ''project:delete'') (\<lambda>allowed.
     guardE allowed ErrForbidden (
     bindE (ProjectRepository_GetByID organizationID projectID) (\<lambda>_.
     ProjectRepository_Purge organizationID projectID)))))"

section \<open>Teams\<close>

definition CreateTeam_Execute :: "id \<Rightarrow> string list \<Rightarrow> id \<Rightarrow> id \<Rightarrow> string \<Rightarrow> Team io" where
  "CreateTeam_Execute uuid ctx organizationID requestingUserID name =
     bindE (IsMember organizationID requestingUserID) (\<lambda>isMember.
     guardE isMember ErrOrganizationNotFound (
     bindE (HasPermission ctx organizationID requestingUserID ''organization:manage'') (\<lambda>allowed.
     guardE allowed ErrForbidden (
     bindE nowE (\<lambda>now.
     bindE (liftE (NewTeam uuid now organizationID name)) (\<lambda>team.
     bindE (TeamRepository_Create team) (\<lambda>_.
     retE team)))))))"

definition UpdateTeam_Execute :: "string list \<Rightarrow> id \<Rightarrow> id \<Rightarrow> id \<Rightarrow> string \<Rightarrow> Team io" where
  "UpdateTeam_Execute ctx organizationID requestingUserID teamID name =
     bindE (IsMember organizationID requestingUserID) (\<lambda>isMember.
     guardE isMember ErrOrganizationNotFound (
     bindE (HasPermission ctx organizationID requestingUserID ''organization:manage'') (\<lambda>allowed.
     guardE allowed ErrForbidden (
     guardE (name \<noteq> []) (ValidationError ''name is required'') (
     bindE (TeamRepository_GetByID organizationID teamID) (\<lambda>team.
     let team' = team\<lparr>team_Name := name\<rparr> in
     bindE (TeamRepository_Update team') (\<lambda>_.
     retE team')))))))"

definition DeleteTeam_Execute :: "string list \<Rightarrow> id \<Rightarrow> id \<Rightarrow> id \<Rightarrow> unit io" where
  "DeleteTeam_Execute ctx organizationID requestingUserID teamID =
     bindE (IsMember organizationID requestingUserID) (\<lambda>isMember.
     guardE isMember ErrOrganizationNotFound (
     bindE (HasPermission ctx organizationID requestingUserID ''organization:manage'') (\<lambda>allowed.
     guardE allowed ErrForbidden (
     bindE (TeamRepository_GetByID organizationID teamID) (\<lambda>_.
     bindE (DeleteForSubject organizationID SubjectTypeTeam teamID) (\<lambda>_.
     TeamRepository_Delete organizationID teamID))))))"

definition ListTeams_Execute :: "id \<Rightarrow> id \<Rightarrow> Team list io" where
  "ListTeams_Execute organizationID requestingUserID =
     bindE (IsMember organizationID requestingUserID) (\<lambda>isMember.
     guardE isMember ErrOrganizationNotFound (
     TeamRepository_ListByOrganization organizationID))"

definition AddTeamMember_Execute :: "id \<Rightarrow> string list \<Rightarrow> id \<Rightarrow> id \<Rightarrow> id \<Rightarrow> id \<Rightarrow> unit io" where
  "AddTeamMember_Execute uuid ctx organizationID requestingUserID teamID newMemberUserID =
     bindE (IsMember organizationID requestingUserID) (\<lambda>isMember.
     guardE isMember ErrOrganizationNotFound (
     bindE (HasPermission ctx organizationID requestingUserID ''organization:manage'') (\<lambda>allowed.
     guardE allowed ErrForbidden (
     bindE (TeamRepository_GetByID organizationID teamID) (\<lambda>team.
     bindE (IsMember organizationID newMemberUserID) (\<lambda>targetIsMember.
     guardE targetIsMember (ValidationError ''user_id is not a member of this organization'') (
     bindE nowE (\<lambda>now.
     TeamRepository_AddMember (NewTeamMembership uuid now (team_ID team) organizationID newMemberUserID)))))))))"

definition RemoveTeamMember_Execute :: "string list \<Rightarrow> id \<Rightarrow> id \<Rightarrow> id \<Rightarrow> id \<Rightarrow> unit io" where
  "RemoveTeamMember_Execute ctx organizationID requestingUserID teamID memberUserID =
     bindE (IsMember organizationID requestingUserID) (\<lambda>isMember.
     guardE isMember ErrOrganizationNotFound (
     bindE (HasPermission ctx organizationID requestingUserID ''organization:manage'') (\<lambda>allowed.
     guardE allowed ErrForbidden (
     bindE (TeamRepository_GetByID organizationID teamID) (\<lambda>team.
     TeamRepository_RemoveMember organizationID (team_ID team) memberUserID)))))"

definition ListTeamMembers_Execute :: "id \<Rightarrow> id \<Rightarrow> id \<Rightarrow> (id \<times> string \<times> string \<times> time) list io" where
  "ListTeamMembers_Execute organizationID teamID requestingUserID =
     bindE (IsMember organizationID requestingUserID) (\<lambda>isMember.
     guardE isMember ErrOrganizationNotFound (
     bindE (TeamRepository_GetByID organizationID teamID) (\<lambda>_.
     bindE (TeamRepository_ListMembers organizationID teamID) (\<lambda>memberships.
     mapE (\<lambda>m.
       bindE (UserRepository_GetUser (tm_UserID m)) (\<lambda>user.
       retE (tm_UserID m, fst (names_of user), snd (names_of user), tm_JoinedAt m))) memberships))))"

end
