(* ===== verification/Workspaces.thy ===== *)
theory Workspaces
  imports Access
begin

text \<open>The Workspace context's services (\<^verbatim>\<open>internal/workspace/application\<close>).\<close>

definition CreateEnvironment_Execute ::
  "id \<Rightarrow> string list \<Rightarrow> id \<Rightarrow> id \<Rightarrow> id \<Rightarrow> string \<Rightarrow> int \<Rightarrow> bool \<Rightarrow> Environment io" where
  "CreateEnvironment_Execute uuid ctx organizationID projectID requestingUserID name promotionRank
       requiresApproval =
     bindE (IsMember organizationID requestingUserID) (\<lambda>isMember.
     guardE isMember ErrProjectNotFound (
     bindE (ProjectExists organizationID projectID) (\<lambda>exists.
     guardE exists ErrProjectNotFound (
     bindE (HasPermission ctx organizationID requestingUserID ''organization:manage'') (\<lambda>allowed.
     guardE allowed ErrForbidden (
     bindE nowE (\<lambda>now.
     bindE (liftE (NewEnvironment uuid now organizationID projectID name promotionRank requiresApproval)) (\<lambda>env.
     bindE (EnvironmentRepository_Create env) (\<lambda>_.
     retE env)))))))))"

definition GetEnvironment_Execute :: "id \<Rightarrow> id \<Rightarrow> id \<Rightarrow> id \<Rightarrow> Environment io" where
  "GetEnvironment_Execute organizationID projectID environmentID requestingUserID =
     bindE (IsMember organizationID requestingUserID) (\<lambda>isMember.
     guardE isMember ErrProjectNotFound (
     bindE (ProjectExists organizationID projectID) (\<lambda>exists.
     guardE exists ErrProjectNotFound (
     bindE (EnvironmentRepository_GetByID organizationID environmentID) (\<lambda>env.
     guardE (env_ProjectID env = projectID) ErrEnvironmentNotFound (
     retE env))))))"

definition ListEnvironments_Execute :: "id \<Rightarrow> id \<Rightarrow> id \<Rightarrow> Environment list io" where
  "ListEnvironments_Execute organizationID projectID requestingUserID =
     bindE (IsMember organizationID requestingUserID) (\<lambda>isMember.
     guardE isMember ErrProjectNotFound (
     bindE (ProjectExists organizationID projectID) (\<lambda>exists.
     guardE exists ErrProjectNotFound (
     EnvironmentRepository_ListByProject organizationID projectID))))"

definition check_environment :: "id \<Rightarrow> id \<Rightarrow> id option \<Rightarrow> unit io" where
  "check_environment organizationID projectID environmentID = (case environmentID of
       None \<Rightarrow> retE ()
     | Some environmentID \<Rightarrow>
         bindE (tryE (EnvironmentRepository_GetByID organizationID environmentID)) (\<lambda>r. case r of
           Inl e \<Rightarrow> if e = ErrEnvironmentNotFound
                    then throwE (ValidationError ''environment_id does not exist'') else throwE e
         | Inr env \<Rightarrow> guardE (env_ProjectID env = projectID)
                      (ValidationError ''environment_id does not belong to this project'') (retE ())))"

definition CreateWorkspace_Execute ::
  "id \<Rightarrow> string list \<Rightarrow> id \<Rightarrow> id \<Rightarrow> id \<Rightarrow> string \<Rightarrow> string \<Rightarrow> id option \<Rightarrow> Workspace io" where
  "CreateWorkspace_Execute uuid ctx organizationID projectID requestingUserID name executionEngine
       environmentID =
     bindE (IsMember organizationID requestingUserID) (\<lambda>isMember.
     guardE isMember ErrProjectNotFound (
     bindE (ProjectExists organizationID projectID) (\<lambda>exists.
     guardE exists ErrProjectNotFound (
     bindE (HasPermissionAtScope ctx organizationID requestingUserID ''workspace:manage'' (Some projectID) None) (\<lambda>allowed.
     guardE allowed ErrForbidden (
     bindE (IsArchived organizationID) (\<lambda>archived.
     guardE (\<not> archived) ErrOrganizationArchived (
     bindE (check_environment organizationID projectID environmentID) (\<lambda>_.
     bindE nowE (\<lambda>now.
     bindE (liftE (NewWorkspace uuid now organizationID projectID environmentID name executionEngine)) (\<lambda>ws.
     bindE (WorkspaceRepository_Create ws) (\<lambda>_.
     retE ws))))))))))))"

definition GetWorkspace_Execute :: "string list \<Rightarrow> id \<Rightarrow> id \<Rightarrow> id \<Rightarrow> id \<Rightarrow> Workspace io" where
  "GetWorkspace_Execute ctx organizationID projectID workspaceID requestingUserID =
     bindE (IsMember organizationID requestingUserID) (\<lambda>isMember.
     guardE isMember ErrProjectNotFound (
     bindE (ProjectExists organizationID projectID) (\<lambda>exists.
     guardE exists ErrProjectNotFound (
     bindE (Workspace_canAccessWorkspace ctx organizationID requestingUserID projectID workspaceID) (\<lambda>canAccess.
     guardE canAccess ErrForbidden (
     bindE (WorkspaceRepository_GetByID organizationID workspaceID) (\<lambda>ws.
     guardE (ws_ProjectID ws = projectID) ErrWorkspaceNotFound (
     retE ws))))))))"

definition ListWorkspaces_Execute :: "string list \<Rightarrow> id \<Rightarrow> id \<Rightarrow> id \<Rightarrow> Workspace list io" where
  "ListWorkspaces_Execute ctx organizationID projectID requestingUserID =
     bindE (IsMember organizationID requestingUserID) (\<lambda>isMember.
     guardE isMember ErrProjectNotFound (
     bindE (ProjectExists organizationID projectID) (\<lambda>exists.
     guardE exists ErrProjectNotFound (
     bindE (Workspace_canAccessProject ctx organizationID requestingUserID projectID) (\<lambda>canAccess.
     guardE canAccess ErrForbidden (
     WorkspaceRepository_ListByProject organizationID projectID))))))"

definition DeleteWorkspace_Execute :: "string list \<Rightarrow> id \<Rightarrow> id \<Rightarrow> id \<Rightarrow> id \<Rightarrow> unit io" where
  "DeleteWorkspace_Execute ctx organizationID projectID workspaceID requestingUserID =
     bindE (IsMember organizationID requestingUserID) (\<lambda>isMember.
     guardE isMember ErrProjectNotFound (
     bindE (ProjectExists organizationID projectID) (\<lambda>exists.
     guardE exists ErrProjectNotFound (
     bindE (HasPermissionAtScope ctx organizationID requestingUserID ''workspace:delete''
       (Some projectID) (Some workspaceID)) (\<lambda>allowed.
     guardE allowed ErrForbidden (
     bindE (WorkspaceRepository_GetByID organizationID workspaceID) (\<lambda>ws.
     guardE (ws_ProjectID ws = projectID) ErrWorkspaceNotFound (
     WorkspaceRepository_Purge organizationID workspaceID))))))))"

end
