(* ===== verification/Demo.thy ===== *)
theory Demo
  imports Access
begin

text \<open>
  A small deployment on which the properties are instantiated: the organization \<open>o1\<close> with the
  built-in roles seeded, its owner \<open>alice\<close> and the reader \<open>bob\<close>, one project \<open>p1\<close> with the environment
  \<open>e1\<close> and the workspace \<open>w1\<close>. The ids of the built-in roles are their names.
\<close>

definition demo_user :: "id \<Rightarrow> User" where
  "demo_user u = \<lparr>usr_ID = u, usr_Username = u, usr_Email = u, usr_AuthSource = ''local'', usr_ExternalID = None,
     usr_Status = ''active'', usr_MFAEnrolled = False, usr_CreatedAt = 0, usr_IsPlatformAdmin = False,
     usr_PasswordHash = None\<rparr>"

definition demo_role :: "string \<times> string list \<Rightarrow> Role" where
  "demo_role p = \<lparr>role_ID = fst p, role_OrganizationID = None, role_Name = fst p, role_Permissions = snd p\<rparr>"

definition demo_binding :: "id \<Rightarrow> id \<Rightarrow> string \<Rightarrow> RoleBinding" where
  "demo_binding i u r = \<lparr>rb_ID = i, rb_OrganizationID = ''o1'', rb_RoleID = r, rb_SubjectType = ''user'',
     rb_SubjectID = u, rb_ScopeType = ''organization'', rb_ScopeID = ''o1'', rb_Effect = ''allow'', rb_CreatedAt = 0\<rparr>"

definition demo_member :: "id \<Rightarrow> id \<Rightarrow> OrganizationMembership" where
  "demo_member i u = \<lparr>mem_ID = i, mem_OrganizationID = ''o1'', mem_UserID = u, mem_JoinedAt = 0, mem_BlockedAt = None\<rparr>"

definition demo_ws :: Workspace where
  "demo_ws = \<lparr>ws_ID = ''w1'', ws_OrganizationID = ''o1'', ws_ProjectID = ''p1'', ws_EnvironmentID = Some ''e1'',
     ws_Name = ''net'', ws_ExecutionEngine = ''terraform'', ws_VCSLinkID = None,
     ws_CurrentStateVersionID = None, ws_Locked = False, ws_LockedByRunID = None, ws_CreatedAt = 0\<rparr>"

definition demo_org :: Organization where
  "demo_org = \<lparr>org_ID = ''o1'', org_Name = ''One'', org_Slug = ''one'', org_Settings = [], org_Quota = [],
       org_Status = ''active'', org_ArchivedAt = None, org_CreatedAt = 0\<rparr>"

definition demo_prj :: Project where
  "demo_prj = \<lparr>prj_ID = ''p1'', prj_OrganizationID = ''o1'', prj_Name = ''P'', prj_Slug = ''p'',
       prj_Description = [], prj_CreatedAt = 0\<rparr>"

definition demo_env :: Environment where
  "demo_env = \<lparr>env_ID = ''e1'', env_OrganizationID = ''o1'', env_ProjectID = ''p1'', env_Name = ''prod'',
       env_PromotionRank = 0, env_RequiresApproval = False, env_CreatedAt = 0\<rparr>"

definition demo_db :: db where
  "demo_db = empty_db\<lparr>
     users := [demo_user ''alice'', demo_user ''bob''],
     organizations := [demo_org],
     organization_memberships := [demo_member ''m1'' ''alice'', demo_member ''m2'' ''bob''],
     projects := [demo_prj],
     environments := [demo_env],
     workspaces := [demo_ws],
     roles := map demo_role BuiltinRoles,
     role_bindings := [demo_binding ''b1'' ''alice'' ''owner'', demo_binding ''b2'' ''bob'' ''read'']\<rparr>"

definition demo :: world where
  "demo = empty_world\<lparr>db := demo_db\<rparr>"

lemmas demo_defs = demo_def demo_db_def demo_user_def demo_role_def demo_binding_def demo_member_def demo_ws_def
  demo_org_def demo_prj_def demo_env_def BuiltinRoles_def rbac_consts empty_db_def empty_world_def

lemma demo_faults [simp]: "faults demo = []" "clock demo = 0" "db demo = demo_db"
  by (simp_all add: demo_def empty_world_def)

lemma demo_db_simps [simp]:
  "users demo_db = [demo_user ''alice'', demo_user ''bob'']"
  "workspaces demo_db = [demo_ws]" "organizations demo_db = [demo_org]" "projects demo_db = [demo_prj]"
  "environments demo_db = [demo_env]"
  "organization_memberships demo_db = [demo_member ''m1'' ''alice'', demo_member ''m2'' ''bob'']"
  "role_bindings demo_db = [demo_binding ''b1'' ''alice'' ''owner'', demo_binding ''b2'' ''bob'' ''read'']"
  "roles demo_db = map demo_role BuiltinRoles"
  "service_accounts demo_db = []" "teams demo_db = []" "team_memberships demo_db = []"
  "variables demo_db = []" "runs demo_db = []" "outbox_events demo_db = []" "audit_entries demo_db = []"
  "idempotency_keys demo_db = []" "secret_mounts demo_db = []" "compose_file_projects demo_db = []"
  "refresh_tokens demo_db = []" "password_reset_tokens demo_db = []" "api_keys demo_db = []" "machines demo_db = []"
  "networks demo_db = []" "volumes demo_db = []" "compose_files demo_db = []" "compose_file_networks demo_db = []"
  "compose_file_volumes demo_db = []" "fleet_variables demo_db = []" "operations demo_db = []"
  by (simp_all add: demo_db_def empty_db_def)

lemma demo_is_member [simp]: "is_member demo_db ''o1'' ''alice''" "is_member demo_db ''o1'' ''bob''"
  "\<not> is_member demo_db ''o1'' ''eve''"
  by (simp_all add: is_member_def demo_member_def)

lemma demo_ws_present [simp]: "is_ws ''o1'' ''w1'' demo_ws"
  by (simp add: is_ws_def demo_ws_def)

text \<open>The owner holds every permission in the organization, and the reader only those to read.\<close>

lemma demo_alice: "p \<in> set AllPermissions \<Longrightarrow> has_permission_at_scope demo_db ''o1'' ''alice'' p pr wk"
  by (auto simp: has_permission_at_scope_def matches_def subject_matches_def role_grants_def role_visible_def
      at_scope_def demo_binding_def demo_role_def BuiltinRoles_def rbac_consts AllPermissions_def)

lemma demo_alice_permitted: "p \<in> set AllPermissions \<Longrightarrow> permitted [] demo_db ''o1'' ''alice'' p pr wk"
  by (simp add: permitted_def ctx_permits_def demo_alice)

text \<open>Permissions only look at the bindings, the roles and the teams.\<close>

lemma has_permission_at_scope_frame:
  "role_bindings d = role_bindings d' \<Longrightarrow> roles d = roles d' \<Longrightarrow> team_memberships d = team_memberships d' \<Longrightarrow>
     has_permission_at_scope d og u p pr wk = has_permission_at_scope d' og u p pr wk"
  by (simp add: has_permission_at_scope_def matches_def subject_matches_def role_grants_def)

lemma demo_permitted_in:
  "role_bindings d = role_bindings demo_db \<Longrightarrow> roles d = roles demo_db \<Longrightarrow> team_memberships d = team_memberships demo_db
     \<Longrightarrow> p \<in> set AllPermissions \<Longrightarrow> permitted [] d ''o1'' ''alice'' p pr wk"
  using has_permission_at_scope_frame [of d demo_db] demo_alice by (simp add: permitted_def ctx_permits_def)

lemma demo_bob: "\<not> has_permission_at_scope demo_db ''o1'' ''bob'' ''organization:manage'' pr wk"
  by (simp add: has_permission_at_scope_def matches_def subject_matches_def role_grants_def role_visible_def
      at_scope_def demo_binding_def demo_role_def BuiltinRoles_def rbac_consts)

end
