(* ===== verification/Envelope.thy ===== *)
theory Envelope
  imports Store
begin

text \<open>
  \<^verbatim>\<open>internal/platform/envelope\<close>: encryption at rest of the credentials that have no further backend.
  The primitives (BLAKE2b-256 keyed with the master key, AES-256-GCM) are libraries the package
  calls: they are the record \<open>crypto\<close>, an argument of every definition. The bytes read from
  \<^verbatim>\<open>crypto/rand\<close> are arguments too. Byte slices are strings.
\<close>

record crypto =
  blake2b :: "string \<Rightarrow> string \<Rightarrow> string" \<comment> \<open>key, data\<close>
  gcm_Seal :: "string \<Rightarrow> string \<Rightarrow> string \<Rightarrow> string" \<comment> \<open>key, nonce, plaintext\<close>
  gcm_Open :: "string \<Rightarrow> string \<Rightarrow> string \<Rightarrow> string option" \<comment> \<open>key, nonce, ciphertext\<close>

record Sealed =
  sealed_Ciphertext :: string
  sealed_Nonce :: string
  sealed_Salt :: string

definition KeySize :: nat where "KeySize = 32"

definition deriveKey :: "crypto \<Rightarrow> string \<Rightarrow> string \<Rightarrow> string" where
  "deriveKey cr masterKey salt = blake2b cr masterKey salt"

definition Seal :: "crypto \<Rightarrow> string \<Rightarrow> string \<Rightarrow> string \<Rightarrow> string \<Rightarrow> err + Sealed" where
  "Seal cr salt nonce masterKey plaintext =
     (if length masterKey \<noteq> KeySize then Inl ErrInvalidMasterKey
      else let recordKey = deriveKey cr masterKey salt in
        Inr \<lparr>sealed_Ciphertext = gcm_Seal cr recordKey nonce plaintext, sealed_Nonce = nonce, sealed_Salt = salt\<rparr>)"

definition Open :: "crypto \<Rightarrow> string \<Rightarrow> Sealed \<Rightarrow> err + string" where
  "Open cr masterKey sealed =
     (if length masterKey \<noteq> KeySize then Inl ErrInvalidMasterKey
      else let recordKey = deriveKey cr masterKey (sealed_Salt sealed) in
        case gcm_Open cr recordKey (sealed_Nonce sealed) (sealed_Ciphertext sealed) of
          None \<Rightarrow> Inl ErrDecryption
        | Some plaintext \<Rightarrow> Inr plaintext)"

text \<open>
  What AES-GCM is documented to do: a ciphertext opens under the key and nonce that sealed it.
\<close>

definition gcm_correct :: "crypto \<Rightarrow> bool" where
  "gcm_correct cr = (\<forall>k n p. gcm_Open cr k n (gcm_Seal cr k n p) = Some p)"

text \<open>And under no other key or nonce, which is what authentication is for.\<close>

definition gcm_authentic :: "crypto \<Rightarrow> bool" where
  "gcm_authentic cr = (\<forall>k n c p. gcm_Open cr k n c = Some p \<longrightarrow> c = gcm_Seal cr k n p)"

lemma Open_Seal:
  assumes "gcm_correct cr" "Seal cr salt nonce masterKey p = Inr sealed"
  shows "Open cr masterKey sealed = Inr p"
  using assms by (auto simp: Seal_def Open_def Let_def gcm_correct_def split: if_splits)

lemma Seal_Open:
  assumes "gcm_authentic cr" "Open cr masterKey sealed = Inr p"
  shows "Seal cr (sealed_Salt sealed) (sealed_Nonce sealed) masterKey p = Inr sealed"
  using assms by (auto simp: Seal_def Open_def Let_def gcm_authentic_def split: if_splits option.splits)

end
