(* ===== verification/Secrets.thy ===== *)
theory Secrets
  imports Demo Envelope
begin

text \<open>
  The Secrets context (\<^verbatim>\<open>internal/secrets\<close>): mounts, their repository, the Vault client and the services.
  A mount keeps the credential of a Vault server sealed (theory \<^verbatim>\<open>Envelope\<close>); the values themselves
  are only in Vault. The Vault server is an argument \<open>srv\<close>: its answer to a request may depend
  on every request sent before, the field \<open>vault\<close> of the state.
\<close>

section \<open>Domain\<close>

definition BackendType_Valid :: "string \<Rightarrow> bool" where
  "BackendType_Valid b = (b \<in> {''vault'', ''aws_secrets_manager'', ''azure_keyvault'', ''gcp_secret_manager''})"

definition NewSecretMount :: "id \<Rightarrow> time \<Rightarrow> id \<Rightarrow> string \<Rightarrow> string \<Rightarrow> string \<Rightarrow> string \<Rightarrow> string \<Rightarrow> string \<Rightarrow> string
    \<Rightarrow> err + SecretMount" where
  "NewSecretMount uuid now organizationID name backendType address roleID encryptedSecretID secretIDNonce secretIDSalt =
     (if organizationID = [] then Inl (ValidationError ''organization_id is required'')
      else if name = [] then Inl (ValidationError ''name is required'')
      else if \<not> BackendType_Valid backendType then Inl (ValidationError (''backend_type '' @ goQuote backendType
        @ '' must be one of vault, aws_secrets_manager, azure_keyvault, gcp_secret_manager''))
      else if address = [] then Inl (ValidationError ''address is required'')
      else if roleID = [] then Inl (ValidationError ''role_id is required'')
      else if encryptedSecretID = [] \<or> secretIDNonce = [] \<or> secretIDSalt = []
      then Inl (ValidationError ''secret_id is required'')
      else Inr \<lparr>sm_ID = uuid, sm_OrganizationID = organizationID, sm_Name = name, sm_BackendType = backendType,
        sm_Address = address, sm_RoleID = roleID, sm_EncryptedSecretID = encryptedSecretID,
        sm_SecretIDNonce = secretIDNonce, sm_SecretIDSalt = secretIDSalt, sm_CreatedAt = now\<rparr>)"

section \<open>Repository\<close>

definition SecretMountRepository_Create :: "SecretMount \<Rightarrow> unit io" where
  "SecretMountRepository_Create m = tx (\<lambda>_ d.
     if \<not> list_ex (\<lambda>og. org_ID og = sm_OrganizationID m) (organizations d) then Inl ErrForeignKeyViolation
     else if \<not> BackendType_Valid (sm_BackendType m) then Inl ErrCheckViolation
     else if list_ex (\<lambda>x. sm_ID x = sm_ID m \<or> sm_OrganizationID x = sm_OrganizationID m \<and> sm_Name x = sm_Name m)
            (secret_mounts d) then Inl ErrUniqueViolation
     else Inr ((), d\<lparr>secret_mounts := secret_mounts d @ [m]\<rparr>))"

definition is_mount :: "id \<Rightarrow> id \<Rightarrow> SecretMount \<Rightarrow> bool" where
  "is_mount organizationID i m = (sm_OrganizationID m = organizationID \<and> sm_ID m = i)"

definition SecretMountRepository_GetByID :: "id \<Rightarrow> id \<Rightarrow> SecretMount io" where
  "SecretMountRepository_GetByID organizationID i = query (\<lambda>d.
     oneRow ErrSecretMountNotFound (is_mount organizationID i) (secret_mounts d))"

definition SecretMountRepository_ListForOrganization :: "id \<Rightarrow> SecretMount list io" where
  "SecretMountRepository_ListForOrganization organizationID = query (\<lambda>d.
     Inr (sort_key sm_CreatedAt (filter (\<lambda>m. sm_OrganizationID m = organizationID) (secret_mounts d))))"

section \<open>The Vault client\<close>

record VaultSecret =
  vs_ClientToken :: "string option" \<comment> \<open>\<^verbatim>\<open>Auth.ClientToken\<close>; \<open>None\<close> when \<^verbatim>\<open>Auth\<close> is nil\<close>
  vs_Data :: "vault_data option"

type_synonym vault_server = "VaultRequest list \<Rightarrow> VaultRequest \<Rightarrow> VaultSecret option option"

text \<open>
  \<open>None\<close> is an error of the SDK; \<open>Some None\<close> a nil secret. That the SDK cannot construct a client is not told apart from an error
  of the first request.
\<close>

definition vault_call :: "vault_server \<Rightarrow> VaultRequest \<Rightarrow> VaultSecret option io" where
  "vault_call srv request = atomic (\<lambda>w.
     (case srv (vault w) request of None \<Rightarrow> Inl ErrVault | Some s \<Rightarrow> Inr s, w\<lparr>vault := vault w @ [request]\<rparr>))"

definition login_request :: "string \<Rightarrow> string \<Rightarrow> string \<Rightarrow> VaultRequest" where
  "login_request address roleID secretID = VaultWrite address [] ''auth/approle/login''
     [(''role_id'', VaultString roleID), (''secret_id'', VaultString secretID)]"

definition Vault_login :: "vault_server \<Rightarrow> string \<Rightarrow> string \<Rightarrow> string \<Rightarrow> string io" where
  "Vault_login srv address roleID secretID =
     bindE (vault_call srv (login_request address roleID secretID)) (\<lambda>secret.
     case secret of
       None \<Rightarrow> throwE ErrVault
     | Some s \<Rightarrow> (case vs_ClientToken s of
         None \<Rightarrow> throwE ErrVault
       | Some token \<Rightarrow> if token = [] then throwE ErrVault else retE token))"

definition Vault_TestConnection :: "vault_server \<Rightarrow> string \<Rightarrow> string \<Rightarrow> string \<Rightarrow> unit io" where
  "Vault_TestConnection srv address roleID secretID =
     bindE (Vault_login srv address roleID secretID) (\<lambda>token.
     bindE (vault_call srv (VaultLookupSelf address token)) (\<lambda>_.
     retE ()))"

definition kv2_value :: "VaultSecret option \<Rightarrow> string option" where
  "kv2_value secret = (case secret of
       None \<Rightarrow> None
     | Some s \<Rightarrow> (case vs_Data s of
         None \<Rightarrow> None
       | Some m \<Rightarrow> (case map_of m ''data'' of
           Some (VaultMap inner) \<Rightarrow> (case map_of inner ''value'' of
               Some (VaultString val) \<Rightarrow> Some val
             | _ \<Rightarrow> None)
         | _ \<Rightarrow> None)))"

definition Vault_ReadSecret :: "vault_server \<Rightarrow> string \<Rightarrow> string \<Rightarrow> string \<Rightarrow> string \<Rightarrow> string io" where
  "Vault_ReadSecret srv address roleID secretID path =
     bindE (Vault_login srv address roleID secretID) (\<lambda>token.
     bindE (vault_call srv (VaultRead address token path)) (\<lambda>secret.
     case kv2_value secret of
       None \<Rightarrow> throwE ErrVault
     | Some val \<Rightarrow> retE val))"

definition kv2_payload :: "string \<Rightarrow> vault_data" where
  "kv2_payload val = [(''data'', VaultMap [(''value'', VaultString val)])]"

definition Vault_WriteSecret :: "vault_server \<Rightarrow> string \<Rightarrow> string \<Rightarrow> string \<Rightarrow> string \<Rightarrow> string \<Rightarrow> unit io" where
  "Vault_WriteSecret srv address roleID secretID path val =
     bindE (Vault_login srv address roleID secretID) (\<lambda>token.
     bindE (vault_call srv (VaultWrite address token path (kv2_payload val))) (\<lambda>_.
     retE ()))"

section \<open>Services\<close>

text \<open>\<open>u 0\<close>: the id of the mount; \<open>u 1\<close> and \<open>u 2\<close>: the salt and the nonce.\<close>

definition CreateSecretMount_Execute :: "crypto \<Rightarrow> string \<Rightarrow> (nat \<Rightarrow> id) \<Rightarrow> string list \<Rightarrow> id \<Rightarrow> id \<Rightarrow> string \<Rightarrow> string \<Rightarrow> string
    \<Rightarrow> string \<Rightarrow> string \<Rightarrow> SecretMount io" where
  "CreateSecretMount_Execute cr masterKey u ctx organizationID requestingUserID name backendType address roleID secretID =
     bindE (IsMember organizationID requestingUserID) (\<lambda>isMember.
     guardE isMember ErrForbidden (
     bindE (HasPermission ctx organizationID requestingUserID ''organization:manage'') (\<lambda>allowed.
     guardE allowed ErrForbidden (
     guardE (backendType = ''vault'') (ValidationError (''backend_type '' @ backendType
       @ '' is not yet implemented - only '' @ goQuote ''vault'' @ '' is supported'')) (
     guardE (secretID \<noteq> []) (ValidationError ''secret_id is required'') (
     bindE (liftE (Seal cr (u 1) (u 2) masterKey secretID)) (\<lambda>sealed.
     bindE nowE (\<lambda>now.
     bindE (liftE (NewSecretMount (u 0) now organizationID name backendType address roleID
       (sealed_Ciphertext sealed) (sealed_Nonce sealed) (sealed_Salt sealed))) (\<lambda>mount.
     bindE (SecretMountRepository_Create mount) (\<lambda>_.
     retE mount))))))))))"

definition ListSecretMounts_Execute :: "id \<Rightarrow> id \<Rightarrow> SecretMount list io" where
  "ListSecretMounts_Execute organizationID requestingUserID =
     bindE (IsMember organizationID requestingUserID) (\<lambda>isMember.
     guardE isMember ErrForbidden (
     SecretMountRepository_ListForOrganization organizationID))"

definition decryptSecretID :: "crypto \<Rightarrow> string \<Rightarrow> SecretMount \<Rightarrow> err + string" where
  "decryptSecretID cr masterKey mount = Open cr masterKey
     \<lparr>sealed_Ciphertext = sm_EncryptedSecretID mount, sealed_Nonce = sm_SecretIDNonce mount,
      sealed_Salt = sm_SecretIDSalt mount\<rparr>"

definition not_implemented :: "string \<Rightarrow> err" where
  "not_implemented backendType = ValidationError (''backend_type '' @ backendType @ '' is not yet implemented'')"

definition ResolveSecret_ResolveValue :: "crypto \<Rightarrow> string \<Rightarrow> vault_server \<Rightarrow> id \<Rightarrow> id \<Rightarrow> string \<Rightarrow> string io" where
  "ResolveSecret_ResolveValue cr masterKey srv organizationID mountID path =
     bindE (SecretMountRepository_GetByID organizationID mountID) (\<lambda>mount.
     bindE (liftE (decryptSecretID cr masterKey mount)) (\<lambda>secretID.
     if sm_BackendType mount = ''vault''
     then Vault_ReadSecret srv (sm_Address mount) (sm_RoleID mount) secretID path
     else throwE (not_implemented (sm_BackendType mount))))"

definition TestConnection_Execute :: "crypto \<Rightarrow> string \<Rightarrow> vault_server \<Rightarrow> string list \<Rightarrow> id \<Rightarrow> id \<Rightarrow> id \<Rightarrow> unit io" where
  "TestConnection_Execute cr masterKey srv ctx organizationID mountID requestingUserID =
     bindE (IsMember organizationID requestingUserID) (\<lambda>isMember.
     guardE isMember ErrForbidden (
     bindE (HasPermission ctx organizationID requestingUserID ''organization:manage'') (\<lambda>allowed.
     guardE allowed ErrForbidden (
     bindE (SecretMountRepository_GetByID organizationID mountID) (\<lambda>mount.
     bindE (liftE (decryptSecretID cr masterKey mount)) (\<lambda>secretID.
     if sm_BackendType mount = ''vault''
     then Vault_TestConnection srv (sm_Address mount) (sm_RoleID mount) secretID
     else throwE (not_implemented (sm_BackendType mount))))))))"

definition WriteSecret_WriteValue :: "crypto \<Rightarrow> string \<Rightarrow> vault_server \<Rightarrow> id \<Rightarrow> id \<Rightarrow> string \<Rightarrow> string \<Rightarrow> unit io" where
  "WriteSecret_WriteValue cr masterKey srv organizationID mountID path val =
     bindE (SecretMountRepository_GetByID organizationID mountID) (\<lambda>mount.
     bindE (liftE (decryptSecretID cr masterKey mount)) (\<lambda>secretID.
     if sm_BackendType mount = ''vault''
     then Vault_WriteSecret srv (sm_Address mount) (sm_RoleID mount) secretID path val
     else throwE (not_implemented (sm_BackendType mount))))"

definition WriteSecret_Execute :: "crypto \<Rightarrow> string \<Rightarrow> vault_server \<Rightarrow> string list \<Rightarrow> id \<Rightarrow> id \<Rightarrow> id \<Rightarrow> string \<Rightarrow> string
    \<Rightarrow> unit io" where
  "WriteSecret_Execute cr masterKey srv ctx organizationID mountID requestingUserID path val =
     bindE (IsMember organizationID requestingUserID) (\<lambda>isMember.
     guardE isMember ErrForbidden (
     bindE (HasPermission ctx organizationID requestingUserID ''organization:manage'') (\<lambda>allowed.
     guardE allowed ErrForbidden (
     guardE (path \<noteq> [] \<and> val \<noteq> []) (ValidationError ''path and value are both required'') (
     WriteSecret_WriteValue cr masterKey srv organizationID mountID path val)))))"

section \<open>Credentials\<close>

lemma run_bind_vault_call [run_head]:
  "run (bindE (vault_call srv rq) k) w =
     (case srv (vault w) rq of None \<Rightarrow> (Inl ErrVault, w\<lparr>vault := vault w @ [rq]\<rparr>)
      | Some s \<Rightarrow> run (k s) (w\<lparr>vault := vault w @ [rq]\<rparr>))"
  by (simp add: vault_call_def run_bindE run_atomic split: option.split)

lemma CreateSecretMount_Inr:
  assumes "run (CreateSecretMount_Execute cr key u ctx og usr nm bt ad ro sid) w = (Inr m, w')"
  obtains sealed where "is_member (db w) og usr" "permitted ctx (db w) og usr ''organization:manage'' None None"
    "bt = ''vault''" "sid \<noteq> []" "Seal cr (u 1) (u 2) key sid = Inr sealed"
    "m = \<lparr>sm_ID = u 0, sm_OrganizationID = og, sm_Name = nm, sm_BackendType = bt, sm_Address = ad, sm_RoleID = ro,
        sm_EncryptedSecretID = sealed_Ciphertext sealed, sm_SecretIDNonce = sealed_Nonce sealed,
        sm_SecretIDSalt = sealed_Salt sealed, sm_CreatedAt = clock w\<rparr>"
    "\<not> list_ex (\<lambda>x. sm_ID x = u 0) (secret_mounts (db w))"
    "db w' = (db w)\<lparr>secret_mounts := secret_mounts (db w) @ [m]\<rparr>"
  using assms
  by (fastforce simp: CreateSecretMount_Execute_def SecretMountRepository_Create_def NewSecretMount_def run_head list_ex_iff
      split: if_splits sum.splits)

text \<open>
  What \<open>CreateSecretMountService\<close> stores can be opened again: when it succeeds, the row it
  returned is the one that \<open>GetByID\<close> finds for the organization, and decrypting its columns with
  the same master key gives the \<open>secret_id\<close> of the request, provided AES-GCM opens what it sealed.
\<close>

lemma created_mount_decrypts:
  assumes "gcm_correct cr"
    and "run (CreateSecretMount_Execute cr key u ctx og usr nm bt ad ro sid) w = (Inr m, w')"
    and "\<not> fault_now w'"
  shows "fst (run (SecretMountRepository_GetByID og (u 0)) w') = Inr m \<and> decryptSecretID cr key m = Inr sid"
  using assms(2)
proof (cases rule: CreateSecretMount_Inr)
  case (1 sealed)
  have "decryptSecretID cr key m = Open cr key sealed" using 1 by (cases sealed) (simp add: decryptSecretID_def)
  moreover have "List.find (is_mount og (u 0)) (secret_mounts (db w)) = None"
    using 1 by (auto simp: find_None_iff is_mount_def list_ex_iff)
  ultimately show ?thesis using 1 assms(3) Open_Seal [OF assms(1) 1(5)]
    by (simp add: SecretMountRepository_GetByID_def run_query oneRow_def find_append is_mount_def)
qed

text \<open>A toy cipher and a key, to show that the hypotheses can hold.\<close>

definition demo_crypto :: crypto where
  "demo_crypto = \<lparr>blake2b = (\<lambda>k s. k @ s), gcm_Seal = (\<lambda>k n p. CHR ''#'' # p), gcm_Open = (\<lambda>k n c. Some (tl c))\<rparr>"

definition demo_key :: string where
  "demo_key = replicate 32 (CHR ''k'')"

lemma demo_crypto_correct [simp]: "gcm_correct demo_crypto"
  by (simp add: gcm_correct_def demo_crypto_def)

lemma demo_Seal: "Seal demo_crypto s n demo_key p = Inr \<lparr>sealed_Ciphertext = CHR ''#'' # p, sealed_Nonce = n, sealed_Salt = s\<rparr>"
  by (simp add: Seal_def KeySize_def demo_key_def demo_crypto_def)

definition demo_mount :: SecretMount where
  "demo_mount = \<lparr>sm_ID = ''x'', sm_OrganizationID = ''o1'', sm_Name = ''prod'', sm_BackendType = ''vault'',
     sm_Address = ''https://vault'', sm_RoleID = ''role'', sm_EncryptedSecretID = ''#s3cret'',
     sm_SecretIDNonce = ''x'', sm_SecretIDSalt = ''x'', sm_CreatedAt = 0\<rparr>"

lemma demo_CreateSecretMount:
  "run (CreateSecretMount_Execute demo_crypto demo_key (\<lambda>_. ''x'') [] ''o1'' ''alice'' ''prod'' ''vault'' ''https://vault'' ''role'' ''s3cret'') demo
     = (Inr demo_mount, demo\<lparr>db := demo_db\<lparr>secret_mounts := [demo_mount]\<rparr>\<rparr>)"
  by (simp add: CreateSecretMount_Execute_def SecretMountRepository_Create_def run_head demo_alice_permitted
      AllPermissions_def rbac_consts ctx_permits_def demo_Seal NewSecretMount_def BackendType_Valid_def demo_mount_def demo_org_def)

lemma created_mount_decrypts_witness:
  "fst (run (SecretMountRepository_GetByID ''o1'' ''x'') (demo\<lparr>db := demo_db\<lparr>secret_mounts := [demo_mount]\<rparr>\<rparr>)) = Inr demo_mount
     \<and> decryptSecretID demo_crypto demo_key demo_mount = Inr ''s3cret''"
  using created_mount_decrypts [OF demo_crypto_correct demo_CreateSecretMount] by simp

section \<open>Values\<close>

text \<open>
  What a Vault server is documented to do. \<open>vault_available\<close>: an AppRole login is answered with a token.
  \<open>kv2_read_your_writes\<close>: a version-2 key-value store returns, under the key \<^verbatim>\<open>data\<close>, what the last accepted
  write to the path sent under that key.
\<close>

definition vault_available :: "vault_server \<Rightarrow> bool" where
  "vault_available srv = (\<forall>h address roleID secretID. \<exists>s token.
     srv h (login_request address roleID secretID) = Some (Some s) \<and> vs_ClientToken s = Some token \<and> token \<noteq> [])"

definition writes_to :: "string \<Rightarrow> string \<Rightarrow> VaultRequest \<Rightarrow> bool" where
  "writes_to address path rq = (case rq of VaultWrite a _ p _ \<Rightarrow> a = address \<and> p = path | _ \<Rightarrow> False)"

definition kv2_read_your_writes :: "vault_server \<Rightarrow> bool" where
  "kv2_read_your_writes srv = (\<forall>h1 h2 a t t' p v.
     srv h1 (VaultWrite a t p [(''data'', v)]) \<noteq> None \<longrightarrow> \<not> list_ex (writes_to a p) h2 \<longrightarrow>
     (\<exists>s m. srv (h1 @ VaultWrite a t p [(''data'', v)] # h2) (VaultRead a t' p) = Some (Some s) \<and>
        vs_Data s = Some m \<and> map_of m ''data'' = Some v))"

lemma run_Vault_login:
  assumes "vault_available srv"
  obtains token where "run (Vault_login srv a r s) w = (Inr token, w\<lparr>vault := vault w @ [login_request a r s]\<rparr>)"
proof -
  from assms obtain x token where "srv (vault w) (login_request a r s) = Some (Some x)" "vs_ClientToken x = Some token" "token \<noteq> []"
    unfolding vault_available_def by blast
  then show ?thesis by (intro that [of token]) (simp_all add: Vault_login_def run_head)
qed

lemma Vault_WriteSecret_Inr:
  assumes "vault_available srv" "run (Vault_WriteSecret srv a r s p v) w = (Inr x, w')"
  obtains token h where "vault w' = h @ [VaultWrite a token p (kv2_payload v)]"
    "srv h (VaultWrite a token p (kv2_payload v)) \<noteq> None" "db w' = db w"
proof -
  obtain token where t: "run (Vault_login srv a r s) w = (Inr token, w\<lparr>vault := vault w @ [login_request a r s]\<rparr>)"
    using run_Vault_login [OF assms(1)] .
  from assms(2) show ?thesis unfolding Vault_WriteSecret_def run_bindE [of "Vault_login srv a r s"] t
    by (intro that [of "vault w @ [login_request a r s]" token]) (auto simp: run_head split: option.splits)
qed


text \<open>A key-value server: it remembers the last write to each path.\<close>

definition demo_vault :: vault_server where
  "demo_vault h rq = (case rq of
       VaultWrite a t p v \<Rightarrow> Some (Some \<lparr>vs_ClientToken = Some ''token'', vs_Data = None\<rparr>)
     | VaultRead a t p \<Rightarrow> (case List.find (writes_to a p) (rev h) of
           Some (VaultWrite _ _ _ v) \<Rightarrow> Some (Some \<lparr>vs_ClientToken = None, vs_Data = Some v\<rparr>)
         | _ \<Rightarrow> Some None)
     | VaultLookupSelf a t \<Rightarrow> Some None)"

lemma demo_vault_ok: "vault_available demo_vault" "kv2_read_your_writes demo_vault"
proof -
  show "vault_available demo_vault" by (simp add: vault_available_def demo_vault_def login_request_def)
  have "List.find (writes_to a p) (rev (h1 @ VaultWrite a t p v # h2)) = Some (VaultWrite a t p v)"
    if "\<not> list_ex (writes_to a p) h2" for a t p v h1 h2
  proof -
    have "List.find (writes_to a p) (rev h2) = None" using that by (auto simp: find_None_iff list_ex_iff)
    then show ?thesis by (simp add: find_append writes_to_def)
  qed
  then show "kv2_read_your_writes demo_vault" by (simp add: kv2_read_your_writes_def demo_vault_def)
qed

definition demo_mounted :: world where
  "demo_mounted = demo\<lparr>db := demo_db\<lparr>secret_mounts := [demo_mount]\<rparr>\<rparr>"

definition demo_written :: world where
  "demo_written = snd (run (WriteSecret_WriteValue demo_crypto demo_key demo_vault ''o1'' ''x'' ''secret/data/db'' ''pw'') demo_mounted)"

lemma demo_decrypt: "decryptSecretID demo_crypto demo_key demo_mount = Inr ''s3cret''"
  by (simp add: decryptSecretID_def demo_mount_def Open_def KeySize_def demo_key_def demo_crypto_def)

lemma demo_written_run:
  "run (WriteSecret_WriteValue demo_crypto demo_key demo_vault ''o1'' ''x'' ''secret/data/db'' ''pw'') demo_mounted
     = (Inr (), demo_written) \<and> faults demo_written = []"
  by (simp add: demo_written_def WriteSecret_WriteValue_def SecretMountRepository_GetByID_def run_head oneRow_def
      demo_mounted_def is_mount_def demo_decrypt Vault_WriteSecret_def Vault_login_def demo_vault_def login_request_def)
    (simp add: demo_mount_def Vault_WriteSecret_def Vault_login_def run_head demo_vault_def login_request_def)


end
