(* ===== verification/Variables.thy ===== *)
theory Variables
  imports Secrets
begin

text \<open>
  The Variables context (\<^verbatim>\<open>internal/variables\<close>): the aggregate, the repository with its columns, and
  the services. The port \<^verbatim>\<open>SecretResolver\<close> is the argument \<open>resolveSecret\<close> of the services that call it;
  \<^verbatim>\<open>main.go\<close> wires it to \<open>ResolveSecret_ResolveValue\<close>.
\<close>

section \<open>Domain\<close>

record SecretReference =
  sr_MountID :: id
  sr_Path :: string

record Variable =
  var_ID :: id
  var_OrganizationID :: id
  var_ScopeType :: string
  var_ScopeID :: id
  var_Key :: string
  var_Category :: string
  var_Sensitivity :: string
  var_Value :: string
  var_SecretRef :: "SecretReference option"
  var_CreatedAt :: time

definition ScopeType_Valid :: "string \<Rightarrow> bool" where
  "ScopeType_Valid s = (s \<in> {''organization'', ''project'', ''environment'', ''workspace''})"

definition ScopeCascadeOrder :: "string list" where
  "ScopeCascadeOrder = [''workspace'', ''environment'', ''project'', ''organization'']"

definition Category_Valid :: "string \<Rightarrow> bool" where
  "Category_Valid c = (c \<in> {''env_var'', ''engine_var'', ''file_template''})"

definition Sensitivity_Valid :: "string \<Rightarrow> bool" where
  "Sensitivity_Valid s = (s = ''plain'' \<or> s = ''sensitive'')"

definition validateVariableFields :: "id \<Rightarrow> string \<Rightarrow> id \<Rightarrow> string \<Rightarrow> string \<Rightarrow> string \<Rightarrow> err + unit" where
  "validateVariableFields organizationID scopeType scopeID key category sensitivity =
     (if organizationID = [] \<or> scopeID = []
      then Inl (ValidationError ''organization_id and scope_id are required'')
      else if \<not> ScopeType_Valid scopeType then Inl (ValidationError (''invalid scope_type: '' @ scopeType))
      else if \<not> keyPattern key then Inl (ValidationError ''key must match ^[A-Za-z_][A-Za-z0-9_]*$'')
      else if \<not> Category_Valid category then Inl (ValidationError (''invalid category: '' @ category))
      else if \<not> Sensitivity_Valid sensitivity
      then Inl (ValidationError (''invalid sensitivity: '' @ sensitivity))
      else Inr ())"

definition NewVariable ::
  "id \<Rightarrow> time \<Rightarrow> id \<Rightarrow> string \<Rightarrow> id \<Rightarrow> string \<Rightarrow> string \<Rightarrow> string \<Rightarrow> string \<Rightarrow> err + Variable" where
  "NewVariable uuid now organizationID scopeType scopeID key category sensitivity val =
     (case validateVariableFields organizationID scopeType scopeID key category sensitivity of
        Inl e \<Rightarrow> Inl e
      | Inr _ \<Rightarrow> Inr \<lparr>var_ID = uuid, var_OrganizationID = organizationID, var_ScopeType = scopeType,
          var_ScopeID = scopeID, var_Key = key, var_Category = category, var_Sensitivity = sensitivity,
          var_Value = val, var_SecretRef = None, var_CreatedAt = now\<rparr>)"

definition NewVariableWithSecretRef ::
  "id \<Rightarrow> time \<Rightarrow> id \<Rightarrow> string \<Rightarrow> id \<Rightarrow> string \<Rightarrow> string \<Rightarrow> string \<Rightarrow> id \<Rightarrow> string \<Rightarrow> err + Variable" where
  "NewVariableWithSecretRef uuid now organizationID scopeType scopeID key category sensitivity mountID path =
     (case validateVariableFields organizationID scopeType scopeID key category sensitivity of
        Inl e \<Rightarrow> Inl e
      | Inr _ \<Rightarrow>
          if mountID = [] \<or> path = []
          then Inl (ValidationError ''secret_mount_id and secret_path are required'')
          else Inr \<lparr>var_ID = uuid, var_OrganizationID = organizationID, var_ScopeType = scopeType,
            var_ScopeID = scopeID, var_Key = key, var_Category = category, var_Sensitivity = sensitivity,
            var_Value = [], var_SecretRef = Some \<lparr>sr_MountID = mountID, sr_Path = path\<rparr>,
            var_CreatedAt = now\<rparr>)"

section \<open>Repository\<close>

definition valueOrSecretRefColumns :: "Variable \<Rightarrow> string option \<times> id option \<times> string option" where
  "valueOrSecretRefColumns v = (case var_SecretRef v of
       Some r \<Rightarrow> (None, Some (sr_MountID r), Some (sr_Path r))
     | None \<Rightarrow> (Some (var_Value v), None, None))"

text \<open>The row that \<^verbatim>\<open>Create\<close> inserts.\<close>

definition variable_row :: "Variable \<Rightarrow> VariableRow" where
  "variable_row v = (case valueOrSecretRefColumns v of (val, mountID, path) \<Rightarrow>
     \<lparr>vr_ID = var_ID v, vr_OrganizationID = var_OrganizationID v, vr_ScopeType = var_ScopeType v,
      vr_ScopeID = var_ScopeID v, vr_Key = var_Key v, vr_Category = var_Category v,
      vr_Sensitivity = var_Sensitivity v, vr_Value = val, vr_SecretMountID = mountID,
      vr_SecretPath = path, vr_CreatedAt = var_CreatedAt v\<rparr>)"

text \<open>A \<^verbatim>\<open>sql.NullString\<close> that is not valid has the empty string.\<close>

definition null_string :: "string option \<Rightarrow> string" where
  "null_string s = (case s of None \<Rightarrow> [] | Some x \<Rightarrow> x)"

definition scanVariable :: "VariableRow \<Rightarrow> Variable" where
  "scanVariable row =
     \<lparr>var_ID = vr_ID row, var_OrganizationID = vr_OrganizationID row, var_ScopeType = vr_ScopeType row,
      var_ScopeID = vr_ScopeID row, var_Key = vr_Key row, var_Category = vr_Category row,
      var_Sensitivity = vr_Sensitivity row,
      var_Value = (case vr_SecretMountID row of Some _ \<Rightarrow> [] | None \<Rightarrow> null_string (vr_Value row)),
      var_SecretRef = (case vr_SecretMountID row of
          Some m \<Rightarrow> Some \<lparr>sr_MountID = m, sr_Path = null_string (vr_SecretPath row)\<rparr> | None \<Rightarrow> None),
      var_CreatedAt = vr_CreatedAt row\<rparr>"

text \<open>The checks of the table: \<^verbatim>\<open>variables_value_xor_secret_ref\<close> and the closed sets.\<close>

definition value_xor_secret_ref :: "VariableRow \<Rightarrow> bool" where
  "value_xor_secret_ref row =
     (vr_Value row \<noteq> None \<and> vr_SecretMountID row = None \<and> vr_SecretPath row = None \<or>
      vr_Value row = None \<and> vr_SecretMountID row \<noteq> None \<and> vr_SecretPath row \<noteq> None)"

definition variable_checks :: "VariableRow \<Rightarrow> bool" where
  "variable_checks row = (value_xor_secret_ref row
     \<and> vr_ScopeType row \<in> {''organization'', ''project'', ''environment'', ''workspace''}
     \<and> vr_Category row \<in> {''env_var'', ''engine_var'', ''file_template''}
     \<and> vr_Sensitivity row \<in> {''plain'', ''sensitive''})"

definition VariableRepository_Create :: "Variable \<Rightarrow> unit io" where
  "VariableRepository_Create v = tx (\<lambda>_ d.
     let row = variable_row v in
     if \<not> variable_checks row then Inl ErrCheckViolation
     else if \<not> list_ex (\<lambda>og. org_ID og = vr_OrganizationID row) (organizations d) then Inl ErrForeignKeyViolation
     else if list_ex (\<lambda>x. vr_ID x = vr_ID row \<or> vr_ScopeType x = vr_ScopeType row
          \<and> vr_ScopeID x = vr_ScopeID row \<and> vr_Key x = vr_Key row) (variables d) then Inl ErrUniqueViolation
     else Inr ((), d\<lparr>variables := variables d @ [row]\<rparr>))"

definition at_var_scope :: "id \<Rightarrow> string \<Rightarrow> id \<Rightarrow> string \<Rightarrow> VariableRow \<Rightarrow> bool" where
  "at_var_scope organizationID scopeType scopeID key x = (vr_OrganizationID x = organizationID
     \<and> vr_ScopeType x = scopeType \<and> vr_ScopeID x = scopeID \<and> vr_Key x = key)"

definition GetByScope :: "id \<Rightarrow> string \<Rightarrow> id \<Rightarrow> string \<Rightarrow> Variable io" where
  "GetByScope organizationID scopeType scopeID key = query (\<lambda>d.
     case oneRow ErrVariableNotFound (at_var_scope organizationID scopeType scopeID key) (variables d) of
       Inl e \<Rightarrow> Inl e | Inr row \<Rightarrow> Inr (scanVariable row))"

definition ListByScope :: "id \<Rightarrow> string \<Rightarrow> id \<Rightarrow> Variable list io" where
  "ListByScope organizationID scopeType scopeID = query (\<lambda>d.
     Inr (map scanVariable (sort_key vr_Key (filter (\<lambda>x. vr_OrganizationID x = organizationID
       \<and> vr_ScopeType x = scopeType \<and> vr_ScopeID x = scopeID) (variables d)))))"

definition VariableRepository_GetByID :: "id \<Rightarrow> id \<Rightarrow> Variable io" where
  "VariableRepository_GetByID organizationID variableID = query (\<lambda>d.
     case oneRow ErrVariableNotFound (\<lambda>x. vr_OrganizationID x = organizationID \<and> vr_ID x = variableID)
            (variables d) of Inl e \<Rightarrow> Inl e | Inr row \<Rightarrow> Inr (scanVariable row))"

definition VariableRepository_Update :: "Variable \<Rightarrow> unit io" where
  "VariableRepository_Update v = tx (\<lambda>_ d.
     let p = (\<lambda>x. vr_OrganizationID x = var_OrganizationID v \<and> vr_ID x = var_ID v);
         f = (\<lambda>x. x\<lparr>vr_Value := Some (var_Value v), vr_SecretMountID := None, vr_SecretPath := None,
                   vr_Category := var_Category v, vr_Sensitivity := var_Sensitivity v\<rparr>)
     in if list_ex (\<lambda>x. p x \<and> \<not> variable_checks (f x)) (variables d) then Inl ErrCheckViolation
        else Inr ((), d\<lparr>variables := upd p f (variables d)\<rparr>))"

definition VariableRepository_Delete :: "id \<Rightarrow> id \<Rightarrow> unit io" where
  "VariableRepository_Delete organizationID variableID = tx (\<lambda>_ d.
     Inr ((), d\<lparr>variables := del (\<lambda>x. vr_OrganizationID x = organizationID \<and> vr_ID x = variableID)
                  (variables d)\<rparr>))"

section \<open>Services\<close>

text \<open>The bridges \<^verbatim>\<open>cmd/control-plane/main.go\<close> builds.\<close>

definition secretMountCheckerFunc :: "id \<Rightarrow> id \<Rightarrow> bool io" where
  "secretMountCheckerFunc organizationID mountID =
     bindE (tryE (SecretMountRepository_GetByID organizationID mountID)) (\<lambda>r. case r of
       Inl e \<Rightarrow> if e = ErrSecretMountNotFound then retE False else throwE e
     | Inr _ \<Rightarrow> retE True)"

definition environmentProjectResolverFunc :: "id \<Rightarrow> id \<Rightarrow> id io" where
  "environmentProjectResolverFunc organizationID environmentID =
     bindE (EnvironmentRepository_GetByID organizationID environmentID) (\<lambda>env. retE (env_ProjectID env))"

definition requiredPermissionForScope :: "string \<Rightarrow> string" where
  "requiredPermissionForScope scopeType =
     (if scopeType = ''workspace'' then ''workspace:manage'' else ''organization:manage'')"

definition resolveScope :: "id \<Rightarrow> string \<Rightarrow> id \<Rightarrow> (bool \<times> string) io" where
  "resolveScope organizationID scopeType scopeID =
     (if scopeType = ''organization'' then retE (scopeID = organizationID, ''organization:manage'')
      else if scopeType = ''project'' then
        bindE (ProjectExists organizationID scopeID) (\<lambda>exists. retE (exists, ''organization:manage''))
      else if scopeType = ''environment'' then
        bindE (EnvironmentRepository_Exists organizationID scopeID) (\<lambda>exists. retE (exists, ''organization:manage''))
      else if scopeType = ''workspace'' then
        bindE (WorkspaceRepository_Exists organizationID scopeID) (\<lambda>exists. retE (exists, ''workspace:manage''))
      else retE (False, []))"

definition CreateVariable_Execute :: "id \<Rightarrow> string list \<Rightarrow> id \<Rightarrow> id \<Rightarrow> string \<Rightarrow> id \<Rightarrow> string \<Rightarrow> string \<Rightarrow> string
    \<Rightarrow> string \<Rightarrow> id \<Rightarrow> string \<Rightarrow> Variable io" where
  "CreateVariable_Execute uuid ctx organizationID requestingUserID scopeType scopeID key category sensitivity
       val secretMountID secretPath =
    (let usesSecretRef = (secretMountID \<noteq> [] \<or> secretPath \<noteq> []) in
     guardE (\<not> (usesSecretRef \<and> val \<noteq> []))
       (ValidationError ''value and secret_mount_id/secret_path are mutually exclusive'') (
     bindE nowE (\<lambda>now.
     bindE (liftE (if usesSecretRef
       then NewVariableWithSecretRef uuid now organizationID scopeType scopeID key category sensitivity
              secretMountID secretPath
       else NewVariable uuid now organizationID scopeType scopeID key category sensitivity val)) (\<lambda>v.
     bindE (IsMember organizationID requestingUserID) (\<lambda>isMember.
     guardE isMember ErrScopeNotFound (
     bindE (resolveScope organizationID scopeType scopeID) (\<lambda>(scopeExists, requiredPermission).
     guardE scopeExists ErrScopeNotFound (
     bindE (HasPermission ctx organizationID requestingUserID requiredPermission) (\<lambda>allowed.
     guardE allowed ErrForbidden (
     bindE (IsArchived organizationID) (\<lambda>archived.
     guardE (\<not> archived) ErrOrganizationArchived (
     bindE (if usesSecretRef then
              bindE (secretMountCheckerFunc organizationID secretMountID) (\<lambda>mountExists.
              guardE mountExists (ValidationError
                ''secret_mount_id does not resolve to a real secret mount in this organization'') (retE ()))
            else retE ()) (\<lambda>_.
     bindE (VariableRepository_Create v) (\<lambda>_.
     retE v))))))))))))))"

definition UpdateVariable_Execute ::
  "string list \<Rightarrow> id \<Rightarrow> id \<Rightarrow> id \<Rightarrow> string \<Rightarrow> string \<Rightarrow> string \<Rightarrow> Variable io" where
  "UpdateVariable_Execute ctx organizationID requestingUserID variableID val category sensitivity =
     bindE (IsMember organizationID requestingUserID) (\<lambda>isMember.
     guardE isMember ErrVariableNotFound (
     bindE (VariableRepository_GetByID organizationID variableID) (\<lambda>v.
     bindE (HasPermission ctx organizationID requestingUserID (requiredPermissionForScope (var_ScopeType v))) (\<lambda>allowed.
     guardE allowed ErrForbidden (
     guardE (Category_Valid category)
       (ValidationError ''category must be one of env_var, engine_var, file_template'') (
     guardE (Sensitivity_Valid sensitivity)
       (ValidationError ''sensitivity must be one of plain, sensitive'') (
     let v' = v\<lparr>var_Value := val, var_SecretRef := None, var_Category := category,
                var_Sensitivity := sensitivity\<rparr> in
     bindE (VariableRepository_Update v') (\<lambda>_.
     retE v'))))))))"

definition DeleteVariable_Execute :: "string list \<Rightarrow> id \<Rightarrow> id \<Rightarrow> id \<Rightarrow> unit io" where
  "DeleteVariable_Execute ctx organizationID requestingUserID variableID =
     bindE (IsMember organizationID requestingUserID) (\<lambda>isMember.
     guardE isMember ErrVariableNotFound (
     bindE (VariableRepository_GetByID organizationID variableID) (\<lambda>v.
     bindE (HasPermission ctx organizationID requestingUserID (requiredPermissionForScope (var_ScopeType v))) (\<lambda>allowed.
     guardE allowed ErrForbidden (
     VariableRepository_Delete organizationID variableID)))))"

definition ListVariables_Execute :: "string list \<Rightarrow> id \<Rightarrow> id \<Rightarrow> string \<Rightarrow> id \<Rightarrow> Variable list io" where
  "ListVariables_Execute ctx organizationID requestingUserID scopeType scopeID =
     bindE (IsMember organizationID requestingUserID) (\<lambda>isMember.
     guardE isMember ErrScopeNotFound (
     bindE (if scopeType = ''organization'' then retE True
            else if scopeType = ''project'' then
              Variables_canAccessProject ctx organizationID requestingUserID scopeID
            else if scopeType = ''workspace'' then
              bindE (GetScope organizationID scopeID) (\<lambda>(projectID, _).
              Variables_canAccessWorkspace ctx organizationID requestingUserID projectID scopeID)
            else if scopeType = ''environment'' then
              bindE (environmentProjectResolverFunc organizationID scopeID) (\<lambda>projectID.
              Variables_canAccessProject ctx organizationID requestingUserID projectID)
            else throwE (ValidationError (''invalid scope_type: '' @ scopeType))) (\<lambda>canAccess.
     guardE canAccess ErrForbidden (
     ListByScope organizationID scopeType scopeID))))"

definition tryScope :: "(id \<Rightarrow> id \<Rightarrow> string \<Rightarrow> string io) \<Rightarrow> id \<Rightarrow> string \<Rightarrow> id \<Rightarrow> string \<Rightarrow> Variable option io" where
  "tryScope resolveSecret organizationID scopeType scopeID key =
     bindE (tryE (GetByScope organizationID scopeType scopeID key)) (\<lambda>r. case r of
       Inl e \<Rightarrow> if e = ErrVariableNotFound then retE None else throwE e
     | Inr v \<Rightarrow>
         (case var_SecretRef v of
            None \<Rightarrow> retE (Some v)
          | Some ref \<Rightarrow>
              bindE (resolveSecret organizationID (sr_MountID ref) (sr_Path ref)) (\<lambda>val.
              retE (Some (v\<lparr>var_Value := val\<rparr>)))))"

definition ResolveVariable_Execute ::
  "(id \<Rightarrow> id \<Rightarrow> string \<Rightarrow> string io) \<Rightarrow> id \<Rightarrow> id \<Rightarrow> string \<Rightarrow> id \<Rightarrow> Variable io" where
  "ResolveVariable_Execute resolveSecret organizationID workspaceID key requestingUserID =
     bindE (IsMember organizationID requestingUserID) (\<lambda>isMember.
     guardE isMember ErrScopeNotFound (
     bindE (WorkspaceRepository_Exists organizationID workspaceID) (\<lambda>exists.
     guardE exists ErrScopeNotFound (
     bindE (GetScope organizationID workspaceID) (\<lambda>(projectID, environmentID).
     bindE (tryScope resolveSecret organizationID ''workspace'' workspaceID key) (\<lambda>v. case v of Some v \<Rightarrow> retE v | None \<Rightarrow>
     bindE (case environmentID of None \<Rightarrow> retE None
            | Some environmentID \<Rightarrow> tryScope resolveSecret organizationID ''environment'' environmentID key)
       (\<lambda>v. case v of Some v \<Rightarrow> retE v | None \<Rightarrow>
     bindE (tryScope resolveSecret organizationID ''project'' projectID key) (\<lambda>v. case v of Some v \<Rightarrow> retE v | None \<Rightarrow>
     bindE (tryScope resolveSecret organizationID ''organization'' organizationID key) (\<lambda>v. case v of Some v \<Rightarrow> retE v | None \<Rightarrow>
     throwE ErrVariableNotFound)))))))))"

definition ResolveValue :: "(id \<Rightarrow> id \<Rightarrow> string \<Rightarrow> string io) \<Rightarrow> id \<Rightarrow> id \<Rightarrow> string \<Rightarrow> id \<Rightarrow> string option io" where
  "ResolveValue resolveSecret organizationID workspaceID key requestingUserID =
     bindE (tryE (ResolveVariable_Execute resolveSecret organizationID workspaceID key requestingUserID)) (\<lambda>r. case r of
       Inl e \<Rightarrow> if e = ErrVariableNotFound \<or> e = ErrScopeNotFound then retE None else throwE e
     | Inr v \<Rightarrow> retE (Some (var_Value v)))"

section \<open>Columns\<close>

text \<open>What the constructors establish: a variable with a reference has no literal value.\<close>

definition value_xor_ref :: "Variable \<Rightarrow> bool" where
  "value_xor_ref v = (var_SecretRef v \<noteq> None \<longrightarrow> var_Value v = [])"

lemma scan_row: "value_xor_ref v \<Longrightarrow> scanVariable (variable_row v) = v"
  by (auto simp: value_xor_ref_def scanVariable_def variable_row_def valueOrSecretRefColumns_def
      null_string_def split: option.splits)

lemma row_scan: "value_xor_secret_ref row \<Longrightarrow> variable_row (scanVariable row) = row"
  by (auto simp: value_xor_secret_ref_def scanVariable_def variable_row_def valueOrSecretRefColumns_def
      null_string_def split: option.splits)

lemma validateVariableFields_Inr:
  "validateVariableFields og t i k c s = Inr u \<longleftrightarrow> og \<noteq> [] \<and> i \<noteq> [] \<and> ScopeType_Valid t \<and>
     keyPattern k \<and> Category_Valid c \<and> Sensitivity_Valid s"
  by (simp add: validateVariableFields_def)

lemma checks_of_valid_fields:
  assumes "ScopeType_Valid (var_ScopeType v)" "Category_Valid (var_Category v)" "Sensitivity_Valid (var_Sensitivity v)"
  shows "variable_checks (variable_row v)"
proof -
  have "value_xor_secret_ref (variable_row v)"
    by (cases "var_SecretRef v")
      (simp_all add: value_xor_secret_ref_def variable_row_def valueOrSecretRefColumns_def)
  moreover have "vr_ScopeType (variable_row v) = var_ScopeType v" "vr_Category (variable_row v) = var_Category v"
    "vr_Sensitivity (variable_row v) = var_Sensitivity v"
    by (simp_all add: variable_row_def split: prod.split)
  ultimately show ?thesis using assms
    unfolding variable_checks_def ScopeType_Valid_def Category_Valid_def Sensitivity_Valid_def by simp
qed

lemma NewVariable_Inr:
  "NewVariable uuid now og t i k c s x = Inr v \<Longrightarrow> value_xor_ref v \<and> variable_checks (variable_row v) \<and>
     var_ID v = uuid \<and> var_OrganizationID v = og \<and> var_ScopeType v = t \<and> var_ScopeID v = i \<and>
     var_Key v = k \<and> keyPattern k"
  by (cases "validateVariableFields og t i k c s")
    (auto simp: NewVariable_def validateVariableFields_Inr value_xor_ref_def intro!: checks_of_valid_fields)

lemma NewVariableWithSecretRef_Inr:
  "NewVariableWithSecretRef uuid now og t i k c s m p = Inr v \<Longrightarrow> value_xor_ref v \<and>
     variable_checks (variable_row v) \<and> var_ID v = uuid \<and> var_OrganizationID v = og \<and>
     var_ScopeType v = t \<and> var_ScopeID v = i \<and> var_Key v = k \<and> keyPattern k"
  by (cases "validateVariableFields og t i k c s")
    (auto simp: NewVariableWithSecretRef_def validateVariableFields_Inr value_xor_ref_def
      intro!: checks_of_valid_fields split: if_splits)

section \<open>The cascade\<close>

text \<open>
  The specification of resolution: the scopes of a workspace, narrowest first, and the first
  of them that defines the key.
\<close>

definition scope_chain :: "Workspace \<Rightarrow> (string \<times> id) list" where
  "scope_chain x = (''workspace'', ws_ID x) #
     (case ws_EnvironmentID x of None \<Rightarrow> [] | Some e \<Rightarrow> [(''environment'', e)]) @
     [(''project'', ws_ProjectID x), (''organization'', ws_OrganizationID x)]"

fun first_defined :: "db \<Rightarrow> id \<Rightarrow> string \<Rightarrow> (string \<times> id) list \<Rightarrow> VariableRow option" where
  "first_defined d og key [] = None"
| "first_defined d og key ((t, i) # scopes) =
     (case List.find (at_var_scope og t i key) (variables d) of
        Some row \<Rightarrow> Some row | None \<Rightarrow> first_defined d og key scopes)"

text \<open>A row as the caller gets it: a reference is resolved by the Secrets context.\<close>

definition deliver :: "(id \<Rightarrow> id \<Rightarrow> string \<Rightarrow> string io) \<Rightarrow> id \<Rightarrow> VariableRow \<Rightarrow> Variable io" where
  "deliver resolveSecret og row = (case vr_SecretMountID row of
       None \<Rightarrow> retE (scanVariable row)
     | Some m \<Rightarrow> bindE (resolveSecret og m (null_string (vr_SecretPath row)))
                 (\<lambda>val. retE ((scanVariable row)\<lparr>var_Value := val\<rparr>)))"

lemma run_GetByScope [run_simps]:
  "faults w = [] \<Longrightarrow> run (GetByScope og t i key) w =
    ((case List.find (at_var_scope og t i key) (variables (db w)) of
        None \<Rightarrow> Inl ErrVariableNotFound | Some row \<Rightarrow> Inr (scanVariable row)), w)"
  by (simp add: GetByScope_def run_query oneRow_def split: option.split)

lemma run_tryScope:
  "faults w = [] \<Longrightarrow> run (tryScope R og t i key) w =
    (case List.find (at_var_scope og t i key) (variables (db w)) of
       None \<Rightarrow> (Inr None, w)
     | Some row \<Rightarrow> run (bindE (deliver R og row) (\<lambda>v. retE (Some v))) w)"
  by (simp add: tryScope_def run_bindE run_tryE run_GetByScope deliver_def scanVariable_def
      split: option.split sum.split prod.split)

lemma run_tryScope_chain:
  "faults w = [] \<Longrightarrow>
    run (bindE (tryScope R og t i key) (\<lambda>v. case v of Some v \<Rightarrow> retE v | None \<Rightarrow> k)) w =
    (case List.find (at_var_scope og t i key) (variables (db w)) of
       None \<Rightarrow> run k w | Some row \<Rightarrow> run (deliver R og row) w)"
proof (cases "List.find (at_var_scope og t i key) (variables (db w))")
  case None
  moreover assume "faults w = []"
  ultimately show ?thesis by (simp add: run_bindE run_tryScope)
next
  case (Some row)
  moreover assume "faults w = []"
  ultimately show ?thesis
    by (cases "run (deliver R og row) w"; cases "fst (run (deliver R og row) w)")
      (simp_all add: run_bindE run_tryScope)
qed

text \<open>
  C18: Resolving a variable for a workspace, with the database up, is exactly the documented
  cascade: of the scopes workspace, environment (if the workspace has one), project,
  organization, in that order, the first one that defines the key answers, with a secret
  reference replaced by what the Secrets context returns for it; if none does, the answer is
  \<open>ErrVariableNotFound\<close>.
\<close>

theorem resolve_is_cascade:
  assumes "faults w = []"
    and "is_member (db w) og u"
    and "List.find (is_ws og wid) (workspaces (db w)) = Some x"
  shows "run (ResolveVariable_Execute R og wid key u) w =
    (case first_defined (db w) og key (scope_chain x) of
       None \<Rightarrow> (Inl ErrVariableNotFound, w)
     | Some row \<Rightarrow> run (deliver R og row) w)"
proof -
  have x: "ws_ID x = wid" "ws_OrganizationID x = og" and ex: "list_ex (is_ws og wid) (workspaces (db w))"
    using find_SomeD [OF assms(3)] by (auto simp: is_ws_def list_ex_iff)
  let ?t = "\<lambda>t i. tryScope R og t i key"
  let ?k = "\<lambda>m k. bindE m (\<lambda>v. case v of Some v \<Rightarrow> retE v | None \<Rightarrow> k)"
  have "run (ResolveVariable_Execute R og wid key u) w = run
      (?k (?t ''workspace'' wid) (
       ?k (case ws_EnvironmentID x of None \<Rightarrow> retE None | Some e \<Rightarrow> ?t ''environment'' e) (
       ?k (?t ''project'' (ws_ProjectID x)) (
       ?k (?t ''organization'' og) (throwE ErrVariableNotFound))))) w"
    unfolding ResolveVariable_Execute_def
    using assms ex by (simp add: run_bind_IsMember run_bind_query run_guardE
        WorkspaceRepository_Exists_def GetScope_def oneRow_def)
  also have "\<dots> = (case first_defined (db w) og key (scope_chain x) of
       None \<Rightarrow> (Inl ErrVariableNotFound, w) | Some row \<Rightarrow> run (deliver R og row) w)"
    using assms(1) x by (cases "ws_EnvironmentID x")
      (simp_all add: scope_chain_def run_tryScope_chain run_bind_retE split: option.split)
  finally show ?thesis .
qed

definition demo_var :: "string \<Rightarrow> id \<Rightarrow> string \<Rightarrow> VariableRow" where
  "demo_var t i x = \<lparr>vr_ID = t @ i, vr_OrganizationID = ''o1'', vr_ScopeType = t, vr_ScopeID = i,
     vr_Key = ''REGION'', vr_Category = ''env_var'', vr_Sensitivity = ''plain'', vr_Value = Some x,
     vr_SecretMountID = None, vr_SecretPath = None, vr_CreatedAt = 0\<rparr>"

definition demo_vars :: world where
  "demo_vars = demo\<lparr>db := demo_db\<lparr>variables :=
     [demo_var ''organization'' ''o1'' ''eu'', demo_var ''environment'' ''e1'' ''us'']\<rparr>\<rparr>"

text \<open>The key is defined for the organization and for the workspace's environment: the latter wins.\<close>

theorem resolve_is_cascade_witness:
  "run (ResolveVariable_Execute (\<lambda>_ _ _. throwE ErrDB) ''o1'' ''w1'' ''REGION'' ''bob'') demo_vars =
     (Inr (scanVariable (demo_var ''environment'' ''e1'' ''us'')), demo_vars)"
proof -
  have "first_defined (db demo_vars) ''o1'' ''REGION'' (scope_chain demo_ws) =
      Some (demo_var ''environment'' ''e1'' ''us'')"
    by (simp add: demo_vars_def scope_chain_def demo_ws_def demo_var_def at_var_scope_def)
  moreover have "faults demo_vars = []" "is_member (db demo_vars) ''o1'' ''bob''"
    "List.find (is_ws ''o1'' ''w1'') (workspaces (db demo_vars)) = Some demo_ws"
    by (simp_all add: demo_vars_def is_member_def demo_member_def)
  ultimately show ?thesis
    using resolve_is_cascade [of demo_vars "''o1''" "''bob''" "''w1''" demo_ws "\<lambda>_ _ _. throwE ErrDB" "''REGION''"]
    by (simp add: deliver_def demo_var_def)
qed

section \<open>Creating and reading back\<close>

lemma VariableRepository_Create_Inr:
  assumes "run (VariableRepository_Create v) w = (Inr u, w')"
  shows "db w' = (db w)\<lparr>variables := variables (db w) @ [variable_row v]\<rparr> \<and>
    \<not> list_ex (\<lambda>x. vr_ScopeType x = vr_ScopeType (variable_row v) \<and> vr_ScopeID x = vr_ScopeID (variable_row v)
        \<and> vr_Key x = vr_Key (variable_row v)) (variables (db w))"
  using assms by (auto simp: VariableRepository_Create_def success_simps Let_def list_ex_iff split: if_splits)

lemma variable_row_simps [simp]:
  "vr_ScopeType (variable_row v) = var_ScopeType v" "vr_ScopeID (variable_row v) = var_ScopeID v"
  "vr_Key (variable_row v) = var_Key v" "vr_OrganizationID (variable_row v) = var_OrganizationID v"
  by (simp_all add: variable_row_def split: prod.split)

lemma CreateVariable_Inr:
  assumes "run (CreateVariable_Execute uuid ctx og u t i k c s x m p) w = (Inr v, w')"
  shows "value_xor_ref v \<and> var_OrganizationID v = og \<and> var_ScopeType v = t \<and> var_ScopeID v = i \<and> var_Key v = k
    \<and> (\<exists>w1. run (VariableRepository_Create v) w1 = (Inr (), w'))"
proof -
  let ?new = "if m \<noteq> [] \<or> p \<noteq> [] then NewVariableWithSecretRef uuid (clock w) og t i k c s m p
    else NewVariable uuid (clock w) og t i k c s x"
  from assms obtain w1 where "?new = Inr v" "run (VariableRepository_Create v) w1 = (Inr (), w')"
    unfolding CreateVariable_Execute_def Let_def run_guardE_Inr run_bindE_Inr run_nowE_Inr run_liftE_Inr
      run_retE_Inr by (auto simp: success_simps)
  then show ?thesis by (auto dest: NewVariable_Inr NewVariableWithSecretRef_Inr split: if_splits)
qed

text \<open>
  A variable that \<open>CreateVariableService\<close> reports as created is what the repository returns for
  its scope and key from then on: the columns written for a literal value or for a secret
  reference scan back to the same aggregate, and no older row shadows it.
\<close>

lemma created_variable_is_found:
  assumes "run (CreateVariable_Execute uuid ctx og u t i k c s x m p) w = (Inr v, w')" "faults w' = []"
  shows "run (GetByScope og t i k) w' = (Inr v, w')"
proof -
  from CreateVariable_Inr [OF assms(1)] obtain w1 where v: "value_xor_ref v" "var_OrganizationID v = og"
      "var_ScopeType v = t" "var_ScopeID v = i" "var_Key v = k"
    and create: "run (VariableRepository_Create v) w1 = (Inr (), w')" by blast
  from VariableRepository_Create_Inr [OF create] v
  have vars: "variables (db w') = variables (db w1) @ [variable_row v]"
    and new: "List.find (at_var_scope og t i k) (variables (db w1)) = None"
    by (auto simp: find_None_iff_ex list_ex_iff at_var_scope_def)
  have "List.find (at_var_scope og t i k) (variables (db w')) = Some (variable_row v)"
    using new v by (simp add: vars find_append at_var_scope_def)
  then show ?thesis using assms(2) v(1) by (simp add: run_GetByScope scan_row)
qed

text \<open>The owner creates a variable for the workspace and reads it back.\<close>

lemma created_variable_is_found_witness:
  "\<exists>v w'. run (CreateVariable_Execute ''v1'' [] ''o1'' ''alice'' ''workspace'' ''w1'' ''REGION'' ''env_var'' ''plain'' ''eu'' [] []) demo
       = (Inr v, w') \<and> run (GetByScope ''o1'' ''workspace'' ''w1'' ''REGION'') w' = (Inr v, w')"
proof -
  define v where "v = \<lparr>var_ID = ''v1'', var_OrganizationID = ''o1'', var_ScopeType = ''workspace'',
    var_ScopeID = ''w1'', var_Key = ''REGION'', var_Category = ''env_var'', var_Sensitivity = ''plain'',
    var_Value = ''eu'', var_SecretRef = None, var_CreatedAt = 0\<rparr>"
  define w' where "w' = demo\<lparr>db := demo_db\<lparr>variables := [variable_row v]\<rparr>\<rparr>"
  have new: "NewVariable ''v1'' 0 ''o1'' ''workspace'' ''w1'' ''REGION'' ''env_var'' ''plain'' ''eu'' = Inr v"
    by (simp add: v_def NewVariable_def validateVariableFields_def ScopeType_Valid_def keyPattern_def
        Category_Valid_def Sensitivity_Valid_def pattern_defs)
  have "run (VariableRepository_Create v) demo = (Inr (), w')"
    using NewVariable_Inr [OF new] by (simp add: VariableRepository_Create_def run_tx w'_def demo_org_def)
  moreover have "permitted [] demo_db ''o1'' ''alice'' ''workspace:manage'' None None"
    by (rule demo_alice_permitted) (simp add: AllPermissions_def)
  ultimately have create: "run (CreateVariable_Execute ''v1'' [] ''o1'' ''alice'' ''workspace'' ''w1'' ''REGION''
      ''env_var'' ''plain'' ''eu'' [] []) demo = (Inr v, w')"
    by (simp add: CreateVariable_Execute_def run_head new resolveScope_def WorkspaceRepository_Exists_def
        ctx_permits_def IsArchived_def oneRow_def demo_org_def OrganizationStatusArchived_def
        run_bindE [of "VariableRepository_Create v"])
  have "faults w' = []" by (simp add: w'_def)
  with create created_variable_is_found [OF create] show ?thesis by blast
qed

end
