(* ===== verification/Management.thy ===== *)
theory Management
  imports Tenancy Workspaces Variables
begin

text \<open>
  The requests that change an organization, of all contexts together: one constructor per
  state-changing service of Tenancy, RBAC, Workspace and Variables, with the service it is routed
  to and the permission its caller needs. The contract \<open>gated\<close> holds for all of them.
\<close>

datatype request =
    CreateRole id string "string list"
  | UpdateRole id "string list"
  | CreateRoleBinding id id string id string id string
  | DeleteRoleBinding id
  | AddMember "nat \<Rightarrow> id" id
  | RemoveMember id
  | BlockMember id
  | UnblockMember id
  | ChangeMemberRole id id string
  | CreateProject id string string string
  | DeleteProject id
  | CreateTeam id string
  | UpdateTeam id string
  | DeleteTeam id
  | AddTeamMember id id id
  | RemoveTeamMember id id
  | ArchiveOrganization id
  | DeleteOrganization
  | CreateEnvironment id id string int bool
  | CreateWorkspace id id string string "id option"
  | DeleteWorkspace id id
  | CreateVariable id string id string string string string id string
  | UpdateVariable id string string string
  | DeleteVariable id

definition void :: "'a io \<Rightarrow> unit io" where
  "void m = bindE m (\<lambda>_. retE ())"

text \<open>A request of user \<open>u\<close>, with the API key scopes \<open>ctx\<close>, on the organization \<open>og\<close>.\<close>

fun execute :: "string list \<times> id \<times> id \<times> request \<Rightarrow> unit io" where
  "execute (ctx, og, u, CreateRole i n ps) = void (CreateRole_Execute i ctx og u n ps)"
| "execute (ctx, og, u, UpdateRole i ps) = void (UpdateRole_Execute ctx og u i ps)"
| "execute (ctx, og, u, CreateRoleBinding i r st si ct ci e) =
     void (CreateRoleBinding_Execute i ctx og u r st si ct ci e)"
| "execute (ctx, og, u, DeleteRoleBinding i) = DeleteRoleBinding_Execute ctx og u i"
| "execute (ctx, og, u, AddMember i m) = AddMember_Execute i ctx og u m"
| "execute (ctx, og, u, RemoveMember m) = RemoveMember_Execute ctx og u m"
| "execute (ctx, og, u, BlockMember m) = BlockMember_Execute ctx og u m"
| "execute (ctx, og, u, UnblockMember m) = UnblockMember_Execute ctx og u m"
| "execute (ctx, og, u, ChangeMemberRole i m r) = ChangeMemberRole_Execute i ctx og u m r"
| "execute (ctx, og, u, CreateProject i n s de) = void (CreateProject_Execute i ctx og u n s de)"
| "execute (ctx, og, u, DeleteProject p) = DeleteProject_Execute ctx og p u"
| "execute (ctx, og, u, CreateTeam i n) = void (CreateTeam_Execute i ctx og u n)"
| "execute (ctx, og, u, UpdateTeam t n) = void (UpdateTeam_Execute ctx og u t n)"
| "execute (ctx, og, u, DeleteTeam t) = DeleteTeam_Execute ctx og u t"
| "execute (ctx, og, u, AddTeamMember i t m) = AddTeamMember_Execute i ctx og u t m"
| "execute (ctx, og, u, RemoveTeamMember t m) = RemoveTeamMember_Execute ctx og u t m"
| "execute (ctx, og, u, ArchiveOrganization i) = void (ArchiveOrganization_Execute i ctx og u)"
| "execute (ctx, og, u, DeleteOrganization) = DeleteOrganization_Execute ctx og u"
| "execute (ctx, og, u, CreateEnvironment i p n r a) = void (CreateEnvironment_Execute i ctx og p u n r a)"
| "execute (ctx, og, u, CreateWorkspace i p n e env) = void (CreateWorkspace_Execute i ctx og p u n e env)"
| "execute (ctx, og, u, DeleteWorkspace p x) = DeleteWorkspace_Execute ctx og p x u"
| "execute (ctx, og, u, CreateVariable i t si k c s v m p) =
     void (CreateVariable_Execute i ctx og u t si k c s v m p)"
| "execute (ctx, og, u, UpdateVariable i v c s) = void (UpdateVariable_Execute ctx og u i v c s)"
| "execute (ctx, og, u, DeleteVariable i) = DeleteVariable_Execute ctx og u i"

text \<open>The permission a request needs, and the project and workspace at which it may be granted.\<close>

fun needs :: "db \<Rightarrow> id \<Rightarrow> request \<Rightarrow> (string \<times> id option \<times> id option) option" where
  "needs d og (CreateProject _ _ _ _) = Some (''project:manage'', None, None)"
| "needs d og (DeleteProject _) = Some (''project:delete'', None, None)"
| "needs d og (ArchiveOrganization _) = Some (''organization:delete'', None, None)"
| "needs d og DeleteOrganization = Some (''organization:delete'', None, None)"
| "needs d og (CreateWorkspace _ p _ _ _) = Some (''workspace:manage'', Some p, None)"
| "needs d og (DeleteWorkspace p x) = Some (''workspace:delete'', Some p, Some x)"
| "needs d og (CreateVariable _ t _ _ _ _ _ _ _) = Some (requiredPermissionForScope t, None, None)"
| "needs d og (UpdateVariable i _ _ _) =
     map_option (\<lambda>x. (requiredPermissionForScope (vr_ScopeType x), None, None))
       (List.find (\<lambda>x. vr_OrganizationID x = og \<and> vr_ID x = i) (variables d))"
| "needs d og (DeleteVariable i) =
     map_option (\<lambda>x. (requiredPermissionForScope (vr_ScopeType x), None, None))
       (List.find (\<lambda>x. vr_OrganizationID x = og \<and> vr_ID x = i) (variables d))"
| "needs d og _ = Some (''organization:manage'', None, None)"

definition authorized :: "string list \<times> id \<times> id \<times> request \<Rightarrow> db \<Rightarrow> bool" where
  "authorized = (\<lambda>(ctx, og, u, req) d. is_member d og u \<and>
     (case needs d og req of None \<Rightarrow> False
      | Some (p, pr, wk) \<Rightarrow> permitted ctx d og u p pr wk))"

section \<open>Every service refuses the others\<close>

lemma refuses_void: "refuses m w \<Longrightarrow> refuses (void m) w"
  by (auto simp: refuses_def void_def run_bindE split: prod.splits sum.splits)

lemma refuses_member_permission:
  assumes "\<not> (is_member (db w) og u \<and> permitted ctx (db w) og u p None None)"
  shows "refuses (bindE (IsMember og u) (\<lambda>m. guardE m e
    (bindE (HasPermission ctx og u p) (\<lambda>a. guardE a f k)))) w"
  using assms by (intro refuses_member refuses_permission) auto

lemma reads_ProjectExists [intro!]: "reads (ProjectExists og p)"
  by (auto simp: ProjectExists_def)

lemma reads_VariableRepository_GetByID [intro!]: "reads (VariableRepository_GetByID og i)"
  by (auto simp: VariableRepository_GetByID_def)

lemma reads_resolveScope [intro!]: "reads (resolveScope og t i)"
  by (auto simp: resolveScope_def EnvironmentRepository_Exists_def WorkspaceRepository_Exists_def)

lemma run_resolveScope_Inr:
  "run (resolveScope og t i) w = (Inr (True, p), v) \<Longrightarrow> p = requiredPermissionForScope t"
  by (auto simp: resolveScope_def requiredPermissionForScope_def success_simps split: if_splits)

lemma VariableRepository_GetByID_Inr:
  "run (VariableRepository_GetByID og i) w = (Inr x, v) \<Longrightarrow>
     \<exists>row. List.find (\<lambda>x. vr_OrganizationID x = og \<and> vr_ID x = i) (variables (db w)) = Some row
       \<and> var_ScopeType x = vr_ScopeType row"
  by (auto simp: VariableRepository_GetByID_def success_simps scanVariable_def oneRow_def split: option.splits)

lemma variable_service_refuses:
  assumes "\<not> authorized (ctx, og, u, DeleteVariable i) (db w)"
  shows "refuses (bindE (IsMember og u) (\<lambda>m. guardE m e
    (bindE (VariableRepository_GetByID og i) (\<lambda>x.
     bindE (HasPermission ctx og u (requiredPermissionForScope (var_ScopeType x))) (\<lambda>a. guardE a f (k x)))))) w"
proof (rule refuses_member, rule refuses_bindE)
  fix v x v' assume "db v = db w" "is_member (db w) og u"
    and x: "run (VariableRepository_GetByID og i) v = (Inr x, v')" "db v' = db v"
  with assms VariableRepository_GetByID_Inr [OF x(1)]
  show "refuses (bindE (HasPermission ctx og u (requiredPermissionForScope (var_ScopeType x))) (\<lambda>a. guardE a f (k x))) v'"
    by (intro refuses_permission) (auto simp: authorized_def)
qed auto

lemma CreateVariable_refuses:
  assumes "\<not> (is_member (db w) og u \<and> permitted ctx (db w) og u (requiredPermissionForScope t) None None)"
  shows "refuses (CreateVariable_Execute uuid ctx og u t i k c s x m p) w"
proof -
  have gate: "refuses (bindE (IsMember og u) (\<lambda>m. guardE m ErrScopeNotFound (
      bindE (resolveScope og t i) (\<lambda>(b, q). guardE b ErrScopeNotFound (
      bindE (HasPermission ctx og u q) (\<lambda>a. guardE a ErrForbidden (K a))))))) v" if "db v = db w" for v K
  proof (rule refuses_member, rule refuses_bindE)
    fix v1 r v2 assume v: "db v1 = db v" "is_member (db v) og u"
      and r: "run (resolveScope og t i) v1 = (Inr r, v2)" "db v2 = db v1"
    obtain b q where bq: "r = (b, q)" by (cases r)
    show "refuses (case r of (b, q) \<Rightarrow> guardE b ErrScopeNotFound (
      bindE (HasPermission ctx og u q) (\<lambda>a. guardE a ErrForbidden (K a)))) v2"
      unfolding bq prod.case
    proof (rule refuses_guardE)
      assume b
      with r bq have "q = requiredPermissionForScope t" by (auto intro: run_resolveScope_Inr)
      with assms v r that show "refuses (bindE (HasPermission ctx og u q) (\<lambda>a. guardE a ErrForbidden (K a))) v2"
        by (intro refuses_bindE reads_HasPermission refuses_guardE) (auto simp: run_HasPermission split: if_splits)
    qed
  qed auto
  show ?thesis unfolding CreateVariable_Execute_def Let_def
    by (rule refuses_guardE, rule refuses_bindE [OF reads_nowE], rule refuses_bindE [OF reads_pure(3)],
      rule gate) simp
qed

lemma unauthorized_refuses: "\<not> authorized i (db w) \<Longrightarrow> refuses (execute i) w"
proof -
  obtain ctx og u req where i: "i = (ctx, og, u, req)" by (cases i)
  assume *: "\<not> authorized i (db w)"
  let ?rest = "\<not> (is_member (db w) og u \<and> permitted ctx (db w) og u ''organization:manage'' None None)"
  show ?thesis
  proof (cases req)
    case (ChangeMemberRole i m r)
    with * show ?thesis
      by (auto simp: i authorized_def ChangeMemberRole_Execute_def intro!: refuses_guardE refuses_member_permission)
  next
    case (CreateEnvironment i p n r a)
    with * show ?thesis unfolding i CreateEnvironment execute.simps CreateEnvironment_Execute_def
      by (intro refuses_void refuses_member refuses_bindE [OF reads_ProjectExists] refuses_guardE refuses_permission)
        (auto simp: authorized_def)
  next
    case (CreateWorkspace i p n e env)
    with * show ?thesis unfolding i CreateWorkspace execute.simps CreateWorkspace_Execute_def
      by (intro refuses_void refuses_member refuses_bindE [OF reads_ProjectExists] refuses_guardE
          refuses_permission_at_scope) (auto simp: authorized_def)
  next
    case (DeleteWorkspace p x)
    with * show ?thesis unfolding i DeleteWorkspace execute.simps DeleteWorkspace_Execute_def
      by (intro refuses_member refuses_bindE [OF reads_ProjectExists] refuses_guardE
          refuses_permission_at_scope) (auto simp: authorized_def)
  next
    case (CreateVariable a b c d e f g h j)
    with * show ?thesis by (auto simp: i authorized_def intro!: refuses_void CreateVariable_refuses)
  next
    case (UpdateVariable a b c d)
    with * show ?thesis unfolding i UpdateVariable execute.simps UpdateVariable_Execute_def
      by (intro refuses_void variable_service_refuses) (auto simp: authorized_def)
  next
    case (DeleteVariable a)
    with * show ?thesis unfolding i DeleteVariable execute.simps DeleteVariable_Execute_def
      by (intro variable_service_refuses) (auto simp: authorized_def)
  qed (use * in \<open>auto simp: i authorized_def CreateRole_Execute_def UpdateRole_Execute_def
      CreateRoleBinding_Execute_def DeleteRoleBinding_Execute_def AddMember_Execute_def RemoveMember_Execute_def
      BlockMember_Execute_def UnblockMember_Execute_def CreateProject_Execute_def DeleteProject_Execute_def
      CreateTeam_Execute_def UpdateTeam_Execute_def DeleteTeam_Execute_def AddTeamMember_Execute_def
      RemoveTeamMember_Execute_def ArchiveOrganization_Execute_def DeleteOrganization_Execute_def
      intro!: refuses_void refuses_member_permission\<close>)
qed

interpretation management: gated execute authorized
  by unfold_locales (rule unauthorized_refuses)

end
