(* ===== verification/Guarantees.thy ===== *)
theory Guarantees
  imports Management
begin

text \<open>
  What the access control of the platform guarantees: no effect without permission, for single
  requests and for sequences of them; how permissions are evaluated; which projects a user
  sees; what the administration of roles and members can and cannot do.
\<close>

section \<open>No effect without permission\<close>

text \<open>
  C2: No sequence of unauthorized requests has an effect. Take any list of state-changing
  requests of Tenancy, RBAC, Workspace and Variables, in which each caller is not a member of
  the organization, is blocked, lacks the permission the request needs at its scope, or uses an
  API key whose scopes do not include it. Executed one after the other, under any database
  failures, they leave the database exactly as it was, and the first of them returns an error.
\<close>

theorem unauthorized_requests_change_nothing:
  assumes "\<And>req. req \<in> set reqs \<Longrightarrow> \<not> authorized req (db w)"
  shows "db (fold (\<lambda>req w. snd (run (execute req) w)) reqs w) = db w
    \<and> (reqs \<noteq> [] \<longrightarrow> (\<exists>e. fst (run (execute (hd reqs)) w) = Inl e))"
proof
  show "db (fold (\<lambda>req w. snd (run (execute req) w)) reqs w) = db w"
    using assms by (rule management.sequence_unchanged)
  show "reqs \<noteq> [] \<longrightarrow> (\<exists>e. fst (run (execute (hd reqs)) w) = Inl e)"
    using management.unauthorized_refused [of "hd reqs" w] assms [of "hd reqs"]
    by (cases reqs) (auto simp: refuses_def split: prod.splits)
qed

lemma demo_bob_unauthorized:
  "\<not> authorized ([], ''o1'', ''bob'', DeleteTeam ''t1'') demo_db"
  "\<not> authorized ([], ''o1'', ''eve'', DeleteProject ''p1'') demo_db"
  "\<not> authorized ([''workspace:read''], ''o1'', ''alice'', DeleteProject ''p1'') demo_db"
  by (simp_all add: authorized_def permitted_def demo_bob ctx_permits_def)

theorem unauthorized_requests_change_nothing_witness:
  "db (fold (\<lambda>req w. snd (run (execute req) w)) [([], ''o1'', ''bob'', DeleteTeam ''t1''),
      ([], ''o1'', ''eve'', DeleteProject ''p1''), ([''workspace:read''], ''o1'', ''alice'', DeleteProject ''p1'')] demo) = demo_db
    \<and> (\<exists>e. fst (run (execute ([], ''o1'', ''bob'', DeleteTeam ''t1'')) demo) = Inl e)"
  using unauthorized_requests_change_nothing [of "[([], ''o1'', ''bob'', DeleteTeam ''t1''),
      ([], ''o1'', ''eve'', DeleteProject ''p1''), ([''workspace:read''], ''o1'', ''alice'', DeleteProject ''p1'')]" demo]
    demo_bob_unauthorized by (auto simp del: execute.simps)

text \<open>A key whose scopes include the permission makes no difference to the check.\<close>

lemma key_with_permission:
  assumes "p \<in> set ctx"
  shows "HasPermissionAtScope ctx og u p pr wk = HasPermissionAtScope [] og u p pr wk" "HasPermission ctx og u p = HasPermission [] og u p"
  using assms by (simp_all add: HasPermission_def HasPermissionAtScope_def ScopesFromContext_def)

lemma run_bindE_cong: "(\<And>a w'. run m w = (Inr a, w') \<Longrightarrow> run (k a) w' = run (k' a) w') \<Longrightarrow> run (bindE m k) w = run (bindE m k') w"
  by (auto simp: run_bindE split: prod.split sum.split)

lemma run_guardE_cong: "(b \<Longrightarrow> run k w = run k' w) \<Longrightarrow> run (guardE b e k) w = run (guardE b e k') w"
  by (simp add: run_guardE)

lemma run_void_cong: "run m w = run m' w \<Longrightarrow> run (void m) w = run (void m') w"
  by (simp add: void_def run_bindE)

lemma variable_key:
  assumes "needs (db w) og (DeleteVariable i) = Some (p, pr, wk)" "p \<in> set ctx"
    and "run (IsMember og u) w = (Inr b, w1)" "run (VariableRepository_GetByID og i) w1 = (Inr x, w2)"
  shows "HasPermission ctx og u (requiredPermissionForScope (var_ScopeType x)) = HasPermission [] og u (requiredPermissionForScope (var_ScopeType x))"
proof -
  have "db w1 = db w" using assms(3) by (auto simp: run_IsMember split: if_splits)
  then have "requiredPermissionForScope (var_ScopeType x) = p"
    using assms(1) VariableRepository_GetByID_Inr [OF assms(4)] by auto
  with assms(2) show ?thesis by (simp add: key_with_permission)
qed

lemma CreateVariable_key:
  assumes "requiredPermissionForScope t \<in> set ctx"
  shows "run (CreateVariable_Execute uuid ctx og u t i k c s x m p) w = run (CreateVariable_Execute uuid [] og u t i k c s x m p) w"
  unfolding CreateVariable_Execute_def Let_def
proof (intro run_guardE_cong run_bindE_cong)
  fix r w1 w2
  assume "run (resolveScope og t i) w1 = (Inr r, w2)"
  with assms show "run (case r of (b, q) \<Rightarrow> guardE b ErrScopeNotFound (bindE (HasPermission ctx og u q) K)) w2
      = run (case r of (b, q) \<Rightarrow> guardE b ErrScopeNotFound (bindE (HasPermission [] og u q) K)) w2" for K
    by (cases r) (auto simp: run_guardE key_with_permission dest!: run_resolveScope_Inr)
qed

lemma execute_with_key:
  assumes "needs (db w) og req = Some (p, pr, wk)" "p \<in> set ctx"
  shows "run (execute (ctx, og, u, req)) w = run (execute ([], og, u, req)) w"
proof (cases req)
  case (CreateVariable a b c d e f g h j)
  with assms show ?thesis by (auto intro!: run_void_cong CreateVariable_key)
next
  case (UpdateVariable i v c s)
  with assms have "needs (db w) og (DeleteVariable i) = Some (p, pr, wk)" by simp
  note key = variable_key [OF this assms(2)]
  show ?thesis unfolding UpdateVariable execute.simps UpdateVariable_Execute_def
    by (intro run_void_cong run_bindE_cong run_guardE_cong) (simp add: key)
next
  case (DeleteVariable i)
  note key = variable_key [OF assms [unfolded DeleteVariable]]
  show ?thesis unfolding DeleteVariable execute.simps DeleteVariable_Execute_def
    by (intro run_bindE_cong run_guardE_cong) (simp add: key)
qed (use assms in \<open>auto simp: key_with_permission CreateRole_Execute_def UpdateRole_Execute_def
      CreateRoleBinding_Execute_def DeleteRoleBinding_Execute_def AddMember_Execute_def RemoveMember_Execute_def
      BlockMember_Execute_def UnblockMember_Execute_def ChangeMemberRole_Execute_def CreateProject_Execute_def DeleteProject_Execute_def
      CreateTeam_Execute_def UpdateTeam_Execute_def DeleteTeam_Execute_def AddTeamMember_Execute_def
      RemoveTeamMember_Execute_def ArchiveOrganization_Execute_def DeleteOrganization_Execute_def CreateEnvironment_Execute_def
      CreateWorkspace_Execute_def DeleteWorkspace_Execute_def\<close>)

text \<open>
  C32: An API key only narrows what its owner may do. Take any state-changing request of Tenancy, RBAC, Workspace and Variables, made with a
  key that has scopes, in any world. If the permission that the request needs is among the key's scopes, the request
  is executed exactly as it would be for the owner without a key: same result, same effect. If it is not, the request is
  refused with an error and the database is unchanged, whatever the owner may do.
\<close>

theorem api_key_only_narrows:
  assumes "ctx \<noteq> []"
  shows "if \<exists>p pr wk. needs (db w) og req = Some (p, pr, wk) \<and> p \<in> set ctx
    then run (execute (ctx, og, u, req)) w = run (execute ([], og, u, req)) w
    else db (snd (run (execute (ctx, og, u, req)) w)) = db w \<and> (\<exists>e. fst (run (execute (ctx, og, u, req)) w) = Inl e)"
proof (cases "\<exists>p pr wk. needs (db w) og req = Some (p, pr, wk) \<and> p \<in> set ctx")
  case True
  then show ?thesis using execute_with_key by auto
next
  case False
  with assms have "\<not> authorized (ctx, og, u, req) (db w)"
    by (auto simp: authorized_def permitted_def ctx_permits_def split: option.splits)
  then have "refuses (execute (ctx, og, u, req)) w" by (rule management.unauthorized_refused)
  with False show ?thesis by (auto simp: refuses_def split: prod.splits)
qed

text \<open>Alice deletes a project with a key that may, and is refused with one that may only read.\<close>

theorem api_key_only_narrows_witness:
  "run (execute ([''project:delete''], ''o1'', ''alice'', DeleteProject ''p1'')) demo = run (execute ([], ''o1'', ''alice'', DeleteProject ''p1'')) demo
   \<and> db (snd (run (execute ([''project:read''], ''o1'', ''alice'', DeleteProject ''p1'')) demo)) = demo_db"
  using api_key_only_narrows [of "[''project:delete'']" demo "''o1''" "DeleteProject ''p1''" "''alice''"]
    api_key_only_narrows [of "[''project:read'']" demo "''o1''" "DeleteProject ''p1''" "''alice''"]
  by (simp del: execute.simps)

section \<open>Evaluation of permissions\<close>

text \<open>
  C27: Deny overrides allow. If any binding that applies (to the user, to one of the user's teams,
  or to the service account, at the organization, the project or the workspace asked about)
  has the effect deny and its role has the permission, the check answers no, whatever else is
  bound; and without any applicable binding it also answers no.
\<close>

theorem deny_overrides_allow:
  assumes "\<not> fault_now w"
    and "(\<exists>b \<in> set (role_bindings (db w)). applies_at_scope (db w) (og, u, p, pr, wk) b \<and> rb_Effect b = ''deny'')
      \<or> (\<forall>b \<in> set (role_bindings (db w)). \<not> applies_at_scope (db w) (og, u, p, pr, wk) b)"
  shows "fst (run (HasPermissionAtScope ctx og u p pr wk) w) = Inr False"
  using assms iam_at_scope.deny_overrides [of _ "db w" "(og, u, p, pr, wk)"]
    iam_at_scope.default_deny [of "db w" "(og, u, p, pr, wk)"]
  by (auto simp: run_HasPermissionAtScope permitted_def)

theorem deny_overrides_allow_witness:
  "fst (run (HasPermissionAtScope [] ''o1'' ''alice'' ''workspace:apply'' (Some ''p1'') (Some ''w1''))
     (demo\<lparr>db := demo_db\<lparr>role_bindings := role_bindings demo_db @ [(demo_binding ''b3'' ''alice'' ''write'')\<lparr>rb_Effect := ''deny'',
        rb_ScopeType := ''workspace'', rb_ScopeID := ''w1''\<rparr>]\<rparr>\<rparr>)) = Inr False"
  by (rule deny_overrides_allow)
    (auto simp: applies_at_scope_def subject_matches_def at_scope_def role_grants_def role_visible_def demo_binding_def
      demo_role_def BuiltinRoles_def rbac_consts)

section \<open>Visibility of projects\<close>

lemma run_canAccessProject:
  assumes "faults w = []"
  shows "run (Tenancy_canAccessProject ctx og u p) w = (Inr (can_access_project ctx (db w) og u p), w)"
  using assms
  by (auto simp: canAccessProject_agree Workspace_canAccessProject_def run_bindE run_HasPermission run_HasScopedPermission
      can_access_project_def permitted_def permitted_scoped_def)

text \<open>
  Which projects a user sees, exactly. While the database works, \<open>GetProjectService\<close> answers
  \<open>ErrOrganizationNotFound\<close> to anyone who is not an active member, \<open>ErrForbidden\<close> to a member who
  neither administers the organization nor holds \<^verbatim>\<open>project:read\<close> at that very project, and otherwise the
  project. A grant of \<^verbatim>\<open>project:read\<close> at the organization does not count.
\<close>

lemma get_project_decision:
  assumes "faults w = []"
  shows "run (GetProject_Execute ctx og p u) w =
    (if \<not> is_member (db w) og u then Inl ErrOrganizationNotFound
     else if \<not> (permitted ctx (db w) og u ''organization:manage'' None None
                 \<or> permitted_scoped ctx (db w) og u ''project:read'' ''project'' p) then Inl ErrForbidden
     else oneRow ErrProjectNotFound (\<lambda>x. prj_OrganizationID x = og \<and> prj_ID x = p) (projects (db w)), w)"
  using assms run_canAccessProject [OF assms, of ctx og u p]
  by (simp add: GetProject_Execute_def run_head run_bindE [of "Tenancy_canAccessProject ctx og u p"]
      ProjectRepository_GetByID_def run_query can_access_project_def)

text \<open>Bob may read projects by a role bound at the organization, and is refused the project.\<close>

lemma get_project_decision_witness:
  "fst (run (GetProject_Execute [] ''o1'' ''p1'' ''bob'') demo) = Inl ErrForbidden
    \<and> has_permission_at_scope demo_db ''o1'' ''bob'' ''project:read'' (Some ''p1'') None"
proof -
  have "\<not> permitted_scoped [] demo_db ''o1'' ''bob'' ''project:read'' ''project'' ''p1''"
    by (simp add: permitted_scoped_def has_scoped_permission_def matches_def demo_binding_def)
  moreover have "has_permission_at_scope demo_db ''o1'' ''bob'' ''project:read'' (Some ''p1'') None"
    by (simp add: has_permission_at_scope_def matches_def subject_matches_def role_grants_def role_visible_def
      at_scope_def demo_binding_def demo_role_def BuiltinRoles_def rbac_consts)
  ultimately show ?thesis using get_project_decision [of demo "[]" "''o1''" "''p1''" "''bob''"] demo_bob
    by (simp add: permitted_def)
qed

lemma run_mapE_checks:
  assumes "faults w = []"
  shows "run (mapE (\<lambda>p. bindE (HasScopedPermission ctx og u perm ty (f p)) (\<lambda>c. retE (c, p))) ps) w
    = (Inr (map (\<lambda>p. (permitted_scoped ctx (db w) og u perm ty (f p), p)) ps), w)"
  using assms by (induction ps) (auto simp: run_bindE run_HasScopedPermission permitted_scoped_def)

text \<open>
  C36: Listing agrees with reading, in a world without failing transactions: the list of projects that \<open>ListProjectsService\<close> returns to a
  member is the organization's projects, oldest first, reduced to exactly those for which
  \<open>GetProjectService\<close> would not answer \<open>ErrForbidden\<close>; the shortcut for administrators changes nothing.
\<close>

theorem list_projects_agrees:
  assumes "faults w = []" and "is_member (db w) og u"
  shows "run (ListProjects_Execute ctx og u) w = (Inr (filter (\<lambda>p. fst (run (GetProject_Execute ctx og (prj_ID p) u) w) \<noteq> Inl ErrForbidden)
     (sort_key prj_CreatedAt (filter (\<lambda>p. prj_OrganizationID p = og) (projects (db w))))), w)"
proof -
  have get: "fst (run (GetProject_Execute ctx og i u) w) \<noteq> Inl ErrForbidden \<longleftrightarrow> can_access_project ctx (db w) og u i" for i
    using assms run_canAccessProject [OF assms(1), of ctx og u i]
    by (auto simp: GetProject_Execute_def run_head run_bindE [of "Tenancy_canAccessProject ctx og u i"]
        ProjectRepository_GetByID_def run_query oneRow_def split: option.split)
  show ?thesis unfolding get using assms
    by (auto simp: ListProjects_Execute_def run_head ProjectRepository_ListByOrganization_def can_access_project_def
        run_bindE [of "mapE f xs" for f xs] run_mapE_checks permitted_def filter_map comp_def)
qed

theorem list_projects_agrees_witness:
  "fst (run (ListProjects_Execute [] ''o1'' ''bob'') demo) =
     Inr (filter (\<lambda>p. fst (run (GetProject_Execute [] ''o1'' (prj_ID p) ''bob'') demo) \<noteq> Inl ErrForbidden) [demo_prj])"
  using list_projects_agrees [of demo "''o1''" "''bob''" "[]"] by (simp add: demo_prj_def)

section \<open>Roles\<close>

text \<open>
  C34: The administration of roles only composes what exists. When \<open>CreateRoleService\<close> or
  \<open>UpdateRoleService\<close> succeeds, the role belongs to the organization and all of its permissions are
  among the known ones; and whatever they return, no built-in role and no role of another
  organization has changed.
\<close>

theorem custom_roles_compose:
  assumes "req = CreateRole_Execute uuid ctx og u nm ps \<or> req = UpdateRole_Execute ctx og u rid ps"
    and "run req w = (res, w')"
  shows "(\<forall>r. res = Inr r \<longrightarrow> role_OrganizationID r = Some og \<and> set (role_Permissions r) \<subseteq> set AllPermissions
            \<and> role_Permissions r \<noteq> [])
    \<and> filter (\<lambda>r. role_OrganizationID r \<noteq> Some og) (roles (db w')) = filter (\<lambda>r. role_OrganizationID r \<noteq> Some og) (roles (db w))"
  using assms(1)
proof
  assume "req = CreateRole_Execute uuid ctx og u nm ps"
  with assms(2) show ?thesis
    by (auto simp: CreateRole_Execute_def run_head NewRole_def RoleRepository_Create_def check_permissions_Inr
        split: if_splits sum.splits)
next
  assume "req = UpdateRole_Execute ctx og u rid ps"
  with assms(2) show ?thesis
    by (auto simp: UpdateRole_Execute_def run_head RoleRepository_GetByID_def RoleRepository_Update_def check_permissions_Inr
        oneRow_def role_visible_def intro!: filter_upd_other split: if_splits sum.splits option.splits dest!: find_SomeD)
qed

theorem custom_roles_compose_witness:
  "\<exists>r. fst (run (CreateRole_Execute ''x'' [] ''o1'' ''alice'' ''deployer'' [''workspace:apply'']) demo) = Inr r
     \<and> set (role_Permissions r) \<subseteq> set AllPermissions"
proof -
  have "\<exists>r. fst (run (CreateRole_Execute ''x'' [] ''o1'' ''alice'' ''deployer'' [''workspace:apply'']) demo) = Inr r"
    by (simp add: CreateRole_Execute_def run_head NewRole_def RoleRepository_Create_def demo_permitted_in
        AllPermissions_def rbac_consts ctx_permits_def run_tx
        demo_role_def demo_org_def BuiltinRoles_def)
  then show ?thesis
    using custom_roles_compose [OF disjI1 [OF refl] surjective_pairing,
      of "''x''" "[]" "''o1''" "''alice''" "''deployer''" "[''workspace:apply'']" demo] by blast
qed

text \<open>
  Changing a member's role replaces it: after \<open>ChangeMemberRoleService\<close> succeeded, the member has
  exactly one binding at the organization, which allows the built-in role that was asked for,
  \<open>GetOrgScopeRoleName\<close> reads that role back, and no binding of anyone else has changed.
\<close>

lemma changed_role_is_read_back:
  assumes "run (ChangeMemberRole_Execute uuid ctx og u t role) w = (Inr x, w')" and "faults w = []"
    and "distinct (map role_ID (roles (db w)))"
  shows "(\<exists>b. filter (is_org_scope_binding_of og t) (role_bindings (db w')) = [b] \<and> rb_Effect b = ''allow'')
    \<and> fst (run (GetOrgScopeRoleName og t) w') = Inr (Some role)
    \<and> filter (\<lambda>b. \<not> is_org_scope_binding_of og t b) (role_bindings (db w'))
        = filter (\<lambda>b. \<not> is_org_scope_binding_of og t b) (role_bindings (db w))"
proof -
  let ?keep = "del (is_org_scope_binding_of og t) (role_bindings (db w))"
  from assms(1,2) obtain r where
    r: "List.find (\<lambda>r. role_Name r = role \<and> role_OrganizationID r = None) (roles (db w)) = Some r"
    and ins: "insert_role_binding (NewOrganizationScopeBinding uuid (clock w) og (role_ID r) t)
      ((db w)\<lparr>role_bindings := ?keep\<rparr>) = Inr (db w')" and w': "faults w' = []"
    by (auto simp: ChangeMemberRole_Execute_def run_head ReplaceRole_def run_tx oneRow_def
        split: if_splits sum.splits option.splits)
  let ?b = "NewOrganizationScopeBinding uuid (clock w) og (role_ID r) t"
  from ins have bs: "role_bindings (db w') = ?keep @ [?b]" "roles (db w') = roles (db w)"
    by (auto dest: insert_role_binding_Inr)
  have b: "is_org_scope_binding_of og t ?b" "rb_Effect ?b = ''allow''" "rb_RoleID ?b = role_ID r"
    by (simp_all add: is_org_scope_binding_of_def NewOrganizationScopeBinding_def rbac_consts)
  have one: "filter (is_org_scope_binding_of og t) (role_bindings (db w')) = [?b]"
    using b(1) by (simp add: bs del_def)
  have rr: "r \<in> set (roles (db w))" "role_Name r = role" "role_OrganizationID r = None" using find_SomeD [OF r] by simp_all
  have "filter (\<lambda>x. role_visible og x \<and> role_ID x = role_ID r) (roles (db w)) = [r]"
  proof -
    have "filter (\<lambda>x. role_visible og x \<and> role_ID x = role_ID r) (roles (db w)) = filter (\<lambda>x. x = r) (roles (db w))"
      by (rule filter_cong) (use assms(3) rr in \<open>auto simp: role_visible_def distinct_map dest: inj_onD\<close>)
    with assms(3) rr(1) show ?thesis by (simp add: distinct_map filter_eq_singleton)
  qed
  with one b w' rr show ?thesis
    by (simp add: bs GetOrgScopeRoleName_def run_query del_def)
qed

lemma demo_ChangeMemberRole:
  "run (ChangeMemberRole_Execute ''x'' [] ''o1'' ''alice'' ''bob'' ''write'') demo
     = (Inr (), demo\<lparr>db := demo_db\<lparr>role_bindings := [demo_binding ''b1'' ''alice'' ''owner'', demo_binding ''x'' ''bob'' ''write'']\<rparr>\<rparr>)"
  by (simp add: ChangeMemberRole_Execute_def run_head validRoleNames_def demo_alice_permitted AllPermissions_def rbac_consts
      ctx_permits_def ReplaceRole_def run_tx oneRow_def demo_role_def BuiltinRoles_def insert_role_binding_def
      NewOrganizationScopeBinding_def is_org_scope_binding_of_def demo_binding_def demo_org_def same_grant_def)

lemma changed_role_is_read_back_witness:
  "fst (run (GetOrgScopeRoleName ''o1'' ''bob'')
     (demo\<lparr>db := demo_db\<lparr>role_bindings := [demo_binding ''b1'' ''alice'' ''owner'', demo_binding ''x'' ''bob'' ''write'']\<rparr>\<rparr>)) = Inr (Some ''write'')"
  using changed_role_is_read_back [OF demo_ChangeMemberRole]
  by (simp add: demo_role_def BuiltinRoles_def rbac_consts)

text \<open>What the rows of the built-in roles should be, and that seeding makes them so.\<close>

definition seeded :: "(string \<times> string list) list \<Rightarrow> Role list \<Rightarrow> bool" where
  "seeded builtin rs = (\<forall>(n, ps) \<in> set builtin.
     (\<exists>r \<in> set rs. role_Name r = n \<and> role_OrganizationID r = None) \<and>
     (\<forall>r \<in> set rs. role_Name r = n \<and> role_OrganizationID r = None \<longrightarrow> role_Permissions r = ps))"

lemma run_SeedBuiltinRole_Inr:
  assumes "run (SeedBuiltinRole i n ps) w = (Inr x, w')"
  shows "seeded [(n, ps)] (roles (db w'))"
    and "distinct (map fst b) \<Longrightarrow> n \<notin> fst ` set b \<Longrightarrow> seeded b (roles (db w)) \<Longrightarrow> seeded b (roles (db w'))"
    and "filter (\<lambda>r. role_OrganizationID r \<noteq> None) (roles (db w')) = filter (\<lambda>r. role_OrganizationID r \<noteq> None) (roles (db w))"
proof -
  let ?p = "\<lambda>r. role_Name r = n \<and> role_OrganizationID r = None"
  have "roles (db w') = upd ?p (\<lambda>r. r\<lparr>role_Permissions := ps\<rparr>) (roles (db w)) \<and> list_ex ?p (roles (db w))
    \<or> roles (db w') = roles (db w) @ [\<lparr>role_ID = i, role_OrganizationID = None, role_Name = n, role_Permissions = ps\<rparr>]
       \<and> \<not> list_ex ?p (roles (db w))"
    using assms by (auto simp: SeedBuiltinRole_def run_tx split: if_splits)
  then consider (update) "roles (db w') = upd ?p (\<lambda>r. r\<lparr>role_Permissions := ps\<rparr>) (roles (db w))" "list_ex ?p (roles (db w))"
    | (add) "roles (db w') = roles (db w) @ [\<lparr>role_ID = i, role_OrganizationID = None, role_Name = n, role_Permissions = ps\<rparr>]"
      "\<not> list_ex ?p (roles (db w))" by blast
  note cases = this
  have kept: "r \<in> set (roles (db w')) \<longleftrightarrow> r \<in> set (roles (db w))" if r: "\<not> ?p r" for r
  proof (rule cases)
    assume "roles (db w') = upd ?p (\<lambda>r. r\<lparr>role_Permissions := ps\<rparr>) (roles (db w))"
    with r show ?thesis by (auto simp: set_upd)
  next
    assume "roles (db w') = roles (db w) @ [\<lparr>role_ID = i, role_OrganizationID = None, role_Name = n, role_Permissions = ps\<rparr>]"
    with r show ?thesis by auto
  qed
  show "seeded [(n, ps)] (roles (db w'))"
    using cases by cases (auto simp: seeded_def set_upd list_ex_iff bex_Un)
  show "seeded b (roles (db w'))" if "distinct (map fst b)" "n \<notin> fst ` set b" "seeded b (roles (db w))"
    unfolding seeded_def
  proof (clarify, intro conjI ballI impI)
    fix m qs assume m: "(m, qs) \<in> set b"
    with that(2) have mn: "m \<noteq> n" by force
    from that(3) m obtain r where r: "r \<in> set (roles (db w))" "role_Name r = m" "role_OrganizationID r = None"
      by (auto simp: seeded_def)
    with mn kept [of r] show "\<exists>r \<in> set (roles (db w')). role_Name r = m \<and> role_OrganizationID r = None" by blast
    fix q assume "q \<in> set (roles (db w'))" "role_Name q = m \<and> role_OrganizationID q = None"
    with mn kept [of q] have "q \<in> set (roles (db w))" by blast
    with that(3) m \<open>role_Name q = m \<and> role_OrganizationID q = None\<close> show "role_Permissions q = qs"
      unfolding seeded_def by blast
  qed
  show "filter (\<lambda>r. role_OrganizationID r \<noteq> None) (roles (db w')) = filter (\<lambda>r. role_OrganizationID r \<noteq> None) (roles (db w))"
    using cases by cases (auto intro!: filter_upd_other)
qed

lemma run_SeedBuiltinRoles:
  assumes "run (SeedBuiltinRoles order u) w = (Inr x, w')" "distinct (map fst order)" "distinct (map fst b)"
    "fst ` set order \<inter> fst ` set b = {}" "seeded b (roles (db w))"
  shows "seeded (order @ b) (roles (db w')) \<and>
    filter (\<lambda>r. role_OrganizationID r \<noteq> None) (roles (db w')) = filter (\<lambda>r. role_OrganizationID r \<noteq> None) (roles (db w))"
  using assms unfolding SeedBuiltinRoles_def
proof (induction order arbitrary: w b)
  case Nil
  then show ?case by simp
next
  case (Cons nps order)
  obtain n ps where nps: "nps = (n, ps)" by fastforce
  from Cons.prems(1) obtain y w1 where one: "run (SeedBuiltinRole (u n) n ps) w = (Inr y, w1)"
    and rest: "run (forE order (\<lambda>(name, permissions). SeedBuiltinRole (u name) name permissions)) w1 = (Inr x, w')"
    by (auto simp: nps run_bindE_Inr)
  have "seeded ((n, ps) # b) (roles (db w1))"
    using run_SeedBuiltinRole_Inr(1) [OF one] run_SeedBuiltinRole_Inr(2) [OF one, of b] Cons.prems(3,4,5) nps
    by (auto simp: seeded_def)
  from Cons.IH [OF rest _ _ _ this] Cons.prems(2,3,4) nps run_SeedBuiltinRole_Inr(3) [OF one] show ?case
    by (auto simp: seeded_def)
qed

text \<open>
  Starting up brings the built-in roles up to date, in whatever order Go ranges over the map: after
  \<open>SeedBuiltinRoles\<close> succeeded, every built-in role has a row, every such row has exactly the
  permissions of the code (also one that was seeded by an older version), and the custom roles of
  the organizations are as they were.
\<close>

lemma seeding_updates_builtin_roles:
  assumes "set order = set BuiltinRoles" and "distinct order" and "run (SeedBuiltinRoles order u) w = (Inr (), w')"
  shows "seeded BuiltinRoles (roles (db w')) \<and>
    filter (\<lambda>r. role_OrganizationID r \<noteq> None) (roles (db w')) = filter (\<lambda>r. role_OrganizationID r \<noteq> None) (roles (db w))"
proof -
  have "inj_on fst (set BuiltinRoles)" by (auto simp: BuiltinRoles_def rbac_consts inj_on_def)
  with assms(1,2) have "distinct (map fst order)" by (simp add: distinct_map)
  from run_SeedBuiltinRoles [OF assms(3) this, of "[]"] show ?thesis
    using assms(1) by (auto simp: seeded_def)
qed

lemma seeding_updates_builtin_roles_witness:
  "seeded BuiltinRoles (roles (db (snd (run (SeedBuiltinRoles (rev BuiltinRoles) (\<lambda>n. n)) empty_world))))"
proof -
  have "run (SeedBuiltinRoles (rev BuiltinRoles) (\<lambda>n. n)) empty_world =
      (Inr (), snd (run (SeedBuiltinRoles (rev BuiltinRoles) (\<lambda>n. n)) empty_world))"
    by (simp add: SeedBuiltinRoles_def BuiltinRoles_def rbac_consts run_head SeedBuiltinRole_def run_bindE run_tx
        empty_world_def empty_db_def fault_now_def pop_def)
  moreover have "distinct BuiltinRoles" by (simp add: BuiltinRoles_def rbac_consts)
  ultimately show ?thesis using seeding_updates_builtin_roles [OF set_rev] by (metis distinct_rev)
qed

section \<open>Members\<close>

text \<open>
  Blocking takes effect at once: after \<open>BlockMemberService\<close> succeeded for a user that is not
  a service account, every state-changing request of that user on the organization, with or
  without an API key, returns an error and leaves the data as it is, as long as the rows of the
  memberships stay as they are; and unblocking restores the membership.
\<close>

lemma blocked_member_is_refused:
  assumes "run (BlockMember_Execute ctx og u t) w = (Inr x, w')"
    and "\<not> list_ex (\<lambda>s. sa_OrganizationID s = og \<and> sa_ID s = t) (service_accounts (db w))"
    and "organization_memberships (db v) = organization_memberships (db w')" "service_accounts (db v) = service_accounts (db w')"
  shows "refuses (execute (ctx', og, t, req)) v
    \<and> (\<forall>y v'. run (UnblockMember_Execute ctx'' og u t) v = (Inr y, v') \<longrightarrow> is_member (db v') og t)"
proof -
  from assms(1) have blocked: "organization_memberships (db w') = upd (\<lambda>m. mem_OrganizationID m = og \<and> mem_UserID m = t)
      (\<lambda>m. m\<lparr>mem_BlockedAt := Some (clock w)\<rparr>) (organization_memberships (db w))"
    and sa: "service_accounts (db w') = service_accounts (db w)"
    by (auto simp: BlockMember_Execute_def run_head MembershipExists_def SetBlocked_def run_tx split: if_splits)
  have "\<not> is_member (db v) og t"
    unfolding is_member_def assms(3,4) sa blocked list_ex_upd using assms(2) by (auto simp: list_ex_iff split: if_splits)
  then have "refuses (execute (ctx', og, t, req)) v"
    by (intro management.unauthorized_refused) (simp add: authorized_def)
  moreover have "is_member (db v') og t" if "run (UnblockMember_Execute ctx'' og u t) v = (Inr y, v')" for y v'
  proof -
    let ?p = "\<lambda>m. mem_OrganizationID m = og \<and> mem_UserID m = t"
    from that have v': "list_ex ?p (organization_memberships (db v))"
      "organization_memberships (db v') = upd ?p (\<lambda>m. m\<lparr>mem_BlockedAt := None\<rparr>) (organization_memberships (db v))"
      by (auto simp: UnblockMember_Execute_def run_head MembershipExists_def SetBlocked_def run_tx split: if_splits)
    then obtain m where "m \<in> set (organization_memberships (db v))" "?p m" by (auto simp: list_ex_iff)
    then have "list_ex (\<lambda>m. mem_OrganizationID m = og \<and> mem_UserID m = t \<and> mem_BlockedAt m = None) (organization_memberships (db v'))"
      unfolding v'(2) list_ex_upd by (auto simp: list_ex_iff)
    then show ?thesis by (simp add: is_member_def)
  qed
  ultimately show ?thesis by blast
qed

definition demo_blocked :: world where
  "demo_blocked = demo\<lparr>db := demo_db\<lparr>organization_memberships := [demo_member ''m1'' ''alice'',
     (demo_member ''m2'' ''bob'')\<lparr>mem_BlockedAt := Some 0\<rparr>]\<rparr>\<rparr>"

lemma demo_BlockMember: "run (BlockMember_Execute [] ''o1'' ''alice'' ''bob'') demo = (Inr (), demo_blocked)"
  by (simp add: BlockMember_Execute_def run_head demo_alice_permitted AllPermissions_def ctx_permits_def
      MembershipExists_def SetBlocked_def run_tx demo_blocked_def demo_member_def)

lemma blocked_member_is_refused_witness:
  "refuses (execute ([], ''o1'', ''bob'', CreateTeam ''t1'' ''ops'')) demo_blocked"
  using blocked_member_is_refused [OF demo_BlockMember, of demo_blocked "[]" "CreateTeam ''t1'' ''ops''"]
  by (simp del: execute.simps)

text \<open>
  Removing a member takes away the membership and every binding of the user itself, and
  nothing else: the rows of other users and organizations stay.
\<close>

lemma removed_member_loses_direct_bindings:
  assumes "run (RemoveMember_Execute ctx og u t) w = (Inr x, w')"
  shows "db w' = (db w)\<lparr>
      role_bindings := del (\<lambda>b. rb_OrganizationID b = og \<and> rb_SubjectType b = ''user'' \<and> rb_SubjectID b = t) (role_bindings (db w)),
      organization_memberships := del (\<lambda>m. mem_OrganizationID m = og \<and> mem_UserID m = t) (organization_memberships (db w))\<rparr>"
  using assms
  by (auto simp: RemoveMember_Execute_def run_head MembershipExists_def DeleteForSubject_def MembershipRepository_Delete_def
      run_tx rbac_consts split: if_splits)

lemma demo_RemoveMember:
  "run (RemoveMember_Execute [] ''o1'' ''alice'' ''bob'') demo = (Inr (), demo\<lparr>db := demo_db\<lparr>
     role_bindings := [demo_binding ''b1'' ''alice'' ''owner''], organization_memberships := [demo_member ''m1'' ''alice'']\<rparr>\<rparr>)"
  by (simp add: RemoveMember_Execute_def run_head demo_alice_permitted AllPermissions_def ctx_permits_def
      MembershipExists_def DeleteForSubject_def MembershipRepository_Delete_def run_tx rbac_consts demo_member_def demo_binding_def)

lemma removed_member_loses_direct_bindings_witness:
  "del (\<lambda>b. rb_OrganizationID b = ''o1'' \<and> rb_SubjectType b = ''user'' \<and> rb_SubjectID b = ''bob'') (role_bindings demo_db)
     = [demo_binding ''b1'' ''alice'' ''owner'']"
  using arg_cong [OF removed_member_loses_direct_bindings [OF demo_RemoveMember], of role_bindings] by simp

section \<open>Deletion of an organization\<close>

text \<open>
  C33: Deleting an organization. If \<open>DeleteOrganizationService\<close> succeeds, the caller was a member with \<^verbatim>\<open>organization:delete\<close>, and no run,
  team membership, role binding, workspace, environment or operation of another organization referred to a row of this one. In every
  table the rows of the organization are gone and those of the others are left, in their order, with one exception: what other organizations have linked to its
  Compose files, networks, volumes and projects (links and Fleet variables, whose foreign keys cascade) goes with them. So if
  others have no such links, exactly the organization's rows are deleted. If the service fails, the database is as before.
\<close>

theorem delete_organization_effect:
  assumes "run (DeleteOrganization_Execute ctx og u) w = (res, w')"
  shows "(case res of
      Inr _ \<Rightarrow> authorized (ctx, og, u, DeleteOrganization) (db w) \<and> \<not> referenced_from_outside og (db w)
        \<and> db w' = without_cascaded og (db w) (other_rows og (db w))
        \<and> ((\<forall>x \<in> set (compose_file_projects (db w)). foreign_link_project og (db w) x \<longrightarrow> cfp_OrganizationID x = og)
           \<and> (\<forall>x \<in> set (compose_file_networks (db w)). foreign_link_network og (db w) x \<longrightarrow> cfn_OrganizationID x = og)
           \<and> (\<forall>x \<in> set (compose_file_volumes (db w)). foreign_link_volume og (db w) x \<longrightarrow> cfv_OrganizationID x = og)
           \<and> (\<forall>x \<in> set (fleet_variables (db w)). cf_of og (db w) (fvr_ComposeFileID x) \<longrightarrow> fvr_OrganizationID x = og)
           \<longrightarrow> db w' = other_rows og (db w))
    | Inl _ \<Rightarrow> db w' = db w)"
proof (cases res)
  case (Inl e)
  with assms show ?thesis
    by (auto simp: DeleteOrganization_Execute_def run_head OrganizationRepository_GetByID_def OrganizationRepository_Purge_def
        run_tx exec_purge_statements split: if_splits sum.splits)
next
  case (Inr x)
  with assms have "authorized (ctx, og, u, DeleteOrganization) (db w)" "\<not> referenced_from_outside og (db w)" "db w' = without_org og (db w)"
    by (auto simp: DeleteOrganization_Execute_def run_head OrganizationRepository_GetByID_def OrganizationRepository_Purge_def
        run_tx exec_purge_statements authorized_def split: if_splits sum.splits)
  with Inr show ?thesis by (simp add: without_org_others without_cascaded_idle)
qed

lemma demo_DeleteOrganization: "fst (run (DeleteOrganization_Execute [] ''o1'' ''alice'') demo) = Inr ()"
  by (simp add: DeleteOrganization_Execute_def run_head OrganizationRepository_GetByID_def OrganizationRepository_Purge_def
      run_tx exec_purge_statements demo_alice_permitted AllPermissions_def ctx_permits_def oneRow_def demo_org_def
      referenced_from_outside_def demo_role_def demo_prj_def demo_ws_def demo_env_def list_ex_iff)

theorem delete_organization_effect_witness:
  "db (snd (run (DeleteOrganization_Execute [] ''o1'' ''alice'') demo)) = other_rows ''o1'' demo_db"
  using delete_organization_effect [OF surjective_pairing, of "[]" "''o1''" "''alice''" demo]
  by (simp add: demo_DeleteOrganization) (elim conjE, simp)

section \<open>The lock of a workspace\<close>

lemma run_TryLock:
  "faults w = [] \<Longrightarrow> run (TryLock og i r) w = (Inr b, w1) \<longleftrightarrow>
     (\<exists>wss. try_lock_opt (og, i) r (workspaces (db w)) = Some (b, wss) \<and> w1 = w\<lparr>db := (db w)\<lparr>workspaces := wss\<rparr>\<rparr>)"
  by (auto simp: TryLock_def run_tx try_lock_opt_def split: sum.splits)

text \<open>
  C35: The lock of a workspace excludes, and only its holder can release it. After \<open>TryLock\<close> returned
  true for a run, \<open>TryLock\<close> returns false for every other run; \<open>Unlock\<close> by another run leaves the
  holder in place, and \<open>Unlock\<close> by the holder leaves every lock as it was before.
\<close>

theorem workspace_lock_excludes:
  assumes "run (TryLock og i r) w = (Inr True, w1)" and "faults w = []" and "locks_wf (workspaces (db w))" and "q \<noteq> r"
  shows "fst (run (TryLock og i q) w1) = Inr False
    \<and> ws_holder (workspaces (db (snd (run (Unlock og i q) w1)))) (og, i) = Some r
    \<and> ws_holder (workspaces (db (snd (run (Unlock og i r) w1)))) = ws_holder (workspaces (db w))"
proof -
  obtain wss where l: "try_lock_opt (og, i) r (workspaces (db w)) = Some (True, wss)"
    and w1: "w1 = w\<lparr>db := (db w)\<lparr>workspaces := wss\<rparr>\<rparr>"
    using assms(1) run_TryLock [OF assms(2)] by blast
  obtain s where "try_lock_opt (og, i) q wss = Some (False, s)"
    using ws_lock.mutual_exclusion [OF assms(3) l] by blast
  then have "run (TryLock og i q) w1 = (Inr False, w1\<lparr>db := (db w1)\<lparr>workspaces := s\<rparr>\<rparr>)"
    using run_TryLock [of w1] assms(2) by (simp add: w1)
  moreover have "ws_holder (unlock og i q wss) (og, i) = Some r"
    using l assms(3,4) ws_lock.holder_after [OF assms(3) l] ws_lock.release_foreign [of wss "(og, i)" q] by simp
  moreover have "ws_holder (unlock og i r wss) = ws_holder (workspaces (db w))"
    using ws_lock.trylock_release [OF assms(3) l] by simp
  ultimately show ?thesis using assms(2) by (simp add: w1 Unlock_def run_tx)
qed

lemma demo_TryLock: "run (TryLock ''o1'' ''w1'' ''r1'') demo = (Inr True,
    demo\<lparr>db := demo_db\<lparr>workspaces := [demo_ws\<lparr>ws_Locked := True, ws_LockedByRunID := Some ''r1''\<rparr>]\<rparr>\<rparr>)"
  by (simp add: TryLock_def run_tx try_lock_def oneRow_def) (simp add: demo_ws_def)

theorem workspace_lock_excludes_witness:
  "fst (run (TryLock ''o1'' ''w1'' ''r2'') (demo\<lparr>db := demo_db\<lparr>workspaces :=
     [demo_ws\<lparr>ws_Locked := True, ws_LockedByRunID := Some ''r1''\<rparr>]\<rparr>\<rparr>)) = Inr False"
  using workspace_lock_excludes [OF demo_TryLock, of "''r2''"] by (simp add: locks_wf_def demo_ws_def)

end
