(* ===== verification/Worker_Registry.thy ===== *)
theory Worker_Registry
  imports Demo
begin

text \<open>
  The directory of connected Workers (\<^verbatim>\<open>internal/execution/adapters/grpc/registry.go\<close>, \<^verbatim>\<open>server.go\<close>). Each
  replica, named by its instance id, has its own \<open>Registry\<close>; the replicas share Redis. A critical
  section under the mutex is one atomic step, and so is one Redis command. The context passed to
  Redis may time out: a Redis command fails like a transaction does. Go does not fix the order
  in which a range visits a map: it is the argument \<open>order\<close>, from the registry to the list of its
  Worker ids.
\<close>

section \<open>Steps\<close>

definition workerInstanceTTL :: time where "workerInstanceTTL = 30000000000"

definition local_step :: "string \<Rightarrow> (Registry \<Rightarrow> 'a \<times> Registry) \<Rightarrow> 'a io" where
  "local_step inst f = atomic (\<lambda>w. case f (registries w inst) of
     (a, r) \<Rightarrow> (Inr a, w\<lparr>registries := (registries w)(inst := r)\<rparr>))"

definition redis_step :: "(time \<Rightarrow> redis \<Rightarrow> 'a \<times> redis) \<Rightarrow> 'a io" where
  "redis_step f = atomic (\<lambda>w.
     if fault_now w then (Inl ErrRedis, pop w)
     else case f (clock w) (rds w) of (a, r) \<Rightarrow> (Inr a, (pop w)\<lparr>rds := r\<rparr>))"

text \<open>A command whose error is only logged.\<close>

definition logged :: "'a io \<Rightarrow> unit io" where
  "logged m = bindE (tryE m) (\<lambda>_. retE ())"

definition redis_get_worker :: "id \<Rightarrow> id option io" where
  "redis_get_worker runID = redis_step (\<lambda>_ r. (rds_runWorker r runID, r))"

definition redis_set_worker :: "id \<Rightarrow> id \<Rightarrow> unit io" where
  "redis_set_worker runID workerID =
     redis_step (\<lambda>_ r. ((), r\<lparr>rds_runWorker := (rds_runWorker r)(runID \<mapsto> workerID)\<rparr>))"

definition redis_del_worker :: "id \<Rightarrow> unit io" where
  "redis_del_worker runID = redis_step (\<lambda>_ r. ((), r\<lparr>rds_runWorker := (rds_runWorker r)(runID := None)\<rparr>))"

definition redis_set_instance :: "id \<Rightarrow> string \<Rightarrow> unit io" where
  "redis_set_instance workerID inst = redis_step (\<lambda>now r.
     ((), r\<lparr>rds_workerInstance := (rds_workerInstance r)(workerID \<mapsto> (inst, now + workerInstanceTTL))\<rparr>))"

definition redis_del_instance :: "id \<Rightarrow> unit io" where
  "redis_del_instance workerID =
     redis_step (\<lambda>_ r. ((), r\<lparr>rds_workerInstance := (rds_workerInstance r)(workerID := None)\<rparr>))"

text \<open>A key past its time to live is gone, for \<^verbatim>\<open>GET\<close> and for \<^verbatim>\<open>EXPIRE\<close>.\<close>

definition redis_get_instance :: "id \<Rightarrow> string option io" where
  "redis_get_instance workerID = redis_step (\<lambda>now r.
     (case rds_workerInstance r workerID of
        Some (inst, until) \<Rightarrow> if now < until then Some inst else None | None \<Rightarrow> None, r))"

definition redis_expire_instance :: "id \<Rightarrow> unit io" where
  "redis_expire_instance workerID = redis_step (\<lambda>now r.
     ((), case rds_workerInstance r workerID of
        Some (inst, until) \<Rightarrow> if now < until
          then r\<lparr>rds_workerInstance := (rds_workerInstance r)(workerID \<mapsto> (inst, now + workerInstanceTTL))\<rparr>
          else r
      | None \<Rightarrow> r))"

definition redis_publish :: "string \<Rightarrow> id \<Rightarrow> unit io" where
  "redis_publish inst runID = redis_step (\<lambda>_ r. ((), r\<lparr>rds_messages := rds_messages r @ [(inst, runID)]\<rparr>))"

section \<open>The registry\<close>

text \<open>\<open>jobs\<close> is the name of the channel that \<^verbatim>\<open>make\<close> returns.\<close>

definition Registry_register :: "id \<Rightarrow> string \<Rightarrow> id \<Rightarrow> string list \<Rightarrow> id list \<Rightarrow> unit io" where
  "Registry_register jobs inst workerID supportedEngines activeRunIDs =
     bindE (local_step inst (\<lambda>r. ((), r\<lparr>
       reg_chans := (reg_chans r)(jobs := []),
       reg_workers := (reg_workers r)(workerID \<mapsto> \<lparr>we_supportedEngines = supportedEngines, we_jobs = jobs\<rparr>),
       reg_runToWorker := fold (\<lambda>runID m. m(runID \<mapsto> workerID)) activeRunIDs (reg_runToWorker r)\<rparr>))) (\<lambda>_.
     bindE (logged (redis_set_instance workerID inst)) (\<lambda>_.
     forE activeRunIDs (\<lambda>runID. logged (redis_set_worker runID workerID))))"

definition deregister_local :: "id \<Rightarrow> Registry \<Rightarrow> Registry" where
  "deregister_local workerID r = r\<lparr>reg_workers := (reg_workers r)(workerID := None)\<rparr>"

definition Registry_deregister :: "string \<Rightarrow> id \<Rightarrow> unit io" where
  "Registry_deregister inst workerID =
     bindE (local_step inst (\<lambda>r. ((), deregister_local workerID r))) (\<lambda>_.
     logged (redis_del_instance workerID))"

text \<open>The capacity of a Worker's channel, and a send that does not block.\<close>

definition jobs_capacity :: nat where "jobs_capacity = 16"

definition try_send :: "WorkerCommand \<Rightarrow> id \<Rightarrow> Registry \<Rightarrow> Registry option" where
  "try_send cmd jobs r = (if length (reg_chans r jobs) < jobs_capacity
     then Some (r\<lparr>reg_chans := (reg_chans r)(jobs := reg_chans r jobs @ [cmd])\<rparr>) else None)"

fun dispatch_loop :: "id list \<Rightarrow> JobAssignment \<Rightarrow> Registry \<Rightarrow> id option \<times> Registry" where
  "dispatch_loop [] job r = (None, r)"
| "dispatch_loop (workerID # rest) job r =
     (case reg_workers r workerID of
        None \<Rightarrow> dispatch_loop rest job r
      | Some e \<Rightarrow>
          if ja_ExecutionEngine job \<notin> set (we_supportedEngines e) then dispatch_loop rest job r
          else (case try_send (AssignJob job) (we_jobs e) r of
            Some r' \<Rightarrow> (Some workerID, r'\<lparr>reg_runToWorker := (reg_runToWorker r')(ja_RunId job \<mapsto> workerID)\<rparr>)
          | None \<Rightarrow> dispatch_loop rest job r))"

definition Registry_Dispatch :: "(Registry \<Rightarrow> id list) \<Rightarrow> string \<Rightarrow> JobAssignment \<Rightarrow> bool io" where
  "Registry_Dispatch order inst job =
     bindE (local_step inst (\<lambda>r. dispatch_loop (order r) job r)) (\<lambda>matched.
     case matched of
       None \<Rightarrow> retE False
     | Some workerID \<Rightarrow>
         bindE (logged (redis_set_worker (ja_RunId job) workerID)) (\<lambda>_. retE True))"

text \<open>
  \<^verbatim>\<open>cancelLocal\<close>: three steps, as the send happens outside the mutex, on the channel found in the
  first step (which by then may no longer belong to a connected Worker).
\<close>

definition cancel_lookup :: "id \<Rightarrow> Registry \<Rightarrow> id option" where
  "cancel_lookup runID r = (case reg_runToWorker r runID of
       None \<Rightarrow> None
     | Some workerID \<Rightarrow> map_option we_jobs (reg_workers r workerID))"

definition send_cancel :: "id \<Rightarrow> id \<Rightarrow> Registry \<Rightarrow> bool \<times> Registry" where
  "send_cancel jobs runID r = (case try_send (CancelJob runID) jobs r of
       Some r' \<Rightarrow> (True, r') | None \<Rightarrow> (False, r))"

definition forget_local :: "id \<Rightarrow> Registry \<Rightarrow> Registry" where
  "forget_local runID r = r\<lparr>reg_runToWorker := (reg_runToWorker r)(runID := None)\<rparr>"

definition Registry_cancelLocal :: "string \<Rightarrow> id \<Rightarrow> (bool \<times> bool) io" where
  "Registry_cancelLocal inst runID =
     bindE (local_step inst (\<lambda>r. (cancel_lookup runID r, r))) (\<lambda>found. case found of
       None \<Rightarrow> retE (False, False)
     | Some jobs \<Rightarrow>
         bindE (local_step inst (send_cancel jobs runID)) (\<lambda>delivered.
         bindE (local_step inst (\<lambda>r. ((), forget_local runID r))) (\<lambda>_.
         bindE (logged (redis_del_worker runID)) (\<lambda>_.
         retE (delivered, True)))))"

definition Registry_CancelJob :: "string \<Rightarrow> id \<Rightarrow> bool io" where
  "Registry_CancelJob inst runID =
     bindE (Registry_cancelLocal inst runID) (\<lambda>(delivered, ok).
     if ok then retE delivered
     else
       bindE (redis_get_worker runID) (\<lambda>worker. case worker of
         None \<Rightarrow> retE False
       | Some workerID \<Rightarrow>
           bindE (redis_get_instance workerID) (\<lambda>owner. case owner of
             None \<Rightarrow> retE False
           | Some ownerInstanceID \<Rightarrow>
               if ownerInstanceID = inst then retE False
               else bindE (redis_publish ownerInstanceID runID) (\<lambda>_. retE True))))"

text \<open>One message of \<^verbatim>\<open>SubscribeCancelForwarding\<close>, and one tick of \<^verbatim>\<open>Heartbeat\<close>.\<close>

definition forwarded_cancel :: "string \<Rightarrow> id \<Rightarrow> unit io" where
  "forwarded_cancel inst payload = bindE (Registry_cancelLocal inst payload) (\<lambda>_. retE ())"

definition Registry_heartbeat :: "(Registry \<Rightarrow> id list) \<Rightarrow> string \<Rightarrow> unit io" where
  "Registry_heartbeat order inst =
     bindE (local_step inst (\<lambda>r. (order r, r))) (\<lambda>workerIDs.
     forE workerIDs (\<lambda>i. logged (redis_expire_instance i)))"

definition Registry_Forget :: "string \<Rightarrow> id \<Rightarrow> unit io" where
  "Registry_Forget inst runID =
     bindE (local_step inst (\<lambda>r. ((), forget_local runID r))) (\<lambda>_.
     logged (redis_del_worker runID))"

section \<open>Facts\<close>

lemma run_local_step [run_simps]:
  "run (local_step inst f) w =
     (Inr (fst (f (registries w inst))), w\<lparr>registries := (registries w)(inst := snd (f (registries w inst)))\<rparr>)"
  by (simp add: local_step_def run_atomic case_prod_beta)

lemma run_bind_local_step [run_head]:
  "run (bindE (local_step inst f) k) w =
     run (k (fst (f (registries w inst)))) (w\<lparr>registries := (registries w)(inst := snd (f (registries w inst)))\<rparr>)"
  by (simp add: run_bindE run_local_step)

lemma run_redis_step [run_simps]:
  "run (redis_step f) w = (if fault_now w then (Inl ErrRedis, pop w)
     else (Inr (fst (f (clock w) (rds w))), (pop w)\<lparr>rds := snd (f (clock w) (rds w))\<rparr>))"
  by (simp add: redis_step_def run_atomic case_prod_beta)

lemma run_bind_redis_step [run_head]:
  "run (bindE (redis_step f) k) w = (if fault_now w then (Inl ErrRedis, pop w)
     else run (k (fst (f (clock w) (rds w)))) ((pop w)\<lparr>rds := snd (f (clock w) (rds w))\<rparr>))"
  by (simp add: run_bindE run_redis_step)

lemma run_bind_logged [run_head]:
  "run (bindE (logged m) k) w = run (k ()) (snd (run m w))"
  by (simp add: logged_def run_bindE run_tryE case_prod_beta)

lemma run_logged [run_simps]: "run (logged m) w = (Inr (), snd (run m w))"
  by (simp add: logged_def run_bindE run_tryE case_prod_beta)

section \<open>Serving the Workers\<close>

text \<open>
  \<^verbatim>\<open>server.go\<close>. A \<^verbatim>\<open>StreamJobs\<close> call looks up the channel once (\<open>StreamJobs_open\<close>), then forwards what
  it receives (\<open>StreamJobs_recv\<close>, one iteration of its loop), and deregisters the Worker when it
  returns (\<open>Registry_deregister\<close>).
\<close>

definition Server_Register :: "id \<Rightarrow> string \<Rightarrow> id \<Rightarrow> string list \<Rightarrow> id list \<Rightarrow> bool io" where
  "Server_Register jobs inst workerID supportedEngines activeRunIDs =
     guardE (workerID \<noteq> []) (ValidationError ''worker_id is required'') (
     bindE (Registry_register jobs inst workerID supportedEngines activeRunIDs) (\<lambda>_. retE True))"

definition StreamJobs_open :: "string \<Rightarrow> id \<Rightarrow> id io" where
  "StreamJobs_open inst workerID =
     bindE (local_step inst (\<lambda>r. (reg_workers r workerID, r))) (\<lambda>entry. case entry of
       None \<Rightarrow> throwE (ValidationError (''worker '' @ workerID @ '' must call Register before StreamJobs''))
     | Some e \<Rightarrow> retE (we_jobs e))"

definition StreamJobs_recv :: "string \<Rightarrow> id \<Rightarrow> WorkerCommand option io" where
  "StreamJobs_recv inst jobs = local_step inst (\<lambda>r. case reg_chans r jobs of
       [] \<Rightarrow> (None, r)
     | cmd # rest \<Rightarrow> (Some cmd, r\<lparr>reg_chans := (reg_chans r)(jobs := rest)\<rparr>))"

section \<open>Dispatching\<close>

text \<open>A Worker can take a job: it has the engine and its channel is not full.\<close>

definition can_take :: "string \<Rightarrow> Registry \<Rightarrow> id \<Rightarrow> bool" where
  "can_take engine r i = (\<exists>e. reg_workers r i = Some e \<and> engine \<in> set (we_supportedEngines e)
     \<and> length (reg_chans r (we_jobs e)) < jobs_capacity)"

text \<open>The registry after the job is in the channel of Worker \<open>i\<close>.\<close>

definition assigned :: "JobAssignment \<Rightarrow> id \<Rightarrow> Registry \<Rightarrow> Registry" where
  "assigned job i r = (let c = we_jobs (the (reg_workers r i)) in
     r\<lparr>reg_chans := (reg_chans r)(c := reg_chans r c @ [AssignJob job]),
       reg_runToWorker := (reg_runToWorker r)(ja_RunId job \<mapsto> i)\<rparr>)"

lemma dispatch_loop_None:
  "dispatch_loop ws job r = (None, r') \<Longrightarrow> r' = r \<and> (\<forall>i\<in>set ws. \<not> can_take (ja_ExecutionEngine job) r i)"
  by (induction ws) (auto simp: can_take_def try_send_def split: option.splits if_splits)

lemma dispatch_loop_Some:
  "dispatch_loop ws job r = (Some i, r') \<Longrightarrow>
     i \<in> set ws \<and> can_take (ja_ExecutionEngine job) r i \<and> r' = assigned job i r"
  by (induction ws) (auto simp: can_take_def try_send_def assigned_def Let_def split: option.splits if_splits)

text \<open>
  C24: Whatever order the range over the Workers takes, a dispatch hands the job to exactly one
  connected Worker: one that supports the engine and whose channel has room, by appending the
  assignment to its channel and recording the route of the run; it reports that it did not
  dispatch, and changes nothing, exactly when no connected Worker can take the job.
\<close>

theorem dispatch_correct:
  assumes "set (order (registries w inst)) = dom (reg_workers (registries w inst))"
    and "run (Registry_Dispatch order inst job) w = (r, w')"
  shows "db w' = db w \<and>
    (if \<exists>i. can_take (ja_ExecutionEngine job) (registries w inst) i
     then r = Inr True \<and> (\<exists>i. can_take (ja_ExecutionEngine job) (registries w inst) i \<and>
       registries w' = (registries w)(inst := assigned job i (registries w inst)))
     else r = Inr False \<and> registries w' = registries w)"
proof -
  let ?reg = "registries w inst"
  obtain m reg' where loop: "dispatch_loop (order ?reg) job ?reg = (m, reg')" by fastforce
  have dom: "can_take (ja_ExecutionEngine job) ?reg i \<Longrightarrow> i \<in> set (order ?reg)" for i
    using assms(1) by (auto simp: can_take_def)
  show ?thesis
  proof (cases m)
    case None
    with loop dispatch_loop_None [of "order ?reg" job ?reg reg'] dom
    have "reg' = ?reg" "\<not> (\<exists>i. can_take (ja_ExecutionEngine job) ?reg i)" by auto
    with None loop assms(2) show ?thesis by (auto simp: Registry_Dispatch_def run_head)
  next
    case (Some i)
    with loop dispatch_loop_Some [of "order ?reg" job ?reg i reg']
    have "can_take (ja_ExecutionEngine job) ?reg i" "reg' = assigned job i ?reg" by auto
    with Some loop assms(2) show ?thesis
      by (auto simp: Registry_Dispatch_def run_head redis_set_worker_def run_redis_step split: if_splits)
  qed
qed

text \<open>Two Workers are connected; only the second one has the engine.\<close>

definition demo_registry :: Registry where
  "demo_registry = \<lparr>reg_workers = [''k1'' \<mapsto> \<lparr>we_supportedEngines = [''helm''], we_jobs = ''c1''\<rparr>,
      ''k2'' \<mapsto> \<lparr>we_supportedEngines = [''terraform''], we_jobs = ''c2''\<rparr>], reg_runToWorker = Map.empty,
      reg_chans = (\<lambda>_. [])\<rparr>"

definition demo_job :: JobAssignment where
  "demo_job = \<lparr>ja_RunId = ''r1'', ja_OrganizationId = ''o1'', ja_WorkspaceId = ''w1'',
     ja_ExecutionEngine = ''terraform'', ja_ConfigBundle = ''cfg'', ja_CredentialBundle = []\<rparr>"

theorem dispatch_correct_witness:
  "fst (run (Registry_Dispatch (\<lambda>_. [''k1'', ''k2'']) ''cp'' demo_job)
     (demo\<lparr>registries := (\<lambda>_. demo_registry)\<rparr>)) = Inr True"
proof -
  let ?w = "demo\<lparr>registries := (\<lambda>_. demo_registry)\<rparr>"
  have "set [''k1'', ''k2''] = dom (reg_workers (registries ?w ''cp''))"
    by (auto simp: demo_registry_def split: if_splits)
  moreover have "can_take (ja_ExecutionEngine demo_job) (registries ?w ''cp'') ''k2''"
    by (simp add: demo_registry_def can_take_def demo_job_def jobs_capacity_def)
  ultimately show ?thesis
    using dispatch_correct [of "\<lambda>_. [''k1'', ''k2'']" ?w "''cp''" demo_job] by (metis prod.collapse)
qed

section \<open>Reconnecting\<close>

lemma registries_logged_loop:
  "registries (snd (run (forE xs (\<lambda>i. logged (redis_set_worker i k))) v)) = registries v"
  by (induction xs arbitrary: v) (auto simp: run_head redis_set_worker_def run_redis_step)

lemma reg_workers_register:
  "reg_workers (registries (snd (run (Registry_register jobs inst k engines active) v)) inst) =
     (reg_workers (registries v inst))(k \<mapsto> \<lparr>we_supportedEngines = engines, we_jobs = jobs\<rparr>)"
  by (simp add: Registry_register_def run_head redis_set_instance_def run_redis_step registries_logged_loop)

lemma reg_workers_deregister:
  "reg_workers (registries (snd (run (Registry_deregister inst k) v)) inst) =
     (reg_workers (registries v inst))(k := None)"
  by (simp add: Registry_deregister_def run_head redis_del_instance_def run_redis_step run_logged deregister_local_def)

text \<open>
  A Worker that registers again (a reconnect, with a new channel) while its previous stream is
  still open loses its new registration: when the old \<^verbatim>\<open>StreamJobs\<close> call ends, its deferred
  \<^verbatim>\<open>deregister\<close> removes the entry by Worker id, which by then is the new one. The Worker's new
  stream stays open on a channel that no dispatch of this replica can reach any more.
\<close>

lemma reconnect_loses_registration:
  "let w1 = snd (run (Registry_register c1 inst k engines active) w);
       w2 = snd (run (Registry_register c2 inst k engines active) w1);
       w3 = snd (run (Registry_deregister inst k) w2)
   in reg_workers (registries w2 inst) k = Some \<lparr>we_supportedEngines = engines, we_jobs = c2\<rparr> \<and>
      reg_workers (registries w3 inst) k = None \<and> \<not> can_take engine (registries w3 inst) k"
  by (simp add: Let_def reg_workers_register reg_workers_deregister can_take_def)

end
