(* ===== verification/Execution.thy ===== *)
theory Execution
  imports Worker_Registry Variables
begin

text \<open>
  The Execution context (\<^verbatim>\<open>internal/execution\<close>): the state machine of a run, the run repository, and the
  services that trigger, cancel, dispatch, report on and reap runs.
\<close>

section \<open>Domain\<close>

definition IsTerminal :: "RunStatus \<Rightarrow> bool" where
  "IsTerminal s = (s \<in> {RunStatusApplied, RunStatusFailed, RunStatusErrored, RunStatusCanceled})"

definition NewRun :: "id \<Rightarrow> time \<Rightarrow> id \<Rightarrow> id \<Rightarrow> id \<Rightarrow> err + Run" where
  "NewRun uuid now organizationID workspaceID triggeredByUserID =
     (if organizationID = [] \<or> workspaceID = []
      then Inl (ValidationError ''organization_id and workspace_id are required'')
      else if triggeredByUserID = [] then Inl (ValidationError ''triggered_by is required'')
      else Inr \<lparr>run_ID = uuid, run_OrganizationID = organizationID, run_WorkspaceID = workspaceID,
        run_Trigger = RunTriggerManual, run_TriggeredBy = triggeredByUserID, run_Status = RunStatusQueued,
        run_PlanOutputRef = None, run_ApplyOutputRef = None, run_CreatedAt = now, run_StartedAt = None,
        run_FinishedAt = None\<rparr>)"

definition Run_Cancel :: "time \<Rightarrow> Run \<Rightarrow> err + Run" where
  "Run_Cancel now r = (if IsTerminal (run_Status r) then Inl ErrRunAlreadyTerminal
     else Inr (r\<lparr>run_Status := RunStatusCanceled, run_FinishedAt := Some now\<rparr>))"

definition Run_MarkApplied :: "time \<Rightarrow> Run \<Rightarrow> err + Run" where
  "Run_MarkApplied now r = (if run_Status r \<noteq> RunStatusApplying then Inl ErrInvalidTransition
     else Inr (r\<lparr>run_Status := RunStatusApplied, run_FinishedAt := Some now\<rparr>))"

definition Run_MarkFailed :: "time \<Rightarrow> Run \<Rightarrow> err + Run" where
  "Run_MarkFailed now r = (if run_Status r \<noteq> RunStatusApplying then Inl ErrInvalidTransition
     else Inr (r\<lparr>run_Status := RunStatusFailed, run_FinishedAt := Some now\<rparr>))"

section \<open>Repository\<close>

definition is_run :: "id \<Rightarrow> id \<Rightarrow> Run \<Rightarrow> bool" where
  "is_run organizationID runID r = (run_OrganizationID r = organizationID \<and> run_ID r = runID)"

definition run_event :: "string \<Rightarrow> id \<Rightarrow> id \<Rightarrow> payload" where
  "run_event actor runID workspaceID = [(''actor'', actor), (''target_type'', ''run''),
     (''target_id'', runID), (''workspace_id'', workspaceID)]"

text \<open>The rest of a transaction after a write: an event in the outbox, and the result.\<close>

definition and_emit :: "id \<Rightarrow> time \<Rightarrow> id \<Rightarrow> string \<Rightarrow> payload \<Rightarrow> 'a \<Rightarrow> db \<Rightarrow> err + 'a \<times> db" where
  "and_emit uuid now organizationID eventType payload a d =
     (case outbox_Write uuid now organizationID eventType payload d of
        Inl e \<Rightarrow> Inl e | Inr d' \<Rightarrow> Inr (a, d'))"

definition RunRepository_Create :: "id \<Rightarrow> Run \<Rightarrow> unit io" where
  "RunRepository_Create uuid r = tx (\<lambda>now d.
     if \<not> list_ex (\<lambda>og. org_ID og = run_OrganizationID r) (organizations d)
        \<or> \<not> list_ex (\<lambda>x. ws_ID x = run_WorkspaceID r) (workspaces d) then Inl ErrForeignKeyViolation
     else if list_ex (\<lambda>x. run_ID x = run_ID r) (runs d) then Inl ErrUniqueViolation
     else and_emit uuid now (run_OrganizationID r) ''RunQueued''
       (run_event (run_TriggeredBy r) (run_ID r) (run_WorkspaceID r)) ()
       (d\<lparr>runs := runs d @ [r]\<rparr>))"

definition RunRepository_GetByID :: "id \<Rightarrow> id \<Rightarrow> Run io" where
  "RunRepository_GetByID organizationID i = query (\<lambda>d.
     oneRow ErrRunNotFound (is_run organizationID i) (runs d))"

definition ListByWorkspace :: "id \<Rightarrow> id \<Rightarrow> Run list io" where
  "ListByWorkspace organizationID workspaceID = query (\<lambda>d.
     Inr (sort_key (\<lambda>r. - run_CreatedAt r) (filter (\<lambda>r. run_OrganizationID r = organizationID
       \<and> run_WorkspaceID r = workspaceID) (runs d))))"

definition update_event :: "RunStatus \<Rightarrow> string option" where
  "update_event s = (case s of
       RunStatusCanceled \<Rightarrow> Some ''RunCanceled'' | RunStatusApplied \<Rightarrow> Some ''RunApplied''
     | RunStatusFailed \<Rightarrow> Some ''RunFailed'' | _ \<Rightarrow> None)"

definition RunRepository_Update :: "id \<Rightarrow> Run \<Rightarrow> string \<Rightarrow> unit io" where
  "RunRepository_Update uuid r actorUserID = tx (\<lambda>now d.
     let d' = d\<lparr>runs := upd (is_run (run_OrganizationID r) (run_ID r))
                (\<lambda>x. x\<lparr>run_Status := run_Status r, run_PlanOutputRef := run_PlanOutputRef r,
                       run_ApplyOutputRef := run_ApplyOutputRef r, run_StartedAt := run_StartedAt r,
                       run_FinishedAt := run_FinishedAt r\<rparr>) (runs d)\<rparr>
     in case update_event (run_Status r) of
          None \<Rightarrow> Inr ((), d')
        | Some eventType \<Rightarrow> and_emit uuid now (run_OrganizationID r) eventType
            (run_event actorUserID (run_ID r) (run_WorkspaceID r)) () d')"

definition TryStartApplying :: "id \<Rightarrow> id \<Rightarrow> id \<Rightarrow> id \<Rightarrow> bool io" where
  "TryStartApplying uuid organizationID runID workspaceID = tx (\<lambda>now d.
     let p = (\<lambda>r. is_run organizationID runID r \<and> run_Status r = RunStatusQueued) in
     if \<not> list_ex p (runs d) then Inr (False, d)
     else and_emit uuid now organizationID ''RunApplying'' (run_event ''system'' runID workspaceID) True
       (d\<lparr>runs := upd p (\<lambda>r. r\<lparr>run_Status := RunStatusApplying, run_StartedAt := Some now\<rparr>) (runs d)\<rparr>))"

definition RevertToQueued :: "id \<Rightarrow> id \<Rightarrow> unit io" where
  "RevertToQueued organizationID runID = tx (\<lambda>_ d.
     Inr ((), d\<lparr>runs := upd (\<lambda>r. is_run organizationID runID r \<and> run_Status r = RunStatusApplying)
       (\<lambda>r. r\<lparr>run_Status := RunStatusQueued, run_StartedAt := None\<rparr>) (runs d)\<rparr>))"

record StaleRunCandidate =
  src_OrganizationID :: id
  src_RunID :: id
  src_WorkspaceID :: id

definition FindStaleApplyingRuns :: "time \<Rightarrow> StaleRunCandidate list io" where
  "FindStaleApplyingRuns olderThan = query (\<lambda>d.
     let evs = filter (\<lambda>e. ev_EventType e = ''RunApplying'' \<and> ev_OccurredAt e < olderThan) (outbox_events d)
     in if list_ex (\<lambda>e. map_of (ev_Payload e) ''target_id'' = None \<or> map_of (ev_Payload e) ''workspace_id'' = None) evs
        then Inl ErrDB
        else Inr (map (\<lambda>e. \<lparr>src_OrganizationID = ev_OrganizationID e,
               src_RunID = the (map_of (ev_Payload e) ''target_id''),
               src_WorkspaceID = the (map_of (ev_Payload e) ''workspace_id'')\<rparr>) evs))"

definition MarkErroredIfStillApplying :: "id \<Rightarrow> id \<Rightarrow> id \<Rightarrow> bool io" where
  "MarkErroredIfStillApplying uuid organizationID runID = tx (\<lambda>now d.
     let p = (\<lambda>r. is_run organizationID runID r \<and> run_Status r = RunStatusApplying) in
     if \<not> list_ex p (runs d) then Inr (False, d)
     else and_emit uuid now organizationID ''RunErrored''
       [(''actor'', ''system''), (''target_type'', ''run''), (''target_id'', runID),
        (''reason'', ''stale run reaper: no completion reported before timeout'')] True
       (d\<lparr>runs := upd p (\<lambda>r. r\<lparr>run_Status := RunStatusErrored, run_FinishedAt := Some now\<rparr>) (runs d)\<rparr>))"

section \<open>Services\<close>

text \<open>\<open>u 0\<close>: the id of the run; \<open>u 1\<close>: that of its event.\<close>

definition TriggerRun_Execute :: "(nat \<Rightarrow> id) \<Rightarrow> string list \<Rightarrow> id \<Rightarrow> id \<Rightarrow> id \<Rightarrow> id \<Rightarrow> Run io" where
  "TriggerRun_Execute u ctx organizationID projectID workspaceID requestingUserID =
     bindE (WorkspaceExists organizationID projectID workspaceID) (\<lambda>exists.
     guardE exists ErrWorkspaceNotFound (
     bindE (HasPermissionAtScope ctx organizationID requestingUserID ''workspace:apply''
       (Some projectID) (Some workspaceID)) (\<lambda>allowed.
     guardE allowed ErrForbidden (
     bindE (IsArchived organizationID) (\<lambda>archived.
     guardE (\<not> archived) ErrOrganizationArchived (
     bindE nowE (\<lambda>now.
     bindE (liftE (NewRun (u 0) now organizationID workspaceID requestingUserID)) (\<lambda>r.
     bindE (TryLock organizationID workspaceID (run_ID r)) (\<lambda>locked.
     guardE locked ErrWorkspaceLocked (
     bindE (tryE (RunRepository_Create (u 1) r)) (\<lambda>created. case created of
       Inl e \<Rightarrow> bindE (tryE (Unlock organizationID workspaceID (run_ID r))) (\<lambda>_. throwE e)
     | Inr _ \<Rightarrow> retE r)))))))))))"

definition CancelRun_Execute :: "id \<Rightarrow> string \<Rightarrow> string list \<Rightarrow> id \<Rightarrow> id \<Rightarrow> id \<Rightarrow> id \<Rightarrow> id \<Rightarrow> Run io" where
  "CancelRun_Execute uuid inst ctx organizationID projectID workspaceID runID requestingUserID =
     bindE (HasPermissionAtScope ctx organizationID requestingUserID ''workspace:apply''
       (Some projectID) (Some workspaceID)) (\<lambda>allowed.
     guardE allowed ErrForbidden (
     bindE (RunRepository_GetByID organizationID runID) (\<lambda>r.
     guardE (run_WorkspaceID r = workspaceID) ErrRunNotFound (
     bindE nowE (\<lambda>now.
     bindE (liftE (Run_Cancel now r)) (\<lambda>r'.
     bindE (RunRepository_Update uuid r' requestingUserID) (\<lambda>_.
     bindE (Unlock organizationID workspaceID (run_ID r')) (\<lambda>_.
     bindE (tryE (Registry_CancelJob inst (run_ID r'))) (\<lambda>_.
     retE r')))))))))"

definition configVariableKeyByEngine :: "string \<rightharpoonup> string" where
  "configVariableKeyByEngine = map_of
    [(''compose'', ''compose_file''), (''terraform'', ''terraform_config''), (''opentofu'', ''opentofu_config''),
     (''ansible'', ''ansible_playbook''), (''packer'', ''packer_template''),
     (''kubernetes'', ''kubernetes_manifest''), (''helm'', ''helm_helmfile''),
     (''kubespray'', ''kubespray_inventory'')]"

definition credentialVariableKeyByEngine :: "string \<rightharpoonup> string" where
  "credentialVariableKeyByEngine = map_of
    [(''kubernetes'', ''kubernetes_kubeconfig''), (''helm'', ''helm_kubeconfig''),
     (''kubespray'', ''kubespray_ssh_key'')]"

definition RunDispatch_fail :: "id \<Rightarrow> Run \<Rightarrow> id \<Rightarrow> unit io" where
  "RunDispatch_fail uuid r workspaceID =
     bindE nowE (\<lambda>now.
     bindE (liftE (Run_MarkFailed now r)) (\<lambda>r'.
     bindE (RunRepository_Update uuid r' ''system'') (\<lambda>_.
     Unlock (run_OrganizationID r') workspaceID (run_ID r'))))"

text \<open>Decoding an event's payload: a missing string field is the empty string.\<close>

definition payload_field :: "payload \<Rightarrow> string \<Rightarrow> string" where
  "payload_field p k = (case map_of p k of None \<Rightarrow> [] | Some s \<Rightarrow> s)"

definition RunDispatch_send :: "(Registry \<Rightarrow> id list) \<Rightarrow> string \<Rightarrow> JobAssignment \<Rightarrow> unit io" where
  "RunDispatch_send order inst job =
     bindE (Registry_Dispatch order inst job) (\<lambda>dispatched.
     if dispatched then retE ()
     else
       bindE (RevertToQueued (ja_OrganizationId job) (ja_RunId job)) (\<lambda>_.
       throwE ErrNoWorkerAvailable))"

definition RunDispatch_HandleEvent :: "(id \<Rightarrow> id \<Rightarrow> string \<Rightarrow> string io) \<Rightarrow> (Registry \<Rightarrow> id list) \<Rightarrow> (nat \<Rightarrow> id) \<Rightarrow> string
    \<Rightarrow> Event \<Rightarrow> unit io" where
  "RunDispatch_HandleEvent resolveSecret order u inst event =
    (if ev_EventType event \<noteq> ''RunQueued'' then retE () else
     let runID = payload_field (ev_Payload event) ''target_id'';
         organizationID = ev_OrganizationID event;
         workspaceID = payload_field (ev_Payload event) ''workspace_id'' in
     bindE (TryStartApplying (u 0) organizationID runID workspaceID) (\<lambda>started.
     if \<not> started then retE () else
     bindE (RunRepository_GetByID organizationID runID) (\<lambda>r.
     bindE (GetExecutionEngine organizationID workspaceID) (\<lambda>engine.
     case configVariableKeyByEngine engine of
       None \<Rightarrow> RunDispatch_fail (u 1) r workspaceID
     | Some configVariableKey \<Rightarrow>
     bindE (ResolveValue resolveSecret organizationID workspaceID configVariableKey (run_TriggeredBy r)) (\<lambda>config.
     case config of
       None \<Rightarrow> RunDispatch_fail (u 1) r workspaceID
     | Some configBundle \<Rightarrow>
     bindE (case credentialVariableKeyByEngine engine of
              None \<Rightarrow> retE (Some [])
            | Some credentialVariableKey \<Rightarrow>
                ResolveValue resolveSecret organizationID workspaceID credentialVariableKey (run_TriggeredBy r)) (\<lambda>credential.
     case credential of
       None \<Rightarrow> RunDispatch_fail (u 1) r workspaceID
     | Some credentialBundle \<Rightarrow>
     RunDispatch_send order inst \<lparr>ja_RunId = runID, ja_OrganizationId = organizationID,
       ja_WorkspaceId = workspaceID, ja_ExecutionEngine = engine, ja_ConfigBundle = configBundle,
       ja_CredentialBundle = credentialBundle\<rparr>))))))"

definition report_output :: "string \<Rightarrow> string \<Rightarrow> string" where
  "report_output logLine errorMessage =
     (if errorMessage \<noteq> [] \<and> errorMessage \<noteq> logLine then
        if logLine \<noteq> [] then logLine @ [CHR 0x0A, CHR 0x0A] @ ''error: '' @ errorMessage else errorMessage
      else logLine)"

definition reported_transition :: "string \<Rightarrow> time \<Rightarrow> Run \<Rightarrow> err + Run" where
  "reported_transition reportedStatus now r =
     (if reportedStatus = ''applied'' then Run_MarkApplied now r
      else if reportedStatus = ''failed'' \<or> reportedStatus = ''errored'' then Run_MarkFailed now r
      else Inl (ValidationError ''status must be one of applied, failed, errored''))"

definition WorkerReport_HandleReport ::
  "id \<Rightarrow> string \<Rightarrow> id \<Rightarrow> id \<Rightarrow> id \<Rightarrow> string \<Rightarrow> string \<Rightarrow> string \<Rightarrow> unit io" where
  "WorkerReport_HandleReport uuid inst organizationID runID workspaceID reportedStatus logLine errorMessage =
     bindE (RunRepository_GetByID organizationID runID) (\<lambda>r.
     let output = report_output logLine errorMessage in
     bindE nowE (\<lambda>now.
     case reported_transition reportedStatus now r of
       Inl e \<Rightarrow> if e = ErrInvalidTransition then retE () else throwE e
     | Inr r1 \<Rightarrow>
         let r2 = (if output \<noteq> [] then r1\<lparr>run_ApplyOutputRef := Some output\<rparr> else r1) in
         bindE (RunRepository_Update uuid r2 ''system'') (\<lambda>_.
         bindE (Registry_Forget inst (run_ID r2)) (\<lambda>_.
         Unlock organizationID workspaceID (run_ID r2)))))"

text \<open>One candidate of a sweep of the stale run reaper; errors are logged and the sweep goes on.\<close>

definition reapCandidate :: "id \<Rightarrow> string \<Rightarrow> StaleRunCandidate \<Rightarrow> unit io" where
  "reapCandidate uuid inst c =
     bindE (tryE (MarkErroredIfStillApplying uuid (src_OrganizationID c) (src_RunID c))) (\<lambda>reaped.
     case reaped of
       Inr True \<Rightarrow>
         bindE (tryE (Unlock (src_OrganizationID c) (src_WorkspaceID c) (src_RunID c))) (\<lambda>unlocked.
         case unlocked of
           Inl _ \<Rightarrow> retE ()
         | Inr _ \<Rightarrow> Registry_Forget inst (src_RunID c))
     | _ \<Rightarrow> retE ())"

definition StaleRunReaper_reapOnce :: "(nat \<Rightarrow> id) \<Rightarrow> string \<Rightarrow> time \<Rightarrow> unit io" where
  "StaleRunReaper_reapOnce u inst staleAfter =
     bindE nowE (\<lambda>now.
     bindE (FindStaleApplyingRuns (now - staleAfter)) (\<lambda>candidates.
     forE (enumerate 0 candidates) (\<lambda>(n, c). reapCandidate (u n) inst c)))"

definition GetRun_Execute :: "string list \<Rightarrow> id \<Rightarrow> id \<Rightarrow> id \<Rightarrow> id \<Rightarrow> id \<Rightarrow> Run io" where
  "GetRun_Execute ctx organizationID projectID workspaceID runID requestingUserID =
     bindE (IsMember organizationID requestingUserID) (\<lambda>isMember.
     guardE isMember ErrWorkspaceNotFound (
     bindE (WorkspaceExists organizationID projectID workspaceID) (\<lambda>exists.
     guardE exists ErrWorkspaceNotFound (
     bindE (Execution_canAccessWorkspace ctx organizationID requestingUserID projectID workspaceID) (\<lambda>canAccess.
     guardE canAccess ErrForbidden (
     bindE (RunRepository_GetByID organizationID runID) (\<lambda>r.
     guardE (run_WorkspaceID r = workspaceID) ErrRunNotFound (
     retE r))))))))"

definition ListRuns_Execute :: "string list \<Rightarrow> id \<Rightarrow> id \<Rightarrow> id \<Rightarrow> id \<Rightarrow> Run list io" where
  "ListRuns_Execute ctx organizationID projectID workspaceID requestingUserID =
     bindE (IsMember organizationID requestingUserID) (\<lambda>isMember.
     guardE isMember ErrWorkspaceNotFound (
     bindE (WorkspaceExists organizationID projectID workspaceID) (\<lambda>exists.
     guardE exists ErrWorkspaceNotFound (
     bindE (Execution_canAccessWorkspace ctx organizationID requestingUserID projectID workspaceID) (\<lambda>canAccess.
     guardE canAccess ErrForbidden (
     ListByWorkspace organizationID workspaceID))))))"

section \<open>A run on the demo deployment\<close>

definition demo_ids :: "id \<Rightarrow> nat \<Rightarrow> id" where
  "demo_ids i n = (if n = 0 then i else CHR ''e'' # i)"

definition demo_run :: "id \<Rightarrow> RunStatus \<Rightarrow> Run" where
  "demo_run i s = \<lparr>run_ID = i, run_OrganizationID = ''o1'', run_WorkspaceID = ''w1'', run_Trigger = RunTriggerManual,
     run_TriggeredBy = ''alice'', run_Status = s, run_PlanOutputRef = None, run_ApplyOutputRef = None,
     run_CreatedAt = 0, run_StartedAt = None, run_FinishedAt = None\<rparr>"

definition demo_queued :: "id \<Rightarrow> Event" where
  "demo_queued i = \<lparr>ev_ID = CHR ''e'' # i, ev_OrganizationID = ''o1'', ev_EventType = ''RunQueued'',
     ev_Payload = run_event ''alice'' i ''w1'', ev_OccurredAt = 0, ev_PublishedAt = None\<rparr>"

text \<open>The demo database once the run \<open>r1\<close> is queued.\<close>

definition demo_triggered :: world where
  "demo_triggered = demo\<lparr>db := demo_db\<lparr>workspaces := [demo_ws\<lparr>ws_Locked := True, ws_LockedByRunID := Some ''r1''\<rparr>],
     runs := [demo_run ''r1'' RunStatusQueued], outbox_events := [demo_queued ''r1'']\<rparr>\<rparr>"

lemma demo_TriggerRun:
  "run (TriggerRun_Execute (demo_ids ''r1'') [] ''o1'' ''p1'' ''w1'' ''alice'') demo
     = (Inr (demo_run ''r1'' RunStatusQueued), demo_triggered)"
proof -
  have "ws_ProjectID demo_ws = ''p1''" "ws_Locked demo_ws = False" "ws_ID demo_ws = ''w1''" "ws_OrganizationID demo_ws = ''o1''"
    by (simp_all add: demo_ws_def)
  then show ?thesis
    by (simp add: TriggerRun_Execute_def WorkspaceExists_def run_head IsArchived_def demo_alice_permitted
        AllPermissions_def rbac_consts ctx_permits_def oneRow_def TryLock_def try_lock_def is_ws_def NewRun_def RunRepository_Create_def
        run_tryE run_tx and_emit_def outbox_Write_def demo_org_def OrganizationStatusArchived_def
        demo_triggered_def demo_run_def demo_queued_def demo_ids_def)
qed

definition demo_canceled :: world where
  "demo_canceled = demo\<lparr>db := demo_db\<lparr>runs := [(demo_run ''r1'' RunStatusCanceled)\<lparr>run_FinishedAt := Some 0\<rparr>],
     outbox_events := [demo_queued ''r1'', \<lparr>ev_ID = ''c1'', ev_OrganizationID = ''o1'', ev_EventType = ''RunCanceled'',
       ev_Payload = run_event ''alice'' ''r1'' ''w1'', ev_OccurredAt = 0, ev_PublishedAt = None\<rparr>]\<rparr>\<rparr>"

lemma demo_CancelRun:
  "run (CancelRun_Execute ''c1'' ''i'' [] ''o1'' ''p1'' ''w1'' ''r1'' ''alice'') demo_triggered
     = (Inr ((demo_run ''r1'' RunStatusCanceled)\<lparr>run_FinishedAt := Some 0\<rparr>), demo_canceled)"
proof -
  have cancel: "run (Registry_CancelJob ''i'' ''r1'') demo_canceled = (Inr False, demo_canceled)"
    by (simp add: Registry_CancelJob_def Registry_cancelLocal_def local_step_def redis_get_worker_def redis_step_def
        run_bindE run_atomic cancel_lookup_def
        fault_now_def pop_def demo_canceled_def demo_def empty_world_def empty_registry_def)
  have ws: "demo_ws\<lparr>ws_Locked := False, ws_LockedByRunID := None\<rparr> = demo_ws" by (simp add: demo_ws_def)
  have same: "demo_db\<lparr>runs := a, outbox_events := b, workspaces := [demo_ws]\<rparr> = demo_db\<lparr>runs := a, outbox_events := b\<rparr>" for a b
    by (simp add: demo_db_def empty_db_def)
  have ids: "ws_ID demo_ws = ''w1''" "ws_OrganizationID demo_ws = ''o1''" by (simp_all add: demo_ws_def)
  have "run (CancelRun_Execute ''c1'' ''i'' [] ''o1'' ''p1'' ''w1'' ''r1'' ''alice'') demo_triggered =
      run (bindE (tryE (Registry_CancelJob ''i'' ''r1'')) (\<lambda>_. retE ((demo_run ''r1'' RunStatusCanceled)\<lparr>run_FinishedAt := Some 0\<rparr>))) demo_canceled"
    by (simp add: CancelRun_Execute_def run_head ctx_permits_def demo_permitted_in AllPermissions_def rbac_consts RunRepository_GetByID_def oneRow_def RunRepository_Update_def
      Run_Cancel_def IsTerminal_def update_event_def and_emit_def outbox_Write_def Unlock_def unlock_def is_ws_def ws same ids
      demo_triggered_def demo_canceled_def demo_run_def demo_queued_def is_run_def demo_org_def)
  then show ?thesis by (simp add: run_bind_tryE cancel)
qed

text \<open>The lock is free again: the run \<open>r2\<close> can be queued.\<close>

definition demo_retriggered :: world where
  "demo_retriggered = demo\<lparr>db := (db demo_canceled)\<lparr>workspaces := [demo_ws\<lparr>ws_Locked := True, ws_LockedByRunID := Some ''r2''\<rparr>],
     runs := runs (db demo_canceled) @ [demo_run ''r2'' RunStatusQueued],
     outbox_events := outbox_events (db demo_canceled) @ [demo_queued ''r2'']\<rparr>\<rparr>"

lemma demo_TriggerRun_again:
  "run (TriggerRun_Execute (demo_ids ''r2'') [] ''o1'' ''p1'' ''w1'' ''alice'') demo_canceled
     = (Inr (demo_run ''r2'' RunStatusQueued), demo_retriggered)"
proof -
  have "ws_ProjectID demo_ws = ''p1''" "ws_Locked demo_ws = False" "ws_ID demo_ws = ''w1''" "ws_OrganizationID demo_ws = ''o1''"
    by (simp_all add: demo_ws_def)
  then show ?thesis
    by (simp add: TriggerRun_Execute_def WorkspaceExists_def run_head IsArchived_def demo_permitted_in
        AllPermissions_def rbac_consts ctx_permits_def oneRow_def TryLock_def try_lock_def is_ws_def NewRun_def RunRepository_Create_def
        run_tryE run_tx and_emit_def outbox_Write_def demo_org_def OrganizationStatusArchived_def
        demo_retriggered_def demo_canceled_def demo_run_def demo_queued_def demo_ids_def)
qed

end
