(* ===== verification/Run_Lifecycle.thy ===== *)
theory Run_Lifecycle
  imports Execution
begin

text \<open>
  What each operation of the Execution context does to a run when it runs alone: the effect of a
  trigger on every branch, the redelivery of events, the outcome of a report, and the sweeps of
  the reaper.
\<close>

section \<open>Triggering\<close>

definition queued_event :: "id \<Rightarrow> time \<Rightarrow> Run \<Rightarrow> Event" where
  "queued_event uuid now r = \<lparr>ev_ID = uuid, ev_OrganizationID = run_OrganizationID r, ev_EventType = ''RunQueued'',
     ev_Payload = run_event (run_TriggeredBy r) (run_ID r) (run_WorkspaceID r), ev_OccurredAt = now, ev_PublishedAt = None\<rparr>"

definition lock_ws :: "id \<Rightarrow> id \<Rightarrow> id \<Rightarrow> Workspace list \<Rightarrow> Workspace list" where
  "lock_ws og i t = upd (is_ws og i) (\<lambda>x. x\<lparr>ws_Locked := True, ws_LockedByRunID := Some t\<rparr>)"

text \<open>
  C20: A trigger that succeeds did everything, and only that: the requester may apply the workspace,
  the organization is not archived, the workspace belongs to the project and was not locked; now
  it is locked by the new run, the run is stored as queued, and its \<^verbatim>\<open>RunQueued\<close> event is in the outbox.
\<close>

theorem trigger_effect:
  assumes "run (TriggerRun_Execute u ctx og pr i usr) w = (Inr r, w')"
  shows "permitted ctx (db w) og usr ''workspace:apply'' (Some pr) (Some i)
    \<and> (\<exists>x. List.find (\<lambda>x. org_ID x = og) (organizations (db w)) = Some x \<and> org_Status x \<noteq> OrganizationStatusArchived)
    \<and> (\<exists>x \<in> set (workspaces (db w)). is_ws og i x \<and> ws_ProjectID x = pr)
    \<and> (\<exists>x. List.find (is_ws og i) (workspaces (db w)) = Some x \<and> \<not> ws_Locked x)
    \<and> NewRun (u 0) (clock w) og i usr = Inr r \<and> run_Status r = RunStatusQueued
    \<and> db w' = (db w)\<lparr>workspaces := lock_ws og i (u 0) (workspaces (db w)), runs := runs (db w) @ [r],
         outbox_events := outbox_events (db w) @ [queued_event (u 1) (clock w) r]\<rparr>"
  using assms
  by (auto simp: TriggerRun_Execute_def run_head WorkspaceExists_def IsArchived_def oneRow_def TryLock_def try_lock_def
      NewRun_def RunRepository_Create_def run_tx and_emit_def outbox_Write_def queued_event_def lock_ws_def list_ex_iff is_ws_def
      split: if_splits option.splits sum.splits prod.splits)

text \<open>On the demo deployment.\<close>

theorem trigger_effect_witness:
  "db demo_triggered = demo_db\<lparr>workspaces := lock_ws ''o1'' ''w1'' ''r1'' [demo_ws], runs := [demo_run ''r1'' RunStatusQueued],
     outbox_events := [queued_event ''er1'' 0 (demo_run ''r1'' RunStatusQueued)]\<rparr>"
  using trigger_effect [OF demo_TriggerRun] by (simp add: demo_ids_def)

lemma unlock_lock_ws:
  assumes "\<And>x. x \<in> set wss \<Longrightarrow> is_ws og i x \<Longrightarrow> \<not> ws_Locked x \<and> ws_LockedByRunID x = None"
  shows "unlock og i t (lock_ws og i t wss) = wss"
  unfolding unlock_def lock_ws_def upd_def map_map
proof (rule map_idI)
  fix x assume "x \<in> set wss"
  from assms [OF this] show "((\<lambda>x. if is_ws og i x \<and> ws_LockedByRunID x = Some t
      then x\<lparr>ws_Locked := False, ws_LockedByRunID := None\<rparr> else x) \<circ>
    (\<lambda>x. if is_ws og i x then x\<lparr>ws_Locked := True, ws_LockedByRunID := Some t\<rparr> else x)) x = x"
    by (cases x) (auto simp: is_ws_def)
qed

lemma find_ws_unique:
  assumes "distinct (map ws_ID wss)" "List.find (is_ws og i) wss = Some x" "y \<in> set wss" "is_ws og i y"
  shows "y = x"
  using assms find_SomeD [OF assms(2)] by (auto simp: is_ws_def distinct_map dest: inj_onD)

text \<open>
  C23: A trigger that fails leaves no trace. While the database itself works, whatever error a
  trigger returns (unknown workspace, no permission, archived organization, locked workspace, or
  the insert of the run refused after the lock was taken), the data is exactly as before: the
  lock that was taken is given back.
\<close>

theorem trigger_error_no_trace:
  assumes "run (TriggerRun_Execute u ctx og pr i usr) w = (Inl e, w')"
    and "faults w = []" and "distinct (map ws_ID (workspaces (db w)))"
    and "\<forall>x \<in> set (workspaces (db w)). \<not> ws_Locked x \<longrightarrow> ws_LockedByRunID x = None"
  shows "db w' = db w"
proof -
  have restore: "unlock og i t (lock_ws og i t (workspaces (db w))) = workspaces (db w)"
    if "List.find (is_ws og i) (workspaces (db w)) = Some x" "\<not> ws_Locked x" for x t
    by (rule unlock_lock_ws) (use find_ws_unique [OF assms(3) that(1)] that(2) assms(4) in auto)
  show ?thesis using assms(1,2) restore
    by (auto simp: TriggerRun_Execute_def run_head WorkspaceExists_def IsArchived_def oneRow_def TryLock_def try_lock_def
        NewRun_def RunRepository_Create_def run_tx and_emit_def outbox_Write_def lock_ws_def Unlock_def
        split: if_splits option.splits sum.splits prod.splits)
qed

text \<open>A trigger whose run id is taken already: the insert fails after the lock was taken.\<close>

lemma demo_TriggerRun_taken:
  "fst (run (TriggerRun_Execute (demo_ids ''r1'') [] ''o1'' ''p1'' ''w1'' ''alice'') demo_canceled) = Inl ErrUniqueViolation"
proof -
  have "ws_ProjectID demo_ws = ''p1''" "ws_Locked demo_ws = False" "ws_ID demo_ws = ''w1''" "ws_OrganizationID demo_ws = ''o1''"
    by (simp_all add: demo_ws_def)
  then show ?thesis
    by (simp add: TriggerRun_Execute_def WorkspaceExists_def run_head IsArchived_def demo_permitted_in
        AllPermissions_def rbac_consts ctx_permits_def oneRow_def TryLock_def try_lock_def is_ws_def NewRun_def RunRepository_Create_def
        run_tx Unlock_def demo_org_def OrganizationStatusArchived_def demo_canceled_def demo_run_def demo_ids_def)
qed

theorem trigger_error_no_trace_witness:
  "db (snd (run (TriggerRun_Execute (demo_ids ''r1'') [] ''o1'' ''p1'' ''w1'' ''alice'') demo_canceled)) = db demo_canceled"
  by (rule trigger_error_no_trace [where e = ErrUniqueViolation and u = "demo_ids ''r1''" and ctx = "[]" and og = "''o1''"
        and pr = "''p1''" and i = "''w1''" and usr = "''alice''"])
    (simp_all add: prod_eq_iff demo_TriggerRun_taken, simp_all add: demo_canceled_def demo_ws_def)

section \<open>Delivery of events\<close>

text \<open>
  The outbox delivers at least once, and a second delivery of \<^verbatim>\<open>RunQueued\<close> does nothing: if the run the
  event announces is not queued (it is already being applied, or ended, or was deleted), the
  dispatcher returns without an error and changes nothing, no matter what is registered; so does
  it for every other type of event.
\<close>

lemma redelivery_is_noop:
  assumes "ev_EventType ev = ''RunQueued'' \<Longrightarrow> \<forall>r \<in> set (runs (db w)).
      is_run (ev_OrganizationID ev) (payload_field (ev_Payload ev) ''target_id'') r \<longrightarrow> run_Status r \<noteq> RunStatusQueued"
    and "\<not> fault_now w"
  shows "\<exists>n. run (RunDispatch_HandleEvent rs order u inst ev) w = (Inr (), w\<lparr>faults := drop n (faults w)\<rparr>)"
proof (cases "ev_EventType ev = ''RunQueued''")
  case True
  with assms(1) have "\<not> list_ex (\<lambda>r. is_run (ev_OrganizationID ev) (payload_field (ev_Payload ev) ''target_id'') r
      \<and> run_Status r = RunStatusQueued) (runs (db w))" by (auto simp: list_ex_iff)
  with True assms(2) show ?thesis
    by (intro exI [of _ 1]) (simp add: RunDispatch_HandleEvent_def Let_def TryStartApplying_def run_head pop_def drop_Suc)
next
  case False
  then show ?thesis by (intro exI [of _ 0]) (simp add: RunDispatch_HandleEvent_def)
qed

lemma redelivery_is_noop_witness:
  "\<exists>n. run (RunDispatch_HandleEvent (\<lambda>_ _ _. throwE ErrVault) (\<lambda>_. []) (\<lambda>_. ''x'') ''i'' (demo_queued ''r1'')) demo_canceled
     = (Inr (), demo_canceled\<lparr>faults := drop n (faults demo_canceled)\<rparr>)"
  by (rule redelivery_is_noop) (auto simp: demo_canceled_def demo_run_def)

section \<open>Reports\<close>

lemma run_Registry_Forget:
  "faults w = [] \<Longrightarrow> \<exists>w'. run (Registry_Forget inst i) w = (Inr (), w') \<and> db w' = db w \<and> faults w' = []"
  by (auto simp: Registry_Forget_def logged_def local_step_def redis_del_worker_def redis_step_def run_bindE run_tryE
      run_atomic split: prod.split sum.split)

text \<open>What a report is meant to do to the run it is about.\<close>

definition reported :: "string \<Rightarrow> time \<Rightarrow> string \<Rightarrow> Run \<Rightarrow> Run" where
  "reported st now output r = r\<lparr>run_Status := (if st = ''applied'' then RunStatusApplied else RunStatusFailed),
     run_FinishedAt := Some now, run_ApplyOutputRef := (if output = [] then run_ApplyOutputRef r else Some output)\<rparr>"

lemma reported_transition_applying:
  assumes "st \<in> {''applied'', ''failed'', ''errored''}" "run_Status r = RunStatusApplying"
  shows "reported_transition st now r = Inr (r\<lparr>run_Status := (if st = ''applied'' then RunStatusApplied else RunStatusFailed),
     run_FinishedAt := Some now\<rparr>)"
  using assms by (auto simp: reported_transition_def Run_MarkApplied_def Run_MarkFailed_def)

text \<open>
  C25: The outcome of a Worker's report of applied, failed or errored, while the database works, for a run that is stored (with its organization) and
  with a new id for the event. If the run is being applied it becomes applied or failed as reported, with the finishing time and
  the combined output, and no other run changes. Of the workspaces, exactly the one the report names is unlocked, and only
  if the run holds its lock; so when the report names the run's own workspace, the only one that the run can hold, no
  lock of the run is left. If the run is in any other status (a report delivered twice, or after a cancellation) the
  report is ignored: no error, no change.
\<close>

theorem report_outcome:
  assumes "faults w = []" and "st \<in> {''applied'', ''failed'', ''errored''}"
    and "distinct (map run_ID (runs (db w)))" and "List.find (is_run og rid) (runs (db w)) = Some r"
    and "list_ex (\<lambda>x. org_ID x = og) (organizations (db w))" and "\<not> list_ex (\<lambda>x. ev_ID x = uuid) (outbox_events (db w))"
  shows "\<exists>w'. run (WorkerReport_HandleReport uuid inst og rid i st l e) w = (Inr (), w') \<and>
    (if run_Status r = RunStatusApplying
     then runs (db w') = map (\<lambda>x. if x = r then reported st (clock w) (report_output l e) r else x) (runs (db w))
       \<and> workspaces (db w') = map (\<lambda>x. if ws_OrganizationID x = og \<and> ws_ID x = i \<and> ws_LockedByRunID x = Some rid
            then x\<lparr>ws_Locked := False, ws_LockedByRunID := None\<rparr> else x) (workspaces (db w))
       \<and> (i = run_WorkspaceID r \<and> (\<forall>x \<in> set (workspaces (db w)). ws_LockedByRunID x = Some rid \<longrightarrow> is_ws og (run_WorkspaceID r) x)
            \<longrightarrow> (\<forall>x \<in> set (workspaces (db w')). ws_LockedByRunID x \<noteq> Some rid))
     else db w' = db w)"
proof -
  have r: "r \<in> set (runs (db w))" "run_OrganizationID r = og" "run_ID r = rid"
    using find_SomeD [OF assms(4)] by (simp_all add: is_run_def)
  have only: "is_run og rid x \<longleftrightarrow> x = r" if "x \<in> set (runs (db w))" for x
    using assms(3) that r by (auto simp: is_run_def distinct_map dest: inj_onD)
  let ?r = "reported st (clock w) (report_output l e) r"
  have runs: "upd (is_run og rid) (\<lambda>x. x\<lparr>run_Status := run_Status ?r, run_PlanOutputRef := run_PlanOutputRef r,
      run_ApplyOutputRef := run_ApplyOutputRef ?r, run_StartedAt := run_StartedAt r, run_FinishedAt := run_FinishedAt ?r\<rparr>) (runs (db w))
    = map (\<lambda>x. if x = r then ?r else x) (runs (db w))"
    unfolding upd_def by (rule map_cong) (auto simp: only reported_def)
  show ?thesis
  proof (cases "run_Status r = RunStatusApplying")
    case False
    with assms(1,2,4) show ?thesis
      by (auto simp: WorkerReport_HandleReport_def RunRepository_GetByID_def run_head oneRow_def reported_transition_def
          Run_MarkApplied_def Run_MarkFailed_def)
  next
    case True
    define d1 where "d1 = (db w)\<lparr>runs := map (\<lambda>x. if x = r then ?r else x) (runs (db w)),
      outbox_events := outbox_events (db w) @ [\<lparr>ev_ID = uuid, ev_OrganizationID = og,
        ev_EventType = (if st = ''applied'' then ''RunApplied'' else ''RunFailed''),
        ev_Payload = run_event ''system'' rid (run_WorkspaceID r), ev_OccurredAt = clock w, ev_PublishedAt = None\<rparr>]\<rparr>"
    have sel: "run_OrganizationID ?r = og" "run_ID ?r = rid" "run_WorkspaceID ?r = run_WorkspaceID r"
      "run_PlanOutputRef ?r = run_PlanOutputRef r" "run_StartedAt ?r = run_StartedAt r"
      "update_event (run_Status ?r) = Some (if st = ''applied'' then ''RunApplied'' else ''RunFailed'')"
      using r by (simp_all add: reported_def update_event_def)
    have "run (WorkerReport_HandleReport uuid inst og rid i st l e) w =
        run (bindE (RunRepository_Update uuid ?r ''system'') (\<lambda>_. bindE (Registry_Forget inst rid) (\<lambda>_. Unlock og i rid))) w"
      using assms(1,4) r
      by (simp add: WorkerReport_HandleReport_def RunRepository_GetByID_def run_head oneRow_def Let_def
          reported_transition_applying [OF assms(2) True] reported_def if_distrib [of run_ID] cong: if_cong)
    also have "\<dots> = run (bindE (Registry_Forget inst rid) (\<lambda>_. Unlock og i rid)) (w\<lparr>db := d1\<rparr>)"
      using assms(1,5,6) by (simp add: RunRepository_Update_def run_head sel runs Let_def and_emit_def outbox_Write_def d1_def)
    finally have eq: "run (WorkerReport_HandleReport uuid inst og rid i st l e) w =
        run (bindE (Registry_Forget inst rid) (\<lambda>_. Unlock og i rid)) (w\<lparr>db := d1\<rparr>)" .
    obtain w2 where "run (Registry_Forget inst rid) (w\<lparr>db := d1\<rparr>) = (Inr (), w2)" "db w2 = d1" "faults w2 = []"
      using run_Registry_Forget [of "w\<lparr>db := d1\<rparr>" inst rid] assms(1) by auto
    moreover have "workspaces d1 = workspaces (db w)" "runs d1 = map (\<lambda>x. if x = r then ?r else x) (runs (db w))" by (simp_all add: d1_def)
    ultimately show ?thesis unfolding eq using True
      by (simp add: run_bindE [of "Registry_Forget inst rid"] Unlock_def run_tx unlock_def upd_def is_ws_def) auto
  qed
qed

definition demo_applying :: world where
  "demo_applying = demo_triggered\<lparr>db := (db demo_triggered)\<lparr>runs := [demo_run ''r1'' RunStatusApplying]\<rparr>\<rparr>"

theorem report_outcome_witness:
  "\<exists>w'. run (WorkerReport_HandleReport ''a1'' ''i'' ''o1'' ''r1'' ''w1'' ''applied'' ''ok'' []) demo_applying = (Inr (), w')
     \<and> runs (db w') = [reported ''applied'' 0 ''ok'' (demo_run ''r1'' RunStatusApplying)] \<and> workspaces (db w') = [demo_ws]"
proof -
  have "ws_OrganizationID demo_ws = ''o1''" "ws_ID demo_ws = ''w1''"
    "demo_ws\<lparr>ws_Locked := True, ws_LockedByRunID := Some ''r1'', ws_Locked := False, ws_LockedByRunID := None\<rparr> = demo_ws"
    by (simp_all add: demo_ws_def)
  then show ?thesis
    using report_outcome [of demo_applying "''applied''" "''o1''" "''r1''" "demo_run ''r1'' RunStatusApplying" "''a1''" "''i''" "''w1''" "''ok''" "[]"]
    by (auto simp: demo_applying_def demo_triggered_def demo_run_def is_run_def demo_org_def demo_queued_def report_output_def)
qed

section \<open>The reaper\<close>

definition expire :: "time \<Rightarrow> Run \<Rightarrow> Run" where
  "expire now r = r\<lparr>run_Status := RunStatusErrored, run_FinishedAt := Some now\<rparr>"

lemma reapCandidate_runs:
  assumes "run (reapCandidate uuid inst c) w = (res, w')"
  shows "clock w' = clock w \<and> (\<exists>b. runs (db w') = upd (\<lambda>r. b \<and> is_run (src_OrganizationID c) (src_RunID c) r
     \<and> run_Status r = RunStatusApplying) (expire (clock w)) (runs (db w)))"
proof -
  obtain r1 w1 where m: "run (MarkErroredIfStillApplying uuid (src_OrganizationID c) (src_RunID c)) w = (r1, w1)" by fastforce
  have mark: "clock w1 = clock w \<and> runs (db w1) = upd (\<lambda>r. r1 = Inr True \<and> is_run (src_OrganizationID c) (src_RunID c) r
     \<and> run_Status r = RunStatusApplying) (expire (clock w)) (runs (db w))"
    using m by (auto simp: MarkErroredIfStillApplying_def run_tx Let_def and_emit_def outbox_Write_def expire_def upd_def
        split: if_splits sum.splits)
  have forget: "clock v' = clock v \<and> db v' = db v" if "run (Registry_Forget inst i) v = (q, v')" for i v v' q
    using that by (auto simp: Registry_Forget_def logged_def local_step_def redis_del_worker_def redis_step_def run_bindE
        run_tryE run_atomic split: prod.splits sum.splits if_splits)
  have "clock w' = clock w1 \<and> runs (db w') = runs (db w1)"
    using assms m unfolding reapCandidate_def
    by (auto simp: run_bind_tryE Unlock_def run_tx split: sum.splits bool.splits if_splits dest!: forget)
  with mark show ?thesis by metis
qed

lemma upd_twice:
  assumes "\<And>x. \<not> q (f x)"
  shows "upd q f (upd p f xs) = upd (\<lambda>x. p x \<or> q x) f xs"
  using assms by (induction xs) auto

lemma sweep_runs:
  assumes "run (forE xs (\<lambda>(n, c). reapCandidate (u n) inst c)) w = (res, w')"
  shows "\<exists>S. runs (db w') = upd S (expire (clock w)) (runs (db w)) \<and>
    (\<forall>r. S r \<longrightarrow> run_Status r = RunStatusApplying \<and> (\<exists>c \<in> snd ` set xs. is_run (src_OrganizationID c) (src_RunID c) r))"
  using assms
proof (induction xs arbitrary: w)
  case Nil
  then show ?case by (intro exI [of _ "\<lambda>_. False"]) (auto simp: upd_def)
next
  case (Cons x xs)
  obtain n c where x: "x = (n, c)" by fastforce
  obtain r1 w1 where c: "run (reapCandidate (u n) inst c) w = (r1, w1)" by fastforce
  from reapCandidate_runs [OF c] obtain b where w1: "clock w1 = clock w" "runs (db w1) =
      upd (\<lambda>r. b \<and> is_run (src_OrganizationID c) (src_RunID c) r \<and> run_Status r = RunStatusApplying) (expire (clock w)) (runs (db w))"
    by blast
  show ?case
  proof (cases r1)
    case (Inl e)
    with Cons.prems c x have "w' = w1" by (simp add: run_bindE)
    with w1(2) show ?thesis
      by (intro exI [of _ "\<lambda>r. b \<and> is_run (src_OrganizationID c) (src_RunID c) r \<and> run_Status r = RunStatusApplying"])
        (auto simp: x)
  next
    case (Inr a)
    with Cons.prems c x have "run (forE xs (\<lambda>(n, c). reapCandidate (u n) inst c)) w1 = (res, w')" by (simp add: run_bindE)
    from Cons.IH [OF this] obtain S where S: "runs (db w') = upd S (expire (clock w1)) (runs (db w1))"
      "\<And>r. S r \<Longrightarrow> run_Status r = RunStatusApplying \<and> (\<exists>c \<in> snd ` set xs. is_run (src_OrganizationID c) (src_RunID c) r)" by blast
    have "\<not> S (expire (clock w) r)" for r using S(2) [of "expire (clock w) r"] by (auto simp: expire_def)
    then have "runs (db w') = upd (\<lambda>r. (b \<and> is_run (src_OrganizationID c) (src_RunID c) r \<and> run_Status r = RunStatusApplying) \<or> S r)
        (expire (clock w)) (runs (db w))" using S(1) w1 by (simp add: upd_twice)
    with S(2) show ?thesis
      by (intro exI [of _ "\<lambda>r. (b \<and> is_run (src_OrganizationID c) (src_RunID c) r \<and> run_Status r = RunStatusApplying) \<or> S r"])
        (auto simp: x)
  qed
qed

text \<open>
  C26: The reaper only ends runs that are being applied and for which a \<^verbatim>\<open>RunApplying\<close> event older than
  the timeout exists; such a run becomes errored. Every other run is left alone, whatever fails
  during the sweep.
\<close>

theorem reaper_only_stale:
  assumes "run (StaleRunReaper_reapOnce u inst staleAfter) w = (res, w')"
  shows "\<exists>S. runs (db w') = upd S (expire (clock w)) (runs (db w)) \<and>
    (\<forall>r. S r \<longrightarrow> run_Status r = RunStatusApplying \<and> (\<exists>e \<in> set (outbox_events (db w)).
       ev_EventType e = ''RunApplying'' \<and> ev_OccurredAt e < clock w - staleAfter \<and>
       ev_OrganizationID e = run_OrganizationID r \<and> map_of (ev_Payload e) ''target_id'' = Some (run_ID r)))"
proof -
  let ?evs = "filter (\<lambda>e. ev_EventType e = ''RunApplying'' \<and> ev_OccurredAt e < clock w - staleAfter) (outbox_events (db w))"
  let ?src = "\<lambda>e. \<lparr>src_OrganizationID = ev_OrganizationID e, src_RunID = the (map_of (ev_Payload e) ''target_id''),
               src_WorkspaceID = the (map_of (ev_Payload e) ''workspace_id'')\<rparr>"
  consider "db w' = db w" |
    v where "run (forE (enumerate 0 (map ?src ?evs)) (\<lambda>(n, c). reapCandidate (u n) inst c)) v = (res, w')"
      "db v = db w" "clock v = clock w" "\<forall>e \<in> set ?evs. map_of (ev_Payload e) ''target_id'' \<noteq> None"
    using assms by (auto simp: StaleRunReaper_reapOnce_def FindStaleApplyingRuns_def run_head Let_def list_ex_iff split: if_splits)
  then show ?thesis
  proof cases
    case 1
    then show ?thesis by (intro exI [of _ "\<lambda>_. False"]) (simp add: upd_def)
  next
    case 2
    have "snd ` set (enumerate 0 (map ?src ?evs)) = ?src ` set ?evs" by (simp only: set_map [symmetric] map_snd_enumerate)
    with sweep_runs [OF 2(1)] obtain S where S: "runs (db w') = upd S (expire (clock w)) (runs (db w))"
      "\<And>r. S r \<Longrightarrow> run_Status r = RunStatusApplying \<and> (\<exists>e \<in> set ?evs. is_run (ev_OrganizationID e) (the (map_of (ev_Payload e) ''target_id'')) r)"
      using 2(2,3) by auto
    show ?thesis
    proof (intro exI conjI allI impI)
      show "runs (db w') = upd S (expire (clock w)) (runs (db w))" by (rule S(1))
      fix r assume "S r"
      from S(2) [OF this] show "run_Status r = RunStatusApplying" by simp
      from S(2) [OF \<open>S r\<close>] obtain e where e: "e \<in> set ?evs" "is_run (ev_OrganizationID e) (the (map_of (ev_Payload e) ''target_id'')) r" by blast
      then show "\<exists>e \<in> set (outbox_events (db w)). ev_EventType e = ''RunApplying'' \<and> ev_OccurredAt e < clock w - staleAfter \<and>
          ev_OrganizationID e = run_OrganizationID r \<and> map_of (ev_Payload e) ''target_id'' = Some (run_ID r)"
        using 2(4) by (intro bexI [of _ e]) (auto simp: is_run_def)
    qed
  qed
qed

definition demo_stale :: world where
  "demo_stale = demo_applying\<lparr>clock := 100, db := (db demo_applying)\<lparr>outbox_events := [\<lparr>ev_ID = ''s1'',
     ev_OrganizationID = ''o1'', ev_EventType = ''RunApplying'', ev_Payload = run_event ''system'' ''r1'' ''w1'',
     ev_OccurredAt = 0, ev_PublishedAt = None\<rparr>]\<rparr>\<rparr>"

theorem reaper_only_stale_witness:
  "\<exists>S. runs (db (snd (run (StaleRunReaper_reapOnce (\<lambda>_. ''x'') ''i'' 50) demo_stale)))
      = upd S (expire 100) [demo_run ''r1'' RunStatusApplying]"
proof -
  have "clock demo_stale = 100" "runs (db demo_stale) = [demo_run ''r1'' RunStatusApplying]"
    by (simp_all add: demo_stale_def demo_applying_def)
  with reaper_only_stale [OF surjective_pairing, of "\<lambda>_. ''x''" "''i''" 50 demo_stale] show ?thesis by auto
qed

end
