(* ===== verification/Run_Safety.thy ===== *)
theory Run_Safety
  imports Execution Management
begin

text \<open>
  Runs under concurrency. Requests, Worker reports, outbox deliveries and reapers of all replicas
  run at the same time; each is a sequence of transactions, and transactions of different
  programs interleave in any way, programs may die between two transactions, and any transaction
  may fail. The invariant \<open>runs_inv\<close> says that a run which is not terminal holds the lock of its
  workspace. It is proved by rely-guarantee: what a program named \<open>t\<close> may do (\<open>gdb t\<close>) and what it
  may count on (\<open>rdb t\<close>); a trigger request is named by the id it generates for its run.
\<close>

section \<open>Invariant, rely and guarantee\<close>

text \<open>The run id \<open>i\<close> has been announced in the outbox.\<close>

definition published :: "db \<Rightarrow> id \<Rightarrow> bool" where
  "published d i = (\<exists>e \<in> set (outbox_events d). ev_EventType e = ''RunQueued''
     \<and> map_of (ev_Payload e) ''target_id'' = Some i)"

text \<open>Every row of workspace \<open>i\<close> is one of organization \<open>og\<close>, locked by run \<open>t\<close>.\<close>

definition held :: "db \<Rightarrow> id \<Rightarrow> id \<Rightarrow> id \<Rightarrow> bool" where
  "held d t og i = (\<forall>x \<in> set (workspaces d). ws_ID x = i \<longrightarrow>
     ws_OrganizationID x = og \<and> ws_Locked x \<and> ws_LockedByRunID x = Some t)"

definition runs_inv :: "db \<Rightarrow> bool" where
  "runs_inv d = (distinct (map run_ID (runs d)) \<and> distinct (map ws_ID (workspaces d)) \<and>
     (\<forall>r \<in> set (runs d). published d (run_ID r)) \<and>
     (\<forall>r \<in> set (runs d). \<not> IsTerminal (run_Status r) \<longrightarrow>
        (\<exists>x \<in> set (workspaces d). ws_ID x = run_WorkspaceID r \<and> ws_OrganizationID x = run_OrganizationID r
           \<and> ws_Locked x \<and> ws_LockedByRunID x = Some (run_ID r))))"

text \<open>
  How the runs announced before may change: none appears, none moves to another organization,
  and none leaves a terminal status.
\<close>

definition evolve :: "db \<Rightarrow> db \<Rightarrow> bool" where
  "evolve d d' = ((\<forall>i. published d i \<longrightarrow> published d' i) \<and>
     (\<forall>r' \<in> set (runs d'). published d (run_ID r') \<longrightarrow>
        (\<exists>r \<in> set (runs d). run_ID r = run_ID r' \<and> run_OrganizationID r = run_OrganizationID r'
           \<and> (IsTerminal (run_Status r) \<longrightarrow> IsTerminal (run_Status r')))))"

definition spares :: "id \<Rightarrow> db \<Rightarrow> db \<Rightarrow> bool" where
  "spares u d d' = (\<not> published d u \<longrightarrow> \<not> published d' u \<and> (\<forall>og i. held d u og i \<longrightarrow> held d' u og i))"

definition rdb :: "id \<Rightarrow> db \<Rightarrow> db \<Rightarrow> bool" where
  "rdb t d d' = ((runs_inv d \<longrightarrow> runs_inv d') \<and> evolve d d' \<and> spares t d d')"

definition gdb :: "id \<Rightarrow> db \<Rightarrow> db \<Rightarrow> bool" where
  "gdb t d d' = ((runs_inv d \<longrightarrow> runs_inv d') \<and> evolve d d' \<and> (\<forall>u. u \<noteq> t \<longrightarrow> spares u d d'))"

definition rely :: "id \<Rightarrow> world \<Rightarrow> world \<Rightarrow> bool" where
  "rely t w w' = rdb t (db w) (db w')"

definition guar :: "id \<Rightarrow> world \<Rightarrow> world \<Rightarrow> bool" where
  "guar t w w' = gdb t (db w) (db w')"

lemma evolve_refl [simp]: "evolve d d"
  by (auto simp: evolve_def)

lemma evolve_trans: "evolve d d' \<Longrightarrow> evolve d' d'' \<Longrightarrow> evolve d d''"
  unfolding evolve_def by (metis (no_types, lifting))

lemma rdb_refl [simp]: "rdb t d d"
  by (simp add: rdb_def spares_def)

lemma gdb_refl [simp]: "gdb t d d"
  by (simp add: gdb_def spares_def)

lemma rdb_trans: "rdb t d d' \<Longrightarrow> rdb t d' d'' \<Longrightarrow> rdb t d d''"
  by (auto simp: rdb_def spares_def intro: evolve_trans)

interpretation rg: rely_guarantee rely guar "\<lambda>w. runs_inv (db w)"
  by unfold_locales (auto simp: rely_def guar_def rdb_def gdb_def spares_def intro: evolve_trans)

section \<open>Triples\<close>

text \<open>
  \<open>triple t P m Q\<close>: started with the invariant and \<open>P\<close>, program \<open>m\<close> of name \<open>t\<close> keeps its guarantee
  at every step, under any interference it relies on not to happen, and ends with \<open>Q\<close>.
\<close>

definition triple :: "id \<Rightarrow> (db \<Rightarrow> bool) \<Rightarrow> 'a io \<Rightarrow> (err + 'a \<Rightarrow> db \<Rightarrow> bool) \<Rightarrow> bool" where
  "triple t P m Q = (\<forall>w. runs_inv (db w) \<longrightarrow> P (db w) \<longrightarrow>
     rgs (rely t) (guar t) m (\<lambda>r w. runs_inv (db w) \<and> Q r (db w)) w)"

definition stable :: "id \<Rightarrow> (db \<Rightarrow> bool) \<Rightarrow> bool" where
  "stable t P = (\<forall>d d'. P d \<longrightarrow> rdb t d d' \<longrightarrow> P d')"

lemma stableD: "stable t P \<Longrightarrow> P d \<Longrightarrow> rdb t d d' \<Longrightarrow> P d'"
  by (auto simp: stable_def)

lemma stable_True [simp]: "stable t (\<lambda>_. True)"
  by (simp add: stable_def)

lemma stable_imp [simp, intro]: "(c \<Longrightarrow> stable t P) \<Longrightarrow> stable t (\<lambda>d. c \<longrightarrow> P d)"
  by (auto simp: stable_def)

lemma stable_conj [simp, intro]: "stable t P \<Longrightarrow> stable t Q \<Longrightarrow> stable t (\<lambda>d. P d \<and> Q d)"
  by (auto simp: stable_def)

lemma stable_all [simp, intro]: "(\<And>x. stable t (P x)) \<Longrightarrow> stable t (\<lambda>d. \<forall>x. P x d)"
  by (auto simp: stable_def)

lemma stable_const [simp]: "stable t (\<lambda>_. c)"
  by (simp add: stable_def)

lemma triple_atomic:
  assumes "stable t P" "\<And>r. stable t (Q r)"
    and "\<And>w. runs_inv (db w) \<Longrightarrow> P (db w) \<Longrightarrow>
      gdb t (db w) (db (snd (f w))) \<and> Q (fst (f w)) (db (snd (f w)))"
  shows "triple t P (atomic f) Q"
  unfolding triple_def
proof (intro allI impI, rule rg.rgs_atomic)
  fix w w' assume w: "runs_inv (db w)" "P (db w)" "rely t w w'"
  then have w': "runs_inv (db w')" "P (db w')"
    using stableD [OF assms(1)] by (auto simp: rely_def rdb_def)
  then show "guar t w' (snd (f w'))" using assms(3) by (simp add: guar_def)
  fix w'' assume r: "rely t (snd (f w')) w''"
  have "runs_inv (db (snd (f w')))" using assms(3) [OF w'] w' by (simp add: gdb_def)
  with r assms(3) [OF w'] show "runs_inv (db w'') \<and> Q (fst (f w')) (db w'')"
    using stableD [OF assms(2)] by (auto simp: rely_def rdb_def)
qed

lemma triple_tx:
  assumes "stable t P" "\<And>r. stable t (Q r)"
    and "\<And>d. runs_inv d \<Longrightarrow> P d \<Longrightarrow> Q (Inl ErrDB) d"
    and "\<And>now d e. runs_inv d \<Longrightarrow> P d \<Longrightarrow> body now d = Inl e \<Longrightarrow> Q (Inl e) d"
    and "\<And>now d a d'. runs_inv d \<Longrightarrow> P d \<Longrightarrow> body now d = Inr (a, d') \<Longrightarrow> gdb t d d' \<and> Q (Inr a) d'"
  shows "triple t P (tx body) Q"
  unfolding tx_def using assms by (intro triple_atomic) (auto split: sum.split)

lemma triple_bindE:
  assumes "triple t P m R" "\<And>a. triple t (R (Inr a)) (k a) Q"
    and "\<And>e d. R (Inl e) d \<Longrightarrow> Q (Inl e) d" "\<And>e. stable t (Q (Inl e))"
  shows "triple t P (bindE m k) Q"
  unfolding triple_def
proof (intro allI impI, rule rg.rgs_bindE)
  fix w :: world assume "runs_inv (db w)" "P (db w)"
  with assms(1) have "rgs (rely t) (guar t) m (\<lambda>r w. runs_inv (db w) \<and> R r (db w)) w"
    by (simp add: triple_def)
  then show "rgs (rely t) (guar t) m (\<lambda>r w. case r of Inl e \<Rightarrow> runs_inv (db w) \<and> Q (Inl e) (db w)
      | Inr a \<Rightarrow> rgs (rely t) (guar t) (k a) (\<lambda>r w. runs_inv (db w) \<and> Q r (db w)) w) w"
    by (rule rgs_mono) (use assms(2,3) in \<open>auto simp: triple_def split: sum.split\<close>)
next
  fix e and w w' :: world
  assume "runs_inv (db w) \<and> Q (Inl e) (db w)" "rely t w w'"
  then show "runs_inv (db w') \<and> Q (Inl e) (db w')"
    using stableD [OF assms(4)] by (auto simp: rely_def rdb_def)
qed

lemma triple_Done:
  assumes "stable t P" "\<And>d. P d \<Longrightarrow> Q r d"
  shows "triple t P (Done r) Q"
  using assms stableD [OF assms(1)] by (auto simp: triple_def rely_def rdb_def)

lemma triple_retE: "stable t P \<Longrightarrow> (\<And>d. P d \<Longrightarrow> Q (Inr a) d) \<Longrightarrow> triple t P (retE a) Q"
  by (simp add: retE_def triple_Done)

lemma triple_throwE: "stable t P \<Longrightarrow> (\<And>d. P d \<Longrightarrow> Q (Inl e) d) \<Longrightarrow> triple t P (throwE e) Q"
  by (simp add: throwE_def triple_Done)

lemma triple_guardE:
  "stable t P \<Longrightarrow> (b \<Longrightarrow> triple t P k Q) \<Longrightarrow> (\<And>d. P d \<Longrightarrow> Q (Inl e) d) \<Longrightarrow> triple t P (guardE b e k) Q"
  by (simp add: guardE_def triple_throwE)

lemma triple_bind:
  assumes "triple t P m R" "\<And>r. triple t (R r) (k r) Q"
  shows "triple t P (res_bind m k) Q"
  unfolding triple_def
proof (intro allI impI, rule rg.rgs_bind)
  fix w :: world assume "runs_inv (db w)" "P (db w)"
  with assms(1) have "rgs (rely t) (guar t) m (\<lambda>r w. runs_inv (db w) \<and> R r (db w)) w"
    by (simp add: triple_def)
  then show "rgs (rely t) (guar t) m (\<lambda>a. rgs (rely t) (guar t) (k a) (\<lambda>r w. runs_inv (db w) \<and> Q r (db w))) w"
    by (rule rgs_mono) (use assms(2) in \<open>auto simp: triple_def\<close>)
qed

lemma triple_tryE:
  assumes "triple t P m R" "\<And>r. stable t (R r)" "\<And>r d. R r d \<Longrightarrow> Q (Inr r) d"
  shows "triple t P (tryE m) Q"
  unfolding tryE_def using assms by (intro triple_bind [where R = R] triple_Done) auto

lemma triple_pre: "triple t P m Q \<Longrightarrow> (\<And>d. P' d \<Longrightarrow> P d) \<Longrightarrow> triple t P' m Q"
  by (simp add: triple_def)

lemma triple_post:
  assumes "triple t P m Q" "\<And>r d. Q r d \<Longrightarrow> Q' r d"
  shows "triple t P m Q'"
  unfolding triple_def
proof (intro allI impI)
  fix w :: world assume "runs_inv (db w)" "P (db w)"
  with assms(1) have "rgs (rely t) (guar t) m (\<lambda>r w. runs_inv (db w) \<and> Q r (db w)) w"
    by (simp add: triple_def)
  then show "rgs (rely t) (guar t) m (\<lambda>r w. runs_inv (db w) \<and> Q' r (db w)) w"
    by (rule rgs_mono) (use assms(2) in auto)
qed

text \<open>Programs that only read, or only touch the registry and Redis, keep any stable assertion.\<close>

lemma triple_keep: "stable t P \<Longrightarrow> (\<And>w. db (snd (f w)) = db w) \<Longrightarrow> triple t P (atomic f) (\<lambda>_. P)"
  by (intro triple_atomic) auto

lemma triple_query: "stable t P \<Longrightarrow> triple t P (query q) (\<lambda>_. P)"
  unfolding query_def tx_def by (rule triple_keep) (auto split: sum.splits)

lemma triple_nowE: "stable t P \<Longrightarrow> triple t P nowE (\<lambda>_. P)"
  unfolding nowE_def by (rule triple_keep) auto

lemma triple_local_step: "stable t P \<Longrightarrow> triple t P (local_step inst f) (\<lambda>_. P)"
  unfolding local_step_def by (rule triple_keep) (auto split: prod.splits)

lemma triple_redis_step: "stable t P \<Longrightarrow> triple t P (redis_step f) (\<lambda>_. P)"
  unfolding redis_step_def by (rule triple_keep) (auto split: prod.splits)

section \<open>Assertions\<close>

definition unpub :: "id \<Rightarrow> db \<Rightarrow> bool" where
  "unpub t d = (\<not> published d t)"

definition own :: "id \<Rightarrow> id \<Rightarrow> id \<Rightarrow> db \<Rightarrow> bool" where
  "own t og i d = (\<not> published d t \<and> held d t og i)"

definition known :: "id \<Rightarrow> id \<Rightarrow> db \<Rightarrow> bool" where
  "known i og d = (published d i \<and> (\<forall>r \<in> set (runs d). run_ID r = i \<longrightarrow> run_OrganizationID r = og))"

definition quiet :: "id \<Rightarrow> db \<Rightarrow> bool" where
  "quiet i d = (published d i \<and> (\<forall>r \<in> set (runs d). run_ID r = i \<longrightarrow> IsTerminal (run_Status r)))"

lemma stable_assertions [simp]:
  "stable t (unpub t)" "stable t (own t og i)" "stable t (known i og)" "stable t (quiet i)"
proof -
  show "stable t (unpub t)" "stable t (own t og i)"
    by (auto simp: stable_def rdb_def spares_def unpub_def own_def)
  show "stable t (known i og)" unfolding stable_def rdb_def evolve_def known_def by (metis (no_types, lifting))
  show "stable t (quiet i)" unfolding stable_def rdb_def evolve_def quiet_def by (metis (no_types, lifting))
qed

lemma run_known: "runs_inv d \<Longrightarrow> r \<in> set (runs d) \<Longrightarrow> known (run_ID r) (run_OrganizationID r) d"
proof -
  assume d: "runs_inv d" and r: "r \<in> set (runs d)"
  then have "inj_on run_ID (set (runs d))" by (simp add: runs_inv_def distinct_map)
  with d r show ?thesis unfolding known_def runs_inv_def by (metis inj_onD)
qed

section \<open>What each write guarantees\<close>

lemma published_frame [simp]:
  "published (d\<lparr>runs := x\<rparr>) = published d" "published (d\<lparr>workspaces := y\<rparr>) = published d"
  by (simp_all add: published_def fun_eq_iff)

lemma held_frame [simp]: "held (d\<lparr>runs := x\<rparr>) = held d" "held (d\<lparr>outbox_events := z\<rparr>) = held d"
  by (simp_all add: held_def fun_eq_iff)

lemma outbox_Write_Inr:
  "outbox_Write uuid now og ty p d = Inr d' \<Longrightarrow> d' = d\<lparr>outbox_events := outbox_events d @
     [\<lparr>ev_ID = uuid, ev_OrganizationID = og, ev_EventType = ty, ev_Payload = p, ev_OccurredAt = now, ev_PublishedAt = None\<rparr>]\<rparr>"
  by (auto simp: outbox_Write_def split: if_splits)

lemma published_Write:
  "outbox_Write uuid now og ty p d = Inr d' \<Longrightarrow>
     published d' i \<longleftrightarrow> published d i \<or> ty = ''RunQueued'' \<and> map_of p ''target_id'' = Some i"
  by (auto simp: published_def dest!: outbox_Write_Inr)

lemma Write_frame:
  "outbox_Write uuid now og ty p d = Inr d' \<Longrightarrow>
     runs d' = runs d \<and> workspaces d' = workspaces d \<and> held d' = held d"
  by (auto dest!: outbox_Write_Inr)

text \<open>Only the lock columns of workspaces change, and only of rows that no running run needs.\<close>

lemma gdb_workspaces:
  assumes inv: "runs_inv d"
    and f: "\<And>x. ws_ID (f x) = ws_ID x" "\<And>x. ws_OrganizationID (f x) = ws_OrganizationID x"
    and free: "\<And>x r. p x \<Longrightarrow> r \<in> set (runs d) \<Longrightarrow> \<not> IsTerminal (run_Status r) \<Longrightarrow>
      \<not> (ws_Locked x \<and> ws_LockedByRunID x = Some (run_ID r))"
    and others: "\<And>x u. p x \<Longrightarrow> u \<noteq> t \<Longrightarrow> \<not> published d u \<Longrightarrow> \<not> (ws_Locked x \<and> ws_LockedByRunID x = Some u)"
  shows "gdb t d (d\<lparr>workspaces := upd p f (workspaces d)\<rparr>)"
proof -
  let ?d = "d\<lparr>workspaces := upd p f (workspaces d)\<rparr>"
  have keep: "x \<in> set (workspaces ?d)" if "x \<in> set (workspaces d)" "\<not> p x" for x
    using that by (auto simp: set_upd)
  have "runs_inv ?d"
    unfolding runs_inv_def
  proof (intro conjI ballI impI)
    show "distinct (map run_ID (runs ?d))" "distinct (map ws_ID (workspaces ?d))"
      using inv f(1) by (simp_all add: runs_inv_def map_upd)
    show "published ?d (run_ID r)" if "r \<in> set (runs ?d)" for r using that inv by (simp add: runs_inv_def)
    fix r assume r: "r \<in> set (runs ?d)" "\<not> IsTerminal (run_Status r)"
    with inv obtain x where x: "x \<in> set (workspaces d)" "ws_ID x = run_WorkspaceID r"
      "ws_OrganizationID x = run_OrganizationID r" "ws_Locked x" "ws_LockedByRunID x = Some (run_ID r)"
      by (auto simp: runs_inv_def)
    then have "\<not> p x" using free [of x r] r by auto
    with x keep show "\<exists>x\<in>set (workspaces ?d). ws_ID x = run_WorkspaceID r \<and>
        ws_OrganizationID x = run_OrganizationID r \<and> ws_Locked x \<and> ws_LockedByRunID x = Some (run_ID r)" by blast
  qed
  moreover have "spares u d ?d" if "u \<noteq> t" for u
    unfolding spares_def
  proof (intro impI conjI allI)
    assume u: "\<not> published d u"
    then show "\<not> published ?d u" by simp
    fix og i assume h: "held d u og i"
    show "held ?d u og i" unfolding held_def
    proof (intro ballI impI)
      fix y assume y: "y \<in> set (workspaces ?d)" "ws_ID y = i"
      then have "y \<in> set (upd p f (workspaces d))" by simp
      then show "ws_OrganizationID y = og \<and> ws_Locked y \<and> ws_LockedByRunID y = Some u"
      proof (cases rule: in_set_updE)
        case kept
        with h y show ?thesis by (auto simp: held_def)
      next
        case (changed x)
        with y f(1) have "ws_ID x = i" by simp
        with h changed have "ws_Locked x \<and> ws_LockedByRunID x = Some u" by (auto simp: held_def)
        with others [OF changed(2) that u] show ?thesis by simp
      qed
    qed
  qed
  moreover have "evolve d ?d" by (auto simp: evolve_def)
  ultimately show ?thesis by (simp add: gdb_def)
qed

lemma gdb_try_lock:
  assumes "runs_inv d" "try_lock og i t (workspaces d) = Inr (b, wss)"
  shows "gdb t d (d\<lparr>workspaces := wss\<rparr>) \<and> (b \<longrightarrow> held (d\<lparr>workspaces := wss\<rparr>) t og i)"
proof (cases b)
  case False
  with assms(2) have "wss = workspaces d" by (auto simp: try_lock_def split: sum.splits if_splits)
  with False show ?thesis by simp
next
  case True
  with assms(2) obtain x where x: "List.find (is_ws og i) (workspaces d) = Some x" "\<not> ws_Locked x"
    and wss: "wss = upd (is_ws og i) (\<lambda>x. x\<lparr>ws_Locked := True, ws_LockedByRunID := Some t\<rparr>) (workspaces d)"
    by (auto simp: try_lock_def oneRow_def split: option.splits sum.splits if_splits)
  have inj: "inj_on ws_ID (set (workspaces d))" using assms(1) by (simp add: runs_inv_def distinct_map)
  have only: "y = x" if "y \<in> set (workspaces d)" "ws_ID y = i" for y
    using inj_onD [OF inj _ that(1), of x] that find_SomeD [OF x(1)] by (simp add: is_ws_def)
  have wss': "wss = upd (\<lambda>y. y = x) (\<lambda>x. x\<lparr>ws_Locked := True, ws_LockedByRunID := Some t\<rparr>) (workspaces d)"
  proof -
    have "is_ws og i y = (y = x)" if "y \<in> set (workspaces d)" for y
      using only [OF that] find_SomeD [OF x(1)] by (metis is_ws_def)
    then show ?thesis unfolding wss upd_def by (simp cong: map_cong)
  qed
  have "gdb t d (d\<lparr>workspaces := wss\<rparr>)" unfolding wss' by (rule gdb_workspaces) (use assms(1) x(2) in auto)
  moreover have "held (d\<lparr>workspaces := wss\<rparr>) t og i"
    unfolding held_def
  proof (intro ballI impI)
    fix y assume "y \<in> set (workspaces (d\<lparr>workspaces := wss\<rparr>))" and i: "ws_ID y = i"
    then have "y \<in> set (upd (\<lambda>y. y = x) (\<lambda>x. x\<lparr>ws_Locked := True, ws_LockedByRunID := Some t\<rparr>) (workspaces d))"
      by (simp add: wss')
    then show "ws_OrganizationID y = og \<and> ws_Locked y \<and> ws_LockedByRunID y = Some t"
    proof (cases rule: in_set_updE)
      case kept
      with only i show ?thesis by blast
    next
      case (changed z)
      with find_SomeD [OF x(1)] show ?thesis by (simp add: is_ws_def)
    qed
  qed
  ultimately show ?thesis by simp
qed

lemma gdb_unlock:
  assumes "runs_inv d" "quiet rid d \<or> rid = t \<and> unpub t d"
  shows "gdb t d (d\<lparr>workspaces := unlock og i rid (workspaces d)\<rparr>)"
  unfolding unlock_def
proof (rule gdb_workspaces)
  show "\<not> (ws_Locked x \<and> ws_LockedByRunID x = Some (run_ID r))"
    if "is_ws og i x \<and> ws_LockedByRunID x = Some rid" "r \<in> set (runs d)" "\<not> IsTerminal (run_Status r)" for x r
    using assms that by (auto simp: quiet_def unpub_def runs_inv_def)
  show "\<not> (ws_Locked x \<and> ws_LockedByRunID x = Some u)"
    if "is_ws og i x \<and> ws_LockedByRunID x = Some rid" "u \<noteq> t" "\<not> published d u" for x u
    using assms(2) that by (auto simp: quiet_def)
qed (use assms in auto)

text \<open>A write to runs that only moves them forward, with an event that does not announce a run.\<close>

lemma gdb_runs:
  assumes inv: "runs_inv d"
    and f: "\<And>r. run_ID (f r) = run_ID r" "\<And>r. run_OrganizationID (f r) = run_OrganizationID r"
      "\<And>r. run_WorkspaceID (f r) = run_WorkspaceID r"
    and fwd: "\<And>r. p r \<Longrightarrow> IsTerminal (run_Status r) \<Longrightarrow> IsTerminal (run_Status (f r))"
  shows "gdb t d (d\<lparr>runs := upd p f (runs d)\<rparr>)"
proof -
  let ?d = "d\<lparr>runs := upd p f (runs d)\<rparr>"
  have origin: "\<exists>r \<in> set (runs d). run_ID r = run_ID r' \<and> run_OrganizationID r = run_OrganizationID r' \<and>
      run_WorkspaceID r = run_WorkspaceID r' \<and> (IsTerminal (run_Status r) \<longrightarrow> IsTerminal (run_Status r'))"
    if "r' \<in> set (runs ?d)" for r'
  proof -
    from that have "r' \<in> set (upd p f (runs d))" by simp
    then show ?thesis
    proof (cases rule: in_set_updE)
      case kept
      then show ?thesis by (intro bexI [of _ r']) auto
    next
      case (changed x)
      then show ?thesis using f fwd by (intro bexI [of _ x]) auto
    qed
  qed
  have "runs_inv ?d"
    unfolding runs_inv_def
  proof (intro conjI ballI impI)
    show "distinct (map run_ID (runs ?d))" "distinct (map ws_ID (workspaces ?d))"
      using inv f(1) by (simp_all add: runs_inv_def map_upd)
    fix r' assume r': "r' \<in> set (runs ?d)"
    from origin [OF this] obtain r where r: "r \<in> set (runs d)" "run_ID r = run_ID r'"
      "run_OrganizationID r = run_OrganizationID r'" "run_WorkspaceID r = run_WorkspaceID r'"
      "\<not> IsTerminal (run_Status r') \<Longrightarrow> \<not> IsTerminal (run_Status r)" by blast
    with inv show "published ?d (run_ID r')" by (metis published_frame(1) runs_inv_def)
    assume "\<not> IsTerminal (run_Status r')"
    with r inv obtain x where "x \<in> set (workspaces d)" "ws_ID x = run_WorkspaceID r" "ws_Locked x"
      "ws_OrganizationID x = run_OrganizationID r" "ws_LockedByRunID x = Some (run_ID r)"
      unfolding runs_inv_def by blast
    with r show "\<exists>x\<in>set (workspaces ?d). ws_ID x = run_WorkspaceID r' \<and>
        ws_OrganizationID x = run_OrganizationID r' \<and> ws_Locked x \<and> ws_LockedByRunID x = Some (run_ID r')" by auto
  qed
  moreover have "evolve d ?d" using origin by (fastforce simp: evolve_def)
  ultimately show ?thesis by (simp add: gdb_def spares_def)
qed

text \<open>The guarantee only looks at the runs, the workspaces and what is announced.\<close>

lemma same_view:
  assumes "runs d2 = runs d1" "workspaces d2 = workspaces d1" "published d2 = published d1"
  shows "gdb t d d2 = gdb t d d1" "quiet i d2 = quiet i d1" "known i og d2 = known i og d1"
    "own t og i d2 = own t og i d1" "unpub t d2 = unpub t d1"
  using assms by (simp_all add: gdb_def runs_inv_def evolve_def spares_def held_def quiet_def known_def own_def unpub_def)

lemma and_emit_Inr:
  assumes "and_emit uuid now og ty p a d = Inr (b, d')" "ty \<noteq> ''RunQueued''"
  shows "b = a \<and> runs d' = runs d \<and> workspaces d' = workspaces d \<and> published d' = published d"
proof -
  from assms(1) have w: "outbox_Write uuid now og ty p d = Inr d'" "b = a"
    by (auto simp: and_emit_def split: sum.splits)
  with Write_frame [OF w(1)] published_Write [OF w(1)] assms(2) show ?thesis by (auto simp: fun_eq_iff)
qed

lemma gdb_emit:
  assumes "and_emit uuid now og ty p a d1 = Inr (b, d2)" "ty \<noteq> ''RunQueued''" "gdb t d d1"
  shows "gdb t d d2"
  using and_emit_Inr [OF assms(1,2)] same_view(1) [of d2 d1] assms(3) by simp

lemma gdb_create:
  assumes inv: "runs_inv d" and r: "run_ID r = t" "run_OrganizationID r = og" "run_WorkspaceID r = i"
    and own: "own t og i d" and ws: "list_ex (\<lambda>x. ws_ID x = i) (workspaces d)"
    and fresh: "\<not> list_ex (\<lambda>x. run_ID x = t) (runs d)"
    and emit: "and_emit uuid now og ''RunQueued'' (run_event u t i) () (d\<lparr>runs := runs d @ [r]\<rparr>) = Inr (a, d')"
  shows "gdb t d d'"
proof -
  from emit have w: "outbox_Write uuid now og ''RunQueued'' (run_event u t i) (d\<lparr>runs := runs d @ [r]\<rparr>) = Inr d'"
    by (auto simp: and_emit_def split: sum.splits)
  have pub: "published d' j \<longleftrightarrow> published d j \<or> j = t" for j
    using published_Write [OF w, of j] by (auto simp: run_event_def)
  have frame: "runs d' = runs d @ [r]" "workspaces d' = workspaces d" "held d' = held d"
    using Write_frame [OF w] by simp_all
  obtain x where x: "x \<in> set (workspaces d)" "ws_ID x = i" using ws by (auto simp: list_ex_iff)
  with own have "ws_OrganizationID x = og" "ws_Locked x" "ws_LockedByRunID x = Some t"
    by (auto simp: own_def held_def)
  with x inv fresh r have "runs_inv d'"
    by (auto simp: runs_inv_def frame pub list_ex_iff)
  moreover have "evolve d d'" using own r by (auto simp: evolve_def frame pub own_def)
  ultimately show ?thesis by (simp add: gdb_def spares_def pub frame)
qed

lemma gdb_delete:
  assumes inv: "runs_inv d"
    and frame: "runs d' = del p (runs d)" "workspaces d' = del q (workspaces d)" "published d' = published d"
    and fk: "\<And>r x. r \<in> set (runs d) \<Longrightarrow> \<not> p r \<Longrightarrow> x \<in> set (workspaces d) \<Longrightarrow> ws_ID x = run_WorkspaceID r \<Longrightarrow> \<not> q x"
  shows "gdb t d d'"
proof -
  have "runs_inv d'"
    unfolding runs_inv_def
  proof (intro conjI ballI impI)
    show "distinct (map run_ID (runs d'))" "distinct (map ws_ID (workspaces d'))"
      using inv by (simp_all add: frame runs_inv_def distinct_map_del)
    show "published d' (run_ID r)" if "r \<in> set (runs d')" for r using that inv by (simp add: frame runs_inv_def)
    fix r assume r: "r \<in> set (runs d')" "\<not> IsTerminal (run_Status r)"
    then have r': "r \<in> set (runs d)" "\<not> p r" by (simp_all add: frame)
    with r inv obtain x where x: "x \<in> set (workspaces d)" "ws_ID x = run_WorkspaceID r"
      "ws_OrganizationID x = run_OrganizationID r" "ws_Locked x" "ws_LockedByRunID x = Some (run_ID r)"
      unfolding runs_inv_def by blast
    with fk [OF r' x(1,2)] show "\<exists>x\<in>set (workspaces d'). ws_ID x = run_WorkspaceID r \<and>
        ws_OrganizationID x = run_OrganizationID r \<and> ws_Locked x \<and> ws_LockedByRunID x = Some (run_ID r)"
      by (intro bexI [of _ x]) (simp_all add: frame)
  qed
  moreover have "evolve d d'" by (auto simp: evolve_def frame)
  ultimately show ?thesis by (auto simp: gdb_def spares_def frame held_def)
qed

section \<open>The repository methods\<close>

lemma triple_IsArchived: "stable t P \<Longrightarrow> triple t P (IsArchived og) (\<lambda>_. P)"
  unfolding IsArchived_def by (rule triple_query)

lemma triple_HasPermissionAtScope: "stable t P \<Longrightarrow> triple t P (HasPermissionAtScope ctx og u p pr wk) (\<lambda>_. P)"
  by (auto simp: HasPermissionAtScope_def ScopesFromContext_def intro: triple_query triple_retE)

lemma triple_TryLock:
  "triple t (unpub t) (TryLock og i t) (\<lambda>r d. unpub t d \<and> (r = Inr True \<longrightarrow> own t og i d))"
  unfolding TryLock_def
proof (rule triple_tx)
  fix now d a d' assume d: "runs_inv d" "unpub t d"
    and body: "(case try_lock og i t (workspaces d) of Inl e \<Rightarrow> Inl e
      | Inr (locked, wss) \<Rightarrow> Inr (locked, d\<lparr>workspaces := wss\<rparr>)) = Inr (a, d')"
  then obtain wss where "try_lock og i t (workspaces d) = Inr (a, wss)" "d' = d\<lparr>workspaces := wss\<rparr>"
    by (auto split: sum.splits)
  with d gdb_try_lock [OF d(1), of og i t a wss]
  show "gdb t d d' \<and> unpub t d' \<and> (Inr a = Inr True \<longrightarrow> own t og i d')" by (auto simp: own_def unpub_def)
qed (auto split: sum.splits)

lemma triple_Create:
  assumes "run_ID r = t" "run_OrganizationID r = og" "run_WorkspaceID r = i"
  shows "triple t (own t og i) (RunRepository_Create uuid r) (\<lambda>res d. \<forall>e. res = Inl e \<longrightarrow> own t og i d)"
  unfolding RunRepository_Create_def
  by (rule triple_tx) (use assms in \<open>auto split: sum.splits if_splits intro: gdb_create\<close>)

lemma triple_Unlock_own: "triple t (own t og i) (Unlock og i t) (\<lambda>_ _. True)"
  unfolding Unlock_def by (rule triple_tx) (auto simp: own_def unpub_def intro: gdb_unlock)

lemma triple_Unlock_quiet: "triple t (quiet rid) (Unlock og i rid) (\<lambda>_ _. True)"
  unfolding Unlock_def by (rule triple_tx) (auto intro: gdb_unlock)

lemma triple_GetByID:
  "triple t (\<lambda>_. True) (RunRepository_GetByID og i)
     (\<lambda>res d. \<forall>r. res = Inr r \<longrightarrow> is_run og i r \<and> known (run_ID r) (run_OrganizationID r) d)"
  unfolding RunRepository_GetByID_def query_def
  by (rule triple_tx) (auto split: sum.splits dest!: oneRow_InrD intro: run_known)

lemma triple_Update:
  assumes "IsTerminal (run_Status r)"
  shows "triple t (known (run_ID r) (run_OrganizationID r)) (RunRepository_Update uuid r actor)
    (\<lambda>res d. res = Inr () \<longrightarrow> quiet (run_ID r) d)"
  unfolding RunRepository_Update_def Let_def
proof (rule triple_tx)
  let ?f = "\<lambda>x. x\<lparr>run_Status := run_Status r, run_PlanOutputRef := run_PlanOutputRef r,
    run_ApplyOutputRef := run_ApplyOutputRef r, run_StartedAt := run_StartedAt r, run_FinishedAt := run_FinishedAt r\<rparr>"
  let ?d = "\<lambda>d. d\<lparr>runs := upd (is_run (run_OrganizationID r) (run_ID r)) ?f (runs d)\<rparr>"
  fix now d a d' assume inv: "runs_inv d" and k: "known (run_ID r) (run_OrganizationID r) d"
    and body: "(case update_event (run_Status r) of None \<Rightarrow> Inr ((), ?d d)
      | Some ty \<Rightarrow> and_emit uuid now (run_OrganizationID r) ty (run_event actor (run_ID r) (run_WorkspaceID r)) () (?d d))
      = Inr (a, d')"
  have "gdb t d (?d d)" using inv by (rule gdb_runs) (use assms in auto)
  moreover have "quiet (run_ID r) (?d d)"
    using k assms by (auto simp: quiet_def known_def is_run_def elim!: in_set_updE)
  moreover have "runs d' = runs (?d d) \<and> workspaces d' = workspaces (?d d) \<and> published d' = published (?d d)"
    using body by (auto simp: update_event_def dest!: and_emit_Inr split: RunStatus.splits)
  ultimately show "gdb t d d' \<and> (Inr a = Inr () \<longrightarrow> quiet (run_ID r) d')"
    using same_view [of d' "?d d"] by simp
qed auto

lemma triple_TryStartApplying: "triple t (\<lambda>_. True) (TryStartApplying uuid og i k) (\<lambda>_ _. True)"
  unfolding TryStartApplying_def Let_def
  by (rule triple_tx) (auto split: if_splits simp: IsTerminal_def elim!: gdb_emit intro!: gdb_runs)

lemma triple_RevertToQueued: "triple t (\<lambda>_. True) (RevertToQueued og i) (\<lambda>_ _. True)"
  unfolding RevertToQueued_def by (rule triple_tx) (auto simp: IsTerminal_def intro!: gdb_runs)

lemma triple_MarkErrored:
  "triple t (\<lambda>_. True) (MarkErroredIfStillApplying uuid og i) (\<lambda>res d. res = Inr True \<longrightarrow> quiet i d)"
  unfolding MarkErroredIfStillApplying_def Let_def
proof (rule triple_tx)
  let ?p = "\<lambda>r. is_run og i r \<and> run_Status r = RunStatusApplying"
  let ?d = "\<lambda>now d. d\<lparr>runs := upd ?p (\<lambda>r. r\<lparr>run_Status := RunStatusErrored, run_FinishedAt := Some now\<rparr>) (runs d)\<rparr>"
  let ?pl = "[(''actor'', ''system''), (''target_type'', ''run''), (''target_id'', i),
        (''reason'', ''stale run reaper: no completion reported before timeout'')]"
  fix now d a d' assume inv: "runs_inv d"
    and body: "(if \<not> list_ex ?p (runs d) then Inr (False, d)
      else and_emit uuid now og ''RunErrored'' ?pl True (?d now d)) = Inr (a, d')"
  show "gdb t d d' \<and> (Inr a = Inr True \<longrightarrow> quiet i d')"
  proof (cases "list_ex ?p (runs d)")
    case False
    with body show ?thesis by simp
  next
    case True
    then obtain r where r: "r \<in> set (runs d)" "is_run og i r" "run_Status r = RunStatusApplying"
      by (auto simp: list_ex_iff)
    have inj: "inj_on run_ID (set (runs d))" using inv by (simp add: runs_inv_def distinct_map)
    have "gdb t d (?d now d)" using inv by (rule gdb_runs) (auto simp: IsTerminal_def)
    moreover have "quiet i (?d now d)" unfolding quiet_def
    proof (intro conjI ballI impI)
      show "published (?d now d) i" using inv r by (auto simp: runs_inv_def is_run_def)
      fix y assume "y \<in> set (runs (?d now d))" and i: "run_ID y = i"
      then have "y \<in> set (upd ?p (\<lambda>r. r\<lparr>run_Status := RunStatusErrored, run_FinishedAt := Some now\<rparr>) (runs d))" by simp
      then show "IsTerminal (run_Status y)"
      proof (cases rule: in_set_updE)
        case kept
        then have "y = r" using inj_onD [OF inj, of y r] r i by (simp add: is_run_def)
        with kept r show ?thesis by simp
      qed (auto simp: IsTerminal_def)
    qed
    moreover have "runs d' = runs (?d now d) \<and> workspaces d' = workspaces (?d now d) \<and> published d' = published (?d now d)"
      using body True by (auto dest!: and_emit_Inr)
    ultimately show ?thesis using same_view [of d' "?d now d"] by simp
  qed
qed auto

section \<open>The handlers\<close>

lemma triple_seq:
  assumes "triple t P m (\<lambda>_. P)" "\<And>a. triple t P (k a) (\<lambda>_ _. True)"
  shows "triple t P (bindE m k) (\<lambda>_ _. True)"
  using assms by (intro triple_bindE [where R = "\<lambda>_. P"]) auto

lemma triple_seq_True: "triple t (\<lambda>_. True) m (\<lambda>_ _. True) \<Longrightarrow> (\<And>a. triple t (\<lambda>_. True) (k a) (\<lambda>_ _. True))
    \<Longrightarrow> triple t (\<lambda>_. True) (bindE m k) (\<lambda>_ _. True)"
  by (rule triple_seq)

lemma triple_guard_True: "stable t P \<Longrightarrow> (b \<Longrightarrow> triple t P k (\<lambda>_ _. True)) \<Longrightarrow> triple t P (guardE b e k) (\<lambda>_ _. True)"
  by (rule triple_guardE) auto

lemma triple_lift: "stable t P \<Longrightarrow> triple t P (liftE r) (\<lambda>_. P)"
  by (simp add: liftE_def triple_Done)

lemma triple_lift_seq:
  "stable t P \<Longrightarrow> (\<And>a. r = Inr a \<Longrightarrow> triple t P (k a) (\<lambda>_ _. True)) \<Longrightarrow> triple t P (bindE (liftE r) k) (\<lambda>_ _. True)"
proof (cases r)
  case (Inl e)
  have "bindE (liftE (Inl e)) k = throwE e" by (simp add: bindE_def liftE_def throwE_def)
  moreover assume "stable t P"
  ultimately show ?thesis using Inl by (simp add: triple_throwE)
next
  case (Inr a)
  have "bindE (liftE (Inr a)) k = k a" by (simp add: bindE_def liftE_def)
  moreover assume "\<And>a. r = Inr a \<Longrightarrow> triple t P (k a) (\<lambda>_ _. True)"
  ultimately show ?thesis using Inr by simp
qed

lemma triple_any_post: "triple t P m Q \<Longrightarrow> triple t P m (\<lambda>_ _. True)"
  by (rule triple_post) auto

lemma NewRun_Inr: "NewRun uuid now og i usr = Inr r \<Longrightarrow> run_ID r = uuid \<and> run_OrganizationID r = og \<and> run_WorkspaceID r = i"
  by (auto simp: NewRun_def split: if_splits)

lemma triple_TriggerRun:
  assumes "u 0 = t"
  shows "triple t (unpub t) (TriggerRun_Execute u ctx og pr i usr) (\<lambda>_ _. True)"
proof -
  have lock: "triple t (unpub t) (bindE (TryLock og i (run_ID r)) (\<lambda>locked. guardE locked ErrWorkspaceLocked (
      bindE (tryE (RunRepository_Create (u 1) r)) (\<lambda>created. case created of
        Inl e \<Rightarrow> bindE (tryE (Unlock og i (run_ID r))) (\<lambda>_. throwE e) | Inr _ \<Rightarrow> retE r)))) (\<lambda>_ _. True)"
    if r: "run_ID r = t" "run_OrganizationID r = og" "run_WorkspaceID r = i" for r
  proof (rule triple_bindE)
    show "triple t (unpub t) (TryLock og i (run_ID r)) (\<lambda>r d. unpub t d \<and> (r = Inr True \<longrightarrow> own t og i d))"
      unfolding r by (rule triple_TryLock)
    fix locked
    have "triple t (own t og i) (bindE (tryE (RunRepository_Create (u 1) r)) (\<lambda>created. case created of
        Inl e \<Rightarrow> bindE (tryE (Unlock og i (run_ID r))) (\<lambda>_. throwE e) | Inr _ \<Rightarrow> retE r)) (\<lambda>_ _. True)"
    proof (rule triple_bindE)
      show "triple t (own t og i) (tryE (RunRepository_Create (u 1) r))
          (\<lambda>res d. \<forall>c. res = Inr c \<longrightarrow> (\<forall>e. c = Inl e \<longrightarrow> own t og i d))"
        by (rule triple_tryE [OF triple_Create]) (use r in auto)
      fix c :: "err + unit"
      show "triple t (\<lambda>d. \<forall>c'. Inr c = Inr c' \<longrightarrow> (\<forall>e. c' = Inl e \<longrightarrow> own t og i d)) (case c of
        Inl e \<Rightarrow> bindE (tryE (Unlock og i (run_ID r))) (\<lambda>_. throwE e) | Inr _ \<Rightarrow> retE r) (\<lambda>_ _. True)"
      proof (cases c)
        case (Inl e)
        have "triple t (own t og i) (bindE (tryE (Unlock og i t)) (\<lambda>_. throwE e)) (\<lambda>_ _. True)"
          by (rule triple_bindE [where R = "\<lambda>_ _. True"], rule triple_tryE [OF triple_Unlock_own])
            (auto intro: triple_throwE)
        then show ?thesis unfolding Inl r sum.case by (rule triple_pre) auto
      qed (auto intro: triple_retE)
    qed auto
    then show "triple t (\<lambda>d. unpub t d \<and> (Inr locked = Inr True \<longrightarrow> own t og i d)) (guardE locked ErrWorkspaceLocked (
        bindE (tryE (RunRepository_Create (u 1) r)) (\<lambda>created. case created of
        Inl e \<Rightarrow> bindE (tryE (Unlock og i (run_ID r))) (\<lambda>_. throwE e) | Inr _ \<Rightarrow> retE r))) (\<lambda>_ _. True)"
      by (intro triple_guard_True) (auto elim: triple_pre)
  qed auto
  show ?thesis unfolding TriggerRun_Execute_def
    by (intro triple_seq triple_guard_True triple_lift_seq lock triple_HasPermissionAtScope triple_IsArchived
        triple_nowE stable_assertions)
      (use assms in \<open>auto simp: WorkspaceExists_def dest: NewRun_Inr intro: triple_query\<close>)
qed

lemma triple_local: "triple t (\<lambda>_. True) (local_step inst f) (\<lambda>_ _. True)"
  by (rule triple_local_step) simp

lemma triple_redis: "triple t (\<lambda>_. True) (redis_step f) (\<lambda>_ _. True)"
  by (rule triple_redis_step) simp

lemma triple_try_True: "triple t P m (\<lambda>_ _. True) \<Longrightarrow> triple t P (tryE m) (\<lambda>_ _. True)"
  by (rule triple_tryE) auto

lemma triple_logged: "triple t (\<lambda>_. True) m (\<lambda>_ _. True) \<Longrightarrow> triple t (\<lambda>_. True) (logged m) (\<lambda>_ _. True)"
  unfolding logged_def by (intro triple_seq_True triple_try_True triple_retE) auto

lemmas redis_defs = redis_get_worker_def redis_set_worker_def redis_del_worker_def redis_set_instance_def
  redis_del_instance_def redis_get_instance_def redis_expire_instance_def redis_publish_def

lemma triple_Registry_CancelJob: "triple t (\<lambda>_. True) (Registry_CancelJob inst i) (\<lambda>_ _. True)"
  unfolding Registry_CancelJob_def Registry_cancelLocal_def redis_defs
  by (auto intro!: triple_seq_True triple_local triple_redis triple_logged triple_retE split: option.split prod.split)

lemma triple_Registry_Forget: "triple t (\<lambda>_. True) (Registry_Forget inst i) (\<lambda>_ _. True)"
  unfolding Registry_Forget_def redis_defs by (intro triple_seq_True triple_local triple_redis triple_logged)

lemma triple_Registry_Forget_keep: "stable t P \<Longrightarrow> triple t P (Registry_Forget inst i) (\<lambda>_. P)"
  unfolding Registry_Forget_def redis_defs logged_def
  by (intro triple_bindE [where R = "\<lambda>_. P"] triple_local_step triple_tryE [where R = "\<lambda>_. P"] triple_redis_step
      triple_retE) auto

lemma triple_Registry_Dispatch: "triple t (\<lambda>_. True) (Registry_Dispatch order inst job) (\<lambda>_ _. True)"
  unfolding Registry_Dispatch_def redis_defs
  by (auto intro!: triple_seq_True triple_local triple_redis triple_logged triple_retE split: option.split)

text \<open>To end a run: write a terminal status, then release the lock that the run holds.\<close>

lemma triple_finish:
  assumes "IsTerminal (run_Status r)"
    and "\<And>a. triple t (quiet (run_ID r)) (k a) (\<lambda>_ _. True)"
  shows "triple t (known (run_ID r) (run_OrganizationID r)) (bindE (RunRepository_Update uuid r actor) k) (\<lambda>_ _. True)"
  by (rule triple_bindE [OF triple_Update]) (use assms in auto)

lemma triple_read_run:
  assumes "\<And>r. is_run og i r \<Longrightarrow> triple t (known (run_ID r) (run_OrganizationID r)) (k r) (\<lambda>_ _. True)"
  shows "triple t (\<lambda>_. True) (bindE (RunRepository_GetByID og i) k) (\<lambda>_ _. True)"
proof (rule triple_bindE [OF triple_GetByID])
  fix r
  show "triple t (\<lambda>d. \<forall>r'. Inr r = Inr r' \<longrightarrow> is_run og i r' \<and> known (run_ID r') (run_OrganizationID r') d) (k r) (\<lambda>_ _. True)"
  proof (cases "is_run og i r")
    case True
    from assms [OF this] show ?thesis by (rule triple_pre) auto
  qed (simp add: triple_def)
qed auto

lemma triple_CancelRun: "triple t (\<lambda>_. True) (CancelRun_Execute uuid inst ctx og pr i rid usr) (\<lambda>_ _. True)"
  unfolding CancelRun_Execute_def
proof (rule triple_seq_True [OF triple_HasPermissionAtScope [OF stable_True]], rule triple_guard_True,
    rule stable_True, rule triple_read_run)
  fix r assume "is_run og rid r"
  have "triple t (known (run_ID r) (run_OrganizationID r)) (bindE (RunRepository_Update uuid r' usr) (\<lambda>_.
      bindE (Unlock og i (run_ID r')) (\<lambda>_. bindE (tryE (Registry_CancelJob inst (run_ID r'))) (\<lambda>_. retE r')))) (\<lambda>_ _. True)"
    if "Run_Cancel now r = Inr r'" for now r'
  proof -
    from that have r': "run_ID r = run_ID r'" "run_OrganizationID r = run_OrganizationID r'" "IsTerminal (run_Status r')"
      by (auto simp: Run_Cancel_def IsTerminal_def split: if_splits)
    show ?thesis unfolding r'(1,2)
      by (rule triple_finish [OF r'(3)], rule triple_bindE [OF triple_Unlock_quiet])
        (auto intro!: triple_seq_True triple_try_True triple_Registry_CancelJob triple_retE)
  qed
  then show "triple t (known (run_ID r) (run_OrganizationID r)) (guardE (run_WorkspaceID r = i) ErrRunNotFound (bindE nowE (\<lambda>now.
      bindE (liftE (Run_Cancel now r)) (\<lambda>r'. bindE (RunRepository_Update uuid r' usr) (\<lambda>_.
      bindE (Unlock og i (run_ID r')) (\<lambda>_. bindE (tryE (Registry_CancelJob inst (run_ID r'))) (\<lambda>_. retE r'))))))) (\<lambda>_ _. True)"
    by (auto intro!: triple_guard_True triple_seq [OF triple_nowE] triple_lift_seq)
qed

lemma triple_HandleReport:
  "triple t (\<lambda>_. True) (WorkerReport_HandleReport uuid inst og rid i st l e) (\<lambda>_ _. True)"
  unfolding WorkerReport_HandleReport_def Let_def
proof (rule triple_read_run)
  fix r assume "is_run og rid r"
  let ?K = "known (run_ID r) (run_OrganizationID r)"
  have finish: "triple t ?K (bindE (RunRepository_Update uuid r2 ''system'') (\<lambda>_.
      bindE (Registry_Forget inst (run_ID r1)) (\<lambda>_. Unlock og i (run_ID r1)))) (\<lambda>_ _. True)"
    if "reported_transition st now r = Inr r1" "r2 = (if b then r1\<lparr>run_ApplyOutputRef := out\<rparr> else r1)" for now r1 r2 b out
  proof -
    from that have r2: "run_ID r = run_ID r2" "run_OrganizationID r = run_OrganizationID r2" "IsTerminal (run_Status r2)"
      and r1: "run_ID r1 = run_ID r2"
      by (auto simp: reported_transition_def Run_MarkApplied_def Run_MarkFailed_def IsTerminal_def split: if_splits)
    show ?thesis unfolding r2(1,2) r1
      by (rule triple_finish [OF r2(3)], rule triple_seq [OF triple_Registry_Forget_keep triple_Unlock_quiet]) simp
  qed
  show "triple t ?K (bindE nowE (\<lambda>now. case reported_transition st now r of
      Inl e \<Rightarrow> if e = ErrInvalidTransition then retE () else throwE e
    | Inr r1 \<Rightarrow> bindE (RunRepository_Update uuid (if report_output l e \<noteq> [] then r1\<lparr>run_ApplyOutputRef := Some (report_output l e)\<rparr> else r1) ''system'') (\<lambda>_.
        bindE (Registry_Forget inst (run_ID (if report_output l e \<noteq> [] then r1\<lparr>run_ApplyOutputRef := Some (report_output l e)\<rparr> else r1))) (\<lambda>_.
        Unlock og i (run_ID (if report_output l e \<noteq> [] then r1\<lparr>run_ApplyOutputRef := Some (report_output l e)\<rparr> else r1)))))) (\<lambda>_ _. True)"
    by (rule triple_seq [OF triple_nowE])
      (auto split: sum.split intro: triple_retE triple_throwE finish [where b = "report_output l e \<noteq> []" and out = "Some (report_output l e)"])
qed

end
