(* ===== verification/Run_Pool.thy ===== *)
theory Run_Pool
  imports Run_Safety
begin

text \<open>
  The programs that touch runs, all of them at once: the judgements of the dispatcher, the
  reaper and the deletions, the pool of requests of all replicas, and what holds in every
  state it can reach.
\<close>

section \<open>Programs that keep every assertion\<close>

definition keeps :: "'a io \<Rightarrow> bool" where
  "keeps m = (\<forall>t P. stable t P \<longrightarrow> triple t P m (\<lambda>_. P))"

lemma keepsD: "keeps m \<Longrightarrow> stable t P \<Longrightarrow> triple t P m (\<lambda>_. P)"
  by (simp add: keeps_def)

lemma keeps_query [intro!]: "keeps (query q)"
  by (simp add: keeps_def triple_query)

lemma keeps_pure [intro!]: "keeps (retE a)" "keeps (throwE e)" "keeps (liftE r)" "keeps nowE"
  by (simp_all add: keeps_def triple_retE triple_throwE triple_lift triple_nowE)

lemma keeps_bindE [intro]: "keeps m \<Longrightarrow> (\<And>a. keeps (k a)) \<Longrightarrow> keeps (bindE m k)"
  unfolding keeps_def by (intro allI impI, rule triple_bindE [where R = "\<lambda>_. P" for P]) auto

lemma keeps_guardE [intro]: "keeps k \<Longrightarrow> keeps (guardE b e k)"
  by (auto simp: guardE_def)

lemma keeps_tryE [intro]: "keeps m \<Longrightarrow> keeps (tryE m)"
  unfolding keeps_def by (intro allI impI, rule triple_tryE [where R = "\<lambda>_. P" for P]) auto

lemma keeps_vault_call [intro!]: "keeps (vault_call srv rq)"
  unfolding vault_call_def keeps_def by (intro allI impI triple_keep) auto

lemma keeps_HasPermissionAtScope [intro!]: "keeps (HasPermissionAtScope ctx og u p pr wk)"
  by (simp add: keeps_def triple_HasPermissionAtScope)

lemma keeps_IsMember [intro!]: "keeps (IsMember og u)"
  by (auto simp: IsMember_def)

lemma keeps_Vault_ReadSecret [intro!]: "keeps (Vault_ReadSecret srv a r s p)"
  unfolding Vault_ReadSecret_def Vault_login_def
  by (auto intro!: keeps_bindE split: option.split)

lemma keeps_ResolveSecret [intro!]: "keeps (ResolveSecret_ResolveValue cr key srv og m p)"
  unfolding ResolveSecret_ResolveValue_def SecretMountRepository_GetByID_def
  by (auto intro!: keeps_bindE split: if_split)

lemma keeps_tryScope: "(\<And>og m p. keeps (rs og m p)) \<Longrightarrow> keeps (tryScope rs og ty i k)"
  unfolding tryScope_def GetByScope_def by (auto intro!: keeps_bindE keeps_tryE split: sum.split option.split)

lemma keeps_ResolveVariable: "(\<And>og m p. keeps (rs og m p)) \<Longrightarrow> keeps (ResolveVariable_Execute rs og wk k usr)"
  unfolding ResolveVariable_Execute_def WorkspaceRepository_Exists_def GetScope_def
  by (auto intro!: keeps_bindE keeps_guardE keeps_tryScope split: option.split prod.split)

lemma keeps_ResolveValue: "(\<And>og m p. keeps (rs og m p)) \<Longrightarrow> keeps (ResolveValue rs og wk k usr)"
  unfolding ResolveValue_def by (auto intro!: keeps_bindE keeps_tryE keeps_ResolveVariable split: sum.split)

lemma triple_keeps_seq:
  "keeps m \<Longrightarrow> stable t P \<Longrightarrow> (\<And>a. triple t P (k a) (\<lambda>_ _. True)) \<Longrightarrow> triple t P (bindE m k) (\<lambda>_ _. True)"
  by (rule triple_seq) (auto intro: keepsD)

section \<open>Dispatch\<close>

lemma triple_fail:
  "triple t (known (run_ID r) (run_OrganizationID r)) (RunDispatch_fail uuid r i) (\<lambda>_ _. True)"
proof -
  have "triple t (known (run_ID r) (run_OrganizationID r)) (bindE (RunRepository_Update uuid r' ''system'') (\<lambda>_.
      Unlock (run_OrganizationID r') i (run_ID r'))) (\<lambda>_ _. True)" if "Run_MarkFailed now r = Inr r'" for now r'
  proof -
    from that have r': "run_ID r = run_ID r'" "run_OrganizationID r = run_OrganizationID r'" "IsTerminal (run_Status r')"
      by (auto simp: Run_MarkFailed_def IsTerminal_def split: if_splits)
    show ?thesis unfolding r'(1,2) by (rule triple_finish [OF r'(3) triple_Unlock_quiet])
  qed
  then show ?thesis unfolding RunDispatch_fail_def
    by (auto intro!: triple_keeps_seq [of nowE] triple_lift_seq)
qed

lemma triple_send: "triple t (\<lambda>_. True) (RunDispatch_send order inst job) (\<lambda>_ _. True)"
  unfolding RunDispatch_send_def
  by (auto intro!: triple_seq_True triple_Registry_Dispatch triple_retE triple_RevertToQueued triple_throwE)

lemma triple_HandleEvent:
  assumes rs: "\<And>og m p. keeps (rs og m p)"
  shows "triple t (\<lambda>_. True) (RunDispatch_HandleEvent rs order u inst ev) (\<lambda>_ _. True)"
proof -
  have send: "triple t (known i og) (RunDispatch_send order inst job) (\<lambda>_ _. True)" for i og job
    using triple_send by (rule triple_pre) simp
  show ?thesis unfolding RunDispatch_HandleEvent_def Let_def GetExecutionEngine_def
    by (auto intro!: triple_retE triple_seq_True [OF triple_TryStartApplying] triple_read_run
        triple_keeps_seq [OF keeps_query] triple_keeps_seq [OF keeps_ResolveValue [OF rs]]
        triple_keeps_seq [of "retE x" for x] triple_fail send split: option.split)
qed

section \<open>The reaper\<close>

lemma triple_reapCandidate: "triple t (\<lambda>_. True) (reapCandidate uuid inst c) (\<lambda>_ _. True)"
  unfolding reapCandidate_def
proof (rule triple_bindE [where R = "\<lambda>res d. res = Inr (Inr True) \<longrightarrow> quiet (src_RunID c) d"])
  show "triple t (\<lambda>_. True) (tryE (MarkErroredIfStillApplying uuid (src_OrganizationID c) (src_RunID c)))
      (\<lambda>res d. res = Inr (Inr True) \<longrightarrow> quiet (src_RunID c) d)"
    by (rule triple_tryE [OF triple_MarkErrored]) auto
  fix a :: "err + bool"
  let ?k = "bindE (tryE (Unlock (src_OrganizationID c) (src_WorkspaceID c) (src_RunID c))) (\<lambda>unlocked.
         case unlocked of Inl _ \<Rightarrow> retE () | Inr _ \<Rightarrow> Registry_Forget inst (src_RunID c))"
  have "triple t (quiet (src_RunID c)) ?k (\<lambda>_ _. True)"
    by (rule triple_bindE [where R = "\<lambda>_ _. True", OF triple_try_True [OF triple_Unlock_quiet]])
      (auto intro: triple_retE triple_Registry_Forget split: sum.split)
  then show "triple t (\<lambda>d. Inr a = Inr (Inr True) \<longrightarrow> quiet (src_RunID c) d)
      (case a of Inr True \<Rightarrow> ?k | _ \<Rightarrow> retE ()) (\<lambda>_ _. True)"
    by (auto intro: triple_retE elim: triple_pre split: sum.split bool.split)
qed auto

lemma triple_forE:
  "(\<And>x. triple t (\<lambda>_. True) (body x) (\<lambda>_ _. True)) \<Longrightarrow> triple t (\<lambda>_. True) (forE xs body) (\<lambda>_ _. True)"
  by (induction xs) (auto intro: triple_retE triple_seq_True)

lemma triple_reapOnce: "triple t (\<lambda>_. True) (StaleRunReaper_reapOnce u inst s) (\<lambda>_ _. True)"
  unfolding StaleRunReaper_reapOnce_def FindStaleApplyingRuns_def
  by (auto intro!: triple_keeps_seq triple_forE triple_reapCandidate split: prod.split)

section \<open>Deletions\<close>

lemma triple_WorkspacePurge: "triple t (\<lambda>_. True) (WorkspaceRepository_Purge og i) (\<lambda>_ _. True)"
  unfolding WorkspaceRepository_Purge_def
proof (rule triple_tx)
  fix now d a d' assume inv: "runs_inv d"
    and body: "(case WorkspaceRepository_Purge_body og i d of Inl e \<Rightarrow> Inl e | Inr d' \<Rightarrow> Inr ((), d')) = Inr (a, d')"
  show "gdb t d d' \<and> True"
    by (rule conjI, rule gdb_delete [OF inv, where q = "is_ws og i"
          and p = "\<lambda>r. run_OrganizationID r = og \<and> run_WorkspaceID r = i"])
      (use body in \<open>auto simp: WorkspaceRepository_Purge_body_def Let_def list_ex_iff is_ws_def published_def
        split: if_splits\<close>)
qed auto

lemma triple_ProjectPurge: "triple t (\<lambda>_. True) (ProjectRepository_Purge og i) (\<lambda>_ _. True)"
  unfolding ProjectRepository_Purge_def
proof (rule triple_tx)
  fix now d a d' assume inv: "runs_inv d"
    and body: "(case ProjectRepository_Purge_body og i d of Inl e \<Rightarrow> Inl e | Inr d' \<Rightarrow> Inr ((), d')) = Inr (a, d')"
  let ?ids = "set (workspaces_of_project d og i)"
  let ?p = "\<lambda>r. run_OrganizationID r = og \<and> run_WorkspaceID r \<in> ?ids"
  from body have frame: "runs d' = del ?p (runs d)" "published d' = published d"
    "workspaces d' = del (\<lambda>x. ws_OrganizationID x = og \<and> ws_ProjectID x = i) (workspaces d)"
    and fk: "\<not> list_ex (\<lambda>r. run_WorkspaceID r \<in> ?ids) (del ?p (runs d))"
    by (auto simp: ProjectRepository_Purge_body_def Let_def published_def fun_eq_iff split: if_splits)
  show "gdb t d d' \<and> True"
  proof (rule conjI, rule gdb_delete [OF inv frame(1) frame(3) frame(2)])
    fix r x assume r: "r \<in> set (runs d)" "\<not> ?p r" "x \<in> set (workspaces d)" "ws_ID x = run_WorkspaceID r"
    with fk have "run_WorkspaceID r \<notin> ?ids" by (auto simp: list_ex_iff)
    with r show "\<not> (ws_OrganizationID x = og \<and> ws_ProjectID x = i)" by (force simp: workspaces_of_project_def)
  qed simp
qed auto

lemma triple_DeleteWorkspace: "triple t (\<lambda>_. True) (DeleteWorkspace_Execute ctx og pr i usr) (\<lambda>_ _. True)"
  unfolding DeleteWorkspace_Execute_def ProjectExists_def WorkspaceRepository_GetByID_def
  by (auto intro!: triple_keeps_seq triple_guard_True triple_WorkspacePurge)

lemma triple_DeleteProject: "triple t (\<lambda>_. True) (DeleteProject_Execute ctx og pr usr) (\<lambda>_ _. True)"
  unfolding DeleteProject_Execute_def HasPermission_def ProjectRepository_GetByID_def
  by (auto intro!: triple_keeps_seq triple_guard_True triple_ProjectPurge)

section \<open>The pool\<close>

text \<open>
  What can run at the same time, in any number and on any replica: the requests of users, the
  deliveries of outbox events to the dispatcher (any event, at any time, more than once), the
  reports of Workers (any report, of any run), the sweeps of the reaper, and the requests that
  delete workspaces and projects.
\<close>

datatype job =
    JTrigger "nat \<Rightarrow> id" "string list" id id id id
  | JCancel id string "string list" id id id id id
  | JDispatch "Registry \<Rightarrow> id list" "nat \<Rightarrow> id" string Event
  | JReport id string id id id string string string
  | JReap "nat \<Rightarrow> id" string time
  | JDeleteWorkspace "string list" id id id id
  | JDeleteProject "string list" id id id

fun program :: "crypto \<Rightarrow> string \<Rightarrow> vault_server \<Rightarrow> job \<Rightarrow> unit io" where
  "program cr key srv (JTrigger u ctx og pr i usr) = void (TriggerRun_Execute u ctx og pr i usr)"
| "program cr key srv (JCancel uuid inst ctx og pr i rid usr) = void (CancelRun_Execute uuid inst ctx og pr i rid usr)"
| "program cr key srv (JDispatch order u inst ev) =
     RunDispatch_HandleEvent (ResolveSecret_ResolveValue cr key srv) order u inst ev"
| "program cr key srv (JReport uuid inst og rid i st l e) = WorkerReport_HandleReport uuid inst og rid i st l e"
| "program cr key srv (JReap u inst s) = StaleRunReaper_reapOnce u inst s"
| "program cr key srv (JDeleteWorkspace ctx og pr i usr) = DeleteWorkspace_Execute ctx og pr i usr"
| "program cr key srv (JDeleteProject ctx og pr usr) = DeleteProject_Execute ctx og pr usr"

text \<open>
  Every program in the pool has a name of its own. The name of a trigger is the id it generates
  for its run, which is new: \<^verbatim>\<open>uuid.NewString()\<close> does not return a value twice.
\<close>

definition fresh_name :: "id \<Rightarrow> job \<Rightarrow> db \<Rightarrow> bool" where
  "fresh_name t j d = (case j of JTrigger u _ _ _ _ _ \<Rightarrow> u 0 = t \<and> \<not> published d t | _ \<Rightarrow> True)"

definition spawnable :: "crypto \<Rightarrow> string \<Rightarrow> vault_server \<Rightarrow> id \<Rightarrow> unit io \<Rightarrow> id set \<Rightarrow> world \<Rightarrow> bool" where
  "spawnable cr key srv t m T w = (t \<notin> T \<and> (\<exists>j. m = program cr key srv j \<and> fresh_name t j (db w)))"

text \<open>The clock, the faults, Redis, the registries and Vault may change in any way; the data only by programs.\<close>

definition environment :: "world \<Rightarrow> world \<Rightarrow> bool" where
  "environment w w' = (db w' = db w)"

lemma triple_void: "triple t P m (\<lambda>_ _. True) \<Longrightarrow> triple t P (void m) (\<lambda>_ _. True)"
  unfolding void_def by (rule triple_bindE) (auto intro: triple_retE)

lemma triple_program:
  assumes "fresh_name t j d"
  shows "\<exists>P. P d \<and> triple t P (program cr key srv j) (\<lambda>_ _. True)"
proof (cases j)
  case (JTrigger u ctx og pr i usr)
  with assms show ?thesis
    by (intro exI [of _ "unpub t"]) (simp add: fresh_name_def unpub_def triple_void triple_TriggerRun)
qed (auto intro!: exI [of _ "\<lambda>_. True"] triple_void triple_CancelRun triple_HandleEvent triple_HandleReport
    triple_reapOnce triple_DeleteWorkspace triple_DeleteProject)

lemma spawn_ok:
  assumes "spawnable cr key srv t m T w" "runs_inv (db w)"
  shows "t \<notin> T \<and> rgs (rely t) (guar t) m (\<lambda>_ _. True) w"
proof -
  from assms(1) obtain j where j: "t \<notin> T" "m = program cr key srv j" "fresh_name t j (db w)"
    by (auto simp: spawnable_def)
  from triple_program [OF j(3)] obtain P where "P (db w)" "triple t P m (\<lambda>_ _. True)" unfolding j(2) by blast
  with assms(2) have "rgs (rely t) (guar t) m (\<lambda>r w. runs_inv (db w) \<and> True) w" by (simp add: triple_def)
  with j(1) show ?thesis by (auto elim: rgs_mono)
qed

lemma env_ok: "environment w w' \<Longrightarrow> runs_inv (db w) \<Longrightarrow> runs_inv (db w')" "environment w w' \<Longrightarrow> rely t w w'"
  by (simp_all add: environment_def rely_def)

lemma pool_runs_inv:
  assumes "pool_reach (spawnable cr key srv) environment w0 s" "runs_inv (db w0)"
  shows "runs_inv (db (snd s))"
proof -
  have "runs_inv (db (snd s)) \<and> distinct (map fst (fst s)) \<and>
      (\<forall>(t, r) \<in> set (fst s). rgs (rely t) (guar t) r (\<lambda>_ _. True) (snd s))"
    by (rule rg.pool_invariant [OF assms(1,2)]) (auto dest: spawn_ok env_ok)
  then show ?thesis by simp
qed

lemma pool_evolves:
  assumes "pool_reach (spawnable cr key srv) environment w0 s" "runs_inv (db w0)"
    and "pool_step (spawnable cr key srv) environment s s'"
  shows "evolve (db (snd s)) (db (snd s'))"
proof -
  have "snd s' = snd s \<or> environment (snd s) (snd s') \<or> (\<exists>t. guar t (snd s) (snd s'))"
    by (rule rg.pool_step_guarantee [OF assms(1,3,2)]) (auto dest: spawn_ok env_ok)
  then show ?thesis by (auto simp: environment_def guar_def gdb_def)
qed

lemma pool_evolves_star:
  assumes "(pool_step (spawnable cr key srv) environment)\<^sup>*\<^sup>* s s'"
    and "pool_reach (spawnable cr key srv) environment w0 s" "runs_inv (db w0)"
  shows "evolve (db (snd s)) (db (snd s')) \<and> pool_reach (spawnable cr key srv) environment w0 s'"
  using assms
proof induction
  case base
  then show ?case by simp
next
  case (step y z)
  then have "pool_reach (spawnable cr key srv) environment w0 y" by simp
  with step pool_evolves [OF this step.prems(2) step.hyps(2)] show ?case
    by (auto intro: evolve_trans reach_step)
qed

text \<open>
  C1: Mutual exclusion of runs under any interleaving. Start from any database in which the runs
  that are not terminal hold their workspaces' locks, for instance one without runs, and let
  any number of triggers, cancellations, dispatches, Worker reports, reaper sweeps and deletions
  run on any number of replicas, transaction by transaction, with any of them failing or dying
  at any point. In every state that can be reached, a workspace has at most one run that is not
  terminal, and such a run holds the lock of its workspace.
\<close>

theorem one_active_run_per_workspace:
  assumes "pool_reach (spawnable cr key srv) environment w0 (ts, w)" and "runs_inv (db w0)"
    and "r \<in> set (runs (db w))" and "\<not> IsTerminal (run_Status r)"
  shows "(\<exists>x \<in> set (workspaces (db w)). ws_ID x = run_WorkspaceID r \<and> ws_OrganizationID x = run_OrganizationID r
            \<and> ws_Locked x \<and> ws_LockedByRunID x = Some (run_ID r))
    \<and> (\<forall>r' \<in> set (runs (db w)). run_WorkspaceID r' = run_WorkspaceID r \<and> \<not> IsTerminal (run_Status r') \<longrightarrow> r' = r)"
proof -
  have inv: "runs_inv (db w)" using pool_runs_inv [OF assms(1,2)] by simp
  then have inj: "inj_on run_ID (set (runs (db w)))" "inj_on ws_ID (set (workspaces (db w)))"
    by (simp_all add: runs_inv_def distinct_map)
  have lock: "\<exists>x \<in> set (workspaces (db w)). ws_ID x = run_WorkspaceID q \<and> ws_OrganizationID x = run_OrganizationID q
      \<and> ws_Locked x \<and> ws_LockedByRunID x = Some (run_ID q)" if "q \<in> set (runs (db w))" "\<not> IsTerminal (run_Status q)" for q
    using inv that unfolding runs_inv_def by blast
  have "q = r" if q: "q \<in> set (runs (db w))" "run_WorkspaceID q = run_WorkspaceID r" "\<not> IsTerminal (run_Status q)" for q
  proof -
    from lock [OF assms(3,4)] lock [OF q(1,3)] obtain x y where
      x: "x \<in> set (workspaces (db w))" "ws_ID x = run_WorkspaceID r" "ws_LockedByRunID x = Some (run_ID r)" and
      y: "y \<in> set (workspaces (db w))" "ws_ID y = run_WorkspaceID q" "ws_LockedByRunID y = Some (run_ID q)" by blast
    then have "x = y" using inj_onD [OF inj(2)] q(2) by simp
    with x y have "run_ID q = run_ID r" by simp
    then show ?thesis using inj_onD [OF inj(1)] q(1) assms(3) by simp
  qed
  with lock [OF assms(3,4)] show ?thesis by blast
qed

text \<open>On the demo deployment: \<open>r1\<close> is triggered, canceled, and then \<open>r2\<close> is triggered.\<close>

abbreviation demo_program :: "job \<Rightarrow> unit io" where
  "demo_program \<equiv> program demo_crypto demo_key demo_vault"

abbreviation demo_pool_step :: "(id \<times> unit io) list \<times> world \<Rightarrow> (id \<times> unit io) list \<times> world \<Rightarrow> bool" where
  "demo_pool_step \<equiv> pool_step (spawnable demo_crypto demo_key demo_vault) environment"

lemma demo_runs_inv: "runs_inv demo_db"
  by (simp add: runs_inv_def)

lemma demo_steps:
  "demo_pool_step\<^sup>*\<^sup>* ([], demo) ([(''r1'', Done (Inr ()))], demo_triggered)"
  "demo_pool_step\<^sup>*\<^sup>* ([(''r1'', Done (Inr ()))], demo_triggered) ([(''c1'', Done (Inr ())), (''r1'', Done (Inr ()))], demo_canceled)"
proof -
  show "demo_pool_step\<^sup>*\<^sup>* ([], demo) ([(''r1'', Done (Inr ()))], demo_triggered)"
    by (rule pool_spawn_alone [where m = "demo_program (JTrigger (demo_ids ''r1'') [] ''o1'' ''p1'' ''w1'' ''alice'')"])
      (auto simp: spawnable_def fresh_name_def published_def demo_ids_def void_def run_bindE demo_TriggerRun
        simp del: program.simps intro!: exI [of _ "JTrigger (demo_ids ''r1'') [] ''o1'' ''p1'' ''w1'' ''alice''"], simp add: void_def run_bindE demo_TriggerRun)
  show "demo_pool_step\<^sup>*\<^sup>* ([(''r1'', Done (Inr ()))], demo_triggered) ([(''c1'', Done (Inr ())), (''r1'', Done (Inr ()))], demo_canceled)"
    by (rule pool_spawn_alone [where m = "demo_program (JCancel ''c1'' ''i'' [] ''o1'' ''p1'' ''w1'' ''r1'' ''alice'')"])
      (auto simp: spawnable_def fresh_name_def simp del: program.simps
        intro!: exI [of _ "JCancel ''c1'' ''i'' [] ''o1'' ''p1'' ''w1'' ''r1'' ''alice''"], simp add: void_def run_bindE demo_CancelRun)
qed

lemma demo_reach:
  "pool_reach (spawnable demo_crypto demo_key demo_vault) environment demo ([(''r1'', Done (Inr ()))], demo_triggered)"
  "pool_reach (spawnable demo_crypto demo_key demo_vault) environment demo
     ([(''c1'', Done (Inr ())), (''r1'', Done (Inr ()))], demo_canceled)"
  using pool_reach_star [OF demo_steps(1) reach_start] pool_reach_star [OF demo_steps(2)] by blast+

theorem one_active_run_per_workspace_witness:
  "(\<exists>x \<in> set (workspaces (db demo_triggered)). ws_ID x = ''w1'' \<and> ws_OrganizationID x = ''o1''
            \<and> ws_Locked x \<and> ws_LockedByRunID x = Some ''r1'')
    \<and> {r' \<in> set (runs (db demo_triggered)). run_WorkspaceID r' = ''w1'' \<and> \<not> IsTerminal (run_Status r')}
         \<subseteq> {demo_run ''r1'' RunStatusQueued}"
  using one_active_run_per_workspace [OF demo_reach(1), of "demo_run ''r1'' RunStatusQueued"] demo_runs_inv
  by (auto simp: demo_run_def demo_triggered_def IsTerminal_def)

text \<open>
  C17: A terminal status is final, under any interleaving: once a run is applied, failed, errored
  or canceled, no later step of any program ever makes it run again (it may still become
  terminal in another way, or be deleted with its workspace).
\<close>

theorem terminal_runs_stay_terminal:
  assumes "pool_reach (spawnable cr key srv) environment w0 s" and "runs_inv (db w0)"
    and "(pool_step (spawnable cr key srv) environment)\<^sup>*\<^sup>* s s'"
    and "r \<in> set (runs (db (snd s)))" and "IsTerminal (run_Status r)"
    and "r' \<in> set (runs (db (snd s')))" and "run_ID r' = run_ID r"
  shows "IsTerminal (run_Status r') \<and> run_OrganizationID r' = run_OrganizationID r"
proof -
  have inv: "runs_inv (db (snd s))" by (rule pool_runs_inv [OF assms(1,2)])
  have "evolve (db (snd s)) (db (snd s'))" using pool_evolves_star [OF assms(3,1,2)] by simp
  moreover have "published (db (snd s)) (run_ID r')" using inv assms(4,7) by (simp add: runs_inv_def)
  ultimately obtain q where "q \<in> set (runs (db (snd s)))" "run_ID q = run_ID r'" "run_OrganizationID q = run_OrganizationID r'"
    "IsTerminal (run_Status q) \<longrightarrow> IsTerminal (run_Status r')" using assms(6) unfolding evolve_def by blast
  moreover from this inv assms(4,7) have "q = r" by (auto simp: runs_inv_def distinct_map dest: inj_onD)
  ultimately show ?thesis using assms(5) by simp
qed

theorem terminal_runs_stay_terminal_witness:
  "\<exists>r \<in> set (runs (db demo_retriggered)). run_ID r = ''r1'' \<and> IsTerminal (run_Status r)"
proof -
  let ?j = "JTrigger (demo_ids ''r2'') [] ''o1'' ''p1'' ''w1'' ''alice''"
  let ?r = "(demo_run ''r1'' RunStatusCanceled)\<lparr>run_FinishedAt := Some 0\<rparr>"
  have run: "run (demo_program ?j) demo_canceled = (Inr (), demo_retriggered)"
    by (simp add: void_def run_bindE demo_TriggerRun_again)
  have "demo_pool_step\<^sup>*\<^sup>* ([(''c1'', Done (Inr ())), (''r1'', Done (Inr ()))], demo_canceled)
      ([(''r2'', Done (Inr ())), (''c1'', Done (Inr ())), (''r1'', Done (Inr ()))], demo_retriggered)"
    by (rule pool_spawn_alone [OF _ run])
      (auto simp: spawnable_def fresh_name_def published_def demo_ids_def demo_canceled_def demo_queued_def run_event_def
        simp del: program.simps intro!: exI [of _ ?j])
  from terminal_runs_stay_terminal [OF demo_reach(2) _ this, of ?r ?r] demo_runs_inv show ?thesis
    by (intro bexI [of _ ?r]) (simp_all add: demo_retriggered_def demo_canceled_def demo_run_def IsTerminal_def)
qed

end
