(* ===== verification/Findings.thy ===== *)
theory Findings
  imports Guarantees Run_Lifecycle Run_Pool
begin

text \<open>
  Behaviour of the code that differs from what its comments or its other parts intend, stated
  for every state in which it occurs; a small deployment shows that there are such states.
\<close>

section \<open>Role bindings\<close>

definition demo_deny :: "RoleBinding io" where
  "demo_deny = CreateRoleBinding_Execute ''x'' [] ''o1'' ''alice'' ''read'' ''user'' ''bob'' ''organization'' ''o1'' ''deny''"

lemma run_demo_deny: "run demo_deny demo = (Inr (NewRoleBinding ''x'' 0 ''o1'' ''read'' ''user'' ''bob'' ''organization'' ''o1'' ''deny''), demo)"
  by (simp add: demo_deny_def CreateRoleBinding_Execute_def run_head demo_alice_permitted AllPermissions_def ctx_permits_def
      ValidSubjectTypes_def ValidScopeTypes_def ValidEffects_def rbac_consts RoleRepository_GetByID_def oneRow_def role_visible_def Let_def
      check_subject_def check_scope_def RoleBindingRepository_Create_def insert_role_binding_def NewRoleBinding_def
      demo_role_def same_grant_def demo_binding_def demo_org_def BuiltinRoles_def)

lemma CreateRoleBinding_stored:
  assumes "run (CreateRoleBinding_Execute uuid ctx og usr rid st si ct ci ef) w = (Inr b, w')"
  shows "b = NewRoleBinding uuid (clock w) og rid st si ct ci (if ef = [] then EffectAllow else ef)
    \<and> (list_ex (\<lambda>c. same_grant c b) (role_bindings (db w)) \<longrightarrow> db w' = db w)"
proof -
  let ?b = "\<lambda>now. NewRoleBinding uuid now og rid st si ct ci (if ef = [] then EffectAllow else ef)"
  from assms have "\<exists>w1 w2 w3. run (check_subject og st si) w1 = (Inr (), w2) \<and> run (check_scope og ct ci) w2 = (Inr (), w3)
      \<and> run (RoleBindingRepository_Create b) w3 = (Inr (), w') \<and> b = ?b (clock w3) \<and> db w1 = db w \<and> clock w1 = clock w"
    by (auto simp: CreateRoleBinding_Execute_def RoleRepository_GetByID_def Let_def success_simps
        intro!: exI [of _ "pop (pop (pop w))"] exI conjI)
  then obtain w1 w2 w3 where reads: "run (check_subject og st si) w1 = (Inr (), w2)" "run (check_scope og ct ci) w2 = (Inr (), w3)"
    and create: "run (RoleBindingRepository_Create b) w3 = (Inr (), w')" "b = ?b (clock w3)" and w: "db w1 = db w \<and> clock w1 = clock w" by blast
  from reads have "db w3 = db w \<and> clock w3 = clock w"
    using w reads_db [OF reads_check_subject reads(1)] reads_db [OF reads_check_scope reads(2)] by simp
  moreover have "\<exists>e. insert_role_binding b d = Inl e" if "list_ex (\<lambda>c. same_grant c b) (role_bindings d)" for d
    using that by (auto simp: insert_role_binding_def list_ex_iff)
  ultimately show ?thesis using create
    by (fastforce simp: RoleBindingRepository_Create_def run_tx_Inr split: if_splits sum.splits)
qed

text \<open>
  C38: A deny can be lost. The unique key of \<^verbatim>\<open>role_bindings\<close> does not include the effect, and the insert does nothing on a conflict. Whenever
  \<open>CreateRoleBindingService\<close> succeeds with the effect deny for a role, subject and scope that have an allow already,
  it reports the new binding with the effect deny as created, but that binding is not in the table, the
  database is unchanged, and every check of a permission answers as before.
\<close>

theorem deny_binding_is_lost:
  assumes "run (CreateRoleBinding_Execute uuid ctx og usr rid st si ct ci ''deny'') w = (Inr b, w')" and "faults w = []" "faults w' = []"
    and "x \<in> set (role_bindings (db w))" and "rb_RoleID x = rid" "rb_SubjectType x = st" "rb_SubjectID x = si" "rb_ScopeType x = ct" "rb_ScopeID x = ci"
    and "rb_Effect x = ''allow''"
    and "\<forall>y \<in> set (role_bindings (db w)). \<forall>z \<in> set (role_bindings (db w)). same_grant y z \<longrightarrow> y = z"
  shows "rb_Effect b = ''deny'' \<and> b \<notin> set (role_bindings (db w')) \<and> db w' = db w
    \<and> (\<forall>ctx u p pr wk. fst (run (HasPermissionAtScope ctx og u p pr wk) w') = fst (run (HasPermissionAtScope ctx og u p pr wk) w))"
proof -
  from CreateRoleBinding_stored [OF assms(1)] have b: "b = NewRoleBinding uuid (clock w) og rid st si ct ci ''deny''" by simp
  then have x: "same_grant x b" using assms(5-9) by (simp add: same_grant_def NewRoleBinding_def)
  then have "list_ex (\<lambda>c. same_grant c b) (role_bindings (db w))" using assms(4) by (auto simp: list_ex_iff)
  with CreateRoleBinding_stored [OF assms(1)] have d: "db w' = db w" by blast
  have "b \<notin> set (role_bindings (db w))"
  proof
    assume "b \<in> set (role_bindings (db w))"
    with assms(4,11) x have "x = b" by blast
    with assms(10) b show False by (simp add: NewRoleBinding_def)
  qed
  with b d assms(2,3) show ?thesis by (simp add: NewRoleBinding_def run_HasPermissionAtScope)
qed

text \<open>Alice, the owner, denies bob the role that he is already allowed.\<close>

theorem deny_binding_is_lost_witness:
  "\<exists>b w'. run demo_deny demo = (Inr b, w') \<and> rb_Effect b = ''deny'' \<and> db w' = demo_db"
  using deny_binding_is_lost [OF run_demo_deny [unfolded demo_deny_def], of "demo_binding ''b2'' ''bob'' ''read''"] run_demo_deny
  by (simp add: demo_binding_def same_grant_def NewRoleBinding_def)

section \<open>Members\<close>

definition demo_alice_blocked :: world where
  "demo_alice_blocked = demo\<lparr>db := demo_db\<lparr>organization_memberships := [(demo_member ''m1'' ''alice'')\<lparr>mem_BlockedAt := Some 0\<rparr>,
     demo_member ''m2'' ''bob'']\<rparr>\<rparr>"

text \<open>
  Blocking does not stop runs. \<open>TriggerRunService\<close> and \<open>CancelRunService\<close> check the permission but not
  the membership: alice, blocked in the organization, triggers a run and cancels it.
\<close>

lemma blocked_member_triggers_run:
  "\<not> is_member (db demo_alice_blocked) ''o1'' ''alice'' \<and>
   (\<exists>r. fst (run (TriggerRun_Execute (demo_ids ''r1'') [] ''o1'' ''p1'' ''w1'' ''alice'') demo_alice_blocked) = Inr r)"
proof -
  have "ws_ProjectID demo_ws = ''p1''" "ws_Locked demo_ws = False" "ws_ID demo_ws = ''w1''" "ws_OrganizationID demo_ws = ''o1''"
    by (simp_all add: demo_ws_def)
  then have "fst (run (TriggerRun_Execute (demo_ids ''r1'') [] ''o1'' ''p1'' ''w1'' ''alice'') demo_alice_blocked)
      = Inr (demo_run ''r1'' RunStatusQueued)"
    by (simp add: TriggerRun_Execute_def WorkspaceExists_def run_head IsArchived_def demo_permitted_in
        AllPermissions_def rbac_consts ctx_permits_def oneRow_def TryLock_def try_lock_def is_ws_def NewRun_def RunRepository_Create_def
        run_tryE run_tx and_emit_def outbox_Write_def demo_org_def OrganizationStatusArchived_def
        demo_alice_blocked_def demo_run_def demo_ids_def)
  moreover have "\<not> is_member (db demo_alice_blocked) ''o1'' ''alice''"
    by (simp add: is_member_def demo_alice_blocked_def demo_member_def)
  ultimately show ?thesis by blast
qed

definition demo_team :: world where
  "demo_team = demo\<lparr>db := demo_db\<lparr>
     teams := [\<lparr>team_ID = ''t1'', team_OrganizationID = ''o1'', team_Name = ''ops'', team_CreatedAt = 0\<rparr>],
     team_memberships := [\<lparr>tm_ID = ''tm1'', tm_TeamID = ''t1'', tm_OrganizationID = ''o1'', tm_UserID = ''bob'', tm_JoinedAt = 0\<rparr>],
     role_bindings := role_bindings demo_db @ [(demo_binding ''b3'' ''t1'' ''write'')\<lparr>rb_SubjectType := ''team''\<rparr>]\<rparr>\<rparr>"

text \<open>
  A removed member keeps what a team gives. \<open>RemoveMemberService\<close> deletes the user's own bindings and the
  membership, but not the memberships in teams: bob, in a team that may apply, is removed from
  the organization and afterwards triggers a run.
\<close>

lemma removed_member_triggers_run:
  "\<exists>w'. run (RemoveMember_Execute [] ''o1'' ''alice'' ''bob'') demo_team = (Inr (), w') \<and> \<not> is_member (db w') ''o1'' ''bob''
     \<and> (\<exists>r. fst (run (TriggerRun_Execute (demo_ids ''r1'') [] ''o1'' ''p1'' ''w1'' ''bob'') w') = Inr r)"
proof -
  let ?d = "(db demo_team)\<lparr>role_bindings := [demo_binding ''b1'' ''alice'' ''owner'', (demo_binding ''b3'' ''t1'' ''write'')\<lparr>rb_SubjectType := ''team''\<rparr>],
      organization_memberships := [demo_member ''m1'' ''alice'']\<rparr>"
  have alice: "permitted [] (db demo_team) ''o1'' ''alice'' ''organization:manage'' None None"
    by (simp add: permitted_def ctx_permits_def has_permission_at_scope_def matches_def subject_matches_def role_grants_def role_visible_def
      at_scope_def demo_team_def demo_binding_def demo_role_def BuiltinRoles_def rbac_consts)
  have "is_member (db demo_team) ''o1'' ''alice''" by (simp add: demo_team_def is_member_def demo_member_def)
  with alice have remove: "run (RemoveMember_Execute [] ''o1'' ''alice'' ''bob'') demo_team = (Inr (), demo_team\<lparr>db := ?d\<rparr>)"
    by (simp add: RemoveMember_Execute_def run_head ctx_permits_def MembershipExists_def DeleteForSubject_def
        MembershipRepository_Delete_def run_tx rbac_consts demo_team_def demo_member_def demo_binding_def)
  have bob: "permitted [] ?d ''o1'' ''bob'' ''workspace:apply'' (Some ''p1'') (Some ''w1'')"
    by (simp add: permitted_def ctx_permits_def has_permission_at_scope_def matches_def subject_matches_def role_grants_def role_visible_def
      at_scope_def demo_team_def demo_binding_def demo_role_def BuiltinRoles_def rbac_consts)
  have ws: "ws_ProjectID demo_ws = ''p1''" "ws_Locked demo_ws = False" "ws_ID demo_ws = ''w1''" "ws_OrganizationID demo_ws = ''o1''"
    by (simp_all add: demo_ws_def)
  have "faults demo_team = []" by (simp add: demo_team_def)
  with bob ws have "fst (run (TriggerRun_Execute (demo_ids ''r1'') [] ''o1'' ''p1'' ''w1'' ''bob'') (demo_team\<lparr>db := ?d\<rparr>))
      = Inr ((demo_run ''r1'' RunStatusQueued)\<lparr>run_TriggeredBy := ''bob''\<rparr>)"
    by (simp add: TriggerRun_Execute_def WorkspaceExists_def run_head IsArchived_def ctx_permits_def oneRow_def TryLock_def
        try_lock_def is_ws_def NewRun_def RunRepository_Create_def run_tryE run_tx and_emit_def outbox_Write_def
        demo_team_def demo_org_def OrganizationStatusArchived_def demo_run_def demo_ids_def)
  moreover have "\<not> is_member ?d ''o1'' ''bob''" by (simp add: is_member_def demo_team_def demo_member_def)
  ultimately show ?thesis using remove by (intro exI [of _ "demo_team\<lparr>db := ?d\<rparr>"]) auto
qed

definition demo_admin :: world where
  "demo_admin = demo\<lparr>db := demo_db\<lparr>role_bindings := [demo_binding ''b1'' ''alice'' ''owner'', demo_binding ''b2'' ''bob'' ''admin'']\<rparr>\<rparr>"

text \<open>
  Managing includes deleting. A user who holds \<^verbatim>\<open>organization:manage\<close> but not \<^verbatim>\<open>organization:delete\<close>, as the
  built-in role admin does, makes itself owner by \<open>ChangeMemberRoleService\<close> and then deletes the
  organization.
\<close>

lemma admin_becomes_owner:
  "\<not> has_permission_at_scope (db demo_admin) ''o1'' ''bob'' ''organization:delete'' None None \<and>
   (\<exists>w'. run (ChangeMemberRole_Execute ''x'' [] ''o1'' ''bob'' ''bob'' ''owner'') demo_admin = (Inr (), w')
      \<and> has_permission_at_scope (db w') ''o1'' ''bob'' ''organization:delete'' None None)"
proof -
  let ?d = "(db demo_admin)\<lparr>role_bindings := [demo_binding ''b1'' ''alice'' ''owner'', demo_binding ''x'' ''bob'' ''owner'']\<rparr>"
  note eval = has_permission_at_scope_def matches_def subject_matches_def role_grants_def role_visible_def
      at_scope_def demo_admin_def demo_binding_def demo_role_def BuiltinRoles_def rbac_consts
  have "permitted [] (db demo_admin) ''o1'' ''bob'' ''organization:manage'' None None"
    by (simp add: permitted_def ctx_permits_def eval)
  moreover have "is_member (db demo_admin) ''o1'' ''bob''" by (simp add: demo_admin_def is_member_def demo_member_def)
  ultimately have "run (ChangeMemberRole_Execute ''x'' [] ''o1'' ''bob'' ''bob'' ''owner'') demo_admin = (Inr (), demo_admin\<lparr>db := ?d\<rparr>)"
    by (simp add: ChangeMemberRole_Execute_def run_head validRoleNames_def rbac_consts ctx_permits_def ReplaceRole_def run_tx
        oneRow_def demo_admin_def demo_role_def BuiltinRoles_def insert_role_binding_def NewOrganizationScopeBinding_def
        is_org_scope_binding_of_def demo_binding_def demo_org_def same_grant_def)
  then show ?thesis by (intro conjI exI [of _ "demo_admin\<lparr>db := ?d\<rparr>"]) (simp_all add: eval)
qed

section \<open>Runs\<close>

definition demo_carol :: world where
  "demo_carol = demo_triggered\<lparr>db := (db demo_triggered)\<lparr>projects := [demo_prj, demo_prj\<lparr>prj_ID := ''p2'', prj_Slug := ''q''\<rparr>],
     role_bindings := role_bindings demo_db @ [(demo_binding ''b3'' ''carol'' ''write'')\<lparr>rb_ScopeType := ''project'', rb_ScopeID := ''p2''\<rparr>]\<rparr>\<rparr>"



text \<open>
  A lock can be orphaned. If both the insert of the run and the compensating \<open>Unlock\<close> of
  \<open>TriggerRunService\<close> fail, the workspace stays locked by a run that does not exist, and every
  later trigger answers \<open>ErrWorkspaceLocked\<close>; no other operation releases it.
\<close>

lemma trigger_can_orphan_lock:
  "\<exists>w'. run (TriggerRun_Execute (demo_ids ''r1'') [] ''o1'' ''p1'' ''w1'' ''alice'') (demo\<lparr>faults := [False, False, False, False, True, True]\<rparr>)
       = (Inl ErrDB, w')
     \<and> runs (db w') = [] \<and> ws_LockedByRunID (hd (workspaces (db w'))) = Some ''r1''
     \<and> fst (run (TriggerRun_Execute (demo_ids ''r2'') [] ''o1'' ''p1'' ''w1'' ''alice'') w') = Inl ErrWorkspaceLocked"
proof -
  let ?d = "demo_db\<lparr>workspaces := [demo_ws\<lparr>ws_Locked := True, ws_LockedByRunID := Some ''r1''\<rparr>]\<rparr>"
  have ws: "ws_ProjectID demo_ws = ''p1''" "ws_Locked demo_ws = False" "ws_ID demo_ws = ''w1''" "ws_OrganizationID demo_ws = ''o1''"
    by (simp_all add: demo_ws_def)
  note eval = TriggerRun_Execute_def WorkspaceExists_def run_head IsArchived_def demo_permitted_in
        AllPermissions_def rbac_consts ctx_permits_def oneRow_def TryLock_def try_lock_def is_ws_def NewRun_def RunRepository_Create_def
        run_tx Unlock_def fault_now_def pop_def demo_org_def OrganizationStatusArchived_def demo_ids_def
  have "run (TriggerRun_Execute (demo_ids ''r1'') [] ''o1'' ''p1'' ''w1'' ''alice'') (demo\<lparr>faults := [False, False, False, False, True, True]\<rparr>)
      = (Inl ErrDB, demo\<lparr>db := ?d\<rparr>)"
    using ws by (simp add: eval demo_def empty_world_def)
  moreover have "fst (run (TriggerRun_Execute (demo_ids ''r2'') [] ''o1'' ''p1'' ''w1'' ''alice'') (demo\<lparr>db := ?d\<rparr>)) = Inl ErrWorkspaceLocked"
    using ws by (simp add: eval)
  ultimately show ?thesis by (intro exI [of _ "demo\<lparr>db := ?d\<rparr>"]) simp
qed

definition demo_restarted :: world where
  "demo_restarted = snd (run (TryStartApplying ''s2'' ''o1'' ''r1'' ''w1'')
     ((snd (run (bindE (TryStartApplying ''s1'' ''o1'' ''r1'' ''w1'') (\<lambda>_. RevertToQueued ''o1'' ''r1'')) demo_triggered))\<lparr>clock := 3600\<rparr>))"

text \<open>
  The reaper can end a run that has just started. It looks for any \<^verbatim>\<open>RunApplying\<close> event older than the
  timeout, also one of an earlier attempt that was reverted because no Worker was connected: the
  run below starts its second attempt at time 3600, and the sweep at 3601 with a timeout of 1800
  ends it, one second after it started.
\<close>

lemma reaper_ends_restarted_run:
  "map run_StartedAt (runs (db demo_restarted)) = [Some 3600] \<and> map run_Status (runs (db demo_restarted)) = [RunStatusApplying]
   \<and> map run_Status (runs (db (snd (run (StaleRunReaper_reapOnce (\<lambda>_. ''z'') ''i'' 1800) (demo_restarted\<lparr>clock := 3601\<rparr>))))) = [RunStatusErrored]"
proof -
  have w: "demo_restarted = demo\<lparr>db := (db demo_triggered)\<lparr>runs := [(demo_run ''r1'' RunStatusApplying)\<lparr>run_StartedAt := Some 3600\<rparr>],
     outbox_events := [demo_queued ''r1'',
       \<lparr>ev_ID = ''s1'', ev_OrganizationID = ''o1'', ev_EventType = ''RunApplying'', ev_Payload = run_event ''system'' ''r1'' ''w1'',
         ev_OccurredAt = 0, ev_PublishedAt = None\<rparr>,
       \<lparr>ev_ID = ''s2'', ev_OrganizationID = ''o1'', ev_EventType = ''RunApplying'', ev_Payload = run_event ''system'' ''r1'' ''w1'',
         ev_OccurredAt = 3600, ev_PublishedAt = None\<rparr>]\<rparr>, clock := 3600\<rparr>"
    by (simp add: demo_restarted_def TryStartApplying_def RevertToQueued_def run_head run_tx Let_def and_emit_def outbox_Write_def
        demo_triggered_def demo_run_def demo_queued_def is_run_def demo_org_def)
  show ?thesis
    by (simp add: w StaleRunReaper_reapOnce_def FindStaleApplyingRuns_def run_bindE run_nowE run_query run_tx run_tryE run_atomic Let_def
        reapCandidate_def MarkErroredIfStillApplying_def and_emit_def outbox_Write_def Unlock_def Registry_Forget_def
        logged_def local_step_def redis_del_worker_def redis_step_def demo_queued_def run_event_def demo_triggered_def
        demo_run_def is_run_def demo_org_def)
qed

end
