(* ===== verification/Go_Library.thy ===== *)
theory Go_Library
  imports Store "HOL-Library.Product_Lexorder"
begin

text \<open>
  The parts of Go's standard library that the services compute with and that need more than one
  line: \<^verbatim>\<open>base64.RawURLEncoding\<close>, and \<^verbatim>\<open>time.Time\<close> in the layout \<^verbatim>\<open>time.RFC3339Nano\<close>. A
  \<^typ>\<open>string\<close> is Go's string: a sequence of bytes. The results used by the rest of the development are
  the two round trips \<open>b64_decode_encode\<close> and \<open>parseRFC3339_format\<close>.
\<close>

section \<open>base64.RawURLEncoding\<close>

definition b64_alphabet :: string where
  "b64_alphabet = ''ABCDEFGHIJKLMNOPQRSTUVWXYZabcdefghijklmnopqrstuvwxyz0123456789-_''"

definition b64_char :: "nat \<Rightarrow> char" where
  "b64_char n = b64_alphabet ! n"

definition b64_value :: "char \<Rightarrow> nat option" where
  "b64_value c = map_of (zip b64_alphabet [0..<64]) c"

definition byte_val :: "char \<Rightarrow> nat" where
  "byte_val c = of_char c"

definition byte_of :: "nat \<Rightarrow> char" where
  "byte_of n = char_of n"

fun b64_encode :: "string \<Rightarrow> string" where
  "b64_encode [] = []"
| "b64_encode [a] = [b64_char (byte_val a div 4), b64_char (byte_val a mod 4 * 16)]"
| "b64_encode [a, b] = [b64_char (byte_val a div 4), b64_char (byte_val a mod 4 * 16 + byte_val b div 16),
     b64_char (byte_val b mod 16 * 4)]"
| "b64_encode (a # b # c # s) = b64_char (byte_val a div 4) # b64_char (byte_val a mod 4 * 16 + byte_val b div 16)
     # b64_char (byte_val b mod 16 * 4 + byte_val c div 64) # b64_char (byte_val c mod 64) # b64_encode s"

text \<open>
  The decoder skips line breaks, refuses every other byte outside the alphabet and a last group
  of one, and ignores the unused bits of the last group.
\<close>

fun b64_bytes :: "nat list \<Rightarrow> string option" where
  "b64_bytes [] = Some []"
| "b64_bytes [_] = None"
| "b64_bytes [a, b] = Some [byte_of (a * 4 + b div 16)]"
| "b64_bytes [a, b, c] = Some [byte_of (a * 4 + b div 16), byte_of (b mod 16 * 16 + c div 4)]"
| "b64_bytes (a # b # c # d # vs) = (case b64_bytes vs of None \<Rightarrow> None
     | Some s \<Rightarrow> Some (byte_of (a * 4 + b div 16) # byte_of (b mod 16 * 16 + c div 4) # byte_of (c mod 4 * 64 + d) # s))"

definition b64_decode :: "string \<Rightarrow> string option" where
  "b64_decode s = (case those (map b64_value (filter (\<lambda>c. c \<noteq> CHR 0x0A \<and> c \<noteq> CHR 0x0D) s)) of
     None \<Rightarrow> None | Some vs \<Rightarrow> b64_bytes vs)"

lemma length_b64_alphabet: "length b64_alphabet = 64"
  by (simp add: b64_alphabet_def)

lemma b64_value_char [simp]: "n < 64 \<Longrightarrow> b64_value (b64_char n) = Some n"
proof -
  assume n: "n < 64"
  have "distinct b64_alphabet" by (simp add: b64_alphabet_def)
  then have "map_of (zip b64_alphabet [0..<64]) (b64_alphabet ! n) = Some ([0..<64] ! n)"
    using n by (intro map_of_zip_nth) (simp_all add: length_b64_alphabet)
  with n show ?thesis by (simp add: b64_value_def b64_char_def)
qed

lemma b64_char_no_break [simp]:
  assumes "n < 64" shows "b64_char n \<noteq> CHR 0x0A" "b64_char n \<noteq> CHR 0x0D"
proof -
  have "b64_char n \<in> set b64_alphabet" using assms by (simp add: b64_char_def length_b64_alphabet)
  moreover have "CHR 0x0A \<notin> set b64_alphabet" "CHR 0x0D \<notin> set b64_alphabet" by (simp_all add: b64_alphabet_def)
  ultimately show "b64_char n \<noteq> CHR 0x0A" "b64_char n \<noteq> CHR 0x0D" by auto
qed

lemma byte_val_less [simp]: "byte_val c < 256"
  by (simp add: byte_val_def)

lemma byte_val_div [simp]: "byte_val a div 4 < 64" "byte_val a div 16 < 16" "byte_val a div 64 < 4"
  by (simp_all add: less_mult_imp_div_less)

lemma byte_of_val [simp]: "byte_of (byte_val c) = c"
  by (simp add: byte_of_def byte_val_def)

lemma b64_group_bounds [simp]:
  "byte_val a mod 4 * 16 < 64" "byte_val a mod 4 * 16 + byte_val b div 16 < 64"
  "byte_val b mod 16 * 4 < 64" "byte_val b mod 16 * 4 + byte_val c div 64 < 64"
proof -
  have "byte_val a mod 4 < 4" "byte_val b mod 16 < 16" "byte_val b div 16 < 16" "byte_val c div 64 < 4" by simp_all
  then show "byte_val a mod 4 * 16 < 64" "byte_val a mod 4 * 16 + byte_val b div 16 < 64"
    "byte_val b mod 16 * 4 < 64" "byte_val b mod 16 * 4 + byte_val c div 64 < 64" by linarith+
qed

lemma b64_decode_encode: "b64_decode (b64_encode s) = Some s"
proof (induction s rule: b64_encode.induct)
  case (4 a b c s)
  then obtain vs where "those (map b64_value (filter (\<lambda>c. c \<noteq> CHR 0x0A \<and> c \<noteq> CHR 0x0D) (b64_encode s))) = Some vs"
    and "b64_bytes vs = Some s" by (auto simp: b64_decode_def split: option.splits)
  then show ?case by (simp add: b64_decode_def)
qed (simp_all add: b64_decode_def)

section \<open>Decimal numbers\<close>

definition digit :: "nat \<Rightarrow> char" where
  "digit n = char_of (48 + n)"

fun dec :: "nat \<Rightarrow> nat \<Rightarrow> string" where
  "dec 0 n = []"
| "dec (Suc w) n = dec w (n div 10) @ [digit (n mod 10)]"

text \<open>\<^verbatim>\<open>appendInt\<close> of package \<^verbatim>\<open>time\<close>: at least \<open>w\<close> digits.\<close>

function appendInt :: "nat \<Rightarrow> nat \<Rightarrow> string" where
  "appendInt w n = (if n < 10 ^ w then dec w n else appendInt w (n div 10) @ [digit (n mod 10)])"
  by auto

lemma pow10_div: "\<not> n < 10 ^ w \<Longrightarrow> n div 10 < (n :: nat)"
proof -
  assume "\<not> n < 10 ^ w"
  moreover have "(0::nat) < 10 ^ w" by simp
  ultimately have "0 < n" by linarith
  then show ?thesis by simp
qed

termination appendInt
  by (relation "measure snd") (auto simp: pow10_div)

declare appendInt.simps [simp del]

fun dec_value :: "nat \<Rightarrow> string \<Rightarrow> nat option" where
  "dec_value acc [] = Some acc"
| "dec_value acc (c # cs) = (if is_digit c then dec_value (acc * 10 + (byte_val c - 48)) cs else None)"

definition parseUint :: "string \<Rightarrow> nat \<Rightarrow> nat \<Rightarrow> nat option" where
  "parseUint s lo hi = (case dec_value 0 s of None \<Rightarrow> None
     | Some x \<Rightarrow> if lo \<le> x \<and> x \<le> hi then Some x else None)"

lemma digit_props [simp]:
  assumes "n < 10" shows "is_digit (digit n)" "byte_val (digit n) = 48 + n" "digit n = CHR ''0'' \<longleftrightarrow> n = 0"
proof -
  have "of_char (digit n) = (48 + n :: nat)" using assms by (simp add: digit_def)
  moreover have "digit n = CHR ''0'' \<longleftrightarrow> of_char (digit n) = (of_char CHR ''0'' :: nat)" by (simp only: of_char_eq_iff)
  ultimately show "is_digit (digit n)" "byte_val (digit n) = 48 + n" "digit n = CHR ''0'' \<longleftrightarrow> n = 0"
    using assms by (simp_all add: is_digit_def in_range_def byte_val_def)
qed

lemma length_dec [simp]: "length (dec w n) = w"
  by (induction w arbitrary: n) auto

lemma dec_digits: "c \<in> set (dec w n) \<Longrightarrow> is_digit c"
  by (induction w arbitrary: n) auto

lemma dec_value_append:
  "dec_value acc (xs @ ys) = (case dec_value acc xs of None \<Rightarrow> None | Some v \<Rightarrow> dec_value v ys)"
  by (induction xs arbitrary: acc) auto

lemma dec_value_dec [simp]: "n < 10 ^ w \<Longrightarrow> dec_value acc (dec w n) = Some (acc * 10 ^ w + n)"
proof (induction w arbitrary: n)
  case (Suc w)
  then have "n div 10 < 10 ^ w" by (simp add: less_mult_imp_div_less mult.commute)
  with Suc.IH show ?case by (simp add: dec_value_append algebra_simps)
qed simp

lemma appendInt_dec [simp]: "n < 10 ^ w \<Longrightarrow> appendInt w n = dec w n"
  by (simp add: appendInt.simps)

lemma parseUint_dec [simp]: "n < 10 ^ w \<Longrightarrow> lo \<le> n \<Longrightarrow> n \<le> hi \<Longrightarrow> parseUint (dec w n) lo hi = Some n"
  by (simp add: parseUint_def)

section \<open>Dates\<close>

text \<open>The proleptic Gregorian calendar; days are counted from 1 January of the year 1.\<close>

definition leap :: "int \<Rightarrow> bool" where
  "leap y = (y mod 4 = 0 \<and> (y mod 100 \<noteq> 0 \<or> y mod 400 = 0))"

definition month_lengths :: "int \<Rightarrow> int list" where
  "month_lengths y = [31, if leap y then 29 else 28, 31, 30, 31, 30, 31, 31, 30, 31, 30, 31]"

definition days_before :: "int \<Rightarrow> int" where
  "days_before y = 365 * (y - 1) + (y - 1) div 4 - (y - 1) div 100 + (y - 1) div 400"

definition date_day :: "int \<Rightarrow> nat \<Rightarrow> int \<Rightarrow> int" where
  "date_day y m d = days_before y + sum_list (take (m - 1) (month_lengths y)) + (d - 1)"

definition year_of :: "int \<Rightarrow> int \<times> int" where
  "year_of n = (let
     n400 = n div 146097; n1 = n mod 146097;
     n100 = min 3 (n1 div 36524); n2 = n1 - 36524 * n100;
     n4 = n2 div 1461; n3 = n2 mod 1461;
     n1 = min 3 (n3 div 365)
     in (400 * n400 + 100 * n100 + 4 * n4 + n1 + 1, n3 - 365 * n1))"

fun month_of :: "int list \<Rightarrow> int \<Rightarrow> nat \<times> int" where
  "month_of [] d = (1, d + 1)"
| "month_of (l # ls) d = (if d < l then (1, d + 1) else case month_of ls (d - l) of (m, r) \<Rightarrow> (m + 1, r))"

definition civil :: "int \<Rightarrow> int \<times> nat \<times> int" where
  "civil n = (case year_of n of (y, yday) \<Rightarrow> case month_of (month_lengths y) yday of (m, d) \<Rightarrow> (y, m, d))"

lemma mod_self_iff: "0 < x \<Longrightarrow> x \<le> k \<Longrightarrow> x mod k = 0 \<longleftrightarrow> x = (k :: int)"
  by (cases "x = k") auto

lemma cycle_year:
  fixes a b c n :: int
  assumes "0 \<le> b" "b \<le> 3" "0 \<le> c" "c \<le> 24" "0 \<le> n" "n \<le> 3"
  defines "y \<equiv> 400 * a + 100 * b + 4 * c + n + 1"
  shows "days_before y = 146097 * a + 36524 * b + 1461 * c + 365 * n"
    and "leap y \<longleftrightarrow> n = 3 \<and> (c \<noteq> 24 \<or> b = 3)"
proof -
  have "(y - 1) div 4 = 100 * a + 25 * b + c"
    unfolding y_def by (rule int_div_pos_eq [where r = n]) (use assms(1-6) in \<open>simp_all add: algebra_simps\<close>)
  moreover have "(y - 1) div 100 = 4 * a + b"
    unfolding y_def by (rule int_div_pos_eq [where r = "4 * c + n"]) (use assms(1-6) in \<open>simp_all add: algebra_simps\<close>)
  moreover have "(y - 1) div 400 = a"
    unfolding y_def by (rule int_div_pos_eq [where r = "100 * b + 4 * c + n"]) (use assms(1-6) in \<open>simp_all add: algebra_simps\<close>)
  ultimately show "days_before y = 146097 * a + 36524 * b + 1461 * c + 365 * n"
    by (simp add: days_before_def y_def)
  have "y = 4 * (100 * a + 25 * b + c) + (n + 1)" "y = 100 * (4 * a + b) + (4 * c + n + 1)"
    "y = 400 * a + (100 * b + 4 * c + n + 1)" by (simp_all add: y_def)
  then have m: "y mod 4 = (n + 1) mod 4" "y mod 100 = (4 * c + n + 1) mod 100" "y mod 400 = (100 * b + 4 * c + n + 1) mod 400"
    by (metis mod_mult_self4)+
  have "y mod 4 = 0 \<longleftrightarrow> n + 1 = 4" unfolding m by (rule mod_self_iff) (use assms(1-6) in linarith)+
  moreover have "y mod 100 = 0 \<longleftrightarrow> 4 * c + n + 1 = 100" unfolding m by (rule mod_self_iff) (use assms(1-6) in linarith)+
  moreover have "y mod 400 = 0 \<longleftrightarrow> 100 * b + 4 * c + n + 1 = 400" unfolding m by (rule mod_self_iff) (use assms(1-6) in linarith)+
  moreover have "4 * c + n + 1 = 100 \<longleftrightarrow> n = 3 \<and> c = 24"
    using assms(1-6) by (intro iffI conjI; linarith)
  moreover have "100 * b + 4 * c + n + 1 = 400 \<longleftrightarrow> n = 3 \<and> c = 24 \<and> b = 3"
    using assms(1-6) by (intro iffI conjI; linarith)
  ultimately show "leap y \<longleftrightarrow> n = 3 \<and> (c \<noteq> 24 \<or> b = 3)" by (auto simp: leap_def)
qed

lemma year_of:
  assumes "year_of n = (y, yday)"
  shows "days_before y + yday = n" "0 \<le> yday" "yday < 365 + (if leap y then 1 else 0)"
proof -
  define a where "a = n div 146097"
  define n1 where "n1 = n mod 146097"
  define b where "b = min 3 (n1 div 36524)"
  define n2 where "n2 = n1 - 36524 * b"
  define c where "c = n2 div 1461"
  define n3 where "n3 = n2 mod 1461"
  define k where "k = min 3 (n3 div 365)"
  have y: "y = 400 * a + 100 * b + 4 * c + k + 1" "yday = n3 - 365 * k"
    using assms unfolding year_of_def Let_def k_def n3_def c_def n2_def b_def n1_def a_def by (auto simp only: prod.inject)
  have n1: "n = 146097 * a + n1" "0 \<le> n1" "n1 \<le> 146096" by (simp_all add: a_def n1_def)
  then have b: "0 \<le> b" "b \<le> 3" "0 \<le> n2" "n2 \<le> 36524" "b < 3 \<Longrightarrow> n2 < 36524"
    unfolding b_def n2_def by linarith+
  have c: "n2 = 1461 * c + n3" "0 \<le> n3" "n3 \<le> 1460" by (simp_all add: c_def n3_def)
  then have c': "0 \<le> c" "c \<le> 24" using b(3,4) by linarith+
  have k: "0 \<le> k" "k \<le> 3" "0 \<le> yday" "yday \<le> 365" "k < 3 \<Longrightarrow> yday < 365" "yday = 365 \<Longrightarrow> n3 = 1460"
    using c y(2) unfolding k_def by linarith+
  note cy = cycle_year [OF b(1,2) c' k(1,2), of a, folded y(1)]
  show "days_before y + yday = n" using cy(1) n1(1) c(1) y(2) unfolding n2_def by linarith
  show "0 \<le> yday" by (rule k(3))
  have "b = 3" if "yday = 365" "c = 24" using k(6) [OF that(1)] c(1) that(2) b(2,5) by linarith
  then show "yday < 365 + (if leap y then 1 else 0)" using k(2,4,5) cy(2) by auto
qed

lemma month_of:
  assumes "month_of ls d = (m, r)" "0 \<le> d" "d < sum_list ls" "list_all (\<lambda>l. 0 < l) ls"
  shows "1 \<le> m \<and> m \<le> length ls \<and> 1 \<le> r \<and> r \<le> ls ! (m - 1) \<and> sum_list (take (m - 1) ls) + (r - 1) = d"
  using assms
proof (induction ls arbitrary: d m)
  case (Cons l ls)
  show ?case
  proof (cases "d < l")
    case True
    with Cons.prems show ?thesis by auto
  next
    case False
    with Cons.prems(1) obtain m' where m': "month_of ls (d - l) = (m', r)" "m = m' + 1"
      by (auto split: prod.splits)
    have "1 \<le> m' \<and> m' \<le> length ls \<and> 1 \<le> r \<and> r \<le> ls ! (m' - 1) \<and> sum_list (take (m' - 1) ls) + (r - 1) = d - l"
      using Cons.prems False by (intro Cons.IH m'(1)) auto
    with m'(2) show ?thesis by (cases m') auto
  qed
qed simp

lemma civil:
  assumes "civil n = (y, m, d)"
  shows "date_day y m d = n" "1 \<le> m" "m \<le> 12" "1 \<le> d" "d \<le> month_lengths y ! (m - 1)"
proof -
  from assms obtain yday where yd: "year_of n = (y, yday)" "month_of (month_lengths y) yday = (m, d)"
    by (auto simp: civil_def split: prod.splits)
  have "sum_list (month_lengths y) = 365 + (if leap y then 1 else 0)" "list_all (\<lambda>l. 0 < l) (month_lengths y)"
    "length (month_lengths y) = 12" by (simp_all add: month_lengths_def)
  with month_of [OF yd(2)] year_of [OF yd(1)]
  show "date_day y m d = n" "1 \<le> m" "m \<le> 12" "1 \<le> d" "d \<le> month_lengths y ! (m - 1)"
    by (auto simp: date_day_def)
qed

section \<open>time.RFC3339Nano\<close>

text \<open>
  A time is formatted in a location, of which only the offset from UTC at that time matters, here
  in seconds. The fraction has no trailing zeros and is left out when it is zero.
\<close>

definition unix_epoch_day :: int where "unix_epoch_day = 719162"

definition nanos_per_day :: int where "nanos_per_day = 86400 * 1000000000"

definition year_str :: "int \<Rightarrow> string" where
  "year_str y = (if y < 0 then ''-'' else []) @ appendInt 4 (nat \<bar>y\<bar>)"

definition frac_str :: "nat \<Rightarrow> string" where
  "frac_str ns = (if ns = 0 then [] else CHR ''.'' # rev (dropWhile (\<lambda>c. c = CHR ''0'') (rev (dec 9 ns))))"

definition zone_str :: "int \<Rightarrow> string" where
  "zone_str z = (if z = 0 then ''Z''
     else let m = nat (\<bar>z\<bar> div 60) in
       (if z \<le> -60 then CHR ''-'' else CHR ''+'') # appendInt 2 (m div 60) @ CHR '':'' # appendInt 2 (m mod 60))"

definition clock_str :: "nat \<Rightarrow> string" where
  "clock_str sec = appendInt 2 (sec div 3600) @ CHR '':'' # appendInt 2 (sec mod 3600 div 60) @ CHR '':'' # appendInt 2 (sec mod 60)"

definition format_RFC3339Nano :: "int \<Rightarrow> time \<Rightarrow> string" where
  "format_RFC3339Nano z t = (let
     l = t + z * 1000000000;
     tod = nat (l mod nanos_per_day)
     in case civil (l div nanos_per_day + unix_epoch_day) of (y, m, d) \<Rightarrow>
       year_str y @ CHR ''-'' # appendInt 2 m @ CHR ''-'' # appendInt 2 (nat d) @ CHR ''T'' #
       clock_str (tod div 1000000000) @ frac_str (tod mod 1000000000) @ zone_str z)"

text \<open>
  \<^verbatim>\<open>parseRFC3339\<close>, the parser \<^verbatim>\<open>time.Parse\<close> tries first for this layout. When it fails \<^verbatim>\<open>time.Parse\<close> falls
  back on the general, slightly more liberal parser for layouts: it is the argument \<open>fallback\<close> of
  \<open>time_Parse\<close>, about which nothing is assumed.
\<close>

definition slice :: "nat \<Rightarrow> nat \<Rightarrow> string \<Rightarrow> string" where
  "slice i j s = take (j - i) (drop i s)"

definition daysIn :: "nat \<Rightarrow> nat \<Rightarrow> nat" where
  "daysIn m y = nat (month_lengths (int y) ! (m - 1))"

definition parse_frac :: "string \<Rightarrow> nat \<times> string" where
  "parse_frac s = (if 2 \<le> length s \<and> hd s = CHR ''.'' \<and> is_digit (s ! 1)
     then let ds = takeWhile is_digit (tl s); used = take 9 ds in
       (the (dec_value 0 used) * 10 ^ (9 - length used), drop (1 + length ds) s)
     else (0, s))"

definition parse_zone :: "string \<Rightarrow> int option" where
  "parse_zone s = (if s = ''Z'' then Some 0
     else if length s \<noteq> 6 then None
     else case (parseUint (slice 1 3 s) 0 23, parseUint (slice 4 6 s) 0 59) of
       (Some hr, Some mm) \<Rightarrow>
         if (s ! 0 = CHR ''-'' \<or> s ! 0 = CHR ''+'') \<and> s ! 3 = CHR '':''
         then Some ((if s ! 0 = CHR ''-'' then - 1 else 1) * (int (hr * 60 + mm) * 60)) else None
     | _ \<Rightarrow> None)"

definition parse_date :: "string \<Rightarrow> int option" where
  "parse_date s = (case (parseUint (slice 0 4 s) 0 9999, parseUint (slice 5 7 s) 1 12) of
     (Some year, Some month) \<Rightarrow>
       (case parseUint (slice 8 10 s) 1 (daysIn month year) of
          Some day \<Rightarrow> Some (date_day (int year) month (int day)) | None \<Rightarrow> None)
   | _ \<Rightarrow> None)"

definition parse_clock :: "string \<Rightarrow> nat option" where
  "parse_clock s = (case (parseUint (slice 11 13 s) 0 23, parseUint (slice 14 16 s) 0 59, parseUint (slice 17 19 s) 0 59) of
     (Some h, Some m, Some sec) \<Rightarrow> Some (h * 3600 + m * 60 + sec) | _ \<Rightarrow> None)"

definition parseRFC3339 :: "string \<Rightarrow> time option" where
  "parseRFC3339 s = (if length s < 19 then None
     else case (parse_date s, parse_clock s) of
       (Some day, Some sec) \<Rightarrow>
         if s ! 4 = CHR ''-'' \<and> s ! 7 = CHR ''-'' \<and> s ! 10 = CHR ''T'' \<and> s ! 13 = CHR '':'' \<and> s ! 16 = CHR '':''
         then (case parse_frac (drop 19 s) of (ns, rest) \<Rightarrow> case parse_zone rest of None \<Rightarrow> None
           | Some z \<Rightarrow> Some ((day - unix_epoch_day) * nanos_per_day + int sec * 1000000000 + int ns - z * 1000000000))
         else None
     | _ \<Rightarrow> None)"

definition time_Parse :: "(string \<Rightarrow> time option) \<Rightarrow> string \<Rightarrow> time option" where
  "time_Parse fallback s = (case parseRFC3339 s of Some t \<Rightarrow> Some t | None \<Rightarrow> fallback s)"

text \<open>A time that is formatted with four digits for the year and whose offset the layout can express.\<close>

definition printable_time :: "int \<Rightarrow> time \<Rightarrow> bool" where
  "printable_time z t \<longleftrightarrow> z mod 60 = 0 \<and> \<bar>z\<bar> < 86400 \<and>
     (let y = fst (civil ((t + z * 1000000000) div nanos_per_day + unix_epoch_day)) in 0 \<le> y \<and> y \<le> 9999)"

lemma dec_value_zeros: "dec_value v (replicate k CHR ''0'') = Some (v * 10 ^ k)"
  by (induction k arbitrary: v) (simp_all add: is_digit_def in_range_def byte_val_def)

lemma dropWhile_replicate_split:
  "xs = rev (dropWhile (\<lambda>c. c = z) (rev xs)) @ replicate (length xs - length (dropWhile (\<lambda>c. c = z) (rev xs))) z"
proof -
  let ?t = "takeWhile (\<lambda>c. c = z) (rev xs)" and ?d = "dropWhile (\<lambda>c. c = z) (rev xs)"
  have split: "rev xs = ?t @ ?d" by simp
  have same: "rev ?t = replicate (length ?t) z"
    using replicate_length_same [of "rev ?t" z] set_takeWhileD by (metis (mono_tags, lifting) length_rev set_rev)
  have "xs = rev ?d @ rev ?t" unfolding rev_append [symmetric] split [symmetric] by simp
  note xs = this [unfolded same]
  have "length xs = length ?t + length ?d"
    using arg_cong [OF split, of length] unfolding length_append length_rev .
  then have "length xs - length ?d = length ?t" by linarith
  then show ?thesis by (rule ssubst) (rule xs)
qed

lemma parse_frac_str:
  assumes "ns < 1000000000" and "rest = [] \<or> \<not> is_digit (hd rest)" and "rest = [] \<or> hd rest \<noteq> CHR ''.''"
  shows "parse_frac (frac_str ns @ rest) = (ns, rest)"
proof (cases "ns = 0")
  case True
  with assms(3) show ?thesis by (cases rest) (auto simp: frac_str_def parse_frac_def)
next
  case False
  define ds where "ds = rev (dropWhile (\<lambda>c. c = CHR ''0'') (rev (dec 9 ns)))"
  have dec: "dec 9 ns = ds @ replicate (9 - length ds) CHR ''0''"
    using dropWhile_replicate_split [of "dec 9 ns" "CHR ''0''"] by (simp add: ds_def)
  have len: "length ds \<le> 9" using length_dropWhile_le [of _ "rev (dec 9 ns)"] by (simp add: ds_def)
  have digits: "c \<in> set ds \<Longrightarrow> is_digit c" for c
    using dec_digits [of c 9 ns] arg_cong [OF dec, of set] by auto
  have "dec_value 0 (dec 9 ns) = Some ns" using assms(1) by simp
  then obtain v where v: "dec_value 0 ds = Some v" "v * 10 ^ (9 - length ds) = ns"
    by (subst (asm) dec) (auto simp: dec_value_append dec_value_zeros split: option.splits)
  have ne: "ds \<noteq> []" using v False by auto
  have "takeWhile is_digit (ds @ rest) = ds" using digits assms(2) by (cases rest) (auto simp: takeWhile_append)
  moreover have "is_digit (ds ! 0)" using ne digits by (cases ds) auto
  ultimately show ?thesis
    using ne False v len by (cases ds) (simp_all add: frac_str_def parse_frac_def ds_def [symmetric])
qed

lemma layout_slices:
  assumes "s = Y @ CHR ''-'' # M @ CHR ''-'' # D @ CHR ''T'' # h @ CHR '':'' # m @ CHR '':'' # sc @ r"
    and "length Y = 4" "length M = 2" "length D = 2" "length h = 2" "length m = 2" "length sc = 2"
  shows "slice 0 4 s = Y" "slice 5 7 s = M" "slice 8 10 s = D" "slice 11 13 s = h" "slice 14 16 s = m"
    "slice 17 19 s = sc" "drop 19 s = r" "\<not> length s < 19"
    "s ! 4 = CHR ''-''" "s ! 7 = CHR ''-''" "s ! 10 = CHR ''T''" "s ! 13 = CHR '':''" "s ! 16 = CHR '':''"
  using assms(2-7) by (simp_all add: assms(1) slice_def nth_append)

lemma parse_zone_str: "z mod 60 = 0 \<Longrightarrow> \<bar>z\<bar> < 86400 \<Longrightarrow> parse_zone (zone_str z) = Some z"
proof (cases "z = 0")
  case False
  assume z: "z mod 60 = 0" "\<bar>z\<bar> < 86400"
  define m where "m = nat (\<bar>z\<bar> div 60)"
  have "60 dvd \<bar>z\<bar>" using z(1) by (simp add: mod_eq_0_iff_dvd)
  then have abs: "\<bar>z\<bar> = 60 * int m" by (simp add: m_def pos_imp_zdiv_nonneg_iff)
  then have m: "m div 60 < 24" "m < 1440" using z(2) by (simp_all add: less_mult_imp_div_less)
  have sign: "z \<le> -60 \<longleftrightarrow> z < 0" using z(1) False by presburger
  let ?s = "(if z < 0 then CHR ''-'' else CHR ''+'') # dec 2 (m div 60) @ CHR '':'' # dec 2 (m mod 60)"
  have str: "zone_str z = ?s"
    using False m by (simp add: zone_str_def m_def [symmetric] Let_def sign)
  have slices: "slice 1 3 ?s = dec 2 (m div 60)" "slice 4 6 ?s = dec 2 (m mod 60)" "length ?s = 6" "?s \<noteq> ''Z''"
    "?s ! 3 = CHR '':''" by (simp_all add: slice_def nth_append)
  have "int (m div 60 * 60 + m mod 60) * 60 = \<bar>z\<bar>" using abs by simp
  then show ?thesis unfolding str parse_zone_def slices using m False
    by (simp add: parseUint_dec slices(4) del: dec.simps)
qed (simp add: zone_str_def parse_zone_def)

lemma zone_str_head: "zone_str z \<noteq> []" "\<not> is_digit (hd (zone_str z))" "hd (zone_str z) \<noteq> CHR ''.''"
  by (auto simp: zone_str_def Let_def is_digit_def in_range_def)

lemma clock_parts:
  assumes "sec < 86400"
  shows "sec div 3600 \<le> 23" "sec mod 3600 div 60 \<le> 59" "sec mod 60 \<le> (59::nat)"
    "sec div 3600 * 3600 + sec mod 3600 div 60 * 60 + sec mod 60 = sec"
proof -
  show "sec div 3600 \<le> 23" using assms by simp
  have "sec mod 3600 < 3600" by simp
  then show "sec mod 3600 div 60 \<le> 59" by simp
  show "sec mod 60 \<le> 59" by simp
  have "sec mod 60 = sec mod 3600 mod 60" by (simp add: mod_mod_cancel)
  then show "sec div 3600 * 3600 + sec mod 3600 div 60 * 60 + sec mod 60 = sec" by simp
qed

lemma parseRFC3339_format:
  assumes "printable_time z t"
  shows "parseRFC3339 (format_RFC3339Nano z t) = Some t"
proof -
  define l where "l = t + z * 1000000000"
  define day where "day = l div nanos_per_day + unix_epoch_day"
  define tod where "tod = nat (l mod nanos_per_day)"
  obtain y m d where c: "civil day = (y, m, d)" by (cases "civil day") auto
  from assms have z: "z mod 60 = 0" "\<bar>z\<bar> < 86400" and y: "0 \<le> y" "y \<le> 9999"
    using c by (simp_all add: printable_time_def l_def [symmetric] day_def [symmetric] Let_def)
  have tod: "l = l div nanos_per_day * nanos_per_day + int tod" "tod < 86400000000000"
    by (simp_all add: tod_def nanos_per_day_def)
  define sec where "sec = tod div 1000000000"
  define ns where "ns = tod mod 1000000000"
  let ?R = "frac_str ns @ zone_str z"
  have sec: "sec < 86400" "ns < 1000000000" using tod(2) by (simp_all add: sec_def ns_def less_mult_imp_div_less)
  have "length (month_lengths y) = 12" "\<forall>n \<in> set (month_lengths y). n \<le> 31" by (simp_all add: month_lengths_def)
  moreover have "m - 1 < 12" using civil(2,3) [OF c] by linarith
  ultimately have ml: "month_lengths y ! (m - 1) \<le> 31" by simp
  have nums: "nat y < 10000" "nat d < 100" using y ml civil(5) [OF c] by linarith+
  have str: "format_RFC3339Nano z t = dec 4 (nat y) @ CHR ''-'' # dec 2 m @ CHR ''-'' # dec 2 (nat d) @ CHR ''T'' #
      dec 2 (sec div 3600) @ CHR '':'' # dec 2 (sec mod 3600 div 60) @ CHR '':'' # dec 2 (sec mod 60) @ ?R" (is "_ = ?s")
    using civil(2,3) [OF c] nums y clock_parts(1-3) [OF sec(1)]
    by (simp add: format_RFC3339Nano_def l_def [symmetric] day_def [symmetric] tod_def [symmetric] sec_def [symmetric] ns_def [symmetric] c Let_def year_str_def clock_str_def)
  note sl = layout_slices [OF str, simplified]
  have "parse_date ?s = Some day"
    unfolding parse_date_def using civil [OF c] y ml
    by (simp add: sl [unfolded str] daysIn_def)
  moreover have "parse_clock ?s = Some sec"
    unfolding parse_clock_def using clock_parts [OF sec(1)] by (simp add: sl [unfolded str])
  moreover have "parse_frac ?R = (ns, zone_str z)"
    using zone_str_head sec(2) by (intro parse_frac_str) auto
  moreover have "(day - unix_epoch_day) * nanos_per_day + int sec * 1000000000 + int ns - z * 1000000000 = t"
  proof -
    have "int sec * 1000000000 + int ns = int tod"
      unfolding sec_def ns_def by (metis div_mult_mod_eq of_nat_add of_nat_mult of_nat_numeral)
    then show ?thesis using tod(1) by (simp add: day_def l_def)
  qed
  ultimately show ?thesis
    unfolding str parseRFC3339_def by (simp add: sl [unfolded str] parse_zone_str [OF z])
qed

lemma time_Parse_format: "printable_time z t \<Longrightarrow> time_Parse fallback (format_RFC3339Nano z t) = Some t"
  by (simp add: time_Parse_def parseRFC3339_format)

end
