(* ===== verification/Audit_Log.thy ===== *)
theory Audit_Log
  imports Demo Go_Library
begin

text \<open>
  The Audit context (\<^verbatim>\<open>internal/audit\<close>): the append-only log, filled from the events of the outbox by
  \<open>RecordEntry_HandleEvent\<close>, and its listing page by page with an opaque cursor. An entry is
  identified with the event it records by \<open>source_event_id\<close>, which is unique.

  The main result here is \<open>audit_pages\<close>: following the cursors from the first page on ends, and
  visits every entry of the organization exactly once, newest first.
\<close>

section \<open>Entries\<close>

definition NewEntry :: "id \<Rightarrow> time \<Rightarrow> id \<Rightarrow> id \<Rightarrow> string \<Rightarrow> string \<Rightarrow> string \<Rightarrow> string \<Rightarrow> payload \<Rightarrow> Entry" where
  "NewEntry uuid now organizationID sourceEventID actor action targetType targetID metadata =
     \<lparr>ae_ID = uuid, ae_OrganizationID = organizationID, ae_SourceEventID = sourceEventID, ae_Actor = actor,
      ae_Action = action, ae_TargetType = targetType, ae_TargetID = targetID, ae_Metadata = metadata,
      ae_CreatedAt = now\<rparr>"

definition AuditEntryRepository_Create :: "Entry \<Rightarrow> unit io" where
  "AuditEntryRepository_Create entry = tx (\<lambda>_ d.
     if list_ex (\<lambda>a. ae_SourceEventID a = ae_SourceEventID entry) (audit_entries d) then Inr ((), d)
     else if \<not> list_ex (\<lambda>og. org_ID og = ae_OrganizationID entry) (organizations d) then Inl ErrForeignKeyViolation
     else if list_ex (\<lambda>a. ae_ID a = ae_ID entry) (audit_entries d) then Inl ErrUniqueViolation
     else Inr ((), d\<lparr>audit_entries := audit_entries d @ [entry]\<rparr>))"

text \<open>The key of the keyset: the order of the listing is descending in it.\<close>

definition entry_key :: "Entry \<Rightarrow> time \<times> id" where
  "entry_key a = (ae_CreatedAt a, ae_ID a)"

text \<open>The columns that are selected do not include \<open>source_event_id\<close>.\<close>

definition scan_entry :: "Entry \<Rightarrow> Entry" where
  "scan_entry a = a\<lparr>ae_SourceEventID := []\<rparr>"

definition AuditEntryRepository_ListByOrganization :: "id \<Rightarrow> nat \<Rightarrow> (time \<times> id) option \<Rightarrow> Entry list io" where
  "AuditEntryRepository_ListByOrganization organizationID limit before = query (\<lambda>d.
     Inr (map scan_entry (take limit (rev (sort_key entry_key (filter (\<lambda>a. ae_OrganizationID a = organizationID
       \<and> (case before of None \<Rightarrow> True | Some k \<Rightarrow> entry_key a < k)) (audit_entries d)))))))"

text \<open>
  A type assertion \<^verbatim>\<open>payload["actor"].(string)\<close> whose result is ignored leaves the empty string when the key
  is missing.
\<close>

definition payload_string :: "payload \<Rightarrow> string \<Rightarrow> string" where
  "payload_string p k = (case map_of p k of None \<Rightarrow> [] | Some s \<Rightarrow> s)"

definition entry_for :: "id \<Rightarrow> time \<Rightarrow> Event \<Rightarrow> Entry" where
  "entry_for uuid now event = NewEntry uuid now (ev_OrganizationID event) (ev_ID event)
     (payload_string (ev_Payload event) ''actor'') (ev_EventType event) (payload_string (ev_Payload event) ''target_type'')
     (payload_string (ev_Payload event) ''target_id'') (ev_Payload event)"

definition RecordEntry_HandleEvent :: "id \<Rightarrow> Event \<Rightarrow> unit io" where
  "RecordEntry_HandleEvent uuid event =
     bindE nowE (\<lambda>now. AuditEntryRepository_Create (entry_for uuid now event))"

section \<open>Pages\<close>

definition defaultPageLimit :: int where "defaultPageLimit = 50"
definition maxPageLimit :: int where "maxPageLimit = 500"

text \<open>
  \<open>zone\<close>: the offset from UTC, in seconds, of the location of the times the database driver returns,
  at each time; \<open>fallback\<close> is that of \<^const>\<open>time_Parse\<close>.
\<close>

definition EncodeCursor :: "(time \<Rightarrow> int) \<Rightarrow> time \<Rightarrow> id \<Rightarrow> string" where
  "EncodeCursor zone createdAt i = b64_encode (format_RFC3339Nano (zone createdAt) createdAt @ CHR ''|'' # i)"

text \<open>\<^verbatim>\<open>strings.SplitN(raw, "|", 2)\<close> has two parts exactly when there is a separator.\<close>

definition DecodeCursor :: "(string \<Rightarrow> time option) \<Rightarrow> string \<Rightarrow> (time \<times> id) option" where
  "DecodeCursor fallback cursor = (case b64_decode cursor of
     None \<Rightarrow> None
   | Some raw \<Rightarrow>
       if CHR ''|'' \<notin> set raw then None
       else case time_Parse fallback (takeWhile (\<lambda>c. c \<noteq> CHR ''|'') raw) of
         None \<Rightarrow> None
       | Some t \<Rightarrow> Some (t, tl (dropWhile (\<lambda>c. c \<noteq> CHR ''|'') raw)))"

record EntryPage =
  page_Entries :: "Entry list"
  page_NextCursor :: string

definition page_limit :: "int \<Rightarrow> nat" where
  "page_limit n = nat (let limit = (if n \<le> 0 then defaultPageLimit else n)
     in if limit > maxPageLimit then maxPageLimit else limit)"

definition ListAuditEntries_Execute :: "(time \<Rightarrow> int) \<Rightarrow> (string \<Rightarrow> time option) \<Rightarrow> string list \<Rightarrow> id \<Rightarrow> id \<Rightarrow> int \<Rightarrow> string
    \<Rightarrow> EntryPage io" where
  "ListAuditEntries_Execute zone fallback ctx organizationID requestingUserID lim cursor =
     bindE (HasPermission ctx organizationID requestingUserID ''organization:manage'') (\<lambda>allowed.
     guardE allowed ErrForbidden (
     let limit = page_limit lim in
     bindE (if cursor = [] then retE None
            else case DecodeCursor fallback cursor of
              None \<Rightarrow> throwE (ValidationError ''invalid cursor'')
            | Some k \<Rightarrow> retE (Some k)) (\<lambda>before.
     bindE (AuditEntryRepository_ListByOrganization organizationID (limit + 1) before) (\<lambda>entries.
     if length entries > limit
     then retE \<lparr>page_Entries = take limit entries,
       page_NextCursor = EncodeCursor zone (ae_CreatedAt (entries ! (limit - 1))) (ae_ID (entries ! (limit - 1)))\<rparr>
     else retE \<lparr>page_Entries = entries, page_NextCursor = []\<rparr>))))"

section \<open>The cursor\<close>

lemma format_no_bar: "CHR ''|'' \<notin> set (format_RFC3339Nano z t)"
proof -
  have no: "\<not> is_digit CHR ''|''" by (simp add: is_digit_def in_range_def)
  have d: "digit (n mod 10) \<noteq> CHR ''|''" for n using no by (metis digit_props(1) mod_less_divisor zero_less_numeral)
  have dec: "CHR ''|'' \<notin> set (dec w n)" for w n using dec_digits no by blast
  have "CHR ''|'' \<notin> set (appendInt w n)" for w n
    by (induction w n rule: appendInt.induct) (subst appendInt.simps, simp add: dec d [symmetric])
  with dec show ?thesis
    by (auto simp: format_RFC3339Nano_def Let_def year_str_def clock_str_def frac_str_def zone_str_def
        dest: set_dropWhileD split: prod.split)
qed

lemma DecodeCursor_EncodeCursor:
  assumes "printable_time (zone t) t"
  shows "DecodeCursor fallback (EncodeCursor zone t i) = Some (t, i)"
  using assms format_no_bar [of "zone t" t]
  by (simp add: DecodeCursor_def EncodeCursor_def b64_decode_encode time_Parse_format takeWhile_append dropWhile_append)

lemma EncodeCursor_nonempty: "EncodeCursor zone t i \<noteq> []"
proof
  assume "EncodeCursor zone t i = []"
  then have "b64_decode (b64_encode (format_RFC3339Nano (zone t) t @ CHR ''|'' # i)) = b64_decode []"
    by (simp add: EncodeCursor_def)
  then show False by (simp add: b64_decode_encode) (simp add: b64_decode_def)
qed

section \<open>Following the cursors\<close>

text \<open>The entries of an organization in the order of the listing.\<close>

definition audit_log :: "id \<Rightarrow> db \<Rightarrow> Entry list" where
  "audit_log og d = rev (sort_key entry_key (filter (\<lambda>a. ae_OrganizationID a = og) (audit_entries d)))"

text \<open>
  A client that asks for the next page as long as there is a cursor. \<open>None\<close>: a page could not be
  read, or there were more than the given number of pages.
\<close>

fun walk_pages :: "nat \<Rightarrow> (string \<Rightarrow> ('a list \<times> string) option) \<Rightarrow> string \<Rightarrow> 'a list list option" where
  "walk_pages 0 page cursor = None"
| "walk_pages (Suc n) page cursor = (case page cursor of
     None \<Rightarrow> None
   | Some (xs, next_cursor) \<Rightarrow> if next_cursor = [] then Some [xs]
       else map_option ((#) xs) (walk_pages n page next_cursor))"

text \<open>
  The contract of a listing by pages: \<open>cursor_at s k\<close> is the cursor for the page that starts at
  position \<open>k\<close> of the whole list \<open>L s\<close>.
\<close>

locale keyset_pages =
  fixes wf :: "'s \<Rightarrow> bool" and L :: "'s \<Rightarrow> 'a list" and page :: "'s \<Rightarrow> string \<Rightarrow> ('a list \<times> string) option"
    and cursor_at :: "'s \<Rightarrow> nat \<Rightarrow> string" and limit :: "'s \<Rightarrow> nat"
  assumes limit_pos: "0 < limit s"
    and cursor_nonempty: "0 < k \<Longrightarrow> cursor_at s k \<noteq> []"
    and page_at: "wf s \<Longrightarrow> k \<le> length (L s) \<Longrightarrow> page s (cursor_at s k) = Some (take (limit s) (drop k (L s)),
      if k + limit s < length (L s) then cursor_at s (k + limit s) else [])"
begin

lemma walk_from:
  assumes "wf s" and "k \<le> length (L s)" and "length (L s) - k < n"
  shows "\<exists>ps. walk_pages n (page s) (cursor_at s k) = Some ps \<and> concat ps = drop k (L s)
    \<and> (\<forall>p \<in> set ps. length p \<le> limit s)"
  using assms(2,3)
proof (induction n arbitrary: k)
  case (Suc n)
  show ?case
  proof (cases "k + limit s < length (L s)")
    case True
    then have "length (L s) - (k + limit s) < n" using Suc.prems limit_pos [of s] by linarith
    from Suc.IH [OF less_imp_le [OF True] this] obtain ps where
      ps: "walk_pages n (page s) (cursor_at s (k + limit s)) = Some ps"
        "concat ps = drop (k + limit s) (L s)" "\<forall>p \<in> set ps. length p \<le> limit s" by blast
    have "take (limit s) (drop k (L s)) @ drop (k + limit s) (L s) = drop k (L s)"
      by (metis add.commute append_take_drop_id drop_drop)
    with ps True Suc.prems show ?thesis
      using cursor_nonempty [of "k + limit s" s] limit_pos [of s] by (simp add: page_at [OF assms(1)])
  next
    case False
    with Suc.prems show ?thesis by (auto simp: page_at [OF assms(1)])
  qed
qed simp

end

lemma page_limit_pos: "0 < page_limit n" "page_limit n \<le> 500"
  by (auto simp: page_limit_def defaultPageLimit_def maxPageLimit_def)

lemma scan_entry_key [simp]: "entry_key (scan_entry a) = entry_key a" "ae_ID (scan_entry a) = ae_ID a"
  "ae_CreatedAt (scan_entry a) = ae_CreatedAt a"
  by (simp_all add: scan_entry_def entry_key_def)

lemma filter_audit_log:
  "rev (sort_key entry_key (filter (\<lambda>a. ae_OrganizationID a = og \<and> p a) (audit_entries d))) = filter p (audit_log og d)"
proof -
  have "filter (\<lambda>a. ae_OrganizationID a = og \<and> p a) (audit_entries d)
      = filter p (filter (\<lambda>a. ae_OrganizationID a = og) (audit_entries d))" by simp
  then show ?thesis by (simp only: audit_log_def rev_filter [symmetric] filter_sort)
qed

lemma sorted_wrt_sort_key:
  assumes "distinct (map f xs)"
  shows "sorted_wrt (\<lambda>a b. f b < f a) (rev (sort_key f xs))"
proof -
  have "sorted (map f (sort_key f xs))" by simp
  moreover have "distinct (map f (sort_key f xs))" using assms by (simp add: distinct_map)
  ultimately have "sorted_wrt (<) (map f (sort_key f xs))" by (simp add: strict_sorted_iff)
  then show ?thesis by (simp add: sorted_wrt_map sorted_wrt_rev)
qed

lemma audit_log_desc:
  assumes "distinct (map ae_ID (audit_entries d))"
  shows "sorted_wrt (\<lambda>a b. entry_key b < entry_key a) (audit_log og d)"
proof -
  have "distinct (map entry_key (filter (\<lambda>a. ae_OrganizationID a = og) (audit_entries d)))"
    using assms by (auto simp: distinct_map inj_on_def entry_key_def)
  then show ?thesis unfolding audit_log_def by (rule sorted_wrt_sort_key)
qed

lemma filter_below_nth:
  "sorted_wrt (\<lambda>a b. (f b :: 'k :: order) < f a) xs \<Longrightarrow> k < length xs \<Longrightarrow> filter (\<lambda>a. f a < f (xs ! k)) xs = drop (Suc k) xs"
proof (induction xs arbitrary: k)
  case (Cons x xs)
  show ?case
  proof (cases k)
    case 0
    with Cons.prems show ?thesis by simp
  next
    case (Suc j)
    with Cons.prems have "f (xs ! j) < f x" by simp
    with Cons Suc show ?thesis by (auto dest: order.asym)
  qed
qed simp

text \<open>A request for the log: where and with what it is read, by whom and with which limit.\<close>

record audit_request =
  ar_zone :: "time \<Rightarrow> int"
  ar_fallback :: "string \<Rightarrow> time option"
  ar_ctx :: "string list"
  ar_org :: id
  ar_user :: id
  ar_limit :: int
  ar_world :: world

definition readable :: "audit_request \<Rightarrow> bool" where
  "readable s \<longleftrightarrow> faults (ar_world s) = [] \<and> permitted (ar_ctx s) (db (ar_world s)) (ar_org s) (ar_user s) ''organization:manage'' None None
     \<and> distinct (map ae_ID (audit_entries (db (ar_world s))))
     \<and> list_all (\<lambda>a. printable_time (ar_zone s (ae_CreatedAt a)) (ae_CreatedAt a)) (audit_entries (db (ar_world s)))"

definition audit_page :: "audit_request \<Rightarrow> string \<Rightarrow> (Entry list \<times> string) option" where
  "audit_page s cursor = (case fst (run (ListAuditEntries_Execute (ar_zone s) (ar_fallback s) (ar_ctx s) (ar_org s) (ar_user s)
       (ar_limit s) cursor) (ar_world s)) of
     Inl _ \<Rightarrow> None | Inr p \<Rightarrow> Some (page_Entries p, page_NextCursor p))"

definition request_log :: "audit_request \<Rightarrow> Entry list" where
  "request_log s = map scan_entry (audit_log (ar_org s) (db (ar_world s)))"

definition request_cursor :: "audit_request \<Rightarrow> nat \<Rightarrow> string" where
  "request_cursor s k = (if k = 0 then []
     else EncodeCursor (ar_zone s) (ae_CreatedAt (request_log s ! (k - 1))) (ae_ID (request_log s ! (k - 1))))"

lemma request_log_props:
  assumes "readable s"
  shows "sorted_wrt (\<lambda>a b. entry_key b < entry_key a) (request_log s)"
    and "a \<in> set (request_log s) \<Longrightarrow> printable_time (ar_zone s (ae_CreatedAt a)) (ae_CreatedAt a)"
    and "set (request_log s) = scan_entry ` {a \<in> set (audit_entries (db (ar_world s))). ae_OrganizationID a = ar_org s}"
  using audit_log_desc [of "db (ar_world s)" "ar_org s"] assms
  by (auto simp: request_log_def sorted_wrt_map readable_def audit_log_def list_all_iff)

lemma ListByOrganization_at:
  assumes "readable s" and "k \<le> length (request_log s)"
  shows "run (bindE (if request_cursor s k = [] then retE None
            else case DecodeCursor (ar_fallback s) (request_cursor s k) of
              None \<Rightarrow> throwE e | Some k \<Rightarrow> retE (Some k))
         (\<lambda>before. bindE (AuditEntryRepository_ListByOrganization (ar_org s) n before) f)) (ar_world s)
     = run (f (take n (drop k (request_log s)))) (ar_world s)"
proof (cases "k = 0")
  case True
  with assms(1) show ?thesis
    by (simp add: request_cursor_def AuditEntryRepository_ListByOrganization_def run_head readable_def
        request_log_def audit_log_def take_map)
next
  case False
  let ?l = "audit_log (ar_org s) (db (ar_world s))"
  from False assms have k: "k - 1 < length ?l" "Suc (k - 1) = k" by (auto simp: request_log_def)
  have "printable_time (ar_zone s (ae_CreatedAt (?l ! (k - 1)))) (ae_CreatedAt (?l ! (k - 1)))"
    using request_log_props(2) [OF assms(1), of "request_log s ! (k - 1)"] k by (simp add: request_log_def)
  then have "DecodeCursor (ar_fallback s) (request_cursor s k) = Some (entry_key (?l ! (k - 1)))"
    using False k by (simp add: request_cursor_def request_log_def DecodeCursor_EncodeCursor entry_key_def)
  moreover have "request_cursor s k \<noteq> []" using False EncodeCursor_nonempty by (simp add: request_cursor_def)
  moreover have "filter (\<lambda>a. entry_key a < entry_key (?l ! (k - 1))) ?l = drop k ?l"
    using filter_below_nth [of entry_key ?l "k - 1"] audit_log_desc assms(1) k by (simp add: readable_def)
  ultimately show ?thesis using assms(1)
    by (simp add: AuditEntryRepository_ListByOrganization_def run_head readable_def filter_audit_log
        request_log_def take_map drop_map)
qed

interpretation audit_pages: keyset_pages readable request_log audit_page request_cursor "\<lambda>s. page_limit (ar_limit s)"
proof
  fix s :: audit_request and k
  show "0 < page_limit (ar_limit s)" by (rule page_limit_pos)
  show "0 < k \<Longrightarrow> request_cursor s k \<noteq> []" by (simp add: request_cursor_def EncodeCursor_nonempty)
  assume s: "readable s" and k: "k \<le> length (request_log s)"
  let ?n = "page_limit (ar_limit s)" and ?r = "drop k (request_log s)"
  have next_cursor: "EncodeCursor (ar_zone s) (ae_CreatedAt (?r ! (?n - Suc 0))) (ae_ID (?r ! (?n - Suc 0))) = request_cursor s (k + ?n)"
    if "?n < length ?r" using that page_limit_pos(1) [of "ar_limit s"] by (simp add: request_cursor_def)
  have more: "?n < length (request_log s) - k \<longleftrightarrow> k + ?n < length (request_log s)" by linarith
  have pm: "permitted (ar_ctx s) (db (ar_world s)) (ar_org s) (ar_user s) ''organization:manage'' None None"
    "ctx_permits (ar_ctx s) ''organization:manage''" "faults (ar_world s) = []"
    using s by (auto simp: readable_def permitted_def)
  show "audit_page s (request_cursor s k) = Some (take ?n ?r, if k + ?n < length (request_log s) then request_cursor s (k + ?n) else [])"
    using pm page_limit_pos(1) [of "ar_limit s"] next_cursor
    by (simp add: audit_page_def ListAuditEntries_Execute_def run_bind_HasPermission run_guardE Let_def
        ListByOrganization_at [OF s k] more)
qed

text \<open>
  C30: Listing the audit log by pages is complete and ends. Following the cursors from the first
  page on, with any limit, a manager of the organization reads every entry of the organization
  exactly once, newest first, in pages of at most 500 entries and after at most as many pages as there
  are entries, plus one. In particular the cursor survives its encoding (base64 of an RFC 3339 time
  and the id), also when several entries have the same time.
\<close>

theorem audit_pages_complete:
  assumes "readable s"
  shows "\<exists>ps. walk_pages (Suc (length (audit_entries (db (ar_world s))))) (audit_page s) [] = Some ps
    \<and> set (concat ps) = scan_entry ` {a \<in> set (audit_entries (db (ar_world s))). ae_OrganizationID a = ar_org s}
    \<and> sorted_wrt (\<lambda>a b. entry_key b < entry_key a) (concat ps)
    \<and> (\<forall>p \<in> set ps. length p \<le> page_limit (ar_limit s) \<and> length p \<le> 500)"
proof -
  have "length (request_log s) - 0 < Suc (length (audit_entries (db (ar_world s))))"
    by (simp add: request_log_def audit_log_def less_Suc_eq_le)
  from audit_pages.walk_from [OF assms _ this] obtain ps where
    "walk_pages (Suc (length (audit_entries (db (ar_world s))))) (audit_page s) (request_cursor s 0) = Some ps"
    and ps: "concat ps = request_log s" "\<forall>p \<in> set ps. length p \<le> page_limit (ar_limit s)" by auto
  then have "walk_pages (Suc (length (audit_entries (db (ar_world s))))) (audit_page s) [] = Some ps"
    by (simp add: request_cursor_def)
  moreover have "\<forall>p \<in> set ps. length p \<le> page_limit (ar_limit s) \<and> length p \<le> 500"
    using ps(2) page_limit_pos(2) [of "ar_limit s"] by auto
  ultimately show ?thesis using request_log_props(1,3) [OF assms] by (intro exI [of _ ps]) (simp add: ps(1))
qed

text \<open>Three entries, two of them with the same time, read in pages of two.\<close>

definition demo_entry :: "id \<Rightarrow> time \<Rightarrow> Entry" where
  "demo_entry i t = NewEntry i t ''o1'' i ''alice'' ''RunQueued'' ''run'' ''r1'' []"

definition demo_audit :: audit_request where
  "demo_audit = \<lparr>ar_zone = (\<lambda>_. 3600), ar_fallback = (\<lambda>_. None), ar_ctx = [], ar_org = ''o1'', ar_user = ''alice'', ar_limit = 2,
     ar_world = demo\<lparr>db := demo_db\<lparr>audit_entries := [demo_entry ''a1'' 7, demo_entry ''a2'' 7, demo_entry ''a3'' 5]\<rparr>\<rparr>\<rparr>"

lemma demo_printable: "printable_time 3600 7" "printable_time 3600 5"
  by code_simp+

lemma demo_audit_readable: "readable demo_audit"
proof -
  have "permitted [] (demo_db\<lparr>audit_entries := a\<rparr>) ''o1'' ''alice'' ''organization:manage'' None None" for a
    by (rule demo_permitted_in) (simp_all add: AllPermissions_def)
  then show ?thesis using demo_printable by (simp add: readable_def demo_audit_def demo_entry_def NewEntry_def)
qed

theorem audit_pages_complete_witness:
  "\<exists>ps. walk_pages 4 (audit_page demo_audit) [] = Some ps
     \<and> set (concat ps) = scan_entry ` {demo_entry ''a1'' 7, demo_entry ''a2'' 7, demo_entry ''a3'' 5}
     \<and> sorted_wrt (\<lambda>a b. entry_key b < entry_key a) (concat ps)"
proof -
  have "{a \<in> set (audit_entries (db (ar_world demo_audit))). ae_OrganizationID a = ar_org demo_audit}
      = {demo_entry ''a1'' 7, demo_entry ''a2'' 7, demo_entry ''a3'' 5}"
    and "Suc (length (audit_entries (db (ar_world demo_audit)))) = 4"
    by (auto simp: demo_audit_def demo_entry_def NewEntry_def)
  with audit_pages_complete [OF demo_audit_readable] show ?thesis by auto
qed

end
