(* ===== verification/Relay.thy ===== *)
theory Relay
  imports Audit_Log Run_Pool
begin

text \<open>
  The relay of the outbox (\<^verbatim>\<open>internal/platform/outbox/relay.go\<close>) and the handler it is given in
  \<^verbatim>\<open>cmd/control-plane/main.go\<close>, which records an audit entry and then dispatches a queued run.

  Delivery is at least once: a relay may die, or a transaction may fail, after the handler and
  before the event is marked published, and the relays of several replicas may read the same events.
  The theorem \<open>audit_exactly_once\<close> shows that the effect on the audit log is exactly once all the same.
\<close>

section \<open>The relay\<close>

definition relay_limit :: nat where "relay_limit = 100"

definition pending :: "db \<Rightarrow> Event list" where
  "pending d = take relay_limit (sort_key ev_OccurredAt (filter (\<lambda>e. ev_PublishedAt e = None) (outbox_events d)))"

definition MarkPublished :: "id \<Rightarrow> unit io" where
  "MarkPublished i = tx (\<lambda>now d.
     Inr ((), d\<lparr>outbox_events := upd (\<lambda>e. ev_ID e = i) (\<lambda>e. e\<lparr>ev_PublishedAt := Some now\<rparr>) (outbox_events d)\<rparr>))"

definition relay_event :: "(Event \<Rightarrow> unit io) \<Rightarrow> Event \<Rightarrow> unit io" where
  "relay_event handler e =
     bindE (tryE (handler e)) (\<lambda>r. case r of Inl _ \<Rightarrow> retE () | Inr _ \<Rightarrow> MarkPublished (ev_ID e))"

text \<open>The handler of the \<open>n\<close>-th event of a batch: the ids it generates differ from event to event.\<close>

definition Relay_relayBatch :: "(nat \<Rightarrow> Event \<Rightarrow> unit io) \<Rightarrow> unit io" where
  "Relay_relayBatch handler =
     bindE (query (\<lambda>d. Inr (pending d))) (\<lambda>events.
     forE (enumerate 0 events) (\<lambda>(n, e). relay_event (handler n) e))"

definition combinedHandler :: "(id \<Rightarrow> id \<Rightarrow> string \<Rightarrow> string io) \<Rightarrow> (Registry \<Rightarrow> id list) \<Rightarrow> string \<Rightarrow> (nat \<Rightarrow> id) \<Rightarrow> Event \<Rightarrow> unit io" where
  "combinedHandler resolveSecret order inst u event =
     bindE (RecordEntry_HandleEvent (u 0) event) (\<lambda>_.
     RunDispatch_HandleEvent resolveSecret order (\<lambda>n. u (Suc n)) inst event)"

section \<open>The invariant of the audit log\<close>

text \<open>An event without the time of its publication: what a relay reads of it.\<close>

definition core :: "Event \<Rightarrow> Event" where
  "core e = e\<lparr>ev_PublishedAt := None\<rparr>"

text \<open>The audit entry \<open>a\<close> records the event \<open>e\<close>.\<close>

definition records :: "Entry \<Rightarrow> Event \<Rightarrow> bool" where
  "records a e \<longleftrightarrow> a = entry_for (ae_ID a) (ae_CreatedAt a) e"

text \<open>
  No event is recorded twice, an entry records an event of the outbox, and an event that is marked
  published has been recorded.
\<close>

definition log_inv :: "db \<Rightarrow> bool" where
  "log_inv d \<longleftrightarrow> distinct (map ev_ID (outbox_events d)) \<and> distinct (map ae_SourceEventID (audit_entries d))
     \<and> (\<forall>a \<in> set (audit_entries d). \<exists>e \<in> set (outbox_events d). records a e)
     \<and> (\<forall>e \<in> set (outbox_events d). ev_PublishedAt e \<noteq> None \<longrightarrow> (\<exists>a \<in> set (audit_entries d). records a e))"

text \<open>
  What every program does to the two tables: events and entries are only added, an event changes
  at most in the time of its publication, and the invariant is kept.
\<close>

definition log_grows :: "db \<Rightarrow> db \<Rightarrow> bool" where
  "log_grows d d' \<longleftrightarrow> (\<exists>es. map core (outbox_events d') = map core (outbox_events d) @ es)
     \<and> (\<exists>as. audit_entries d' = audit_entries d @ as) \<and> (log_inv d \<longrightarrow> log_inv d')"

definition relay_guar :: "id \<Rightarrow> world \<Rightarrow> world \<Rightarrow> bool" where
  "relay_guar t w w' = log_grows (db w) (db w')"

lemma log_grows_refl [simp]: "log_grows d d"
  by (simp add: log_grows_def)

lemma log_grows_trans: "log_grows d d' \<Longrightarrow> log_grows d' d'' \<Longrightarrow> log_grows d d''"
  unfolding log_grows_def by (metis append.assoc)

interpretation log_rg: rely_guarantee relay_guar relay_guar "\<lambda>w. log_inv (db w)"
  by unfold_locales (auto simp: relay_guar_def log_grows_def intro: log_grows_trans [unfolded log_grows_def])

lemma relay_guar_eq: "relay_guar t = (\<lambda>w w'. log_grows (db w) (db w'))"
  by (intro ext) (simp add: relay_guar_def)

text \<open>A transaction of any other context: it may add events, not published and with new ids.\<close>

definition emits :: "db \<Rightarrow> db \<Rightarrow> bool" where
  "emits d d' \<longleftrightarrow> audit_entries d' = audit_entries d \<and> (\<exists>es. outbox_events d' = outbox_events d @ es
     \<and> distinct (map ev_ID (outbox_events d @ es)) = distinct (map ev_ID (outbox_events d))
     \<and> (\<forall>e \<in> set es. ev_PublishedAt e = None))"

lemma emits_refl [simp]: "emits d d"
  by (simp add: emits_def)

lemma emits_frame: "outbox_events d' = outbox_events d \<Longrightarrow> audit_entries d' = audit_entries d \<Longrightarrow> emits d d'"
  by (simp add: emits_def)

lemma emits_and_emit:
  "and_emit uuid now og ty p a d = Inr (b, d') \<Longrightarrow> outbox_events d = outbox_events d0 \<Longrightarrow> audit_entries d = audit_entries d0
     \<Longrightarrow> emits d0 d'"
  by (auto simp: and_emit_def outbox_Write_def emits_def list_ex_iff split: if_splits)

lemma emits_runs [simp]: "emits d (d\<lparr>runs := x\<rparr>)"
  by (simp add: emits_frame)

lemma emits_and_emit_runs: "and_emit uuid now og ty p a (d\<lparr>runs := x\<rparr>) = Inr (b, d') \<Longrightarrow> emits d d'"
  by (erule emits_and_emit) simp_all

lemma emits_log_grows: "emits d d' \<Longrightarrow> log_grows d d'"
proof -
  assume "emits d d'"
  then obtain es where es: "audit_entries d' = audit_entries d" "outbox_events d' = outbox_events d @ es"
    "distinct (map ev_ID (outbox_events d @ es)) = distinct (map ev_ID (outbox_events d))"
    "\<forall>e \<in> set es. ev_PublishedAt e = None" by (auto simp: emits_def)
  then have "log_inv d \<Longrightarrow> log_inv d'" unfolding log_inv_def by auto
  with es show ?thesis by (auto simp: log_grows_def)
qed

section \<open>The programs of the other contexts\<close>

abbreviation emitting :: "'a io \<Rightarrow> bool" where
  "emitting m \<equiv> steps_in (\<lambda>w w'. emits (db w) (db w')) m"

lemma emitting_basic [steps]:
  "emitting (local_step inst f)" "emitting (redis_step g)" "emitting (vault_call srv rq)"
  by (auto simp: local_step_def redis_step_def vault_call_def steps_in_atomic split: prod.split)

lemma emitting_query [steps]: "emitting (query q)" "emitting nowE"
  by (auto intro: steps)

lemma emitting_logged [steps]: "emitting m \<Longrightarrow> emitting (logged m)"
  by (auto simp: logged_def intro!: steps)

lemma emitting_access [steps]: "emitting (HasPermissionAtScope ctx og u p pr wk)" "emitting (IsMember og u)"
  "emitting (HasPermission ctx og u p)"
  by (auto simp: HasPermission_def HasPermissionAtScope_def IsMember_def split: prod.split intro!: steps)

lemma emitting_lock [steps]: "emitting (TryLock og i r)" "emitting (Unlock og i r)"
  by (auto simp: TryLock_def Unlock_def intro!: steps_in_tx emits_frame split: sum.splits)

lemma emitting_runs [steps]:
  "emitting (RunRepository_Create uuid r)" "emitting (RunRepository_Update uuid r actor)"
  "emitting (TryStartApplying uuid og i k)" "emitting (RevertToQueued og i)" "emitting (MarkErroredIfStillApplying uuid og i)"
  by (auto simp: RunRepository_Create_def RunRepository_Update_def TryStartApplying_def RevertToQueued_def
      MarkErroredIfStillApplying_def Let_def intro!: steps_in_tx elim: emits_and_emit_runs
      split: if_splits option.splits)

lemma emitting_secret [steps]: "emitting (ResolveSecret_ResolveValue cr key srv og m p)"
  by (auto simp: ResolveSecret_ResolveValue_def SecretMountRepository_GetByID_def Vault_ReadSecret_def Vault_login_def
      intro!: steps split: option.split)

lemma emitting_resolve:
  assumes [steps]: "\<And>og m p. emitting (rs og m p)"
  shows "emitting (ResolveValue rs og wk k usr)"
proof -
  have [steps]: "emitting (tryScope rs og t i key)" for og t i key
    by (auto simp: tryScope_def GetByScope_def intro!: steps split: sum.split option.split)
  show ?thesis
    by (auto simp: ResolveValue_def ResolveVariable_Execute_def WorkspaceRepository_Exists_def GetScope_def
        intro!: steps split: sum.split option.split prod.split)
qed

lemma emitting_registry [steps]:
  "emitting (Registry_Dispatch order inst job)" "emitting (Registry_CancelJob inst i)" "emitting (Registry_Forget inst i)"
  by (auto simp: Registry_Dispatch_def Registry_CancelJob_def Registry_cancelLocal_def Registry_Forget_def redis_defs
      intro!: steps split: option.split)

lemma emitting_dispatch [steps]:
  assumes "\<And>og m p. emitting (rs og m p)"
  shows "emitting (RunDispatch_HandleEvent rs order u inst e)"
proof -
  have [steps]: "emitting (ResolveValue rs og wk k usr)" for og wk k usr using assms by (rule emitting_resolve)
  have [steps]: "emitting (RunDispatch_fail uuid r i)" for uuid r i
    by (auto simp: RunDispatch_fail_def intro!: steps)
  have [steps]: "emitting (RunDispatch_send order inst job)" for job
    by (auto simp: RunDispatch_send_def intro!: steps)
  show ?thesis
    by (auto simp: RunDispatch_HandleEvent_def RunRepository_GetByID_def GetExecutionEngine_def Let_def
        intro!: steps split: option.split)
qed

lemma emitting_purge [steps]: "emitting (WorkspaceRepository_Purge og i)" "emitting (ProjectRepository_Purge og i)"
  by (auto simp: WorkspaceRepository_Purge_def WorkspaceRepository_Purge_body_def ProjectRepository_Purge_def
      ProjectRepository_Purge_body_def Let_def intro!: steps_in_tx emits_frame split: sum.splits if_splits)

lemma emitting_program: "emitting (program cr key srv j)"
proof (cases j)
  case (JReap u inst s)
  have [steps]: "emitting (reapCandidate uuid inst c)" for uuid c
    by (auto simp: reapCandidate_def intro!: steps split: sum.split bool.split)
  show ?thesis
    by (auto simp: JReap StaleRunReaper_reapOnce_def FindStaleApplyingRuns_def intro!: steps split: prod.split)
qed (auto simp: void_def TriggerRun_Execute_def WorkspaceExists_def IsArchived_def CancelRun_Execute_def
    RunRepository_GetByID_def WorkerReport_HandleReport_def Let_def DeleteWorkspace_Execute_def DeleteProject_Execute_def
    WorkspaceRepository_GetByID_def ProjectRepository_GetByID_def ProjectExists_def
    intro!: steps split: sum.split option.split)

section \<open>The relay under interference\<close>

definition has_event :: "Event \<Rightarrow> db \<Rightarrow> bool" where
  "has_event e d \<longleftrightarrow> core e \<in> core ` set (outbox_events d)"

definition recorded :: "Event \<Rightarrow> db \<Rightarrow> bool" where
  "recorded e d \<longleftrightarrow> (\<exists>a \<in> set (audit_entries d). records a e)"

lemma core_sel [simp]: "ev_ID (core e) = ev_ID e" "entry_for i t (core e) = entry_for i t e"
  by (simp_all add: core_def entry_for_def)

lemma records_core: "core e = core e' \<Longrightarrow> records a e = records a e'"
  by (metis core_sel(2) records_def)

lemma records_source: "records a e \<Longrightarrow> ae_SourceEventID a = ev_ID e"
  unfolding records_def entry_for_def NewEntry_def by (metis Entry.select_convs(3))

lemma log_grows_keeps:
  assumes "log_grows d d'"
  shows "log_inv d \<Longrightarrow> log_inv d'" "has_event e d \<Longrightarrow> has_event e d'" "recorded e d \<Longrightarrow> recorded e d'"
proof -
  from assms obtain es as where "map core (outbox_events d') = map core (outbox_events d) @ es"
    and as: "audit_entries d' = audit_entries d @ as" and inv: "log_inv d \<longrightarrow> log_inv d'" by (auto simp: log_grows_def)
  then have "set (map core (outbox_events d')) = set (map core (outbox_events d)) \<union> set es" by (metis set_append)
  then show "has_event e d \<Longrightarrow> has_event e d'" by (auto simp: has_event_def)
  show "log_inv d \<Longrightarrow> log_inv d'" using inv by simp
  show "recorded e d \<Longrightarrow> recorded e d'" using as by (auto simp: recorded_def)
qed

lemma same_event:
  assumes "log_inv d" "has_event e d" "e' \<in> set (outbox_events d)" "ev_ID e' = ev_ID e"
  shows "core e' = core e"
proof -
  from assms(2) obtain x where x: "x \<in> set (outbox_events d)" "core x = core e" by (auto simp: has_event_def)
  then have "ev_ID x = ev_ID e" by (metis core_sel(1))
  moreover from assms(1) have "inj_on ev_ID (set (outbox_events d))" by (simp add: log_inv_def distinct_map)
  ultimately have "e' = x" using x(1) assms(3,4) by (metis inj_onD)
  with x(2) show ?thesis by simp
qed

lemma Create_body:
  assumes "log_inv d" "has_event e d"
  shows Create_old: "list_ex (\<lambda>a. ae_SourceEventID a = ev_ID e) (audit_entries d) \<Longrightarrow> recorded e d"
    and Create_new: "\<not> list_ex (\<lambda>a. ae_SourceEventID a = ev_ID e) (audit_entries d)
      \<Longrightarrow> log_grows d (d\<lparr>audit_entries := audit_entries d @ [entry_for i t e]\<rparr>)"
proof -
  assume "list_ex (\<lambda>a. ae_SourceEventID a = ev_ID e) (audit_entries d)"
  then obtain a where a: "a \<in> set (audit_entries d)" "ae_SourceEventID a = ev_ID e" by (auto simp: list_ex_iff)
  with assms(1) obtain e' where e': "e' \<in> set (outbox_events d)" "records a e'" by (auto simp: log_inv_def)
  from e'(2) a(2) have "ev_ID e' = ev_ID e" by (simp add: records_source)
  with e'(1) have "core e' = core e" by (rule same_event [OF assms])
  from records_core [OF this] e'(2) have "records a e" by blast
  with a(1) show "recorded e d" by (auto simp: recorded_def)
next
  assume new: "\<not> list_ex (\<lambda>a. ae_SourceEventID a = ev_ID e) (audit_entries d)"
  have self: "records (entry_for i t e) e" "ae_SourceEventID (entry_for i t e) = ev_ID e"
    by (simp_all add: records_def entry_for_def NewEntry_def)
  from assms(2) obtain e' where e': "e' \<in> set (outbox_events d)" "core e' = core e" by (auto simp: has_event_def)
  from records_core [OF e'(2)] self(1) have "records (entry_for i t e) e'" by blast
  with e'(1) have "log_inv (d\<lparr>audit_entries := audit_entries d @ [entry_for i t e]\<rparr>)"
    using assms(1) new self by (auto simp: log_inv_def list_ex_iff)
  then show "log_grows d (d\<lparr>audit_entries := audit_entries d @ [entry_for i t e]\<rparr>)" by (simp add: log_grows_def)
qed

lemma MarkPublished_grows:
  assumes "log_inv d" "has_event e d" "recorded e d"
  shows "log_grows d (d\<lparr>outbox_events := upd (\<lambda>x. ev_ID x = ev_ID e) (\<lambda>x. x\<lparr>ev_PublishedAt := Some now\<rparr>) (outbox_events d)\<rparr>)"
    (is "log_grows d (d\<lparr>outbox_events := ?evs\<rparr>)")
proof -
  have core: "core (x\<lparr>ev_PublishedAt := p\<rparr>) = core x" for x p by (simp add: core_def)
  have rec: "records a (x\<lparr>ev_PublishedAt := p\<rparr>) = records a x" for a x p by (rule records_core) (rule core)
  have pub: "\<exists>a \<in> set (audit_entries d). records a x" if "x \<in> set (outbox_events d)" "ev_ID x = ev_ID e" for x
  proof -
    have "records a x = records a e" for a by (rule records_core) (rule same_event [OF assms(1,2) that])
    with assms(3) show ?thesis by (simp add: recorded_def)
  qed
  have some: "\<exists>x' \<in> set ?evs. records a x'" if "x \<in> set (outbox_events d)" "records a x" for a x
    using that rec by (cases "ev_ID x = ev_ID e") (auto simp: set_upd)
  have "\<exists>a \<in> set (audit_entries d). records a x" if "x \<in> set ?evs" "ev_PublishedAt x \<noteq> None" for x
    using that(1)
  proof (cases rule: in_set_updE)
    case kept
    with assms(1) that(2) show ?thesis by (simp add: log_inv_def)
  next
    case (changed y)
    with pub rec show ?thesis by auto
  qed
  with assms(1) some have "log_inv (d\<lparr>outbox_events := ?evs\<rparr>)"
    unfolding log_inv_def by (simp add: map_upd) blast
  then show ?thesis by (simp add: log_grows_def map_upd core)
qed

text \<open>
  \<open>relaying P m Q\<close>: from the invariant and \<open>P\<close>, with other programs running, every step of \<open>m\<close> lets the log
  grow, and at its end \<open>Q\<close> holds.
\<close>

definition log_stable :: "(db \<Rightarrow> bool) \<Rightarrow> bool" where
  "log_stable P = (\<forall>d d'. log_grows d d' \<longrightarrow> P d \<longrightarrow> P d')"

definition relaying :: "(db \<Rightarrow> bool) \<Rightarrow> 'a io \<Rightarrow> (err + 'a \<Rightarrow> db \<Rightarrow> bool) \<Rightarrow> bool" where
  "relaying P m Q = (\<forall>t w. log_inv (db w) \<longrightarrow> P (db w) \<longrightarrow>
     rgs (relay_guar t) (relay_guar t) m (\<lambda>r w. log_inv (db w) \<and> Q r (db w)) w)"

lemma log_stable [simp]:
  "log_stable (\<lambda>_. c)" "log_stable (has_event e)" "log_stable (recorded e)"
  by (auto simp: log_stable_def dest: log_grows_keeps)

lemma log_stable_conj [simp]: "log_stable P \<Longrightarrow> log_stable Q \<Longrightarrow> log_stable (\<lambda>d. P d \<and> Q d)"
  by (auto simp: log_stable_def)

lemma log_stable_ball [simp]: "(\<And>x. log_stable (P x)) \<Longrightarrow> log_stable (\<lambda>d. \<forall>x \<in> S. P x d)"
  by (auto simp: log_stable_def)

lemma relaying_tx:
  assumes "log_stable P" "\<And>r. log_stable (Q r)" "\<And>e d. P d \<Longrightarrow> Q (Inl e) d"
    and "\<And>now d a d'. log_inv d \<Longrightarrow> P d \<Longrightarrow> body now d = Inr (a, d') \<Longrightarrow> log_grows d d' \<and> Q (Inr a) d'"
  shows "relaying P (tx body) Q"
  unfolding relaying_def tx_def
proof (intro allI impI)
  fix t and w :: world
  assume w: "log_inv (db w)" "P (db w)"
  let ?f = "\<lambda>w. if fault_now w then (Inl ErrDB, pop w)
     else case body (clock w) (db w) of Inl e \<Rightarrow> (Inl e, pop w) | Inr (a, d) \<Rightarrow> (Inr a, (pop w)\<lparr>db := d\<rparr>)"
  have step: "log_inv (db w') \<and> log_grows (db w') (db (snd (?f w'))) \<and> Q (fst (?f w')) (db (snd (?f w')))"
    if "relay_guar t w w'" for w'
  proof -
    from that w assms(1) have w': "log_inv (db w')" "P (db w')"
      by (auto simp: relay_guar_def log_stable_def dest: log_grows_keeps)
    then show ?thesis using assms(3) assms(4) [OF w'] by (auto split: sum.split)
  qed
  show "rgs (relay_guar t) (relay_guar t) (atomic ?f) (\<lambda>r w. log_inv (db w) \<and> Q r (db w)) w"
  proof (rule log_rg.rgs_atomic)
    fix w' w''
    assume w': "relay_guar t w w'"
    note step' = step [OF w']
    then show "relay_guar t w' (snd (?f w'))" unfolding relay_guar_def by blast
    assume "relay_guar t (snd (?f w')) w''"
    then have g: "log_grows (db (snd (?f w'))) (db w'')" by (simp only: relay_guar_def)
    from step' have "log_inv (db (snd (?f w')))" using log_grows_keeps(1) by blast
    with g have "log_inv (db w'')" by (rule log_grows_keeps)
    moreover have "Q (fst (?f w')) (db w'')" using assms(2) g step' unfolding log_stable_def by blast
    ultimately show "log_inv (db w'') \<and> Q (fst (?f w')) (db w'')" by blast
  qed
qed

lemma relaying_bind:
  assumes "relaying P m R" "\<And>r. relaying (R r) (k r) Q"
  shows "relaying P (res_bind m k) Q"
  unfolding relaying_def
proof (intro allI impI, rule log_rg.rgs_bind)
  fix t and w :: world assume "log_inv (db w)" "P (db w)"
  with assms(1) have "rgs (relay_guar t) (relay_guar t) m (\<lambda>r w. log_inv (db w) \<and> R r (db w)) w" by (simp add: relaying_def)
  then show "rgs (relay_guar t) (relay_guar t) m
      (\<lambda>a w. rgs (relay_guar t) (relay_guar t) (k a) (\<lambda>r w. log_inv (db w) \<and> Q r (db w)) w) w"
    by (rule rgs_mono) (use assms(2) in \<open>auto simp: relaying_def\<close>)
qed

lemma relaying_Done: "log_stable P \<Longrightarrow> (\<And>d. P d \<Longrightarrow> Q r d) \<Longrightarrow> relaying P (Done r) Q"
  by (auto simp: relaying_def relay_guar_def log_stable_def dest: log_grows_keeps)

lemma relaying_bindE:
  assumes "relaying P m R" "\<And>a. relaying (R (Inr a)) (k a) Q" "\<And>e d. R (Inl e) d \<Longrightarrow> Q (Inl e) d" "\<And>r. log_stable (R r)"
  shows "relaying P (bindE m k) Q"
  unfolding bindE_def
  by (rule relaying_bind [OF assms(1)]) (auto split: sum.split intro!: assms(2) relaying_Done assms(3,4))

lemma relaying_tryE:
  assumes "relaying P m R" "\<And>r. log_stable (R r)" "\<And>r d. R r d \<Longrightarrow> Q (Inr r) d"
  shows "relaying P (tryE m) Q"
  unfolding tryE_def by (rule relaying_bind [OF assms(1)]) (auto intro: relaying_Done assms(2,3))

lemma relaying_frame:
  assumes "relaying P m Q" "log_stable F"
  shows "relaying (\<lambda>d. P d \<and> F d) m (\<lambda>r d. Q r d \<and> F d)"
  unfolding relaying_def
proof (intro allI impI)
  fix t and w :: world assume w: "log_inv (db w)" "P (db w) \<and> F (db w)"
  with assms(1) have "rgs (relay_guar t) (relay_guar t) m (\<lambda>r w. log_inv (db w) \<and> Q r (db w)) w" by (simp add: relaying_def)
  from log_rg.rgs_history [OF this]
  have "rgs (relay_guar t) (relay_guar t) m (\<lambda>r w'. (log_inv (db w') \<and> Q r (db w')) \<and> relay_guar t w w') w" by simp
  then show "rgs (relay_guar t) (relay_guar t) m (\<lambda>r w. log_inv (db w) \<and> Q r (db w) \<and> F (db w)) w"
    by (rule rgs_mono) (use assms(2) w in \<open>auto simp: relay_guar_def log_stable_def\<close>)
qed

lemma relaying_steps:
  assumes "emitting m" "log_stable P"
  shows "relaying P m (\<lambda>_. P)"
proof -
  have "steps_in (relay_guar t) m" for t
    unfolding relay_guar_eq using assms(1) by (rule steps_in_mono) (rule emits_log_grows)
  then have "rgs (relay_guar t) (relay_guar t) m (\<lambda>_ w'. True \<and> relay_guar t w w') w" for t w
    by (rule log_rg.rgs_history [OF steps_in_rgs])
  then show ?thesis
    unfolding relaying_def
    by (blast intro: rgs_mono dest: log_grows_keeps(1) assms(2) [unfolded log_stable_def, rule_format] relay_guar_def [THEN iffD1])
qed

lemma relaying_weaken: "relaying P m Q \<Longrightarrow> (\<And>d. P' d \<Longrightarrow> P d) \<Longrightarrow> (\<And>r d. Q r d \<Longrightarrow> Q' r d) \<Longrightarrow> relaying P' m Q'"
  unfolding relaying_def by (blast intro: rgs_mono)

lemma relaying_record:
  "relaying (has_event e) (RecordEntry_HandleEvent uuid e) (\<lambda>r d. has_event e d \<and> (isl r \<or> recorded e d))"
  unfolding RecordEntry_HandleEvent_def
proof (rule relaying_bindE)
  show "relaying (has_event e) nowE (\<lambda>_. has_event e)" by (rule relaying_steps) (auto intro: steps)
  fix now
  have src: "ae_SourceEventID (entry_for uuid now e) = ev_ID e" by (simp add: entry_for_def NewEntry_def)
  have rec: "recorded e (d\<lparr>audit_entries := audit_entries d @ [entry_for uuid now e]\<rparr>)" for d
    by (simp add: recorded_def records_def entry_for_def NewEntry_def)
  have ev: "has_event e (d\<lparr>audit_entries := x\<rparr>) = has_event e d" for d x by (simp add: has_event_def)
  have st: "log_stable (\<lambda>d. has_event e d \<and> (isl r \<or> recorded e d))" for r :: "err + unit"
    by (cases r) simp_all
  show "relaying (has_event e) (AuditEntryRepository_Create (entry_for uuid now e)) (\<lambda>r d. has_event e d \<and> (isl r \<or> recorded e d))"
    unfolding AuditEntryRepository_Create_def src
    by (rule relaying_tx) (auto simp: st rec ev split: if_splits intro: Create_old Create_new)
qed simp_all

lemma relaying_relay_event:
  "relaying (has_event e) (relay_event (combinedHandler (ResolveSecret_ResolveValue cr key srv) order inst u) e) (\<lambda>_ _. True)"
  unfolding relay_event_def
proof (rule relaying_bindE)
  let ?Q = "\<lambda>(r :: err + unit) d. has_event e d \<and> (isl r \<or> recorded e d)"
  have st: "log_stable (?Q r)" for r by (cases r) simp_all
  have emit: "emitting (RunDispatch_HandleEvent (ResolveSecret_ResolveValue cr key srv) order v inst e)" for v
    by (intro emitting_dispatch emitting_secret)
  have "relaying (has_event e) (combinedHandler (ResolveSecret_ResolveValue cr key srv) order inst u e) ?Q"
    unfolding combinedHandler_def
    by (rule relaying_bindE [OF relaying_record]) (auto simp: st intro!: relaying_weaken [OF relaying_steps [OF emit, of "?Q (Inr ())"]])
  then show "relaying (has_event e) (tryE (combinedHandler (ResolveSecret_ResolveValue cr key srv) order inst u e))
      (\<lambda>r d. case r of Inl _ \<Rightarrow> True | Inr r' \<Rightarrow> ?Q r' d)"
    by (rule relaying_tryE) (auto simp: st)
  show "log_stable (\<lambda>d. case r of Inl _ \<Rightarrow> True | Inr r' \<Rightarrow> ?Q r' d)" for r
    using st by (cases r) simp_all
  have "relaying (\<lambda>d. has_event e d \<and> recorded e d) (MarkPublished (ev_ID e)) (\<lambda>_ _. True)"
    unfolding MarkPublished_def by (rule relaying_tx) (auto intro: MarkPublished_grows)
  then show "relaying (\<lambda>d. case Inr r of Inl _ \<Rightarrow> True | Inr r' \<Rightarrow> ?Q r' d)
      (case r of Inl _ \<Rightarrow> retE () | Inr _ \<Rightarrow> MarkPublished (ev_ID e)) (\<lambda>_ _. True)" for r :: "err + unit"
    by (cases r) (auto simp: retE_def intro: relaying_Done)
qed simp

lemma relaying_forE:
  assumes "\<And>x. x \<in> set xs \<Longrightarrow> relaying P (body x) (\<lambda>_ _. True)" "log_stable P"
  shows "relaying P (forE xs body) (\<lambda>_ _. True)"
  using assms(1)
proof (induction xs)
  case Nil
  then show ?case using assms(2) by (auto simp: retE_def intro: relaying_Done)
next
  case (Cons x xs)
  have "relaying P (body x) (\<lambda>_. P)"
    by (rule relaying_weaken [OF relaying_frame [OF Cons.prems assms(2)]]) auto
  then show ?case using Cons assms(2) by (auto intro: relaying_bindE)
qed

lemma relaying_batch:
  "relaying (\<lambda>_. True) (Relay_relayBatch (\<lambda>n. combinedHandler (ResolveSecret_ResolveValue cr key srv) order inst (u n))) (\<lambda>_ _. True)"
  unfolding Relay_relayBatch_def
proof (rule relaying_bindE)
  have "set (pending d) \<subseteq> set (outbox_events d)" for d
    by (auto simp: pending_def dest!: in_set_takeD)
  then have sub: "e \<in> set (pending d) \<Longrightarrow> has_event e d" for e d by (auto simp: has_event_def)
  have stable: "log_stable (\<lambda>d. case r of Inl _ \<Rightarrow> True | Inr es \<Rightarrow> \<forall>e \<in> set es. has_event e d)" for r :: "err + Event list"
    by (cases r) simp_all
  show "relaying (\<lambda>_. True) (query (\<lambda>d. Inr (pending d))) (\<lambda>r d. case r of Inl _ \<Rightarrow> True | Inr es \<Rightarrow> \<forall>e \<in> set es. has_event e d)"
    unfolding query_def by (rule relaying_tx) (use stable in \<open>auto simp: sub split: sum.splits\<close>)
  show "log_stable (\<lambda>d. case r of Inl _ \<Rightarrow> True | Inr es \<Rightarrow> \<forall>e \<in> set es. has_event e d)" for r :: "err + Event list"
    by (rule stable)
  show "relaying (\<lambda>d. case Inr es of Inl _ \<Rightarrow> True | Inr es \<Rightarrow> \<forall>e \<in> set es. has_event e d)
      (forE (enumerate 0 es) (\<lambda>(n, e). relay_event (combinedHandler (ResolveSecret_ResolveValue cr key srv) order inst (u n)) e)) (\<lambda>_ _. True)"
    for es :: "Event list"
    by (rule relaying_forE)
      (auto simp: in_set_enumerate_eq intro!: relaying_weaken [OF relaying_relay_event])
qed simp

section \<open>Exactly once\<close>

text \<open>
  What runs at the same time: batches of the relays of any number of replicas, and every program of the pool
  of \<^theory_text>\<open>Run_Pool\<close>. The environment stands for the other contexts, whose transactions may add events, and for the
  clock, Redis, Vault and the registries. The purge of an organization deletes its events and entries and is
  not among them.
\<close>

definition relay_spawnable :: "crypto \<Rightarrow> string \<Rightarrow> vault_server \<Rightarrow> id \<Rightarrow> unit io \<Rightarrow> id set \<Rightarrow> world \<Rightarrow> bool" where
  "relay_spawnable cr key srv t m T w = (t \<notin> T \<and> ((\<exists>j. m = program cr key srv j)
     \<or> (\<exists>order inst u. m = Relay_relayBatch (\<lambda>n. combinedHandler (ResolveSecret_ResolveValue cr key srv) order inst (u n)))))"

definition relay_environment :: "world \<Rightarrow> world \<Rightarrow> bool" where
  "relay_environment w w' = emits (db w) (db w')"

lemma pool_log_inv:
  assumes "pool_reach (relay_spawnable cr key srv) relay_environment w0 s" "log_inv (db w0)"
  shows "log_inv (db (snd s))"
proof -
  have prog: "rgs (relay_guar t) (relay_guar t) m (\<lambda>_ _. True) w" if "relaying (\<lambda>_. True) m (\<lambda>_ _. True)" "log_inv (db w)"
    for t m and w :: world using that by (auto simp: relaying_def intro: rgs_mono)
  have "relaying (\<lambda>_. True) (program cr key srv j) (\<lambda>_ _. True)" for j
    by (rule relaying_steps [OF emitting_program]) simp
  then have "t \<notin> T \<and> rgs (relay_guar t) (relay_guar t) m (\<lambda>_ _. True) w"
    if "relay_spawnable cr key srv t m T w" "log_inv (db w)" for t m T w
    using that by (auto simp: relay_spawnable_def intro: prog relaying_batch)
  moreover have "relay_guar t w w'" if "relay_environment w w'" for t w w'
    using that by (simp add: relay_environment_def relay_guar_def emits_log_grows)
  ultimately have "log_inv (db (snd s)) \<and> distinct (map fst (fst s)) \<and>
      (\<forall>(t, r) \<in> set (fst s). rgs (relay_guar t) (relay_guar t) r (\<lambda>_ _. True) (snd s))"
    using log_rg.pool_invariant [OF assms(1) assms(2)] log_rg.guar_inv by blast
  then show ?thesis by simp
qed

lemma filter_unique_key:
  "distinct (map g xs) \<Longrightarrow> x \<in> set xs \<Longrightarrow> filter (\<lambda>y. g y = g x) xs = [x]"
  by (induction xs) (force simp: filter_empty_conv image_iff)+

lemma demo_log_inv: "log_inv demo_db"
  by (simp add: log_inv_def)

abbreviation demo_batch :: "unit io" where
  "demo_batch \<equiv> Relay_relayBatch (\<lambda>n. combinedHandler (ResolveSecret_ResolveValue demo_crypto demo_key demo_vault)
     (\<lambda>_. []) ''i'' (\<lambda>k. if n = 0 then ''a0'' else ''a1''))"

definition demo_events :: "Event list" where
  "demo_events = outbox_events (db demo_canceled)"

definition demo_relayed :: world where
  "demo_relayed = demo_canceled\<lparr>db := (db demo_canceled)\<lparr>
     outbox_events := map (\<lambda>e. e\<lparr>ev_PublishedAt := Some 0\<rparr>) demo_events,
     audit_entries := [entry_for ''a0'' 0 (demo_events ! 0), entry_for ''a1'' 0 (demo_events ! 1)]\<rparr>\<rparr>"

lemmas demo_relay_defs = demo_relayed_def demo_events_def demo_canceled_def demo_queued_def run_event_def pending_def
  relay_limit_def entry_for_def NewEntry_def payload_string_def

lemma demo_batch_run: "run demo_batch demo_canceled = (Inr (), demo_relayed)"
  by (simp add: demo_relay_defs Relay_relayBatch_def run_head relay_event_def combinedHandler_def RecordEntry_HandleEvent_def
      AuditEntryRepository_Create_def MarkPublished_def RunDispatch_HandleEvent_def TryStartApplying_def is_run_def
      payload_field_def demo_run_def demo_org_def Let_def)

lemma demo_relay_reach:
  "pool_reach (relay_spawnable demo_crypto demo_key demo_vault) relay_environment demo_canceled ([(''t'', Done (Inr ()))], demo_relayed)"
proof (rule pool_reach_star [OF pool_spawn_alone [OF _ demo_batch_run] reach_start])
  show "relay_spawnable demo_crypto demo_key demo_vault ''t'' demo_batch (fst ` set []) demo_canceled"
    unfolding relay_spawnable_def by (intro conjI disjI2 exI) (simp, rule refl)
qed

text \<open>
  C4: The audit log records every event exactly once, though delivery is only at least once: with relays on any
  number of replicas reading the same events, with transactions failing and processes dying at any
  point (in particular after the entry is written and before the event is marked published), in
  every state that can be reached an event that is marked published has exactly one entry in the
  log and that entry says what the event says; no event has two; and no entry is made up. The
  comment of \<^verbatim>\<open>relay.go\<close> (lines 22-29) says otherwise, that a redelivery would duplicate the entry: it describes a plain
  INSERT, but \<open>AuditEntryRepository_Create\<close> inserts with ON CONFLICT (source_event_id) DO NOTHING.
\<close>

theorem audit_exactly_once:
  assumes "pool_reach (relay_spawnable cr key srv) relay_environment w0 (ts, w)" and "log_inv (db w0)"
  shows "(\<forall>e \<in> set (outbox_events (db w)). ev_PublishedAt e \<noteq> None \<longrightarrow>
       (\<exists>a. filter (\<lambda>a. ae_SourceEventID a = ev_ID e) (audit_entries (db w)) = [a]
          \<and> a = entry_for (ae_ID a) (ae_CreatedAt a) e))
    \<and> distinct (map ae_SourceEventID (audit_entries (db w)))
    \<and> (\<forall>a \<in> set (audit_entries (db w)). \<exists>e \<in> set (outbox_events (db w)). a = entry_for (ae_ID a) (ae_CreatedAt a) e)"
proof -
  have inv: "log_inv (db w)" using pool_log_inv [OF assms] by simp
  have "\<exists>a. filter (\<lambda>a. ae_SourceEventID a = ev_ID e) (audit_entries (db w)) = [a] \<and> a = entry_for (ae_ID a) (ae_CreatedAt a) e"
    if "e \<in> set (outbox_events (db w))" "ev_PublishedAt e \<noteq> None" for e
  proof -
    from inv that obtain a where a: "a \<in> set (audit_entries (db w))" "records a e" by (auto simp: log_inv_def)
    moreover from inv have "distinct (map ae_SourceEventID (audit_entries (db w)))" by (simp add: log_inv_def)
    ultimately have "filter (\<lambda>x. ae_SourceEventID x = ev_ID e) (audit_entries (db w)) = [a]"
      by (subst records_source [OF a(2), symmetric]) (rule filter_unique_key)
    with a(2) show ?thesis unfolding records_def by blast
  qed
  with inv show ?thesis unfolding log_inv_def records_def by blast
qed

theorem audit_exactly_once_witness:
  "filter (\<lambda>a. ae_SourceEventID a = ''c1'') (audit_entries (db demo_relayed)) \<noteq> []
   \<and> distinct (map ae_SourceEventID (audit_entries (db demo_relayed)))"
proof -
  have "log_inv (db demo_canceled)" by (simp add: log_inv_def demo_canceled_def demo_queued_def)
  from audit_exactly_once [OF demo_relay_reach this]
  have "\<exists>a. filter (\<lambda>a. ae_SourceEventID a = ev_ID e) (audit_entries (db demo_relayed)) = [a]"
    if "e \<in> set (outbox_events (db demo_relayed))" "ev_PublishedAt e \<noteq> None" for e using that by blast
  from this [of "(demo_events ! 1)\<lparr>ev_PublishedAt := Some 0\<rparr>"] show ?thesis
    by (simp add: demo_relay_defs)
qed

section \<open>Progress of a batch\<close>

text \<open>The events with an id in \<open>S\<close> are marked published at \<open>t\<close>.\<close>

definition publish :: "id set \<Rightarrow> time \<Rightarrow> Event \<Rightarrow> Event" where
  "publish S t e = (if ev_ID e \<in> S then e\<lparr>ev_PublishedAt := Some t\<rparr> else e)"

text \<open>
  \<open>handles J bad handler es\<close>: in every state of \<open>J\<close> the handler fails on the events \<open>es\<close> that are \<open>bad\<close> and
  succeeds on the others, it only adds events, and \<open>J\<close> stays true.
\<close>

definition handles :: "(world \<Rightarrow> bool) \<Rightarrow> (Event \<Rightarrow> bool) \<Rightarrow> (nat \<Rightarrow> Event \<Rightarrow> unit io) \<Rightarrow> Event set \<Rightarrow> bool" where
  "handles J bad handler E = ((\<forall>w x. J w \<longrightarrow> J (w\<lparr>db := (db w)\<lparr>outbox_events := x\<rparr>\<rparr>)) \<and> (\<forall>w. J w \<longrightarrow> faults w = [])
     \<and> (\<forall>w n e. J w \<longrightarrow> e \<in> E \<longrightarrow> (\<exists>r w' new. run (handler n e) w = (r, w') \<and> isl r = bad e \<and> J w' \<and> clock w' = clock w
         \<and> outbox_events (db w') = outbox_events (db w) @ new \<and> ev_ID ` set new \<inter> ev_ID ` set (outbox_events (db w)) = {})))"

lemma map_publish_other: "ev_ID ` set xs \<inter> S = {} \<Longrightarrow> map (publish S t) xs = xs"
  by (induction xs) (auto simp: publish_def)

lemma ev_ID_publish [simp]: "ev_ID (publish S t e) = ev_ID e"
  by (simp add: publish_def)

lemma upd_publish: "upd (\<lambda>e. ev_ID e = i) (\<lambda>e. e\<lparr>ev_PublishedAt := Some t\<rparr>) xs = map (publish {i} t) xs"
  by (simp add: upd_def publish_def)

lemma publish_publish: "publish S t (publish S' t e) = publish (S \<union> S') t e"
  by (simp add: publish_def)

lemma handlesD:
  assumes "handles J bad handler E" "J w"
  shows "faults w = []" "J (w\<lparr>db := (db w)\<lparr>outbox_events := x\<rparr>\<rparr>)"
    and "e \<in> E \<Longrightarrow> \<exists>r w' new. run (handler n e) w = (r, w') \<and> isl r = bad e \<and> J w' \<and> clock w' = clock w
       \<and> outbox_events (db w') = outbox_events (db w) @ new \<and> ev_ID ` set new \<inter> ev_ID ` set (outbox_events (db w)) = {}"
  using assms unfolding handles_def by blast+

lemma relay_event_outcome:
  assumes "handles J bad handler E" "e \<in> E" "J w" "ev_ID e \<in> ev_ID ` set (outbox_events (db w))"
  shows "\<exists>w' new. run (relay_event (handler n) e) w = (Inr (), w') \<and> J w' \<and> clock w' = clock w
    \<and> outbox_events (db w') = map (publish (ev_ID ` (if bad e then {} else {e})) (clock w)) (outbox_events (db w)) @ new
    \<and> ev_ID ` set new \<inter> ev_ID ` set (outbox_events (db w)) = {}"
proof -
  from handlesD(3) [OF assms(1,3,2), of n] obtain r w' new where h: "run (handler n e) w = (r, w')" "isl r = bad e" "J w'" "clock w' = clock w"
    "outbox_events (db w') = outbox_events (db w) @ new" "ev_ID ` set new \<inter> ev_ID ` set (outbox_events (db w)) = {}" by blast
  note J = handlesD(1,2) [OF assms(1) h(3)]
  show ?thesis
  proof (cases r)
    case (Inl err)
    then show ?thesis using h by (auto simp: relay_event_def run_head map_publish_other intro!: exI [of _ new])
  next
    case (Inr u)
    have "map (publish {ev_ID e} (clock w)) new = new" using h(6) assms(4) by (intro map_publish_other) auto
    with Inr show ?thesis using h J
      by (auto simp: relay_event_def run_head MarkPublished_def run_tx upd_publish intro!: exI [of _ new])
  qed
qed

lemma relay_loop_outcome:
  assumes "handles J bad handler E" "set es \<subseteq> E" "J w" "ev_ID ` set es \<subseteq> ev_ID ` set (outbox_events (db w))"
  shows "\<exists>w' new. run (forE (enumerate k es) (\<lambda>(n, e). relay_event (handler n) e)) w = (Inr (), w') \<and> J w'
    \<and> outbox_events (db w') = map (publish (ev_ID ` {e \<in> set es. \<not> bad e}) (clock w)) (outbox_events (db w)) @ new
    \<and> ev_ID ` set new \<inter> ev_ID ` set (outbox_events (db w)) = {}"
  using assms(2-)
proof (induction es arbitrary: k w)
  case Nil
  then show ?case by (auto simp: map_publish_other)
next
  case (Cons e es)
  from Cons.prems have "ev_ID e \<in> ev_ID ` set (outbox_events (db w))" "e \<in> E" by auto
  from relay_event_outcome [OF assms(1) this(2) Cons.prems(2) this(1)] obtain w1 new1 where
    1: "run (relay_event (handler k) e) w = (Inr (), w1)" "J w1" "clock w1 = clock w"
      "outbox_events (db w1) = map (publish (ev_ID ` (if bad e then {} else {e})) (clock w)) (outbox_events (db w)) @ new1"
      "ev_ID ` set new1 \<inter> ev_ID ` set (outbox_events (db w)) = {}" by blast
  let ?S = "ev_ID ` {e \<in> set es. \<not> bad e}"
  have "ev_ID ` set es \<subseteq> ev_ID ` set (outbox_events (db w1))" using Cons.prems(3) by (auto simp: 1(4) image_Un image_image)
  then obtain w2 new2 where
    2: "run (forE (enumerate (Suc k) es) (\<lambda>(n, e). relay_event (handler n) e)) w1 = (Inr (), w2)" "J w2"
      "outbox_events (db w2) = map (publish ?S (clock w1)) (outbox_events (db w1)) @ new2"
      "ev_ID ` set new2 \<inter> ev_ID ` set (outbox_events (db w1)) = {}"
    using Cons.IH [of w1 "Suc k"] Cons.prems(1) 1(2) by auto
  have "?S \<subseteq> ev_ID ` set (outbox_events (db w))" using Cons.prems(3) by auto
  with 1(5) have "map (publish ?S (clock w)) new1 = new1" by (intro map_publish_other) blast
  moreover have "?S \<union> ev_ID ` (if bad e then {} else {e}) = ev_ID ` {x \<in> set (e # es). \<not> bad x}" by auto
  ultimately have "outbox_events (db w2) = map (publish (ev_ID ` {x \<in> set (e # es). \<not> bad x}) (clock w)) (outbox_events (db w)) @ new1 @ new2"
    by (simp add: 2(3) 1(3,4) publish_publish comp_def)
  moreover have "ev_ID ` set (new1 @ new2) \<inter> ev_ID ` set (outbox_events (db w)) = {}"
    using 1(5) 2(4) by (auto simp: 1(4) image_Un image_image)
  moreover have "run (forE (enumerate k (e # es)) (\<lambda>(n, e). relay_event (handler n) e)) w = (Inr (), w2)"
    by (simp add: run_bindE 1(1) 2(1))
  ultimately show ?case using 2(2) by blast
qed

lemma set_pending: "set (pending d) \<subseteq> {e \<in> set (outbox_events d). ev_PublishedAt e = None}"
  by (auto simp: pending_def dest!: in_set_takeD)

text \<open>
  An organization that is gone: the entry of its event violates the foreign key, so the handler fails on it;
  the event \<open>c1\<close> is recorded already, so the handler succeeds.
\<close>

definition demo_outbox :: world where
  "demo_outbox = demo\<lparr>db := demo_db\<lparr>outbox_events := [(demo_events ! 1)\<lparr>ev_ID := ''x'', ev_OrganizationID := ''gone''\<rparr>, demo_events ! 1],
     audit_entries := [entry_for ''a1'' 0 (demo_events ! 1)]\<rparr>\<rparr>"

text \<open>
  C31: Progress of the relay. If the handler fails on the events that are \<open>bad\<close> and succeeds on the others, one batch
  run alone ends without an error and marks published exactly the events it handled successfully among
  the hundred oldest that are pending; every other event is left as it is, to be tried again by the
  next batch, and one failing event does not stop those after it. In particular a hundred bad events
  that stay the oldest keep every later event from being published.
\<close>

theorem relay_batch_publishes:
  assumes "handles J bad handler (set (pending (db w)))" and "J w" and "distinct (map ev_ID (outbox_events (db w)))"
  shows "\<exists>w' new. run (Relay_relayBatch handler) w = (Inr (), w') \<and> J w'
    \<and> outbox_events (db w') = map (\<lambda>e. if e \<in> set (pending (db w)) \<and> \<not> bad e then e\<lparr>ev_PublishedAt := Some (clock w)\<rparr> else e)
         (outbox_events (db w)) @ new
    \<and> length (pending (db w)) \<le> 100"
proof -
  have f: "faults w = []" by (rule handlesD(1) [OF assms(1,2)])
  have ids: "ev_ID ` set (pending (db w)) \<subseteq> ev_ID ` set (outbox_events (db w))" using set_pending by blast
  have inj: "inj_on ev_ID (set (outbox_events (db w)))" using assms(3) by (simp add: distinct_map)
  have eq: "publish (ev_ID ` {x \<in> set (pending (db w)). \<not> bad x}) (clock w) e
      = (if e \<in> set (pending (db w)) \<and> \<not> bad e then e\<lparr>ev_PublishedAt := Some (clock w)\<rparr> else e)"
    if "e \<in> set (outbox_events (db w))" for e
  proof -
    have "ev_ID e \<in> ev_ID ` {x \<in> set (pending (db w)). \<not> bad x} \<longleftrightarrow> e \<in> {x \<in> set (pending (db w)). \<not> bad x}"
      by (rule inj_on_image_mem_iff [OF inj that]) (use set_pending in blast)
    then show ?thesis by (simp add: publish_def)
  qed
  from relay_loop_outcome [OF assms(1) order.refl assms(2) ids, of 0] obtain w' new where
    w': "run (forE (enumerate 0 (pending (db w))) (\<lambda>(n, e). relay_event (handler n) e)) w = (Inr (), w')" "J w'"
      "outbox_events (db w') = map (publish (ev_ID ` {e \<in> set (pending (db w)). \<not> bad e}) (clock w)) (outbox_events (db w)) @ new"
    by blast
  have "run (Relay_relayBatch handler) w = (Inr (), w')" using f w'(1) by (simp add: Relay_relayBatch_def run_head)
  moreover have "length (pending (db w)) \<le> 100" by (simp add: pending_def relay_limit_def)
  ultimately show ?thesis using w'(2,3) eq by (intro exI [of _ w'] exI [of _ new]) (simp cong: map_cong)
qed

theorem relay_batch_publishes_witness:
  "\<exists>w' new. run (Relay_relayBatch (\<lambda>n. combinedHandler (\<lambda>_ _ _. throwE ErrVault) (\<lambda>_. []) ''i'' (\<lambda>_. ''a2''))) demo_outbox = (Inr (), w')
    \<and> outbox_events (db w') = [(demo_events ! 1)\<lparr>ev_ID := ''x'', ev_OrganizationID := ''gone''\<rparr>,
         (demo_events ! 1)\<lparr>ev_PublishedAt := Some 0\<rparr>] @ new"
proof -
  let ?h = "\<lambda>n :: nat. combinedHandler (\<lambda>_ _ _. throwE ErrVault) (\<lambda>_. []) ''i'' (\<lambda>_. ''a2'')"
  let ?J = "\<lambda>w. faults w = [] \<and> clock w = 0 \<and> organizations (db w) = [demo_org] \<and> audit_entries (db w) = [entry_for ''a1'' 0 (demo_events ! 1)]"
  let ?E = "outbox_events (db demo_outbox)"
  let ?bad = "\<lambda>e. ev_ID e = ''x''"
  have pend: "pending (db demo_outbox) = ?E" by (simp add: demo_outbox_def demo_relay_defs)
  have "handles ?J ?bad ?h (set (pending (db demo_outbox)))"
    unfolding handles_def pend
    by (auto simp: demo_outbox_def demo_relay_defs combinedHandler_def RecordEntry_HandleEvent_def AuditEntryRepository_Create_def run_head
        RunDispatch_HandleEvent_def demo_org_def)
  moreover have "?J demo_outbox" "distinct (map ev_ID ?E)" "clock demo_outbox = 0" by (simp_all add: demo_outbox_def demo_relay_defs)
  ultimately show ?thesis
    using relay_batch_publishes [of ?J ?bad ?h demo_outbox] unfolding pend
    by (auto simp: demo_outbox_def demo_relay_defs)
qed

end
