(* ===== verification/Opaque_Tokens.thy ===== *)
theory Opaque_Tokens
  imports Go_Library
begin

text \<open>
  \<^verbatim>\<open>internal/platform/auth/opaque_token.go\<close>: the tokens of Identity, random bytes in base64, of which the
  database holds the SHA-256 digest. Like the other cryptographic primitives of the program the digest
  (\<^verbatim>\<open>sha256.Sum256\<close>, as a function from strings to lists of bytes) is a parameter. The random bytes are an
  argument of \<open>GenerateOpaqueToken\<close>.
\<close>

text \<open>\<^verbatim>\<open>hex.EncodeToString\<close>.\<close>

definition hex_digit :: "nat \<Rightarrow> char" where
  "hex_digit n = ''0123456789abcdef'' ! n"

definition hex_EncodeToString :: "nat list \<Rightarrow> string" where
  "hex_EncodeToString bs = concat (map (\<lambda>b. [hex_digit (b div 16), hex_digit (b mod 16)]) bs)"

section \<open>Tokens\<close>

definition GenerateOpaqueToken :: "string \<Rightarrow> string" where
  "GenerateOpaqueToken buf = b64_encode buf"

definition HashOpaqueToken :: "(string \<Rightarrow> nat list) \<Rightarrow> string \<Rightarrow> string" where
  "HashOpaqueToken sum256 token = hex_EncodeToString (sum256 token)"

text \<open>A token has no dot: it cannot be taken for a JSON Web Token.\<close>

lemma b64_char_no_dot: "n < 64 \<Longrightarrow> CHR ''.'' \<noteq> b64_char n"
proof -
  assume "n < 64"
  then have "b64_char n \<in> set b64_alphabet" by (simp add: b64_char_def length_b64_alphabet)
  moreover have "CHR ''.'' \<notin> set b64_alphabet" by (simp add: b64_alphabet_def)
  ultimately show ?thesis by metis
qed

lemma token_no_dot: "CHR ''.'' \<notin> set (GenerateOpaqueToken buf)"
  unfolding GenerateOpaqueToken_def
  by (induction buf rule: b64_encode.induct) (simp_all add: b64_char_no_dot)

end
