(* ===== verification/Identity.thy ===== *)
theory Identity
  imports Tenancy Opaque_Tokens Demo
begin

text \<open>
  The Identity context (\<^verbatim>\<open>internal/identity\<close>): users and their passwords, refresh tokens, password reset
  tokens, service accounts and API keys. These tables are not scoped to an organization.

  The password hash is that of \<^verbatim>\<open>golang.org/x/crypto/bcrypt\<close>, a parameter: \<open>bc_Generate salt password\<close> and
  \<open>bc_Compare hash password\<close>; \<open>bcrypt_ok\<close> is what its documentation promises. Random bytes are
  arguments, as generated ids are.
\<close>

record bcrypt =
  bc_Generate :: "string \<Rightarrow> string \<Rightarrow> err + string"
  bc_Compare :: "string \<Rightarrow> string \<Rightarrow> bool"

definition bcrypt_ok :: "bcrypt \<Rightarrow> bool" where
  "bcrypt_ok bc = (\<forall>salt password hash. bc_Generate bc salt password = Inr hash \<longrightarrow> bc_Compare bc hash password)"

section \<open>Users\<close>

definition AuthSourceLocal :: string where "AuthSourceLocal = ''local''"

definition AuthSource_valid :: "string \<Rightarrow> bool" where
  "AuthSource_valid a = (a \<in> set [AuthSourceLocal, ''oidc'', ''saml'', ''ldap''])"

text \<open>
  \<^verbatim>\<open>emailPattern\<close>, \<^verbatim>\<open>^[^@\s]+@[^@\s]+\.[^@\s]+$\<close>: one \<^verbatim>\<open>@\<close> with something before it, and after it a dot that is neither
  the first nor the last character.
\<close>

definition is_space :: "char \<Rightarrow> bool" where
  "is_space c = (c \<in> set [CHR 0x09, CHR 0x0A, CHR 0x0C, CHR 0x0D, CHR '' ''])"

definition emailPattern :: "string \<Rightarrow> bool" where
  "emailPattern s = (let user = takeWhile (\<lambda>c. c \<noteq> CHR ''@'') s; rest = dropWhile (\<lambda>c. c \<noteq> CHR ''@'') s in
     user \<noteq> [] \<and> rest \<noteq> [] \<and> CHR ''@'' \<notin> set (tl rest) \<and> \<not> list_ex is_space s
     \<and> CHR ''.'' \<in> set (butlast (tl (tl rest))))"

definition NewUser :: "id \<Rightarrow> time \<Rightarrow> string \<Rightarrow> string \<Rightarrow> string \<Rightarrow> err + User" where
  "NewUser uuid now username email authSource =
     (if username = [] then Inl (ValidationError ''username is required'')
      else if \<not> emailPattern email then Inl (ValidationError (''email '' @ goQuote email @ '' is not valid''))
      else if \<not> AuthSource_valid authSource
      then Inl (ValidationError (''auth_source '' @ goQuote authSource @ '' must be one of local, oidc, saml, ldap''))
      else Inr \<lparr>usr_ID = uuid, usr_Username = username, usr_Email = email, usr_AuthSource = authSource,
        usr_ExternalID = None, usr_Status = ''active'', usr_MFAEnrolled = False, usr_CreatedAt = now,
        usr_IsPlatformAdmin = False, usr_PasswordHash = None\<rparr>)"

definition SetPasswordHash :: "string \<Rightarrow> User \<Rightarrow> err + User" where
  "SetPasswordHash hash u =
     (if usr_AuthSource u \<noteq> AuthSourceLocal then Inl (ValidationError ''only local auth_source users can have a password'')
      else Inr (u\<lparr>usr_PasswordHash := Some hash\<rparr>))"

definition UserRepository_Create :: "User \<Rightarrow> unit io" where
  "UserRepository_Create user = tx (\<lambda>_ d.
     if \<not> AuthSource_valid (usr_AuthSource user) \<or> usr_Status user \<notin> set [''active'', ''suspended''] then Inl ErrCheckViolation
     else if list_ex (\<lambda>u. usr_ID u = usr_ID user \<or> usr_Username u = usr_Username user \<or> usr_Email u = usr_Email user) (users d)
     then Inl ErrUserAlreadyExists
     else Inr ((), d\<lparr>users := users d @ [user]\<rparr>))"

definition UserRepository_GetByUsername :: "string \<Rightarrow> User io" where
  "UserRepository_GetByUsername username = query (\<lambda>d. oneRow ErrUserNotFound (\<lambda>u. usr_Username u = username) (users d))"

definition UserRepository_GetByID :: "id \<Rightarrow> User io" where
  "UserRepository_GetByID i = query (\<lambda>d. oneRow ErrUserNotFound (\<lambda>u. usr_ID u = i) (users d))"

definition UserRepository_GetByEmail :: "string \<Rightarrow> User io" where
  "UserRepository_GetByEmail email = query (\<lambda>d. oneRow ErrUserNotFound (\<lambda>u. usr_Email u = email) (users d))"

definition UserRepository_Count :: "nat io" where
  "UserRepository_Count = query (\<lambda>d. Inr (length (users d)))"

definition UpdatePasswordHash :: "id \<Rightarrow> string \<Rightarrow> unit io" where
  "UpdatePasswordHash userID passwordHash = tx (\<lambda>_ d.
     Inr ((), d\<lparr>users := upd (\<lambda>u. usr_ID u = userID) (\<lambda>u. u\<lparr>usr_PasswordHash := Some passwordHash\<rparr>) (users d)\<rparr>))"

text \<open>The closure of \<^verbatim>\<open>main.go\<close> that gives the first user an organization.\<close>

definition defaultOrgBootstrapper :: "(nat \<Rightarrow> id) \<Rightarrow> id \<Rightarrow> unit io" where
  "defaultOrgBootstrapper u ownerUserID =
     bindE (CreateOrganization_Execute u ''default'' ''default'' ownerUserID) (\<lambda>_. retE ())"

definition CreateUser_Execute :: "bcrypt \<Rightarrow> string \<Rightarrow> (nat \<Rightarrow> id) \<Rightarrow> string \<Rightarrow> string \<Rightarrow> string \<Rightarrow> string \<Rightarrow> User io" where
  "CreateUser_Execute bc salt u username email authSource password =
     bindE nowE (\<lambda>now.
     bindE (liftE (NewUser (u 0) now username email authSource)) (\<lambda>newUser.
     bindE (if authSource = AuthSourceLocal then
              guardE (password \<noteq> []) (ValidationError ''password is required for local auth_source'') (
              bindE (liftE (bc_Generate bc salt password)) (\<lambda>hash.
              liftE (SetPasswordHash hash newUser)))
            else retE newUser) (\<lambda>user.
     bindE UserRepository_Count (\<lambda>countBefore.
     bindE (UserRepository_Create user) (\<lambda>_.
     bindE (if countBefore = 0 then defaultOrgBootstrapper (\<lambda>n. u (Suc n)) (usr_ID user) else retE ()) (\<lambda>_.
     retE user))))))"

definition Authenticate_Execute :: "bcrypt \<Rightarrow> string \<Rightarrow> string \<Rightarrow> User io" where
  "Authenticate_Execute bc username password =
     bindE (tryE (UserRepository_GetByUsername username)) (\<lambda>r. case r of
       Inl e \<Rightarrow> throwE (if e = ErrUserNotFound then ErrInvalidCredentials else e)
     | Inr user \<Rightarrow>
         if usr_AuthSource user \<noteq> AuthSourceLocal then throwE ErrInvalidCredentials
         else case usr_PasswordHash user of
           None \<Rightarrow> throwE ErrInvalidCredentials
         | Some hash \<Rightarrow> guardE (bc_Compare bc hash password) ErrInvalidCredentials (retE user))"

definition GetOwnUser_Execute :: "id \<Rightarrow> User io" where
  "GetOwnUser_Execute userID = UserRepository_GetByID userID"

definition SetPlatformAdmin_Execute :: "id \<Rightarrow> id \<Rightarrow> bool \<Rightarrow> unit io" where
  "SetPlatformAdmin_Execute requestingUserID targetUserID isPlatformAdmin =
     bindE (IsPlatformAdmin requestingUserID) (\<lambda>isRequesterAdmin.
     guardE isRequesterAdmin ErrForbidden (
     bindE (UserRepository_GetByID targetUserID) (\<lambda>_.
     SetPlatformAdmin targetUserID isPlatformAdmin)))"

section \<open>Refresh tokens\<close>

definition seconds :: "int \<Rightarrow> time" where "seconds n = n * 1000000000"

definition RefreshTokenTTL :: time where "RefreshTokenTTL = 30 * 24 * seconds 3600"

definition NewRefreshToken :: "id \<Rightarrow> time \<Rightarrow> id \<Rightarrow> string \<Rightarrow> RefreshToken" where
  "NewRefreshToken uuid now userID tokenHash = \<lparr>rt_ID = uuid, rt_UserID = userID, rt_TokenHash = tokenHash,
     rt_ExpiresAt = now + RefreshTokenTTL, rt_RevokedAt = None, rt_CreatedAt = now\<rparr>"

definition RefreshToken_Valid :: "time \<Rightarrow> RefreshToken \<Rightarrow> bool" where
  "RefreshToken_Valid now t = (rt_RevokedAt t = None \<and> now < rt_ExpiresAt t)"

definition RefreshTokenRepository_Create :: "RefreshToken \<Rightarrow> unit io" where
  "RefreshTokenRepository_Create t = tx (\<lambda>_ d.
     if \<not> list_ex (\<lambda>u. usr_ID u = rt_UserID t) (users d) then Inl ErrForeignKeyViolation
     else if list_ex (\<lambda>x. rt_ID x = rt_ID t \<or> rt_TokenHash x = rt_TokenHash t) (refresh_tokens d) then Inl ErrUniqueViolation
     else Inr ((), d\<lparr>refresh_tokens := refresh_tokens d @ [t]\<rparr>))"

definition RefreshTokenRepository_GetByHash :: "string \<Rightarrow> RefreshToken io" where
  "RefreshTokenRepository_GetByHash tokenHash = query (\<lambda>d.
     oneRow ErrRefreshTokenInvalid (\<lambda>t. rt_TokenHash t = tokenHash) (refresh_tokens d))"

definition RefreshTokenRepository_Revoke :: "id \<Rightarrow> unit io" where
  "RefreshTokenRepository_Revoke i = tx (\<lambda>now d.
     Inr ((), d\<lparr>refresh_tokens := upd (\<lambda>t. rt_ID t = i) (\<lambda>t. t\<lparr>rt_RevokedAt := Some now\<rparr>) (refresh_tokens d)\<rparr>))"

definition RefreshToken_Issue :: "(string \<Rightarrow> nat list) \<Rightarrow> string \<Rightarrow> id \<Rightarrow> id \<Rightarrow> string io" where
  "RefreshToken_Issue sha rnd uuid userID =
     (let plaintext = GenerateOpaqueToken rnd in
     bindE nowE (\<lambda>now.
     bindE (RefreshTokenRepository_Create (NewRefreshToken uuid now userID (HashOpaqueToken sha plaintext))) (\<lambda>_.
     retE plaintext)))"

definition RefreshToken_Refresh :: "(string \<Rightarrow> nat list) \<Rightarrow> string \<Rightarrow> id \<Rightarrow> string \<Rightarrow> (id \<times> string) io" where
  "RefreshToken_Refresh sha rnd uuid plaintextToken =
     bindE (RefreshTokenRepository_GetByHash (HashOpaqueToken sha plaintextToken)) (\<lambda>token.
     bindE nowE (\<lambda>now.
     guardE (RefreshToken_Valid now token) ErrRefreshTokenInvalid (
     bindE (UserRepository_GetByID (rt_UserID token)) (\<lambda>_.
     bindE (RefreshTokenRepository_Revoke (rt_ID token)) (\<lambda>_.
     bindE (RefreshToken_Issue sha rnd uuid (rt_UserID token)) (\<lambda>newRefreshToken.
     retE (rt_UserID token, newRefreshToken)))))))"

section \<open>Password resets\<close>

definition PasswordResetTokenTTL :: time where "PasswordResetTokenTTL = seconds (30 * 60)"

definition NewPasswordResetToken :: "id \<Rightarrow> time \<Rightarrow> id \<Rightarrow> string \<Rightarrow> PasswordResetToken" where
  "NewPasswordResetToken uuid now userID tokenHash = \<lparr>prt_ID = uuid, prt_UserID = userID, prt_TokenHash = tokenHash,
     prt_ExpiresAt = now + PasswordResetTokenTTL, prt_UsedAt = None, prt_CreatedAt = now\<rparr>"

definition PasswordResetToken_Valid :: "time \<Rightarrow> PasswordResetToken \<Rightarrow> bool" where
  "PasswordResetToken_Valid now t = (prt_UsedAt t = None \<and> now < prt_ExpiresAt t)"

definition PasswordResetTokenRepository_Create :: "PasswordResetToken \<Rightarrow> unit io" where
  "PasswordResetTokenRepository_Create t = tx (\<lambda>_ d.
     if \<not> list_ex (\<lambda>u. usr_ID u = prt_UserID t) (users d) then Inl ErrForeignKeyViolation
     else if list_ex (\<lambda>x. prt_ID x = prt_ID t \<or> prt_TokenHash x = prt_TokenHash t) (password_reset_tokens d)
     then Inl ErrUniqueViolation
     else Inr ((), d\<lparr>password_reset_tokens := password_reset_tokens d @ [t]\<rparr>))"

definition PasswordResetTokenRepository_GetByHash :: "string \<Rightarrow> PasswordResetToken io" where
  "PasswordResetTokenRepository_GetByHash tokenHash = query (\<lambda>d.
     oneRow ErrPasswordResetTokenInvalid (\<lambda>t. prt_TokenHash t = tokenHash) (password_reset_tokens d))"

definition MarkUsed :: "id \<Rightarrow> unit io" where
  "MarkUsed i = tx (\<lambda>now d.
     Inr ((), d\<lparr>password_reset_tokens := upd (\<lambda>t. prt_ID t = i) (\<lambda>t. t\<lparr>prt_UsedAt := Some now\<rparr>) (password_reset_tokens d)\<rparr>))"

text \<open>The token is written to the log, in place of an e-mail; it is not part of the result.\<close>

definition RequestReset :: "(string \<Rightarrow> nat list) \<Rightarrow> string \<Rightarrow> id \<Rightarrow> string \<Rightarrow> unit io" where
  "RequestReset sha rnd uuid email =
     bindE (tryE (UserRepository_GetByEmail email)) (\<lambda>r. case r of
       Inl e \<Rightarrow> if e = ErrUserNotFound then retE () else throwE e
     | Inr user \<Rightarrow>
         if usr_AuthSource user \<noteq> AuthSourceLocal then retE () else
         let plaintext = GenerateOpaqueToken rnd in
         bindE nowE (\<lambda>now.
         PasswordResetTokenRepository_Create (NewPasswordResetToken uuid now (usr_ID user) (HashOpaqueToken sha plaintext))))"

definition ConfirmReset :: "(string \<Rightarrow> nat list) \<Rightarrow> bcrypt \<Rightarrow> string \<Rightarrow> string \<Rightarrow> string \<Rightarrow> unit io" where
  "ConfirmReset sha bc salt plaintextToken newPassword =
     guardE (8 \<le> length newPassword) (ValidationError ''password must be at least 8 characters'') (
     bindE (PasswordResetTokenRepository_GetByHash (HashOpaqueToken sha plaintextToken)) (\<lambda>token.
     bindE nowE (\<lambda>now.
     guardE (PasswordResetToken_Valid now token) ErrPasswordResetTokenInvalid (
     bindE (liftE (bc_Generate bc salt newPassword)) (\<lambda>hashedPassword.
     bindE (UpdatePasswordHash (prt_UserID token) hashedPassword) (\<lambda>_.
     MarkUsed (prt_ID token)))))))"

section \<open>Service accounts and API keys\<close>

definition NewServiceAccount :: "id \<Rightarrow> time \<Rightarrow> id \<Rightarrow> string \<Rightarrow> string \<Rightarrow> err + ServiceAccount" where
  "NewServiceAccount uuid now organizationID name description =
     (if organizationID = [] then Inl (ValidationError ''organization_id is required'')
      else if name = [] then Inl (ValidationError ''name is required'')
      else Inr \<lparr>sa_ID = uuid, sa_OrganizationID = organizationID, sa_Name = name, sa_Description = description,
        sa_CreatedAt = now\<rparr>)"

definition ServiceAccountRepository_Create :: "ServiceAccount \<Rightarrow> unit io" where
  "ServiceAccountRepository_Create sa = tx (\<lambda>_ d.
     if \<not> list_ex (\<lambda>og. org_ID og = sa_OrganizationID sa) (organizations d) then Inl ErrForeignKeyViolation
     else if list_ex (\<lambda>x. sa_ID x = sa_ID sa \<or> sa_OrganizationID x = sa_OrganizationID sa \<and> sa_Name x = sa_Name sa)
       (service_accounts d) then Inl ErrUniqueViolation
     else Inr ((), d\<lparr>service_accounts := service_accounts d @ [sa]\<rparr>))"

definition CreateServiceAccount_Execute :: "id \<Rightarrow> string list \<Rightarrow> id \<Rightarrow> id \<Rightarrow> string \<Rightarrow> string \<Rightarrow> ServiceAccount io" where
  "CreateServiceAccount_Execute uuid ctx organizationID requestingUserID name description =
     bindE (IsMember organizationID requestingUserID) (\<lambda>isMember.
     guardE isMember ErrServiceAccountNotFound (
     bindE (HasPermission ctx organizationID requestingUserID ''organization:manage'') (\<lambda>allowed.
     guardE allowed ErrForbidden (
     bindE nowE (\<lambda>now.
     bindE (liftE (NewServiceAccount uuid now organizationID name description)) (\<lambda>sa.
     bindE (ServiceAccountRepository_Create sa) (\<lambda>_.
     retE sa)))))))"

definition DefaultAPIKeyTTL :: time where "DefaultAPIKeyTTL = 365 * 24 * seconds 3600"

definition NewAPIKey :: "id \<Rightarrow> time \<Rightarrow> string \<Rightarrow> id \<Rightarrow> string \<Rightarrow> string \<Rightarrow> string list \<Rightarrow> time option \<Rightarrow> err + APIKey" where
  "NewAPIKey uuid now ownerType ownerID name keyHash scopes expiresAt =
     (if ownerType \<notin> set [''user'', ''service_account'']
      then Inl (ValidationError ''owner_type must be one of: user, service_account'')
      else if ownerID = [] then Inl (ValidationError ''owner_id is required'')
      else if name = [] then Inl (ValidationError ''name is required'')
      else let key = \<lparr>ak_ID = uuid, ak_OwnerType = ownerType, ak_OwnerID = ownerID, ak_Name = name, ak_KeyHash = keyHash,
             ak_Scopes = scopes, ak_ExpiresAt = now + DefaultAPIKeyTTL, ak_LastUsedAt = None, ak_RevokedAt = None,
             ak_CreatedAt = now\<rparr>
        in case expiresAt of
             None \<Rightarrow> Inr key
           | Some t \<Rightarrow> if \<not> now < t then Inl (ValidationError ''expires_at must be in the future'')
               else Inr (key\<lparr>ak_ExpiresAt := t\<rparr>))"

definition APIKey_Valid :: "time \<Rightarrow> APIKey \<Rightarrow> bool" where
  "APIKey_Valid now k = (ak_RevokedAt k = None \<and> now < ak_ExpiresAt k)"

definition APIKeyRepository_Create :: "id \<Rightarrow> APIKey \<Rightarrow> unit io" where
  "APIKeyRepository_Create organizationID key = tx (\<lambda>_ d.
     if ak_OwnerType key \<notin> set [''user'', ''service_account''] then Inl ErrCheckViolation
     else if \<not> list_ex (\<lambda>og. org_ID og = organizationID) (organizations d) then Inl ErrForeignKeyViolation
     else if list_ex (\<lambda>x. ak_ID (akr_Key x) = ak_ID key \<or> ak_KeyHash (akr_Key x) = ak_KeyHash key) (api_keys d)
     then Inl ErrUniqueViolation
     else Inr ((), d\<lparr>api_keys := api_keys d @ [\<lparr>akr_OrganizationID = organizationID, akr_Key = key\<rparr>]\<rparr>))"

definition APIKeyRepository_GetByHash :: "string \<Rightarrow> APIKey io" where
  "APIKeyRepository_GetByHash keyHash = query (\<lambda>d.
     case oneRow ErrAPIKeyInvalid (\<lambda>x. ak_KeyHash (akr_Key x) = keyHash) (api_keys d) of
       Inl e \<Rightarrow> Inl e | Inr x \<Rightarrow> Inr (akr_Key x))"

definition TouchLastUsed :: "id \<Rightarrow> unit io" where
  "TouchLastUsed i = tx (\<lambda>now d.
     Inr ((), d\<lparr>api_keys := upd (\<lambda>x. ak_ID (akr_Key x) = i)
       (\<lambda>x. x\<lparr>akr_Key := (akr_Key x)\<lparr>ak_LastUsedAt := Some now\<rparr>\<rparr>) (api_keys d)\<rparr>))"

definition APIKeyRepository_Revoke :: "id \<Rightarrow> id \<Rightarrow> unit io" where
  "APIKeyRepository_Revoke organizationID keyID = tx (\<lambda>now d.
     let p = \<lambda>x. ak_ID (akr_Key x) = keyID \<and> akr_OrganizationID x = organizationID \<and> ak_RevokedAt (akr_Key x) = None in
     if \<not> list_ex p (api_keys d) then Inl ErrAPIKeyInvalid
     else Inr ((), d\<lparr>api_keys := upd p (\<lambda>x. x\<lparr>akr_Key := (akr_Key x)\<lparr>ak_RevokedAt := Some now\<rparr>\<rparr>) (api_keys d)\<rparr>))"

definition check_scopes :: "string list \<Rightarrow> err + unit" where
  "check_scopes scopes = (case List.find (\<lambda>s. s \<notin> set AllPermissions) scopes of
     Some s \<Rightarrow> Inl (ValidationError (''unknown scope: '' @ s)) | None \<Rightarrow> Inr ())"

definition CreateAPIKey_Execute :: "(string \<Rightarrow> nat list) \<Rightarrow> string \<Rightarrow> id \<Rightarrow> string list \<Rightarrow> id \<Rightarrow> id \<Rightarrow> id \<Rightarrow> string \<Rightarrow> string list \<Rightarrow> time option
    \<Rightarrow> (APIKey \<times> string) io" where
  "CreateAPIKey_Execute sha rnd uuid ctx organizationID requestingUserID serviceAccountID name scopes expiresAt =
     bindE (IsMember organizationID requestingUserID) (\<lambda>isMember.
     guardE isMember ErrServiceAccountNotFound (
     bindE (HasPermission ctx organizationID requestingUserID ''organization:manage'') (\<lambda>allowed.
     guardE allowed ErrForbidden (
     bindE (ServiceAccountRepository_GetByID organizationID serviceAccountID) (\<lambda>_.
     bindE (liftE (check_scopes scopes)) (\<lambda>_.
     let plaintext = GenerateOpaqueToken rnd in
     bindE nowE (\<lambda>now.
     bindE (liftE (NewAPIKey uuid now ''service_account'' serviceAccountID name (HashOpaqueToken sha plaintext) scopes expiresAt)) (\<lambda>key.
     bindE (APIKeyRepository_Create organizationID key) (\<lambda>_.
     retE (key, plaintext))))))))))"

definition RevokeAPIKey_Execute :: "string list \<Rightarrow> id \<Rightarrow> id \<Rightarrow> id \<Rightarrow> unit io" where
  "RevokeAPIKey_Execute ctx organizationID requestingUserID apiKeyID =
     bindE (IsMember organizationID requestingUserID) (\<lambda>isMember.
     guardE isMember ErrAPIKeyInvalid (
     bindE (HasPermission ctx organizationID requestingUserID ''organization:manage'') (\<lambda>allowed.
     guardE allowed ErrForbidden (
     APIKeyRepository_Revoke organizationID apiKeyID))))"

text \<open>The resolver of API keys that \<^verbatim>\<open>main.go\<close> gives to the authentication of requests.\<close>

definition apiKeyResolver :: "(string \<Rightarrow> nat list) \<Rightarrow> string \<Rightarrow> (id \<times> string list) io" where
  "apiKeyResolver sha plaintextKey =
     bindE (APIKeyRepository_GetByHash (HashOpaqueToken sha plaintextKey)) (\<lambda>key.
     bindE nowE (\<lambda>now.
     guardE (APIKey_Valid now key) ErrAPIKeyInvalid (
     bindE (tryE (TouchLastUsed (ak_ID key))) (\<lambda>_.
     retE (ak_OwnerID key, ak_Scopes key)))))"

lemmas identity_defs = UserRepository_Create_def UserRepository_GetByUsername_def UserRepository_GetByID_def
  UserRepository_GetByEmail_def UserRepository_Count_def UpdatePasswordHash_def
  RefreshTokenRepository_Create_def RefreshTokenRepository_GetByHash_def RefreshTokenRepository_Revoke_def
  PasswordResetTokenRepository_Create_def PasswordResetTokenRepository_GetByHash_def MarkUsed_def
  ServiceAccountRepository_Create_def APIKeyRepository_Create_def APIKeyRepository_GetByHash_def TouchLastUsed_def
  APIKeyRepository_Revoke_def

end
