(* ===== verification/Rate_Limit.thy ===== *)
theory Rate_Limit
  imports Store
begin

text \<open>
  \<^verbatim>\<open>internal/platform/ratelimit\<close>: a fixed-window counter per key, in memory. \<open>Allow\<close> and \<open>GC\<close> run under the limiter's
  mutex, so each is one step on the limiter. The results: the sweep \<open>GC\<close> cannot be observed, and
  in no period as long as a window more than twice the limit is allowed.
\<close>

definition Limiter_New :: "int \<Rightarrow> time \<Rightarrow> Limiter" where
  "Limiter_New limit interval = \<lparr>lim_windows = Map.empty, lim_limit = limit, lim_interval = interval\<rparr>"

definition current_window :: "time \<Rightarrow> string \<Rightarrow> Limiter \<Rightarrow> window" where
  "current_window now key l = (case lim_windows l key of
     Some w \<Rightarrow> if win_resetAt w < now then \<lparr>win_count = 0, win_resetAt = now + lim_interval l\<rparr> else w
   | None \<Rightarrow> \<lparr>win_count = 0, win_resetAt = now + lim_interval l\<rparr>)"

definition Limiter_Allow :: "time \<Rightarrow> string \<Rightarrow> Limiter \<Rightarrow> (bool \<times> time) \<times> Limiter" where
  "Limiter_Allow now key l =
     (let w0 = current_window now key l;
          w = w0\<lparr>win_count := win_count w0 + 1\<rparr>;
          l' = l\<lparr>lim_windows := (lim_windows l)(key \<mapsto> w)\<rparr>
      in if win_count w > lim_limit l then ((False, win_resetAt w - now), l') else ((True, 0), l'))"

definition Limiter_GC :: "time \<Rightarrow> Limiter \<Rightarrow> Limiter" where
  "Limiter_GC now l = l\<lparr>lim_windows := (\<lambda>key. case lim_windows l key of
     Some w \<Rightarrow> if win_resetAt w < now then None else Some w | None \<Rightarrow> None)\<rparr>"

section \<open>Histories\<close>

text \<open>The calls a limiter receives, in the order in which they get its mutex, each with the time it reads.\<close>

datatype limiter_call = CallAllow string | CallGC

fun limiter_run :: "(time \<times> limiter_call) list \<Rightarrow> Limiter \<Rightarrow> (time \<times> string \<times> bool) list" where
  "limiter_run [] l = []"
| "limiter_run ((now, CallAllow key) # cs) l =
     (case Limiter_Allow now key l of ((allowed, _), l') \<Rightarrow> (now, key, allowed) # limiter_run cs l')"
| "limiter_run ((now, CallGC) # cs) l = limiter_run cs (Limiter_GC now l)"

text \<open>The calls for one key that are allowed, each with the end of its window.\<close>

fun allowed_calls :: "string \<Rightarrow> (time \<times> limiter_call) list \<Rightarrow> Limiter \<Rightarrow> (time \<times> time) list" where
  "allowed_calls k [] l = []"
| "allowed_calls k ((now, CallAllow key) # cs) l =
     (case Limiter_Allow now key l of ((allowed, _), l') \<Rightarrow>
       if allowed \<and> key = k then (now, win_resetAt (current_window now key l)) # allowed_calls k cs l' else allowed_calls k cs l')"
| "allowed_calls k ((now, CallGC) # cs) l = allowed_calls k cs (Limiter_GC now l)"

lemma allowed_calls_run:
  "map fst (allowed_calls k cs l) = map fst (filter (\<lambda>(t, key, ok). key = k \<and> ok) (limiter_run cs l))"
  by (induction cs l rule: limiter_run.induct) (auto split: prod.splits)

lemma Allow_simps:
  "fst (fst (Limiter_Allow now key l)) \<longleftrightarrow> win_count (current_window now key l) + 1 \<le> lim_limit l"
  "snd (Limiter_Allow now key l) = l\<lparr>lim_windows := (lim_windows l)(key \<mapsto>
     (current_window now key l)\<lparr>win_count := win_count (current_window now key l) + 1\<rparr>)\<rparr>"
  by (auto simp: Limiter_Allow_def Let_def)

section \<open>Sweeps cannot be observed\<close>

text \<open>Two limiters that answer alike from the time \<open>t\<close> on: they differ at most in windows that ended before.\<close>

definition ended :: "time \<Rightarrow> window option \<Rightarrow> bool" where
  "ended t w = (case w of None \<Rightarrow> True | Some w \<Rightarrow> win_resetAt w < t)"

definition alike :: "time \<Rightarrow> Limiter \<Rightarrow> Limiter \<Rightarrow> bool" where
  "alike t l l' \<longleftrightarrow> lim_limit l = lim_limit l' \<and> lim_interval l = lim_interval l'
     \<and> (\<forall>k. lim_windows l k = lim_windows l' k \<or> ended t (lim_windows l k) \<and> ended t (lim_windows l' k))"

lemma ended_mono: "ended t w \<Longrightarrow> t \<le> t' \<Longrightarrow> ended t' w"
  by (auto simp: ended_def split: option.splits)

lemma ended_window: "ended now (lim_windows l k) \<Longrightarrow> current_window now k l = \<lparr>win_count = 0, win_resetAt = now + lim_interval l\<rparr>"
  by (auto simp: current_window_def ended_def split: option.splits)

lemma alike_mono: "alike t l l' \<Longrightarrow> t \<le> t' \<Longrightarrow> alike t' l l'"
  unfolding alike_def using ended_mono by blast

lemma alike_window:
  assumes "alike t l l'" "t \<le> now"
  shows "current_window now k l = current_window now k l'"
proof (cases "lim_windows l k = lim_windows l' k")
  case True
  moreover have "lim_interval l = lim_interval l'" using assms(1) by (simp add: alike_def)
  ultimately show ?thesis by (simp add: current_window_def split: option.split)
next
  case False
  with alike_mono [OF assms] show ?thesis using ended_window unfolding alike_def by metis
qed

lemma alike_Allow:
  assumes "alike t l l'" "t \<le> now"
  shows "fst (Limiter_Allow now key l) = fst (Limiter_Allow now key l')"
    and "alike now (snd (Limiter_Allow now key l)) (snd (Limiter_Allow now key l'))"
proof -
  have lim: "lim_limit l = lim_limit l'" using assms(1) by (simp add: alike_def)
  show "fst (Limiter_Allow now key l) = fst (Limiter_Allow now key l')"
    by (simp add: Limiter_Allow_def Let_def lim alike_window [OF assms])
  show "alike now (snd (Limiter_Allow now key l)) (snd (Limiter_Allow now key l'))"
    using alike_mono [OF assms] by (simp add: Allow_simps alike_window [OF assms]) (simp add: alike_def)
qed

lemma alike_GC: "alike t l l' \<Longrightarrow> t \<le> now \<Longrightarrow> alike now (Limiter_GC now l) l'"
proof -
  assume "alike t l l'" "t \<le> now"
  then have l: "alike now l l'" by (rule alike_mono)
  have "lim_windows (Limiter_GC now l) k = lim_windows l' k
      \<or> ended now (lim_windows (Limiter_GC now l) k) \<and> ended now (lim_windows l' k)" for k
  proof -
    from l have "lim_windows l k = lim_windows l' k \<or> ended now (lim_windows l k) \<and> ended now (lim_windows l' k)" by (simp add: alike_def)
    then show ?thesis by (auto simp: Limiter_GC_def ended_def split: option.splits)
  qed
  moreover have "lim_limit (Limiter_GC now l) = lim_limit l'" "lim_interval (Limiter_GC now l) = lim_interval l'"
    using l by (simp_all add: alike_def Limiter_GC_def)
  ultimately show ?thesis by (simp add: alike_def)
qed

lemma GC_unobservable:
  "alike t l l' \<Longrightarrow> sorted (t # map fst cs) \<Longrightarrow> limiter_run cs l = limiter_run (filter (\<lambda>c. snd c \<noteq> CallGC) cs) l'"
proof (induction cs l arbitrary: t l' rule: limiter_run.induct)
  case (2 now key cs l)
  from 2 alike_Allow [of t l l' now key] show ?case
    by (cases "Limiter_Allow now key l"; cases "Limiter_Allow now key l'") (auto simp: sorted_wrt_append)
next
  case (3 now cs l)
  then have "alike now (Limiter_GC now l) l'" by (auto intro: alike_GC)
  from "3.IH" [OF this] "3.prems"(2) show ?case by simp
qed simp

section \<open>The bound\<close>

text \<open>
  \<open>spaced limit i W L\<close>, for a window \<open>W\<close> and the allowed calls \<open>L\<close> that follow it: a call lies in its window; the windows are
  \<open>W\<close> or begin after its end, and any two of them are the same or apart; and no window has more
  calls than the limit leaves room for.
\<close>

definition in_window :: "time \<Rightarrow> (time \<times> time) list \<Rightarrow> nat" where
  "in_window r L = length (filter (\<lambda>c. snd c = r) L)"

definition spaced :: "int \<Rightarrow> time \<Rightarrow> window option \<Rightarrow> (time \<times> time) list \<Rightarrow> bool" where
  "spaced limit i W L \<longleftrightarrow> (\<forall>(t, r) \<in> set L. t \<le> r \<and> r \<le> t + i)
     \<and> (\<forall>r \<in> snd ` set L. \<forall>w. W = Some w \<longrightarrow> r = win_resetAt w \<or> win_resetAt w + i < r)
     \<and> (\<forall>r \<in> snd ` set L. \<forall>r' \<in> snd ` set L. r = r' \<or> r + i < r' \<or> r' + i < r)
     \<and> (\<forall>r. int (in_window r L) \<le> max 0 (case W of Some w \<Rightarrow> if win_resetAt w = r then limit - win_count w else limit | None \<Rightarrow> limit))"

lemma in_window_Cons: "in_window r ((t, r') # L) = (if r' = r then 1 else 0) + in_window r L"
  by (simp add: in_window_def)

lemma in_window_none: "r \<notin> snd ` set L \<Longrightarrow> in_window r L = 0"
  by (auto simp: in_window_def filter_empty_conv)

lemma in_window_filter: "in_window r (filter P L) \<le> in_window r L"
  by (induction L) (auto simp: in_window_def)

lemma spaced_same:
  assumes "spaced limit i (Some (w\<lparr>win_count := win_count w + 1\<rparr>)) L" "now \<le> win_resetAt w" "win_resetAt w \<le> now + i" "0 \<le> win_count w"
  shows "spaced limit i (Some w) (if win_count w + 1 \<le> limit then (now, win_resetAt w) # L else L)"
proof (cases "win_count w + 1 \<le> limit")
  case True
  have "int (in_window r ((now, win_resetAt w) # L)) \<le> max 0 (if win_resetAt w = r then limit - win_count w else limit)" for r
    using assms(1) True unfolding spaced_def by (auto simp: in_window_Cons dest!: spec [of _ r])
  with True assms show ?thesis unfolding spaced_def by auto
next
  case False
  have "int (in_window r L) \<le> max 0 (if win_resetAt w = r then limit - win_count w else limit)" for r
    using assms(1) unfolding spaced_def by (auto dest!: spec [of _ r])
  with False assms(1) show ?thesis unfolding spaced_def by auto
qed

lemma spaced_fresh:
  assumes "spaced limit i (Some \<lparr>win_count = 1, win_resetAt = now + i\<rparr>) L" "ended now W" "0 \<le> i"
  shows "spaced limit i W (if 1 \<le> limit then (now, now + i) # L else L)"
proof -
  let ?L = "if 1 \<le> limit then (now, now + i) # L else L"
  have later: "now + i \<le> r" if "r \<in> snd ` set ?L" for r
    using that assms(1,3) unfolding spaced_def by (auto split: if_splits)
  have "win_resetAt w \<noteq> r \<and> win_resetAt w + i < r" if "r \<in> snd ` set ?L" "W = Some w" for r w
    using later [OF that(1)] that(2) assms(2,3) by (auto simp: ended_def)
  moreover have "int (in_window r ?L) \<le> max 0 limit" for r
    using assms(1) unfolding spaced_def by (auto simp: in_window_Cons dest!: spec [of _ r])
  ultimately have "int (in_window r ?L) \<le> max 0 (case W of Some w \<Rightarrow> if win_resetAt w = r then limit - win_count w else limit | None \<Rightarrow> limit)" for r
    using in_window_none [of r ?L] by (cases "r \<in> snd ` set ?L") (auto split: option.split)
  moreover have "\<forall>(t, r) \<in> set ?L. t \<le> r \<and> r \<le> t + i" using assms(1,3) unfolding spaced_def by auto
  moreover have "\<forall>r \<in> snd ` set ?L. \<forall>r' \<in> snd ` set ?L. r = r' \<or> r + i < r' \<or> r' + i < r" using assms(1) unfolding spaced_def by auto
  moreover have "\<forall>r \<in> snd ` set ?L. \<forall>w. W = Some w \<longrightarrow> r = win_resetAt w \<or> win_resetAt w + i < r"
    using \<open>\<And>w r. r \<in> snd ` set ?L \<Longrightarrow> W = Some w \<Longrightarrow> win_resetAt w \<noteq> r \<and> win_resetAt w + i < r\<close> by blast
  ultimately show ?thesis unfolding spaced_def by blast
qed

lemma allowed_calls_Allow:
  "allowed_calls k ((now, CallAllow key) # cs) l =
     (if win_count (current_window now key l) + 1 \<le> lim_limit l \<and> key = k then [(now, win_resetAt (current_window now key l))] else [])
     @ allowed_calls k cs (snd (Limiter_Allow now key l))"
  by (cases "Limiter_Allow now key l"; cases "fst (Limiter_Allow now key l)")
    (auto simp flip: Allow_simps(1))

lemma allowed_calls_spaced:
  assumes "\<forall>c \<in> set cs. snd c \<noteq> CallGC" "sorted (T # map fst cs)" "0 \<le> lim_interval l"
    and "\<forall>w. lim_windows l k = Some w \<longrightarrow> 0 \<le> win_count w \<and> win_resetAt w \<le> T + lim_interval l"
  shows "spaced (lim_limit l) (lim_interval l) (lim_windows l k) (allowed_calls k cs l)"
  using assms
proof (induction cs arbitrary: l T)
  case Nil
  show ?case by (auto simp: spaced_def in_window_def split: option.split)
next
  case (Cons c cs)
  from Cons.prems(1) obtain now key where c: "c = (now, CallAllow key)" by (cases c; cases "snd c") auto
  let ?w = "current_window now key l"
  let ?l' = "snd (Limiter_Allow now key l)"
  have T: "T \<le> now" "sorted (now # map fst cs)" using Cons.prems(2) by (auto simp: c)
  have IH: "spaced (lim_limit l) (lim_interval l) (lim_windows ?l' k) (allowed_calls k cs ?l')"
    if "\<forall>w. lim_windows ?l' k = Some w \<longrightarrow> 0 \<le> win_count w \<and> win_resetAt w \<le> now + lim_interval l"
    using Cons.IH [OF _ T(2), of ?l'] Cons.prems(1,3) that by (simp add: Allow_simps)
  show ?case
  proof (cases "key = k")
    case False
    then have "lim_windows ?l' k = lim_windows l k" by (simp add: Allow_simps)
    moreover from Cons.prems(4) T(1) have "\<forall>w. lim_windows l k = Some w \<longrightarrow> 0 \<le> win_count w \<and> win_resetAt w \<le> now + lim_interval l" by auto
    ultimately show ?thesis using IH False unfolding c allowed_calls_Allow by simp
  next
    case True
    have win: "lim_windows ?l' k = Some (?w\<lparr>win_count := win_count ?w + 1\<rparr>)" using True by (simp add: Allow_simps)
    show ?thesis
    proof (cases "ended now (lim_windows l k)")
      case ended: True
      then have w: "?w = \<lparr>win_count = 0, win_resetAt = now + lim_interval l\<rparr>" using True by (simp add: ended_window)
      from IH have "spaced (lim_limit l) (lim_interval l) (Some \<lparr>win_count = 1, win_resetAt = now + lim_interval l\<rparr>) (allowed_calls k cs ?l')"
        by (simp add: win w)
      from spaced_fresh [OF this ended Cons.prems(3)] True show ?thesis
        unfolding c allowed_calls_Allow w by (simp split: if_splits)
    next
      case False
      then obtain w where old: "lim_windows l k = Some w" "now \<le> win_resetAt w" by (auto simp: ended_def split: option.splits)
      then have w: "?w = w" using True by (simp add: current_window_def)
      have bound: "0 \<le> win_count w" "win_resetAt w \<le> now + lim_interval l" using Cons.prems(4) old(1) T(1) by auto
      with IH have "spaced (lim_limit l) (lim_interval l) (Some (w\<lparr>win_count := win_count w + 1\<rparr>)) (allowed_calls k cs ?l')"
        by (simp add: win w)
      from spaced_same [OF this old(2) bound(2,1)] True show ?thesis
        unfolding c allowed_calls_Allow w old(1) by (simp split: if_splits)
    qed
  qed
qed

text \<open>Of windows that are pairwise apart at most two meet a period of their length.\<close>

lemma two_windows:
  assumes "finite R" "\<forall>r \<in> R. t \<le> r \<and> r \<le> t + 2 * i" "\<forall>r \<in> R. \<forall>r' \<in> R. r = r' \<or> r + i < r' \<or> r' + i < (r :: int)"
  shows "card R \<le> 2"
proof (rule ccontr)
  assume "\<not> card R \<le> 2"
  then have "\<exists>S \<subseteq> R. card S = 3" using obtain_subset_with_card_n [of 3 R] by auto
  then obtain a b c where "{a, b, c} \<subseteq> R" "a \<noteq> b" "b \<noteq> c" "a \<noteq> c" by (auto simp: card_3_iff)
  with assms(2,3) show False by (smt (verit) insert_subset)
qed

lemma length_by_window:
  assumes "finite R" "\<forall>c \<in> set L. snd c \<in> R" "\<And>r. in_window r L \<le> n"
  shows "length L \<le> card R * n"
proof -
  have "length L = (\<Sum>r \<in> R. in_window r L)" using assms(2)
  proof (induction L)
    case Nil
    then show ?case by (simp add: in_window_def)
  next
    case (Cons c L)
    then have "(\<Sum>r \<in> R. in_window r (c # L)) = (\<Sum>r \<in> R. if snd c = r then 1 else 0) + (\<Sum>r \<in> R. in_window r L)"
      by (cases c) (simp add: in_window_Cons sum.distrib)
    with Cons assms(1) show ?case by simp
  qed
  also have "\<dots> \<le> card R * n" using assms(3) by (intro sum_bounded_above [of R _ n, simplified]) auto
  finally show ?thesis .
qed

text \<open>
  C14: The rate limit. Let a new limiter receive any calls of \<open>Allow\<close>, for any keys, and of \<open>GC\<close>, at times that do not decrease.
  In every period as long as the limiter's interval, wherever it begins, at most twice the limit of
  the calls for a key are allowed; and the calls of \<open>GC\<close> have no influence on any answer.
\<close>

theorem rate_limit_bound:
  assumes "sorted (map fst cs)" and "0 \<le> limit" and "0 \<le> interval"
  shows "length (filter (\<lambda>(u, key, ok). key = k \<and> ok \<and> t \<le> u \<and> u \<le> t + interval) (limiter_run cs (Limiter_New limit interval))) \<le> 2 * nat limit
    \<and> limiter_run cs (Limiter_New limit interval) = limiter_run (filter (\<lambda>c. snd c \<noteq> CallGC) cs) (Limiter_New limit interval)"
proof
  let ?l = "Limiter_New limit interval"
  let ?cs = "filter (\<lambda>c. snd c \<noteq> CallGC) cs"
  let ?T = "if cs = [] then 0 else fst (hd cs)"
  have T: "sorted (?T # map fst cs)" using assms(1) by (cases cs) auto
  have "alike ?T ?l ?l" by (simp add: alike_def)
  with T show gc: "limiter_run cs ?l = limiter_run ?cs ?l" by (rule GC_unobservable [rotated])
  have T': "sorted (?T # map fst ?cs)" using T sorted_filter [of fst cs] by auto
  let ?A = "allowed_calls k ?cs ?l"
  let ?L = "filter (\<lambda>c. t \<le> fst c \<and> fst c \<le> t + interval) ?A"
  let ?R = "snd ` set ?L"
  have "spaced (lim_limit ?l) (lim_interval ?l) (lim_windows ?l k) ?A"
    by (rule allowed_calls_spaced [OF _ T']) (use assms(3) in \<open>auto simp: Limiter_New_def\<close>)
  then have sp: "spaced limit interval None ?A" by (simp add: Limiter_New_def)
  have "in_window r ?L \<le> in_window r ?A" for r by (rule in_window_filter)
  moreover have "in_window r ?A \<le> nat limit" for r using sp assms(2) by (auto simp: spaced_def dest!: spec [of _ r])
  ultimately have win: "in_window r ?L \<le> nat limit" for r using order_trans by blast
  have "card ?R \<le> 2"
  proof (rule two_windows)
    show "\<forall>r \<in> ?R. t \<le> r \<and> r \<le> t + 2 * interval" using sp unfolding spaced_def by fastforce
    have "?R \<subseteq> snd ` set ?A" by auto
    then show "\<forall>r \<in> ?R. \<forall>r' \<in> ?R. r = r' \<or> r + interval < r' \<or> r' + interval < r"
      using sp unfolding spaced_def by (meson subset_iff)
  qed simp
  moreover have "length ?L \<le> card ?R * nat limit" by (rule length_by_window) (use win in auto)
  ultimately have bound: "length ?L \<le> 2 * nat limit" using mult_le_mono1 order_trans by blast
  have pred: "(\<lambda>(u, key, ok). key = k \<and> ok \<and> t \<le> u \<and> u \<le> t + interval)
      = (\<lambda>x. (case x of (u, key, ok) \<Rightarrow> key = k \<and> ok) \<and> t \<le> fst x \<and> fst x \<le> t + interval)" by auto
  have "length ?L = length (filter (\<lambda>u. t \<le> u \<and> u \<le> t + interval) (map fst ?A))" by (simp add: filter_map comp_def)
  also have "\<dots> = length (filter (\<lambda>(u, key, ok). key = k \<and> ok \<and> t \<le> u \<and> u \<le> t + interval) (limiter_run ?cs ?l))"
    unfolding allowed_calls_run pred by (simp add: filter_map comp_def conj_commute)
  finally show "length (filter (\<lambda>(u, key, ok). key = k \<and> ok \<and> t \<le> u \<and> u \<le> t + interval) (limiter_run cs ?l)) \<le> 2 * nat limit"
    using bound unfolding gc by simp
qed

theorem rate_limit_bound_witness:
  "length (filter (\<lambda>(u, key, ok). key = ''a'' \<and> ok \<and> 5 \<le> u \<and> u \<le> 5 + 10)
     (limiter_run [(0, CallAllow ''a''), (9, CallAllow ''a''), (10, CallAllow ''a''), (11, CallGC), (12, CallAllow ''a''), (13, CallAllow ''a'')]
       (Limiter_New 2 10))) = 3"
proof -
  let ?cs = "[(0, CallAllow ''a''), (9, CallAllow ''a''), (10, CallAllow ''a''), (11, CallGC), (12, CallAllow ''a''), (13, CallAllow ''a'')] :: (time \<times> limiter_call) list"
  have "length (filter (\<lambda>(u, key, ok). key = ''a'' \<and> ok \<and> 5 \<le> u \<and> u \<le> 5 + 10) (limiter_run ?cs (Limiter_New 2 10))) \<le> 2 * nat 2"
    by (rule conjunct1 [OF rate_limit_bound]) simp_all
  then show ?thesis by (simp add: Limiter_New_def Limiter_Allow_def Limiter_GC_def current_window_def Let_def)
qed

end
