(* ===== verification/Http.thy ===== *)
theory Http
  imports Identity Rate_Limit
begin

text \<open>
  The HTTP layer that all contexts share (\<^verbatim>\<open>internal/platform/httpserver\<close>, \<^verbatim>\<open>internal/platform/auth\<close>,
  \<^verbatim>\<open>internal/platform/idempotency\<close>): requests and responses, problems, authentication, rate limiting and
  idempotency keys.

  A handler is a program that ends in a response. A request has its method, the segments of its path (what
  stands between the slashes, unescaped), the headers the program reads, the values of the path's wildcards and of
  the query, the JSON value of the body (\<open>None\<close> if the text is not JSON), and what the middleware puts into
  the context: the user and the scopes. The text of a decoding error is not modelled:
  \<open>rq_BodyError\<close> stands for it. The JWT library is a parameter.
\<close>

section \<open>Requests and responses\<close>

record Request =
  rq_Method :: string
  rq_Path :: "string list"
  rq_Authorization :: string
  rq_IdempotencyKey :: string
  rq_RequestID :: string
  rq_RemoteAddr :: string
  rq_PathValue :: "string \<Rightarrow> string"
  rq_Query :: "string \<Rightarrow> string"
  rq_Body :: "json option"
  rq_BodyError :: string
  rq_UserID :: "id option"
  rq_Scopes :: "string list"

record Response =
  rs_Status :: int
  rs_Headers :: "(string \<times> string) list"
  rs_Body :: "json option"

type_synonym handler = "Request \<Rightarrow> (world, Response) res"

definition omitempty :: "string \<Rightarrow> string \<Rightarrow> (string \<times> json) list" where
  "omitempty key v = (if v = [] then [] else [(key, JString v)])"

definition WriteProblem :: "Request \<Rightarrow> int \<Rightarrow> string \<Rightarrow> string \<Rightarrow> Response" where
  "WriteProblem r status title detail = \<lparr>rs_Status = status, rs_Headers = [(''Content-Type'', ''application/problem+json'')],
     rs_Body = Some (JObject ([(''type'', JString ''about:blank''), (''title'', JString title), (''status'', JInt status)]
       @ omitempty ''detail'' detail @ (if status \<ge> 500 then omitempty ''request_id'' (rq_RequestID r) else [])))\<rparr>"

definition writeJSON :: "int \<Rightarrow> json \<Rightarrow> Response" where
  "writeJSON status body = \<lparr>rs_Status = status, rs_Headers = [(''Content-Type'', ''application/json'')], rs_Body = Some body\<rparr>"

definition writeStatus :: "int \<Rightarrow> Response" where
  "writeStatus status = \<lparr>rs_Status = status, rs_Headers = [], rs_Body = None\<rparr>"

text \<open>
  \<open>serve m e k\<close>: call the service \<open>m\<close>, answer its error with \<open>e\<close> and its result with \<open>k\<close>. A panic of the
  service is not an error: \<^verbatim>\<open>net/http\<close> closes the connection without an answer, which is \<open>aborted\<close>.
\<close>

definition aborted :: Response where "aborted = \<lparr>rs_Status = 0, rs_Headers = [], rs_Body = None\<rparr>"

definition serve :: "'a io \<Rightarrow> (err \<Rightarrow> Response) \<Rightarrow> ('a \<Rightarrow> Response) \<Rightarrow> (world, Response) res" where
  "serve m onError onResult = res_bind m (\<lambda>r. Done (case r of
     Inl e \<Rightarrow> if e = NilPointer then aborted else onError e
   | Inr a \<Rightarrow> onResult a))"

text \<open>
  The two forms of the error cases of the handlers: a table from sentinel errors to status, title and detail with the
  title of the answer 500 for every other error, and in front of it the case of a validation error.
\<close>

definition problem :: "Request \<Rightarrow> (err \<times> int \<times> string \<times> string) list \<Rightarrow> string \<Rightarrow> err \<Rightarrow> Response" where
  "problem r table internal e = (case map_of table e of
     Some (status, title, detail) \<Rightarrow> WriteProblem r status title detail
   | None \<Rightarrow> WriteProblem r 500 internal [])"

definition invalid :: "Request \<Rightarrow> (err \<Rightarrow> Response) \<Rightarrow> err \<Rightarrow> Response" where
  "invalid r onError e = (case e of ValidationError m \<Rightarrow> WriteProblem r 400 ''validation failed'' m | _ \<Rightarrow> onError e)"

definition listBody :: "('a \<Rightarrow> json) \<Rightarrow> 'a list \<Rightarrow> json" where
  "listBody toResponse xs = JObject [(''data'', JArray (map toResponse xs))]"

text \<open>Members of type \<^verbatim>\<open>*string\<close>: with \<^verbatim>\<open>omitempty\<close>, and without.\<close>

definition optional :: "string \<Rightarrow> string option \<Rightarrow> (string \<times> json) list" where
  "optional key v = (case v of None \<Rightarrow> [] | Some s \<Rightarrow> [(key, JString s)])"

definition nullable :: "string option \<Rightarrow> json" where
  "nullable v = (case v of None \<Rightarrow> JNull | Some s \<Rightarrow> JString s)"

definition withUser :: "Request \<Rightarrow> (id \<Rightarrow> (world, Response) res) \<Rightarrow> (world, Response) res" where
  "withUser r k = (case rq_UserID r of
     None \<Rightarrow> Done (WriteProblem r 401 ''authentication required'' []) | Some userID \<Rightarrow> k userID)"

section \<open>Decoding of bodies\<close>

text \<open>
  \<^verbatim>\<open>json.Decoder.Decode\<close> into a struct: the members of the object are assigned one after the other to the field of
  that name (without regard to case), members without a field are ignored, and a member of the wrong type
  is an error. \<open>setf\<close> assigns one member. \<^verbatim>\<open>null\<close> leaves a field as it is, except for a pointer or a slice, which it makes
  \<^verbatim>\<open>nil\<close>. Numbers that are not integers are not represented.
\<close>

definition to_lower :: "char \<Rightarrow> char" where
  "to_lower c = (if is_upper c then char_of ((of_char c :: nat) + 32) else c)"

fun decodeMembers :: "(string \<Rightarrow> json \<Rightarrow> 'a \<Rightarrow> 'a option) \<Rightarrow> (string \<times> json) list \<Rightarrow> 'a \<Rightarrow> 'a option" where
  "decodeMembers setf [] a = Some a"
| "decodeMembers setf ((k, v) # ms) a = (case setf (map to_lower k) v a of
     None \<Rightarrow> None | Some a' \<Rightarrow> decodeMembers setf ms a')"

definition decodeStruct :: "(string \<Rightarrow> json \<Rightarrow> 'a \<Rightarrow> 'a option) \<Rightarrow> 'a \<Rightarrow> json option \<Rightarrow> 'a option" where
  "decodeStruct setf zero body = (case body of
     Some (JObject ms) \<Rightarrow> decodeMembers setf ms zero
   | Some JNull \<Rightarrow> Some zero
   | _ \<Rightarrow> None)"

definition withBody :: "(string \<Rightarrow> json \<Rightarrow> 'a \<Rightarrow> 'a option) \<Rightarrow> 'a \<Rightarrow> Request \<Rightarrow> ('a \<Rightarrow> (world, Response) res) \<Rightarrow> (world, Response) res" where
  "withBody setf zero r k = (case decodeStruct setf zero (rq_Body r) of
     None \<Rightarrow> Done (WriteProblem r 400 ''invalid request body'' (rq_BodyError r))
   | Some req \<Rightarrow> k req)"

fun asString :: "json \<Rightarrow> string option" where
  "asString (JString s) = Some s" | "asString _ = None"

fun asBool :: "json \<Rightarrow> bool option" where
  "asBool (JBool b) = Some b" | "asBool _ = None"

text \<open>An \<^verbatim>\<open>int\<close> has 64 bits; a number outside its range is an error.\<close>

fun asInt :: "json \<Rightarrow> int option" where
  "asInt (JInt n) = (if - (2 ^ 63) \<le> n \<and> n < 2 ^ 63 then Some n else None)" | "asInt _ = None"

text \<open>In an array of strings, \<^verbatim>\<open>null\<close> is the empty string.\<close>

fun asStrings :: "json \<Rightarrow> string list option" where
  "asStrings (JArray vs) = those (map (\<lambda>v. if v = JNull then Some [] else asString v) vs)" | "asStrings _ = None"

text \<open>\<open>scalar get put v a\<close> assigns the JSON value \<open>v\<close> to a field that is no pointer, \<open>pointer get put v a\<close> to one that is.\<close>

definition scalar :: "(json \<Rightarrow> 'b option) \<Rightarrow> ('b \<Rightarrow> 'a \<Rightarrow> 'a) \<Rightarrow> json \<Rightarrow> 'a \<Rightarrow> 'a option" where
  "scalar get put v a = (if v = JNull then Some a else map_option (\<lambda>x. put x a) (get v))"

definition pointer :: "(json \<Rightarrow> 'b option) \<Rightarrow> ('b option \<Rightarrow> 'a \<Rightarrow> 'a) \<Rightarrow> json \<Rightarrow> 'a \<Rightarrow> 'a option" where
  "pointer get put v a = (if v = JNull then Some (put None a) else map_option (\<lambda>x. put (Some x) a) (get v))"

text \<open>The same for a slice of strings, a struct and a pointer to a struct: a struct is decoded into what the field holds already.\<close>

definition strings :: "(string list \<Rightarrow> 'a \<Rightarrow> 'a) \<Rightarrow> json \<Rightarrow> 'a \<Rightarrow> 'a option" where
  "strings put v a = (if v = JNull then Some (put [] a) else map_option (\<lambda>x. put x a) (asStrings v))"

definition struct :: "(string \<Rightarrow> json \<Rightarrow> 'b \<Rightarrow> 'b option) \<Rightarrow> 'b \<Rightarrow> ('b \<Rightarrow> 'a \<Rightarrow> 'a) \<Rightarrow> json \<Rightarrow> 'a \<Rightarrow> 'a option" where
  "struct setf current put v a = (case v of
     JNull \<Rightarrow> Some a
   | JObject ms \<Rightarrow> map_option (\<lambda>x. put x a) (decodeMembers setf ms current)
   | _ \<Rightarrow> None)"

definition structPointer :: "(string \<Rightarrow> json \<Rightarrow> 'b \<Rightarrow> 'b option) \<Rightarrow> 'b \<Rightarrow> 'b option \<Rightarrow> ('b option \<Rightarrow> 'a \<Rightarrow> 'a) \<Rightarrow> json \<Rightarrow> 'a \<Rightarrow> 'a option" where
  "structPointer setf zero current put v a = (case v of
     JNull \<Rightarrow> Some (put None a)
   | JObject ms \<Rightarrow> map_option (\<lambda>x. put (Some x) a) (decodeMembers setf ms (case current of None \<Rightarrow> zero | Some x \<Rightarrow> x))
   | _ \<Rightarrow> None)"

text \<open>
  A body all of whose fields are strings, as the function from the names of the fields to their
  values; \<open>names\<close> are the names of the struct's fields.
\<close>

definition setStrings :: "string list \<Rightarrow> string \<Rightarrow> json \<Rightarrow> (string \<Rightarrow> string) \<Rightarrow> (string \<Rightarrow> string) option" where
  "setStrings names k v f = (if k \<in> set names then scalar asString (\<lambda>s f. f(k := s)) v f else Some f)"

definition withStrings :: "string list \<Rightarrow> Request \<Rightarrow> ((string \<Rightarrow> string) \<Rightarrow> (world, Response) res) \<Rightarrow> (world, Response) res" where
  "withStrings names = withBody (setStrings names) (\<lambda>_. [])"

text \<open>The same for a body all of whose fields are pointers to strings.\<close>

definition setPointers :: "string list \<Rightarrow> string \<Rightarrow> json \<Rightarrow> (string \<Rightarrow> string option) \<Rightarrow> (string \<Rightarrow> string option) option" where
  "setPointers names k v f = (if k \<in> set names then pointer asString (\<lambda>s f. f(k := s)) v f else Some f)"

definition withPointers :: "string list \<Rightarrow> Request \<Rightarrow> ((string \<Rightarrow> string option) \<Rightarrow> (world, Response) res) \<Rightarrow> (world, Response) res" where
  "withPointers names = withBody (setPointers names) (\<lambda>_. None)"

section \<open>Authentication\<close>

record jwt =
  jwt_Sign :: "string \<Rightarrow> id \<Rightarrow> time \<Rightarrow> time \<Rightarrow> err + string"
  jwt_Parse :: "time \<Rightarrow> string \<Rightarrow> string \<Rightarrow> id option"

definition AccessTokenTTL :: time where "AccessTokenTTL = seconds (15 * 60)"

definition IssueAccessToken :: "jwt \<Rightarrow> string \<Rightarrow> id \<Rightarrow> string io" where
  "IssueAccessToken jw secret userID = bindE nowE (\<lambda>now. liftE (jwt_Sign jw secret userID now (now + AccessTokenTTL)))"

definition ParseAccessToken :: "jwt \<Rightarrow> string \<Rightarrow> string \<Rightarrow> id io" where
  "ParseAccessToken jw secret token = bindE nowE (\<lambda>now. case jwt_Parse jw now secret token of
     None \<Rightarrow> throwE ErrInvalidToken
   | Some subject \<Rightarrow> guardE (subject \<noteq> []) ErrInvalidToken (retE subject))"

text \<open>\<^verbatim>\<open>strings.CutPrefix\<close>.\<close>

definition CutPrefix :: "string \<Rightarrow> string \<Rightarrow> string option" where
  "CutPrefix s prefix = (if take (length prefix) s = prefix then Some (drop (length prefix) s) else None)"

definition authenticate :: "jwt \<Rightarrow> string \<Rightarrow> (string \<Rightarrow> (id \<times> string list) io) option \<Rightarrow> Request \<Rightarrow> (id \<times> string list) option io" where
  "authenticate jw secret resolveAPIKey r = (case CutPrefix (rq_Authorization r) ''Bearer '' of
     None \<Rightarrow> retE None
   | Some token \<Rightarrow>
       if token = [] then retE None
       else if count_list token CHR ''.'' = 2
       then bindE (ParseAccessToken jw secret token) (\<lambda>userID. retE (Some (userID, [])))
       else case resolveAPIKey of
         None \<Rightarrow> retE None
       | Some resolve \<Rightarrow> bindE (resolve token) (\<lambda>p. retE (Some p)))"

definition RequireAuth :: "jwt \<Rightarrow> string \<Rightarrow> (string \<Rightarrow> (id \<times> string list) io) option \<Rightarrow> handler \<Rightarrow> handler" where
  "RequireAuth jw secret resolveAPIKey next r =
     res_bind (authenticate jw secret resolveAPIKey r) (\<lambda>x. case x of
       Inr (Some (subjectID, scopes)) \<Rightarrow> next (r\<lparr>rq_UserID := Some subjectID, rq_Scopes := scopes\<rparr>)
     | _ \<Rightarrow> Done (WriteProblem r 401 ''missing or malformed Authorization header'' []))"

definition RequireAuthOrFirstUserBootstrap :: "jwt \<Rightarrow> string \<Rightarrow> (string \<Rightarrow> (id \<times> string list) io) option \<Rightarrow> nat io \<Rightarrow> handler \<Rightarrow> handler" where
  "RequireAuthOrFirstUserBootstrap jw secret resolveAPIKey countUsers next r =
     (if CutPrefix (rq_Authorization r) ''Bearer '' \<noteq> None \<and> rq_Authorization r \<noteq> ''Bearer '' then
        res_bind (authenticate jw secret resolveAPIKey r) (\<lambda>x. case x of
          Inr (Some (subjectID, scopes)) \<Rightarrow> next (r\<lparr>rq_UserID := Some subjectID, rq_Scopes := scopes\<rparr>)
        | _ \<Rightarrow> Done (WriteProblem r 401 ''invalid or expired token'' []))
      else res_bind countUsers (\<lambda>x. case x of
          Inl _ \<Rightarrow> Done (WriteProblem r 500 ''failed to check bootstrap eligibility'' [])
        | Inr count \<Rightarrow> if count > 0 then Done (WriteProblem r 401 ''missing or malformed Authorization header'' []) else next r))"

section \<open>Rate limiting\<close>

definition limiter_Allow :: "string \<Rightarrow> string \<Rightarrow> (world, bool \<times> time) res" where
  "limiter_Allow name key = atomic (\<lambda>w. case Limiter_Allow (clock w) key (limiters w name) of
     (answer, l) \<Rightarrow> (answer, w\<lparr>limiters := (limiters w)(name := l)\<rparr>))"

text \<open>\<^verbatim>\<open>int(retryAfter.Seconds()) + 1\<close> in decimal.\<close>

definition retryAfterSeconds :: "time \<Rightarrow> string" where
  "retryAfterSeconds retryAfter = appendInt 1 (nat (retryAfter div seconds 1) + 1)"

definition tooMany :: "Request \<Rightarrow> time \<Rightarrow> string \<Rightarrow> Response" where
  "tooMany r retryAfter title =
     (let p = WriteProblem r 429 title [] in p\<lparr>rs_Headers := (''Retry-After'', retryAfterSeconds retryAfter) # rs_Headers p\<rparr>)"

text \<open>\<^verbatim>\<open>net.SplitHostPort\<close>: the host, or \<open>None\<close> for its error.\<close>

definition hostOf :: "string \<Rightarrow> string option" where
  "hostOf hostport =
     (if CHR '':'' \<notin> set hostport then None
      else let i = length hostport - 1 - length (takeWhile (\<lambda>c. c \<noteq> CHR '':'') (rev hostport)) in
        if hd hostport = CHR ''['' then
          (let rest = tl hostport; host = takeWhile (\<lambda>c. c \<noteq> CHR '']'') rest; end = Suc (length host) in
           if CHR '']'' \<notin> set rest \<or> Suc end \<noteq> i \<or> CHR ''['' \<in> set rest \<or> CHR '']'' \<in> set (drop (Suc end) hostport) then None
           else Some host)
        else let host = take i hostport in
          if CHR '':'' \<in> set host \<or> CHR ''['' \<in> set hostport \<or> CHR '']'' \<in> set hostport then None else Some host)"

definition clientIP :: "Request \<Rightarrow> string" where
  "clientIP r = (case hostOf (rq_RemoteAddr r) of None \<Rightarrow> rq_RemoteAddr r | Some host \<Rightarrow> host)"

definition RateLimit :: "string \<Rightarrow> handler \<Rightarrow> handler" where
  "RateLimit limiter next r = res_bind (limiter_Allow limiter (clientIP r)) (\<lambda>(allowed, retryAfter).
     if \<not> allowed then Done (tooMany r retryAfter ''too many requests'') else next r)"

section \<open>Idempotency keys\<close>

definition Window :: time where "Window = 24 * seconds 3600"

definition is_key :: "id \<Rightarrow> id \<Rightarrow> string \<Rightarrow> IdempotencyKey \<Rightarrow> bool" where
  "is_key organizationID userID key k \<longleftrightarrow> ik_OrganizationID k = organizationID \<and> ik_RequestingUserID k = userID \<and> ik_Key k = key"

definition Store_Get :: "id \<Rightarrow> id \<Rightarrow> string \<Rightarrow> (int \<times> json option) option io" where
  "Store_Get organizationID userID key = tx (\<lambda>now d.
     Inr (map_option (\<lambda>k. (ik_ResponseStatus k, ik_ResponseBody k))
       (List.find (\<lambda>k. is_key organizationID userID key k \<and> now - Window < ik_CreatedAt k) (idempotency_keys d)), d))"

definition Store_Save :: "id \<Rightarrow> id \<Rightarrow> string \<Rightarrow> int \<Rightarrow> json option \<Rightarrow> unit io" where
  "Store_Save organizationID userID key status body = tx (\<lambda>now d.
     if list_ex (is_key organizationID userID key) (idempotency_keys d) then Inr ((), d)
     else if \<not> list_ex (\<lambda>og. org_ID og = organizationID) (organizations d) then Inl ErrForeignKeyViolation
     else Inr ((), d\<lparr>idempotency_keys := idempotency_keys d @ [\<lparr>ik_OrganizationID = organizationID, ik_RequestingUserID = userID,
       ik_Key = key, ik_ResponseStatus = status, ik_ResponseBody = body, ik_CreatedAt = now\<rparr>]\<rparr>))"

definition replayed :: "int \<times> json option \<Rightarrow> Response" where
  "replayed c = \<lparr>rs_Status = fst c, rs_Headers = [(''Content-Type'', ''application/json''), (''Idempotency-Replayed'', ''true'')], rs_Body = snd c\<rparr>"

definition Middleware :: "handler \<Rightarrow> handler" where
  "Middleware next r =
     (if rq_IdempotencyKey r = [] then next r else
      withUser r (\<lambda>userID.
      let organizationID = rq_PathValue r ''id'' in
      res_bind (Store_Get organizationID userID (rq_IdempotencyKey r)) (\<lambda>x. case x of
        Inl _ \<Rightarrow> Done (WriteProblem r 500 ''idempotency check failed'' [])
      | Inr (Some c) \<Rightarrow> Done (replayed c)
      | Inr None \<Rightarrow> res_bind (next r) (\<lambda>rec.
          if 200 \<le> rs_Status rec \<and> rs_Status rec < 300
          then res_bind (Store_Save organizationID userID (rq_IdempotencyKey r) (rs_Status rec) (rs_Body rec)) (\<lambda>_. Done rec)
          else Done rec))))"

definition Reaper_reapOnce :: "unit io" where
  "Reaper_reapOnce = bindE nowE (\<lambda>now. tx (\<lambda>_ d.
     Inr ((), d\<lparr>idempotency_keys := del (\<lambda>k. ik_CreatedAt k \<le> now - Window) (idempotency_keys d)\<rparr>)))"

end
