(* ===== verification/Identity_Props.thy ===== *)
theory Identity_Props
  imports Identity
begin

text \<open>
  What Identity guarantees: a created user can log in and nobody else with its name, a password reset replaces the
  password and can be confirmed once, a refresh token is rotated, and an API key authenticates its service account
  until it is revoked or expires.
\<close>

section \<open>Frames\<close>

text \<open>A user without the flag that the bootstrap of an organization may set.\<close>

definition account :: "User \<Rightarrow> User" where
  "account u = u\<lparr>usr_IsPlatformAdmin := False\<rparr>"

definition same_accounts :: "db \<Rightarrow> db \<Rightarrow> bool" where
  "same_accounts d d' \<longleftrightarrow> map account (users d') = map account (users d)"

lemma same_accounts_refl [simp]: "same_accounts d d"
  by (simp add: same_accounts_def)

lemma same_accounts_frame: "users d' = users d \<Longrightarrow> same_accounts d d'"
  by (simp add: same_accounts_def)

lemma account_flag [simp]: "account (u\<lparr>usr_IsPlatformAdmin := b\<rparr>) = account u"
  by (simp add: account_def)

lemma bootstrap_accounts: "same_accounts (db w) (db (snd (run (defaultOrgBootstrapper u i) w)))"
proof -
  have "steps_in (\<lambda>w w'. same_accounts (db w) (db w')) (defaultOrgBootstrapper u i)"
    unfolding defaultOrgBootstrapper_def CreateOrganization_Execute_def Let_def CountOrganizations_def IsPlatformAdmin_def
      OrganizationRepository_Create_def MembershipRepository_Create_def AssignRole_def SetPlatformAdmin_def outbox_Write_def insert_role_binding_def
    by (auto intro!: steps steps_in_tx same_accounts_frame simp: same_accounts_def map_upd
        split: if_splits option.splits sum.splits)
  then show ?thesis by (rule steps_in_run [where G = "\<lambda>w w'. same_accounts (db w) (db w')"]) (auto simp: same_accounts_def)
qed

lemma find_account:
  assumes "same_accounts d d'" "\<And>u. p u = p (account u)" "List.find p (users d) = Some u"
  shows "\<exists>u'. List.find p (users d') = Some u' \<and> account u' = account u"
proof -
  have eq: "map_option account (List.find p xs) = List.find p (map account xs)" for xs
    by (induction xs) (use assms(2) in auto)
  have "map_option account (List.find p (users d')) = map_option account (List.find p (users d))"
    using assms(1) by (simp add: eq same_accounts_def)
  with assms(3) show ?thesis by auto
qed

lemma account_sel:
  "account u' = account u \<Longrightarrow> usr_ID u' = usr_ID u" "account u' = account u \<Longrightarrow> usr_AuthSource u' = usr_AuthSource u"
  "account u' = account u \<Longrightarrow> usr_PasswordHash u' = usr_PasswordHash u" "account u' = account u \<Longrightarrow> usr_Username u' = usr_Username u"
  "account u' = account u \<Longrightarrow> usr_Email u' = usr_Email u"
  unfolding account_def by (metis User.select_convs User.surjective User.update_convs(9))+

section \<open>Passwords\<close>

lemma not_in_image: "k \<notin> f ` S \<longleftrightarrow> (\<forall>x \<in> S. f x \<noteq> k)"
  by auto

lemma run_Authenticate:
  assumes "faults w = []"
  shows "run (Authenticate_Execute bc name pw) w = (case List.find (\<lambda>u. usr_Username u = name) (users (db w)) of
     None \<Rightarrow> (Inl ErrInvalidCredentials, w)
   | Some u \<Rightarrow> (if usr_AuthSource u = AuthSourceLocal \<and> (\<exists>h. usr_PasswordHash u = Some h \<and> bc_Compare bc h pw)
       then Inr u else Inl ErrInvalidCredentials, w))"
  using assms
  by (auto simp: Authenticate_Execute_def UserRepository_GetByUsername_def run_head run_query oneRow_def split: option.split)

lemma CreateUser_row:
  assumes "run (CreateUser_Execute bc salt u name email AuthSourceLocal pw) w = (Inr usr, w')"
  shows "(\<exists>hash. bc_Generate bc salt pw = Inr hash \<and> usr_PasswordHash usr = Some hash) \<and> usr_AuthSource usr = AuthSourceLocal
    \<and> usr_Username usr = name
    \<and> (\<exists>usr'. List.find (\<lambda>x. usr_Username x = name) (users (db w')) = Some usr' \<and> account usr' = account usr)"
proof -
  from assms obtain newUser hash w1 w2 where
    new: "NewUser (u 0) (clock w) name email AuthSourceLocal = Inr newUser" and
    hash: "bc_Generate bc salt pw = Inr hash" "SetPasswordHash hash newUser = Inr usr" and
    cr: "run (UserRepository_Create usr) w1 = (Inr (), w2)" and
    rest: "w' = w2 \<or> w' = snd (run (defaultOrgBootstrapper (\<lambda>n. u (Suc n)) (usr_ID usr)) w2)"
    unfolding CreateUser_Execute_def by (auto simp: success_simps split: if_splits)
  from new hash(2) have usr: "usr_PasswordHash usr = Some hash" "usr_AuthSource usr = AuthSourceLocal" "usr_Username usr = name"
    by (auto simp: NewUser_def SetPasswordHash_def split: if_splits)
  from cr usr(3) have row: "List.find (\<lambda>x. usr_Username x = name) (users (db w2)) = Some usr"
    by (auto simp: UserRepository_Create_def success_simps find_append find_None_iff_ex list_ex_iff
        split: if_splits option.split dest!: find_SomeD)
  have p: "(usr_Username x = name) = (usr_Username (account x) = name)" for x by (simp add: account_def)
  from rest have "same_accounts (db w2) (db w')" using bootstrap_accounts by auto
  from find_account [OF this p row] usr hash(1) show ?thesis by blast
qed

section \<open>Demo\<close>

definition demo_bcrypt :: bcrypt where
  "demo_bcrypt = \<lparr>bc_Generate = (\<lambda>salt p. if length p > 72 then Inl ErrBcrypt else Inr (''h'' @ p)), bc_Compare = (\<lambda>h p. h = ''h'' @ p)\<rparr>"

lemma demo_bcrypt_ok [simp]: "bcrypt_ok demo_bcrypt"
  by (auto simp: bcrypt_ok_def demo_bcrypt_def split: if_splits)

definition demo_sha :: "string \<Rightarrow> nat list" where
  "demo_sha s = map byte_val s"

text \<open>
  C16: A user can log in with the password it was created with, and only with a password that matches its hash: after the
  creation of a local user, alone or as the first user of the installation, logging in with its name
  returns that user exactly for the passwords that bcrypt accepts for the stored hash; for every other
  password the answer is \<open>ErrInvalidCredentials\<close>.
\<close>

theorem created_user_logs_in:
  assumes "bcrypt_ok bc"
    and "run (CreateUser_Execute bc salt u name email AuthSourceLocal pw) w = (Inr usr, w')" and "faults w' = []"
  shows "(\<exists>usr'. run (Authenticate_Execute bc name pw) w' = (Inr usr', w') \<and> usr_ID usr' = usr_ID usr)
    \<and> (\<forall>pw' hash. usr_PasswordHash usr = Some hash \<and> \<not> bc_Compare bc hash pw'
         \<longrightarrow> run (Authenticate_Execute bc name pw') w' = (Inl ErrInvalidCredentials, w'))"
proof -
  from CreateUser_row [OF assms(2)] obtain hash usr' where
    h: "bc_Generate bc salt pw = Inr hash" "usr_PasswordHash usr = Some hash" "usr_AuthSource usr = AuthSourceLocal"
    and row: "List.find (\<lambda>x. usr_Username x = name) (users (db w')) = Some usr'" "account usr' = account usr" by blast
  have "bc_Compare bc hash pw" using assms(1) h(1) by (simp add: bcrypt_ok_def)
  with h row show ?thesis using account_sel [OF row(2)] by (simp add: run_Authenticate [OF assms(3)])
qed

definition demo_created :: world where
  "demo_created = demo\<lparr>db := demo_db\<lparr>users := users demo_db @ [\<lparr>usr_ID = ''u0'', usr_Username = ''carol'', usr_Email = ''c@x.y'',
     usr_AuthSource = ''local'', usr_ExternalID = None, usr_Status = ''active'', usr_MFAEnrolled = False, usr_CreatedAt = 0,
     usr_IsPlatformAdmin = False, usr_PasswordHash = Some ''hsecret''\<rparr>]\<rparr>\<rparr>"

lemma demo_CreateUser:
  "run (CreateUser_Execute demo_bcrypt ''s'' (\<lambda>_. ''u0'') ''carol'' ''c@x.y'' AuthSourceLocal ''secret'') demo
     = (Inr (last (users (db demo_created))), demo_created)"
  by (simp add: CreateUser_Execute_def run_head NewUser_def emailPattern_def is_space_def Let_def AuthSource_valid_def AuthSourceLocal_def
      demo_bcrypt_def SetPasswordHash_def UserRepository_Count_def UserRepository_Create_def demo_created_def demo_user_def)

theorem created_user_logs_in_witness:
  "(\<exists>usr'. run (Authenticate_Execute demo_bcrypt ''carol'' ''secret'') demo_created = (Inr usr', demo_created) \<and> usr_ID usr' = ''u0'')
   \<and> run (Authenticate_Execute demo_bcrypt ''carol'' ''guess'') demo_created = (Inl ErrInvalidCredentials, demo_created)"
proof -
  have "faults demo_created = []" by (simp add: demo_created_def)
  from created_user_logs_in [OF demo_bcrypt_ok demo_CreateUser this] show ?thesis
    by (auto simp: demo_created_def demo_bcrypt_def)
qed

section \<open>Password resets\<close>

definition users_wf :: "db \<Rightarrow> bool" where
  "users_wf d \<longleftrightarrow> distinct (map usr_ID (users d)) \<and> distinct (map usr_Username (users d)) \<and> distinct (map usr_Email (users d))"

definition with_password :: "id \<Rightarrow> string \<Rightarrow> User list \<Rightarrow> User list" where
  "with_password i hash us = upd (\<lambda>u. usr_ID u = i) (\<lambda>u. u\<lparr>usr_PasswordHash := Some hash\<rparr>) us"

lemma find_with_password:
  assumes "users_wf d" "usr \<in> set (users d)"
  shows "List.find (\<lambda>u. usr_Username u = usr_Username usr) (with_password (usr_ID usr) h (users d)) = Some (usr\<lparr>usr_PasswordHash := Some h\<rparr>)"
proof (rule find_unique [where g = usr_Username])
  show "distinct (map usr_Username (with_password (usr_ID usr) h (users d)))"
    using assms(1) by (simp add: with_password_def map_upd users_wf_def)
  show "usr\<lparr>usr_PasswordHash := Some h\<rparr> \<in> set (with_password (usr_ID usr) h (users d))"
    using assms(2) by (auto simp: with_password_def set_upd)
qed simp_all

text \<open>
  C12: A password reset works once. For a local user, requesting a reset and confirming it with the token before it
  expires replaces that user's password and nothing else in the users table: logging in then works
  with the new password and fails with every password that does not match the new hash. Confirming
  again with the same token is refused and changes nothing, and so is the first confirmation once
  the token has expired.
\<close>

theorem password_reset_works_once:
  assumes "bcrypt_ok bc" and "faults w = []" and "users_wf (db w)" and "usr \<in> set (users (db w))"
    and "usr_AuthSource usr = AuthSourceLocal" and "8 \<le> length new" and "bc_Generate bc salt new = Inr hash"
    and "uuid \<notin> prt_ID ` set (password_reset_tokens (db w))"
    and "HashOpaqueToken sha (GenerateOpaqueToken rnd) \<notin> prt_TokenHash ` set (password_reset_tokens (db w))"
  shows "\<exists>w1. run (RequestReset sha rnd uuid (usr_Email usr)) w = (Inr (), w1) \<and> users (db w1) = users (db w)
    \<and> (\<forall>c. c < clock w + PasswordResetTokenTTL \<longrightarrow> (\<exists>w2.
         run (ConfirmReset sha bc salt (GenerateOpaqueToken rnd) new) (w1\<lparr>clock := c\<rparr>) = (Inr (), w2)
         \<and> users (db w2) = with_password (usr_ID usr) hash (users (db w))
         \<and> (\<exists>usr'. run (Authenticate_Execute bc (usr_Username usr) new) w2 = (Inr usr', w2) \<and> usr_ID usr' = usr_ID usr)
         \<and> (\<forall>pw. \<not> bc_Compare bc hash pw \<longrightarrow> run (Authenticate_Execute bc (usr_Username usr) pw) w2 = (Inl ErrInvalidCredentials, w2))
         \<and> (\<forall>pw salt'. 8 \<le> length pw \<longrightarrow> run (ConfirmReset sha bc salt' (GenerateOpaqueToken rnd) pw) w2 = (Inl ErrPasswordResetTokenInvalid, w2))))
    \<and> (\<forall>c. clock w + PasswordResetTokenTTL \<le> c \<longrightarrow>
         run (ConfirmReset sha bc salt (GenerateOpaqueToken rnd) new) (w1\<lparr>clock := c\<rparr>) = (Inl ErrPasswordResetTokenInvalid, w1\<lparr>clock := c\<rparr>))"
proof -
  let ?tok = "NewPasswordResetToken uuid (clock w) (usr_ID usr) (HashOpaqueToken sha (GenerateOpaqueToken rnd))"
  let ?h = "\<lambda>t. prt_TokenHash t = HashOpaqueToken sha (GenerateOpaqueToken rnd)"
  let ?w1 = "w\<lparr>db := (db w)\<lparr>password_reset_tokens := password_reset_tokens (db w) @ [?tok]\<rparr>\<rparr>"
  have email: "List.find (\<lambda>u. usr_Email u = usr_Email usr) (users (db w)) = Some usr"
    by (rule find_unique [where g = usr_Email]) (use assms(3,4) in \<open>auto simp: users_wf_def\<close>)
  have ex: "list_ex (\<lambda>u. usr_ID u = usr_ID usr) (users (db w))" using assms(4) by (auto simp: list_ex_iff)
  have fresh: "\<not> list_ex (\<lambda>x. prt_ID x = uuid \<or> ?h x) (password_reset_tokens (db w))" using assms(8,9) by (simp add: list_ex_iff not_in_image)
  have r1: "run (RequestReset sha rnd uuid (usr_Email usr)) w = (Inr (), ?w1)"
    using assms(2,5) email ex fresh
    by (simp add: RequestReset_def UserRepository_GetByEmail_def run_head run_query oneRow_def Let_def
        PasswordResetTokenRepository_Create_def run_tx NewPasswordResetToken_def)
  have none: "List.find ?h (password_reset_tokens (db w)) = None" using assms(9) by (simp add: find_None_iff not_in_image)
  have tok: "prt_TokenHash ?tok = HashOpaqueToken sha (GenerateOpaqueToken rnd)" "prt_ID ?tok = uuid" "prt_UserID ?tok = usr_ID usr"
    "prt_UsedAt ?tok = None" "prt_ExpiresAt ?tok = clock w + PasswordResetTokenTTL" by (simp_all add: NewPasswordResetToken_def)
  have others: "upd (\<lambda>t. prt_ID t = uuid) f (password_reset_tokens (db w)) = password_reset_tokens (db w)" for f
    using assms(8) by (simp add: upd_def not_in_image map_idI)
  have get: "run (bindE (PasswordResetTokenRepository_GetByHash (HashOpaqueToken sha (GenerateOpaqueToken rnd))) k) v = run (k t) v"
    if "faults v = []" "password_reset_tokens (db v) = password_reset_tokens (db w) @ [t]" "?h t" for k v t
    using that none by (simp add: PasswordResetTokenRepository_GetByHash_def run_head oneRow_def find_append)
  have late: "run (ConfirmReset sha bc salt (GenerateOpaqueToken rnd) new) (?w1\<lparr>clock := c\<rparr>) = (Inl ErrPasswordResetTokenInvalid, ?w1\<lparr>clock := c\<rparr>)"
    if "clock w + PasswordResetTokenTTL \<le> c" for c
    using that assms(2,6) by (simp add: ConfirmReset_def run_head get [of _ ?tok] tok PasswordResetToken_Valid_def)
  have early: "\<exists>w2. run (ConfirmReset sha bc salt (GenerateOpaqueToken rnd) new) (?w1\<lparr>clock := c\<rparr>) = (Inr (), w2)
         \<and> users (db w2) = with_password (usr_ID usr) hash (users (db w))
         \<and> (\<exists>usr'. run (Authenticate_Execute bc (usr_Username usr) new) w2 = (Inr usr', w2) \<and> usr_ID usr' = usr_ID usr)
         \<and> (\<forall>pw. \<not> bc_Compare bc hash pw \<longrightarrow> run (Authenticate_Execute bc (usr_Username usr) pw) w2 = (Inl ErrInvalidCredentials, w2))
         \<and> (\<forall>pw salt'. 8 \<le> length pw \<longrightarrow> run (ConfirmReset sha bc salt' (GenerateOpaqueToken rnd) pw) w2 = (Inl ErrPasswordResetTokenInvalid, w2))"
    if c: "c < clock w + PasswordResetTokenTTL" for c
  proof -
    let ?used = "?tok\<lparr>prt_UsedAt := Some c\<rparr>"
    let ?w2 = "w\<lparr>clock := c, db := (db w)\<lparr>users := with_password (usr_ID usr) hash (users (db w)),
       password_reset_tokens := password_reset_tokens (db w) @ [?used]\<rparr>\<rparr>"
    have upd: "upd (\<lambda>t. prt_ID t = uuid) (\<lambda>t. t\<lparr>prt_UsedAt := Some c\<rparr>) (password_reset_tokens (db w) @ [?tok])
        = password_reset_tokens (db w) @ [?used]" using others tok(2) by (simp add: upd_def)
    have "run (ConfirmReset sha bc salt (GenerateOpaqueToken rnd) new) (?w1\<lparr>clock := c\<rparr>) = (Inr (), ?w2)"
      using c assms(2,6,7)
      by (simp add: ConfirmReset_def run_head get [of _ ?tok] tok PasswordResetToken_Valid_def UpdatePasswordHash_def MarkUsed_def run_tx
          with_password_def upd)
    moreover have "run (ConfirmReset sha bc salt' (GenerateOpaqueToken rnd) pw) ?w2 = (Inl ErrPasswordResetTokenInvalid, ?w2)"
      if "8 \<le> length pw" for pw salt'
      using that assms(2) by (simp add: ConfirmReset_def run_head get [of _ ?used] tok(1) PasswordResetToken_Valid_def)
    moreover have "bc_Compare bc hash new" using assms(1,7) by (simp add: bcrypt_ok_def)
    ultimately show ?thesis
      using assms(2,5) find_with_password [OF assms(3,4)] by (intro exI [of _ ?w2]) (simp add: run_Authenticate)
  qed
  show ?thesis by (rule exI [of _ ?w1]) (use r1 early late in simp)
qed

theorem password_reset_works_once_witness:
  "\<exists>w1. run (RequestReset demo_sha ''rnd'' ''p1'' ''c@x.y'') demo_created = (Inr (), w1)
    \<and> (\<exists>w2. run (ConfirmReset demo_sha demo_bcrypt ''s'' (GenerateOpaqueToken ''rnd'') ''new secret'') (w1\<lparr>clock := 5\<rparr>) = (Inr (), w2)
      \<and> (\<exists>usr'. run (Authenticate_Execute demo_bcrypt ''carol'' ''new secret'') w2 = (Inr usr', w2))
      \<and> run (Authenticate_Execute demo_bcrypt ''carol'' ''secret'') w2 = (Inl ErrInvalidCredentials, w2))"
proof -
  let ?usr = "last (users (db demo_created))"
  have wf: "users_wf (db demo_created)" "?usr \<in> set (users (db demo_created))" "usr_AuthSource ?usr = AuthSourceLocal"
    "faults demo_created = []" "usr_Email ?usr = ''c@x.y''" "usr_Username ?usr = ''carol''" "password_reset_tokens (db demo_created) = []"
    "clock demo_created = 0"
    by (simp_all add: demo_created_def users_wf_def demo_user_def AuthSourceLocal_def)
  have "bc_Generate demo_bcrypt ''s'' ''new secret'' = Inr ''hnew secret''" "\<not> bc_Compare demo_bcrypt ''hnew secret'' ''secret''"
    "8 \<le> length ''new secret''" "(5 :: int) < 0 + PasswordResetTokenTTL"
    by (simp_all add: demo_bcrypt_def PasswordResetTokenTTL_def seconds_def)
  with password_reset_works_once [OF demo_bcrypt_ok wf(4,1,2,3) this(3,1), where uuid = "''p1''" and rnd = "''rnd''" and sha = demo_sha] wf show ?thesis
    unfolding wf by (auto dest!: spec [of _ 5])
qed

section \<open>Refresh tokens\<close>

lemma run_Refresh:
  assumes "faults v = []" "List.find (\<lambda>t. rt_TokenHash t = HashOpaqueToken sha p) (refresh_tokens (db v)) = Some t"
    and "List.find (\<lambda>u. usr_ID u = rt_UserID t) (users (db v)) = Some usr"
  shows "run (RefreshToken_Refresh sha rnd uuid p) v =
    (if \<not> RefreshToken_Valid (clock v) t then (Inl ErrRefreshTokenInvalid, v)
     else let ts = upd (\<lambda>x. rt_ID x = rt_ID t) (\<lambda>x. x\<lparr>rt_RevokedAt := Some (clock v)\<rparr>) (refresh_tokens (db v));
            new = NewRefreshToken uuid (clock v) (rt_UserID t) (HashOpaqueToken sha (GenerateOpaqueToken rnd)) in
       if list_ex (\<lambda>x. rt_ID x = uuid \<or> rt_TokenHash x = HashOpaqueToken sha (GenerateOpaqueToken rnd)) ts
       then (Inl ErrUniqueViolation, v\<lparr>db := (db v)\<lparr>refresh_tokens := ts\<rparr>\<rparr>)
       else (Inr (rt_UserID t, GenerateOpaqueToken rnd), v\<lparr>db := (db v)\<lparr>refresh_tokens := ts @ [new]\<rparr>\<rparr>))"
proof -
  have "list_ex (\<lambda>u. usr_ID u = rt_UserID t) (users (db v))" using assms(3) by (metis find_None_iff_ex option.distinct(1))
  with assms show ?thesis
    by (simp add: RefreshToken_Refresh_def RefreshTokenRepository_GetByHash_def run_head oneRow_def UserRepository_GetByID_def
        RefreshTokenRepository_Revoke_def RefreshToken_Issue_def RefreshTokenRepository_Create_def Let_def NewRefreshToken_def)
qed

text \<open>
  \<open>session sha u p e used v\<close>: the plaintext \<open>p\<close> is a token of user \<open>u\<close> that is not revoked and expires at \<open>e\<close>, and the
  plaintexts in \<open>used\<close> are tokens that are revoked.
\<close>

definition stored_token :: "(string \<Rightarrow> nat list) \<Rightarrow> string \<Rightarrow> world \<Rightarrow> RefreshToken \<Rightarrow> bool" where
  "stored_token sha p v t \<longleftrightarrow> t \<in> set (refresh_tokens (db v)) \<and> rt_TokenHash t = HashOpaqueToken sha p"

definition session :: "(string \<Rightarrow> nat list) \<Rightarrow> id \<Rightarrow> string \<Rightarrow> time \<Rightarrow> string set \<Rightarrow> world \<Rightarrow> bool" where
  "session sha u p e used v \<longleftrightarrow> faults v = [] \<and> list_ex (\<lambda>x. usr_ID x = u) (users (db v))
     \<and> distinct (map rt_ID (refresh_tokens (db v))) \<and> distinct (map rt_TokenHash (refresh_tokens (db v)))
     \<and> (\<exists>t. stored_token sha p v t \<and> rt_UserID t = u \<and> rt_RevokedAt t = None \<and> rt_ExpiresAt t = e)
     \<and> (\<forall>q \<in> used. \<exists>t. stored_token sha q v t \<and> rt_UserID t = u \<and> rt_RevokedAt t \<noteq> None)"

text \<open>An id and random bytes that give a new row.\<close>

definition fresh_token :: "(string \<Rightarrow> nat list) \<Rightarrow> string \<Rightarrow> id \<Rightarrow> world \<Rightarrow> bool" where
  "fresh_token sha rnd uuid v \<longleftrightarrow> uuid \<notin> rt_ID ` set (refresh_tokens (db v))
     \<and> HashOpaqueToken sha (GenerateOpaqueToken rnd) \<notin> rt_TokenHash ` set (refresh_tokens (db v))"

lemma find_stored_token:
  assumes "stored_token sha p v t" "distinct (map rt_TokenHash (refresh_tokens (db v)))"
  shows "List.find (\<lambda>x. rt_TokenHash x = HashOpaqueToken sha p) (refresh_tokens (db v)) = Some t"
  by (rule find_unique [where g = rt_TokenHash]) (use assms in \<open>auto simp: stored_token_def\<close>)

lemma used_token_refused:
  assumes "session sha u p e used v" "q \<in> used"
  shows "run (RefreshToken_Refresh sha rnd uuid q) (v\<lparr>clock := c\<rparr>) = (Inl ErrRefreshTokenInvalid, v\<lparr>clock := c\<rparr>)"
proof -
  obtain t usr where t: "stored_token sha q v t" "rt_UserID t = u" "rt_RevokedAt t \<noteq> None"
    and usr: "List.find (\<lambda>x. usr_ID x = u) (users (db v)) = Some usr"
    using assms find_None_iff_ex [of "\<lambda>x. usr_ID x = u" "users (db v)"] by (auto simp: session_def)
  have "List.find (\<lambda>x. rt_TokenHash x = HashOpaqueToken sha q) (refresh_tokens (db v)) = Some t"
    using assms(1) t(1) by (intro find_stored_token) (auto simp: session_def)
  then show ?thesis
    using assms(1) t usr by (subst run_Refresh [where t = t]) (auto simp: session_def RefreshToken_Valid_def)
qed

lemma expired_token_refused:
  assumes "session sha u p e used v" "\<not> c < e"
  shows "fst (run (RefreshToken_Refresh sha rnd uuid p) (v\<lparr>clock := c\<rparr>)) = Inl ErrRefreshTokenInvalid"
proof -
  obtain t usr where t: "stored_token sha p v t" "rt_UserID t = u" "rt_ExpiresAt t = e"
    and usr: "List.find (\<lambda>x. usr_ID x = u) (users (db v)) = Some usr"
    using assms find_None_iff_ex [of "\<lambda>x. usr_ID x = u" "users (db v)"] by (auto simp: session_def)
  have "List.find (\<lambda>x. rt_TokenHash x = HashOpaqueToken sha p) (refresh_tokens (db v)) = Some t"
    using assms(1) t(1) by (intro find_stored_token) (auto simp: session_def)
  then show ?thesis
    using assms t usr by (subst run_Refresh [where t = t]) (auto simp: session_def RefreshToken_Valid_def)
qed

text \<open>One refresh: the session goes on with the new token, the old one is used.\<close>

lemma refresh_session:
  assumes "session sha u p e used v" "c < e" "fresh_token sha rnd uuid v"
  shows "\<exists>v'. run (RefreshToken_Refresh sha rnd uuid p) (v\<lparr>clock := c\<rparr>) = (Inr (u, GenerateOpaqueToken rnd), v')
    \<and> session sha u (GenerateOpaqueToken rnd) (c + RefreshTokenTTL) (insert p used) v'
    \<and> rt_ID ` set (refresh_tokens (db v')) = insert uuid (rt_ID ` set (refresh_tokens (db v)))
    \<and> rt_TokenHash ` set (refresh_tokens (db v')) = insert (HashOpaqueToken sha (GenerateOpaqueToken rnd)) (rt_TokenHash ` set (refresh_tokens (db v)))"
proof -
  obtain t where t: "stored_token sha p v t" "rt_UserID t = u" "rt_RevokedAt t = None" "rt_ExpiresAt t = e"
    using assms(1) by (auto simp: session_def)
  obtain usr where usr: "List.find (\<lambda>x. usr_ID x = rt_UserID t) (users (db v)) = Some usr"
    using assms(1) t(2) find_None_iff_ex [of "\<lambda>x. usr_ID x = u" "users (db v)"] by (auto simp: session_def)
  have d: "distinct (map rt_ID (refresh_tokens (db v)))" "distinct (map rt_TokenHash (refresh_tokens (db v)))" and f: "faults v = []"
    using assms(1) by (simp_all add: session_def)
  have find: "List.find (\<lambda>x. rt_TokenHash x = HashOpaqueToken sha p) (refresh_tokens (db v)) = Some t"
    using t(1) d(2) by (rule find_stored_token)
  let ?revoke = "\<lambda>x. x\<lparr>rt_RevokedAt := Some c\<rparr>"
  let ?ts = "upd (\<lambda>x. rt_ID x = rt_ID t) ?revoke (refresh_tokens (db v))"
  let ?new = "NewRefreshToken uuid c u (HashOpaqueToken sha (GenerateOpaqueToken rnd))"
  let ?v' = "v\<lparr>clock := c, db := (db v)\<lparr>refresh_tokens := ?ts @ [?new]\<rparr>\<rparr>"
  have ids: "map rt_ID ?ts = map rt_ID (refresh_tokens (db v))" "map rt_TokenHash ?ts = map rt_TokenHash (refresh_tokens (db v))"
    by (simp_all add: map_upd)
  then have keys: "rt_ID ` set ?ts = rt_ID ` set (refresh_tokens (db v))"
    "rt_TokenHash ` set ?ts = rt_TokenHash ` set (refresh_tokens (db v))" by (metis set_map)+
  have new: "rt_ID ?new = uuid" "rt_TokenHash ?new = HashOpaqueToken sha (GenerateOpaqueToken rnd)" "rt_UserID ?new = u"
    "rt_RevokedAt ?new = None" "rt_ExpiresAt ?new = c + RefreshTokenTTL"
    by (simp_all add: NewRefreshToken_def)
  have "uuid \<notin> rt_ID ` set ?ts" "HashOpaqueToken sha (GenerateOpaqueToken rnd) \<notin> rt_TokenHash ` set ?ts"
    using assms(3) unfolding keys fresh_token_def by simp_all
  then have "\<not> list_ex (\<lambda>x. rt_ID x = uuid \<or> rt_TokenHash x = HashOpaqueToken sha (GenerateOpaqueToken rnd)) ?ts"
    by (simp add: list_ex_iff not_in_image)
  then have run: "run (RefreshToken_Refresh sha rnd uuid p) (v\<lparr>clock := c\<rparr>) = (Inr (u, GenerateOpaqueToken rnd), ?v')"
    using find usr f t assms(2) by (subst run_Refresh [where t = t]) (simp_all add: RefreshToken_Valid_def)
  have kept: "\<exists>s'. stored_token sha q ?v' s' \<and> rt_UserID s' = u \<and> rt_RevokedAt s' \<noteq> None"
    if "stored_token sha q v s" "rt_UserID s = u" "rt_RevokedAt s \<noteq> None \<or> rt_ID s = rt_ID t" for q s
    using that by (intro exI [of _ "if rt_ID s = rt_ID t then ?revoke s else s"]) (auto simp: stored_token_def set_upd)
  have "\<forall>q \<in> insert p used. \<exists>t. stored_token sha q ?v' t \<and> rt_UserID t = u \<and> rt_RevokedAt t \<noteq> None"
  proof
    fix q assume "q \<in> insert p used"
    then obtain s where "stored_token sha q v s" "rt_UserID s = u" "rt_RevokedAt s \<noteq> None \<or> rt_ID s = rt_ID t"
      using assms(1) t by (auto simp: session_def)
    then show "\<exists>t. stored_token sha q ?v' t \<and> rt_UserID t = u \<and> rt_RevokedAt t \<noteq> None" by (rule kept)
  qed
  moreover have "stored_token sha (GenerateOpaqueToken rnd) ?v' ?new" using new by (simp add: stored_token_def)
  moreover have "distinct (map rt_ID (?ts @ [?new]))" "distinct (map rt_TokenHash (?ts @ [?new]))"
    unfolding map_append ids using d assms(3) new by (simp_all add: fresh_token_def)
  moreover have "list_ex (\<lambda>x. usr_ID x = u) (users (db v))" using assms(1) by (simp add: session_def)
  ultimately have "session sha u (GenerateOpaqueToken rnd) (c + RefreshTokenTTL) (insert p used) ?v'"
    unfolding session_def using f new by auto
  with run keys new show ?thesis by (intro exI [of _ ?v']) (simp add: image_Un)
qed

text \<open>
  A client that refreshes again and again: at each of the given times it presents the token it got last. The result is what the
  refreshes answered, each a user and a new token, and the world at the end, or \<open>None\<close> if a refresh is refused.
\<close>

fun refresh_chain :: "(string \<Rightarrow> nat list) \<Rightarrow> string \<Rightarrow> (time \<times> string \<times> id) list \<Rightarrow> world \<Rightarrow> ((id \<times> string) list \<times> world) option" where
  "refresh_chain sha p [] v = Some ([], v)"
| "refresh_chain sha p ((c, rnd, uuid) # rs) v = (case run (RefreshToken_Refresh sha rnd uuid p) (v\<lparr>clock := c\<rparr>) of
     (Inl _, _) \<Rightarrow> None
   | (Inr (u, q), v') \<Rightarrow> map_option (\<lambda>(as, w). ((u, q) # as, w)) (refresh_chain sha q rs v'))"

text \<open>The tokens of the chain that were used, and the one that is left.\<close>

definition used_tokens :: "string \<Rightarrow> (id \<times> string) list \<Rightarrow> string list" where
  "used_tokens p as = butlast (p # map snd as)"

definition current_token :: "string \<Rightarrow> (id \<times> string) list \<Rightarrow> string" where
  "current_token p as = last (p # map snd as)"

lemma chain_tokens_simps [simp]:
  "used_tokens p [] = []" "current_token p [] = p"
  "used_tokens p ((u, q) # as) = p # used_tokens q as" "current_token p ((u, q) # as) = current_token q as"
  by (simp_all add: used_tokens_def current_token_def)

definition chain_expiry :: "time \<Rightarrow> (time \<times> string \<times> id) list \<Rightarrow> time" where
  "chain_expiry e rs = (if rs = [] then e else fst (last rs) + RefreshTokenTTL)"

lemma chain_expiry_Cons: "chain_expiry e ((c, x) # rs) = chain_expiry (c + RefreshTokenTTL) rs"
  by (simp add: chain_expiry_def)

lemma refresh_chain_session:
  assumes "session sha u p e used v" "successively (\<lambda>a b. b < a + RefreshTokenTTL) ((e - RefreshTokenTTL) # map fst rs)"
    and "distinct (map (snd \<circ> snd) rs)" "distinct (map (\<lambda>r. HashOpaqueToken sha (GenerateOpaqueToken (fst (snd r)))) rs)"
    and "\<forall>(c, rnd, uuid) \<in> set rs. fresh_token sha rnd uuid v"
  shows "\<exists>as w. refresh_chain sha p rs v = Some (as, w) \<and> length as = length rs \<and> fst ` set as \<subseteq> {u}
    \<and> session sha u (current_token p as) (chain_expiry e rs) (used \<union> set (used_tokens p as)) w"
  using assms
proof (induction rs arbitrary: p e used v)
  case Nil
  then show ?case by (simp add: chain_expiry_def)
next
  case (Cons r rs)
  obtain c rnd uuid where r: "r = (c, rnd, uuid)" by (cases r)
  have "c < e" and fresh: "fresh_token sha rnd uuid v" using Cons.prems(2,5) by (simp_all add: r successively_Cons)
  from refresh_session [OF Cons.prems(1) this] obtain v' where
    run: "run (RefreshToken_Refresh sha rnd uuid p) (v\<lparr>clock := c\<rparr>) = (Inr (u, GenerateOpaqueToken rnd), v')"
    and ses: "session sha u (GenerateOpaqueToken rnd) (c + RefreshTokenTTL) (insert p used) v'"
    and keys: "rt_ID ` set (refresh_tokens (db v')) = insert uuid (rt_ID ` set (refresh_tokens (db v)))"
      "rt_TokenHash ` set (refresh_tokens (db v')) = insert (HashOpaqueToken sha (GenerateOpaqueToken rnd)) (rt_TokenHash ` set (refresh_tokens (db v)))"
    by blast
  have "\<forall>(c, rnd, uuid) \<in> set rs. fresh_token sha rnd uuid v'"
    using Cons.prems(3,4,5) by (auto simp: r fresh_token_def keys image_iff)
  moreover have "successively (\<lambda>a b. b < a + RefreshTokenTTL) ((c + RefreshTokenTTL - RefreshTokenTTL) # map fst rs)"
    using Cons.prems(2) by (simp add: r)
  ultimately obtain as w where "refresh_chain sha (GenerateOpaqueToken rnd) rs v' = Some (as, w)" "length as = length rs" "fst ` set as \<subseteq> {u}"
    "session sha u (current_token (GenerateOpaqueToken rnd) as) (chain_expiry (c + RefreshTokenTTL) rs)
       (insert p used \<union> set (used_tokens (GenerateOpaqueToken rnd) as)) w"
    using Cons.IH [OF ses] Cons.prems(3,4) by auto
  then show ?case by (auto simp: r run chain_expiry_Cons)
qed

text \<open>Alice holds a refresh token.\<close>

definition demo_refresh_token :: RefreshToken where
  "demo_refresh_token = NewRefreshToken ''t1'' 0 ''alice'' (HashOpaqueToken demo_sha ''tok'')"

definition demo_session :: world where
  "demo_session = demo\<lparr>db := demo_db\<lparr>refresh_tokens := [demo_refresh_token]\<rparr>\<rparr>"

lemma demo_session_simps [simp]:
  "faults demo_session = []" "clock demo_session = 0" "users (db demo_session) = users demo_db"
  "refresh_tokens (db demo_session) = [demo_refresh_token]"
  by (simp_all add: demo_session_def)

lemma demo_refresh_token_simps [simp]:
  "rt_ID demo_refresh_token = ''t1''" "rt_UserID demo_refresh_token = ''alice''" "rt_TokenHash demo_refresh_token = HashOpaqueToken demo_sha ''tok''"
  "rt_RevokedAt demo_refresh_token = None" "rt_ExpiresAt demo_refresh_token = RefreshTokenTTL" "RefreshToken_Valid 0 demo_refresh_token"
  by (simp_all add: demo_refresh_token_def NewRefreshToken_def RefreshToken_Valid_def RefreshTokenTTL_def seconds_def)

lemma demo_hashes:
  "HashOpaqueToken demo_sha ''tok'' \<noteq> HashOpaqueToken demo_sha (GenerateOpaqueToken ''r1'')"
  "HashOpaqueToken demo_sha ''tok'' \<noteq> HashOpaqueToken demo_sha (GenerateOpaqueToken ''r2'')"
  "HashOpaqueToken demo_sha (GenerateOpaqueToken ''r1'') \<noteq> HashOpaqueToken demo_sha (GenerateOpaqueToken ''r2'')"
  by (simp_all add: HashOpaqueToken_def hex_EncodeToString_def hex_digit_def demo_sha_def byte_val_def GenerateOpaqueToken_def
      b64_char_def b64_alphabet_def)

text \<open>
  C11: Rotation of refresh tokens. A client that holds a stored token of an existing user, not revoked, and refreshes at any number of times,
  each with the token it got last and before that one's thirty days are over, is never refused and always gets a token of the same user.
  Afterwards every token of this chain but the last is refused at any time, without any effect, and the last one is accepted exactly
  until it expires in its turn. (The database works and the ids and hashes of new tokens are new; the refreshes run
  one after the other.)
\<close>

theorem refresh_token_rotates:
  assumes "faults v = []" and "t \<in> set (refresh_tokens (db v))" and "rt_TokenHash t = HashOpaqueToken sha p"
    and "distinct (map rt_ID (refresh_tokens (db v)))" and "distinct (map rt_TokenHash (refresh_tokens (db v)))"
    and "rt_RevokedAt t = None" and "list_ex (\<lambda>x. usr_ID x = rt_UserID t) (users (db v))"
    and "successively (\<lambda>a b. b < a + RefreshTokenTTL) ((rt_ExpiresAt t - RefreshTokenTTL) # map fst rs)"
    and "distinct (map (snd \<circ> snd) rs)" and "distinct (map (\<lambda>r. HashOpaqueToken sha (GenerateOpaqueToken (fst (snd r)))) rs)"
    and "\<forall>(c, rnd, uuid) \<in> set rs. fresh_token sha rnd uuid v"
  shows "\<exists>as w. refresh_chain sha p rs v = Some (as, w) \<and> length as = length rs \<and> fst ` set as \<subseteq> {rt_UserID t}
    \<and> (\<forall>q \<in> set (used_tokens p as). \<forall>c rnd uuid. run (RefreshToken_Refresh sha rnd uuid q) (w\<lparr>clock := c\<rparr>) = (Inl ErrRefreshTokenInvalid, w\<lparr>clock := c\<rparr>))
    \<and> (\<forall>c rnd uuid. fresh_token sha rnd uuid w \<longrightarrow> fst (run (RefreshToken_Refresh sha rnd uuid (current_token p as)) (w\<lparr>clock := c\<rparr>))
        = (if c < chain_expiry (rt_ExpiresAt t) rs then Inr (rt_UserID t, GenerateOpaqueToken rnd) else Inl ErrRefreshTokenInvalid))"
proof -
  have "session sha (rt_UserID t) p (rt_ExpiresAt t) {} v"
    unfolding session_def using assms(1-7) by (auto simp: stored_token_def)
  from refresh_chain_session [OF this assms(8-11)] obtain as w where
    chain: "refresh_chain sha p rs v = Some (as, w)" "length as = length rs" "fst ` set as \<subseteq> {rt_UserID t}"
    and ses: "session sha (rt_UserID t) (current_token p as) (chain_expiry (rt_ExpiresAt t) rs) (set (used_tokens p as)) w" by auto
  have "fst (run (RefreshToken_Refresh sha rnd uuid (current_token p as)) (w\<lparr>clock := c\<rparr>))
      = (if c < chain_expiry (rt_ExpiresAt t) rs then Inr (rt_UserID t, GenerateOpaqueToken rnd) else Inl ErrRefreshTokenInvalid)"
    if "fresh_token sha rnd uuid w" for c rnd uuid
    using refresh_session [OF ses _ that, of c] expired_token_refused [OF ses, of c rnd uuid] by auto
  then show ?thesis
    using chain used_token_refused [OF ses] by (intro exI [of _ as] exI [of _ w] conjI ballI allI impI) simp_all
qed

text \<open>Alice refreshes twice, after one day and after two.\<close>

theorem refresh_token_rotates_witness:
  "\<exists>as w. refresh_chain demo_sha ''tok'' [(seconds 86400, ''r1'', ''t2''), (seconds 172800, ''r2'', ''t3'')] demo_session = Some (as, w) \<and> length as = 2
    \<and> run (RefreshToken_Refresh demo_sha ''r3'' ''t4'' ''tok'') (w\<lparr>clock := seconds 200000\<rparr>) = (Inl ErrRefreshTokenInvalid, w\<lparr>clock := seconds 200000\<rparr>)"
proof -
  let ?rs = "[(seconds 86400, ''r1'', ''t2''), (seconds 172800, ''r2'', ''t3'')]"
  have "\<exists>as w. refresh_chain demo_sha ''tok'' ?rs demo_session = Some (as, w) \<and> length as = length ?rs \<and> fst ` set as \<subseteq> {rt_UserID demo_refresh_token}
    \<and> (\<forall>q \<in> set (used_tokens ''tok'' as). \<forall>c rnd uuid. run (RefreshToken_Refresh demo_sha rnd uuid q) (w\<lparr>clock := c\<rparr>)
        = (Inl ErrRefreshTokenInvalid, w\<lparr>clock := c\<rparr>))
    \<and> (\<forall>c rnd uuid. fresh_token demo_sha rnd uuid w \<longrightarrow> fst (run (RefreshToken_Refresh demo_sha rnd uuid (current_token ''tok'' as)) (w\<lparr>clock := c\<rparr>))
        = (if c < chain_expiry (rt_ExpiresAt demo_refresh_token) ?rs then Inr (rt_UserID demo_refresh_token, GenerateOpaqueToken rnd)
           else Inl ErrRefreshTokenInvalid))"
  proof (rule refresh_token_rotates)
    show "successively (\<lambda>a b. b < a + RefreshTokenTTL) ((rt_ExpiresAt demo_refresh_token - RefreshTokenTTL) # map fst ?rs)"
      by (simp add: RefreshTokenTTL_def seconds_def)
    show "distinct (map (\<lambda>r. HashOpaqueToken demo_sha (GenerateOpaqueToken (fst (snd r)))) ?rs)" using demo_hashes(3) by simp
    show "\<forall>(c, rnd, uuid) \<in> set ?rs. fresh_token demo_sha rnd uuid demo_session"
      using demo_hashes(1,2) by (simp add: fresh_token_def not_sym)
  qed (simp_all add: demo_user_def)
  then obtain as w where as: "refresh_chain demo_sha ''tok'' ?rs demo_session = Some (as, w)" "length as = 2"
    "\<forall>q \<in> set (used_tokens ''tok'' as). \<forall>c rnd uuid. run (RefreshToken_Refresh demo_sha rnd uuid q) (w\<lparr>clock := c\<rparr>)
        = (Inl ErrRefreshTokenInvalid, w\<lparr>clock := c\<rparr>)" by auto
  moreover from as(2) have "''tok'' \<in> set (used_tokens ''tok'' as)" by (cases as) auto
  ultimately show ?thesis by blast
qed

text \<open>The program after the token is read, and after it is checked.\<close>

definition refresh_rest :: "(string \<Rightarrow> nat list) \<Rightarrow> string \<Rightarrow> id \<Rightarrow> RefreshToken \<Rightarrow> (id \<times> string) io" where
  "refresh_rest sha rnd uuid t =
     bindE (UserRepository_GetByID (rt_UserID t)) (\<lambda>_.
     bindE (RefreshTokenRepository_Revoke (rt_ID t)) (\<lambda>_.
     bindE (RefreshToken_Issue sha rnd uuid (rt_UserID t)) (\<lambda>newRefreshToken.
     retE (rt_UserID t, newRefreshToken))))"

definition refresh_checked :: "(string \<Rightarrow> nat list) \<Rightarrow> string \<Rightarrow> id \<Rightarrow> RefreshToken \<Rightarrow> time \<Rightarrow> (id \<times> string) io" where
  "refresh_checked sha rnd uuid t now = guardE (RefreshToken_Valid now t) ErrRefreshTokenInvalid (refresh_rest sha rnd uuid t)"

definition revoke_and_issue :: "(string \<Rightarrow> nat list) \<Rightarrow> string \<Rightarrow> id \<Rightarrow> RefreshToken \<Rightarrow> world \<Rightarrow> world" where
  "revoke_and_issue sha rnd uuid t v = v\<lparr>db := (db v)\<lparr>refresh_tokens :=
     upd (\<lambda>x. rt_ID x = rt_ID t) (\<lambda>x. x\<lparr>rt_RevokedAt := Some (clock v)\<rparr>) (refresh_tokens (db v))
     @ [NewRefreshToken uuid (clock v) (rt_UserID t) (HashOpaqueToken sha (GenerateOpaqueToken rnd))]\<rparr>\<rparr>"

lemma list_ex_revoked: "list_ex (\<lambda>x. rt_ID x = i \<or> rt_TokenHash x = h) (upd q (\<lambda>x. x\<lparr>rt_RevokedAt := c\<rparr>) ts)
    \<longleftrightarrow> list_ex (\<lambda>x. rt_ID x = i \<or> rt_TokenHash x = h) ts"
  by (induction ts) auto

lemma refresh_rest_steps:
  assumes "faults v = []" and "list_ex (\<lambda>x. usr_ID x = rt_UserID t) (users (db v))"
    and "\<not> list_ex (\<lambda>x. rt_ID x = uuid \<or> rt_TokenHash x = HashOpaqueToken sha (GenerateOpaqueToken rnd)) (refresh_tokens (db v))"
  shows "\<exists>n1 n2 n3 v2. step_res (refresh_rest sha rnd uuid t) v = (n1, v) \<and> step_res n1 v = (n2, v2) \<and> step_res n2 v2 = (n3, v2)
    \<and> step_res n3 v2 = (retE (rt_UserID t, GenerateOpaqueToken rnd), revoke_and_issue sha rnd uuid t v)"
proof -
  obtain usr where "List.find (\<lambda>x. usr_ID x = rt_UserID t) (users (db v)) = Some usr"
    using assms(2) find_None_iff_ex [of "\<lambda>x. usr_ID x = rt_UserID t" "users (db v)"] by auto
  with assms show ?thesis
    by (simp add: refresh_rest_def UserRepository_GetByID_def RefreshTokenRepository_Revoke_def RefreshToken_Issue_def
        RefreshTokenRepository_Create_def NewRefreshToken_def step_simps oneRow_def list_ex_revoked revoke_and_issue_def Let_def)
qed

text \<open>
  C40: A refresh token that two requests present at the same time is accepted twice, although tokens are meant to be single-use. Take any stored
  token that is neither revoked nor expired, in any world, and two refreshes with it; \<open>Refresh\<close> reads the
  token, checks it and revokes it in separate transactions, and the revocation does not look at whether the token is revoked
  already. When both have read the token before the first one revokes it, both succeed, and the session is forked into two tokens that are both valid.
\<close>

theorem refresh_token_used_twice:
  assumes "faults v = []" and "t \<in> set (refresh_tokens (db v))" and "rt_TokenHash t = HashOpaqueToken sha p"
    and "distinct (map rt_TokenHash (refresh_tokens (db v)))"
    and "RefreshToken_Valid (clock v) t" and "list_ex (\<lambda>x. usr_ID x = rt_UserID t) (users (db v))"
    and "fresh_token sha rnd uuid v" and "fresh_token sha rnd' uuid' v"
    and "uuid \<noteq> uuid'" and "HashOpaqueToken sha (GenerateOpaqueToken rnd) \<noteq> HashOpaqueToken sha (GenerateOpaqueToken rnd')"
  shows "\<exists>v'. interleave [True, True, False, False, True, True, True, True, False, False, False, False]
      (RefreshToken_Refresh sha rnd uuid p) (RefreshToken_Refresh sha rnd' uuid' p) v
    = (retE (rt_UserID t, GenerateOpaqueToken rnd), retE (rt_UserID t, GenerateOpaqueToken rnd'), v')
    \<and> {NewRefreshToken uuid (clock v) (rt_UserID t) (HashOpaqueToken sha (GenerateOpaqueToken rnd)),
        NewRefreshToken uuid' (clock v) (rt_UserID t) (HashOpaqueToken sha (GenerateOpaqueToken rnd'))}
      \<subseteq> {x \<in> set (refresh_tokens (db v')). RefreshToken_Valid (clock v') x}"
proof -
  have find: "List.find (\<lambda>x. rt_TokenHash x = HashOpaqueToken sha p) (refresh_tokens (db v)) = Some t"
    using assms(2-4) by (intro find_stored_token) (auto simp: stored_token_def)
  have new: "\<not> list_ex (\<lambda>x. rt_ID x = uuid \<or> rt_TokenHash x = HashOpaqueToken sha (GenerateOpaqueToken rnd)) (refresh_tokens (db v))"
    "\<not> list_ex (\<lambda>x. rt_ID x = uuid' \<or> rt_TokenHash x = HashOpaqueToken sha (GenerateOpaqueToken rnd')) (refresh_tokens (db v))"
    using assms(7,8) by (simp_all add: fresh_token_def list_ex_iff not_in_image)
  let ?v1 = "revoke_and_issue sha rnd uuid t v"
  have read: "step_res (RefreshToken_Refresh sha rnd uuid p) v = (bindE nowE (refresh_checked sha rnd uuid t), v)" for rnd uuid
    using assms(1) find
    by (simp add: RefreshToken_Refresh_def RefreshTokenRepository_GetByHash_def step_simps oneRow_def refresh_checked_def [abs_def] refresh_rest_def)
  have checked: "step_res (bindE nowE (refresh_checked sha rnd uuid t)) v = (refresh_rest sha rnd uuid t, v)" for rnd uuid
    using assms(5) by (simp add: step_simps refresh_checked_def guardE_def)
  obtain n1 n2 n3 w2 where n: "step_res (refresh_rest sha rnd uuid t) v = (n1, v)" "step_res n1 v = (n2, w2)" "step_res n2 w2 = (n3, w2)"
    "step_res n3 w2 = (retE (rt_UserID t, GenerateOpaqueToken rnd), ?v1)"
    using refresh_rest_steps [OF assms(1,6) new(1)] by blast
  have "\<not> list_ex (\<lambda>x. rt_ID x = uuid' \<or> rt_TokenHash x = HashOpaqueToken sha (GenerateOpaqueToken rnd')) (refresh_tokens (db ?v1))"
    using new(2) assms(9,10) by (simp add: revoke_and_issue_def list_ex_revoked NewRefreshToken_def)
  moreover have "faults ?v1 = []" "list_ex (\<lambda>x. usr_ID x = rt_UserID t) (users (db ?v1))"
    using assms(1,6) by (simp_all add: revoke_and_issue_def)
  ultimately obtain m1 m2 m3 w3 where m: "step_res (refresh_rest sha rnd' uuid' t) ?v1 = (m1, ?v1)" "step_res m1 ?v1 = (m2, w3)"
    "step_res m2 w3 = (m3, w3)" "step_res m3 w3 = (retE (rt_UserID t, GenerateOpaqueToken rnd'), revoke_and_issue sha rnd' uuid' t ?v1)"
    using refresh_rest_steps by blast
  have "uuid \<noteq> rt_ID t" using assms(2,7) by (auto simp: fresh_token_def)
  then have "{NewRefreshToken uuid (clock v) (rt_UserID t) (HashOpaqueToken sha (GenerateOpaqueToken rnd)),
        NewRefreshToken uuid' (clock v) (rt_UserID t) (HashOpaqueToken sha (GenerateOpaqueToken rnd'))}
      \<subseteq> {x \<in> set (refresh_tokens (db (revoke_and_issue sha rnd' uuid' t ?v1))). RefreshToken_Valid (clock (revoke_and_issue sha rnd' uuid' t ?v1)) x}"
    by (simp add: revoke_and_issue_def set_upd NewRefreshToken_def RefreshToken_Valid_def RefreshTokenTTL_def seconds_def)
  with n m show ?thesis by (simp add: read checked)
qed

theorem refresh_token_used_twice_witness:
  "\<exists>v'. interleave [True, True, False, False, True, True, True, True, False, False, False, False]
      (RefreshToken_Refresh demo_sha ''r1'' ''t2'' ''tok'') (RefreshToken_Refresh demo_sha ''r2'' ''t3'' ''tok'') demo_session
    = (retE (''alice'', GenerateOpaqueToken ''r1''), retE (''alice'', GenerateOpaqueToken ''r2''), v')"
  using refresh_token_used_twice [of demo_session demo_refresh_token demo_sha "''tok''" "''r1''" "''t2''" "''r2''" "''t3''"] demo_hashes
  by (auto simp: fresh_token_def demo_user_def)

end
