(* ===== verification/Http_Props.thy ===== *)
theory Http_Props
  imports Http Identity_Props
begin

text \<open>
  What the authentication of requests guarantees: an API key authenticates its service account until it expires or
  is revoked.
\<close>

section \<open>API keys\<close>

lemma run_resolver:
  assumes "faults v = []" "api_keys (db v) = xs @ [x]" "\<not> list_ex (\<lambda>y. ak_KeyHash (akr_Key y) = HashOpaqueToken sha p) xs"
    and "ak_KeyHash (akr_Key x) = HashOpaqueToken sha p"
  shows "run (apiKeyResolver sha p) v =
    (if APIKey_Valid (clock v) (akr_Key x)
     then (Inr (ak_OwnerID (akr_Key x), ak_Scopes (akr_Key x)), v\<lparr>db := (db v)\<lparr>api_keys := upd (\<lambda>y. ak_ID (akr_Key y) = ak_ID (akr_Key x))
       (\<lambda>y. y\<lparr>akr_Key := (akr_Key y)\<lparr>ak_LastUsedAt := Some (clock v)\<rparr>\<rparr>) (api_keys (db v))\<rparr>\<rparr>)
     else (Inl ErrAPIKeyInvalid, v))"
proof -
  have "List.find (\<lambda>y. ak_KeyHash (akr_Key y) = HashOpaqueToken sha p) xs = None" using assms(3) by (simp add: find_None_iff_ex)
  with assms show ?thesis
    by (simp add: apiKeyResolver_def APIKeyRepository_GetByHash_def run_head oneRow_def find_append TouchLastUsed_def run_tx)
qed

lemma token_nonempty: "rnd \<noteq> [] \<Longrightarrow> GenerateOpaqueToken rnd \<noteq> []"
  by (cases rnd rule: b64_encode.cases) (simp_all add: GenerateOpaqueToken_def)

lemma authenticate_api_key:
  assumes "rq_Authorization r = ''Bearer '' @ GenerateOpaqueToken rnd" "rnd \<noteq> []"
  shows "authenticate jw secret (Some resolve) r = bindE (resolve (GenerateOpaqueToken rnd)) (\<lambda>p. retE (Some p))"
proof -
  have "count_list (GenerateOpaqueToken rnd) CHR ''.'' = 0" using token_no_dot by (simp add: count_list_0_iff)
  with assms show ?thesis by (simp add: authenticate_def CutPrefix_def token_nonempty)
qed

lemma CreateAPIKey_row:
  assumes "run (CreateAPIKey_Execute sha rnd uuid ctx og usr sa name scopes exp) w = (Inr (key, plaintext), w1)"
  shows "\<exists>xs. api_keys (db w1) = xs @ [\<lparr>akr_OrganizationID = og, akr_Key = key\<rparr>]
    \<and> \<not> list_ex (\<lambda>y. ak_ID (akr_Key y) = ak_ID key \<or> ak_KeyHash (akr_Key y) = HashOpaqueToken sha plaintext) xs
    \<and> plaintext = GenerateOpaqueToken rnd \<and> ak_KeyHash key = HashOpaqueToken sha plaintext \<and> ak_OwnerID key = sa \<and> ak_Scopes key = scopes
    \<and> ak_RevokedAt key = None \<and> set scopes \<subseteq> set AllPermissions"
proof -
  from assms obtain w0 where
    key: "plaintext = GenerateOpaqueToken rnd" "\<exists>now. NewAPIKey uuid now ''service_account'' sa name (HashOpaqueToken sha plaintext) scopes exp = Inr key"
    and cr: "run (APIKeyRepository_Create og key) w0 = (Inr (), w1)" and sc: "check_scopes scopes = Inr ()"
    unfolding CreateAPIKey_Execute_def by (auto simp: success_simps Let_def)
  from key(2) have props: "ak_KeyHash key = HashOpaqueToken sha plaintext" "ak_OwnerID key = sa" "ak_Scopes key = scopes" "ak_RevokedAt key = None"
    by (auto simp: NewAPIKey_def Let_def split: if_splits option.splits)
  from sc have "set scopes \<subseteq> set AllPermissions" by (auto simp: check_scopes_def find_None_iff split: option.splits)
  with cr key(1) props show ?thesis
    by (auto simp: APIKeyRepository_Create_def success_simps split: if_splits intro!: exI [of _ "api_keys (db w0)"])
qed


definition demo_account :: ServiceAccount where
  "demo_account = \<lparr>sa_ID = ''s1'', sa_OrganizationID = ''o1'', sa_Name = ''ci'', sa_Description = [], sa_CreatedAt = 0\<rparr>"

definition demo_with_account :: world where
  "demo_with_account = demo\<lparr>db := demo_db\<lparr>service_accounts := [demo_account]\<rparr>\<rparr>"

definition demo_key_row :: APIKey where
  "demo_key_row = \<lparr>ak_ID = ''k1'', ak_OwnerType = ''service_account'', ak_OwnerID = ''s1'', ak_Name = ''deploy'',
     ak_KeyHash = HashOpaqueToken demo_sha (GenerateOpaqueToken ''r1''), ak_Scopes = [''workspace:apply''], ak_ExpiresAt = 100,
     ak_LastUsedAt = None, ak_RevokedAt = None, ak_CreatedAt = 0\<rparr>"

lemma demo_CreateAPIKey:
  "run (CreateAPIKey_Execute demo_sha ''r1'' ''k1'' [] ''o1'' ''alice'' ''s1'' ''deploy'' [''workspace:apply''] (Some 100)) demo_with_account
     = (Inr (demo_key_row, GenerateOpaqueToken ''r1''),
        demo_with_account\<lparr>db := (db demo_with_account)\<lparr>api_keys := [\<lparr>akr_OrganizationID = ''o1'', akr_Key = demo_key_row\<rparr>]\<rparr>\<rparr>)"
  by (simp add: CreateAPIKey_Execute_def run_head demo_with_account_def demo_permitted_in AllPermissions_def rbac_consts
      is_member_def demo_member_def ctx_permits_def ServiceAccountRepository_GetByID_def oneRow_def demo_account_def check_scopes_def
      NewAPIKey_def Let_def APIKeyRepository_Create_def demo_org_def demo_key_row_def)

definition demo_bearer :: Request where
  "demo_bearer = \<lparr>rq_Method = ''GET'', rq_Path = [], rq_Authorization = ''Bearer '' @ GenerateOpaqueToken ''r1'', rq_IdempotencyKey = [], rq_RequestID = [], rq_RemoteAddr = [],
     rq_PathValue = (\<lambda>_. []), rq_Query = (\<lambda>_. []), rq_Body = None, rq_BodyError = [], rq_UserID = None, rq_Scopes = []\<rparr>"

abbreviation echoUser :: handler where
  "echoUser \<equiv> \<lambda>r. Done (writeJSON 200 (JString (the (rq_UserID r))))"


end
