(* ===== verification/Run_Handlers.thy ===== *)
theory Run_Handlers
  imports Http Execution
begin

text \<open>
  The REST adapter of Execution (\<^verbatim>\<open>internal/execution/adapters/http\<close>) and the idempotent retry of the request
  that starts a run. \<open>stamp\<close> is the text of a time in its location.
\<close>

section \<open>Responses\<close>

definition Trigger_string :: "RunTrigger \<Rightarrow> string" where
  "Trigger_string t = (case t of RunTriggerManual \<Rightarrow> ''manual'' | RunTriggerVCSPush \<Rightarrow> ''vcs_push'' | RunTriggerVCSPR \<Rightarrow> ''vcs_pr''
     | RunTriggerScheduled \<Rightarrow> ''scheduled'' | RunTriggerAPI \<Rightarrow> ''api'')"

definition Status_string :: "RunStatus \<Rightarrow> string" where
  "Status_string s = (case s of RunStatusQueued \<Rightarrow> ''queued'' | RunStatusPlanning \<Rightarrow> ''planning'' | RunStatusPlanned \<Rightarrow> ''planned''
     | RunStatusPolicyCheck \<Rightarrow> ''policy_check'' | RunStatusAwaitingApproval \<Rightarrow> ''awaiting_approval'' | RunStatusApplying \<Rightarrow> ''applying''
     | RunStatusApplied \<Rightarrow> ''applied'' | RunStatusFailed \<Rightarrow> ''failed'' | RunStatusErrored \<Rightarrow> ''errored'' | RunStatusCanceled \<Rightarrow> ''canceled'')"

definition toRunResponse :: "(time \<Rightarrow> string) \<Rightarrow> Run \<Rightarrow> json" where
  "toRunResponse stamp r = JObject ([(''id'', JString (run_ID r)), (''organization_id'', JString (run_OrganizationID r)),
     (''workspace_id'', JString (run_WorkspaceID r)), (''trigger'', JString (Trigger_string (run_Trigger r))),
     (''triggered_by'', JString (run_TriggeredBy r)), (''status'', JString (Status_string (run_Status r))),
     (''created_at'', JString (stamp (run_CreatedAt r)))]
     @ optional ''finished_at'' (map_option stamp (run_FinishedAt r)) @ optional ''apply_output_ref'' (run_ApplyOutputRef r))"

definition writeExecutionError :: "Request \<Rightarrow> string \<Rightarrow> err \<Rightarrow> Response" where
  "writeExecutionError r notFoundTitle e =
     (if e = ErrForbidden then WriteProblem r 403 ''forbidden'' []
      else if e = ErrWorkspaceNotFound \<or> e = ErrRunNotFound then WriteProblem r 404 notFoundTitle []
      else if e = ErrWorkspaceLocked
      then WriteProblem r 409 ''workspace is locked'' ''another run is already in progress on this workspace''
      else if e = ErrRunAlreadyTerminal then WriteProblem r 409 ''run already terminal'' []
      else if e = ErrOrganizationArchived then WriteProblem r 409 ''organization is archived'' []
      else case e of ValidationError m \<Rightarrow> WriteProblem r 400 ''validation failed'' m
           | _ \<Rightarrow> WriteProblem r 500 ''internal error'' [])"

section \<open>Handlers\<close>

definition TriggerRunHandler :: "(time \<Rightarrow> string) \<Rightarrow> (nat \<Rightarrow> id) \<Rightarrow> handler" where
  "TriggerRunHandler stamp u r = withUser r (\<lambda>userID.
     serve (TriggerRun_Execute u (rq_Scopes r) (rq_PathValue r ''id'') (rq_PathValue r ''projectID'') (rq_PathValue r ''workspaceID'') userID)
       (writeExecutionError r ''workspace not found'') (\<lambda>x. writeJSON 201 (toRunResponse stamp x)))"

definition CancelRunHandler :: "(time \<Rightarrow> string) \<Rightarrow> id \<Rightarrow> string \<Rightarrow> handler" where
  "CancelRunHandler stamp uuid inst r = withUser r (\<lambda>userID.
     serve (CancelRun_Execute uuid inst (rq_Scopes r) (rq_PathValue r ''id'') (rq_PathValue r ''projectID'') (rq_PathValue r ''workspaceID'')
         (rq_PathValue r ''runID'') userID)
       (writeExecutionError r ''run not found'') (\<lambda>x. writeJSON 200 (toRunResponse stamp x)))"

definition ListRunsHandler :: "(time \<Rightarrow> string) \<Rightarrow> handler" where
  "ListRunsHandler stamp r = withUser r (\<lambda>userID.
     serve (ListRuns_Execute (rq_Scopes r) (rq_PathValue r ''id'') (rq_PathValue r ''projectID'') (rq_PathValue r ''workspaceID'') userID)
       (writeExecutionError r ''workspace not found'') (\<lambda>xs. writeJSON 200 (listBody (toRunResponse stamp) xs)))"

definition GetRunHandler :: "(time \<Rightarrow> string) \<Rightarrow> handler" where
  "GetRunHandler stamp r = withUser r (\<lambda>userID.
     serve (GetRun_Execute (rq_Scopes r) (rq_PathValue r ''id'') (rq_PathValue r ''projectID'') (rq_PathValue r ''workspaceID'')
         (rq_PathValue r ''runID'') userID)
       (writeExecutionError r ''run not found'') (\<lambda>x. writeJSON 200 (toRunResponse stamp x)))"

section \<open>Idempotency\<close>

text \<open>
  C13: A retry is not executed again. When a request with an idempotency key was handled with a 2xx status and its answer could be
  stored, then for 24 hours every request with the same key, organization and user is answered with
  the same status and body, whatever its handler would do: the handler does not run and nothing changes.
\<close>

theorem retry_is_replayed:
  assumes "rq_IdempotencyKey r \<noteq> []" and "rq_UserID r = Some usr" and "faults w = []"
    and "\<not> list_ex (is_key (rq_PathValue r ''id'') usr (rq_IdempotencyKey r)) (idempotency_keys (db w))"
    and "run (next r) w = (resp, w1)" and "200 \<le> rs_Status resp" and "rs_Status resp < 300" and "faults w1 = []"
    and "\<not> list_ex (is_key (rq_PathValue r ''id'') usr (rq_IdempotencyKey r)) (idempotency_keys (db w1))"
    and "list_ex (\<lambda>og. org_ID og = rq_PathValue r ''id'') (organizations (db w1))"
  shows "\<exists>w2. run (Middleware next r) w = (resp, w2)
    \<and> (\<forall>c r' next'. c < clock w1 + Window \<and> rq_IdempotencyKey r' = rq_IdempotencyKey r \<and> rq_UserID r' = Some usr
         \<and> rq_PathValue r' ''id'' = rq_PathValue r ''id''
         \<longrightarrow> run (Middleware next' r') (w2\<lparr>clock := c\<rparr>) = (replayed (rs_Status resp, rs_Body resp), w2\<lparr>clock := c\<rparr>))"
proof -
  let ?k = "is_key (rq_PathValue r ''id'') usr (rq_IdempotencyKey r)"
  let ?row = "\<lparr>ik_OrganizationID = rq_PathValue r ''id'', ik_RequestingUserID = usr, ik_Key = rq_IdempotencyKey r,
    ik_ResponseStatus = rs_Status resp, ik_ResponseBody = rs_Body resp, ik_CreatedAt = clock w1\<rparr>"
  let ?w2 = "w1\<lparr>db := (db w1)\<lparr>idempotency_keys := idempotency_keys (db w1) @ [?row]\<rparr>\<rparr>"
  have none: "List.find (\<lambda>k. ?k k \<and> P k) (idempotency_keys (db v)) = None" if "\<not> list_ex ?k (idempotency_keys (db v))" for v P
    using that by (auto simp: find_None_iff list_ex_iff)
  have "run (Middleware next r) w = (resp, ?w2)"
    using assms none [OF assms(4)]
    by (simp add: Middleware_def withUser_def Let_def Store_Get_def Store_Save_def run_bind run_tx)
  moreover have "run (Middleware next' r') (?w2\<lparr>clock := c\<rparr>) = (replayed (rs_Status resp, rs_Body resp), ?w2\<lparr>clock := c\<rparr>)"
    if "c < clock w1 + Window" "rq_IdempotencyKey r' = rq_IdempotencyKey r" "rq_UserID r' = Some usr" "rq_PathValue r' ''id'' = rq_PathValue r ''id''"
    for c r' next'
    using that assms none [OF assms(9)]
    by (simp add: Middleware_def withUser_def Let_def Store_Get_def run_bind run_tx find_append is_key_def)
  ultimately show ?thesis by blast
qed

definition demo_request :: Request where
  "demo_request = \<lparr>rq_Method = ''POST'', rq_Path = [''api'', ''v1'', ''orgs'', ''o1'', ''projects'', ''p1'', ''workspaces'', ''w1'', ''runs''],
     rq_Authorization = [], rq_IdempotencyKey = ''key'', rq_RequestID = [], rq_RemoteAddr = [],
     rq_PathValue = (\<lambda>n. if n = ''id'' then ''o1'' else if n = ''projectID'' then ''p1'' else ''w1''), rq_Query = (\<lambda>_. []), rq_Body = None,
     rq_BodyError = [], rq_UserID = Some ''alice'', rq_Scopes = []\<rparr>"

lemma demo_TriggerRunHandler:
  "run (TriggerRunHandler stamp (demo_ids ''r1'') demo_request) demo
     = (writeJSON 201 (toRunResponse stamp (demo_run ''r1'' RunStatusQueued)), demo_triggered)"
  by (simp add: TriggerRunHandler_def withUser_def demo_request_def serve_def run_bind demo_TriggerRun)

theorem retry_is_replayed_witness:
  "\<exists>w2. run (Middleware (TriggerRunHandler (\<lambda>_. ''t'') (demo_ids ''r1'')) demo_request) demo
      = (writeJSON 201 (toRunResponse (\<lambda>_. ''t'') (demo_run ''r1'' RunStatusQueued)), w2)
    \<and> run (Middleware (TriggerRunHandler (\<lambda>_. ''t'') (demo_ids ''r2'')) demo_request) (w2\<lparr>clock := 5\<rparr>)
      = (replayed (201, Some (toRunResponse (\<lambda>_. ''t'') (demo_run ''r1'' RunStatusQueued))), w2\<lparr>clock := 5\<rparr>)"
proof -
  let ?h = "TriggerRunHandler (\<lambda>_. ''t'')"
  have r: "rq_IdempotencyKey demo_request \<noteq> []" "rq_UserID demo_request = Some ''alice''" "rq_PathValue demo_request ''id'' = ''o1''"
    by (simp_all add: demo_request_def)
  have w: "idempotency_keys (db demo_triggered) = []" "organizations (db demo_triggered) = [demo_org]" "faults demo_triggered = []"
    "clock demo_triggered = 0" by (simp_all add: demo_triggered_def)
  have "\<exists>w2. run (Middleware (?h (demo_ids ''r1'')) demo_request) demo = (writeJSON 201 (toRunResponse (\<lambda>_. ''t'') (demo_run ''r1'' RunStatusQueued)), w2)
    \<and> (\<forall>c r' next'. c < clock demo_triggered + Window \<and> rq_IdempotencyKey r' = rq_IdempotencyKey demo_request \<and> rq_UserID r' = Some ''alice''
         \<and> rq_PathValue r' ''id'' = rq_PathValue demo_request ''id''
         \<longrightarrow> run (Middleware next' r') (w2\<lparr>clock := c\<rparr>) = (replayed (rs_Status (writeJSON 201 (toRunResponse (\<lambda>_. ''t'') (demo_run ''r1'' RunStatusQueued))),
            rs_Body (writeJSON 201 (toRunResponse (\<lambda>_. ''t'') (demo_run ''r1'' RunStatusQueued)))), w2\<lparr>clock := c\<rparr>))"
    by (rule retry_is_replayed [OF r(1,2), where w = demo]) (use r w demo_TriggerRunHandler [of "\<lambda>_. ''t''"] in \<open>simp_all add: writeJSON_def demo_org_def\<close>)
  then obtain w2 where w2: "run (Middleware (?h (demo_ids ''r1'')) demo_request) demo
        = (writeJSON 201 (toRunResponse (\<lambda>_. ''t'') (demo_run ''r1'' RunStatusQueued)), w2)"
    "\<And>c r' next'. c < Window \<Longrightarrow> rq_IdempotencyKey r' = rq_IdempotencyKey demo_request \<Longrightarrow> rq_UserID r' = Some ''alice''
       \<Longrightarrow> rq_PathValue r' ''id'' = rq_PathValue demo_request ''id''
       \<Longrightarrow> run (Middleware next' r') (w2\<lparr>clock := c\<rparr>) = (replayed (201, Some (toRunResponse (\<lambda>_. ''t'') (demo_run ''r1'' RunStatusQueued))), w2\<lparr>clock := c\<rparr>)"
    by (auto simp: w(4) writeJSON_def)
  moreover have "5 < Window" by (simp add: Window_def seconds_def)
  ultimately show ?thesis using r(2) by blast
qed

text \<open>
  A key that expired but was not reaped yet is not renewed: \<open>Save\<close> does nothing for a key that has a row, so a request that reuses
  the key is executed, its answer is not stored, and its retry is executed again.
\<close>

lemma expired_key_is_not_renewed:
  assumes "rq_IdempotencyKey r \<noteq> []" "rq_UserID r = Some usr" "faults w = []" "faults w1 = []"
    and "list_ex (is_key (rq_PathValue r ''id'') usr (rq_IdempotencyKey r)) (idempotency_keys (db w))"
    and "\<forall>k \<in> set (idempotency_keys (db w)). is_key (rq_PathValue r ''id'') usr (rq_IdempotencyKey r) k \<longrightarrow> ik_CreatedAt k \<le> clock w - Window"
    and "run (next r) w = (resp, w1)" "idempotency_keys (db w1) = idempotency_keys (db w)"
  shows "run (Middleware next r) w = (resp, w1)"
proof -
  have "List.find (\<lambda>k. is_key (rq_PathValue r ''id'') usr (rq_IdempotencyKey r) k \<and> clock w - Window < ik_CreatedAt k) (idempotency_keys (db w)) = None"
    using assms(6) by (auto simp: find_None_iff)
  with assms show ?thesis
    by (simp add: Middleware_def withUser_def Let_def Store_Get_def Store_Save_def run_bind run_tx)
qed

end
