(* ===== verification/Fleet_Store.thy ===== *)
theory Fleet_Store
  imports Execution
begin

text \<open>
  The Fleet context (\<^verbatim>\<open>internal/fleet\<close>): aggregates (\<^verbatim>\<open>domain\<close>) and repositories (\<^verbatim>\<open>adapters/postgres\<close>) of machines, networks,
  volumes, compose files, their attachments and variables, and operations. The tables, with their checks, keys
  and foreign keys, are those of the migrations 0019, 0024 and 0025. Every write that the code pairs with an
  event of the outbox takes the id of that event as its first argument.
\<close>

section \<open>Domain\<close>

definition CredentialType_Valid :: "string \<Rightarrow> bool" where
  "CredentialType_Valid c = (c = ''ssh_key'' \<or> c = ''ssh_password'')"

definition CredentialStorage_Valid :: "string \<Rightarrow> bool" where
  "CredentialStorage_Valid c = (c = ''vault'' \<or> c = ''local'')"

record Machine =
  mch_ID :: id
  mch_OrganizationID :: id
  mch_Name :: string
  mch_Host :: string
  mch_SSHPort :: int
  mch_SSHUser :: string
  mch_CredentialType :: string
  mch_CredentialStorage :: string
  mch_CredentialRef :: SecretReference
  mch_EncryptedCredential :: string
  mch_CredentialNonce :: string
  mch_CredentialSalt :: string
  mch_DeployBasePath :: string
  mch_ConnectionStatus :: string
  mch_DockerStatus :: string
  mch_LastCheckedAt :: "time option"
  mch_Archived :: bool
  mch_CreatedAt :: time

definition no_ref :: SecretReference where
  "no_ref = \<lparr>sr_MountID = [], sr_Path = []\<rparr>"

definition credential_type_error :: "string \<Rightarrow> err" where
  "credential_type_error c = ValidationError (''credential_type '' @ goQuote c @ '' must be one of ssh_key, ssh_password'')"

definition NewMachine :: "id \<Rightarrow> time \<Rightarrow> id \<Rightarrow> string \<Rightarrow> string \<Rightarrow> int \<Rightarrow> string \<Rightarrow> string \<Rightarrow> SecretReference \<Rightarrow> string
    \<Rightarrow> err + Machine" where
  "NewMachine uuid now organizationID name host sshPort sshUser credentialType credentialRef deployBasePath =
     (if organizationID = [] then Inl (ValidationError ''organization_id is required'')
      else if name = [] then Inl (ValidationError ''name is required'')
      else if host = [] then Inl (ValidationError ''host is required'')
      else if sshPort < 1 \<or> sshPort > 65535 then Inl (ValidationError ''ssh_port must be between 1 and 65535'')
      else if sshUser = [] then Inl (ValidationError ''ssh_user is required'')
      else if \<not> CredentialType_Valid credentialType then Inl (credential_type_error credentialType)
      else if sr_MountID credentialRef = [] \<or> sr_Path credentialRef = []
      then Inl (ValidationError ''credential mount_id and path are required'')
      else if deployBasePath = [] then Inl (ValidationError ''deploy_base_path is required'')
      else Inr \<lparr>mch_ID = uuid, mch_OrganizationID = organizationID, mch_Name = name, mch_Host = host,
        mch_SSHPort = sshPort, mch_SSHUser = sshUser, mch_CredentialType = credentialType,
        mch_CredentialStorage = ''vault'', mch_CredentialRef = credentialRef, mch_EncryptedCredential = [],
        mch_CredentialNonce = [], mch_CredentialSalt = [], mch_DeployBasePath = deployBasePath,
        mch_ConnectionStatus = ''unknown'', mch_DockerStatus = ''unknown'', mch_LastCheckedAt = None,
        mch_Archived = False, mch_CreatedAt = now\<rparr>)"

definition NewMachineWithLocalCredential :: "id \<Rightarrow> time \<Rightarrow> id \<Rightarrow> string \<Rightarrow> string \<Rightarrow> int \<Rightarrow> string \<Rightarrow> string \<Rightarrow> string \<Rightarrow> string
    \<Rightarrow> string \<Rightarrow> string \<Rightarrow> err + Machine" where
  "NewMachineWithLocalCredential uuid now organizationID name host sshPort sshUser credentialType
      encryptedCredential credentialNonce credentialSalt deployBasePath =
     (if organizationID = [] then Inl (ValidationError ''organization_id is required'')
      else if name = [] then Inl (ValidationError ''name is required'')
      else if host = [] then Inl (ValidationError ''host is required'')
      else if sshPort < 1 \<or> sshPort > 65535 then Inl (ValidationError ''ssh_port must be between 1 and 65535'')
      else if sshUser = [] then Inl (ValidationError ''ssh_user is required'')
      else if \<not> CredentialType_Valid credentialType then Inl (credential_type_error credentialType)
      else if encryptedCredential = [] \<or> credentialNonce = [] \<or> credentialSalt = []
      then Inl (ValidationError ''encrypted credential, nonce, and salt are all required'')
      else if deployBasePath = [] then Inl (ValidationError ''deploy_base_path is required'')
      else Inr \<lparr>mch_ID = uuid, mch_OrganizationID = organizationID, mch_Name = name, mch_Host = host,
        mch_SSHPort = sshPort, mch_SSHUser = sshUser, mch_CredentialType = credentialType,
        mch_CredentialStorage = ''local'', mch_CredentialRef = no_ref, mch_EncryptedCredential = encryptedCredential,
        mch_CredentialNonce = credentialNonce, mch_CredentialSalt = credentialSalt, mch_DeployBasePath = deployBasePath,
        mch_ConnectionStatus = ''unknown'', mch_DockerStatus = ''unknown'', mch_LastCheckedAt = None,
        mch_Archived = False, mch_CreatedAt = now\<rparr>)"

definition RecordConnectionCheck :: "string \<Rightarrow> string \<Rightarrow> time \<Rightarrow> Machine \<Rightarrow> Machine" where
  "RecordConnectionCheck status docker at m =
     m\<lparr>mch_ConnectionStatus := status, mch_DockerStatus := docker, mch_LastCheckedAt := Some at\<rparr>"

definition NewNetwork :: "id \<Rightarrow> time \<Rightarrow> id \<Rightarrow> string \<Rightarrow> id \<Rightarrow> bool \<Rightarrow> err + Network" where
  "NewNetwork uuid now organizationID name createdBy external =
     (if organizationID = [] then Inl (ValidationError ''organization_id is required'')
      else if name = [] then Inl (ValidationError ''name is required'')
      else if createdBy = [] then Inl (ValidationError ''created_by is required'')
      else Inr \<lparr>net_ID = uuid, net_OrganizationID = organizationID, net_Name = name, net_External = external,
        net_CreatedBy = createdBy, net_CreatedAt = now\<rparr>)"

definition NewVolume :: "id \<Rightarrow> time \<Rightarrow> id \<Rightarrow> string \<Rightarrow> string \<Rightarrow> id \<Rightarrow> err + Volume" where
  "NewVolume uuid now organizationID name hostPath createdBy =
     (if organizationID = [] then Inl (ValidationError ''organization_id is required'')
      else if name = [] then Inl (ValidationError ''name is required'')
      else if hostPath = [] then Inl (ValidationError ''host_path is required'')
      else if createdBy = [] then Inl (ValidationError ''created_by is required'')
      else Inr \<lparr>vol_ID = uuid, vol_OrganizationID = organizationID, vol_Name = name, vol_HostPath = hostPath,
        vol_CreatedBy = createdBy, vol_CreatedAt = now\<rparr>)"

definition NewComposeFile :: "id \<Rightarrow> time \<Rightarrow> id \<Rightarrow> string \<Rightarrow> string \<Rightarrow> id \<Rightarrow> bool \<Rightarrow> err + ComposeFile" where
  "NewComposeFile uuid now organizationID name composeContent createdBy isGlobal =
     (if organizationID = [] then Inl (ValidationError ''organization_id is required'')
      else if name = [] then Inl (ValidationError ''name is required'')
      else if createdBy = [] then Inl (ValidationError ''created_by is required'')
      else Inr \<lparr>cf_ID = uuid, cf_OrganizationID = organizationID, cf_Name = name, cf_IsGlobal = isGlobal,
        cf_ComposeContent = composeContent, cf_CreatedBy = createdBy, cf_CreatedAt = now\<rparr>)"

definition VarType_Valid :: "string \<Rightarrow> bool" where
  "VarType_Valid t = (t \<in> {''kv'', ''secret'', ''env'', ''file_template'', ''config_file''})"

definition RequiresFileTargetPath :: "string \<Rightarrow> bool" where
  "RequiresFileTargetPath t = (t = ''file_template'' \<or> t = ''config_file'')"

record FleetVariable =
  fv_ID :: id
  fv_OrganizationID :: id
  fv_ComposeFileID :: id
  fv_Key :: string
  fv_VarType :: string
  fv_Value :: string
  fv_SecretRef :: "SecretReference option"
  fv_FileTargetPath :: string
  fv_CreatedAt :: time

definition Fleet_validateVariableFields :: "id \<Rightarrow> id \<Rightarrow> string \<Rightarrow> string \<Rightarrow> string \<Rightarrow> err + unit" where
  "Fleet_validateVariableFields organizationID composeFileID key varType fileTargetPath =
     (if organizationID = [] \<or> composeFileID = []
      then Inl (ValidationError ''organization_id and compose_file_id are required'')
      else if key = [] then Inl (ValidationError ''key is required'')
      else if \<not> VarType_Valid varType then Inl (ValidationError (''invalid var_type: '' @ varType))
      else if RequiresFileTargetPath varType \<and> fileTargetPath = []
      then Inl (ValidationError (''file_target_path is required for var_type '' @ varType))
      else Inr ())"

definition Fleet_NewVariable :: "id \<Rightarrow> time \<Rightarrow> id \<Rightarrow> id \<Rightarrow> string \<Rightarrow> string \<Rightarrow> string \<Rightarrow> string \<Rightarrow> err + FleetVariable" where
  "Fleet_NewVariable uuid now organizationID composeFileID key varType val fileTargetPath =
     (case Fleet_validateVariableFields organizationID composeFileID key varType fileTargetPath of
        Inl e \<Rightarrow> Inl e
      | Inr _ \<Rightarrow>
          if varType = ''secret''
          then Inl (ValidationError ''var_type secret must be created via NewVariableWithSecretRef'')
          else Inr \<lparr>fv_ID = uuid, fv_OrganizationID = organizationID, fv_ComposeFileID = composeFileID,
            fv_Key = key, fv_VarType = varType, fv_Value = val, fv_SecretRef = None,
            fv_FileTargetPath = fileTargetPath, fv_CreatedAt = now\<rparr>)"

definition Fleet_NewVariableWithSecretRef :: "id \<Rightarrow> time \<Rightarrow> id \<Rightarrow> id \<Rightarrow> string \<Rightarrow> id \<Rightarrow> string \<Rightarrow> err + FleetVariable" where
  "Fleet_NewVariableWithSecretRef uuid now organizationID composeFileID key mountID path =
     (case Fleet_validateVariableFields organizationID composeFileID key ''secret'' [] of
        Inl e \<Rightarrow> Inl e
      | Inr _ \<Rightarrow>
          if mountID = [] \<or> path = []
          then Inl (ValidationError ''secret_mount_id and secret_path are required'')
          else Inr \<lparr>fv_ID = uuid, fv_OrganizationID = organizationID, fv_ComposeFileID = composeFileID,
            fv_Key = key, fv_VarType = ''secret'', fv_Value = [],
            fv_SecretRef = Some \<lparr>sr_MountID = mountID, sr_Path = path\<rparr>,
            fv_FileTargetPath = [], fv_CreatedAt = now\<rparr>)"

text \<open>The map \<^verbatim>\<open>ComposeSubcommand\<close>; an operation type is valid when it is a key of it.\<close>

definition ComposeSubcommand :: "(string \<times> string) list" where
  "ComposeSubcommand = [(''deploy'', ''up -d''), (''up'', ''up -d''), (''down'', ''down''), (''restart'', ''restart''),
     (''pull'', ''pull''), (''build'', ''build''), (''stop'', ''stop''), (''start'', ''start''), (''remove'', ''rm -f -s''),
     (''config'', ''config''), (''create'', ''create''), (''kill'', ''kill''), (''pause'', ''pause''), (''ps'', ''ps''),
     (''unpause'', ''unpause'')]"

definition OperationType_Valid :: "string \<Rightarrow> bool" where
  "OperationType_Valid t = (map_of ComposeSubcommand t \<noteq> None)"

definition NewOperation :: "id \<Rightarrow> time \<Rightarrow> id \<Rightarrow> id \<Rightarrow> id \<Rightarrow> string \<Rightarrow> id \<Rightarrow> err + Operation" where
  "NewOperation uuid now organizationID composeFileID machineID opType triggeredBy =
     (if organizationID = [] then Inl (ValidationError ''organization_id is required'')
      else if composeFileID = [] then Inl (ValidationError ''compose_file_id is required'')
      else if machineID = [] then Inl (ValidationError ''machine_id is required'')
      else if \<not> OperationType_Valid opType
      then Inl (ValidationError (''operation_type '' @ goQuote opType @ '' is not a recognized operation type''))
      else if triggeredBy = [] then Inl (ValidationError ''triggered_by is required'')
      else Inr \<lparr>op_ID = uuid, op_OrganizationID = organizationID, op_ComposeFileID = composeFileID,
        op_MachineID = machineID, op_OperationType = opType, op_Status = ''queued'', op_TriggeredBy = triggeredBy,
        op_CreatedAt = now, op_StartedAt = None, op_FinishedAt = None, op_ExitCode = None, op_Output = []\<rparr>)"

section \<open>Machines\<close>

text \<open>The payload all events of this context start with.\<close>

definition fleet_event :: "id \<Rightarrow> string \<Rightarrow> id \<Rightarrow> payload \<Rightarrow> payload" where
  "fleet_event actor targetType targetID rest =
     [(''actor'', actor), (''target_type'', targetType), (''target_id'', targetID)] @ rest"

definition credentialRefColumns :: "Machine \<Rightarrow> id option \<times> string option" where
  "credentialRefColumns m = (if mch_CredentialStorage m \<noteq> ''vault'' then (None, None)
     else (Some (sr_MountID (mch_CredentialRef m)), Some (sr_Path (mch_CredentialRef m))))"

definition localCredentialColumns :: "Machine \<Rightarrow> string option \<times> string option \<times> string option" where
  "localCredentialColumns m = (if mch_CredentialStorage m \<noteq> ''local'' then (None, None, None)
     else (Some (mch_EncryptedCredential m), Some (mch_CredentialNonce m), Some (mch_CredentialSalt m)))"

text \<open>The row that \<^verbatim>\<open>Create\<close> inserts.\<close>

definition machine_row :: "Machine \<Rightarrow> MachineRow" where
  "machine_row m = \<lparr>mr_ID = mch_ID m, mr_OrganizationID = mch_OrganizationID m, mr_Name = mch_Name m,
     mr_Host = mch_Host m, mr_SSHPort = mch_SSHPort m, mr_SSHUser = mch_SSHUser m,
     mr_CredentialType = mch_CredentialType m, mr_CredentialStorage = mch_CredentialStorage m,
     mr_CredentialMountID = fst (credentialRefColumns m), mr_CredentialPath = snd (credentialRefColumns m),
     mr_EncryptedCredential = fst (localCredentialColumns m),
     mr_CredentialNonce = fst (snd (localCredentialColumns m)),
     mr_CredentialSalt = snd (snd (localCredentialColumns m)),
     mr_DeployBasePath = mch_DeployBasePath m, mr_ConnectionStatus = mch_ConnectionStatus m,
     mr_DockerStatus = mch_DockerStatus m, mr_LastCheckedAt = None, mr_Archived = mch_Archived m,
     mr_CreatedAt = mch_CreatedAt m\<rparr>"

definition scanMachine :: "MachineRow \<Rightarrow> Machine" where
  "scanMachine row = \<lparr>mch_ID = mr_ID row, mch_OrganizationID = mr_OrganizationID row, mch_Name = mr_Name row,
     mch_Host = mr_Host row, mch_SSHPort = mr_SSHPort row, mch_SSHUser = mr_SSHUser row,
     mch_CredentialType = mr_CredentialType row, mch_CredentialStorage = mr_CredentialStorage row,
     mch_CredentialRef = \<lparr>sr_MountID = null_string (mr_CredentialMountID row),
                          sr_Path = null_string (mr_CredentialPath row)\<rparr>,
     mch_EncryptedCredential = null_string (mr_EncryptedCredential row),
     mch_CredentialNonce = null_string (mr_CredentialNonce row),
     mch_CredentialSalt = null_string (mr_CredentialSalt row),
     mch_DeployBasePath = mr_DeployBasePath row, mch_ConnectionStatus = mr_ConnectionStatus row,
     mch_DockerStatus = mr_DockerStatus row, mch_LastCheckedAt = mr_LastCheckedAt row,
     mch_Archived = mr_Archived row, mch_CreatedAt = mr_CreatedAt row\<rparr>"

text \<open>The checks of the table: the closed sets and \<^verbatim>\<open>machines_credential_shape\<close>.\<close>

definition credential_shape :: "MachineRow \<Rightarrow> bool" where
  "credential_shape r =
     (mr_CredentialStorage r = ''vault'' \<and> mr_CredentialMountID r \<noteq> None \<and> mr_CredentialPath r \<noteq> None
        \<and> mr_EncryptedCredential r = None
      \<or> mr_CredentialStorage r = ''local'' \<and> mr_CredentialMountID r = None \<and> mr_CredentialPath r = None
        \<and> mr_EncryptedCredential r \<noteq> None \<and> mr_CredentialNonce r \<noteq> None \<and> mr_CredentialSalt r \<noteq> None)"

definition machine_checks :: "MachineRow \<Rightarrow> bool" where
  "machine_checks r = (credential_shape r \<and> mr_CredentialType r \<in> {''ssh_key'', ''ssh_password''}
     \<and> mr_ConnectionStatus r \<in> {''unknown'', ''online'', ''unreachable''}
     \<and> mr_DockerStatus r \<in> {''unknown'', ''ok'', ''missing'', ''error''})"

definition MachineRepository_Create :: "id \<Rightarrow> id \<Rightarrow> Machine \<Rightarrow> unit io" where
  "MachineRepository_Create uuid actorUserID m = tx (\<lambda>now d.
     let row = machine_row m in
     if \<not> machine_checks row then Inl ErrCheckViolation
     else if \<not> list_ex (\<lambda>og. org_ID og = mch_OrganizationID m) (organizations d) then Inl ErrForeignKeyViolation
     else if list_ex (\<lambda>x. mr_ID x = mch_ID m \<or> mr_OrganizationID x = mch_OrganizationID m \<and> mr_Name x = mch_Name m)
            (machines d) then Inl ErrMachineNameTaken
     else and_emit uuid now (mch_OrganizationID m) ''FleetMachineCreated''
       (fleet_event actorUserID ''machine'' (mch_ID m) [(''name'', mch_Name m), (''host'', mch_Host m)]) ()
       (d\<lparr>machines := machines d @ [row]\<rparr>))"

definition is_machine :: "id \<Rightarrow> id \<Rightarrow> MachineRow \<Rightarrow> bool" where
  "is_machine organizationID i r = (mr_OrganizationID r = organizationID \<and> mr_ID r = i)"

definition MachineRepository_GetByID :: "id \<Rightarrow> id \<Rightarrow> Machine io" where
  "MachineRepository_GetByID organizationID i = query (\<lambda>d.
     case oneRow ErrMachineNotFound (is_machine organizationID i) (machines d) of
       Inl e \<Rightarrow> Inl e | Inr row \<Rightarrow> Inr (scanMachine row))"

definition MachineRepository_ListByOrganization :: "id \<Rightarrow> bool \<Rightarrow> Machine list io" where
  "MachineRepository_ListByOrganization organizationID includeArchived = query (\<lambda>d.
     Inr (map scanMachine (sort_key mr_CreatedAt (filter (\<lambda>r. mr_OrganizationID r = organizationID
       \<and> (includeArchived \<or> \<not> mr_Archived r)) (machines d)))))"

definition update_machine_row :: "Machine \<Rightarrow> MachineRow \<Rightarrow> MachineRow" where
  "update_machine_row m r = r\<lparr>mr_SSHUser := mch_SSHUser m, mr_CredentialType := mch_CredentialType m,
     mr_CredentialStorage := mch_CredentialStorage m,
     mr_CredentialMountID := fst (credentialRefColumns m), mr_CredentialPath := snd (credentialRefColumns m),
     mr_EncryptedCredential := fst (localCredentialColumns m),
     mr_CredentialNonce := fst (snd (localCredentialColumns m)),
     mr_CredentialSalt := snd (snd (localCredentialColumns m)),
     mr_DeployBasePath := mch_DeployBasePath m, mr_ConnectionStatus := mch_ConnectionStatus m,
     mr_DockerStatus := mch_DockerStatus m, mr_LastCheckedAt := mch_LastCheckedAt m\<rparr>"

definition MachineRepository_Update :: "id \<Rightarrow> id \<Rightarrow> Machine \<Rightarrow> unit io" where
  "MachineRepository_Update uuid actorUserID m = tx (\<lambda>now d.
     let p = is_machine (mch_OrganizationID m) (mch_ID m) in
     if list_ex (\<lambda>x. p x \<and> \<not> machine_checks (update_machine_row m x)) (machines d) then Inl ErrCheckViolation
     else if \<not> list_ex p (machines d) then Inl ErrMachineNotFound
     else and_emit uuid now (mch_OrganizationID m) ''FleetMachineUpdated''
       (fleet_event actorUserID ''machine'' (mch_ID m) []) ()
       (d\<lparr>machines := upd p (update_machine_row m) (machines d)\<rparr>))"

definition MachineRepository_Delete :: "id \<Rightarrow> id \<Rightarrow> id \<Rightarrow> id \<Rightarrow> unit io" where
  "MachineRepository_Delete uuid actorUserID organizationID i = tx (\<lambda>now d.
     let p = is_machine organizationID i in
     if list_ex p (machines d) \<and> list_ex (\<lambda>x. op_MachineID x = i) (operations d) then Inl ErrMachineHasHistory
     else if \<not> list_ex p (machines d) then Inl ErrMachineNotFound
     else and_emit uuid now organizationID ''FleetMachineDeleted'' (fleet_event actorUserID ''machine'' i []) ()
       (d\<lparr>machines := del p (machines d)\<rparr>))"

definition set_archived :: "bool \<Rightarrow> string \<Rightarrow> id \<Rightarrow> id \<Rightarrow> id \<Rightarrow> id \<Rightarrow> unit io" where
  "set_archived b eventType uuid actorUserID organizationID i = tx (\<lambda>now d.
     let p = is_machine organizationID i in
     if \<not> list_ex p (machines d) then Inl ErrMachineNotFound
     else and_emit uuid now organizationID eventType (fleet_event actorUserID ''machine'' i []) ()
       (d\<lparr>machines := upd p (\<lambda>r. r\<lparr>mr_Archived := b\<rparr>) (machines d)\<rparr>))"

definition MachineRepository_Archive :: "id \<Rightarrow> id \<Rightarrow> id \<Rightarrow> id \<Rightarrow> unit io" where
  "MachineRepository_Archive = set_archived True ''FleetMachineArchived''"

definition MachineRepository_Unarchive :: "id \<Rightarrow> id \<Rightarrow> id \<Rightarrow> id \<Rightarrow> unit io" where
  "MachineRepository_Unarchive = set_archived False ''FleetMachineUnarchived''"

section \<open>Networks and volumes\<close>

definition org_and_user :: "id \<Rightarrow> id \<Rightarrow> db \<Rightarrow> bool" where
  "org_and_user organizationID userID d = (list_ex (\<lambda>og. org_ID og = organizationID) (organizations d)
     \<and> list_ex (\<lambda>u. usr_ID u = userID) (users d))"

definition NetworkRepository_Create :: "id \<Rightarrow> Network \<Rightarrow> unit io" where
  "NetworkRepository_Create uuid n = tx (\<lambda>now d.
     if \<not> org_and_user (net_OrganizationID n) (net_CreatedBy n) d then Inl ErrForeignKeyViolation
     else if list_ex (\<lambda>x. net_ID x = net_ID n \<or> net_OrganizationID x = net_OrganizationID n \<and> net_Name x = net_Name n)
            (networks d) then Inl ErrUniqueViolation
     else and_emit uuid now (net_OrganizationID n) ''FleetNetworkCreated''
       (fleet_event (net_CreatedBy n) ''network'' (net_ID n) [(''name'', net_Name n)]) ()
       (d\<lparr>networks := networks d @ [n]\<rparr>))"

definition is_network :: "id \<Rightarrow> id \<Rightarrow> Network \<Rightarrow> bool" where
  "is_network organizationID i n = (net_OrganizationID n = organizationID \<and> net_ID n = i)"

definition NetworkRepository_GetByID :: "id \<Rightarrow> id \<Rightarrow> Network io" where
  "NetworkRepository_GetByID organizationID i = query (\<lambda>d.
     oneRow ErrNetworkNotFound (is_network organizationID i) (networks d))"

definition NetworkRepository_ListByOrganization :: "id \<Rightarrow> Network list io" where
  "NetworkRepository_ListByOrganization organizationID = query (\<lambda>d.
     Inr (sort_key net_CreatedAt (filter (\<lambda>n. net_OrganizationID n = organizationID) (networks d))))"

text \<open>
  \<^verbatim>\<open>compose_file_networks.network_id\<close> is declared \<^verbatim>\<open>ON DELETE CASCADE\<close>, so the statement removes the attachments and does
  not fail: the branch of the code for SQLSTATE 23503 (\<open>ErrNetworkInUse\<close>) is never taken. The same holds of volumes.
\<close>

definition NetworkRepository_Delete :: "id \<Rightarrow> id \<Rightarrow> id \<Rightarrow> id \<Rightarrow> unit io" where
  "NetworkRepository_Delete uuid actorUserID organizationID i = tx (\<lambda>now d.
     let p = is_network organizationID i in
     if \<not> list_ex p (networks d) then Inl ErrNetworkNotFound
     else and_emit uuid now organizationID ''FleetNetworkDeleted'' (fleet_event actorUserID ''network'' i []) ()
       (d\<lparr>networks := del p (networks d),
          compose_file_networks := del (\<lambda>c. cfn_NetworkID c = i) (compose_file_networks d)\<rparr>))"

definition VolumeRepository_Create :: "id \<Rightarrow> Volume \<Rightarrow> unit io" where
  "VolumeRepository_Create uuid v = tx (\<lambda>now d.
     if \<not> org_and_user (vol_OrganizationID v) (vol_CreatedBy v) d then Inl ErrForeignKeyViolation
     else if list_ex (\<lambda>x. vol_ID x = vol_ID v \<or> vol_OrganizationID x = vol_OrganizationID v \<and> vol_Name x = vol_Name v)
            (volumes d) then Inl ErrUniqueViolation
     else and_emit uuid now (vol_OrganizationID v) ''FleetVolumeCreated''
       (fleet_event (vol_CreatedBy v) ''volume'' (vol_ID v) [(''name'', vol_Name v)]) ()
       (d\<lparr>volumes := volumes d @ [v]\<rparr>))"

definition is_volume :: "id \<Rightarrow> id \<Rightarrow> Volume \<Rightarrow> bool" where
  "is_volume organizationID i v = (vol_OrganizationID v = organizationID \<and> vol_ID v = i)"

definition VolumeRepository_GetByID :: "id \<Rightarrow> id \<Rightarrow> Volume io" where
  "VolumeRepository_GetByID organizationID i = query (\<lambda>d.
     oneRow ErrVolumeNotFound (is_volume organizationID i) (volumes d))"

definition VolumeRepository_ListByOrganization :: "id \<Rightarrow> Volume list io" where
  "VolumeRepository_ListByOrganization organizationID = query (\<lambda>d.
     Inr (sort_key vol_CreatedAt (filter (\<lambda>v. vol_OrganizationID v = organizationID) (volumes d))))"

definition VolumeRepository_Delete :: "id \<Rightarrow> id \<Rightarrow> id \<Rightarrow> id \<Rightarrow> unit io" where
  "VolumeRepository_Delete uuid actorUserID organizationID i = tx (\<lambda>now d.
     let p = is_volume organizationID i in
     if \<not> list_ex p (volumes d) then Inl ErrVolumeNotFound
     else and_emit uuid now organizationID ''FleetVolumeDeleted'' (fleet_event actorUserID ''volume'' i []) ()
       (d\<lparr>volumes := del p (volumes d),
          compose_file_volumes := del (\<lambda>c. cfv_VolumeID c = i) (compose_file_volumes d)\<rparr>))"

section \<open>Compose files\<close>

text \<open>
  The partial unique index \<^verbatim>\<open>compose_files_one_global_per_org\<close> is the one of the two unique constraints whose violation
  the code maps; when a row violates both, the name is reported first.
\<close>

definition ComposeFileRepository_Create :: "id \<Rightarrow> ComposeFile \<Rightarrow> unit io" where
  "ComposeFileRepository_Create uuid c = tx (\<lambda>now d.
     if \<not> org_and_user (cf_OrganizationID c) (cf_CreatedBy c) d then Inl ErrForeignKeyViolation
     else if list_ex (\<lambda>x. cf_ID x = cf_ID c \<or> cf_OrganizationID x = cf_OrganizationID c \<and> cf_Name x = cf_Name c)
            (compose_files d) then Inl ErrUniqueViolation
     else if cf_IsGlobal c \<and> list_ex (\<lambda>x. cf_OrganizationID x = cf_OrganizationID c \<and> cf_IsGlobal x)
            (compose_files d) then Inl ErrGlobalComposeFileExists
     else and_emit uuid now (cf_OrganizationID c) ''FleetComposeFileCreated''
       (fleet_event (cf_CreatedBy c) ''compose_file'' (cf_ID c) [(''name'', cf_Name c)]) ()
       (d\<lparr>compose_files := compose_files d @ [c]\<rparr>))"

definition is_compose_file :: "id \<Rightarrow> id \<Rightarrow> ComposeFile \<Rightarrow> bool" where
  "is_compose_file organizationID i c = (cf_OrganizationID c = organizationID \<and> cf_ID c = i)"

definition ComposeFileRepository_GetByID :: "id \<Rightarrow> id \<Rightarrow> ComposeFile io" where
  "ComposeFileRepository_GetByID organizationID i = query (\<lambda>d.
     oneRow ErrComposeFileNotFound (is_compose_file organizationID i) (compose_files d))"

definition GetGlobal :: "id \<Rightarrow> ComposeFile option io" where
  "GetGlobal organizationID = query (\<lambda>d.
     Inr (List.find (\<lambda>c. cf_OrganizationID c = organizationID \<and> cf_IsGlobal c) (compose_files d)))"

definition ComposeFileRepository_ListByOrganization :: "id \<Rightarrow> ComposeFile list io" where
  "ComposeFileRepository_ListByOrganization organizationID = query (\<lambda>d.
     Inr (sort_key cf_CreatedAt (filter (\<lambda>c. cf_OrganizationID c = organizationID) (compose_files d))))"

definition UpdateContent :: "id \<Rightarrow> id \<Rightarrow> id \<Rightarrow> id \<Rightarrow> string \<Rightarrow> unit io" where
  "UpdateContent uuid actorUserID organizationID i content = tx (\<lambda>now d.
     let p = is_compose_file organizationID i in
     if \<not> list_ex p (compose_files d) then Inl ErrComposeFileNotFound
     else and_emit uuid now organizationID ''FleetComposeFileContentUpdated''
       (fleet_event actorUserID ''compose_file'' i []) ()
       (d\<lparr>compose_files := upd p (\<lambda>c. c\<lparr>cf_ComposeContent := content\<rparr>) (compose_files d)\<rparr>))"

definition ComposeFileRepository_Delete :: "id \<Rightarrow> id \<Rightarrow> id \<Rightarrow> id \<Rightarrow> unit io" where
  "ComposeFileRepository_Delete uuid actorUserID organizationID i = tx (\<lambda>now d.
     let p = is_compose_file organizationID i in
     if list_ex p (compose_files d) \<and> list_ex (\<lambda>x. op_ComposeFileID x = i) (operations d)
     then Inl ErrComposeFileHasHistory
     else if \<not> list_ex p (compose_files d) then Inl ErrComposeFileNotFound
     else and_emit uuid now organizationID ''FleetComposeFileDeleted'' (fleet_event actorUserID ''compose_file'' i []) ()
       (d\<lparr>compose_files := del p (compose_files d),
          compose_file_networks := del (\<lambda>c. cfn_ComposeFileID c = i) (compose_file_networks d),
          compose_file_volumes := del (\<lambda>c. cfv_ComposeFileID c = i) (compose_file_volumes d),
          compose_file_projects := del (\<lambda>c. cfp_ComposeFileID c = i) (compose_file_projects d),
          fleet_variables := del (\<lambda>v. fvr_ComposeFileID v = i) (fleet_variables d)\<rparr>))"

section \<open>Attachments\<close>

text \<open>
  A foreign key is checked without row-level security, so the ids of an attachment may be those of rows of another
  organization; what a transaction reads is restricted to its own organization.
\<close>

definition attachment_event :: "id \<Rightarrow> id \<Rightarrow> string \<Rightarrow> id \<Rightarrow> payload" where
  "attachment_event actor composeFileID field i = fleet_event actor ''compose_file'' composeFileID [(field, i)]"

definition AttachmentRepository_AttachNetwork :: "id \<Rightarrow> id \<Rightarrow> id \<Rightarrow> id \<Rightarrow> id \<Rightarrow> unit io" where
  "AttachmentRepository_AttachNetwork uuid actorUserID organizationID composeFileID networkID = tx (\<lambda>now d.
     let d' = (if list_ex (\<lambda>c. cfn_ComposeFileID c = composeFileID \<and> cfn_NetworkID c = networkID)
                    (compose_file_networks d) then d
               else d\<lparr>compose_file_networks := compose_file_networks d @ [\<lparr>cfn_OrganizationID = organizationID,
                      cfn_ComposeFileID = composeFileID, cfn_NetworkID = networkID\<rparr>]\<rparr>) in
     if \<not> list_ex (\<lambda>og. org_ID og = organizationID) (organizations d)
        \<or> \<not> list_ex (\<lambda>c. cf_ID c = composeFileID) (compose_files d)
        \<or> \<not> list_ex (\<lambda>n. net_ID n = networkID) (networks d) then Inl ErrForeignKeyViolation
     else and_emit uuid now organizationID ''FleetNetworkAttached''
       (attachment_event actorUserID composeFileID ''network_id'' networkID) () d')"

definition AttachmentRepository_DetachNetwork :: "id \<Rightarrow> id \<Rightarrow> id \<Rightarrow> id \<Rightarrow> id \<Rightarrow> unit io" where
  "AttachmentRepository_DetachNetwork uuid actorUserID organizationID composeFileID networkID = tx (\<lambda>now d.
     and_emit uuid now organizationID ''FleetNetworkDetached''
       (attachment_event actorUserID composeFileID ''network_id'' networkID) ()
       (d\<lparr>compose_file_networks := del (\<lambda>c. cfn_OrganizationID c = organizationID
          \<and> cfn_ComposeFileID c = composeFileID \<and> cfn_NetworkID c = networkID) (compose_file_networks d)\<rparr>))"

definition ListNetworksForComposeFile :: "id \<Rightarrow> id \<Rightarrow> Network list io" where
  "ListNetworksForComposeFile organizationID composeFileID = query (\<lambda>d.
     Inr (sort_key net_Name (concat (map (\<lambda>n. map (\<lambda>_. n)
       (filter (\<lambda>c. cfn_NetworkID c = net_ID n \<and> cfn_OrganizationID c = organizationID
          \<and> cfn_ComposeFileID c = composeFileID) (compose_file_networks d)))
       (filter (\<lambda>n. net_OrganizationID n = organizationID) (networks d))))))"

text \<open>
  \<^verbatim>\<open>ON CONFLICT ... DO UPDATE\<close> on a row of another organization is an error of the database: the policy of the table hides the
  row from the update.
\<close>

definition AttachmentRepository_AttachVolume :: "id \<Rightarrow> id \<Rightarrow> id \<Rightarrow> id \<Rightarrow> id \<Rightarrow> string \<Rightarrow> unit io" where
  "AttachmentRepository_AttachVolume uuid actorUserID organizationID composeFileID volumeID containerPath = tx (\<lambda>now d.
     let p = (\<lambda>c. cfv_ComposeFileID c = composeFileID \<and> cfv_VolumeID c = volumeID);
         d' = (if list_ex p (compose_file_volumes d)
               then d\<lparr>compose_file_volumes := upd p (\<lambda>c. c\<lparr>cfv_ContainerPath := containerPath\<rparr>)
                      (compose_file_volumes d)\<rparr>
               else d\<lparr>compose_file_volumes := compose_file_volumes d @ [\<lparr>cfv_OrganizationID = organizationID,
                      cfv_ComposeFileID = composeFileID, cfv_VolumeID = volumeID,
                      cfv_ContainerPath = containerPath\<rparr>]\<rparr>) in
     if \<not> list_ex (\<lambda>og. org_ID og = organizationID) (organizations d)
        \<or> \<not> list_ex (\<lambda>c. cf_ID c = composeFileID) (compose_files d)
        \<or> \<not> list_ex (\<lambda>v. vol_ID v = volumeID) (volumes d) then Inl ErrForeignKeyViolation
     else if list_ex (\<lambda>c. p c \<and> cfv_OrganizationID c \<noteq> organizationID) (compose_file_volumes d) then Inl ErrDB
     else and_emit uuid now organizationID ''FleetVolumeAttached''
       (attachment_event actorUserID composeFileID ''volume_id'' volumeID) () d')"

definition AttachmentRepository_DetachVolume :: "id \<Rightarrow> id \<Rightarrow> id \<Rightarrow> id \<Rightarrow> id \<Rightarrow> unit io" where
  "AttachmentRepository_DetachVolume uuid actorUserID organizationID composeFileID volumeID = tx (\<lambda>now d.
     and_emit uuid now organizationID ''FleetVolumeDetached''
       (attachment_event actorUserID composeFileID ''volume_id'' volumeID) ()
       (d\<lparr>compose_file_volumes := del (\<lambda>c. cfv_OrganizationID c = organizationID
          \<and> cfv_ComposeFileID c = composeFileID \<and> cfv_VolumeID c = volumeID) (compose_file_volumes d)\<rparr>))"

record VolumeAttachmentView =
  vav_Volume :: Volume
  vav_ContainerPath :: string

definition ListVolumesForComposeFile :: "id \<Rightarrow> id \<Rightarrow> VolumeAttachmentView list io" where
  "ListVolumesForComposeFile organizationID composeFileID = query (\<lambda>d.
     Inr (sort_key (\<lambda>v. vol_Name (vav_Volume v)) (concat (map (\<lambda>v. map (\<lambda>c.
         \<lparr>vav_Volume = v, vav_ContainerPath = cfv_ContainerPath c\<rparr>)
       (filter (\<lambda>c. cfv_VolumeID c = vol_ID v \<and> cfv_OrganizationID c = organizationID
          \<and> cfv_ComposeFileID c = composeFileID) (compose_file_volumes d)))
       (filter (\<lambda>v. vol_OrganizationID v = organizationID) (volumes d))))))"

definition AttachmentRepository_AttachProject :: "id \<Rightarrow> id \<Rightarrow> id \<Rightarrow> id \<Rightarrow> id \<Rightarrow> unit io" where
  "AttachmentRepository_AttachProject uuid actorUserID organizationID composeFileID projectID = tx (\<lambda>now d.
     let d' = (if list_ex (\<lambda>c. cfp_ComposeFileID c = composeFileID \<and> cfp_ProjectID c = projectID)
                    (compose_file_projects d) then d
               else d\<lparr>compose_file_projects := compose_file_projects d @ [\<lparr>cfp_OrganizationID = organizationID,
                      cfp_ComposeFileID = composeFileID, cfp_ProjectID = projectID\<rparr>]\<rparr>) in
     if \<not> list_ex (\<lambda>og. org_ID og = organizationID) (organizations d)
        \<or> \<not> list_ex (\<lambda>c. cf_ID c = composeFileID) (compose_files d)
        \<or> \<not> list_ex (\<lambda>p. prj_ID p = projectID) (projects d) then Inl ErrForeignKeyViolation
     else and_emit uuid now organizationID ''FleetComposeFileProjectAttached''
       (attachment_event actorUserID composeFileID ''project_id'' projectID) () d')"

definition AttachmentRepository_DetachProject :: "id \<Rightarrow> id \<Rightarrow> id \<Rightarrow> id \<Rightarrow> id \<Rightarrow> unit io" where
  "AttachmentRepository_DetachProject uuid actorUserID organizationID composeFileID projectID = tx (\<lambda>now d.
     and_emit uuid now organizationID ''FleetComposeFileProjectDetached''
       (attachment_event actorUserID composeFileID ''project_id'' projectID) ()
       (d\<lparr>compose_file_projects := del (\<lambda>c. cfp_OrganizationID c = organizationID
          \<and> cfp_ComposeFileID c = composeFileID \<and> cfp_ProjectID c = projectID) (compose_file_projects d)\<rparr>))"

definition AttachmentRepository_ListComposeFilesForProject :: "id \<Rightarrow> id \<Rightarrow> ComposeFile list io" where
  "AttachmentRepository_ListComposeFilesForProject organizationID projectID = query (\<lambda>d.
     Inr (sort_key cf_Name (concat (map (\<lambda>f. map (\<lambda>_. f)
       (filter (\<lambda>c. cfp_ComposeFileID c = cf_ID f \<and> cfp_OrganizationID c = organizationID
          \<and> cfp_ProjectID c = projectID) (compose_file_projects d)))
       (filter (\<lambda>f. cf_OrganizationID f = organizationID) (compose_files d))))))"

record ProjectSummary =
  psum_ID :: id
  psum_Name :: string
  psum_Slug :: string

definition ListProjectsForComposeFile :: "id \<Rightarrow> id \<Rightarrow> ProjectSummary list io" where
  "ListProjectsForComposeFile organizationID composeFileID = query (\<lambda>d.
     Inr (sort_key psum_Name (concat (map (\<lambda>p. map (\<lambda>_.
         \<lparr>psum_ID = prj_ID p, psum_Name = prj_Name p, psum_Slug = prj_Slug p\<rparr>)
       (filter (\<lambda>c. cfp_ProjectID c = prj_ID p \<and> cfp_OrganizationID c = organizationID
          \<and> cfp_ComposeFileID c = composeFileID) (compose_file_projects d)))
       (filter (\<lambda>p. prj_OrganizationID p = organizationID) (projects d))))))"

section \<open>Variables\<close>

definition fleet_value_columns :: "FleetVariable \<Rightarrow> string option \<times> id option \<times> string option" where
  "fleet_value_columns v = (case fv_SecretRef v of
       Some r \<Rightarrow> (None, Some (sr_MountID r), Some (sr_Path r))
     | None \<Rightarrow> (Some (fv_Value v), None, None))"

definition file_target_column :: "FleetVariable \<Rightarrow> string option" where
  "file_target_column v = (if fv_FileTargetPath v \<noteq> [] then Some (fv_FileTargetPath v) else None)"

definition fleet_variable_row :: "FleetVariable \<Rightarrow> FleetVariableRow" where
  "fleet_variable_row v = \<lparr>fvr_ID = fv_ID v, fvr_OrganizationID = fv_OrganizationID v,
     fvr_ComposeFileID = fv_ComposeFileID v, fvr_Key = fv_Key v, fvr_VarType = fv_VarType v,
     fvr_Value = fst (fleet_value_columns v), fvr_SecretMountID = fst (snd (fleet_value_columns v)),
     fvr_SecretPath = snd (snd (fleet_value_columns v)), fvr_FileTargetPath = file_target_column v,
     fvr_CreatedAt = fv_CreatedAt v\<rparr>"

definition Fleet_scanVariable :: "FleetVariableRow \<Rightarrow> FleetVariable" where
  "Fleet_scanVariable r = \<lparr>fv_ID = fvr_ID r, fv_OrganizationID = fvr_OrganizationID r,
     fv_ComposeFileID = fvr_ComposeFileID r, fv_Key = fvr_Key r, fv_VarType = fvr_VarType r,
     fv_Value = null_string (fvr_Value r),
     fv_SecretRef = (case fvr_SecretMountID r of
         Some m \<Rightarrow> (case fvr_SecretPath r of Some p \<Rightarrow> Some \<lparr>sr_MountID = m, sr_Path = p\<rparr> | None \<Rightarrow> None)
       | None \<Rightarrow> None),
     fv_FileTargetPath = null_string (fvr_FileTargetPath r), fv_CreatedAt = fvr_CreatedAt r\<rparr>"

definition fleet_variable_checks :: "FleetVariableRow \<Rightarrow> bool" where
  "fleet_variable_checks r =
     (fvr_VarType r \<in> {''kv'', ''secret'', ''env'', ''file_template'', ''config_file''}
      \<and> (fvr_Value r \<noteq> None \<and> fvr_SecretMountID r = None \<and> fvr_SecretPath r = None
         \<or> fvr_Value r = None \<and> fvr_SecretMountID r \<noteq> None \<and> fvr_SecretPath r \<noteq> None)
      \<and> (fvr_VarType r \<notin> {''file_template'', ''config_file''} \<or> fvr_FileTargetPath r \<noteq> None))"

definition FleetVariableRepository_Create :: "id \<Rightarrow> id \<Rightarrow> FleetVariable \<Rightarrow> unit io" where
  "FleetVariableRepository_Create uuid actorUserID v = tx (\<lambda>now d.
     let row = fleet_variable_row v in
     if \<not> fleet_variable_checks row then Inl ErrCheckViolation
     else if \<not> list_ex (\<lambda>og. org_ID og = fv_OrganizationID v) (organizations d)
        \<or> \<not> list_ex (\<lambda>c. cf_ID c = fv_ComposeFileID v) (compose_files d) then Inl ErrForeignKeyViolation
     else if list_ex (\<lambda>x. fvr_ID x = fv_ID v \<or> fvr_ComposeFileID x = fv_ComposeFileID v \<and> fvr_Key x = fv_Key v)
            (fleet_variables d) then Inl ErrVariableKeyTaken
     else and_emit uuid now (fv_OrganizationID v) ''FleetVariableCreated''
       (fleet_event actorUserID ''variable'' (fv_ID v) [(''key'', fv_Key v)]) ()
       (d\<lparr>fleet_variables := fleet_variables d @ [row]\<rparr>))"

definition is_fleet_variable :: "id \<Rightarrow> id \<Rightarrow> FleetVariableRow \<Rightarrow> bool" where
  "is_fleet_variable organizationID i r = (fvr_OrganizationID r = organizationID \<and> fvr_ID r = i)"

definition FleetVariableRepository_GetByID :: "id \<Rightarrow> id \<Rightarrow> FleetVariable io" where
  "FleetVariableRepository_GetByID organizationID i = query (\<lambda>d.
     case oneRow ErrVariableNotFound (is_fleet_variable organizationID i) (fleet_variables d) of
       Inl e \<Rightarrow> Inl e | Inr row \<Rightarrow> Inr (Fleet_scanVariable row))"

definition variables_of :: "id \<Rightarrow> id \<Rightarrow> db \<Rightarrow> FleetVariable list" where
  "variables_of organizationID composeFileID d = map Fleet_scanVariable (sort_key fvr_Key
     (filter (\<lambda>r. fvr_OrganizationID r = organizationID \<and> fvr_ComposeFileID r = composeFileID) (fleet_variables d)))"

definition ListByComposeFile :: "id \<Rightarrow> id \<Rightarrow> FleetVariable list io" where
  "ListByComposeFile organizationID composeFileID = query (\<lambda>d. Inr (variables_of organizationID composeFileID d))"

definition update_variable_row :: "FleetVariable \<Rightarrow> FleetVariableRow \<Rightarrow> FleetVariableRow" where
  "update_variable_row v r = r\<lparr>fvr_Value := fst (fleet_value_columns v),
     fvr_SecretMountID := fst (snd (fleet_value_columns v)), fvr_SecretPath := snd (snd (fleet_value_columns v)),
     fvr_FileTargetPath := file_target_column v\<rparr>"

definition FleetVariableRepository_Update :: "id \<Rightarrow> id \<Rightarrow> FleetVariable \<Rightarrow> unit io" where
  "FleetVariableRepository_Update uuid actorUserID v = tx (\<lambda>now d.
     let p = is_fleet_variable (fv_OrganizationID v) (fv_ID v) in
     if list_ex (\<lambda>x. p x \<and> \<not> fleet_variable_checks (update_variable_row v x)) (fleet_variables d)
     then Inl ErrCheckViolation
     else if \<not> list_ex p (fleet_variables d) then Inl ErrVariableNotFound
     else and_emit uuid now (fv_OrganizationID v) ''FleetVariableUpdated''
       (fleet_event actorUserID ''variable'' (fv_ID v) []) ()
       (d\<lparr>fleet_variables := upd p (update_variable_row v) (fleet_variables d)\<rparr>))"

definition FleetVariableRepository_Delete :: "id \<Rightarrow> id \<Rightarrow> id \<Rightarrow> id \<Rightarrow> unit io" where
  "FleetVariableRepository_Delete uuid actorUserID organizationID i = tx (\<lambda>now d.
     let p = is_fleet_variable organizationID i in
     if \<not> list_ex p (fleet_variables d) then Inl ErrVariableNotFound
     else and_emit uuid now organizationID ''FleetVariableDeleted'' (fleet_event actorUserID ''variable'' i []) ()
       (d\<lparr>fleet_variables := del p (fleet_variables d)\<rparr>))"

section \<open>Operations\<close>

definition operation_checks :: "Operation \<Rightarrow> bool" where
  "operation_checks x =
     (op_OperationType x \<in> {''deploy'', ''up'', ''down'', ''restart'', ''pull'', ''build'', ''stop'', ''start'', ''remove''}
      \<and> op_Status x \<in> {''queued'', ''running'', ''success'', ''failed''})"

definition OperationRepository_Create :: "id \<Rightarrow> Operation \<Rightarrow> unit io" where
  "OperationRepository_Create uuid x = tx (\<lambda>now d.
     if \<not> operation_checks x then Inl ErrCheckViolation
     else if \<not> org_and_user (op_OrganizationID x) (op_TriggeredBy x) d
        \<or> \<not> list_ex (\<lambda>c. cf_ID c = op_ComposeFileID x) (compose_files d)
        \<or> \<not> list_ex (\<lambda>m. mr_ID m = op_MachineID x) (machines d) then Inl ErrForeignKeyViolation
     else if list_ex (\<lambda>y. op_ID y = op_ID x) (operations d) then Inl ErrUniqueViolation
     else and_emit uuid now (op_OrganizationID x) ''FleetOperationCreated''
       (fleet_event (op_TriggeredBy x) ''operation'' (op_ID x) [(''operation_type'', op_OperationType x),
         (''machine_id'', op_MachineID x), (''compose_file_id'', op_ComposeFileID x)]) ()
       (d\<lparr>operations := operations d @
          [x\<lparr>op_StartedAt := None, op_FinishedAt := None, op_ExitCode := None, op_Output := []\<rparr>]\<rparr>))"

definition is_operation :: "id \<Rightarrow> id \<Rightarrow> Operation \<Rightarrow> bool" where
  "is_operation organizationID i x = (op_OrganizationID x = organizationID \<and> op_ID x = i)"

definition OperationRepository_GetByID :: "id \<Rightarrow> id \<Rightarrow> Operation io" where
  "OperationRepository_GetByID organizationID i = query (\<lambda>d.
     oneRow ErrOperationNotFound (is_operation organizationID i) (operations d))"

definition OperationRepository_ListByOrganization :: "id \<Rightarrow> id \<Rightarrow> id \<Rightarrow> Operation list io" where
  "OperationRepository_ListByOrganization organizationID composeFileID machineID = query (\<lambda>d.
     Inr (sort_key (\<lambda>x. - op_CreatedAt x) (filter (\<lambda>x. op_OrganizationID x = organizationID
       \<and> (composeFileID = [] \<or> op_ComposeFileID x = composeFileID)
       \<and> (machineID = [] \<or> op_MachineID x = machineID)) (operations d))))"

definition TryClaim :: "id \<Rightarrow> id \<Rightarrow> bool io" where
  "TryClaim organizationID i = tx (\<lambda>now d.
     let p = (\<lambda>x. is_operation organizationID i x \<and> op_Status x = ''queued'') in
     if \<not> list_ex p (operations d) then Inr (False, d)
     else Inr (True, d\<lparr>operations := upd p (\<lambda>x. x\<lparr>op_Status := ''running'', op_StartedAt := Some now\<rparr>)
            (operations d)\<rparr>))"

definition MarkFinished :: "id \<Rightarrow> id \<Rightarrow> string \<Rightarrow> int option \<Rightarrow> string \<Rightarrow> unit io" where
  "MarkFinished organizationID i status exitCode output = tx (\<lambda>now d.
     let p = is_operation organizationID i;
         f = (\<lambda>x. x\<lparr>op_Status := status, op_FinishedAt := Some now, op_ExitCode := exitCode, op_Output := output\<rparr>) in
     if list_ex (\<lambda>x. p x \<and> \<not> operation_checks (f x)) (operations d) then Inl ErrCheckViolation
     else if \<not> list_ex p (operations d) then Inl ErrOperationNotFound
     else Inr ((), d\<lparr>operations := upd p f (operations d)\<rparr>))"

definition FindQueuedCandidates :: "nat \<Rightarrow> (id \<times> id) list io" where
  "FindQueuedCandidates limit = query (\<lambda>d.
     Inr (map (\<lambda>x. (op_ID x, op_OrganizationID x))
       (take limit (sort_key op_CreatedAt (filter (\<lambda>x. op_Status x = ''queued'') (operations d))))))"

end
