(* ===== verification/Go_Strings.thy ===== *)
theory Go_Strings
  imports Store "HOL-Library.Sublist"
begin

text \<open>
  What the Fleet sources use of Go's \<^verbatim>\<open>strings\<close>, \<^verbatim>\<open>path\<close>, \<^verbatim>\<open>bufio\<close> and \<^verbatim>\<open>strconv\<close>. A Go string is a sequence of bytes, a
  \<^typ>\<open>string\<close> here too.
\<close>

section \<open>strings\<close>

text \<open>\<^verbatim>\<open>strings.ReplaceAll(s, old, new)\<close>; \<open>old\<close> is not empty in any call of the sources.\<close>

fun ReplaceAll :: "string \<Rightarrow> string \<Rightarrow> string \<Rightarrow> string" where
  "ReplaceAll [] old new = []"
| "ReplaceAll (c # cs) old new =
     (if old \<noteq> [] \<and> prefix old (c # cs) then new @ ReplaceAll (drop (length old - 1) cs) old new
      else c # ReplaceAll cs old new)"

text \<open>\<^verbatim>\<open>strings.Contains(s, sub)\<close>.\<close>

fun Contains :: "string \<Rightarrow> string \<Rightarrow> bool" where
  "Contains [] sub = (sub = [])"
| "Contains (c # cs) sub = (prefix sub (c # cs) \<or> Contains cs sub)"

lemma Contains_sublist: "Contains s sub = sublist sub s"
  by (induction s) (auto simp: sublist_Cons_right)

text \<open>\<^verbatim>\<open>strings.Cut(s, sep)\<close> for a separator of one byte: what is before and after its first occurrence.\<close>

definition Cut :: "string \<Rightarrow> char \<Rightarrow> string \<times> string" where
  "Cut s sep = (takeWhile (\<lambda>c. c \<noteq> sep) s, drop 1 (dropWhile (\<lambda>c. c \<noteq> sep) s))"

text \<open>\<^verbatim>\<open>strings.ToLower\<close> on ASCII letters; other bytes are kept.\<close>

definition to_lower :: "char \<Rightarrow> char" where
  "to_lower c = (if is_upper c then char_of ((of_char c :: nat) + 32) else c)"

definition ToLower :: "string \<Rightarrow> string" where
  "ToLower = map to_lower"

text \<open>\<^verbatim>\<open>strings.Trim(s, cutset)\<close> for a cutset of one character.\<close>

definition Trim :: "char \<Rightarrow> string \<Rightarrow> string" where
  "Trim c s = rev (dropWhile (\<lambda>x. x = c) (rev (dropWhile (\<lambda>x. x = c) s)))"

definition Join :: "string \<Rightarrow> string list \<Rightarrow> string" where
  "Join sep xs = concat (case xs of [] \<Rightarrow> [] | y # ys \<Rightarrow> y # map (\<lambda>z. sep @ z) ys)"

text \<open>\<^verbatim>\<open>strconv.Itoa\<close>.\<close>

fun digits :: "nat \<Rightarrow> string" where
  "digits n = (if n < 10 then [char_of (n + 48)] else digits (n div 10) @ [char_of (n mod 10 + 48)])"

declare digits.simps [simp del]

definition Itoa :: "int \<Rightarrow> string" where
  "Itoa i = (if i < 0 then ''-'' @ digits (nat (- i)) else digits (nat i))"

section \<open>path\<close>

text \<open>
  \<^verbatim>\<open>path.Clean\<close>: the elements between slashes are processed from left to right on a stack of those kept so far, last one first.
\<close>

fun split_on :: "char \<Rightarrow> string \<Rightarrow> string list" where
  "split_on sep [] = [[]]"
| "split_on sep (c # cs) = (if c = sep then [] # split_on sep cs
     else case split_on sep cs of x # xs \<Rightarrow> (c # x) # xs | [] \<Rightarrow> [[c]])"

definition clean_elem :: "bool \<Rightarrow> string list \<Rightarrow> string \<Rightarrow> string list" where
  "clean_elem rooted kept x =
     (if x = [] \<or> x = ''.'' then kept
      else if x = ''..'' then
        (case kept of [] \<Rightarrow> if rooted then [] else [x]
         | y # ys \<Rightarrow> if y = ''..'' then x # kept else ys)
      else x # kept)"

definition clean_elems :: "bool \<Rightarrow> string list \<Rightarrow> string list" where
  "clean_elems rooted xs = foldl (clean_elem rooted) [] xs"

definition path_Clean :: "string \<Rightarrow> string" where
  "path_Clean p =
     (let rooted = (p \<noteq> [] \<and> hd p = CHR ''/'');
          body = Join ''/'' (rev (clean_elems rooted (split_on (CHR ''/'') p)))
      in if rooted then ''/'' @ body else if body = [] then ''.'' else body)"

definition path_Join :: "string \<Rightarrow> string \<Rightarrow> string" where
  "path_Join a b = (let xs = filter (\<lambda>x. x \<noteq> []) [a, b] in if xs = [] then [] else path_Clean (Join ''/'' xs))"

text \<open>\<^verbatim>\<open>path.Dir\<close>: everything up to the last slash, cleaned.\<close>

definition path_Dir :: "string \<Rightarrow> string" where
  "path_Dir p = path_Clean (rev (dropWhile (\<lambda>c. c \<noteq> CHR ''/'') (rev p)))"

section \<open>bufio.Scanner\<close>

definition newline :: char where "newline = CHR 0x0A"

definition dropCR :: "string \<Rightarrow> string" where
  "dropCR l = (if l \<noteq> [] \<and> last l = CHR 0x0D then butlast l else l)"

text \<open>
  \<^verbatim>\<open>ScanLines\<close> with a buffer of at most \<open>limit\<close> bytes: a line that does not fit, with its end, stops the scanner.
\<close>

function scan_lines :: "nat \<Rightarrow> string \<Rightarrow> string list" where
  "scan_lines limit s =
     (let l = takeWhile (\<lambda>c. c \<noteq> newline) s in
      if s = [] \<or> limit \<le> length l then []
      else dropCR l # scan_lines limit (drop (Suc (length l)) s))"
  by auto
termination
  by (relation "measure (\<lambda>(_, s). length s)") auto

declare scan_lines.simps [simp del]

section \<open>Facts\<close>

lemma sublist_append_disjoint:
  "v \<noteq> [] \<Longrightarrow> set v \<inter> set n = {} \<Longrightarrow> sublist v (n @ r) \<Longrightarrow> sublist v r"
proof (induction n)
  case (Cons c n)
  then have "\<not> prefix v (c # n @ r)" by (cases v) auto
  with Cons show ?case by (auto simp: sublist_Cons_right)
qed simp

lemma prefix_ReplaceAll:
  "new \<noteq> [] \<Longrightarrow> set v \<inter> set new = {} \<Longrightarrow> prefix v (ReplaceAll s old new) \<Longrightarrow> prefix v s"
proof (induction s old new arbitrary: v rule: ReplaceAll.induct)
  case (2 c cs old new)
  show ?case
  proof (cases v)
    case v: (Cons x xs)
    show ?thesis
    proof (cases "old \<noteq> [] \<and> prefix old (c # cs)")
      case True
      with 2(3,5) v have "x = hd new" by (cases new) auto
      moreover have "hd new \<in> set new" "x \<notin> set new" using 2(3,4) v by auto
      ultimately show ?thesis by simp
    next
      case False
      with 2(5) v have "x = c" "prefix xs (ReplaceAll cs old new)" by (auto split: if_splits)
      moreover have "set xs \<inter> set new = {}" using 2(4) v by auto
      ultimately show ?thesis using 2(2) [OF False 2(3)] v by simp
    qed
  qed simp
qed simp

text \<open>A replacement cannot make a text appear that shares no byte with the new text ...\<close>

lemma sublist_ReplaceAll:
  "new \<noteq> [] \<Longrightarrow> v \<noteq> [] \<Longrightarrow> set v \<inter> set new = {} \<Longrightarrow> sublist v (ReplaceAll s old new) \<Longrightarrow> sublist v s"
proof (induction s old new rule: ReplaceAll.induct)
  case (2 c cs old new)
  show ?case
  proof (cases "old \<noteq> [] \<and> prefix old (c # cs)")
    case True
    with 2(4-6) have "sublist v (ReplaceAll (drop (length old - 1) cs) old new)"
      using sublist_append_disjoint by auto
    then have "sublist v (drop (length old - 1) cs)" using 2 True by blast
    then have "sublist v cs" by (metis append_take_drop_id sublist_appendI sublist_def append_assoc)
    then show ?thesis by (simp add: sublist_Cons_right)
  next
    case False
    then have eq: "ReplaceAll (c # cs) old new = c # ReplaceAll cs old new" by auto
    consider "prefix v (ReplaceAll (c # cs) old new)" | "sublist v (ReplaceAll cs old new)"
      using 2(6) unfolding eq by (auto simp: sublist_Cons_right)
    then show ?thesis
    proof cases
      case 1
      then show ?thesis using prefix_ReplaceAll [OF 2(3,5)] by (meson prefix_imp_sublist)
    next
      case 2
      then show ?thesis using "2.IH"(2) [OF False] "2.prems" by (auto simp: sublist_Cons_right)
    qed
  qed
qed simp

text \<open>... and the old text is gone.\<close>

lemma ReplaceAll_removes:
  "new \<noteq> [] \<Longrightarrow> old \<noteq> [] \<Longrightarrow> set old \<inter> set new = {} \<Longrightarrow> \<not> sublist old (ReplaceAll s old new)"
proof (induction s old new rule: ReplaceAll.induct)
  case (2 c cs old new)
  show ?case
  proof (cases "prefix old (c # cs)")
    case True
    then have "\<not> sublist old (ReplaceAll (drop (length old - 1) cs) old new)" using 2 by blast
    then show ?thesis using True 2(3-5) sublist_append_disjoint by auto
  next
    case False
    then have eq: "ReplaceAll (c # cs) old new = c # ReplaceAll cs old new" by simp
    have "\<not> prefix old (c # ReplaceAll cs old new)"
      using prefix_ReplaceAll [OF 2(3,5), of "c # cs" old] False unfolding eq by blast
    moreover have "\<not> sublist old (ReplaceAll cs old new)" using 2 False by blast
    ultimately show ?thesis using False by (simp add: sublist_Cons_right)
  qed
qed simp

lemma ReplaceAll_self: "\<not> sublist old s \<Longrightarrow> ReplaceAll s old new = s"
proof (induction s old new rule: ReplaceAll.induct)
  case (2 c cs old new)
  then have "\<not> prefix old (c # cs)" "\<not> sublist old cs" by (simp_all add: sublist_Cons_right)
  with 2 show ?case by simp
qed simp

end
