(* ===== verification/Compose.thy ===== *)
theory Compose
  imports Fleet_Store Go_Strings "HOL-Library.AList" "HOL-Library.Multiset"
begin

text \<open>
  Rendering of compose files (\<^verbatim>\<open>internal/fleet/application/render_compose.go\<close> and the scan of
  \<^verbatim>\<open>scan_compose_variables.go\<close>). The YAML library is a parameter: \<open>yaml_Unmarshal\<close> gives the error text, or the
  decoded map (\<open>None\<close> for a nil map); \<open>yaml_Sprint\<close> is the text \<^verbatim>\<open>fmt.Sprintf("%v", v)\<close> gives for a decoded value that is neither nil nor a
  string. A Go map is an association list with distinct keys. Go does not say in which order a map is ranged over:
  \<open>ord\<close> is that order, a permutation of the keys.
\<close>

section \<open>Template variables\<close>

definition is_ws :: "char \<Rightarrow> bool" where
  "is_ws c = (c \<in> {CHR 0x09, CHR 0x0A, CHR 0x0C, CHR 0x0D, CHR 0x20})"

definition key_char :: "char \<Rightarrow> bool" where
  "key_char c = (is_alnum c \<or> c = CHR ''_'')"

text \<open>
  \<^verbatim>\<open>\{\{\s*([A-Za-z_][A-Za-z0-9_]*)\s*\}\}\<close> at the start of a text: the key and what follows the match. White space, key characters
  and braces are disjoint, so a match is unique and needs no backtracking.
\<close>

definition match_placeholder :: "string \<Rightarrow> (string \<times> string) option" where
  "match_placeholder s =
     (if prefix ''{{'' s then
        let r = dropWhile is_ws (drop 2 s); key = takeWhile key_char r;
            r' = dropWhile is_ws (dropWhile key_char r)
        in if keyPattern key \<and> prefix ''}}'' r' then Some (key, drop 2 r') else None
      else None)"

lemma match_placeholder_shorter:
  assumes "match_placeholder s = Some (key, rest)"
  shows "length rest < length s"
proof -
  let ?r = "dropWhile is_ws (drop 2 s)" and ?r' = "dropWhile is_ws (dropWhile key_char (dropWhile is_ws (drop 2 s)))"
  from assms have "prefix ''{{'' s" "rest = drop 2 ?r'" by (auto simp: match_placeholder_def Let_def split: if_splits)
  moreover from this(1) have "2 \<le> length s" by (auto dest: prefix_length_le)
  moreover have "length ?r' \<le> length s - 2"
    by (metis (no_types, opaque_lifting) length_dropWhile_le length_drop le_trans)
  ultimately show ?thesis by simp
qed

text \<open>\<^verbatim>\<open>FindAllStringSubmatch\<close>: the keys, from left to right; and \<^verbatim>\<open>ReplaceAllStringFunc\<close> with the value of each key.\<close>

function placeholders :: "string \<Rightarrow> string list" where
  "placeholders [] = []"
| "placeholders (c # cs) = (case match_placeholder (c # cs) of
       Some (key, rest) \<Rightarrow> key # placeholders rest
     | None \<Rightarrow> placeholders cs)"
  by pat_completeness auto
termination
  by (relation "measure length") (auto dest: match_placeholder_shorter)

function replace_placeholders :: "(string \<Rightarrow> string) \<Rightarrow> string \<Rightarrow> string" where
  "replace_placeholders f [] = []"
| "replace_placeholders f (c # cs) = (case match_placeholder (c # cs) of
       Some (key, rest) \<Rightarrow> f key @ replace_placeholders f rest
     | None \<Rightarrow> c # replace_placeholders f cs)"
  by pat_completeness auto
termination
  by (relation "measure (\<lambda>(_, s). length s)") (auto dest: match_placeholder_shorter)

type_synonym string_map = "(string \<times> string) list"

definition SubstituteTemplateVars :: "string \<Rightarrow> string_map \<Rightarrow> err + string" where
  "SubstituteTemplateVars content values =
     (let missing = filter (\<lambda>k. map_of values k = None) (remdups (placeholders content))
      in if missing \<noteq> [] then Inl (ValidationError (''undefined template variable(s): '' @ Join '', '' (sort missing)))
         else Inr (replace_placeholders (\<lambda>k. null_string (map_of values k)) content))"

definition MaskedValue :: string where
  "MaskedValue = concat (replicate 8 [CHR 0xE2, CHR 0x80, CHR 0xA2])"

section \<open>YAML documents\<close>

datatype yval = YNull | YString string | YScalar string | YSeq "yval list" | YMap "(string \<times> yval) list"

type_synonym ymap = "(string \<times> yval) list"

record yaml =
  yaml_Unmarshal :: "string \<Rightarrow> string + ymap option"
  yaml_Marshal :: "ymap \<Rightarrow> string option"
  yaml_Sprint :: "yval \<Rightarrow> string"

type_synonym map_order = "string list \<Rightarrow> string list"

definition map_order_ok :: "map_order \<Rightarrow> bool" where
  "map_order_ok ord = (\<forall>ks. mset (ord ks) = mset ks)"

definition ranged :: "map_order \<Rightarrow> (string \<times> 'a) list \<Rightarrow> (string \<times> 'a) list" where
  "ranged ord m = map (\<lambda>k. (k, the (map_of m k))) (ord (map fst m))"

definition reservedTopLevelKeys :: "string list" where
  "reservedTopLevelKeys = [''version'', ''networks'', ''volumes'', ''configs'', ''secrets'', ''services'']"

definition normalizeTopLevel :: "ymap \<Rightarrow> ymap" where
  "normalizeTopLevel doc =
     (if map_of doc ''services'' \<noteq> None then doc
      else filter (\<lambda>(k, v). k \<in> set reservedTopLevelKeys) doc
        @ [(''services'', YMap (filter (\<lambda>(k, v). k \<notin> set reservedTopLevelKeys) doc))])"

text \<open>\<^verbatim>\<open>services, _ := doc["services"].(map[string]any)\<close>.\<close>

definition services_of :: "ymap \<Rightarrow> ymap" where
  "services_of doc = (case map_of doc ''services'' of Some (YMap m) \<Rightarrow> m | _ \<Rightarrow> [])"

definition sortedKeys :: "string_map \<Rightarrow> string list" where
  "sortedKeys m = sort (map fst m)"

text \<open>The strings among the items of a list; anything that is not a list has none.\<close>

definition seq_items :: "yval option \<Rightarrow> yval list" where
  "seq_items v = (case v of Some (YSeq l) \<Rightarrow> l | _ \<Rightarrow> [])"

definition strings_in :: "yval list \<Rightarrow> string list" where
  "strings_in l = concat (map (\<lambda>e. case e of YString s \<Rightarrow> [s] | _ \<Rightarrow> []) l)"

definition env_entry :: "string_map \<Rightarrow> string \<Rightarrow> yval" where
  "env_entry envVars k = YString (k @ ''='' @ null_string (map_of envVars k))"

definition add_env :: "string_map \<Rightarrow> string \<Rightarrow> ymap \<Rightarrow> ymap" where
  "add_env envVars k env = (if map_of env k \<noteq> None then env
     else AList.update k (YString (null_string (map_of envVars k))) env)"

definition injectEnv :: "string_map \<Rightarrow> ymap \<Rightarrow> ymap" where
  "injectEnv envVars service = (case map_of service ''environment'' of
       Some (YSeq env) \<Rightarrow>
         let existing = map (takeWhile (\<lambda>c. c \<noteq> CHR ''='')) (strings_in env)
         in AList.update ''environment'' (YSeq (env @ map (env_entry envVars)
              (filter (\<lambda>k. k \<notin> set existing) (sortedKeys envVars)))) service
     | Some (YMap env) \<Rightarrow>
         AList.update ''environment'' (YMap (fold (add_env envVars) (sortedKeys envVars) env)) service
     | None \<Rightarrow> AList.update ''environment'' (YMap (fold (add_env envVars) (sortedKeys envVars) [])) service
     | Some YNull \<Rightarrow> AList.update ''environment'' (YMap (fold (add_env envVars) (sortedKeys envVars) [])) service
     | Some _ \<Rightarrow> service)"

text \<open>The loop over all services; one that is not a mapping is left alone.\<close>

definition each_service :: "(ymap \<Rightarrow> ymap) \<Rightarrow> ymap \<Rightarrow> ymap" where
  "each_service f services = map (\<lambda>(k, v). (k, case v of YMap m \<Rightarrow> YMap (f m) | _ \<Rightarrow> v)) services"

text \<open>\<open>existing\<close> of the code is the set of the strings in the list as it grows.\<close>

definition append_missing :: "string \<Rightarrow> yval list \<Rightarrow> yval list" where
  "append_missing s l = (if s \<in> set (strings_in l) then l else l @ [YString s])"

definition append_to_list :: "string \<Rightarrow> string list \<Rightarrow> ymap \<Rightarrow> ymap" where
  "append_to_list field names service =
     AList.update field (YSeq (fold append_missing names (seq_items (map_of service field)))) service"

definition network_entry :: "Network \<Rightarrow> yval" where
  "network_entry n = YMap [(''external'', YScalar (if net_External n then ''true'' else ''false''))]"

definition injectNetworks :: "Network list \<Rightarrow> ymap \<times> ymap \<Rightarrow> ymap \<times> ymap" where
  "injectNetworks ns = (\<lambda>(doc, services).
     let topLevel = (case map_of doc ''networks'' of Some (YMap m) \<Rightarrow> m | _ \<Rightarrow> [])
     in (AList.update ''networks'' (YMap (fold (\<lambda>n. AList.update (net_Name n) (network_entry n)) ns topLevel)) doc,
         each_service (append_to_list ''networks'' (map net_Name ns)) services))"

definition volume_bind :: "VolumeAttachmentView \<Rightarrow> string" where
  "volume_bind va = vol_HostPath (vav_Volume va) @ '':'' @ vav_ContainerPath va"

definition injectVolumes :: "VolumeAttachmentView list \<Rightarrow> ymap \<Rightarrow> ymap" where
  "injectVolumes vs services = each_service (append_to_list ''volumes'' (map volume_bind vs)) services"

definition not_yaml :: "string \<Rightarrow> err" where
  "not_yaml msg = ValidationError (''compose content is not valid YAML: '' @ msg)"

text \<open>The document that \<^verbatim>\<open>RenderCompose\<close> hands to \<^verbatim>\<open>yaml.Marshal\<close>.\<close>

definition rendered_doc :: "ymap \<Rightarrow> string_map \<Rightarrow> Network list \<Rightarrow> VolumeAttachmentView list \<Rightarrow> ymap" where
  "rendered_doc parsed envVars ns vs =
     (let doc = normalizeTopLevel parsed; services = services_of doc;
          services1 = (if envVars = [] then services else each_service (injectEnv envVars) services);
          (doc2, services2) = (if ns = [] then (doc, services1) else injectNetworks ns (doc, services1));
          services3 = (if vs = [] then services2 else injectVolumes vs services2)
      in AList.update ''services'' (YMap services3) doc2)"

definition RenderCompose :: "yaml \<Rightarrow> string \<Rightarrow> string_map \<Rightarrow> string_map \<Rightarrow> Network list \<Rightarrow> VolumeAttachmentView list
    \<Rightarrow> err + string" where
  "RenderCompose y rawContent values envVars ns vs =
     (case SubstituteTemplateVars rawContent values of
        Inl e \<Rightarrow> Inl e
      | Inr substituted \<Rightarrow>
        (case yaml_Unmarshal y substituted of
           Inl msg \<Rightarrow> Inl (not_yaml msg)
         | Inr parsed \<Rightarrow>
           (case yaml_Marshal y (rendered_doc (case parsed of None \<Rightarrow> [] | Some m \<Rightarrow> m) envVars ns vs) of
              None \<Rightarrow> Inl ErrYAML
            | Some out \<Rightarrow> Inr out)))"

section \<open>Validation and the scan of environment blocks\<close>

fun check_services :: "ymap \<Rightarrow> err + unit" where
  "check_services [] = Inr ()"
| "check_services ((name, svc) # rest) = (case svc of
       YMap m \<Rightarrow> if map_of m ''image'' = None \<and> map_of m ''build'' = None
         then Inl (ValidationError (''service '' @ goQuote name @ '' must have an image or build''))
         else check_services rest
     | _ \<Rightarrow> Inl (ValidationError (''service '' @ goQuote name @ '' must be a mapping'')))"

definition ValidateComposeContent :: "yaml \<Rightarrow> map_order \<Rightarrow> string \<Rightarrow> err + unit" where
  "ValidateComposeContent y ord content = (case yaml_Unmarshal y content of
       Inl msg \<Rightarrow> Inl (not_yaml msg)
     | Inr None \<Rightarrow> Inl (ValidationError ''compose content must not be empty'')
     | Inr (Some parsed) \<Rightarrow>
         let services = services_of (normalizeTopLevel parsed)
         in if services = [] then Inl (ValidationError ''compose content must define at least one service'')
            else check_services (ranged ord services))"

definition sprint :: "yaml \<Rightarrow> yval \<Rightarrow> string" where
  "sprint y v = (case v of YNull \<Rightarrow> [] | YString s \<Rightarrow> s | _ \<Rightarrow> yaml_Sprint y v)"

definition scan_service :: "yaml \<Rightarrow> map_order \<Rightarrow> yval \<Rightarrow> string_map \<Rightarrow> string_map" where
  "scan_service y ord svc found = (case svc of
       YMap m \<Rightarrow> (case map_of m ''environment'' of
           Some (YSeq env) \<Rightarrow> fold (\<lambda>s. case Cut s (CHR ''='') of (key, val) \<Rightarrow> AList.update key val) (strings_in env) found
         | Some (YMap env) \<Rightarrow> fold (\<lambda>(key, v). AList.update key (sprint y v)) (ranged ord env) found
         | _ \<Rightarrow> found)
     | _ \<Rightarrow> found)"

definition scanComposeEnvironment :: "yaml \<Rightarrow> map_order \<Rightarrow> string \<Rightarrow> err + string_map" where
  "scanComposeEnvironment y ord content = (case yaml_Unmarshal y content of
       Inl _ \<Rightarrow> Inl ErrYAML
     | Inr parsed \<Rightarrow>
         let services = services_of (normalizeTopLevel (case parsed of None \<Rightarrow> [] | Some m \<Rightarrow> m))
         in Inr (fold (\<lambda>(_, svc). scan_service y ord svc) (ranged ord services) []))"

end
