(* ===== verification/Ssh_Client.thy ===== *)
theory Ssh_Client
  imports Worker_Registry Go_Strings
begin

text \<open>
  Fleet's client for remote machines (\<^verbatim>\<open>internal/fleet/adapters/ssh\<close>) and its publisher of log lines
  (\<^verbatim>\<open>internal/fleet/adapters/redisstream\<close>). The SSH and SFTP libraries with the machine behind them are the argument \<open>h\<close>: an
  answer may depend on every request sent before, the field \<open>ssh\<close> of the state.
\<close>

section \<open>Requests\<close>

datatype SSHAnswer =
    SSHError
  | SSHOk
  | SSHOutput string bool \<comment> \<open>the bytes of \<^verbatim>\<open>CombinedOutput\<close>; whether its error is nil\<close>
  | SSHText string
  | SSHExit int \<comment> \<open>an \<^verbatim>\<open>*ssh.ExitError\<close> with this status\<close>

record ssh_host =
  ParsePrivateKey :: "string \<Rightarrow> bool" \<comment> \<open>whether \<^verbatim>\<open>ssh.ParsePrivateKey\<close> accepts the text\<close>
  ssh_answer :: "(ConnectionTarget \<times> SSHRequest) list \<Rightarrow> ConnectionTarget \<Rightarrow> SSHRequest \<Rightarrow> SSHAnswer"

definition ssh_call :: "ssh_host \<Rightarrow> ConnectionTarget \<Rightarrow> SSHRequest \<Rightarrow> SSHAnswer io" where
  "ssh_call h target rq = atomic (\<lambda>w. (Inr (ssh_answer h (ssh w) target rq), w\<lparr>ssh := ssh w @ [(target, rq)]\<rparr>))"

text \<open>A call that only succeeds or fails.\<close>

definition ssh_do :: "ssh_host \<Rightarrow> ConnectionTarget \<Rightarrow> SSHRequest \<Rightarrow> unit io" where
  "ssh_do h target rq = bindE (ssh_call h target rq) (\<lambda>a. if a = SSHError then throwE ErrSSH else retE ())"

definition dial :: "ssh_host \<Rightarrow> ConnectionTarget \<Rightarrow> unit io" where
  "dial h target =
     (if ct_CredentialType target = ''ssh_password'' then ssh_do h target SSHDial
      else if ct_CredentialType target = ''ssh_key'' then
        guardE (ParsePrivateKey h (ct_Secret target)) ErrSSH (ssh_do h target SSHDial)
      else throwE ErrSSH)"

definition composeBinDetect :: string where
  "composeBinDetect = ''COMPOSE_CMD=$(docker compose version >/dev/null 2>&1 && echo '' @ goQuote ''docker compose''
     @ '' || echo '' @ goQuote ''docker-compose'' @ '')''"

definition probe_command :: string where
  "probe_command = ''docker version >/dev/null 2>&1 && ('' @ composeBinDetect
     @ '' && echo DOCKER_OK) || echo DOCKER_MISSING''"

section \<open>Client\<close>

definition Probe :: "ssh_host \<Rightarrow> ConnectionTarget \<Rightarrow> (string \<times> string) io" where
  "Probe h target =
     bindE (tryE (dial h target)) (\<lambda>c. case c of
       Inl _ \<Rightarrow> retE (''unreachable'', ''unknown'')
     | Inr _ \<Rightarrow>
       bindE (tryE (ssh_do h target SSHNewSession)) (\<lambda>s. case s of
         Inl _ \<Rightarrow> retE (''unreachable'', ''unknown'')
       | Inr _ \<Rightarrow>
         bindE (ssh_call h target (SSHCombinedOutput probe_command)) (\<lambda>a.
         let (out, failed) = (case a of SSHOutput out ok \<Rightarrow> (out, \<not> ok) | _ \<Rightarrow> ([], True))
         in if failed \<and> out = [] then retE (''online'', ''error'')
            else if Contains out ''DOCKER_OK'' then retE (''online'', ''ok'')
            else retE (''online'', ''missing''))))"

record RemoteFile =
  rf_Path :: string
  rf_Content :: string

definition writeRemoteFile :: "ssh_host \<Rightarrow> ConnectionTarget \<Rightarrow> RemoteFile \<Rightarrow> unit io" where
  "writeRemoteFile h target f =
     bindE (ssh_do h target (SFTPMkdirAll (path_Dir (rf_Path f)))) (\<lambda>_.
     bindE (ssh_do h target (SFTPCreate (rf_Path f))) (\<lambda>_.
     ssh_do h target (SFTPWrite (rf_Path f) (rf_Content f))))"

definition maxLine :: nat where "maxLine = 1024 * 1024"

text \<open>
  The lines of the output are read one after the other while the command runs; the step \<open>SSHReadAll\<close> stands for all the reads,
  and \<open>onLine\<close> is then called on each line in order. The result is the exit code and the text captured.
\<close>

definition RunOperation :: "ssh_host \<Rightarrow> ConnectionTarget \<Rightarrow> RemoteFile list \<Rightarrow> string \<Rightarrow> (string \<Rightarrow> unit io) \<Rightarrow> (int \<times> string) io" where
  "RunOperation h target files command onLine =
     bindE (dial h target) (\<lambda>_.
     bindE (if files = [] then retE () else
       bindE (ssh_do h target SFTPNewClient) (\<lambda>_. forE files (writeRemoteFile h target))) (\<lambda>_.
     bindE (ssh_do h target SSHNewSession) (\<lambda>_.
     bindE (ssh_do h target SSHStdoutPipe) (\<lambda>_.
     bindE (ssh_do h target (SSHStart command)) (\<lambda>_.
     bindE (ssh_call h target SSHReadAll) (\<lambda>stdout.
     let ls = scan_lines maxLine (case stdout of SSHText t \<Rightarrow> t | _ \<Rightarrow> []);
         combined = concat (map (\<lambda>l. l @ [newline]) ls) in
     bindE (forE ls onLine) (\<lambda>_.
     bindE (ssh_call h target SSHWait) (\<lambda>a. case a of
       SSHOk \<Rightarrow> retE (0, combined)
     | SSHExit n \<Rightarrow> retE (n, combined)
     | _ \<Rightarrow> throwE ErrSSH))))))))"

section \<open>Publisher\<close>

definition operationChannel :: "id \<Rightarrow> string" where
  "operationChannel operationID = ''fleet:operation:'' @ operationID @ '':log''"

definition publish_log :: "id \<Rightarrow> LogMessage \<Rightarrow> unit io" where
  "publish_log operationID m = redis_step (\<lambda>_ r. ((), r\<lparr>rds_logs := rds_logs r @ [(operationChannel operationID, m)]\<rparr>))"

definition PublishLine :: "id \<Rightarrow> string \<Rightarrow> unit io" where
  "PublishLine operationID line = publish_log operationID \<lparr>lm_Line = line, lm_Done = False, lm_ExitCode = None\<rparr>"

definition PublishEnd :: "id \<Rightarrow> int \<Rightarrow> unit io" where
  "PublishEnd operationID exitCode =
     publish_log operationID \<lparr>lm_Line = [], lm_Done = True, lm_ExitCode = Some exitCode\<rparr>"

section \<open>Execution of requests\<close>

lemma run_bind_ssh_call [run_head]:
  "run (bindE (ssh_call h t rq) k) w = run (k (ssh_answer h (ssh w) t rq)) (w\<lparr>ssh := ssh w @ [(t, rq)]\<rparr>)"
  by (simp add: ssh_call_def run_bindE run_atomic)

lemma run_ssh_do [run_simps]:
  "run (ssh_do h t rq) w = (if ssh_answer h (ssh w) t rq = SSHError then Inl ErrSSH else Inr (),
     w\<lparr>ssh := ssh w @ [(t, rq)]\<rparr>)"
  by (simp add: ssh_do_def run_head)

lemma run_bind_ssh_do [run_head]:
  "run (bindE (ssh_do h t rq) k) w = (if ssh_answer h (ssh w) t rq = SSHError
     then (Inl ErrSSH, w\<lparr>ssh := ssh w @ [(t, rq)]\<rparr>) else run (k ()) (w\<lparr>ssh := ssh w @ [(t, rq)]\<rparr>))"
  by (simp add: run_bindE run_ssh_do)

end
