(* ===== verification/Fleet.thy ===== *)
theory Fleet
  imports Compose Ssh_Client
begin

text \<open>
  The services of the Fleet context (\<^verbatim>\<open>internal/fleet/application\<close>). The arguments of a service are the fields of its input;
  before them come what its ports and Go's libraries supply: ids \<open>u\<close> (\<open>u 0\<close> of the new row, \<open>u 1\<close> of the event of the outbox),
  the cryptography \<open>cr\<close> and the master key, \<open>resolveSecret\<close> and \<open>writeSecret\<close> for the ports into the Secrets context (\<^verbatim>\<open>main.go\<close> wires
  \<open>ResolveSecret_ResolveValue\<close> and \<open>WriteSecret_WriteValue\<close>), the YAML library \<open>y\<close>, the order \<open>ord\<close> of maps and the remote machines \<open>h\<close>.
\<close>

section \<open>The gate\<close>

text \<open>
  Every service of this context begins with the same two checks, written out in each; the attachment services share them as
  \<^verbatim>\<open>checkManage\<close> and \<^verbatim>\<open>checkRead\<close>.
\<close>

definition gate :: "string list \<Rightarrow> id \<Rightarrow> id \<Rightarrow> string \<Rightarrow> 'a io \<Rightarrow> 'a io" where
  "gate ctx organizationID requestingUserID permission k =
     bindE (IsMember organizationID requestingUserID) (\<lambda>isMember.
     guardE isMember ErrForbidden (
     bindE (HasPermission ctx organizationID requestingUserID permission) (\<lambda>allowed.
     guardE allowed ErrForbidden k)))"

section \<open>Networks and volumes\<close>

definition CreateNetwork_Execute :: "(nat \<Rightarrow> id) \<Rightarrow> string list \<Rightarrow> id \<Rightarrow> id \<Rightarrow> string \<Rightarrow> bool \<Rightarrow> Network io" where
  "CreateNetwork_Execute u ctx organizationID requestingUserID name external =
     gate ctx organizationID requestingUserID ''network_volume:manage'' (
     bindE nowE (\<lambda>now.
     bindE (liftE (NewNetwork (u 0) now organizationID name requestingUserID external)) (\<lambda>network.
     bindE (NetworkRepository_Create (u 1) network) (\<lambda>_.
     retE network))))"

definition ListNetworks_Execute :: "string list \<Rightarrow> id \<Rightarrow> id \<Rightarrow> Network list io" where
  "ListNetworks_Execute ctx organizationID requestingUserID =
     gate ctx organizationID requestingUserID ''network_volume:read'' (
     NetworkRepository_ListByOrganization organizationID)"

definition DeleteNetwork_Execute :: "id \<Rightarrow> string list \<Rightarrow> id \<Rightarrow> id \<Rightarrow> id \<Rightarrow> unit io" where
  "DeleteNetwork_Execute uuid ctx organizationID requestingUserID networkID =
     gate ctx organizationID requestingUserID ''network_volume:delete'' (
     NetworkRepository_Delete uuid requestingUserID organizationID networkID)"

definition CreateVolume_Execute :: "(nat \<Rightarrow> id) \<Rightarrow> string list \<Rightarrow> id \<Rightarrow> id \<Rightarrow> string \<Rightarrow> string \<Rightarrow> Volume io" where
  "CreateVolume_Execute u ctx organizationID requestingUserID name hostPath =
     gate ctx organizationID requestingUserID ''network_volume:manage'' (
     bindE nowE (\<lambda>now.
     bindE (liftE (NewVolume (u 0) now organizationID name hostPath requestingUserID)) (\<lambda>volume.
     bindE (VolumeRepository_Create (u 1) volume) (\<lambda>_.
     retE volume))))"

definition ListVolumes_Execute :: "string list \<Rightarrow> id \<Rightarrow> id \<Rightarrow> Volume list io" where
  "ListVolumes_Execute ctx organizationID requestingUserID =
     gate ctx organizationID requestingUserID ''network_volume:read'' (
     VolumeRepository_ListByOrganization organizationID)"

definition DeleteVolume_Execute :: "id \<Rightarrow> string list \<Rightarrow> id \<Rightarrow> id \<Rightarrow> id \<Rightarrow> unit io" where
  "DeleteVolume_Execute uuid ctx organizationID requestingUserID volumeID =
     gate ctx organizationID requestingUserID ''network_volume:delete'' (
     VolumeRepository_Delete uuid requestingUserID organizationID volumeID)"

section \<open>Machines\<close>

definition no_such_mount :: "string \<Rightarrow> err" where
  "no_such_mount field = ValidationError (field @ '' does not reference a real secret mount in this organization'')"

text \<open>\<open>u 2\<close> and \<open>u 3\<close>: the salt and the nonce of the envelope.\<close>

definition CreateMachine_Execute :: "crypto \<Rightarrow> string \<Rightarrow> (nat \<Rightarrow> id) \<Rightarrow> string list \<Rightarrow> id \<Rightarrow> id \<Rightarrow> string \<Rightarrow> string \<Rightarrow> int \<Rightarrow> string
    \<Rightarrow> string \<Rightarrow> string \<Rightarrow> id \<Rightarrow> string \<Rightarrow> string \<Rightarrow> string \<Rightarrow> Machine io" where
  "CreateMachine_Execute cr masterKey u ctx organizationID requestingUserID name host sshPort sshUser
      credentialType credentialStorage credentialMountID credentialPath credentialSecret deployBasePath =
     gate ctx organizationID requestingUserID ''machine:manage'' (
     guardE (CredentialStorage_Valid credentialStorage)
       (ValidationError ''credential_storage must be one of vault, local'') (
     bindE (if credentialStorage = ''vault'' then
         bindE (secretMountCheckerFunc organizationID credentialMountID) (\<lambda>exists.
         guardE exists (no_such_mount ''credential_mount_id'') (
         bindE nowE (\<lambda>now.
         liftE (NewMachine (u 0) now organizationID name host sshPort sshUser credentialType
           \<lparr>sr_MountID = credentialMountID, sr_Path = credentialPath\<rparr> deployBasePath))))
       else
         guardE (credentialSecret \<noteq> [])
           (ValidationError ''credential_secret is required for local credential storage'') (
         bindE (liftE (Seal cr (u 2) (u 3) masterKey credentialSecret)) (\<lambda>sealed.
         bindE nowE (\<lambda>now.
         liftE (NewMachineWithLocalCredential (u 0) now organizationID name host sshPort sshUser credentialType
           (sealed_Ciphertext sealed) (sealed_Nonce sealed) (sealed_Salt sealed) deployBasePath))))) (\<lambda>machine.
     bindE (MachineRepository_Create (u 1) requestingUserID machine) (\<lambda>_.
     retE machine))))"

definition ListMachines_Execute :: "string list \<Rightarrow> id \<Rightarrow> id \<Rightarrow> bool \<Rightarrow> Machine list io" where
  "ListMachines_Execute ctx organizationID requestingUserID includeArchived =
     gate ctx organizationID requestingUserID ''machine:read'' (
     MachineRepository_ListByOrganization organizationID includeArchived)"

definition GetMachine_Execute :: "string list \<Rightarrow> id \<Rightarrow> id \<Rightarrow> id \<Rightarrow> Machine io" where
  "GetMachine_Execute ctx organizationID requestingUserID machineID =
     gate ctx organizationID requestingUserID ''machine:read'' (
     MachineRepository_GetByID organizationID machineID)"

text \<open>A pointer field of the input is an option. \<open>u 1\<close>: the event; \<open>u 2\<close>, \<open>u 3\<close>: salt and nonce.\<close>

definition UpdateMachine_Execute :: "crypto \<Rightarrow> string \<Rightarrow> (nat \<Rightarrow> id) \<Rightarrow> string list \<Rightarrow> id \<Rightarrow> id \<Rightarrow> id \<Rightarrow> string option
    \<Rightarrow> string option \<Rightarrow> id option \<Rightarrow> string option \<Rightarrow> string option \<Rightarrow> string option \<Rightarrow> Machine io" where
  "UpdateMachine_Execute cr masterKey u ctx organizationID requestingUserID machineID sshUser credentialType
      credentialMountID credentialPath credentialSecret deployBasePath =
     gate ctx organizationID requestingUserID ''machine:manage'' (
     bindE (MachineRepository_GetByID organizationID machineID) (\<lambda>m0.
     let m1 = m0\<lparr>mch_SSHUser := (case sshUser of None \<Rightarrow> mch_SSHUser m0 | Some x \<Rightarrow> x),
                 mch_DeployBasePath := (case deployBasePath of None \<Rightarrow> mch_DeployBasePath m0 | Some x \<Rightarrow> x)\<rparr> in
     bindE (case credentialType of
         None \<Rightarrow> retE m1
       | Some c \<Rightarrow> guardE (CredentialType_Valid c) (ValidationError ''invalid credential_type'')
           (retE (m1\<lparr>mch_CredentialType := c\<rparr>))) (\<lambda>m2.
     bindE (if credentialMountID = None \<and> credentialPath = None then retE m2 else
         let mountID = (case credentialMountID of None \<Rightarrow> sr_MountID (mch_CredentialRef m2) | Some x \<Rightarrow> x);
             path = (case credentialPath of None \<Rightarrow> sr_Path (mch_CredentialRef m2) | Some x \<Rightarrow> x) in
         bindE (secretMountCheckerFunc organizationID mountID) (\<lambda>exists.
         guardE exists (no_such_mount ''credential_mount_id'')
           (retE (m2\<lparr>mch_CredentialRef := \<lparr>sr_MountID = mountID, sr_Path = path\<rparr>\<rparr>)))) (\<lambda>m3.
     bindE (case credentialSecret of
         None \<Rightarrow> retE m3
       | Some secret \<Rightarrow>
         guardE (mch_CredentialStorage m3 = ''local'') (ValidationError
           ''credential_secret can only be updated for a Machine using local credential storage'') (
         bindE (liftE (Seal cr (u 2) (u 3) masterKey secret)) (\<lambda>sealed.
         retE (m3\<lparr>mch_EncryptedCredential := sealed_Ciphertext sealed, mch_CredentialNonce := sealed_Nonce sealed,
                  mch_CredentialSalt := sealed_Salt sealed\<rparr>)))) (\<lambda>machine.
     bindE (MachineRepository_Update (u 1) requestingUserID machine) (\<lambda>_.
     retE machine))))))"

definition ArchiveMachine_Execute :: "id \<Rightarrow> string list \<Rightarrow> id \<Rightarrow> id \<Rightarrow> id \<Rightarrow> unit io" where
  "ArchiveMachine_Execute uuid ctx organizationID requestingUserID machineID =
     gate ctx organizationID requestingUserID ''machine:manage'' (
     MachineRepository_Archive uuid requestingUserID organizationID machineID)"

definition UnarchiveMachine_Execute :: "id \<Rightarrow> string list \<Rightarrow> id \<Rightarrow> id \<Rightarrow> id \<Rightarrow> unit io" where
  "UnarchiveMachine_Execute uuid ctx organizationID requestingUserID machineID =
     gate ctx organizationID requestingUserID ''machine:manage'' (
     MachineRepository_Unarchive uuid requestingUserID organizationID machineID)"

definition DeleteMachine_Execute :: "id \<Rightarrow> string list \<Rightarrow> id \<Rightarrow> id \<Rightarrow> id \<Rightarrow> unit io" where
  "DeleteMachine_Execute uuid ctx organizationID requestingUserID machineID =
     gate ctx organizationID requestingUserID ''machine:delete'' (
     MachineRepository_Delete uuid requestingUserID organizationID machineID)"

definition maxDuplicateNameAttempts :: nat where "maxDuplicateNameAttempts = 50"

definition duplicateName :: "string \<Rightarrow> nat \<Rightarrow> string" where
  "duplicateName name attempt = (if attempt = 1 then name @ '' (copy)''
     else name @ '' (copy '' @ Itoa (int attempt) @ '')'')"

definition clone_machine :: "Machine \<Rightarrow> id \<Rightarrow> time \<Rightarrow> string \<Rightarrow> Machine" where
  "clone_machine source uuid now name = source\<lparr>mch_ID := uuid, mch_Name := name, mch_ConnectionStatus := ''unknown'',
     mch_DockerStatus := ''unknown'', mch_LastCheckedAt := None, mch_Archived := False, mch_CreatedAt := now\<rparr>"

text \<open>The loop over the attempts; \<open>u (2 * attempt)\<close> and \<open>u (2 * attempt + 1)\<close> are the ids one attempt draws.\<close>

fun duplicate_loop :: "(nat \<Rightarrow> id) \<Rightarrow> id \<Rightarrow> Machine \<Rightarrow> nat list \<Rightarrow> Machine io" where
  "duplicate_loop u requestingUserID source [] =
     throwE (ValidationError ''could not find an available name to duplicate this machine under'')"
| "duplicate_loop u requestingUserID source (attempt # rest) =
     bindE nowE (\<lambda>now.
     let clone = clone_machine source (u (2 * attempt)) now (duplicateName (mch_Name source) attempt) in
     bindE (tryE (MachineRepository_Create (u (2 * attempt + 1)) requestingUserID clone)) (\<lambda>r. case r of
       Inr _ \<Rightarrow> retE clone
     | Inl e \<Rightarrow> if e = ErrMachineNameTaken then duplicate_loop u requestingUserID source rest else throwE e))"

definition DuplicateMachine_Execute :: "(nat \<Rightarrow> id) \<Rightarrow> string list \<Rightarrow> id \<Rightarrow> id \<Rightarrow> id \<Rightarrow> string \<Rightarrow> Machine io" where
  "DuplicateMachine_Execute u ctx organizationID requestingUserID machineID name =
     gate ctx organizationID requestingUserID ''machine:manage'' (
     bindE (MachineRepository_GetByID organizationID machineID) (\<lambda>source.
     if name \<noteq> [] then
       bindE nowE (\<lambda>now.
       let clone = clone_machine source (u 0) now name in
       bindE (MachineRepository_Create (u 1) requestingUserID clone) (\<lambda>_.
       retE clone))
     else duplicate_loop u requestingUserID source [1..<Suc maxDuplicateNameAttempts]))"

type_synonym resolver = "id \<Rightarrow> id \<Rightarrow> string \<Rightarrow> string io"

definition TestMachineConnection_Execute :: "resolver \<Rightarrow> ssh_host \<Rightarrow> string list \<Rightarrow> id \<Rightarrow> id \<Rightarrow> string \<Rightarrow> int \<Rightarrow> string \<Rightarrow> string
    \<Rightarrow> string \<Rightarrow> id \<Rightarrow> string \<Rightarrow> string \<Rightarrow> (string \<times> string) io" where
  "TestMachineConnection_Execute resolveSecret h ctx organizationID requestingUserID host sshPort sshUser
      credentialType credentialStorage credentialMountID credentialPath credentialSecret =
     gate ctx organizationID requestingUserID ''machine:manage'' (
     bindE (if credentialStorage = ''local'' then retE credentialSecret
            else resolveSecret organizationID credentialMountID credentialPath) (\<lambda>secret.
     Probe h \<lparr>ct_Host = host, ct_Port = sshPort, ct_User = sshUser, ct_CredentialType = credentialType,
              ct_Secret = secret\<rparr>))"

definition resolveMachineCredential :: "resolver \<Rightarrow> crypto \<Rightarrow> string \<Rightarrow> Machine \<Rightarrow> string io" where
  "resolveMachineCredential resolveSecret cr masterKey m =
     (if mch_CredentialStorage m = ''local'' then
        liftE (Open cr masterKey \<lparr>sealed_Ciphertext = mch_EncryptedCredential m,
          sealed_Nonce = mch_CredentialNonce m, sealed_Salt = mch_CredentialSalt m\<rparr>)
      else resolveSecret (mch_OrganizationID m) (sr_MountID (mch_CredentialRef m)) (sr_Path (mch_CredentialRef m)))"

definition connection_target :: "Machine \<Rightarrow> string \<Rightarrow> ConnectionTarget" where
  "connection_target m secret = \<lparr>ct_Host = mch_Host m, ct_Port = mch_SSHPort m, ct_User = mch_SSHUser m,
     ct_CredentialType = mch_CredentialType m, ct_Secret = secret\<rparr>"

definition CheckMachineConnection_Execute :: "resolver \<Rightarrow> crypto \<Rightarrow> string \<Rightarrow> ssh_host \<Rightarrow> id \<Rightarrow> string list \<Rightarrow> id \<Rightarrow> id \<Rightarrow> id
    \<Rightarrow> Machine io" where
  "CheckMachineConnection_Execute resolveSecret cr masterKey h uuid ctx organizationID requestingUserID machineID =
     gate ctx organizationID requestingUserID ''machine:read'' (
     bindE (MachineRepository_GetByID organizationID machineID) (\<lambda>machine.
     bindE (resolveMachineCredential resolveSecret cr masterKey machine) (\<lambda>secret.
     bindE (tryE (Probe h (connection_target machine secret))) (\<lambda>p.
     let (connStatus, dockerStatus) = (case p of Inl _ \<Rightarrow> (''unreachable'', ''unknown'') | Inr s \<Rightarrow> s) in
     bindE nowE (\<lambda>now.
     let checked = RecordConnectionCheck connStatus dockerStatus now machine in
     bindE (MachineRepository_Update uuid requestingUserID checked) (\<lambda>_.
     retE checked))))))"

end
