(* ===== verification/Fleet_Compose.thy ===== *)
theory Fleet_Compose
  imports Fleet
begin

text \<open>
  The services of the Fleet context for compose files, their attachments, variables and operations
  (\<^verbatim>\<open>compose_file.go\<close>, \<^verbatim>\<open>attachment.go\<close>, \<^verbatim>\<open>variable.go\<close>, \<^verbatim>\<open>create_secret_variable.go\<close>, \<^verbatim>\<open>operation.go\<close>,
  \<^verbatim>\<open>scan_compose_variables.go\<close>, \<^verbatim>\<open>resolve_compose_variables.go\<close>).
\<close>

section \<open>Compose files\<close>

text \<open>The loop of \<^verbatim>\<open>syncEnvVariablesFromCompose\<close>; pass \<open>n\<close> draws the ids \<open>u (2 * n)\<close> and \<open>u (2 * n + 1)\<close>.\<close>

definition sync_one :: "(nat \<Rightarrow> id) \<Rightarrow> nat \<Rightarrow> (string \<Rightarrow> FleetVariable option) \<Rightarrow> id \<Rightarrow> id \<Rightarrow> id \<Rightarrow> string \<Rightarrow> string \<Rightarrow> unit io" where
  "sync_one u n byKey actorUserID organizationID composeFileID key val = (case byKey key of
       Some current \<Rightarrow>
         if fv_VarType current \<noteq> ''env'' then retE ()
         else FleetVariableRepository_Update (u (2 * n)) actorUserID (current\<lparr>fv_Value := val\<rparr>)
     | None \<Rightarrow>
         bindE nowE (\<lambda>now.
         bindE (liftE (Fleet_NewVariable (u (2 * n)) now organizationID composeFileID key ''env'' val [])) (\<lambda>v.
         FleetVariableRepository_Create (u (2 * n + 1)) actorUserID v)))"

definition syncEnvVariablesFromCompose :: "yaml \<Rightarrow> map_order \<Rightarrow> (nat \<Rightarrow> id) \<Rightarrow> id \<Rightarrow> id \<Rightarrow> id \<Rightarrow> string \<Rightarrow> unit io" where
  "syncEnvVariablesFromCompose y ord u actorUserID organizationID composeFileID content =
     bindE (liftE (scanComposeEnvironment y ord content)) (\<lambda>found.
     bindE (ListByComposeFile organizationID composeFileID) (\<lambda>existing.
     let byKey = map_of (rev (map (\<lambda>v. (fv_Key v, v)) existing)) in
     forE (enumerate 0 (ranged ord found)) (\<lambda>(n, key, val).
       sync_one u n byKey actorUserID organizationID composeFileID key val)))"

definition CreateComposeFile_Execute :: "yaml \<Rightarrow> map_order \<Rightarrow> (nat \<Rightarrow> id) \<Rightarrow> string list \<Rightarrow> id \<Rightarrow> id \<Rightarrow> string \<Rightarrow> string \<Rightarrow> bool
    \<Rightarrow> ComposeFile io" where
  "CreateComposeFile_Execute y ord u ctx organizationID requestingUserID name composeContent isGlobal =
     gate ctx organizationID requestingUserID ''compose_file:manage'' (
     bindE (liftE (ValidateComposeContent y ord composeContent)) (\<lambda>_.
     bindE nowE (\<lambda>now.
     bindE (liftE (NewComposeFile (u 0) now organizationID name composeContent requestingUserID isGlobal)) (\<lambda>composeFile.
     bindE (ComposeFileRepository_Create (u 1) composeFile) (\<lambda>_.
     bindE (syncEnvVariablesFromCompose y ord (\<lambda>n. u (n + 2)) requestingUserID organizationID (cf_ID composeFile)
       composeContent) (\<lambda>_.
     retE composeFile))))))"

definition ListComposeFiles_Execute :: "string list \<Rightarrow> id \<Rightarrow> id \<Rightarrow> ComposeFile list io" where
  "ListComposeFiles_Execute ctx organizationID requestingUserID =
     gate ctx organizationID requestingUserID ''compose_file:read'' (
     ComposeFileRepository_ListByOrganization organizationID)"

definition GetComposeFile_Execute :: "string list \<Rightarrow> id \<Rightarrow> id \<Rightarrow> id \<Rightarrow> ComposeFile io" where
  "GetComposeFile_Execute ctx organizationID requestingUserID composeFileID =
     gate ctx organizationID requestingUserID ''compose_file:read'' (
     ComposeFileRepository_GetByID organizationID composeFileID)"

definition UpdateComposeFileContent_Execute :: "yaml \<Rightarrow> map_order \<Rightarrow> (nat \<Rightarrow> id) \<Rightarrow> string list \<Rightarrow> id \<Rightarrow> id \<Rightarrow> id \<Rightarrow> string
    \<Rightarrow> unit io" where
  "UpdateComposeFileContent_Execute y ord u ctx organizationID requestingUserID composeFileID content =
     gate ctx organizationID requestingUserID ''compose_file:manage'' (
     bindE (liftE (ValidateComposeContent y ord content)) (\<lambda>_.
     bindE (UpdateContent (u 0) requestingUserID organizationID composeFileID content) (\<lambda>_.
     syncEnvVariablesFromCompose y ord (\<lambda>n. u (n + 1)) requestingUserID organizationID composeFileID content)))"

definition DeleteComposeFile_Execute :: "id \<Rightarrow> string list \<Rightarrow> id \<Rightarrow> id \<Rightarrow> id \<Rightarrow> unit io" where
  "DeleteComposeFile_Execute uuid ctx organizationID requestingUserID composeFileID =
     gate ctx organizationID requestingUserID ''compose_file:delete'' (
     ComposeFileRepository_Delete uuid requestingUserID organizationID composeFileID)"

section \<open>Attachments\<close>

definition checkManage :: "string list \<Rightarrow> id \<Rightarrow> id \<Rightarrow> unit io" where
  "checkManage ctx organizationID requestingUserID =
     gate ctx organizationID requestingUserID ''compose_file:manage'' (retE ())"

definition checkRead :: "string list \<Rightarrow> id \<Rightarrow> id \<Rightarrow> unit io" where
  "checkRead ctx organizationID requestingUserID =
     gate ctx organizationID requestingUserID ''compose_file:read'' (retE ())"

definition AttachNetwork :: "id \<Rightarrow> string list \<Rightarrow> id \<Rightarrow> id \<Rightarrow> id \<Rightarrow> id \<Rightarrow> unit io" where
  "AttachNetwork uuid ctx organizationID requestingUserID composeFileID networkID =
     bindE (checkManage ctx organizationID requestingUserID) (\<lambda>_.
     AttachmentRepository_AttachNetwork uuid requestingUserID organizationID composeFileID networkID)"

definition DetachNetwork :: "id \<Rightarrow> string list \<Rightarrow> id \<Rightarrow> id \<Rightarrow> id \<Rightarrow> id \<Rightarrow> unit io" where
  "DetachNetwork uuid ctx organizationID requestingUserID composeFileID networkID =
     bindE (checkManage ctx organizationID requestingUserID) (\<lambda>_.
     AttachmentRepository_DetachNetwork uuid requestingUserID organizationID composeFileID networkID)"

definition Attachment_ListNetworks :: "string list \<Rightarrow> id \<Rightarrow> id \<Rightarrow> id \<Rightarrow> Network list io" where
  "Attachment_ListNetworks ctx organizationID requestingUserID composeFileID =
     bindE (checkRead ctx organizationID requestingUserID) (\<lambda>_.
     ListNetworksForComposeFile organizationID composeFileID)"

definition AttachVolume :: "id \<Rightarrow> string list \<Rightarrow> id \<Rightarrow> id \<Rightarrow> id \<Rightarrow> id \<Rightarrow> string \<Rightarrow> unit io" where
  "AttachVolume uuid ctx organizationID requestingUserID composeFileID volumeID containerPath =
     bindE (checkManage ctx organizationID requestingUserID) (\<lambda>_.
     guardE (containerPath \<noteq> []) (ValidationError ''container_path is required'') (
     AttachmentRepository_AttachVolume uuid requestingUserID organizationID composeFileID volumeID containerPath))"

definition DetachVolume :: "id \<Rightarrow> string list \<Rightarrow> id \<Rightarrow> id \<Rightarrow> id \<Rightarrow> id \<Rightarrow> unit io" where
  "DetachVolume uuid ctx organizationID requestingUserID composeFileID volumeID =
     bindE (checkManage ctx organizationID requestingUserID) (\<lambda>_.
     AttachmentRepository_DetachVolume uuid requestingUserID organizationID composeFileID volumeID)"

definition Attachment_ListVolumes :: "string list \<Rightarrow> id \<Rightarrow> id \<Rightarrow> id \<Rightarrow> VolumeAttachmentView list io" where
  "Attachment_ListVolumes ctx organizationID requestingUserID composeFileID =
     bindE (checkRead ctx organizationID requestingUserID) (\<lambda>_.
     ListVolumesForComposeFile organizationID composeFileID)"

definition AttachProject :: "id \<Rightarrow> string list \<Rightarrow> id \<Rightarrow> id \<Rightarrow> id \<Rightarrow> id \<Rightarrow> unit io" where
  "AttachProject uuid ctx organizationID requestingUserID composeFileID projectID =
     bindE (checkManage ctx organizationID requestingUserID) (\<lambda>_.
     bindE (ProjectExists organizationID projectID) (\<lambda>exists.
     guardE exists ErrProjectNotFound (
     AttachmentRepository_AttachProject uuid requestingUserID organizationID composeFileID projectID)))"

definition DetachProject :: "id \<Rightarrow> string list \<Rightarrow> id \<Rightarrow> id \<Rightarrow> id \<Rightarrow> id \<Rightarrow> unit io" where
  "DetachProject uuid ctx organizationID requestingUserID composeFileID projectID =
     bindE (checkManage ctx organizationID requestingUserID) (\<lambda>_.
     AttachmentRepository_DetachProject uuid requestingUserID organizationID composeFileID projectID)"

definition Attachment_ListProjects :: "string list \<Rightarrow> id \<Rightarrow> id \<Rightarrow> id \<Rightarrow> ProjectSummary list io" where
  "Attachment_ListProjects ctx organizationID requestingUserID composeFileID =
     bindE (checkRead ctx organizationID requestingUserID) (\<lambda>_.
     ListProjectsForComposeFile organizationID composeFileID)"

definition ListComposeFilesForProject :: "string list \<Rightarrow> id \<Rightarrow> id \<Rightarrow> id \<Rightarrow> ComposeFile list io" where
  "ListComposeFilesForProject ctx organizationID requestingUserID projectID =
     bindE (checkRead ctx organizationID requestingUserID) (\<lambda>_.
     AttachmentRepository_ListComposeFilesForProject organizationID projectID)"

section \<open>Variables\<close>

definition CreateFleetVariable_Execute :: "(nat \<Rightarrow> id) \<Rightarrow> string list \<Rightarrow> id \<Rightarrow> id \<Rightarrow> id \<Rightarrow> string \<Rightarrow> string \<Rightarrow> string \<Rightarrow> id
    \<Rightarrow> string \<Rightarrow> string \<Rightarrow> FleetVariable io" where
  "CreateFleetVariable_Execute u ctx organizationID requestingUserID composeFileID key varType val secretMountID
      secretPath fileTargetPath =
     gate ctx organizationID requestingUserID ''compose_file:manage'' (
     bindE (if varType = ''secret'' then
         bindE (secretMountCheckerFunc organizationID secretMountID) (\<lambda>exists.
         guardE exists (no_such_mount ''secret_mount_id'') (
         bindE nowE (\<lambda>now.
         liftE (Fleet_NewVariableWithSecretRef (u 0) now organizationID composeFileID key secretMountID secretPath))))
       else
         bindE nowE (\<lambda>now.
         liftE (Fleet_NewVariable (u 0) now organizationID composeFileID key varType val fileTargetPath))) (\<lambda>variable.
     bindE (FleetVariableRepository_Create (u 1) requestingUserID variable) (\<lambda>_.
     retE variable)))"

definition ListFleetVariables_Execute :: "string list \<Rightarrow> id \<Rightarrow> id \<Rightarrow> id \<Rightarrow> FleetVariable list io" where
  "ListFleetVariables_Execute ctx organizationID requestingUserID composeFileID =
     gate ctx organizationID requestingUserID ''compose_file:read'' (
     bindE (ListByComposeFile organizationID composeFileID) (\<lambda>vs.
     retE (map (\<lambda>v. if fv_VarType v = ''secret'' then v\<lparr>fv_Value := MaskedValue\<rparr> else v) vs)))"

definition RevealVariable_Execute :: "resolver \<Rightarrow> string list \<Rightarrow> id \<Rightarrow> id \<Rightarrow> id \<Rightarrow> string io" where
  "RevealVariable_Execute resolveSecret ctx organizationID requestingUserID variableID =
     gate ctx organizationID requestingUserID ''compose_file:read'' (
     bindE (FleetVariableRepository_GetByID organizationID variableID) (\<lambda>variable.
     case (if fv_VarType variable = ''secret'' then fv_SecretRef variable else None) of
       None \<Rightarrow> throwE (ValidationError ''only secret-typed variables can be revealed'')
     | Some r \<Rightarrow> resolveSecret organizationID (sr_MountID r) (sr_Path r)))"

definition UpdateFleetVariable_Execute :: "id \<Rightarrow> string list \<Rightarrow> id \<Rightarrow> id \<Rightarrow> id \<Rightarrow> string option \<Rightarrow> id option \<Rightarrow> string option
    \<Rightarrow> string option \<Rightarrow> FleetVariable io" where
  "UpdateFleetVariable_Execute uuid ctx organizationID requestingUserID variableID val secretMountID secretPath
      fileTargetPath =
     gate ctx organizationID requestingUserID ''compose_file:manage'' (
     bindE (FleetVariableRepository_GetByID organizationID variableID) (\<lambda>v0.
     bindE (if fv_VarType v0 = ''secret'' then
         (case fv_SecretRef v0 of
            None \<Rightarrow> throwE NilPointer
          | Some r \<Rightarrow>
            let mountID = (case secretMountID of None \<Rightarrow> sr_MountID r | Some x \<Rightarrow> x);
                path = (case secretPath of None \<Rightarrow> sr_Path r | Some x \<Rightarrow> x) in
            bindE (if secretMountID = None then retE True else secretMountCheckerFunc organizationID mountID) (\<lambda>exists.
            guardE exists (no_such_mount ''secret_mount_id'')
              (retE (v0\<lparr>fv_SecretRef := Some \<lparr>sr_MountID = mountID, sr_Path = path\<rparr>\<rparr>))))
       else retE (case val of None \<Rightarrow> v0 | Some x \<Rightarrow> v0\<lparr>fv_Value := x\<rparr>)) (\<lambda>v1.
     bindE (case fileTargetPath of
         None \<Rightarrow> retE v1
       | Some p \<Rightarrow>
         guardE (\<not> (RequiresFileTargetPath (fv_VarType v1) \<and> p = []))
           (ValidationError (''file_target_path is required for var_type '' @ fv_VarType v1))
           (retE (v1\<lparr>fv_FileTargetPath := p\<rparr>))) (\<lambda>variable.
     bindE (FleetVariableRepository_Update uuid requestingUserID variable) (\<lambda>_.
     retE variable)))))"

definition DeleteFleetVariable_Execute :: "id \<Rightarrow> string list \<Rightarrow> id \<Rightarrow> id \<Rightarrow> id \<Rightarrow> unit io" where
  "DeleteFleetVariable_Execute uuid ctx organizationID requestingUserID variableID =
     gate ctx organizationID requestingUserID ''compose_file:manage'' (
     FleetVariableRepository_Delete uuid requestingUserID organizationID variableID)"

definition secret_variable_path :: "id \<Rightarrow> string \<Rightarrow> ProjectSummary \<Rightarrow> string" where
  "secret_variable_path composeFileID key project =
     ''secret/data/fleet/compose-files/'' @ psum_ID project @ ''/'' @ composeFileID @ ''/'' @ key"

text \<open>The projects are sorted by id; the path of the first one is the one kept.\<close>

definition CreateSecretVariable_Execute :: "(id \<Rightarrow> id \<Rightarrow> string \<Rightarrow> string \<Rightarrow> unit io) \<Rightarrow> (nat \<Rightarrow> id) \<Rightarrow> string list \<Rightarrow> id \<Rightarrow> id
    \<Rightarrow> id \<Rightarrow> string \<Rightarrow> id \<Rightarrow> string \<Rightarrow> FleetVariable io" where
  "CreateSecretVariable_Execute writeSecret u ctx organizationID requestingUserID composeFileID key mountID val =
     gate ctx organizationID requestingUserID ''compose_file:manage'' (
     guardE (key \<noteq> [] \<and> mountID \<noteq> [] \<and> val \<noteq> [])
       (ValidationError ''key, mount_id and value are all required'') (
     bindE (secretMountCheckerFunc organizationID mountID) (\<lambda>mountExists.
     guardE mountExists (no_such_mount ''mount_id'') (
     bindE (ListProjectsForComposeFile organizationID composeFileID) (\<lambda>ps.
     guardE (ps \<noteq> []) (ValidationError
       ''link this compose file to at least one project before creating a vault-backed secret variable'') (
     let paths = map (secret_variable_path composeFileID key) (sort_key psum_ID ps) in
     bindE (forE paths (\<lambda>path. writeSecret organizationID mountID path val)) (\<lambda>_.
     bindE nowE (\<lambda>now.
     bindE (liftE (Fleet_NewVariableWithSecretRef (u 0) now organizationID composeFileID key mountID (hd paths))) (\<lambda>variable.
     bindE (FleetVariableRepository_Create (u 1) requestingUserID variable) (\<lambda>_.
     retE variable))))))))))"

section \<open>Operations\<close>

definition TriggerOperation_Execute :: "(nat \<Rightarrow> id) \<Rightarrow> string list \<Rightarrow> id \<Rightarrow> id \<Rightarrow> id \<Rightarrow> id \<Rightarrow> string \<Rightarrow> Operation io" where
  "TriggerOperation_Execute u ctx organizationID requestingUserID composeFileID machineID operationType =
     gate ctx organizationID requestingUserID ''operation:deploy'' (
     bindE (ComposeFileRepository_GetByID organizationID composeFileID) (\<lambda>_.
     bindE (MachineRepository_GetByID organizationID machineID) (\<lambda>machine.
     guardE (\<not> mch_Archived machine) (ValidationError ''machine is archived and cannot receive new operations'') (
     bindE nowE (\<lambda>now.
     bindE (liftE (NewOperation (u 0) now organizationID composeFileID machineID operationType requestingUserID)) (\<lambda>operation.
     bindE (OperationRepository_Create (u 1) operation) (\<lambda>_.
     retE operation)))))))"

definition ListOperations_Execute :: "string list \<Rightarrow> id \<Rightarrow> id \<Rightarrow> id \<Rightarrow> id \<Rightarrow> Operation list io" where
  "ListOperations_Execute ctx organizationID requestingUserID composeFileID machineID =
     gate ctx organizationID requestingUserID ''operation:read'' (
     OperationRepository_ListByOrganization organizationID composeFileID machineID)"

definition GetOperation_Execute :: "string list \<Rightarrow> id \<Rightarrow> id \<Rightarrow> id \<Rightarrow> Operation io" where
  "GetOperation_Execute ctx organizationID requestingUserID operationID =
     gate ctx organizationID requestingUserID ''operation:read'' (
     OperationRepository_GetByID organizationID operationID)"

section \<open>Resolution of variables\<close>

record ResolvedComposeVariables =
  rv_TemplateValues :: string_map
  rv_EnvVars :: string_map
  rv_FileVariables :: "FleetVariable list"

definition resolve_value :: "resolver \<Rightarrow> id \<Rightarrow> FleetVariable \<Rightarrow> string io" where
  "resolve_value resolveSecret organizationID v =
     (if fv_VarType v = ''secret'' then
        (case fv_SecretRef v of None \<Rightarrow> throwE NilPointer
         | Some r \<Rightarrow> resolveSecret organizationID (sr_MountID r) (sr_Path r))
      else retE (fv_Value v))"

definition add_resolved :: "FleetVariable \<times> string \<Rightarrow> ResolvedComposeVariables \<Rightarrow> ResolvedComposeVariables" where
  "add_resolved p rv = (case p of (v, val) \<Rightarrow>
     let rv' = rv\<lparr>rv_TemplateValues := AList.update (fv_Key v) val (rv_TemplateValues rv)\<rparr> in
     if fv_VarType v = ''env'' then rv'\<lparr>rv_EnvVars := AList.update (fv_Key v) val (rv_EnvVars rv)\<rparr>
     else if fv_VarType v = ''file_template'' \<or> fv_VarType v = ''config_file''
     then rv'\<lparr>rv_FileVariables := rv_FileVariables rv @ [v\<lparr>fv_Value := val\<rparr>]\<rparr>
     else rv')"

text \<open>All variables that apply: those of the file, then those of the global file whose keys it does not have.\<close>

definition applicable_variables :: "id \<Rightarrow> id \<Rightarrow> FleetVariable list io" where
  "applicable_variables organizationID composeFileID =
     bindE (ListByComposeFile organizationID composeFileID) (\<lambda>local.
     bindE (GetGlobal organizationID) (\<lambda>global. case global of
       None \<Rightarrow> retE local
     | Some g \<Rightarrow>
       if cf_ID g = composeFileID then retE local
       else bindE (ListByComposeFile organizationID (cf_ID g)) (\<lambda>fallback.
         retE (local @ filter (\<lambda>v. fv_Key v \<notin> set (map fv_Key local)) fallback))))"

definition resolveComposeVariables :: "resolver \<Rightarrow> id \<Rightarrow> id \<Rightarrow> ResolvedComposeVariables io" where
  "resolveComposeVariables resolveSecret organizationID composeFileID =
     bindE (applicable_variables organizationID composeFileID) (\<lambda>all.
     bindE (mapE (resolve_value resolveSecret organizationID) all) (\<lambda>vals.
     retE (fold add_resolved (zip all vals)
       \<lparr>rv_TemplateValues = [], rv_EnvVars = [], rv_FileVariables = []\<rparr>)))"

end
