(* ===== verification/Deploy.thy ===== *)
theory Deploy
  imports Fleet_Compose
begin

text \<open>
  The deploy executor (\<^verbatim>\<open>internal/fleet/application/deploy_executor.go\<close>): it polls for queued operations, claims each and
  runs it on its machine over SSH. \<open>errText\<close> is the text \<^verbatim>\<open>Error()\<close> of an error.
\<close>

section \<open>Text\<close>

definition scrubSecrets :: "string \<Rightarrow> string list \<Rightarrow> string" where
  "scrubSecrets text secretValues = fold (\<lambda>v t. ReplaceAll t v MaskedValue) secretValues text"

definition secretValuesFor :: "map_order \<Rightarrow> ResolvedComposeVariables \<Rightarrow> string list" where
  "secretValuesFor ord resolved = filter (\<lambda>v. v \<noteq> []) (map snd (ranged ord (rv_TemplateValues resolved)))"

definition slug_char :: "char \<Rightarrow> bool" where
  "slug_char c = (is_lower c \<or> is_digit c)"

text \<open>\<^verbatim>\<open>[^a-z0-9]+\<close> replaced by a hyphen.\<close>

function slug_collapse :: "string \<Rightarrow> string" where
  "slug_collapse [] = []"
| "slug_collapse (c # cs) = (if slug_char c then c # slug_collapse cs
     else CHR ''-'' # slug_collapse (dropWhile (\<lambda>x. \<not> slug_char x) cs))"
  by pat_completeness auto
termination
  by (relation "measure length") (auto simp: le_imp_less_Suc length_dropWhile_le)

definition slugify :: "string \<Rightarrow> string" where
  "slugify name = Trim (CHR ''-'') (slug_collapse (ToLower name))"

definition single_quote :: char where "single_quote = CHR 0x27"
definition backslash :: char where "backslash = CHR 0x5C"

definition shellQuote :: "string \<Rightarrow> string" where
  "shellQuote s = [single_quote]
     @ ReplaceAll s [single_quote] [single_quote, backslash, single_quote, single_quote] @ [single_quote]"

definition operation_command :: "string \<Rightarrow> string \<Rightarrow> string" where
  "operation_command deployPath opType = composeBinDetect @ '' && cd '' @ shellQuote deployPath
     @ '' && $COMPOSE_CMD -f docker-compose.yml '' @ null_string (map_of ComposeSubcommand opType) @ '' 2>&1''"

section \<open>Executor\<close>

definition finishWithError :: "id \<Rightarrow> id \<Rightarrow> string \<Rightarrow> unit io" where
  "finishWithError organizationID operationID err =
     bindE (logged (MarkFinished organizationID operationID ''failed'' None (''internal error: '' @ err))) (\<lambda>_.
     logged (PublishEnd operationID (-1)))"

text \<open>
  \<^verbatim>\<open>x, err := m; if err != nil { e.finishWithError(..., fmt.Errorf("label: %w", err)); return }\<close>. A panic is not an error value: it
  ends the goroutine, and with it the process.
\<close>

definition orFinish :: "(err \<Rightarrow> string) \<Rightarrow> id \<Rightarrow> id \<Rightarrow> string \<Rightarrow> 'a io \<Rightarrow> ('a \<Rightarrow> unit io) \<Rightarrow> unit io" where
  "orFinish errText organizationID operationID label m k = bindE (tryE m) (\<lambda>r. case r of
       Inr a \<Rightarrow> k a
     | Inl e \<Rightarrow> if e = NilPointer then throwE NilPointer
         else finishWithError organizationID operationID (label @ '': '' @ errText e))"

text \<open>The files of a \<^verbatim>\<open>deploy\<close>: the rendered compose file and the file variables.\<close>

fun file_variables :: "(err \<Rightarrow> string) \<Rightarrow> id \<Rightarrow> id \<Rightarrow> string \<Rightarrow> string_map \<Rightarrow> FleetVariable list \<Rightarrow> RemoteFile list
    \<Rightarrow> (RemoteFile list \<Rightarrow> unit io) \<Rightarrow> unit io" where
  "file_variables errText organizationID operationID deployPath values [] files k = k files"
| "file_variables errText organizationID operationID deployPath values (fv # fvs) files k =
     orFinish errText organizationID operationID (''render file variable '' @ goQuote (fv_Key fv))
       (liftE (SubstituteTemplateVars (fv_Value fv) values)) (\<lambda>content.
     file_variables errText organizationID operationID deployPath values fvs
       (files @ [\<lparr>rf_Path = path_Join deployPath (fv_FileTargetPath fv), rf_Content = content\<rparr>]) k)"

definition deploy_files :: "(err \<Rightarrow> string) \<Rightarrow> yaml \<Rightarrow> id \<Rightarrow> id \<Rightarrow> id \<Rightarrow> string \<Rightarrow> string \<Rightarrow> ResolvedComposeVariables
    \<Rightarrow> (RemoteFile list \<Rightarrow> unit io) \<Rightarrow> unit io" where
  "deploy_files errText y organizationID operationID composeFileID content deployPath resolved k =
     orFinish errText organizationID operationID ''load attached networks''
       (ListNetworksForComposeFile organizationID composeFileID) (\<lambda>ns.
     orFinish errText organizationID operationID ''load attached volumes''
       (ListVolumesForComposeFile organizationID composeFileID) (\<lambda>vs.
     orFinish errText organizationID operationID ''render compose file''
       (liftE (RenderCompose y content (rv_TemplateValues resolved) (rv_EnvVars resolved) ns vs)) (\<lambda>rendered.
     file_variables errText organizationID operationID deployPath (rv_TemplateValues resolved)
       (rv_FileVariables resolved)
       [\<lparr>rf_Path = path_Join deployPath ''docker-compose.yml'', rf_Content = rendered\<rparr>] k)))"

text \<open>From the SSH session on.\<close>

definition run_and_finish :: "(err \<Rightarrow> string) \<Rightarrow> ssh_host \<Rightarrow> id \<Rightarrow> id \<Rightarrow> ConnectionTarget \<Rightarrow> string \<Rightarrow> string list \<Rightarrow> RemoteFile list
    \<Rightarrow> unit io" where
  "run_and_finish errText h organizationID operationID target command secretValues files =
     orFinish errText organizationID operationID ''ssh execution''
       (RunOperation h target files command
          (\<lambda>line. logged (PublishLine operationID (scrubSecrets line secretValues)))) (\<lambda>(exitCode, output).
     bindE (logged (MarkFinished organizationID operationID (if exitCode \<noteq> 0 then ''failed'' else ''success'')
       (Some exitCode) (scrubSecrets output secretValues))) (\<lambda>_.
     logged (PublishEnd operationID exitCode)))"

definition DeployExecutor_execute :: "(err \<Rightarrow> string) \<Rightarrow> resolver \<Rightarrow> crypto \<Rightarrow> string \<Rightarrow> yaml \<Rightarrow> map_order \<Rightarrow> ssh_host \<Rightarrow> id \<Rightarrow> id \<Rightarrow> unit io" where
  "DeployExecutor_execute errText resolveSecret cr masterKey y ord h organizationID operationID =
     bindE (tryE (OperationRepository_GetByID organizationID operationID)) (\<lambda>r. case r of
       Inl _ \<Rightarrow> retE ()
     | Inr operation \<Rightarrow>
       orFinish errText organizationID operationID ''load compose file''
         (ComposeFileRepository_GetByID organizationID (op_ComposeFileID operation)) (\<lambda>composeFile.
       orFinish errText organizationID operationID ''load machine''
         (MachineRepository_GetByID organizationID (op_MachineID operation)) (\<lambda>machine.
       orFinish errText organizationID operationID ''resolve machine credential''
         (resolveMachineCredential resolveSecret cr masterKey machine) (\<lambda>secret.
       orFinish errText organizationID operationID ''resolve variables''
         (resolveComposeVariables resolveSecret organizationID (op_ComposeFileID operation)) (\<lambda>resolved.
       let deployPath = path_Join (mch_DeployBasePath machine) (slugify (cf_Name composeFile));
           go = run_and_finish errText h organizationID operationID (connection_target machine secret)
             (operation_command deployPath (op_OperationType operation)) (secretValuesFor ord resolved) in
       if op_OperationType operation = ''deploy''
       then deploy_files errText y organizationID operationID (op_ComposeFileID operation)
         (cf_ComposeContent composeFile) deployPath resolved go
       else go [])))))"

text \<open>
  One poll. It starts a goroutine with \<open>DeployExecutor_execute\<close> for each operation it claimed; the result is the list of these, organization first.
  An error of a claim is logged and the loop goes on.
\<close>

fun poll_loop :: "(id \<times> id) list \<Rightarrow> (id \<times> id) list io" where
  "poll_loop [] = retE []"
| "poll_loop ((operationID, organizationID) # cs) =
     bindE (tryE (TryClaim organizationID operationID)) (\<lambda>r.
     bindE (poll_loop cs) (\<lambda>started.
     retE (if r = Inr True then (organizationID, operationID) # started else started)))"

definition batchSize :: nat where "batchSize = 20"

definition pollOnce :: "(id \<times> id) list io" where
  "pollOnce = bindE (FindQueuedCandidates batchSize) poll_loop"

end
