(* ===== verification/Deploy_Props.thy ===== *)
theory Deploy_Props
  imports Deploy
begin

text \<open>
  What the deploy executor guarantees: secrets are scrubbed from everything it publishes and stores, and the path in the
  remote command is one shell word.
\<close>

section \<open>Quoting\<close>

text \<open>
  A word of a POSIX shell that consists of single-quoted parts and backslash escapes, and what it expands to: within single quotes
  every byte is literal, outside them a backslash makes the next byte literal. Any other byte outside quotes is not accepted.
\<close>

fun sh_word :: "bool \<Rightarrow> string \<Rightarrow> string option" where
  "sh_word quoted [] = (if quoted then None else Some [])"
| "sh_word True (c # cs) = (if c = single_quote then sh_word False cs else map_option ((#) c) (sh_word True cs))"
| "sh_word False [c] = (if c = single_quote then sh_word True [] else None)"
| "sh_word False (c # d # cs) = (if c = single_quote then sh_word True (d # cs)
     else if c = backslash then map_option ((#) d) (sh_word False cs) else None)"

lemma sh_word_quoted:
  "sh_word True (ReplaceAll s [single_quote] [single_quote, backslash, single_quote, single_quote] @ [single_quote]) = Some s"
proof (induction s)
  case (Cons c cs)
  show ?case
  proof (cases "c = single_quote")
    case True
    have "sh_word False ([backslash, single_quote, single_quote] @ r) = map_option ((#) single_quote) (sh_word True r)" for r
      by (cases r) (auto simp: single_quote_def backslash_def)
    with True Cons show ?thesis by simp
  qed (use Cons in simp)
qed simp

text \<open>
  C28: A shell reads what \<open>shellQuote\<close> returns as one word that stands for exactly the original text, whatever bytes it has.
\<close>

theorem shellQuote_is_one_word: "sh_word False (shellQuote s) = Some s"
proof (cases "ReplaceAll s [single_quote] [single_quote, backslash, single_quote, single_quote] @ [single_quote]")
  case (Cons d ds)
  then show ?thesis using sh_word_quoted [of s] by (simp add: shellQuote_def)
qed simp

section \<open>Scrubbing\<close>

lemma MaskedValue_ne [simp]: "MaskedValue \<noteq> []"
  by (simp add: MaskedValue_def numeral_eq_Suc)

lemma scrub_keeps_absent:
  "v \<noteq> [] \<Longrightarrow> set v \<inter> set MaskedValue = {} \<Longrightarrow> \<not> sublist v t \<Longrightarrow> \<not> sublist v (scrubSecrets t vs)"
proof (induction vs arbitrary: t)
  case (Cons x vs)
  have "\<not> sublist v (ReplaceAll t x MaskedValue)"
    using sublist_ReplaceAll [OF MaskedValue_ne Cons.prems(1,2)] Cons.prems(3) by blast
  with Cons show ?case by (simp add: scrubSecrets_def)
qed (simp add: scrubSecrets_def)

lemma scrub_removes:
  "v \<in> set vs \<Longrightarrow> v \<noteq> [] \<Longrightarrow> set v \<inter> set MaskedValue = {} \<Longrightarrow> \<not> sublist v (scrubSecrets t vs)"
proof (induction vs arbitrary: t)
  case (Cons x vs)
  have eq: "scrubSecrets t (x # vs) = scrubSecrets (ReplaceAll t x MaskedValue) vs" by (simp add: scrubSecrets_def)
  show ?case
  proof (cases "x = v")
    case True
    then have "\<not> sublist v (ReplaceAll t x MaskedValue)" using ReplaceAll_removes Cons.prems by simp
    with Cons.prems show ?thesis unfolding eq by (intro scrub_keeps_absent)
  next
    case False
    with Cons show ?thesis unfolding eq by simp
  qed
qed simp

lemma ranged_values:
  assumes "map_order_ok ord" "(k, v) \<in> set m" "distinct (map fst m)"
  shows "v \<in> snd ` set (ranged ord m)"
proof -
  from assms(1) have "set (ord (map fst m)) = set (map fst m)" unfolding map_order_ok_def by (metis mset_eq_setD)
  with assms(2,3) show ?thesis by (force simp: ranged_def)
qed

text \<open>A step keeps \<open>v\<close> out of what it adds to the log stream and, for an operation with an exit code, to the stored output.\<close>

definition keeps_out :: "string \<Rightarrow> world \<Rightarrow> world \<Rightarrow> bool" where
  "keeps_out v w w' =
     (list_all (\<lambda>m. m \<in> set (rds_logs (rds w)) \<or> \<not> Contains (lm_Line (snd m)) v) (rds_logs (rds w'))
      \<and> list_all (\<lambda>x. x \<in> set (operations (db w)) \<or> op_ExitCode x = None \<or> \<not> Contains (op_Output x) v) (operations (db w')))"

lemma keeps_out_refl: "rds w' = rds w \<Longrightarrow> db w' = db w \<Longrightarrow> keeps_out v w w'"
  by (simp add: keeps_out_def list_all_iff)

lemma steps_in_logged: "steps_in G m \<Longrightarrow> steps_in G (logged m)"
  by (simp add: logged_def steps_in_bindE steps_in_tryE)

lemma steps_in_redis_step:
  "(\<And>now w. G w ((pop w)\<lparr>rds := snd (f now (rds w))\<rparr>)) \<Longrightarrow> (\<And>w. G w (pop w)) \<Longrightarrow> steps_in G (redis_step f)"
  by (auto simp: redis_step_def steps_in_atomic split: prod.split) (metis snd_conv)

lemma steps_in_ssh_call: "(\<And>w s. G w (w\<lparr>ssh := s\<rparr>)) \<Longrightarrow> steps_in G (ssh_call h t rq)"
  by (simp add: ssh_call_def steps_in_atomic)

lemma steps_in_ssh_do: "(\<And>w s. G w (w\<lparr>ssh := s\<rparr>)) \<Longrightarrow> steps_in G (ssh_do h t rq)"
  unfolding ssh_do_def by (intro steps_in_bindE steps_in_ssh_call) (simp_all add: steps_in_pure)

lemma steps_in_dial: "(\<And>w s. G w (w\<lparr>ssh := s\<rparr>)) \<Longrightarrow> steps_in G (dial h t)"
  by (simp add: dial_def steps_in_ssh_do steps_in_guardE)

lemma steps_in_RunOperation:
  assumes "\<And>w s. G w (w\<lparr>ssh := s\<rparr>)" "\<And>l. steps_in G (onLine l)"
  shows "steps_in G (RunOperation h t files command onLine)"
  unfolding RunOperation_def writeRemoteFile_def Let_def
  by (intro steps_in_bindE steps_in_dial steps_in_ssh_do steps_in_ssh_call steps_in_forE assms)
    (auto intro!: steps_in_bindE steps_in_ssh_do steps_in_forE assms split: SSHAnswer.split)

lemma keeps_out_ssh: "keeps_out v w (w\<lparr>ssh := s\<rparr>)"
  by (simp add: keeps_out_refl)

lemma keeps_out_pop: "keeps_out v w (pop w)"
  by (simp add: keeps_out_refl)

lemma publish_keeps_out:
  "\<not> Contains (lm_Line m) v \<Longrightarrow> steps_in (keeps_out v) (publish_log operationID m)"
  unfolding publish_log_def
  by (rule steps_in_redis_step) (auto simp: keeps_out_def list_all_iff keeps_out_pop)

lemma finish_keeps_out:
  assumes "exitCode = None \<or> \<not> Contains output v"
  shows "steps_in (keeps_out v) (MarkFinished organizationID i status exitCode output)"
  using assms unfolding MarkFinished_def tx_def steps_in_atomic
  by (auto simp: Let_def keeps_out_pop keeps_out_def list_all_iff set_upd)

lemma steps_in_orFinish:
  assumes "steps_in (keeps_out v) m" "\<And>a. steps_in (keeps_out v) (k a)" "v \<noteq> []"
  shows "steps_in (keeps_out v) (orFinish errText organizationID operationID label m k)"
proof -
  have "\<not> Contains [] v" using assms(3) by simp
  then show ?thesis unfolding orFinish_def finishWithError_def PublishEnd_def
    by (auto intro!: steps_in_bindE steps_in_tryE steps_in_logged publish_keeps_out finish_keeps_out assms(1,2)
        split: sum.split)
qed

text \<open>
  C6: Secrets do not leave the executor. Let \<open>v\<close> be the resolved value of a template variable, not empty and without bytes of the mask
  itself. Whatever the remote machine prints, no step of the execution, in whatever state other programs leave the
  database, publishes a line that contains \<open>v\<close> or stores the output of a finished command with \<open>v\<close> in it.
\<close>

theorem secrets_are_scrubbed:
  assumes "map_order_ok ord" "(k, v) \<in> set (rv_TemplateValues resolved)" "distinct (map fst (rv_TemplateValues resolved))"
    and "v \<noteq> []" "set v \<inter> set MaskedValue = {}"
  shows "steps_in (keeps_out v) (run_and_finish errText h organizationID operationID target command
    (secretValuesFor ord resolved) files)"
proof -
  have "v \<in> set (secretValuesFor ord resolved)"
    using ranged_values [OF assms(1-3)] assms(4) by (auto simp: secretValuesFor_def)
  then have clean: "\<not> Contains (scrubSecrets t (secretValuesFor ord resolved)) v" for t
    using scrub_removes assms(4,5) by (simp add: Contains_sublist)
  have "\<not> Contains [] v" using assms(4) by simp
  with clean assms(4) show ?thesis
    unfolding run_and_finish_def PublishLine_def PublishEnd_def
    by (intro steps_in_orFinish steps_in_RunOperation keeps_out_ssh)
      (auto intro!: steps_in_bindE steps_in_logged publish_keeps_out finish_keeps_out)
qed

definition demo_resolved :: ResolvedComposeVariables where
  "demo_resolved = \<lparr>rv_TemplateValues = [(''DB'', ''hunter2''), (''KEY'', ''ab'')], rv_EnvVars = [], rv_FileVariables = []\<rparr>"

definition demo_host :: "string \<Rightarrow> ssh_host" where
  "demo_host printed = \<lparr>ParsePrivateKey = (\<lambda>_. True),
     ssh_answer = (\<lambda>_ _ rq. if rq = SSHReadAll then SSHText printed else SSHOk)\<rparr>"

definition demo_target :: ConnectionTarget where
  "demo_target = \<lparr>ct_Host = ''h1'', ct_Port = 22, ct_User = ''root'', ct_CredentialType = ''ssh_password'', ct_Secret = ''pw''\<rparr>"

theorem secrets_are_scrubbed_witness:
  "map_order_ok rev \<and> steps_in (keeps_out ''hunter2'') (run_and_finish (\<lambda>_. []) (demo_host ''hunter2'') ''o1'' ''op1'' demo_target ''ps''
     (secretValuesFor rev demo_resolved) []) \<and> secretValuesFor rev demo_resolved = [''ab'', ''hunter2'']"
proof -
  have rev: "map_order_ok rev" by (simp add: map_order_ok_def)
  have "set ''hunter2'' \<inter> set MaskedValue = {}" by (simp add: MaskedValue_def numeral_eq_Suc)
  with rev secrets_are_scrubbed [of rev "''DB''" "''hunter2''" demo_resolved] show ?thesis
    by (simp add: demo_resolved_def secretValuesFor_def ranged_def)
qed

section \<open>Parts of secrets that are not scrubbed\<close>

lemma scrub_other_line: "newline \<in> set v \<Longrightarrow> newline \<notin> set l \<Longrightarrow> scrubSecrets l [v] = l"
proof -
  assume "newline \<in> set v" "newline \<notin> set l"
  then have "\<not> sublist v l" by (meson set_mono_sublist subsetD)
  then show ?thesis by (simp add: scrubSecrets_def ReplaceAll_self)
qed

definition published :: "world \<Rightarrow> string list" where
  "published w = map (\<lambda>m. lm_Line (snd m)) (filter (\<lambda>m. \<not> lm_Done (snd m)) (rds_logs (rds w)))"

definition deployed :: "string \<Rightarrow> string list \<Rightarrow> world" where
  "deployed printed secrets = snd (run (run_and_finish (\<lambda>_. []) (demo_host printed) ''o1'' ''op1'' demo_target ''ps''
     secrets []) demo)"

text \<open>
  Lines are scrubbed one by one, with the values in the order of the map: a secret of several lines (a private key) is published
  line by line as it is, and when one value begins with another the rest of the longer one stays visible if the shorter is replaced
  first; with the opposite order it is scrubbed.
\<close>

lemma secret_parts_are_published:
  "published (deployed (''key1'' @ [newline] @ ''key2'') [''key1'' @ [newline] @ ''key2'']) = [''key1'', ''key2'']
   \<and> published (deployed ''pass-word'' [''pass'', ''pass-word'']) = [MaskedValue @ ''-word'']
   \<and> published (deployed ''pass-word'' [''pass-word'', ''pass'']) = [MaskedValue]"
proof -
  note sims = deployed_def published_def run_and_finish_def orFinish_def RunOperation_def dial_def demo_target_def demo_host_def
    logged_def PublishLine_def PublishEnd_def publish_log_def redis_step_def MarkFinished_def operationChannel_def
    scan_lines.simps newline_def dropCR_def maxLine_def scrubSecrets_def run_head run_bindE run_tryE run_atomic run_ssh_do
  have "ReplaceAll (MaskedValue @ ''-word'') ''pass-word'' MaskedValue = MaskedValue @ ''-word''"
    "ReplaceAll MaskedValue ''pass'' MaskedValue = MaskedValue"
    by (simp_all add: MaskedValue_def numeral_eq_Suc)
  then show ?thesis by (simp add: sims ssh_call_def Let_def empty_world_def demo_def run_tx)
qed

end
