(* ===== verification/Fleet_Pool.thy ===== *)
theory Fleet_Pool
  imports Deploy_Props
begin

text \<open>
  Exclusive claims: any number of replicas poll, trigger and execute Fleet operations at the same time, and each operation is started at
  most once. The first section is generic: \<open>taken\<close> names what has been claimed in a state, and a program owns what its own steps
  claimed. The second instantiates it with the operations that are no longer queued.
\<close>

section \<open>Claims\<close>

text \<open>
  \<open>owns T r Q C\<close>: no step of \<open>r\<close> gives up anything that is taken, and if \<open>r\<close> owns \<open>C\<close> so far and ends, \<open>Q\<close> holds of its result and of
  what it owns then. A step owns what was not taken before it and is taken after it.
\<close>

primrec owns :: "('w \<Rightarrow> 'k set) \<Rightarrow> ('w, 'a) res \<Rightarrow> ('a \<Rightarrow> 'k set \<Rightarrow> bool) \<Rightarrow> 'k set \<Rightarrow> bool" where
  "owns T (Done a) = (\<lambda>Q C. Q a C)"
| "owns T (Step f) = (\<lambda>Q C. \<forall>w. case (map_prod (owns T) id \<circ> f) w of (p, w') \<Rightarrow> T w \<subseteq> T w' \<and> p Q (C \<union> (T w' - T w)))"

lemma owns_Step:
  "owns T (Step f) Q C \<longleftrightarrow> (\<forall>w. T w \<subseteq> T (snd (f w)) \<and> owns T (fst (f w)) Q (C \<union> (T (snd (f w)) - T w)))"
  by (simp add: map_prod_def case_prod_beta)

lemma owns_post: "owns T r P C \<Longrightarrow> (\<And>a C'. P a C' \<Longrightarrow> Q a C') \<Longrightarrow> owns T r Q C"
  by (induction r arbitrary: C rule: res_induct) (auto simp: owns_Step simp del: owns.simps(2))

lemma owns_history: "owns T r Q C \<Longrightarrow> owns T r (\<lambda>a C'. Q a C' \<and> C \<subseteq> C') C"
proof (induction r arbitrary: C rule: res_induct)
  case (Step f)
  show ?case unfolding owns_Step
  proof (intro allI conjI)
    fix w
    let ?C = "C \<union> (T (snd (f w)) - T w)"
    from Step.prems show "T w \<subseteq> T (snd (f w))" by (simp add: owns_Step del: owns.simps(2))
    from Step.prems have "owns T (fst (f w)) Q ?C" by (simp add: owns_Step del: owns.simps(2))
    then have "owns T (fst (f w)) (\<lambda>a C'. Q a C' \<and> ?C \<subseteq> C') ?C" by (rule Step.IH)
    then show "owns T (fst (f w)) (\<lambda>a C'. Q a C' \<and> C \<subseteq> C') ?C" by (rule owns_post) auto
  qed
qed simp

lemma owns_bind: "owns T m (\<lambda>a C'. owns T (k a) Q C') C \<Longrightarrow> owns T (res_bind m k) Q C"
  by (induction m arbitrary: C rule: res_induct) (auto simp: owns_Step bind_Step simp del: owns.simps(2) res_bind.simps(2))

lemma owns_bindE:
  "owns T m (\<lambda>r C'. case r of Inl e \<Rightarrow> Q (Inl e) C' | Inr a \<Rightarrow> owns T (k a) Q C') C \<Longrightarrow> owns T (bindE m k) Q C"
  unfolding bindE_def by (rule owns_bind, erule owns_post) (auto split: sum.splits)

lemma owns_atomic:
  "owns T (atomic f) Q C \<longleftrightarrow> (\<forall>w. T w \<subseteq> T (snd (f w)) \<and> Q (fst (f w)) (C \<union> (T (snd (f w)) - T w)))"
  by (simp add: atomic_def owns_Step map_prod_def case_prod_beta del: owns.simps(2))

lemma owns_steps: "steps_in (\<lambda>w w'. T w \<subseteq> T w') r \<Longrightarrow> (\<And>a C. Q a C) \<Longrightarrow> owns T r Q C"
  by (induction r arbitrary: C rule: res_induct) (auto simp: owns_Step steps_in_Step simp del: owns.simps(2) steps_in.simps(2))

text \<open>
  The contract of a pool whose members claim: every program that may be started owns what its result says, under a name of its own, and the
  environment gives nothing up.
\<close>

locale exclusive_claims =
  fixes taken :: "'w \<Rightarrow> 'k set" and claimed :: "'a \<Rightarrow> 'k set"
    and spawnable :: "'t \<Rightarrow> ('w, 'a) res \<Rightarrow> 't set \<Rightarrow> 'w \<Rightarrow> bool" and env :: "'w \<Rightarrow> 'w \<Rightarrow> bool"
  assumes spawn_owns: "spawnable t r U w \<Longrightarrow> owns taken r (\<lambda>a C. claimed a \<subseteq> C) {}"
    and spawn_new: "spawnable t r U w \<Longrightarrow> t \<notin> U"
    and env_keeps: "env w w' \<Longrightarrow> taken w \<subseteq> taken w'"
begin

lemma pool_owns:
  assumes "pool_reach spawnable env w0 s"
  shows "\<exists>C. (\<forall>(t, r) \<in> set (fst s). owns taken r (\<lambda>a C. claimed a \<subseteq> C) (C t)) \<and> (\<forall>t. C t \<subseteq> taken (snd s))
    \<and> (\<forall>t u. t \<noteq> u \<longrightarrow> C t \<inter> C u = {}) \<and> distinct (map fst (fst s))"
  using assms
proof induction
  case reach_start
  show ?case by (rule exI [of _ "\<lambda>_. {}"]) simp
next
  case (reach_step s s')
  then obtain C where own: "\<And>t r. (t, r) \<in> set (fst s) \<Longrightarrow> owns taken r (\<lambda>a C. claimed a \<subseteq> C) (C t)"
    and tk: "\<And>t. C t \<subseteq> taken (snd s)" and dj: "\<And>t u. t \<noteq> u \<Longrightarrow> C t \<inter> C u = {}"
    and dist: "distinct (map fst (fst s))" by blast
  from reach_step.hyps(2) show ?case
  proof cases
    case (pool_run ts xs t f ys w r w')
    let ?C = "C(t := C t \<union> (taken w' - taken w))"
    have "owns taken (Step f) (\<lambda>a C. claimed a \<subseteq> C) (C t)"
      using own [of t "Step f"] pool_run by (simp del: owns.simps)
    then have le: "taken w \<subseteq> taken w'" and r: "owns taken r (\<lambda>a C. claimed a \<subseteq> C) (?C t)"
      using pool_run(4) unfolding owns_Step by (metis fst_conv snd_conv fun_upd_same)+
    have t: "t \<notin> fst ` set (xs @ ys)" using dist pool_run by auto
    have "owns taken q (\<lambda>a C. claimed a \<subseteq> C) (?C u)" if "(u, q) \<in> set (xs @ (t, r) # ys)" for u q
    proof (cases "(u, q) = (t, r)")
      case False
      with that have uq: "(u, q) \<in> set (xs @ ys)" by auto
      with t have "u \<noteq> t" by (metis fst_conv image_eqI)
      with own [of u q] uq pool_run show ?thesis by auto
    qed (use r in simp)
    moreover have "?C u \<subseteq> taken w'" for u using tk [of u] tk [of t] le pool_run by auto
    moreover have "?C u \<inter> ?C v = {}" if "u \<noteq> v" for u v
      using dj [OF that] tk [of u] tk [of v] pool_run that by auto
    moreover have "distinct (map fst (xs @ (t, r) # ys))" using dist pool_run by simp
    ultimately show ?thesis using pool_run r by (intro exI [of _ ?C]) auto
  next
    case (pool_die ts xs t r ys w)
    then show ?thesis using own tk dj dist by (intro exI [of _ C]) auto
  next
    case (pool_spawn t r ts w)
    have "owns taken q (\<lambda>a C. claimed a \<subseteq> C) ((C(t := {})) u)" if "(u, q) \<in> set ((t, r) # ts)" for u q
    proof (cases "u = t")
      case True
      have "t \<notin> fst ` set ts" using spawn_new [OF pool_spawn(3)] .
      with that True have "q = r" by (metis fst_conv image_eqI prod.inject set_ConsD)
      with True spawn_owns [OF pool_spawn(3)] show ?thesis by simp
    next
      case False
      with that own [of u q] pool_spawn(1) show ?thesis by simp
    qed
    with pool_spawn show ?thesis using tk dj dist spawn_new [OF pool_spawn(3)] spawn_owns [OF pool_spawn(3)] by (intro exI [of _ "C(t := {})"]) auto
  next
    case (pool_env w w' ts)
    then have "C u \<subseteq> taken w'" for u using tk [of u] env_keeps [of w w'] by simp
    with pool_env own dj dist show ?thesis by (intro exI [of _ C]) auto
  qed
qed

lemma claims_disjoint:
  assumes "pool_reach spawnable env w0 (ts, w)" "(t, Done a) \<in> set ts" "(u, Done b) \<in> set ts" "t \<noteq> u"
  shows "claimed a \<inter> claimed b = {}"
proof -
  from pool_owns [OF assms(1)] obtain C
    where "\<And>t r. (t, r) \<in> set ts \<Longrightarrow> owns taken r (\<lambda>a C. claimed a \<subseteq> C) (C t)" "\<And>t u. t \<noteq> u \<Longrightarrow> C t \<inter> C u = {}" by auto
  with assms(2-4) have "claimed a \<subseteq> C t" "claimed b \<subseteq> C u" "C t \<inter> C u = {}" by fastforce+
  then show ?thesis by auto
qed

lemma claims_taken:
  assumes "pool_reach spawnable env w0 (ts, w)" "(t, Done a) \<in> set ts"
  shows "claimed a \<subseteq> taken w"
proof -
  from pool_owns [OF assms(1)] obtain C
    where "\<And>t r. (t, r) \<in> set ts \<Longrightarrow> owns taken r (\<lambda>a C. claimed a \<subseteq> C) (C t)" "\<And>t. C t \<subseteq> taken w" by auto
  with assms(2) have "claimed a \<subseteq> C t" "C t \<subseteq> taken w" by fastforce+
  then show ?thesis by auto
qed

end

section \<open>Operations\<close>

text \<open>An operation is taken when it exists and is not queued.\<close>

definition taken_in :: "Operation list \<Rightarrow> (id \<times> id) set" where
  "taken_in ops = {(og, i). list_ex (is_operation og i) ops \<and> \<not> list_ex (\<lambda>x. is_operation og i x \<and> op_Status x = ''queued'') ops}"

abbreviation taken_ops :: "world \<Rightarrow> (id \<times> id) set" where
  "taken_ops w \<equiv> taken_in (operations (db w))"

definition started :: "err + (id \<times> id) list \<Rightarrow> (id \<times> id) set" where
  "started r = (case r of Inl e \<Rightarrow> {} | Inr xs \<Rightarrow> set xs)"

text \<open>What the update of \<^verbatim>\<open>TryClaim\<close> takes: exactly the operation it names.\<close>

lemma taken_claim:
  assumes "list_ex (\<lambda>x. is_operation og i x \<and> op_Status x = ''queued'') ops"
  shows "taken_in (upd (\<lambda>x. is_operation og i x \<and> op_Status x = ''queued'')
    (\<lambda>x. x\<lparr>op_Status := ''running'', op_StartedAt := t\<rparr>) ops) = insert (og, i) (taken_in ops)"
    and "(og, i) \<notin> taken_in ops"
proof -
  let ?q = "\<lambda>x. is_operation og i x \<and> op_Status x = ''queued''"
  let ?ops = "upd ?q (\<lambda>x. x\<lparr>op_Status := ''running'', op_StartedAt := t\<rparr>) ops"
  have ex: "list_ex (is_operation a b) ?ops = list_ex (is_operation a b) ops" for a b
    by (simp only: list_ex_upd) (auto simp: is_operation_def list_ex_iff split: if_splits)
  have qu: "list_ex (\<lambda>x. is_operation a b x \<and> op_Status x = ''queued'') ?ops
      = (list_ex (\<lambda>x. is_operation a b x \<and> op_Status x = ''queued'') ops \<and> (a, b) \<noteq> (og, i))" for a b
    by (simp only: list_ex_upd) (auto simp: is_operation_def list_ex_iff split: if_splits)
  have "list_ex (is_operation og i) ops" using assms by (auto simp: list_ex_iff)
  then show "taken_in ?ops = insert (og, i) (taken_in ops)" by (auto simp: taken_in_def ex qu)
  show "(og, i) \<notin> taken_in ops" using assms by (simp add: taken_in_def)
qed

lemma owns_TryClaim:
  "owns taken_ops (TryClaim og i) (\<lambda>r C'. C \<subseteq> C' \<and> (r = Inr True \<longrightarrow> (og, i) \<in> C')) C"
  unfolding TryClaim_def tx_def owns_atomic Let_def by (auto simp: taken_claim)

lemma owns_poll_loop: "owns taken_ops (poll_loop cs) (\<lambda>r C'. C \<subseteq> C' \<and> started r \<subseteq> C') C"
proof (induction cs arbitrary: C rule: poll_loop.induct)
  case 1
  show ?case by (simp add: retE_def started_def)
next
  case (2 i og cs)
  have "owns taken_ops (bindE (poll_loop cs) (\<lambda>started. retE (if r = Inr True then (og, i) # started else started)))
      (\<lambda>r C'. C \<subseteq> C' \<and> started r \<subseteq> C') C'" if "C \<subseteq> C'" "r = Inr True \<longrightarrow> (og, i) \<in> C'" for r C'
    by (rule owns_bindE, rule owns_post [OF 2]) (use that in \<open>auto simp: retE_def started_def split: sum.split\<close>)
  then show ?case unfolding poll_loop.simps bindE_tryE
    by (intro owns_bind) (rule owns_post [OF owns_TryClaim [where C = C]], blast)
qed

lemma owns_pollOnce: "owns taken_ops pollOnce (\<lambda>r C. started r \<subseteq> C) {}"
proof -
  have loop: "owns taken_ops (poll_loop cs) (\<lambda>r C. started r \<subseteq> C) C" for cs C
    by (rule owns_post [OF owns_poll_loop]) simp
  have "owns taken_ops (FindQueuedCandidates batchSize)
      (\<lambda>r C. case r of Inl e \<Rightarrow> started (Inl e) \<subseteq> C | Inr a \<Rightarrow> owns taken_ops (poll_loop a) (\<lambda>r C. started r \<subseteq> C) C) {}"
    by (rule owns_steps) (auto simp: FindQueuedCandidates_def query_def tx_def steps_in_atomic loop
        split: sum.split, simp add: started_def)
  then show ?thesis unfolding pollOnce_def by (rule owns_bindE)
qed

text \<open>A program that starts nothing and keeps what is taken.\<close>

abbreviation keeping :: "'a io \<Rightarrow> bool" where
  "keeping m \<equiv> steps_in (\<lambda>w w'. taken_in (operations (db w)) \<subseteq> taken_in (operations (db w'))) m"

definition started_none :: "'a io \<Rightarrow> (id \<times> id) list io" where
  "started_none m = bindE m (\<lambda>_. retE [])"

lemma owns_started_none: "keeping m \<Longrightarrow> owns taken_ops (started_none m) (\<lambda>r C. started r \<subseteq> C) {}"
  unfolding started_none_def
  by (rule owns_bindE, rule owns_steps) (auto simp: retE_def started_def split: sum.split)

lemma keeping_basic [steps]: "keeping (query q)" "keeping nowE" "keeping (redis_step f)" "keeping (ssh_call h t rq)"
  by (auto simp: query_def tx_def nowE_def redis_step_def ssh_call_def steps_in_atomic split: sum.split prod.split)

lemma keeping_logged [steps]: "keeping m \<Longrightarrow> keeping (logged m)"
  by (rule steps_in_logged)

lemma keeping_gate [steps]: "keeping k \<Longrightarrow> keeping (gate ctx og u p k)"
  by (auto simp: gate_def HasPermission_def HasPermissionAtScope_def IsMember_def split: prod.split intro!: steps)

lemma keeping_Create [steps]: "keeping (OperationRepository_Create uuid x)"
proof -
  have "taken_in ops \<subseteq> taken_in (ops @ [y])" if "\<not> list_ex (\<lambda>z. op_ID z = op_ID y) ops" for ops and y :: Operation
    using that by (auto simp: taken_in_def list_ex_iff is_operation_def)
  then show ?thesis unfolding OperationRepository_Create_def
    by (auto simp: tx_def steps_in_atomic and_emit_def outbox_Write_def split: sum.split)
qed

lemma keeping_MarkFinished [steps]: "status \<noteq> ''queued'' \<Longrightarrow> keeping (MarkFinished og i status code out)"
proof -
  assume s: "status \<noteq> ''queued''"
  let ?f = "\<lambda>now x. x\<lparr>op_Status := status, op_FinishedAt := Some now, op_ExitCode := code, op_Output := out\<rparr>"
  have "taken_in ops \<subseteq> taken_in (upd (is_operation og i) (?f now) ops)" for ops now
  proof -
    have "list_ex (is_operation a b) (upd (is_operation og i) (?f now) ops) = list_ex (is_operation a b) ops" for a b
      by (simp only: list_ex_upd) (auto simp: is_operation_def list_ex_iff split: if_splits)
    moreover have "list_ex (\<lambda>x. is_operation a b x \<and> op_Status x = ''queued'') ops"
      if "list_ex (\<lambda>x. is_operation a b x \<and> op_Status x = ''queued'') (upd (is_operation og i) (?f now) ops)" for a b
      using that s by (simp only: list_ex_upd) (auto simp: is_operation_def list_ex_iff split: if_splits)
    ultimately show ?thesis by (auto simp: taken_in_def)
  qed
  then show ?thesis unfolding MarkFinished_def by (auto simp: tx_def steps_in_atomic Let_def)
qed

lemma keeping_orFinish [steps]:
  "keeping m \<Longrightarrow> (\<And>a. keeping (k a)) \<Longrightarrow> keeping (orFinish errText og i label m k)"
  by (auto simp: orFinish_def finishWithError_def PublishEnd_def publish_log_def intro!: steps split: sum.split)

lemma keeping_execute:
  assumes "\<And>a b c. keeping (resolveSecret a b c)"
  shows "keeping (DeployExecutor_execute errText resolveSecret cr key y ord h og i)"
proof -
  have [steps]: "keeping (resolveMachineCredential resolveSecret cr key m)" for m
    by (auto simp: resolveMachineCredential_def assms intro!: steps)
  have [steps]: "keeping (resolve_value resolveSecret og v)" for v
    by (auto simp: resolve_value_def assms intro!: steps split: option.split)
  have [steps]: "keeping (resolveComposeVariables resolveSecret og c)" for c
    by (auto simp: resolveComposeVariables_def applicable_variables_def ListByComposeFile_def GetGlobal_def
        intro!: steps split: option.split)
  have [steps]: "keeping (run_and_finish errText h og i target command secrets files)" for target command secrets files
    by (auto simp: run_and_finish_def PublishLine_def PublishEnd_def publish_log_def split: prod.split
        intro!: steps steps_in_RunOperation split: if_splits)
  have [steps]: "(\<And>fs. keeping (k fs)) \<Longrightarrow> keeping (file_variables errText og i path vals fvs fs k)" for path vals fvs fs k
    by (induction errText og i path vals fvs fs k rule: file_variables.induct) (auto intro!: steps)
  show ?thesis
    by (auto simp: DeployExecutor_execute_def deploy_files_def OperationRepository_GetByID_def ComposeFileRepository_GetByID_def
        MachineRepository_GetByID_def ListNetworksForComposeFile_def ListVolumesForComposeFile_def Let_def
        intro!: steps split: sum.split)
qed

lemma keeping_resolve: "keeping (ResolveSecret_ResolveValue cr key srv og m p)"
proof -
  have [steps]: "keeping (vault_call srv rq)" for rq by (simp add: vault_call_def steps_in_atomic)
  show ?thesis
    by (auto simp: ResolveSecret_ResolveValue_def SecretMountRepository_GetByID_def Vault_ReadSecret_def Vault_login_def
        intro!: steps split: option.split)
qed

lemma keeping_trigger: "keeping (TriggerOperation_Execute u ctx og usr cf mc ty)"
  by (auto simp: TriggerOperation_Execute_def ComposeFileRepository_GetByID_def MachineRepository_GetByID_def intro!: steps)

text \<open>
  The pool: polls, triggers and executions of any replica, with the Secrets context behind them, and any program that leaves the operations
  alone (every other service except the purge of an organization). Between steps the clock and the faults may change.
\<close>

inductive fleet_program :: "(id \<times> id) list io \<Rightarrow> bool" where
  poll: "fleet_program pollOnce"
| trigger: "fleet_program (started_none (TriggerOperation_Execute u ctx og usr cf mc ty))"
| exec: "fleet_program (started_none (DeployExecutor_execute errText (ResolveSecret_ResolveValue cr key srv) cr key y ord h og i))"
| other: "steps_in (\<lambda>w w'. operations (db w') = operations (db w)) (m :: unit io) \<Longrightarrow> fleet_program (started_none m)"

definition fleet_spawn :: "nat \<Rightarrow> (id \<times> id) list io \<Rightarrow> nat set \<Rightarrow> world \<Rightarrow> bool" where
  "fleet_spawn t m U w = (t \<notin> U \<and> fleet_program m)"

definition fleet_env :: "world \<Rightarrow> world \<Rightarrow> bool" where
  "fleet_env w w' = (db w' = db w)"

lemma fleet_program_owns: "fleet_program m \<Longrightarrow> owns taken_ops m (\<lambda>r C. started r \<subseteq> C) {}"
proof (induction rule: fleet_program.induct)
  case (other m)
  then have "keeping m" by (rule steps_in_mono) simp
  then show ?case by (rule owns_started_none)
qed (auto intro: owns_pollOnce owns_started_none keeping_trigger keeping_execute keeping_resolve)

interpretation ops: exclusive_claims taken_ops started fleet_spawn fleet_env
  by unfold_locales (auto simp: fleet_spawn_def fleet_env_def fleet_program_owns)

text \<open>
  C5: No operation is started twice. However the polls of all replicas, the triggers, the executions and all other requests interleave, and
  whichever of them die or fail, the operations that two finished polls started are disjoint, and none of them is queued any more.
  The purge of an organization, which deletes operations, is not among the requests.
\<close>

theorem operation_started_once:
  assumes "pool_reach fleet_spawn fleet_env w0 (ts, w)" "(t, Done r) \<in> set ts" "(u, Done r') \<in> set ts" "t \<noteq> u"
  shows "started r \<inter> started r' = {} \<and> started r \<subseteq> taken_ops w"
  using ops.claims_disjoint [OF assms] ops.claims_taken [OF assms(1,2)] by simp

definition demo_operation :: Operation where
  "demo_operation = \<lparr>op_ID = ''op1'', op_OrganizationID = ''o1'', op_ComposeFileID = ''cf1'', op_MachineID = ''mc1'',
     op_OperationType = ''deploy'', op_Status = ''queued'', op_TriggeredBy = ''alice'', op_CreatedAt = 0,
     op_StartedAt = None, op_FinishedAt = None, op_ExitCode = None, op_Output = []\<rparr>"

definition demo_fleet :: world where
  "demo_fleet = demo\<lparr>db := demo_db\<lparr>operations := [demo_operation]\<rparr>\<rparr>"

definition demo_claimed :: world where
  "demo_claimed = demo\<lparr>db := demo_db\<lparr>operations := [demo_operation\<lparr>op_Status := ''running'', op_StartedAt := Some 0\<rparr>]\<rparr>\<rparr>"

lemma demo_poll:
  "run pollOnce demo_fleet = (Inr [(''o1'', ''op1'')], demo_claimed)" "run pollOnce demo_claimed = (Inr [], demo_claimed)"
  by (simp_all add: pollOnce_def FindQueuedCandidates_def batchSize_def TryClaim_def demo_fleet_def demo_claimed_def demo_operation_def
      is_operation_def run_head run_tx demo_def empty_world_def fault_now_def pop_def)

theorem operation_started_once_witness:
  "pool_reach fleet_spawn fleet_env demo_fleet
     ([(1, Done (Inr [])), (0, Done (Inr [(''o1'', ''op1'')]))], demo_claimed)
   \<and> started (Inr [(''o1'', ''op1'')]) \<inter> started (Inr []) = {}
   \<and> (''o1'', ''op1'') \<in> taken_ops demo_claimed"
proof -
  let ?r = "pool_reach fleet_spawn fleet_env demo_fleet"
  have alone: "(pool_step fleet_spawn fleet_env)\<^sup>*\<^sup>* (ts, w) ((t, Done a) # ts, w')"
    if "run pollOnce w = (a, w')" "t \<notin> fst ` set ts" for ts t a w w'
    by (rule pool_spawn_alone [OF _ that(1)]) (use that(2) in \<open>simp add: fleet_spawn_def fleet_program.poll\<close>)
  have "?r ([(0, Done (Inr [(''o1'', ''op1'')]))], demo_claimed)"
    by (rule pool_reach_star [OF alone [OF demo_poll(1)] reach_start]) simp
  then have "?r ([(1, Done (Inr [])), (0, Done (Inr [(''o1'', ''op1'')]))], demo_claimed)"
    by (rule pool_reach_star [OF alone [OF demo_poll(2)], rotated]) simp
  with operation_started_once [OF this, of 0 "Inr [(''o1'', ''op1'')]" 1 "Inr []"] show ?thesis
    by (simp add: started_def)
qed

end
