(* ===== verification/Deploy_Ends.thy ===== *)
theory Deploy_Ends
  imports Fleet_Pool
begin

text \<open>
  Every execution of a claimed operation ends, with a final status in the database and the end mark on its log stream, whatever
  the compose file, its variables, Vault and the remote machine do, and whatever other programs do to the database meanwhile.
\<close>

section \<open>The contract with the other programs\<close>

text \<open>
  \<open>ready\<close>: no transaction fails, the operation exists, the \<^verbatim>\<open>CHECK\<close> constraints of the operations hold and a variable of type
  \<^verbatim>\<open>secret\<close> has a reference, as its constructor and the updating service see to. The environment keeps this,
  and takes back neither the final status nor what was published.
\<close>

definition secret_has_ref :: "FleetVariableRow \<Rightarrow> bool" where
  "secret_has_ref r = (fvr_VarType r = ''secret'' \<longrightarrow> fvr_SecretMountID r \<noteq> None \<and> fvr_SecretPath r \<noteq> None)"

definition ready :: "id \<Rightarrow> id \<Rightarrow> world \<Rightarrow> bool" where
  "ready og i w = (faults w = [] \<and> list_ex (is_operation og i) (operations (db w))
     \<and> list_all operation_checks (operations (db w)) \<and> list_all secret_has_ref (fleet_variables (db w)))"

definition is_final :: "Operation \<Rightarrow> bool" where
  "is_final x = (op_Status x \<in> {''success'', ''failed''} \<and> op_FinishedAt x \<noteq> None)"

definition marked :: "id \<Rightarrow> id \<Rightarrow> world \<Rightarrow> bool" where
  "marked og i w = (ready og i w \<and> list_all (\<lambda>x. is_operation og i x \<longrightarrow> is_final x) (operations (db w)))"

definition announced :: "id \<Rightarrow> world \<Rightarrow> bool" where
  "announced i w = list_ex (\<lambda>(c, m). c = operationChannel i \<and> lm_Done m) (rds_logs (rds w))"

definition leaves_alone :: "id \<Rightarrow> id \<Rightarrow> world \<Rightarrow> world \<Rightarrow> bool" where
  "leaves_alone og i w w' = ((ready og i w \<longrightarrow> ready og i w') \<and> (marked og i w \<longrightarrow> marked og i w')
     \<and> (announced i w \<longrightarrow> announced i w'))"

definition anything :: "world \<Rightarrow> world \<Rightarrow> bool" where
  "anything w w' = True"

interpretation executor: rely_guarantee "\<lambda>_ :: unit. leaves_alone og i" "\<lambda>_ :: unit. anything" "\<lambda>_. True" for og i
  by unfold_locales (auto simp: leaves_alone_def)

abbreviation judged :: "id \<Rightarrow> id \<Rightarrow> (world, 'a) res \<Rightarrow> ('a \<Rightarrow> world \<Rightarrow> bool) \<Rightarrow> world \<Rightarrow> bool" where
  "judged og i \<equiv> rgs (leaves_alone og i) anything"

lemma judged_bindE:
  assumes "judged og i m (\<lambda>r w. case r of Inl e \<Rightarrow> Q (Inl e) w | Inr a \<Rightarrow> judged og i (k a) Q w) w"
    and "\<And>r w w'. Q r w \<Longrightarrow> leaves_alone og i w w' \<Longrightarrow> Q r w'"
  shows "judged og i (bindE m k) Q w"
  by (rule executor.rgs_bindE) (fact assms(1), rule assms(2))

lemma judged_bind: "judged og i m (\<lambda>a. judged og i (k a) Q) w \<Longrightarrow> judged og i (res_bind m k) Q w"
  by (rule executor.rgs_bind)

lemma judged_atomic:
  assumes "\<And>w' w''. leaves_alone og i w w' \<Longrightarrow> leaves_alone og i (snd (f w')) w'' \<Longrightarrow> Q (fst (f w')) w''"
  shows "judged og i (atomic f) Q w"
  by (rule executor.rgs_atomic) (simp add: anything_def, rule assms)

section \<open>Parts of an execution that do not panic\<close>

text \<open>Started in a state that is ready, \<open>m\<close> keeps it ready, and ends with a result in \<open>Q\<close> or an error that is no panic.\<close>

definition outcome :: "id \<Rightarrow> id \<Rightarrow> ('a \<Rightarrow> bool) \<Rightarrow> err + 'a \<Rightarrow> world \<Rightarrow> bool" where
  "outcome og i Q r w = (ready og i w \<and> (case r of Inl e \<Rightarrow> e \<noteq> NilPointer | Inr a \<Rightarrow> Q a))"

definition safe :: "id \<Rightarrow> id \<Rightarrow> 'a io \<Rightarrow> ('a \<Rightarrow> bool) \<Rightarrow> bool" where
  "safe og i m Q = (\<forall>w. ready og i w \<longrightarrow> judged og i m (outcome og i Q) w)"

named_theorems safe_intros "rules for parts of an execution"

lemma ready_later: "ready og i w \<Longrightarrow> leaves_alone og i w w' \<Longrightarrow> ready og i w'"
  by (simp add: leaves_alone_def)

lemma outcome_later: "outcome og i Q r w \<Longrightarrow> leaves_alone og i w w' \<Longrightarrow> outcome og i Q r w'"
  by (auto simp: outcome_def intro: ready_later)

lemma outcome_mono: "outcome og i Q r w \<Longrightarrow> (\<And>a. Q a \<Longrightarrow> Q' a) \<Longrightarrow> outcome og i Q' r w"
  by (auto simp: outcome_def split: sum.splits)

lemma safeD: "safe og i m Q \<Longrightarrow> ready og i w \<Longrightarrow> judged og i m (outcome og i Q) w"
  by (simp add: safe_def)

lemma safe_mono:
  assumes "safe og i m Q" "\<And>a. Q a \<Longrightarrow> Q' a"
  shows "safe og i m Q'"
  unfolding safe_def
proof (intro allI impI)
  fix w assume "ready og i w"
  with assms(1) have "judged og i m (outcome og i Q) w" by (rule safeD)
  then show "judged og i m (outcome og i Q') w" by (rule rgs_mono) (rule outcome_mono [OF _ assms(2)])
qed

lemma safe_bindE:
  assumes "safe og i m P" "\<And>a. P a \<Longrightarrow> safe og i (k a) Q"
  shows "safe og i (bindE m k) Q"
  unfolding safe_def
proof (intro allI impI, rule judged_bindE)
  fix w assume "ready og i w"
  with assms(1) have "judged og i m (outcome og i P) w" by (rule safeD)
  then show "judged og i m (\<lambda>r w. case r of Inl e \<Rightarrow> outcome og i Q (Inl e) w
      | Inr a \<Rightarrow> judged og i (k a) (outcome og i Q) w) w"
  proof (rule rgs_mono)
    fix r w' assume o: "outcome og i P r w'"
    show "case r of Inl e \<Rightarrow> outcome og i Q (Inl e) w' | Inr a \<Rightarrow> judged og i (k a) (outcome og i Q) w'"
    proof (cases r)
      case (Inl e)
      with o show ?thesis by (simp add: outcome_def)
    next
      case (Inr a)
      with o have "P a" "ready og i w'" by (simp_all add: outcome_def)
      with Inr show ?thesis by (simp add: safeD [OF assms(2)])
    qed
  qed
qed (rule outcome_later)

lemma safe_Done: "(case r of Inl e \<Rightarrow> e \<noteq> NilPointer | Inr a \<Rightarrow> Q a) \<Longrightarrow> safe og i (Done r) Q"
  by (auto simp: safe_def outcome_def intro: ready_later)

lemma safe_pure [safe_intros]:
  "Q a \<Longrightarrow> safe og i (retE a) Q" "e \<noteq> NilPointer \<Longrightarrow> safe og i (throwE e) Q"
  unfolding retE_def throwE_def by (simp_all add: safe_Done)

lemma safe_liftE: "r \<noteq> Inl NilPointer \<Longrightarrow> (\<And>a. r = Inr a \<Longrightarrow> Q a) \<Longrightarrow> safe og i (liftE r) Q"
  unfolding liftE_def by (rule safe_Done) (auto split: sum.split)

lemma safe_guardE [safe_intros]: "safe og i k Q \<Longrightarrow> e \<noteq> NilPointer \<Longrightarrow> safe og i (guardE b e k) Q"
  by (simp add: guardE_def safe_pure)

lemma safe_tryE [safe_intros]:
  assumes "safe og i m P"
  shows "safe og i (tryE m) (\<lambda>_. True)"
  unfolding safe_def tryE_def
proof (intro allI impI, rule judged_bind)
  fix w assume "ready og i w"
  with assms have "judged og i m (outcome og i P) w" by (rule safeD)
  then show "judged og i m (\<lambda>a. judged og i (Done (Inr a)) (outcome og i (\<lambda>_. True))) w"
    by (rule rgs_mono) (auto simp: outcome_def intro: ready_later)
qed

lemma safe_atomic:
  assumes "\<And>w. ready og i w \<Longrightarrow> outcome og i Q (fst (f w)) (snd (f w))"
  shows "safe og i (atomic f) Q"
  unfolding safe_def
proof (intro allI impI, rule judged_atomic)
  fix w w' w'' assume "ready og i w" "leaves_alone og i w w'"
  then have "ready og i w'" by (rule ready_later)
  then have "outcome og i Q (fst (f w')) (snd (f w'))" by (rule assms)
  moreover assume "leaves_alone og i (snd (f w')) w''"
  ultimately show "outcome og i Q (fst (f w')) w''" by (rule outcome_later)
qed

lemma safe_query:
  assumes "\<And>d. q d \<noteq> Inl NilPointer" "\<And>w a. ready og i w \<Longrightarrow> q (db w) = Inr a \<Longrightarrow> Q a"
  shows "safe og i (query q) Q"
  unfolding query_def tx_def
  by (rule safe_atomic) (use assms in \<open>auto simp: outcome_def ready_def split: sum.split\<close>)

lemma safe_ssh_call [safe_intros]: "safe og i (ssh_call h t rq) (\<lambda>_. True)"
  unfolding ssh_call_def by (rule safe_atomic) (simp add: outcome_def ready_def)

lemma safe_vault_call [safe_intros]: "safe og i (vault_call srv rq) (\<lambda>_. True)"
  unfolding vault_call_def by (rule safe_atomic) (simp add: outcome_def ready_def split: option.split)

lemma safe_redis_step [safe_intros]: "safe og i (redis_step f) (\<lambda>_. True)"
  unfolding redis_step_def by (rule safe_atomic) (auto simp: outcome_def ready_def split: prod.split)

lemma safe_forE [safe_intros]: "(\<And>x. safe og i (body x) (\<lambda>_. True)) \<Longrightarrow> safe og i (forE xs body) (\<lambda>_. True)"
  by (induction xs) (auto intro: safe_pure safe_bindE)

lemma safe_mapE: "(\<And>x. x \<in> set xs \<Longrightarrow> safe og i (f x) (\<lambda>_. True)) \<Longrightarrow> safe og i (mapE f xs) (\<lambda>_. True)"
  by (induction xs) (auto intro!: safe_pure safe_bindE)

section \<open>The parts of the executor\<close>

lemma oneRow_not_nil: "e \<noteq> NilPointer \<Longrightarrow> oneRow e p rows \<noteq> Inl NilPointer"
  by (simp add: oneRow_def split: option.split)

lemma safe_reads [safe_intros]:
  "safe og i (ComposeFileRepository_GetByID og' c) (\<lambda>_. True)" "safe og i (MachineRepository_GetByID og' m) (\<lambda>_. True)"
  "safe og i (ListNetworksForComposeFile og' c) (\<lambda>_. True)" "safe og i (ListVolumesForComposeFile og' c) (\<lambda>_. True)"
  "safe og i (SecretMountRepository_GetByID og' sm) (\<lambda>_. True)" "safe og i (GetGlobal og') (\<lambda>_. True)"
  unfolding ComposeFileRepository_GetByID_def MachineRepository_GetByID_def ListNetworksForComposeFile_def
    ListVolumesForComposeFile_def SecretMountRepository_GetByID_def GetGlobal_def
  by (rule safe_query; simp add: oneRow_def split: option.split)+

lemma Open_not_nil: "Open cr key x \<noteq> Inl NilPointer"
  by (simp add: Open_def Let_def split: option.split)

lemma safe_resolve [safe_intros]: "safe og i (ResolveSecret_ResolveValue cr key srv og' mid path) (\<lambda>_. True)"
  unfolding ResolveSecret_ResolveValue_def Vault_ReadSecret_def Vault_login_def decryptSecretID_def not_implemented_def
  by (auto intro!: safe_bindE [where P = "\<lambda>_. True"] safe_intros safe_liftE simp: Open_not_nil split: option.split)

lemma safe_credential [safe_intros]: "safe og i (resolveMachineCredential (ResolveSecret_ResolveValue cr key srv) cr key m) (\<lambda>_. True)"
  unfolding resolveMachineCredential_def by (auto intro!: safe_intros safe_liftE simp: Open_not_nil)

definition has_ref :: "FleetVariable \<Rightarrow> bool" where
  "has_ref v = (fv_VarType v = ''secret'' \<longrightarrow> fv_SecretRef v \<noteq> None)"

lemma scan_has_ref: "secret_has_ref r \<Longrightarrow> has_ref (Fleet_scanVariable r)"
  by (auto simp: secret_has_ref_def has_ref_def Fleet_scanVariable_def)

lemma safe_ListByComposeFile: "safe og i (ListByComposeFile og' c) (list_all has_ref)"
  unfolding ListByComposeFile_def
  by (rule safe_query) (auto simp: variables_of_def ready_def list_all_iff scan_has_ref)

lemma safe_applicable: "safe og i (applicable_variables og' c) (list_all has_ref)"
  unfolding applicable_variables_def
proof (rule safe_bindE [OF safe_ListByComposeFile])
  fix local :: "FleetVariable list" assume l: "list_all has_ref local"
  show "safe og i (bindE (GetGlobal og') (\<lambda>global. case global of None \<Rightarrow> retE local
      | Some g \<Rightarrow> if cf_ID g = c then retE local else bindE (ListByComposeFile og' (cf_ID g)) (\<lambda>fallback.
          retE (local @ filter (\<lambda>v. fv_Key v \<notin> set (map fv_Key local)) fallback)))) (list_all has_ref)"
    by (rule safe_bindE [OF safe_reads(6)])
      (use l in \<open>auto intro!: safe_pure safe_bindE [OF safe_ListByComposeFile] simp: list_all_iff split: option.split\<close>)
qed

lemma safe_resolve_value:
  "has_ref v \<Longrightarrow> safe og i (resolve_value (ResolveSecret_ResolveValue cr key srv) og' v) (\<lambda>_. True)"
  unfolding resolve_value_def by (auto intro!: safe_intros simp: has_ref_def split: option.split)

lemma safe_variables [safe_intros]:
  "safe og i (resolveComposeVariables (ResolveSecret_ResolveValue cr key srv) og' c) (\<lambda>_. True)"
  unfolding resolveComposeVariables_def
  by (rule safe_bindE [OF safe_applicable], rule safe_bindE [OF safe_mapE])
    (auto intro: safe_pure safe_resolve_value simp: list_all_iff)

lemma safe_logged [safe_intros]: "safe og i m P \<Longrightarrow> safe og i (logged m) (\<lambda>_. True)"
  unfolding logged_def by (auto intro: safe_bindE safe_intros)

lemma safe_ssh_do [safe_intros]: "safe og i (ssh_do h t rq) (\<lambda>_. True)"
  unfolding ssh_do_def by (auto intro!: safe_bindE [OF safe_ssh_call] safe_pure)

lemma safe_dial [safe_intros]: "safe og i (dial h t) (\<lambda>_. True)"
  unfolding dial_def by (auto intro: safe_intros)

lemma safe_writeRemoteFile [safe_intros]: "safe og i (writeRemoteFile h t f) (\<lambda>_. True)"
  unfolding writeRemoteFile_def by (intro safe_bindE [OF safe_ssh_do] safe_ssh_do)

lemma safe_PublishLine [safe_intros]: "safe og i (PublishLine j l) (\<lambda>_. True)"
  unfolding PublishLine_def publish_log_def by (rule safe_redis_step)

lemma safe_RunOperation:
  assumes "\<And>l. safe og i (onLine l) (\<lambda>_. True)"
  shows "safe og i (RunOperation h t files command onLine) (\<lambda>_. True)"
  unfolding RunOperation_def Let_def
  by (intro safe_bindE [where P = "\<lambda>_. True"] safe_intros assms)
    (auto intro!: safe_intros safe_bindE [OF safe_ssh_do] split: SSHAnswer.split)

section \<open>Every execution ends\<close>

definition finished :: "id \<Rightarrow> id \<Rightarrow> err + unit \<Rightarrow> world \<Rightarrow> bool" where
  "finished og i r w = (r = Inr () \<and> marked og i w \<and> announced i w)"

definition ends :: "id \<Rightarrow> id \<Rightarrow> unit io \<Rightarrow> bool" where
  "ends og i m = (\<forall>w. ready og i w \<longrightarrow> judged og i m (finished og i) w)"

lemma finished_later: "finished og i r w \<Longrightarrow> leaves_alone og i w w' \<Longrightarrow> finished og i r w'"
  by (simp add: finished_def leaves_alone_def)

lemma logged_atomic: "logged (atomic f) = atomic (\<lambda>w. (Inr (), snd (f w)))"
  by (simp add: logged_def tryE_def bindE_def atomic_def bind_Step retE_def comp_def map_prod_def case_prod_beta
      del: res_bind.simps(2))

definition finish_row :: "time \<Rightarrow> string \<Rightarrow> int option \<Rightarrow> string \<Rightarrow> Operation \<Rightarrow> Operation" where
  "finish_row now status code output x =
     x\<lparr>op_Status := status, op_FinishedAt := Some now, op_ExitCode := code, op_Output := output\<rparr>"

lemma run_MarkFinished:
  assumes "ready og i w" "status \<in> {''success'', ''failed''}"
  shows "run (MarkFinished og i status code output) w =
    (Inr (), w\<lparr>db := (db w)\<lparr>operations := upd (is_operation og i) (finish_row (clock w) status code output) (operations (db w))\<rparr>\<rparr>)"
proof -
  have "operation_checks (finish_row now status code output x)" if "operation_checks x" for now x
    using that assms(2) by (auto simp: operation_checks_def finish_row_def)
  then have "\<not> list_ex (\<lambda>x. is_operation og i x \<and> \<not> operation_checks (finish_row (clock w) status code output x)) (operations (db w))"
    using assms(1) by (auto simp: ready_def list_all_iff list_ex_iff)
  with assms(1) show ?thesis
    by (simp add: MarkFinished_def run_tx Let_def ready_def flip: finish_row_def)
qed

lemma MarkFinished_marks:
  assumes "ready og i w" "status \<in> {''success'', ''failed''}"
  shows "marked og i (snd (run (MarkFinished og i status code output) w))"
proof -
  let ?f = "finish_row (clock w) status code output"
  have f: "is_final (?f x)" "is_operation og i (?f x) = is_operation og i x" "operation_checks x \<Longrightarrow> operation_checks (?f x)" for x
    using assms(2) by (auto simp: finish_row_def is_final_def is_operation_def operation_checks_def)
  show ?thesis unfolding run_MarkFinished [OF assms]
    using assms(1) f by (auto simp: marked_def ready_def list_all_iff set_upd list_ex_upd)
qed

lemma PublishEnd_announces:
  assumes "marked og i w"
  shows "finished og i (Inr ()) (snd (run (PublishEnd i n) w))"
proof -
  from assms have "\<not> fault_now w" "pop w = w" by (simp_all add: marked_def ready_def)
  with assms show ?thesis
    by (simp add: PublishEnd_def publish_log_def redis_step_def run_atomic finished_def announced_def marked_def ready_def)
qed

lemma finish_ends:
  assumes "status \<in> {''success'', ''failed''}"
  shows "ends og i (bindE (logged (MarkFinished og i status code output)) (\<lambda>_. logged (PublishEnd i n)))"
  unfolding ends_def
proof (intro allI impI, rule judged_bindE)
  fix w assume w: "ready og i w"
  have m: "marked og i (snd (f v))" if "MarkFinished og i status code output = atomic f" "ready og i v" for f v
  proof -
    from that(1) have "run (MarkFinished og i status code output) v = f v" by (simp add: run_atomic)
    then show ?thesis using MarkFinished_marks [OF that(2) assms] by metis
  qed
  obtain f where f: "MarkFinished og i status code output = atomic f" by (auto simp: MarkFinished_def tx_def)
  have p: "finished og i (Inr ()) (snd (g v))" if "PublishEnd i n = atomic g" "marked og i v" for g v
  proof -
    from that(1) have "run (PublishEnd i n) v = g v" by (simp add: run_atomic)
    then show ?thesis using PublishEnd_announces [OF that(2)] by metis
  qed
  obtain g where g: "PublishEnd i n = atomic g" by (auto simp: PublishEnd_def publish_log_def redis_step_def)
  have after: "judged og i (logged (PublishEnd i n)) (finished og i) v" if "marked og i v" for v
    unfolding g logged_atomic
  proof (rule judged_atomic)
    fix v' v'' assume "leaves_alone og i v v'"
    with that have "marked og i v'" by (simp add: leaves_alone_def)
    with g have "finished og i (Inr ()) (snd (g v'))" by (rule p)
    moreover assume "leaves_alone og i (snd (Inr (), snd (g v'))) v''"
    ultimately show "finished og i (fst (Inr (), snd (g v'))) v''" by (simp add: finished_later)
  qed
  show "judged og i (logged (MarkFinished og i status code output)) (\<lambda>r w. case r of Inl e \<Rightarrow> finished og i (Inl e) w
     | Inr a \<Rightarrow> judged og i (logged (PublishEnd i n)) (finished og i) w) w"
    unfolding f logged_atomic
  proof (rule judged_atomic)
    fix v v' assume "leaves_alone og i w v"
    with w have "ready og i v" by (rule ready_later)
    with f have "marked og i (snd (f v))" by (rule m)
    moreover assume "leaves_alone og i (snd (Inr (), snd (f v))) v'"
    ultimately have "marked og i v'" by (simp add: leaves_alone_def)
    then show "case fst (Inr (), snd (f v)) of Inl e \<Rightarrow> finished og i (Inl e) v'
      | Inr a \<Rightarrow> judged og i (logged (PublishEnd i n)) (finished og i) v'"
      using after by simp
  qed
qed (rule finished_later)

lemma ends_bindE:
  assumes "safe og i m P" "\<And>a. P a \<Longrightarrow> ends og i (k a)" "\<And>e. e \<noteq> NilPointer \<Longrightarrow> ends og i (k' e)"
  shows "ends og i (bindE (tryE m) (\<lambda>r. case r of Inr a \<Rightarrow> k a | Inl e \<Rightarrow> if e = NilPointer then throwE NilPointer else k' e))"
  unfolding ends_def bindE_tryE
proof (intro allI impI, rule judged_bind)
  fix w assume "ready og i w"
  with assms(1) have "judged og i m (outcome og i P) w" by (rule safeD)
  then show "judged og i m (\<lambda>r. judged og i (case r of Inr a \<Rightarrow> k a
      | Inl e \<Rightarrow> if e = NilPointer then throwE NilPointer else k' e) (finished og i)) w"
    by (rule rgs_mono) (use assms(2,3) in \<open>auto simp: outcome_def ends_def split: sum.splits\<close>)
qed

lemma orFinish_ends:
  assumes "safe og i m P" "\<And>a. P a \<Longrightarrow> ends og i (k a)"
  shows "ends og i (orFinish errText og i label m k)"
  unfolding orFinish_def
  by (rule ends_bindE [OF assms]) (simp_all add: finishWithError_def finish_ends)

lemma run_and_finish_ends: "ends og i (run_and_finish errText h og i target command secretValues files)"
  unfolding run_and_finish_def
  by (rule orFinish_ends [OF safe_RunOperation]) (auto intro: safe_intros finish_ends split: prod.split)

lemma SubstituteTemplateVars_not_nil: "SubstituteTemplateVars content values \<noteq> Inl NilPointer"
  by (simp add: SubstituteTemplateVars_def Let_def)

lemma RenderCompose_not_nil: "RenderCompose y content values envVars ns vs \<noteq> Inl NilPointer"
  by (auto simp: RenderCompose_def not_yaml_def SubstituteTemplateVars_not_nil split: sum.split option.split
      dest: sym [of "SubstituteTemplateVars _ _"])

lemma file_variables_ends: "(\<And>fs. ends og i (k fs)) \<Longrightarrow> ends og i (file_variables errText og i deployPath values fvs files k)"
  by (induction fvs arbitrary: files)
    (auto intro!: orFinish_ends [where P = "\<lambda>_. True"] safe_liftE simp: SubstituteTemplateVars_not_nil)

lemma deploy_files_ends: "(\<And>fs. ends og i (k fs)) \<Longrightarrow> ends og i (deploy_files errText y og i c content deployPath resolved k)"
  unfolding deploy_files_def
  by (intro orFinish_ends [where P = "\<lambda>_. True"] safe_intros safe_liftE file_variables_ends RenderCompose_not_nil) simp_all

definition execution_after :: "(err \<Rightarrow> string) \<Rightarrow> resolver \<Rightarrow> crypto \<Rightarrow> string \<Rightarrow> yaml \<Rightarrow> map_order \<Rightarrow> ssh_host \<Rightarrow> id \<Rightarrow> id \<Rightarrow> Operation
    \<Rightarrow> unit io" where
  "execution_after errText resolveSecret cr key y ord h og i operation =
     orFinish errText og i ''load compose file'' (ComposeFileRepository_GetByID og (op_ComposeFileID operation)) (\<lambda>composeFile.
     orFinish errText og i ''load machine'' (MachineRepository_GetByID og (op_MachineID operation)) (\<lambda>machine.
     orFinish errText og i ''resolve machine credential'' (resolveMachineCredential resolveSecret cr key machine) (\<lambda>secret.
     orFinish errText og i ''resolve variables'' (resolveComposeVariables resolveSecret og (op_ComposeFileID operation)) (\<lambda>resolved.
     let deployPath = path_Join (mch_DeployBasePath machine) (slugify (cf_Name composeFile));
         go = run_and_finish errText h og i (connection_target machine secret)
           (operation_command deployPath (op_OperationType operation)) (secretValuesFor ord resolved) in
     if op_OperationType operation = ''deploy''
     then deploy_files errText y og i (op_ComposeFileID operation) (cf_ComposeContent composeFile) deployPath resolved go
     else go []))))"

lemma execute_after: "DeployExecutor_execute errText resolveSecret cr key y ord h og i =
    res_bind (OperationRepository_GetByID og i) (\<lambda>r. case r of
      Inl _ \<Rightarrow> retE () | Inr operation \<Rightarrow> execution_after errText resolveSecret cr key y ord h og i operation)"
  unfolding DeployExecutor_execute_def bindE_tryE execution_after_def by (rule refl)

lemma execution_after_ends:
  "ends og i (execution_after errText (ResolveSecret_ResolveValue cr key srv) cr key y ord h og i operation)"
  unfolding execution_after_def Let_def
  by (intro orFinish_ends [where P = "\<lambda>_. True"] safe_intros) (simp_all add: run_and_finish_ends deploy_files_ends)

lemma judged_run: "judged og i m Q w \<Longrightarrow> Q (fst (run m w)) (snd (run m w))"
proof (induction m arbitrary: w rule: res_induct)
  case (Done a)
  then show ?case by (simp add: leaves_alone_def)
next
  case (Step f)
  have "leaves_alone og i w w" by (simp add: leaves_alone_def)
  with Step.prems have "judged og i (fst (f w)) Q (snd (f w))" unfolding rgs_Step by blast
  then show ?case by (simp add: run_Step Step.IH del: run.simps(2))
qed

text \<open>
  C8: The execution of a claimed operation ends. In every interleaving with programs that leave the operation alone - it is not deleted, its final
  status is not taken back, the database does not fail - the goroutine returns without a panic, the operation has
  status \<^verbatim>\<open>success\<close> or \<^verbatim>\<open>failed\<close> with the time it finished, and the end mark is on its log stream; whether the compose file parses,
  secrets resolve or the machine answers.
\<close>

theorem claimed_operation_ends:
  assumes "ready og i w"
  shows "rgs (leaves_alone og i) anything (DeployExecutor_execute errText (ResolveSecret_ResolveValue cr key srv) cr key y ord h og i)
    (\<lambda>r w'. r = Inr () \<and> marked og i w' \<and> announced i w') w"
proof -
  have "judged og i (DeployExecutor_execute errText (ResolveSecret_ResolveValue cr key srv) cr key y ord h og i) (finished og i) w"
    unfolding execute_after OperationRepository_GetByID_def query_def tx_def
  proof (rule judged_bind, rule judged_atomic)
    fix w1 w2 let ?f = "\<lambda>w. if fault_now w then (Inl ErrDB, pop w)
      else case case oneRow ErrOperationNotFound (is_operation og i) (operations (db w)) of Inl e \<Rightarrow> Inl e | Inr a \<Rightarrow> Inr (a, db w) of
        Inl e \<Rightarrow> (Inl e, pop w) | Inr (a, d) \<Rightarrow> (Inr a, (pop w)\<lparr>db := d\<rparr>)"
    assume "leaves_alone og i w w1"
    with assms have r: "ready og i w1" by (rule ready_later)
    then obtain x where "List.find (is_operation og i) (operations (db w1)) = Some x"
      by (cases "List.find (is_operation og i) (operations (db w1))") (auto simp: ready_def find_None_iff_ex)
    with r have f: "?f w1 = (Inr x, w1)" by (simp add: oneRow_def ready_def)
    assume "leaves_alone og i (snd (?f w1)) w2"
    with r f have "ready og i w2" by (simp add: ready_later)
    then show "judged og i (case fst (?f w1) of Inl _ \<Rightarrow> retE ()
        | Inr operation \<Rightarrow> execution_after errText (ResolveSecret_ResolveValue cr key srv) cr key y ord h og i operation) (finished og i) w2"
      using execution_after_ends unfolding f ends_def by simp
  qed
  then show ?thesis by (rule rgs_mono) (simp_all add: finished_def)
qed

definition demo_yaml :: yaml where
  "demo_yaml = \<lparr>yaml_Unmarshal = (\<lambda>_. Inl ''no document''), yaml_Marshal = (\<lambda>_. None), yaml_Sprint = (\<lambda>_. [])\<rparr>"

definition demo_execution :: "unit io" where
  "demo_execution = DeployExecutor_execute (\<lambda>_. ''not found'') (ResolveSecret_ResolveValue demo_crypto demo_key (\<lambda>_ _. None)) demo_crypto demo_key
     demo_yaml rev (demo_host []) ''o1'' ''op1''"

theorem claimed_operation_ends_witness:
  "ready ''o1'' ''op1'' demo_claimed \<and> fst (run demo_execution demo_claimed) = Inr ()
   \<and> marked ''o1'' ''op1'' (snd (run demo_execution demo_claimed)) \<and> announced ''op1'' (snd (run demo_execution demo_claimed))"
proof -
  have "ready ''o1'' ''op1'' demo_claimed"
    by (simp add: ready_def demo_claimed_def demo_operation_def demo_def demo_db_def empty_world_def empty_db_def is_operation_def operation_checks_def)
  with judged_run [OF claimed_operation_ends [OF this]] show ?thesis unfolding demo_execution_def by blast
qed

end
