(* ===== verification/Fleet_Props.thy ===== *)
theory Fleet_Props
  imports Deploy_Props Management
begin

text \<open>
  What the services of the Fleet context guarantee: nothing happens without permission, stored credentials are found again, the
  variables of a compose file override the global ones, and every execution of an operation ends with a final status.
\<close>

section \<open>No effect without permission\<close>

text \<open>The requests of Fleet that change the database, or reach a machine or Vault.\<close>

datatype fleet_request =
    FleetCreateNetwork "nat \<Rightarrow> id" string bool
  | FleetDeleteNetwork id id
  | FleetCreateVolume "nat \<Rightarrow> id" string string
  | FleetDeleteVolume id id
  | FleetCreateMachine crypto string "nat \<Rightarrow> id" string string int string string string id string string string
  | FleetUpdateMachine crypto string "nat \<Rightarrow> id" id "string option" "string option" "id option" "string option"
      "string option" "string option"
  | FleetArchiveMachine id id
  | FleetUnarchiveMachine id id
  | FleetDeleteMachine id id
  | FleetDuplicateMachine "nat \<Rightarrow> id" id string
  | FleetTestConnection resolver ssh_host string int string string string id string string
  | FleetCheckConnection resolver crypto string ssh_host id id
  | FleetCreateComposeFile yaml map_order "nat \<Rightarrow> id" string string bool
  | FleetUpdateContent yaml map_order "nat \<Rightarrow> id" id string
  | FleetDeleteComposeFile id id
  | FleetAttachNetwork id id id
  | FleetDetachNetwork id id id
  | FleetAttachVolume id id id string
  | FleetDetachVolume id id id
  | FleetAttachProject id id id
  | FleetDetachProject id id id
  | FleetCreateVariable "nat \<Rightarrow> id" id string string string id string string
  | FleetRevealVariable resolver id
  | FleetUpdateVariable id id "string option" "id option" "string option" "string option"
  | FleetDeleteVariable id id
  | FleetCreateSecretVariable "id \<Rightarrow> id \<Rightarrow> string \<Rightarrow> string \<Rightarrow> unit io" "nat \<Rightarrow> id" id string id string
  | FleetTriggerOperation "nat \<Rightarrow> id" id id string

fun fleet_service :: "string list \<Rightarrow> id \<Rightarrow> id \<Rightarrow> fleet_request \<Rightarrow> unit io" where
  "fleet_service ctx og usr (FleetCreateNetwork u n e) = void (CreateNetwork_Execute u ctx og usr n e)"
| "fleet_service ctx og usr (FleetDeleteNetwork e i) = DeleteNetwork_Execute e ctx og usr i"
| "fleet_service ctx og usr (FleetCreateVolume u n p) = void (CreateVolume_Execute u ctx og usr n p)"
| "fleet_service ctx og usr (FleetDeleteVolume e i) = DeleteVolume_Execute e ctx og usr i"
| "fleet_service ctx og usr (FleetCreateMachine cr k u n h p su ct cs m pa s b) =
     void (CreateMachine_Execute cr k u ctx og usr n h p su ct cs m pa s b)"
| "fleet_service ctx og usr (FleetUpdateMachine cr k u i su ct m pa s b) =
     void (UpdateMachine_Execute cr k u ctx og usr i su ct m pa s b)"
| "fleet_service ctx og usr (FleetArchiveMachine e i) = ArchiveMachine_Execute e ctx og usr i"
| "fleet_service ctx og usr (FleetUnarchiveMachine e i) = UnarchiveMachine_Execute e ctx og usr i"
| "fleet_service ctx og usr (FleetDeleteMachine e i) = DeleteMachine_Execute e ctx og usr i"
| "fleet_service ctx og usr (FleetDuplicateMachine u i n) = void (DuplicateMachine_Execute u ctx og usr i n)"
| "fleet_service ctx og usr (FleetTestConnection r h ho p su ct cs m pa s) =
     void (TestMachineConnection_Execute r h ctx og usr ho p su ct cs m pa s)"
| "fleet_service ctx og usr (FleetCheckConnection r cr k h e i) =
     void (CheckMachineConnection_Execute r cr k h e ctx og usr i)"
| "fleet_service ctx og usr (FleetCreateComposeFile y ord u n c g) = void (CreateComposeFile_Execute y ord u ctx og usr n c g)"
| "fleet_service ctx og usr (FleetUpdateContent y ord u i c) = UpdateComposeFileContent_Execute y ord u ctx og usr i c"
| "fleet_service ctx og usr (FleetDeleteComposeFile e i) = DeleteComposeFile_Execute e ctx og usr i"
| "fleet_service ctx og usr (FleetAttachNetwork e c i) = AttachNetwork e ctx og usr c i"
| "fleet_service ctx og usr (FleetDetachNetwork e c i) = DetachNetwork e ctx og usr c i"
| "fleet_service ctx og usr (FleetAttachVolume e c i p) = AttachVolume e ctx og usr c i p"
| "fleet_service ctx og usr (FleetDetachVolume e c i) = DetachVolume e ctx og usr c i"
| "fleet_service ctx og usr (FleetAttachProject e c i) = AttachProject e ctx og usr c i"
| "fleet_service ctx og usr (FleetDetachProject e c i) = DetachProject e ctx og usr c i"
| "fleet_service ctx og usr (FleetCreateVariable u c k t v m p f) =
     void (CreateFleetVariable_Execute u ctx og usr c k t v m p f)"
| "fleet_service ctx og usr (FleetRevealVariable r i) = void (RevealVariable_Execute r ctx og usr i)"
| "fleet_service ctx og usr (FleetUpdateVariable e i v m p f) = void (UpdateFleetVariable_Execute e ctx og usr i v m p f)"
| "fleet_service ctx og usr (FleetDeleteVariable e i) = DeleteFleetVariable_Execute e ctx og usr i"
| "fleet_service ctx og usr (FleetCreateSecretVariable ws u c k m v) =
     void (CreateSecretVariable_Execute ws u ctx og usr c k m v)"
| "fleet_service ctx og usr (FleetTriggerOperation u c m t) = void (TriggerOperation_Execute u ctx og usr c m t)"

definition fleet_permission :: "fleet_request \<Rightarrow> string" where
  "fleet_permission req = (case req of
       FleetCreateNetwork _ _ _ \<Rightarrow> ''network_volume:manage'' | FleetCreateVolume _ _ _ \<Rightarrow> ''network_volume:manage''
     | FleetDeleteNetwork _ _ \<Rightarrow> ''network_volume:delete'' | FleetDeleteVolume _ _ \<Rightarrow> ''network_volume:delete''
     | FleetDeleteMachine _ _ \<Rightarrow> ''machine:delete'' | FleetCheckConnection _ _ _ _ _ _ \<Rightarrow> ''machine:read''
     | FleetCreateMachine _ _ _ _ _ _ _ _ _ _ _ _ _ \<Rightarrow> ''machine:manage''
     | FleetUpdateMachine _ _ _ _ _ _ _ _ _ _ \<Rightarrow> ''machine:manage''
     | FleetArchiveMachine _ _ \<Rightarrow> ''machine:manage'' | FleetUnarchiveMachine _ _ \<Rightarrow> ''machine:manage''
     | FleetDuplicateMachine _ _ _ \<Rightarrow> ''machine:manage'' | FleetTestConnection _ _ _ _ _ _ _ _ _ _ \<Rightarrow> ''machine:manage''
     | FleetDeleteComposeFile _ _ \<Rightarrow> ''compose_file:delete'' | FleetRevealVariable _ _ \<Rightarrow> ''compose_file:read''
     | FleetTriggerOperation _ _ _ _ \<Rightarrow> ''operation:deploy''
     | _ \<Rightarrow> ''compose_file:manage'')"

text \<open>A program that does nothing but return an error: only faults are consumed.\<close>

definition idle_error :: "'a io \<Rightarrow> world \<Rightarrow> bool" where
  "idle_error m w = (case run m w of (r, w') \<Rightarrow> (r = Inl ErrForbidden \<or> r = Inl ErrDB) \<and> w' = w\<lparr>faults := faults w'\<rparr>)"

lemma idle_void: "idle_error m w \<Longrightarrow> idle_error (void m) w"
  by (auto simp: idle_error_def void_def run_bindE split: prod.splits)

lemma idle_gate:
  "\<not> (is_member (db w) og usr \<and> permitted ctx (db w) og usr p None None) \<Longrightarrow> idle_error (gate ctx og usr p k) w"
  by (auto simp: idle_error_def gate_def run_bindE run_IsMember run_HasPermission run_guardE pop_def split: if_splits)

lemma idle_bind: "idle_error m w \<Longrightarrow> idle_error (bindE m k) w"
  by (auto simp: idle_error_def run_bindE split: prod.splits)

text \<open>
  C9: Without the permission for it none of the 27 requests of Fleet that write or reach a machine or Vault does anything (the
  requests that only read are not among them): if the caller is not an active member of the organization or lacks
  the permission the request needs, under the scopes of its API key, the request returns an error and the whole state is as before -
  the database, Vault, the machines and the log streams included.
\<close>

theorem fleet_needs_permission:
  assumes "\<not> (is_member (db w) og usr \<and> permitted ctx (db w) og usr (fleet_permission req) None None)"
  shows "case run (fleet_service ctx og usr req) w of (r, w') \<Rightarrow>
    (r = Inl ErrForbidden \<or> r = Inl ErrDB) \<and> w' = w\<lparr>faults := faults w'\<rparr>"
proof -
  have "idle_error (fleet_service ctx og usr req) w"
    using assms by (cases req) (simp_all add: fleet_permission_def idle_void idle_gate idle_bind
        CreateNetwork_Execute_def DeleteNetwork_Execute_def CreateVolume_Execute_def DeleteVolume_Execute_def
        CreateMachine_Execute_def UpdateMachine_Execute_def ArchiveMachine_Execute_def UnarchiveMachine_Execute_def
        DeleteMachine_Execute_def DuplicateMachine_Execute_def TestMachineConnection_Execute_def
        CheckMachineConnection_Execute_def CreateComposeFile_Execute_def UpdateComposeFileContent_Execute_def
        DeleteComposeFile_Execute_def AttachNetwork_def DetachNetwork_def AttachVolume_def DetachVolume_def AttachProject_def
        DetachProject_def checkManage_def CreateFleetVariable_Execute_def RevealVariable_Execute_def
        UpdateFleetVariable_Execute_def DeleteFleetVariable_Execute_def CreateSecretVariable_Execute_def
        TriggerOperation_Execute_def)
  then show ?thesis by (simp add: idle_error_def)
qed

lemma demo_bob_deploy: "\<not> permitted [] demo_db ''o1'' ''bob'' ''operation:deploy'' None None"
  by (simp add: permitted_def ctx_permits_def has_permission_at_scope_def matches_def subject_matches_def role_grants_def
      role_visible_def at_scope_def demo_binding_def demo_role_def BuiltinRoles_def rbac_consts)

theorem fleet_needs_permission_witness:
  "\<not> permitted [] demo_db ''o1'' ''bob'' ''operation:deploy'' None None
   \<and> (case run (fleet_service [] ''o1'' ''bob'' (FleetTriggerOperation (\<lambda>_. ''x'') ''cf1'' ''mc1'' ''deploy'')) demo of (r, w') \<Rightarrow>
      (r = Inl ErrForbidden \<or> r = Inl ErrDB) \<and> w' = demo\<lparr>faults := faults w'\<rparr>)"
  using fleet_needs_permission [of demo "''o1''" "''bob''" "[]" "FleetTriggerOperation (\<lambda>_. ''x'') ''cf1'' ''mc1'' ''deploy''"]
    demo_bob_deploy by (simp add: fleet_permission_def del: fleet_service.simps)

section \<open>Credentials\<close>

lemma run_gate_Inr:
  "run (gate ctx og usr p k) w = (Inr a, w') \<Longrightarrow> is_member (db w) og usr \<and> permitted ctx (db w) og usr p None None
     \<and> (\<exists>v. db v = db w \<and> clock v = clock w \<and> ssh v = ssh w \<and> run k v = (Inr a, w'))"
  by (auto simp: gate_def run_bindE run_IsMember run_HasPermission run_guardE split: if_splits intro: exI [of _ "pop (pop w)"])

lemma scan_machine_row:
  "mch_LastCheckedAt m = None \<Longrightarrow> mch_CredentialStorage m = ''local'' \<Longrightarrow> mch_CredentialRef m = no_ref \<Longrightarrow> scanMachine (machine_row m) = m"
  by (cases m) (simp add: scanMachine_def machine_row_def credentialRefColumns_def localCredentialColumns_def null_string_def no_ref_def)

lemma NewMachineWithLocalCredential_Inr:
  "NewMachineWithLocalCredential i t og n h p su ct c no s b = Inr m \<Longrightarrow> mch_ID m = i \<and> mch_OrganizationID m = og
     \<and> mch_LastCheckedAt m = None \<and> mch_CredentialStorage m = ''local'' \<and> mch_CredentialRef m = no_ref
     \<and> mch_EncryptedCredential m = c \<and> mch_CredentialNonce m = no \<and> mch_CredentialSalt m = s"
  by (auto simp: NewMachineWithLocalCredential_def split: if_splits)

lemma MachineRepository_Create_Inr:
  "run (MachineRepository_Create uuid actor m) w = (Inr r, w') \<Longrightarrow> machines (db w') = machines (db w) @ [machine_row m]
     \<and> \<not> list_ex (\<lambda>x. mr_ID x = mch_ID m) (machines (db w))"
  by (auto simp: MachineRepository_Create_def run_tx and_emit_def outbox_Write_def Let_def list_ex_iff split: if_splits)

text \<open>
  C29: A credential kept in the database is found again. When \<open>CreateMachineService\<close> succeeds with local storage, reading the machine back gives what it
  returned, and resolving the credential of that machine with the same master key gives the secret of the request without asking
  Vault, provided AES-GCM opens what it sealed.
\<close>

theorem local_credential_roundtrip:
  assumes "gcm_correct cr"
    and "run (CreateMachine_Execute cr key u ctx og usr nm host port su ct ''local'' mt pa secret base) w = (Inr m, w')"
    and "\<not> fault_now w'"
  shows "fst (run (MachineRepository_GetByID og (u 0)) w') = Inr m
    \<and> run (resolveMachineCredential resolveSecret cr key m) v = (Inr secret, v)"
proof -
  from run_gate_Inr [OF assms(2) [unfolded CreateMachine_Execute_def]] obtain w1 sealed r where
    s: "Seal cr (u 2) (u 3) key secret = Inr sealed"
    and n: "NewMachineWithLocalCredential (u 0) (clock w1) og nm host port su ct (sealed_Ciphertext sealed) (sealed_Nonce sealed)
       (sealed_Salt sealed) base = Inr m"
    and c: "run (MachineRepository_Create (u 1) usr m) w1 = (Inr r, w')"
    by (auto simp: success_simps)
  note m = NewMachineWithLocalCredential_Inr [OF n]
  note w' = MachineRepository_Create_Inr [OF c]
  have "List.find (is_machine og (u 0)) (machines (db w1)) = None"
    using w' m by (auto simp: find_None_iff is_machine_def list_ex_iff)
  moreover have "is_machine og (u 0) (machine_row m)" using m by (simp add: is_machine_def machine_row_def)
  moreover have "scanMachine (machine_row m) = m" using m by (intro scan_machine_row) simp_all
  ultimately have "fst (run (MachineRepository_GetByID og (u 0)) w') = Inr m"
    using assms(3) w' by (simp add: MachineRepository_GetByID_def run_query oneRow_def find_append)
  moreover have "Open cr key \<lparr>sealed_Ciphertext = mch_EncryptedCredential m, sealed_Nonce = mch_CredentialNonce m,
      sealed_Salt = mch_CredentialSalt m\<rparr> = Inr secret"
    using Open_Seal [OF assms(1) s] m by (cases sealed) simp
  ultimately show ?thesis using m by (simp add: resolveMachineCredential_def)
qed

definition demo_machine :: "string \<Rightarrow> Machine" where
  "demo_machine sealed = \<lparr>mch_ID = ''mc1'', mch_OrganizationID = ''o1'', mch_Name = ''web'', mch_Host = ''h1'', mch_SSHPort = 22,
     mch_SSHUser = ''root'', mch_CredentialType = ''ssh_password'', mch_CredentialStorage = ''local'', mch_CredentialRef = no_ref,
     mch_EncryptedCredential = sealed, mch_CredentialNonce = ''mc1'', mch_CredentialSalt = ''mc1'', mch_DeployBasePath = ''/srv'',
     mch_ConnectionStatus = ''unknown'', mch_DockerStatus = ''unknown'', mch_LastCheckedAt = None, mch_Archived = False,
     mch_CreatedAt = 0\<rparr>"

lemmas demo_fleet_simps = gate_def run_head run_tx demo_alice_permitted AllPermissions_def rbac_consts ctx_permits_def demo_Seal
  and_emit_def outbox_Write_def demo_org_def

lemma demo_CreateMachine:
  "\<exists>w'. run (CreateMachine_Execute demo_crypto demo_key (\<lambda>_. ''mc1'') [] ''o1'' ''alice'' ''web'' ''h1'' 22 ''root'' ''ssh_password''
     ''local'' [] [] ''s3cret'' ''/srv'') demo = (Inr (demo_machine ''#s3cret''), w') \<and> \<not> fault_now w'"
  by (simp add: CreateMachine_Execute_def CredentialStorage_Valid_def NewMachineWithLocalCredential_def CredentialType_Valid_def
      MachineRepository_Create_def machine_row_def machine_checks_def credential_shape_def credentialRefColumns_def
      localCredentialColumns_def demo_machine_def demo_fleet_simps)

theorem local_credential_roundtrip_witness:
  "\<exists>w'. fst (run (MachineRepository_GetByID ''o1'' ''mc1'') w') = Inr (demo_machine ''#s3cret'')
     \<and> run (resolveMachineCredential (\<lambda>_ _ _. throwE ErrVault) demo_crypto demo_key (demo_machine ''#s3cret'')) demo = (Inr ''s3cret'', demo)"
proof -
  from demo_CreateMachine obtain w' where
    "run (CreateMachine_Execute demo_crypto demo_key (\<lambda>_. ''mc1'') [] ''o1'' ''alice'' ''web'' ''h1'' 22 ''root'' ''ssh_password''
     ''local'' [] [] ''s3cret'' ''/srv'') demo = (Inr (demo_machine ''#s3cret''), w')" "\<not> fault_now w'" by blast
  from local_credential_roundtrip [OF demo_crypto_correct this] show ?thesis by blast
qed

end
