(* ===== verification/Fleet_Variables.thy ===== *)
theory Fleet_Variables
  imports Fleet_Props
begin

text \<open>
  The variables of a compose file: its own variables override those of the organization's global file
  (\<^verbatim>\<open>resolve_compose_variables.go\<close>).
\<close>

section \<open>Specification\<close>

definition own_variable :: "id \<Rightarrow> id \<Rightarrow> db \<Rightarrow> string \<Rightarrow> FleetVariable option" where
  "own_variable og c d k = List.find (\<lambda>v. fv_Key v = k) (variables_of og c d)"

definition global_file :: "id \<Rightarrow> db \<Rightarrow> ComposeFile option" where
  "global_file og d = List.find (\<lambda>c. cf_OrganizationID c = og \<and> cf_IsGlobal c) (compose_files d)"

definition effective_variable :: "id \<Rightarrow> id \<Rightarrow> db \<Rightarrow> string \<Rightarrow> FleetVariable option" where
  "effective_variable og c d k = (case own_variable og c d k of
     Some v \<Rightarrow> Some v
   | None \<Rightarrow> (case global_file og d of None \<Rightarrow> None | Some g \<Rightarrow> own_variable og (cf_ID g) d k))"

text \<open>A value \<open>val\<close> that \<open>v\<close> may have: what is stored, or for a secret what the resolver returned in some state.\<close>

definition resolves_to :: "resolver \<Rightarrow> id \<Rightarrow> FleetVariable \<Rightarrow> string \<Rightarrow> bool" where
  "resolves_to resolveSecret og v val =
     (if fv_VarType v = ''secret''
      then \<exists>r u u'. fv_SecretRef v = Some r \<and> run (resolveSecret og (sr_MountID r) (sr_Path r)) u = (Inr val, u')
      else val = fv_Value v)"

section \<open>Refinement\<close>

definition all_variables :: "id \<Rightarrow> id \<Rightarrow> db \<Rightarrow> FleetVariable list" where
  "all_variables og c d = variables_of og c d @ (case global_file og d of
     None \<Rightarrow> []
   | Some g \<Rightarrow> if cf_ID g = c then []
     else filter (\<lambda>v. fv_Key v \<notin> set (map fv_Key (variables_of og c d))) (variables_of og (cf_ID g) d))"

lemma run_applicable:
  "run (applicable_variables og c) w = (Inr vs, w') \<Longrightarrow> vs = all_variables og c (db w)"
  by (auto simp: applicable_variables_def ListByComposeFile_def GetGlobal_def all_variables_def global_file_def success_simps
      split: option.splits if_splits)

lemma find_all_variables:
  "List.find (\<lambda>v. fv_Key v = k) (all_variables og c d) = effective_variable og c d k"
proof (cases "own_variable og c d k")
  case None
  then have k: "k \<notin> fv_Key ` set (variables_of og c d)" by (auto simp: own_variable_def find_None_iff)
  have f: "List.find (\<lambda>v. fv_Key v = k) (filter (\<lambda>v. fv_Key v \<notin> fv_Key ` set (variables_of og c d)) vs)
      = List.find (\<lambda>v. fv_Key v = k) vs" for vs
    using k by (induction vs) auto
  from None show ?thesis
    by (auto simp: all_variables_def effective_variable_def find_append own_variable_def f split: option.split)
next
  case (Some v)
  then show ?thesis by (simp add: all_variables_def effective_variable_def find_append own_variable_def)
qed

lemma run_mapE_Inr:
  "run (mapE f xs) w = (Inr ys, w') \<Longrightarrow> list_all2 (\<lambda>x y. \<exists>u u'. run (f x) u = (Inr y, u')) xs ys"
  by (induction xs arbitrary: w ys) (auto simp: success_simps)

lemma resolve_value_Inr: "run (resolve_value resolveSecret og v) u = (Inr val, u') \<Longrightarrow> resolves_to resolveSecret og v val"
  by (auto simp: resolve_value_def resolves_to_def split: if_splits option.splits)

definition is_file_type :: "string \<Rightarrow> bool" where
  "is_file_type t = (t = ''file_template'' \<or> t = ''config_file'')"

lemma add_resolved_values:
  "map_of (rv_TemplateValues (fold add_resolved ps rv)) k =
     (case List.find (\<lambda>p. fv_Key (fst p) = k) (rev ps) of Some p \<Rightarrow> Some (snd p) | None \<Rightarrow> map_of (rv_TemplateValues rv) k)"
  by (induction ps arbitrary: rv)
    (auto simp: add_resolved_def Let_def find_append update_conv split: option.split prod.split)

lemma add_resolved_env:
  "map_of (rv_EnvVars (fold add_resolved ps rv)) k =
     (case List.find (\<lambda>p. fv_Key (fst p) = k \<and> fv_VarType (fst p) = ''env'') (rev ps) of
        Some p \<Rightarrow> Some (snd p) | None \<Rightarrow> map_of (rv_EnvVars rv) k)"
  by (induction ps arbitrary: rv)
    (auto simp: add_resolved_def Let_def find_append update_conv split: option.split prod.split)

lemma add_resolved_files:
  "rv_FileVariables (fold add_resolved ps rv) =
     rv_FileVariables rv @ map (\<lambda>(v, val). v\<lparr>fv_Value := val\<rparr>) (filter (\<lambda>(v, _). is_file_type (fv_VarType v)) ps)"
  by (induction ps arbitrary: rv) (auto simp: add_resolved_def Let_def is_file_type_def split: if_splits)

lemma distinct_map_sort_key: "distinct (map f (sort_key g xs)) = distinct (map f xs)"
  by (rule mset_eq_imp_distinct_iff) simp

lemma distinct_variables_of:
  assumes "distinct (map (\<lambda>r. (fvr_ComposeFileID r, fvr_Key r)) (fleet_variables d))"
  shows "distinct (map fv_Key (variables_of og c d))"
proof -
  let ?rs = "filter (\<lambda>r. fvr_OrganizationID r = og \<and> fvr_ComposeFileID r = c) (fleet_variables d)"
  have "distinct (map (\<lambda>r. (fvr_ComposeFileID r, fvr_Key r)) ?rs)" using assms by (rule distinct_map_filter)
  then have "distinct (map fvr_Key ?rs)" by (auto simp: distinct_map inj_on_def)
  moreover have "map fv_Key (variables_of og c d) = map fvr_Key (sort_key fvr_Key ?rs)"
    by (simp add: variables_of_def Fleet_scanVariable_def)
  ultimately show ?thesis by (simp only: distinct_map_sort_key)
qed

lemma distinct_all_variables:
  assumes "distinct (map (\<lambda>r. (fvr_ComposeFileID r, fvr_Key r)) (fleet_variables d))"
  shows "distinct (map fv_Key (all_variables og c d))"
proof -
  have "distinct (map fv_Key (xs @ filter (\<lambda>v. fv_Key v \<notin> set (map fv_Key xs)) ys))"
    if "distinct (map fv_Key xs)" "distinct (map fv_Key ys)" for xs ys
    using that by (auto simp: distinct_map_filter simp del: set_map) (auto simp: image_iff)
  note this [OF distinct_variables_of distinct_variables_of, OF assms assms]
  with distinct_variables_of [OF assms] show ?thesis
    unfolding all_variables_def by (cases "global_file og d") (simp_all del: map_append set_map split: if_split)
qed

lemma find_zip_None:
  "List.find (\<lambda>v. fv_Key v = k) vs = None \<Longrightarrow> List.find (\<lambda>p. fv_Key (fst p) = k \<and> Q p) (rev (zip vs vals)) = None"
  by (auto simp: find_None_iff dest: set_zip_leftD)

lemma find_zip_Some:
  assumes "List.find (\<lambda>v. fv_Key v = k) vs = Some v" "distinct (map fv_Key vs)" "length vs = length vals"
  obtains val where "(v, val) \<in> set (zip vs vals)"
    "\<And>Q. List.find (\<lambda>p. fv_Key (fst p) = k \<and> Q (fst p)) (rev (zip vs vals)) = (if Q v then Some (v, val) else None)"
proof -
  from assms(1) have v: "v \<in> set vs" "fv_Key v = k" by (auto dest: find_SomeD)
  from v(1) assms(3) obtain val where z: "(v, val) \<in> set (zip vs vals)" by (metis in_set_impl_in_set_zip1)
  have "map (\<lambda>p. fv_Key (fst p)) (rev (zip vs vals)) = rev (map fv_Key (map fst (zip vs vals)))"
    by (simp add: rev_map)
  then have d: "distinct (map (\<lambda>p. fv_Key (fst p)) (rev (zip vs vals)))" using assms(2,3) by simp
  have "List.find (\<lambda>p. fv_Key (fst p) = k \<and> Q (fst p)) (rev (zip vs vals)) = (if Q v then Some (v, val) else None)" for Q
  proof (cases "Q v")
    case True
    then show ?thesis using find_unique [OF d, of "(v, val)" "\<lambda>p. fv_Key (fst p) = k \<and> Q (fst p)"] z v by simp
  next
    case False
    have "fst p = v" if "p \<in> set (zip vs vals)" "fv_Key (fst p) = k" for p
      using that v assms(2) by (metis distinct_map inj_onD prod.collapse set_zip_leftD)
    with False show ?thesis by (auto simp: find_None_iff)
  qed
  with z show ?thesis by (rule that)
qed

text \<open>
  C19: Resolution is the override of the global file by the own one. Whenever resolving the variables of a compose file succeeds, the template values
  are defined exactly for the keys of its own variables and those of the organization's global file, the own variable wins, a secret
  has the value the resolver returned, and the environment has exactly the keys whose effective variable is of type \<^verbatim>\<open>env\<close>.
\<close>

theorem variables_override_global:
  assumes "run (resolveComposeVariables resolveSecret og c) w = (Inr rv, w')"
    and "distinct (map (\<lambda>r. (fvr_ComposeFileID r, fvr_Key r)) (fleet_variables (db w)))"
  shows "case effective_variable og c (db w) k of
      None \<Rightarrow> map_of (rv_TemplateValues rv) k = None \<and> map_of (rv_EnvVars rv) k = None
    | Some v \<Rightarrow> \<exists>val. resolves_to resolveSecret og v val \<and> map_of (rv_TemplateValues rv) k = Some val
        \<and> map_of (rv_EnvVars rv) k = (if fv_VarType v = ''env'' then Some val else None)
        \<and> (is_file_type (fv_VarType v) \<longrightarrow> v\<lparr>fv_Value := val\<rparr> \<in> set (rv_FileVariables rv))"
proof -
  obtain vals w1 w2 where r: "run (mapE (resolve_value resolveSecret og) (all_variables og c (db w))) w1 = (Inr vals, w2)"
    and rv: "rv = fold add_resolved (zip (all_variables og c (db w)) vals)
      \<lparr>rv_TemplateValues = [], rv_EnvVars = [], rv_FileVariables = []\<rparr>"
    using assms(1) by (auto simp: resolveComposeVariables_def success_simps dest!: run_applicable)
  let ?vs = "all_variables og c (db w)"
  have a: "list_all2 (resolves_to resolveSecret og) ?vs vals"
    using run_mapE_Inr [OF r] by (rule list_all2_mono) (auto dest: resolve_value_Inr)
  note d = distinct_all_variables [OF assms(2), of og c]
  show ?thesis
  proof (cases "effective_variable og c (db w) k")
    case None
    then have n: "List.find (\<lambda>v. fv_Key v = k) ?vs = None" by (simp only: find_all_variables)
    from find_zip_None [OF n, of "\<lambda>_. True" vals] find_zip_None [OF n, of "\<lambda>p. fv_VarType (fst p) = ''env''" vals] None show ?thesis
      by (simp add: rv add_resolved_values add_resolved_env)
  next
    case (Some v)
    then have v: "List.find (\<lambda>v. fv_Key v = k) ?vs = Some v" by (simp only: find_all_variables)
    obtain val where z: "(v, val) \<in> set (zip ?vs vals)" and
      f: "\<And>Q. List.find (\<lambda>p. fv_Key (fst p) = k \<and> Q (fst p)) (rev (zip ?vs vals)) = (if Q v then Some (v, val) else None)"
      by (rule find_zip_Some [OF v d list_all2_lengthD [OF a]]) blast
    from a z have "resolves_to resolveSecret og v val" by (auto simp: list_all2_iff)
    moreover have "map_of (rv_TemplateValues rv) k = Some val" using f [of "\<lambda>_. True"] by (simp add: rv add_resolved_values)
    moreover have "map_of (rv_EnvVars rv) k = (if fv_VarType v = ''env'' then Some val else None)"
      using f [of "\<lambda>v. fv_VarType v = ''env''"] by (simp add: rv add_resolved_env)
    moreover have "is_file_type (fv_VarType v) \<longrightarrow> v\<lparr>fv_Value := val\<rparr> \<in> set (rv_FileVariables rv)"
      using z by (force simp: rv add_resolved_files)
    ultimately show ?thesis using Some by auto
  qed
qed

definition demo_variable :: "id \<Rightarrow> id \<Rightarrow> string \<Rightarrow> string \<Rightarrow> string option \<Rightarrow> FleetVariableRow" where
  "demo_variable i c k t val = \<lparr>fvr_ID = i, fvr_OrganizationID = ''o1'', fvr_ComposeFileID = c, fvr_Key = k, fvr_VarType = t,
     fvr_Value = val, fvr_SecretMountID = (if val = None then Some ''sm1'' else None),
     fvr_SecretPath = (if val = None then Some ''p'' else None), fvr_FileTargetPath = None, fvr_CreatedAt = 0\<rparr>"

definition demo_global_file :: ComposeFile where
  "demo_global_file = \<lparr>cf_ID = ''cf0'', cf_OrganizationID = ''o1'', cf_Name = ''global'', cf_IsGlobal = True,
     cf_ComposeContent = [], cf_CreatedBy = ''alice'', cf_CreatedAt = 0\<rparr>"

definition demo_variables_world :: world where
  "demo_variables_world = demo\<lparr>db := demo_db\<lparr>compose_files := [demo_global_file],
     fleet_variables := [demo_variable ''v1'' ''cf1'' ''TAG'' ''env'' (Some ''2''), demo_variable ''v2'' ''cf0'' ''TAG'' ''kv'' (Some ''1''),
       demo_variable ''v3'' ''cf0'' ''PW'' ''secret'' None]\<rparr>\<rparr>"

definition demo_resolver :: resolver where
  "demo_resolver = (\<lambda>_ _ _. retE ''hunter2'')"

definition demo_rv :: ResolvedComposeVariables where
  "demo_rv = \<lparr>rv_TemplateValues = [(''TAG'', ''2''), (''PW'', ''hunter2'')], rv_EnvVars = [(''TAG'', ''2'')], rv_FileVariables = []\<rparr>"

lemmas demo_variable_simps = demo_variables_world_def demo_variable_def demo_global_file_def demo_def empty_world_def
  variables_of_def Fleet_scanVariable_def null_string_def

lemma demo_resolve: "run (resolveComposeVariables demo_resolver ''o1'' ''cf1'') demo_variables_world = (Inr demo_rv, demo_variables_world)"
  by (simp add: resolveComposeVariables_def applicable_variables_def ListByComposeFile_def GetGlobal_def run_head run_bindE run_query
      demo_variable_simps add_resolved_def resolve_value_def demo_resolver_def demo_rv_def)

theorem variables_override_global_witness:
  "run (resolveComposeVariables demo_resolver ''o1'' ''cf1'') demo_variables_world = (Inr demo_rv, demo_variables_world)
   \<and> map_of (rv_EnvVars demo_rv) ''TAG'' = Some ''2'' \<and> map_of (rv_EnvVars demo_rv) ''PW'' = None"
proof -
  have d: "distinct (map (\<lambda>r. (fvr_ComposeFileID r, fvr_Key r)) (fleet_variables (db demo_variables_world)))"
    by (simp add: demo_variable_simps)
  have "effective_variable ''o1'' ''cf1'' (db demo_variables_world) ''TAG'' = Some (Fleet_scanVariable (demo_variable ''v1'' ''cf1'' ''TAG'' ''env'' (Some ''2'')))"
    "effective_variable ''o1'' ''cf1'' (db demo_variables_world) ''PW'' = Some (Fleet_scanVariable (demo_variable ''v3'' ''cf0'' ''PW'' ''secret'' None))"
    by (simp_all add: effective_variable_def own_variable_def global_file_def demo_variable_simps)
  with variables_override_global [OF demo_resolve d, of "''TAG''"] variables_override_global [OF demo_resolve d, of "''PW''"]
  have "map_of (rv_EnvVars demo_rv) ''TAG'' = Some ''2''" "map_of (rv_EnvVars demo_rv) ''PW'' = None"
    by (auto simp: resolves_to_def Fleet_scanVariable_def demo_variable_def null_string_def)
  with demo_resolve show ?thesis by blast
qed

end
