(* ===== verification/Fleet_Findings.thy ===== *)
theory Fleet_Findings
  imports Fleet_Props
begin

text \<open>A lost update between two Fleet services, as an execution of both on a small deployment.\<close>

section \<open>A connection check undoes a rotation\<close>

definition demo_fleet_world :: world where
  "demo_fleet_world = demo\<lparr>db := demo_db\<lparr>machines := [machine_row (demo_machine ''#old'')]\<rparr>\<rparr>"

definition check_connection :: "Machine io" where
  "check_connection = CheckMachineConnection_Execute (\<lambda>_ _ _. throwE ErrVault) demo_crypto demo_key (demo_host []) ''e1'' [] ''o1'' ''alice'' ''mc1''"

definition rotate_credential :: "Machine io" where
  "rotate_credential = UpdateMachine_Execute demo_crypto demo_key (\<lambda>_. ''e2'') [] ''o1'' ''alice'' ''mc1'' None None None None (Some ''new'') None"

lemma retE_eq: "retE a = retE b \<longleftrightarrow> a = b"
  by (simp add: retE_def)

lemma demo_Open:
  "Open demo_crypto demo_key \<lparr>sealed_Ciphertext = CHR ''#'' # s, sealed_Nonce = no, sealed_Salt = sa\<rparr> = Inr s"
  by (simp add: Open_def demo_crypto_def demo_key_def KeySize_def)

text \<open>
  \<open>CheckMachineConnectionService\<close> reads the machine, probes it over SSH and then writes all its columns back. A rotation of the
  credential that another request completes during the probe is undone: both requests succeed, and the stored credential is the old one.
\<close>

lemma connection_check_reverts_rotation:
  "case interleave (replicate 3 True @ replicate 4 False @ replicate 6 True) check_connection rotate_credential demo_fleet_world of
     (m, n, w') \<Rightarrow> (\<exists>x y. m = retE x \<and> n = retE y \<and> mch_EncryptedCredential y = ''#new'')
       \<and> map mr_EncryptedCredential (machines (db w')) = [Some ''#old'']"
proof -
  have alice: "has_permission_at_scope (demo_db\<lparr>machines := ms\<rparr>) ''o1'' ''alice'' p None None"
    if "p \<in> set AllPermissions" for ms p
    using demo_permitted_in [of "demo_db\<lparr>machines := ms\<rparr>" p None None] that by (simp add: permitted_def ctx_permits_def)
  have mem: "is_member (demo_db\<lparr>machines := ms\<rparr>) ''o1'' ''alice''" for ms by (simp add: is_member_def demo_member_def)
  show ?thesis
    by (simp add: check_connection_def rotate_credential_def numeral_eq_Suc CheckMachineConnection_Execute_def
      UpdateMachine_Execute_def gate_def IsMember_def HasPermission_def HasPermissionAtScope_def ScopesFromContext_def step_simps alice mem
      MachineRepository_GetByID_def demo_fleet_world_def AllPermissions_def rbac_consts guardE_def demo_def empty_world_def
      pop_def oneRow_def resolveMachineCredential_def demo_Open demo_Seal Probe_def dial_def ssh_do_def ssh_call_def
      demo_host_def connection_target_def Let_def RecordConnectionCheck_def MachineRepository_Update_def
      res_bind_assoc demo_machine_def machine_row_def scanMachine_def is_machine_def update_machine_row_def machine_checks_def
      credential_shape_def credentialRefColumns_def localCredentialColumns_def null_string_def no_ref_def and_emit_def outbox_Write_def
      fleet_event_def retE_eq demo_org_def)
qed

end
