(* ===== verification/Compose_Props.thy ===== *)
theory Compose_Props
  imports Compose
begin

text \<open>
  What rendering guarantees. A template is a list of tokens, literal text and placeholders; \<open>SubstituteTemplateVars\<close>, which works on
  the text with a regular expression, agrees with the substitution token by token.
\<close>

section \<open>Templates\<close>

datatype token = Literal string | Placeholder string string string \<comment> \<open>white space, key, white space\<close>

fun token_text :: "token \<Rightarrow> string" where
  "token_text (Literal l) = l"
| "token_text (Placeholder a k b) = ''{{'' @ a @ k @ b @ ''}}''"

fun token_ok :: "token \<Rightarrow> bool" where
  "token_ok (Literal l) = (CHR ''{'' \<notin> set l)"
| "token_ok (Placeholder a k b) = (list_all is_ws a \<and> keyPattern k \<and> list_all is_ws b)"

fun token_value :: "(string \<Rightarrow> string) \<Rightarrow> token \<Rightarrow> string" where
  "token_value f (Literal l) = l"
| "token_value f (Placeholder a k b) = f k"

definition template_text :: "token list \<Rightarrow> string" where
  "template_text ts = concat (map token_text ts)"

definition template_keys :: "token list \<Rightarrow> string list" where
  "template_keys ts = concat (map (\<lambda>t. case t of Literal _ \<Rightarrow> [] | Placeholder _ k _ \<Rightarrow> [k]) ts)"

lemma key_char_not_ws: "key_char c \<Longrightarrow> \<not> is_ws c"
  by (auto simp: key_char_def is_ws_def is_alnum_def is_lower_def is_upper_def is_digit_def in_range_def)

lemma brace_not_key: "\<not> key_char (CHR ''}'')" "\<not> is_ws (CHR ''}'')"
  by (simp_all add: key_char_def is_ws_def pattern_defs)

lemma keyPattern_chars: "keyPattern k \<Longrightarrow> k \<noteq> [] \<and> list_all key_char k"
  by (cases k) (auto simp: keyPattern_def key_char_def is_alnum_def list_all_iff)

lemma dropWhile_all: "list_all p a \<Longrightarrow> dropWhile p (a @ r) = dropWhile p r"
  by (induction a) auto

lemma takeWhile_stop: "list_all p a \<Longrightarrow> r = [] \<or> \<not> p (hd r) \<Longrightarrow> takeWhile p (a @ r) = a \<and> dropWhile p (a @ r) = r"
  by (induction a) (cases r; auto)+

lemma match_placeholder_token:
  assumes "list_all is_ws a" "keyPattern k" "list_all is_ws b"
  shows "match_placeholder (''{{'' @ a @ k @ b @ ''}}'' @ r) = Some (k, r)"
proof -
  from keyPattern_chars [OF assms(2)] have k: "k \<noteq> []" "list_all key_char k" by simp_all
  then have "\<not> is_ws (hd k)" by (cases k) (auto dest: key_char_not_ws)
  then have 1: "dropWhile is_ws (a @ k @ b @ ''}}'' @ r) = k @ b @ ''}}'' @ r"
    using k(1) dropWhile_all [OF assms(1), of "k @ b @ ''}}'' @ r"] by (cases k) auto
  have "\<not> key_char (hd (b @ ''}}'' @ r))"
    using assms(3) brace_not_key(1) by (cases b) (auto dest: key_char_not_ws)
  then have 2: "takeWhile key_char (k @ b @ ''}}'' @ r) = k" "dropWhile key_char (k @ b @ ''}}'' @ r) = b @ ''}}'' @ r"
    using takeWhile_stop [OF k(2), of "b @ ''}}'' @ r"] by auto
  have 3: "dropWhile is_ws (b @ ''}}'' @ r) = ''}}'' @ r"
    using dropWhile_all [OF assms(3)] brace_not_key(2) by simp
  show ?thesis using 1 2 3 assms(2) by (simp add: match_placeholder_def Let_def)
qed

lemma literal_prefix:
  "CHR ''{'' \<notin> set l \<Longrightarrow> replace_placeholders f (l @ r) = l @ replace_placeholders f r"
  "CHR ''{'' \<notin> set l \<Longrightarrow> placeholders (l @ r) = placeholders r"
  by (induction l) (auto simp: match_placeholder_def)

lemma template_replace:
  "list_all token_ok ts \<Longrightarrow> replace_placeholders f (template_text ts) = concat (map (token_value f) ts)
     \<and> placeholders (template_text ts) = template_keys ts"
proof (induction ts)
  case (Cons t ts)
  then have IH: "replace_placeholders f (template_text ts) = concat (map (token_value f) ts)"
    "placeholders (template_text ts) = template_keys ts" by simp_all
  show ?case
  proof (cases t)
    case (Literal l)
    with Cons.prems IH show ?thesis by (simp add: template_text_def template_keys_def literal_prefix)
  next
    case (Placeholder a k b)
    let ?r = "template_text ts"
    have "match_placeholder (''{{'' @ a @ k @ b @ ''}}'' @ ?r) = Some (k, ?r)"
      using Cons.prems Placeholder by (intro match_placeholder_token) auto
    then have "replace_placeholders f (''{{'' @ a @ k @ b @ ''}}'' @ ?r) = f k @ replace_placeholders f ?r"
      "placeholders (''{{'' @ a @ k @ b @ ''}}'' @ ?r) = k # placeholders ?r" by simp_all
    with IH Placeholder show ?thesis by (simp add: template_text_def template_keys_def)
  qed
qed (simp_all add: template_text_def template_keys_def)

text \<open>
  C22: Substitution agrees with its specification on templates. For any sequence of literal text without an opening brace and of
  placeholders with any white space around their keys: if every key has a value, the result is the text with each placeholder replaced
  by its value, once, values with braces not being substituted again; otherwise the result is the error that names the keys without a value,
  each once and sorted, and no text.
\<close>

theorem substitution_is_tokenwise:
  assumes "list_all token_ok ts"
  shows "SubstituteTemplateVars (template_text ts) values =
    (let missing = sorted_list_of_set {k \<in> set (template_keys ts). map_of values k = None} in
     if missing = [] then Inr (concat (map (token_value (\<lambda>k. the (map_of values k))) ts))
     else Inl (ValidationError (''undefined template variable(s): '' @ Join '', '' missing)))"
proof -
  let ?m = "filter (\<lambda>k. map_of values k = None) (remdups (template_keys ts))"
  have d: "distinct ?m" and m: "set ?m = {k \<in> set (template_keys ts). map_of values k = None}" by auto
  have sorted: "sorted_list_of_set {k \<in> set (template_keys ts). map_of values k = None} = sort ?m"
    using sorted_list_of_set_sort_remdups [of ?m] unfolding m distinct_remdups_id [OF d] .
  have "concat (map (token_value (\<lambda>k. null_string (map_of values k))) ts)
      = concat (map (token_value (\<lambda>k. the (map_of values k))) ts)" if "?m = []"
  proof -
    have "token_value (\<lambda>k. null_string (map_of values k)) t = token_value (\<lambda>k. the (map_of values k)) t"
      if "t \<in> set ts" for t
    proof (cases t)
      case (Placeholder a k b)
      with that have "k \<in> set (template_keys ts)" by (force simp: template_keys_def)
      with \<open>?m = []\<close> obtain v where "map_of values k = Some v" by (auto simp: filter_empty_conv)
      with Placeholder show ?thesis by (simp add: null_string_def)
    qed simp
    then have "map (token_value (\<lambda>k. null_string (map_of values k))) ts = map (token_value (\<lambda>k. the (map_of values k))) ts"
      by (rule list.map_cong0)
    then show ?thesis by (rule arg_cong)
  qed
  moreover have "sort xs = [] \<longleftrightarrow> xs = []" for xs :: "string list" by (cases xs) simp_all
  ultimately show ?thesis
    using template_replace [OF assms] unfolding SubstituteTemplateVars_def Let_def sorted by auto
qed

definition demo_template :: "token list" where
  "demo_template = [Literal ''image: '', Placeholder '' '' ''IMAGE'' '' '', Literal '':'', Placeholder [] ''TAG'' []]"

theorem substitution_is_tokenwise_witness:
  "template_text demo_template = ''image: {{ IMAGE }}:{{TAG}}''
   \<and> SubstituteTemplateVars (template_text demo_template) [(''TAG'', ''{{IMAGE}}''), (''IMAGE'', ''app'')] = Inr ''image: app:{{IMAGE}}''
   \<and> SubstituteTemplateVars (template_text demo_template) [] = Inl (ValidationError ''undefined template variable(s): IMAGE, TAG'')"
proof -
  have ok: "list_all token_ok demo_template"
    by (simp add: demo_template_def is_ws_def keyPattern_def pattern_defs)
  have "{k. (k = ''IMAGE'' \<or> k = ''TAG'')} = {''IMAGE'', ''TAG''}" by auto
  moreover have "sorted_list_of_set {''IMAGE'', ''TAG''} = [''IMAGE'', ''TAG'']" by (simp add: sorted_list_of_set_nonempty)
  ultimately show ?thesis unfolding substitution_is_tokenwise [OF ok]
    by (simp add: demo_template_def template_text_def template_keys_def Join_def)
qed

section \<open>Rendered services\<close>

lemma map_of_each_service:
  "map_of (each_service f services) name
     = map_option (\<lambda>v. case v of YMap m \<Rightarrow> YMap (f m) | _ \<Rightarrow> v) (map_of services name)"
  by (induction services) (auto simp: each_service_def split: yval.split)

lemma services_of_update [simp]: "services_of (AList.update ''services'' (YMap s) doc) = s"
  by (simp add: services_of_def update_conv')

text \<open>What the three passes make of one service.\<close>

definition rendered_service :: "string_map \<Rightarrow> Network list \<Rightarrow> VolumeAttachmentView list \<Rightarrow> ymap \<Rightarrow> ymap" where
  "rendered_service envVars ns vs svc =
     (let svc1 = (if envVars = [] then svc else injectEnv envVars svc);
          svc2 = (if ns = [] then svc1 else append_to_list ''networks'' (map net_Name ns) svc1)
      in if vs = [] then svc2 else append_to_list ''volumes'' (map volume_bind vs) svc2)"

lemma map_of_rendered_doc:
  assumes "map_of (services_of (normalizeTopLevel parsed)) name = Some (YMap svc)"
  shows "map_of (services_of (rendered_doc parsed envVars ns vs)) name = Some (YMap (rendered_service envVars ns vs svc))"
  using assms
  by (auto simp: rendered_doc_def rendered_service_def Let_def injectNetworks_def injectVolumes_def map_of_each_service
      split: prod.split)

lemma map_of_append_to_list:
  "map_of (append_to_list field names svc) f =
     (if f = field then Some (YSeq (fold append_missing names (seq_items (map_of svc field)))) else map_of svc f)"
  by (simp add: append_to_list_def update_conv')

lemma map_of_injectEnv_other: "f \<noteq> ''environment'' \<Longrightarrow> map_of (injectEnv envVars svc) f = map_of svc f"
  by (auto simp: injectEnv_def update_conv' Let_def split: option.split yval.split)

lemma strings_in_simps [simp]: "strings_in [] = []" "strings_in (x # xs) = (case x of YString s \<Rightarrow> [s] | _ \<Rightarrow> []) @ strings_in xs"
  "strings_in (xs @ ys) = strings_in xs @ strings_in ys"
  by (simp_all add: strings_in_def)

text \<open>Appending keeps the list and adds the missing names, each once.\<close>

lemma fold_append_missing:
  "prefix l (fold append_missing names l)
   \<and> set (strings_in (fold append_missing names l)) = set (strings_in l) \<union> set names"
proof (induction names arbitrary: l)
  case (Cons n names)
  have "prefix l (append_missing n l)" "set (strings_in (append_missing n l)) = insert n (set (strings_in l))"
    by (auto simp: append_missing_def)
  with Cons [of "append_missing n l"] show ?case by (auto intro: prefix_order.trans)
qed simp

lemma map_of_fold_add_env:
  "map_of (fold (add_env envVars) ks env) k =
     (case map_of env k of Some v \<Rightarrow> Some v
      | None \<Rightarrow> if k \<in> set ks then Some (YString (null_string (map_of envVars k))) else None)"
proof (induction ks arbitrary: env)
  case (Cons x ks)
  then show ?case by (auto simp: add_env_def update_conv' split: option.split)
qed (simp split: option.split)

lemma set_sortedKeys: "k \<in> set (sortedKeys m) \<longleftrightarrow> map_of m k \<noteq> None"
  by (auto simp: sortedKeys_def map_of_eq_None_iff)

text \<open>The names that the entries of an environment given as a list define, and the entries that injection adds to it.\<close>

definition env_names :: "yval list \<Rightarrow> string set" where
  "env_names l = takeWhile (\<lambda>c. c \<noteq> CHR ''='') ` set (strings_in l)"

lemma env_list_inject:
  assumes "map_of svc ''environment'' = Some (YSeq l)"
  shows "\<exists>new. map_of (injectEnv envVars svc) ''environment'' = Some (YSeq (l @ new))
    \<and> set new = {YString (k @ ''='' @ v) |k v. map_of envVars k = Some v \<and> k \<notin> env_names l}"
proof -
  let ?ks = "filter (\<lambda>k. k \<notin> env_names l) (sortedKeys envVars)"
  let ?new = "map (env_entry envVars) ?ks"
  have "x \<in> set ?new \<longleftrightarrow> (\<exists>k v. x = YString (k @ ''='' @ v) \<and> map_of envVars k = Some v \<and> k \<notin> env_names l)" for x
    by (force simp: set_sortedKeys env_entry_def null_string_def)
  then have "set ?new = {YString (k @ ''='' @ v) |k v. map_of envVars k = Some v \<and> k \<notin> env_names l}" by blast
  moreover have "map_of (injectEnv envVars svc) ''environment'' = Some (YSeq (l @ ?new))"
    using assms by (simp add: injectEnv_def Let_def update_conv' env_names_def)
  ultimately show ?thesis by blast
qed

text \<open>What becomes of the field \<open>environment\<close>, of whatever form.\<close>

definition env_injected :: "string_map \<Rightarrow> yval option \<Rightarrow> yval option \<Rightarrow> bool" where
  "env_injected envVars old new \<longleftrightarrow> (case old of
     Some (YSeq l) \<Rightarrow> \<exists>es. new = Some (YSeq (l @ es))
       \<and> set es = {YString (k @ ''='' @ v) |k v. map_of envVars k = Some v \<and> k \<notin> env_names l}
   | Some (YMap env) \<Rightarrow> \<exists>env'. new = Some (YMap env')
       \<and> (\<forall>k. map_of env' k = (case map_of env k of Some v \<Rightarrow> Some v | None \<Rightarrow> map_option YString (map_of envVars k)))
   | Some YNull \<Rightarrow> \<exists>env'. new = Some (YMap env') \<and> (\<forall>k. map_of env' k = map_option YString (map_of envVars k))
   | None \<Rightarrow> \<exists>env'. new = Some (YMap env') \<and> (\<forall>k. map_of env' k = map_option YString (map_of envVars k))
   | Some other \<Rightarrow> new = old)"

text \<open>What becomes of a field with a list of names; a field of another form counts as an empty list.\<close>

definition names_appended :: "string list \<Rightarrow> yval option \<Rightarrow> yval option \<Rightarrow> bool" where
  "names_appended names old new \<longleftrightarrow> (\<exists>l. new = Some (YSeq l) \<and> prefix (seq_items old) l
     \<and> set (strings_in l) = set (strings_in (seq_items old)) \<union> set names)"

lemma injectEnv_injects: "env_injected envVars (map_of svc ''environment'') (map_of (injectEnv envVars svc) ''environment'')"
proof -
  have fold: "map_of (fold (add_env envVars) (sortedKeys envVars) e) k
      = (case map_of e k of Some v \<Rightarrow> Some v | None \<Rightarrow> map_option YString (map_of envVars k))" for e k
    by (cases "map_of envVars k") (auto simp: map_of_fold_add_env set_sortedKeys null_string_def split: option.split)
  show ?thesis
  proof (cases "\<exists>l. map_of svc ''environment'' = Some (YSeq l)")
    case True
    then obtain l where l: "map_of svc ''environment'' = Some (YSeq l)" by blast
    with env_list_inject [OF l, of envVars] show ?thesis by (simp add: env_injected_def)
  next
    case False
    then show ?thesis
      by (auto simp: env_injected_def injectEnv_def update_conv' fold split: option.split yval.split)
  qed
qed

lemma append_to_list_appends: "names_appended names (map_of svc field) (map_of (append_to_list field names svc) field)"
  using fold_append_missing [of "seq_items (map_of svc field)" names] by (simp add: names_appended_def map_of_append_to_list)

lemma map_fst_each_service [simp]: "map fst (each_service f services) = map fst services"
  by (simp add: each_service_def comp_def case_prod_beta)

lemma services_of_rendered_doc:
  "map fst (services_of (rendered_doc parsed envVars ns vs)) = map fst (services_of (normalizeTopLevel parsed))"
  by (simp add: rendered_doc_def Let_def injectNetworks_def injectVolumes_def)

definition demo_network :: Network where
  "demo_network = \<lparr>net_ID = ''n1'', net_OrganizationID = ''o1'', net_Name = ''front'', net_External = True,
     net_CreatedBy = ''alice'', net_CreatedAt = 0\<rparr>"

definition demo_volume :: VolumeAttachmentView where
  "demo_volume = \<lparr>vav_Volume = \<lparr>vol_ID = ''v1'', vol_OrganizationID = ''o1'', vol_Name = ''data'', vol_HostPath = ''/srv'',
     vol_CreatedBy = ''alice'', vol_CreatedAt = 0\<rparr>, vav_ContainerPath = ''/data''\<rparr>"

definition demo_service :: "yval \<Rightarrow> ymap" where
  "demo_service nets = [(''image'', YString ''app''), (''environment'', YMap [(''A'', YString ''1'')]), (''networks'', nets)]"

definition demo_list_service :: ymap where
  "demo_list_service = [(''image'', YString ''app''), (''environment'', YSeq [YString ''A=1''])]"

text \<open>
  C21: What rendering does to every service of a compose file, whichever attachments there are. The services are the same, in the same
  order. If the file has variables, an environment given as a mapping keeps its entries and gets the other variables; one given
  as a list keeps its entries, in front, and gets exactly the entries \<^verbatim>\<open>NAME=value\<close> of the variables that no entry of it names; a missing or
  empty one becomes the mapping of the variables; a scalar is left alone. If networks are attached, the service's list of networks
  keeps its entries, in front, and in addition names exactly these (a field of any other form, a mapping included, counts as an empty list); the same
  for volumes. Without variables, networks or volumes the field is untouched, and so is every other field.
\<close>

theorem rendering_injects:
  assumes "map_of (services_of (normalizeTopLevel parsed)) name = Some (YMap svc)"
  shows "map fst (services_of (rendered_doc parsed envVars ns vs)) = map fst (services_of (normalizeTopLevel parsed))
    \<and> (\<exists>svc'. map_of (services_of (rendered_doc parsed envVars ns vs)) name = Some (YMap svc')
    \<and> (if envVars = [] then map_of svc' ''environment'' = map_of svc ''environment''
       else env_injected envVars (map_of svc ''environment'') (map_of svc' ''environment''))
    \<and> (if ns = [] then map_of svc' ''networks'' = map_of svc ''networks''
       else names_appended (map net_Name ns) (map_of svc ''networks'') (map_of svc' ''networks''))
    \<and> (if vs = [] then map_of svc' ''volumes'' = map_of svc ''volumes''
       else names_appended (map volume_bind vs) (map_of svc ''volumes'') (map_of svc' ''volumes''))
    \<and> (\<forall>f. f \<notin> {''environment'', ''networks'', ''volumes''} \<longrightarrow> map_of svc' f = map_of svc f))"
proof -
  let ?svc = "rendered_service envVars ns vs svc"
  have env: "if envVars = [] then map_of ?svc ''environment'' = map_of svc ''environment''
       else env_injected envVars (map_of svc ''environment'') (map_of ?svc ''environment'')"
    using injectEnv_injects [of envVars svc] by (simp add: rendered_service_def Let_def map_of_append_to_list)
  have nets: "if ns = [] then map_of ?svc ''networks'' = map_of svc ''networks''
       else names_appended (map net_Name ns) (map_of svc ''networks'') (map_of ?svc ''networks'')"
    using append_to_list_appends [of "map net_Name ns" svc "''networks''"]
    by (simp add: rendered_service_def Let_def map_of_append_to_list map_of_injectEnv_other)
  have vols: "if vs = [] then map_of ?svc ''volumes'' = map_of svc ''volumes''
       else names_appended (map volume_bind vs) (map_of svc ''volumes'') (map_of ?svc ''volumes'')"
    using append_to_list_appends [of "map volume_bind vs" svc "''volumes''"]
    by (simp add: rendered_service_def Let_def map_of_append_to_list map_of_injectEnv_other)
  have "\<forall>f. f \<notin> {''environment'', ''networks'', ''volumes''} \<longrightarrow> map_of ?svc f = map_of svc f"
    by (simp add: rendered_service_def Let_def map_of_append_to_list map_of_injectEnv_other)
  with env nets vols map_of_rendered_doc [OF assms] services_of_rendered_doc show ?thesis
    by (intro conjI exI [of _ ?svc])
qed

text \<open>A service whose environment is a list, with a network attached and no volume.\<close>

theorem rendering_injects_witness:
  "\<exists>svc' es. map_of (services_of (rendered_doc [(''web'', YMap demo_list_service)] [(''A'', ''2''), (''B'', ''3'')] [demo_network] [])) ''web''
       = Some (YMap svc')
     \<and> map_of svc' ''environment'' = Some (YSeq (YString ''A=1'' # es)) \<and> set es = {YString ''B=3''}
     \<and> map_of svc' ''volumes'' = None \<and> map_of svc' ''image'' = Some (YString ''app'')"
proof -
  have "map_of (services_of (normalizeTopLevel [(''web'', YMap demo_list_service)])) ''web'' = Some (YMap demo_list_service)"
    by (simp add: normalizeTopLevel_def services_of_def reservedTopLevelKeys_def)
  note r = rendering_injects [OF this, of "[(''A'', ''2''), (''B'', ''3'')]" "[demo_network]" "[]", THEN conjunct2]
  from r obtain svc' where svc':
    "map_of (services_of (rendered_doc [(''web'', YMap demo_list_service)] [(''A'', ''2''), (''B'', ''3'')] [demo_network] [])) ''web'' = Some (YMap svc')"
    "env_injected [(''A'', ''2''), (''B'', ''3'')] (map_of demo_list_service ''environment'') (map_of svc' ''environment'')"
    "map_of svc' ''volumes'' = map_of demo_list_service ''volumes''"
    "\<forall>f. f \<notin> {''environment'', ''networks'', ''volumes''} \<longrightarrow> map_of svc' f = map_of demo_list_service f"
    unfolding if_P [OF refl] if_not_P [OF list.distinct(2)] by (elim exE conjE) rule
  have "env_names [YString ''A=1''] = {''A''}" by (simp add: env_names_def)
  moreover have "map_of [(''A'', ''2''), (''B'', ''3'')] k = Some v \<and> k \<notin> {''A''} \<longleftrightarrow> k = ''B'' \<and> v = ''3''" for k v :: string by auto
  ultimately have "{YString (k @ ''='' @ v) |k v. map_of [(''A'', ''2''), (''B'', ''3'')] k = Some v \<and> k \<notin> env_names [YString ''A=1'']} = {YString ''B=3''}"
    by simp
  moreover have "map_of demo_list_service ''environment'' = Some (YSeq [YString ''A=1''])" "map_of demo_list_service ''volumes'' = None"
    "map_of demo_list_service ''image'' = Some (YString ''app'')" by (simp_all add: demo_list_service_def)
  ultimately obtain es where "map_of svc' ''environment'' = Some (YSeq ([YString ''A=1''] @ es))" "set es = {YString ''B=3''}"
    using svc'(2) unfolding env_injected_def by auto
  with svc'(1,3,4) show ?thesis by (intro exI [of _ svc'] exI [of _ es]) (simp add: demo_list_service_def)
qed

text \<open>
  A service that names its networks as a mapping (\<^verbatim>\<open>networks: {back: {aliases: [db]}}\<close>) loses them: after rendering it is connected
  to the attached networks only.
\<close>

lemma mapping_networks_are_dropped:
  "services_of (rendered_doc [(''web'', YMap (demo_service (YMap [(''back'', YMap [(''aliases'', YSeq [YString ''db''])])])))]
     [] [demo_network] []) = [(''web'', YMap (demo_service (YSeq [YString ''front''])))]"
  by (simp add: rendered_doc_def Let_def injectNetworks_def each_service_def append_to_list_def normalizeTopLevel_def services_of_def
      reservedTopLevelKeys_def demo_service_def seq_items_def append_missing_def demo_network_def)

end
