(* ===== verification/Tenancy_Handlers.thy ===== *)
theory Tenancy_Handlers
  imports Http Tenancy
begin

text \<open>
  The REST adapter of Tenancy (\<^verbatim>\<open>internal/tenancy/adapters/http\<close>): every handler reads the user from the context,
  decodes the body, calls its service and translates the result. \<open>stamp\<close> is the text of a time. The names of a request struct's
  fields are a list of strings; a response struct is a function to JSON.
\<close>

section \<open>Organizations and members\<close>

definition createOrganizationRequest :: "string list" where
  "createOrganizationRequest = [''name'', ''slug'']"

definition toOrganizationResponse :: "(time \<Rightarrow> string) \<Rightarrow> Organization \<Rightarrow> json" where
  "toOrganizationResponse stamp og = JObject [(''id'', JString (org_ID og)), (''name'', JString (org_Name og)),
     (''slug'', JString (org_Slug og)), (''status'', JString (org_Status og)), (''created_at'', JString (stamp (org_CreatedAt og)))]"

definition CreateOrganizationHandler :: "(time \<Rightarrow> string) \<Rightarrow> (nat \<Rightarrow> id) \<Rightarrow> handler" where
  "CreateOrganizationHandler stamp u r = withUser r (\<lambda>userID. withStrings createOrganizationRequest r (\<lambda>req.
     serve (CreateOrganization_Execute u (req ''name'') (req ''slug'') userID)
       (invalid r (problem r
         [(ErrForbidden, 403, ''forbidden'', ''requires platform admin''),
          (ErrOrganizationSlugTaken, 409, ''organization already exists'', ''an organization with this slug already exists'')]
         ''failed to create organization''))
       (\<lambda>og. writeJSON 201 (toOrganizationResponse stamp og))))"

definition GetOrganizationHandler :: "(time \<Rightarrow> string) \<Rightarrow> handler" where
  "GetOrganizationHandler stamp r = withUser r (\<lambda>userID.
     serve (GetOrganization_Execute (rq_PathValue r ''id'') userID)
       (problem r [(ErrOrganizationNotFound, 404, ''organization not found'', [])] ''failed to fetch organization'')
       (\<lambda>og. writeJSON 200 (toOrganizationResponse stamp og)))"

definition ListMyOrganizationsHandler :: "(time \<Rightarrow> string) \<Rightarrow> handler" where
  "ListMyOrganizationsHandler stamp r = withUser r (\<lambda>userID.
     serve (ListMyOrganizations_Execute userID)
       (problem r [] ''failed to list organizations'')
       (\<lambda>ogs. writeJSON 200 (listBody (toOrganizationResponse stamp) ogs)))"

definition ArchiveOrganizationHandler :: "(time \<Rightarrow> string) \<Rightarrow> id \<Rightarrow> handler" where
  "ArchiveOrganizationHandler stamp uuid r = withUser r (\<lambda>userID.
     serve (ArchiveOrganization_Execute uuid (rq_Scopes r) (rq_PathValue r ''id'') userID)
       (problem r
         [(ErrForbidden, 403, ''forbidden'', ''requires organization:delete''),
          (ErrOrganizationNotFound, 404, ''organization not found'', []),
          (ErrOrganizationAlreadyArchived, 409, ''organization is already archived'', [])]
         ''failed to archive organization'')
       (\<lambda>og. writeJSON 200 (toOrganizationResponse stamp og)))"

definition DeleteOrganizationHandler :: handler where
  "DeleteOrganizationHandler r = withUser r (\<lambda>userID.
     serve (DeleteOrganization_Execute (rq_Scopes r) (rq_PathValue r ''id'') userID)
       (problem r
         [(ErrForbidden, 403, ''forbidden'', ''requires organization:delete''),
          (ErrOrganizationNotFound, 404, ''organization not found'', [])]
         ''failed to delete organization'')
       (\<lambda>_. writeStatus 204))"

definition addMemberRequest :: "string list" where
  "addMemberRequest = [''user_id'']"

definition AddMemberHandler :: "(nat \<Rightarrow> id) \<Rightarrow> handler" where
  "AddMemberHandler u r = withUser r (\<lambda>userID. withStrings addMemberRequest r (\<lambda>req.
     serve (AddMember_Execute u (rq_Scopes r) (rq_PathValue r ''id'') userID (req ''user_id''))
       (problem r
         [(ErrForbidden, 403, ''forbidden'', ''requires organization:manage''),
          (ErrOrganizationNotFound, 404, ''organization not found'', [])]
         ''failed to add member'')
       (\<lambda>_. writeStatus 204)))"

definition changeMemberRoleRequest :: "string list" where
  "changeMemberRoleRequest = [''role'']"

definition ChangeMemberRoleHandler :: "id \<Rightarrow> handler" where
  "ChangeMemberRoleHandler uuid r = withUser r (\<lambda>userID. withStrings changeMemberRoleRequest r (\<lambda>req.
     serve (ChangeMemberRole_Execute uuid (rq_Scopes r) (rq_PathValue r ''id'') userID (rq_PathValue r ''userID'') (req ''role''))
       (invalid r (problem r
         [(ErrForbidden, 403, ''forbidden'', ''requires organization:manage''),
          (ErrOrganizationNotFound, 404, ''organization or member not found'', [])]
         ''failed to change member role''))
       (\<lambda>_. writeStatus 204)))"

definition toMemberResponse :: "(time \<Rightarrow> string) \<Rightarrow> MemberSummary \<Rightarrow> json" where
  "toMemberResponse stamp m = JObject [(''user_id'', JString (ms_UserID m)), (''username'', JString (ms_Username m)),
     (''email'', JString (ms_Email m)), (''role_name'', JString (ms_RoleName m)), (''joined_at'', JString (stamp (ms_JoinedAt m))),
     (''blocked'', JBool (ms_Blocked m))]"

definition BlockMemberHandler :: handler where
  "BlockMemberHandler r = withUser r (\<lambda>userID.
     serve (BlockMember_Execute (rq_Scopes r) (rq_PathValue r ''id'') userID (rq_PathValue r ''userID''))
       (problem r
         [(ErrForbidden, 403, ''forbidden'', ''requires organization:manage''),
          (ErrOrganizationNotFound, 404, ''organization or member not found'', [])]
         ''failed to block member'')
       (\<lambda>_. writeStatus 204))"

definition UnblockMemberHandler :: handler where
  "UnblockMemberHandler r = withUser r (\<lambda>userID.
     serve (UnblockMember_Execute (rq_Scopes r) (rq_PathValue r ''id'') userID (rq_PathValue r ''userID''))
       (problem r
         [(ErrForbidden, 403, ''forbidden'', ''requires organization:manage''),
          (ErrOrganizationNotFound, 404, ''organization or member not found'', [])]
         ''failed to unblock member'')
       (\<lambda>_. writeStatus 204))"

definition RemoveMemberHandler :: handler where
  "RemoveMemberHandler r = withUser r (\<lambda>userID.
     serve (RemoveMember_Execute (rq_Scopes r) (rq_PathValue r ''id'') userID (rq_PathValue r ''userID''))
       (problem r
         [(ErrForbidden, 403, ''forbidden'', ''requires organization:manage''),
          (ErrOrganizationNotFound, 404, ''organization or member not found'', [])]
         ''failed to remove member'')
       (\<lambda>_. writeStatus 204))"

definition ListMembersHandler :: "(time \<Rightarrow> string) \<Rightarrow> handler" where
  "ListMembersHandler stamp r = withUser r (\<lambda>userID.
     serve (ListMembers_Execute (rq_PathValue r ''id'') userID)
       (problem r [(ErrOrganizationNotFound, 404, ''organization not found'', [])] ''failed to list members'')
       (\<lambda>ms. writeJSON 200 (listBody (toMemberResponse stamp) ms)))"

definition availableUserResponse :: "id \<times> string \<times> string \<Rightarrow> json" where
  "availableUserResponse = (\<lambda>(i, username, email).
     JObject [(''id'', JString i), (''username'', JString username), (''email'', JString email)])"

definition ListAvailableUsersHandler :: handler where
  "ListAvailableUsersHandler r = withUser r (\<lambda>userID.
     serve (ListAvailableUsers_Execute (rq_Scopes r) (rq_PathValue r ''id'') userID)
       (problem r
         [(ErrForbidden, 403, ''forbidden'', ''requires organization:manage''),
          (ErrOrganizationNotFound, 404, ''organization not found'', [])]
         ''failed to list available users'')
       (\<lambda>us. writeJSON 200 (listBody availableUserResponse us)))"

section \<open>Projects\<close>

definition createProjectRequest :: "string list" where
  "createProjectRequest = [''name'', ''slug'', ''description'']"

definition toProjectResponse :: "(time \<Rightarrow> string) \<Rightarrow> Project \<Rightarrow> json" where
  "toProjectResponse stamp p = JObject [(''id'', JString (prj_ID p)), (''organization_id'', JString (prj_OrganizationID p)),
     (''name'', JString (prj_Name p)), (''slug'', JString (prj_Slug p)), (''description'', JString (prj_Description p)),
     (''created_at'', JString (stamp (prj_CreatedAt p)))]"

definition CreateProjectHandler :: "(time \<Rightarrow> string) \<Rightarrow> id \<Rightarrow> handler" where
  "CreateProjectHandler stamp uuid r = withUser r (\<lambda>userID. withStrings createProjectRequest r (\<lambda>req.
     serve (CreateProject_Execute uuid (rq_Scopes r) (rq_PathValue r ''id'') userID (req ''name'') (req ''slug'') (req ''description''))
       (invalid r (problem r
         [(ErrForbidden, 403, ''forbidden'', ''requires project:manage''),
          (ErrOrganizationNotFound, 404, ''organization not found'', []),
          (ErrOrganizationArchived, 409, ''organization is archived'', []),
          (ErrProjectAlreadyExists, 409, ''project already exists'', ''a project with this slug already exists in this organization'')]
         ''failed to create project''))
       (\<lambda>p. writeJSON 201 (toProjectResponse stamp p))))"

definition ListProjectsHandler :: "(time \<Rightarrow> string) \<Rightarrow> handler" where
  "ListProjectsHandler stamp r = withUser r (\<lambda>userID.
     serve (ListProjects_Execute (rq_Scopes r) (rq_PathValue r ''id'') userID)
       (problem r
         [(ErrOrganizationNotFound, 404, ''organization not found'', []),
          (ErrForbidden, 403, ''forbidden'', ''requires project:read'')]
         ''failed to list projects'')
       (\<lambda>ps. writeJSON 200 (listBody (toProjectResponse stamp) ps)))"

definition GetProjectHandler :: "(time \<Rightarrow> string) \<Rightarrow> handler" where
  "GetProjectHandler stamp r = withUser r (\<lambda>userID.
     serve (GetProject_Execute (rq_Scopes r) (rq_PathValue r ''id'') (rq_PathValue r ''projectID'') userID)
       (problem r
         [(ErrOrganizationNotFound, 404, ''project not found'', []),
          (ErrProjectNotFound, 404, ''project not found'', []),
          (ErrForbidden, 403, ''forbidden'', ''requires project:read'')]
         ''failed to fetch project'')
       (\<lambda>p. writeJSON 200 (toProjectResponse stamp p)))"

definition DeleteProjectHandler :: handler where
  "DeleteProjectHandler r = withUser r (\<lambda>userID.
     serve (DeleteProject_Execute (rq_Scopes r) (rq_PathValue r ''id'') (rq_PathValue r ''projectID'') userID)
       (problem r
         [(ErrOrganizationNotFound, 404, ''project not found'', []),
          (ErrProjectNotFound, 404, ''project not found'', []),
          (ErrForbidden, 403, ''forbidden'', ''requires project:manage'')]
         ''failed to delete project'')
       (\<lambda>_. writeStatus 204))"

section \<open>Teams\<close>

definition createTeamRequest :: "string list" where
  "createTeamRequest = [''name'']"

definition toTeamResponse :: "(time \<Rightarrow> string) \<Rightarrow> Team \<Rightarrow> json" where
  "toTeamResponse stamp t = JObject [(''id'', JString (team_ID t)), (''organization_id'', JString (team_OrganizationID t)),
     (''name'', JString (team_Name t)), (''created_at'', JString (stamp (team_CreatedAt t)))]"

definition writeTeamError :: "Request \<Rightarrow> string \<Rightarrow> err \<Rightarrow> Response" where
  "writeTeamError r notFoundMessage = invalid r (problem r
     [(ErrForbidden, 403, ''forbidden'', ''requires organization:manage''),
      (ErrOrganizationNotFound, 404, notFoundMessage, []),
      (ErrTeamNotFound, 404, notFoundMessage, []),
      (ErrTeamAlreadyExists, 409, ''team already exists'', ''a team with this name already exists in this organization'')]
     ''internal error'')"

definition CreateTeamHandler :: "(time \<Rightarrow> string) \<Rightarrow> id \<Rightarrow> handler" where
  "CreateTeamHandler stamp uuid r = withUser r (\<lambda>userID. withStrings createTeamRequest r (\<lambda>req.
     serve (CreateTeam_Execute uuid (rq_Scopes r) (rq_PathValue r ''id'') userID (req ''name''))
       (writeTeamError r ''organization not found'') (\<lambda>t. writeJSON 201 (toTeamResponse stamp t))))"

definition updateTeamRequest :: "string list" where
  "updateTeamRequest = [''name'']"

definition UpdateTeamHandler :: "(time \<Rightarrow> string) \<Rightarrow> handler" where
  "UpdateTeamHandler stamp r = withUser r (\<lambda>userID. withStrings updateTeamRequest r (\<lambda>req.
     serve (UpdateTeam_Execute (rq_Scopes r) (rq_PathValue r ''id'') userID (rq_PathValue r ''team'') (req ''name''))
       (writeTeamError r ''team not found'') (\<lambda>t. writeJSON 200 (toTeamResponse stamp t))))"

definition DeleteTeamHandler :: handler where
  "DeleteTeamHandler r = withUser r (\<lambda>userID.
     serve (DeleteTeam_Execute (rq_Scopes r) (rq_PathValue r ''id'') userID (rq_PathValue r ''team''))
       (writeTeamError r ''team not found'') (\<lambda>_. writeStatus 204))"

definition ListTeamsHandler :: "(time \<Rightarrow> string) \<Rightarrow> handler" where
  "ListTeamsHandler stamp r = withUser r (\<lambda>userID.
     serve (ListTeams_Execute (rq_PathValue r ''id'') userID)
       (writeTeamError r ''organization not found'') (\<lambda>ts. writeJSON 200 (listBody (toTeamResponse stamp) ts)))"

definition addTeamMemberRequest :: "string list" where
  "addTeamMemberRequest = [''user_id'']"

definition AddTeamMemberHandler :: "id \<Rightarrow> handler" where
  "AddTeamMemberHandler uuid r = withUser r (\<lambda>userID. withStrings addTeamMemberRequest r (\<lambda>req.
     serve (AddTeamMember_Execute uuid (rq_Scopes r) (rq_PathValue r ''id'') userID (rq_PathValue r ''team'') (req ''user_id''))
       (writeTeamError r ''team not found'') (\<lambda>_. writeStatus 204)))"

definition toTeamMemberResponse :: "(time \<Rightarrow> string) \<Rightarrow> id \<times> string \<times> string \<times> time \<Rightarrow> json" where
  "toTeamMemberResponse stamp = (\<lambda>(userID, username, email, joinedAt).
     JObject [(''user_id'', JString userID), (''username'', JString username), (''email'', JString email),
       (''joined_at'', JString (stamp joinedAt))])"

definition ListTeamMembersHandler :: "(time \<Rightarrow> string) \<Rightarrow> handler" where
  "ListTeamMembersHandler stamp r = withUser r (\<lambda>userID.
     serve (ListTeamMembers_Execute (rq_PathValue r ''id'') (rq_PathValue r ''team'') userID)
       (writeTeamError r ''team not found'') (\<lambda>ms. writeJSON 200 (listBody (toTeamMemberResponse stamp) ms)))"

definition RemoveTeamMemberHandler :: handler where
  "RemoveTeamMemberHandler r = withUser r (\<lambda>userID.
     serve (RemoveTeamMember_Execute (rq_Scopes r) (rq_PathValue r ''id'') userID (rq_PathValue r ''team'') (rq_PathValue r ''user_id''))
       (writeTeamError r ''team not found'') (\<lambda>_. writeStatus 204))"

end
