(* ===== verification/Rbac_Handlers.thy ===== *)
theory Rbac_Handlers
  imports Http Rbac
begin

text \<open>The REST adapter of RBAC (\<^verbatim>\<open>internal/rbac/adapters/http\<close>). \<open>stamp\<close> is the text of a time.\<close>

definition writeRBACError :: "Request \<Rightarrow> err \<Rightarrow> Response" where
  "writeRBACError r = invalid r (problem r
     [(ErrForbidden, 403, ''forbidden'', []),
      (ErrRoleNotFound, 404, ''role not found'', []),
      (ErrRoleAlreadyExists, 409, ''role already exists'', ''a role with this name already exists in this organization'')]
     ''internal error'')"

section \<open>Roles\<close>

record createRoleRequest =
  crr_Name :: string
  crr_Permissions :: "string list"

definition decodeCreateRole :: "string \<Rightarrow> json \<Rightarrow> createRoleRequest \<Rightarrow> createRoleRequest option" where
  "decodeCreateRole k v req =
     (if k = ''name'' then scalar asString (\<lambda>x req. req\<lparr>crr_Name := x\<rparr>) v req
      else if k = ''permissions'' then strings (\<lambda>x req. req\<lparr>crr_Permissions := x\<rparr>) v req
      else Some req)"

definition toRoleResponse :: "Role \<Rightarrow> json" where
  "toRoleResponse r = JObject [(''id'', JString (role_ID r)), (''organization_id'', nullable (role_OrganizationID r)),
     (''name'', JString (role_Name r)), (''permissions'', JArray (map JString (role_Permissions r)))]"

definition CreateRoleHandler :: "id \<Rightarrow> handler" where
  "CreateRoleHandler uuid r = withUser r (\<lambda>userID. withBody decodeCreateRole \<lparr>crr_Name = [], crr_Permissions = []\<rparr> r (\<lambda>req.
     serve (CreateRole_Execute uuid (rq_Scopes r) (rq_PathValue r ''id'') userID (crr_Name req) (crr_Permissions req))
       (writeRBACError r) (\<lambda>role. writeJSON 201 (toRoleResponse role))))"

definition decodeUpdateRole :: "string \<Rightarrow> json \<Rightarrow> string list \<Rightarrow> string list option" where
  "decodeUpdateRole k v permissions =
     (if k = ''permissions'' then strings (\<lambda>x _. x) v permissions else Some permissions)"

definition UpdateRoleHandler :: handler where
  "UpdateRoleHandler r = withUser r (\<lambda>userID. withBody decodeUpdateRole [] r (\<lambda>permissions.
     serve (UpdateRole_Execute (rq_Scopes r) (rq_PathValue r ''id'') userID (rq_PathValue r ''role'') permissions)
       (writeRBACError r) (\<lambda>role. writeJSON 200 (toRoleResponse role))))"

definition ListRolesHandler :: handler where
  "ListRolesHandler r = withUser r (\<lambda>userID.
     serve (ListRoles_Execute (rq_PathValue r ''id'') userID)
       (writeRBACError r) (\<lambda>roles. writeJSON 200 (listBody toRoleResponse roles)))"

section \<open>Role bindings\<close>

text \<open>The structs \<^verbatim>\<open>subjectRef\<close> and \<^verbatim>\<open>scopeRef\<close> have the same two fields.\<close>

definition refFields :: "string list" where
  "refFields = [''type'', ''id'']"

record createRoleBindingRequest =
  crb_RoleID :: string
  crb_Subject :: "string \<Rightarrow> string"
  crb_Scope :: "string \<Rightarrow> string"
  crb_Effect :: string

definition decodeCreateRoleBinding :: "string \<Rightarrow> json \<Rightarrow> createRoleBindingRequest \<Rightarrow> createRoleBindingRequest option" where
  "decodeCreateRoleBinding k v req =
     (if k = ''role_id'' then scalar asString (\<lambda>x req. req\<lparr>crb_RoleID := x\<rparr>) v req
      else if k = ''subject'' then struct (setStrings refFields) (crb_Subject req) (\<lambda>x req. req\<lparr>crb_Subject := x\<rparr>) v req
      else if k = ''scope'' then struct (setStrings refFields) (crb_Scope req) (\<lambda>x req. req\<lparr>crb_Scope := x\<rparr>) v req
      else if k = ''effect'' then scalar asString (\<lambda>x req. req\<lparr>crb_Effect := x\<rparr>) v req
      else Some req)"

definition toRoleBindingResponse :: "(time \<Rightarrow> string) \<Rightarrow> RoleBinding \<Rightarrow> json" where
  "toRoleBindingResponse stamp b = JObject [(''id'', JString (rb_ID b)), (''organization_id'', JString (rb_OrganizationID b)),
     (''role_id'', JString (rb_RoleID b)), (''subject_type'', JString (rb_SubjectType b)), (''subject_id'', JString (rb_SubjectID b)),
     (''scope_type'', JString (rb_ScopeType b)), (''scope_id'', JString (rb_ScopeID b)), (''effect'', JString (rb_Effect b)),
     (''created_at'', JString (stamp (rb_CreatedAt b)))]"

definition CreateRoleBindingHandler :: "(time \<Rightarrow> string) \<Rightarrow> id \<Rightarrow> handler" where
  "CreateRoleBindingHandler stamp uuid r = withUser r (\<lambda>userID.
     withBody decodeCreateRoleBinding \<lparr>crb_RoleID = [], crb_Subject = (\<lambda>_. []), crb_Scope = (\<lambda>_. []), crb_Effect = []\<rparr> r (\<lambda>req.
     serve (CreateRoleBinding_Execute uuid (rq_Scopes r) (rq_PathValue r ''id'') userID (crb_RoleID req) (crb_Subject req ''type'')
         (crb_Subject req ''id'') (crb_Scope req ''type'') (crb_Scope req ''id'') (crb_Effect req))
       (writeRBACError r) (\<lambda>b. writeJSON 201 (toRoleBindingResponse stamp b))))"

definition toRoleBindingSummaryResponse :: "(time \<Rightarrow> string) \<Rightarrow> RoleBindingSummary \<Rightarrow> json" where
  "toRoleBindingSummaryResponse stamp s = (let b = rbs_Binding s in
     JObject [(''id'', JString (rb_ID b)), (''organization_id'', JString (rb_OrganizationID b)), (''role_id'', JString (rb_RoleID b)),
     (''role_name'', JString (rbs_RoleName s)), (''subject_type'', JString (rb_SubjectType b)), (''subject_id'', JString (rb_SubjectID b)),
     (''subject_name'', JString (rbs_SubjectName s)), (''scope_type'', JString (rb_ScopeType b)), (''scope_id'', JString (rb_ScopeID b)),
     (''scope_name'', JString (rbs_ScopeName s)), (''effect'', JString (rb_Effect b)), (''created_at'', JString (stamp (rb_CreatedAt b)))])"

definition ListRoleBindingsHandler :: "(time \<Rightarrow> string) \<Rightarrow> handler" where
  "ListRoleBindingsHandler stamp r = withUser r (\<lambda>userID.
     serve (ListRoleBindings_Execute (rq_PathValue r ''id'') (rq_Query r ''subject_id'') userID)
       (writeRBACError r) (\<lambda>bs. writeJSON 200 (listBody (toRoleBindingSummaryResponse stamp) bs)))"

definition DeleteRoleBindingHandler :: handler where
  "DeleteRoleBindingHandler r = withUser r (\<lambda>userID.
     serve (DeleteRoleBinding_Execute (rq_Scopes r) (rq_PathValue r ''id'') userID (rq_PathValue r ''bindingID''))
       (writeRBACError r) (\<lambda>_. writeStatus 204))"

end
