(* ===== verification/Workspace_Handlers.thy ===== *)
theory Workspace_Handlers
  imports Http Workspaces
begin

text \<open>The REST adapter of Workspace (\<^verbatim>\<open>internal/workspace/adapters/http\<close>). \<open>stamp\<close> is the text of a time.\<close>

text \<open>The errors \<^verbatim>\<open>writeNotFoundOrForbidden\<close> answers; the others are answered with 500 and the title \<open>internal\<close>.\<close>

definition writeNotFoundOrForbidden :: "Request \<Rightarrow> string \<Rightarrow> string \<Rightarrow> err \<Rightarrow> Response" where
  "writeNotFoundOrForbidden r notFoundTitle internal = problem r
     [(ErrForbidden, 403, ''forbidden'', []),
      (ErrProjectNotFound, 404, notFoundTitle, []),
      (ErrEnvironmentNotFound, 404, notFoundTitle, []),
      (ErrWorkspaceNotFound, 404, notFoundTitle, []),
      (ErrOrganizationArchived, 409, ''organization is archived'', [])]
     internal"

section \<open>Environments\<close>

record createEnvironmentRequest =
  cer_Name :: string
  cer_PromotionRank :: int
  cer_RequiresApproval :: bool

definition decodeCreateEnvironment :: "string \<Rightarrow> json \<Rightarrow> createEnvironmentRequest \<Rightarrow> createEnvironmentRequest option" where
  "decodeCreateEnvironment k v req =
     (if k = ''name'' then scalar asString (\<lambda>x req. req\<lparr>cer_Name := x\<rparr>) v req
      else if k = ''promotion_rank'' then scalar asInt (\<lambda>x req. req\<lparr>cer_PromotionRank := x\<rparr>) v req
      else if k = ''requires_approval'' then scalar asBool (\<lambda>x req. req\<lparr>cer_RequiresApproval := x\<rparr>) v req
      else Some req)"

definition toEnvironmentResponse :: "(time \<Rightarrow> string) \<Rightarrow> Environment \<Rightarrow> json" where
  "toEnvironmentResponse stamp e = JObject [(''id'', JString (env_ID e)), (''organization_id'', JString (env_OrganizationID e)),
     (''project_id'', JString (env_ProjectID e)), (''name'', JString (env_Name e)), (''promotion_rank'', JInt (env_PromotionRank e)),
     (''requires_approval'', JBool (env_RequiresApproval e)), (''created_at'', JString (stamp (env_CreatedAt e)))]"

definition CreateEnvironmentHandler :: "(time \<Rightarrow> string) \<Rightarrow> id \<Rightarrow> handler" where
  "CreateEnvironmentHandler stamp uuid r = withUser r (\<lambda>userID.
     withBody decodeCreateEnvironment \<lparr>cer_Name = [], cer_PromotionRank = 0, cer_RequiresApproval = False\<rparr> r (\<lambda>req.
     serve (CreateEnvironment_Execute uuid (rq_Scopes r) (rq_PathValue r ''id'') (rq_PathValue r ''projectID'') userID
         (cer_Name req) (cer_PromotionRank req) (cer_RequiresApproval req))
       (invalid r (writeNotFoundOrForbidden r ''project not found'' ''failed to create environment''))
       (\<lambda>e. writeJSON 201 (toEnvironmentResponse stamp e))))"

definition ListEnvironmentsHandler :: "(time \<Rightarrow> string) \<Rightarrow> handler" where
  "ListEnvironmentsHandler stamp r = withUser r (\<lambda>userID.
     serve (ListEnvironments_Execute (rq_PathValue r ''id'') (rq_PathValue r ''projectID'') userID)
       (writeNotFoundOrForbidden r ''project not found'' ''failed to list environments'')
       (\<lambda>es. writeJSON 200 (listBody (toEnvironmentResponse stamp) es)))"

definition GetEnvironmentHandler :: "(time \<Rightarrow> string) \<Rightarrow> handler" where
  "GetEnvironmentHandler stamp r = withUser r (\<lambda>userID.
     serve (GetEnvironment_Execute (rq_PathValue r ''id'') (rq_PathValue r ''projectID'') (rq_PathValue r ''envID'') userID)
       (writeNotFoundOrForbidden r ''environment not found'' ''failed to fetch environment'')
       (\<lambda>e. writeJSON 200 (toEnvironmentResponse stamp e)))"

section \<open>Workspaces\<close>

record createWorkspaceRequest =
  cwr_Name :: string
  cwr_ExecutionEngine :: string
  cwr_EnvironmentID :: "string option"

definition decodeCreateWorkspace :: "string \<Rightarrow> json \<Rightarrow> createWorkspaceRequest \<Rightarrow> createWorkspaceRequest option" where
  "decodeCreateWorkspace k v req =
     (if k = ''name'' then scalar asString (\<lambda>x req. req\<lparr>cwr_Name := x\<rparr>) v req
      else if k = ''execution_engine'' then scalar asString (\<lambda>x req. req\<lparr>cwr_ExecutionEngine := x\<rparr>) v req
      else if k = ''environment_id'' then pointer asString (\<lambda>x req. req\<lparr>cwr_EnvironmentID := x\<rparr>) v req
      else Some req)"

definition toWorkspaceResponse :: "(time \<Rightarrow> string) \<Rightarrow> Workspace \<Rightarrow> json" where
  "toWorkspaceResponse stamp w = JObject ([(''id'', JString (ws_ID w)), (''organization_id'', JString (ws_OrganizationID w)),
     (''project_id'', JString (ws_ProjectID w))] @ optional ''environment_id'' (ws_EnvironmentID w) @
     [(''name'', JString (ws_Name w)), (''execution_engine'', JString (ws_ExecutionEngine w)), (''locked'', JBool (ws_Locked w)),
     (''created_at'', JString (stamp (ws_CreatedAt w)))])"

definition CreateWorkspaceHandler :: "(time \<Rightarrow> string) \<Rightarrow> id \<Rightarrow> handler" where
  "CreateWorkspaceHandler stamp uuid r = withUser r (\<lambda>userID.
     withBody decodeCreateWorkspace \<lparr>cwr_Name = [], cwr_ExecutionEngine = [], cwr_EnvironmentID = None\<rparr> r (\<lambda>req.
     serve (CreateWorkspace_Execute uuid (rq_Scopes r) (rq_PathValue r ''id'') (rq_PathValue r ''projectID'') userID
         (cwr_Name req) (cwr_ExecutionEngine req) (cwr_EnvironmentID req))
       (invalid r (writeNotFoundOrForbidden r ''project not found'' ''failed to create workspace''))
       (\<lambda>w. writeJSON 201 (toWorkspaceResponse stamp w))))"

definition ListWorkspacesHandler :: "(time \<Rightarrow> string) \<Rightarrow> handler" where
  "ListWorkspacesHandler stamp r = withUser r (\<lambda>userID.
     serve (ListWorkspaces_Execute (rq_Scopes r) (rq_PathValue r ''id'') (rq_PathValue r ''projectID'') userID)
       (writeNotFoundOrForbidden r ''project not found'' ''failed to list workspaces'')
       (\<lambda>ws. writeJSON 200 (listBody (toWorkspaceResponse stamp) ws)))"

definition DeleteWorkspaceHandler :: handler where
  "DeleteWorkspaceHandler r = withUser r (\<lambda>userID.
     serve (DeleteWorkspace_Execute (rq_Scopes r) (rq_PathValue r ''id'') (rq_PathValue r ''projectID'') (rq_PathValue r ''workspaceID'') userID)
       (writeNotFoundOrForbidden r ''workspace not found'' ''failed to delete workspace'')
       (\<lambda>_. writeStatus 204))"

definition GetWorkspaceHandler :: "(time \<Rightarrow> string) \<Rightarrow> handler" where
  "GetWorkspaceHandler stamp r = withUser r (\<lambda>userID.
     serve (GetWorkspace_Execute (rq_Scopes r) (rq_PathValue r ''id'') (rq_PathValue r ''projectID'') (rq_PathValue r ''workspaceID'') userID)
       (writeNotFoundOrForbidden r ''workspace not found'' ''failed to fetch workspace'')
       (\<lambda>w. writeJSON 200 (toWorkspaceResponse stamp w)))"

end
