(* ===== verification/Variable_Handlers.thy ===== *)
theory Variable_Handlers
  imports Http Variables
begin

text \<open>
  The REST adapter of Variables (\<^verbatim>\<open>internal/variables/adapters/http\<close>). The value of a sensitive variable is never part of a
  response. \<open>stamp\<close> is the text of a time.
\<close>

definition secretRefRequest :: "string list" where
  "secretRefRequest = [''mount_id'', ''path'']"

record createVariableRequest =
  cvr_ScopeType :: string
  cvr_ScopeID :: string
  cvr_Key :: string
  cvr_Category :: string
  cvr_Sensitivity :: string
  cvr_Value :: string
  cvr_SecretRef :: "(string \<Rightarrow> string) option"

definition decodeCreateVariable :: "string \<Rightarrow> json \<Rightarrow> createVariableRequest \<Rightarrow> createVariableRequest option" where
  "decodeCreateVariable k v req =
     (if k = ''scope_type'' then scalar asString (\<lambda>x req. req\<lparr>cvr_ScopeType := x\<rparr>) v req
      else if k = ''scope_id'' then scalar asString (\<lambda>x req. req\<lparr>cvr_ScopeID := x\<rparr>) v req
      else if k = ''key'' then scalar asString (\<lambda>x req. req\<lparr>cvr_Key := x\<rparr>) v req
      else if k = ''category'' then scalar asString (\<lambda>x req. req\<lparr>cvr_Category := x\<rparr>) v req
      else if k = ''sensitivity'' then scalar asString (\<lambda>x req. req\<lparr>cvr_Sensitivity := x\<rparr>) v req
      else if k = ''value'' then scalar asString (\<lambda>x req. req\<lparr>cvr_Value := x\<rparr>) v req
      else if k = ''secret_ref''
      then structPointer (setStrings secretRefRequest) (\<lambda>_. []) (cvr_SecretRef req) (\<lambda>x req. req\<lparr>cvr_SecretRef := x\<rparr>) v req
      else Some req)"

definition secretRefResponse :: "SecretReference option \<Rightarrow> json" where
  "secretRefResponse ref = (case ref of None \<Rightarrow> JNull
   | Some s \<Rightarrow> JObject [(''mount_id'', JString (sr_MountID s)), (''path'', JString (sr_Path s))])"

definition toVariableResponse :: "(time \<Rightarrow> string) \<Rightarrow> Variable \<Rightarrow> json" where
  "toVariableResponse stamp v = JObject [(''id'', JString (var_ID v)), (''organization_id'', JString (var_OrganizationID v)),
     (''scope_type'', JString (var_ScopeType v)), (''scope_id'', JString (var_ScopeID v)), (''key'', JString (var_Key v)),
     (''category'', JString (var_Category v)), (''sensitivity'', JString (var_Sensitivity v)),
     (''value'', if var_Sensitivity v \<noteq> ''sensitive'' \<and> (var_SecretRef v = None \<or> var_Value v \<noteq> []) then JString (var_Value v) else JNull),
     (''secret_ref'', secretRefResponse (var_SecretRef v)), (''created_at'', JString (stamp (var_CreatedAt v)))]"

definition updateVariableRequest :: "string list" where
  "updateVariableRequest = [''category'', ''sensitivity'', ''value'']"

definition writeVariablesError :: "Request \<Rightarrow> string \<Rightarrow> err \<Rightarrow> Response" where
  "writeVariablesError r notFoundTitle = invalid r (problem r
     [(ErrForbidden, 403, ''forbidden'', []),
      (ErrScopeNotFound, 404, ''scope not found'', []),
      (ErrVariableNotFound, 404, notFoundTitle, []),
      (ErrOrganizationArchived, 409, ''organization is archived'', [])]
     ''internal error'')"

definition UpdateVariableHandler :: "(time \<Rightarrow> string) \<Rightarrow> handler" where
  "UpdateVariableHandler stamp r = withUser r (\<lambda>userID. withStrings updateVariableRequest r (\<lambda>req.
     serve (UpdateVariable_Execute (rq_Scopes r) (rq_PathValue r ''id'') userID (rq_PathValue r ''variableID'')
         (req ''value'') (req ''category'') (req ''sensitivity''))
       (writeVariablesError r ''variable not found'') (\<lambda>v. writeJSON 200 (toVariableResponse stamp v))))"

definition DeleteVariableHandler :: handler where
  "DeleteVariableHandler r = withUser r (\<lambda>userID.
     serve (DeleteVariable_Execute (rq_Scopes r) (rq_PathValue r ''id'') userID (rq_PathValue r ''variableID''))
       (writeVariablesError r ''variable not found'') (\<lambda>_. writeStatus 204))"

definition CreateVariableHandler :: "(time \<Rightarrow> string) \<Rightarrow> id \<Rightarrow> handler" where
  "CreateVariableHandler stamp uuid r = withUser r (\<lambda>userID.
     withBody decodeCreateVariable \<lparr>cvr_ScopeType = [], cvr_ScopeID = [], cvr_Key = [], cvr_Category = [], cvr_Sensitivity = [],
       cvr_Value = [], cvr_SecretRef = None\<rparr> r (\<lambda>req.
     let (mountID, path) = (case cvr_SecretRef req of None \<Rightarrow> ([], []) | Some s \<Rightarrow> (s ''mount_id'', s ''path'')) in
     serve (CreateVariable_Execute uuid (rq_Scopes r) (rq_PathValue r ''id'') userID (cvr_ScopeType req) (cvr_ScopeID req)
         (cvr_Key req) (cvr_Category req) (cvr_Sensitivity req) (cvr_Value req) mountID path)
       (writeVariablesError r ''variable not found'') (\<lambda>v. writeJSON 201 (toVariableResponse stamp v))))"

definition ListVariablesHandler :: "(time \<Rightarrow> string) \<Rightarrow> handler" where
  "ListVariablesHandler stamp r = withUser r (\<lambda>userID.
     serve (ListVariables_Execute (rq_Scopes r) (rq_PathValue r ''id'') userID (rq_Query r ''scope_type'') (rq_Query r ''scope_id''))
       (writeVariablesError r ''variable not found'') (\<lambda>vs. writeJSON 200 (listBody (toVariableResponse stamp) vs)))"

definition ResolveVariableHandler :: "(time \<Rightarrow> string) \<Rightarrow> (id \<Rightarrow> id \<Rightarrow> string \<Rightarrow> string io) \<Rightarrow> handler" where
  "ResolveVariableHandler stamp resolveSecret r = withUser r (\<lambda>userID.
     serve (ResolveVariable_Execute resolveSecret (rq_PathValue r ''id'') (rq_PathValue r ''workspaceID'') (rq_Query r ''key'') userID)
       (writeVariablesError r ''variable not found in this workspace's scope cascade'')
       (\<lambda>v. writeJSON 200 (toVariableResponse stamp v)))"

end
