(* ===== verification/Secret_Handlers.thy ===== *)
theory Secret_Handlers
  imports Http Secrets
begin

text \<open>
  The REST adapter of Secrets (\<^verbatim>\<open>internal/secrets/adapters/http\<close>). \<open>stamp\<close> is the text of a time, \<open>errText\<close> the text \<^verbatim>\<open>Error()\<close>
  of an error.
\<close>

definition writeSecretsError :: "Request \<Rightarrow> err \<Rightarrow> Response" where
  "writeSecretsError r = invalid r (problem r
     [(ErrForbidden, 403, ''forbidden'', []), (ErrSecretMountNotFound, 404, ''secret mount not found'', [])]
     ''internal error'')"

definition createSecretMountRequest :: "string list" where
  "createSecretMountRequest = [''name'', ''backend_type'', ''address'', ''role_id'', ''secret_id'']"

definition toSecretMountResponse :: "(time \<Rightarrow> string) \<Rightarrow> SecretMount \<Rightarrow> json" where
  "toSecretMountResponse stamp m = JObject [(''id'', JString (sm_ID m)), (''organization_id'', JString (sm_OrganizationID m)),
     (''name'', JString (sm_Name m)), (''backend_type'', JString (sm_BackendType m)), (''address'', JString (sm_Address m)),
     (''role_id'', JString (sm_RoleID m)), (''created_at'', JString (stamp (sm_CreatedAt m)))]"

definition CreateSecretMountHandler :: "(time \<Rightarrow> string) \<Rightarrow> crypto \<Rightarrow> string \<Rightarrow> (nat \<Rightarrow> id) \<Rightarrow> handler" where
  "CreateSecretMountHandler stamp cr masterKey u r = withUser r (\<lambda>userID. withStrings createSecretMountRequest r (\<lambda>req.
     serve (CreateSecretMount_Execute cr masterKey u (rq_Scopes r) (rq_PathValue r ''id'') userID (req ''name'') (req ''backend_type'')
         (req ''address'') (req ''role_id'') (req ''secret_id''))
       (writeSecretsError r) (\<lambda>m. writeJSON 201 (toSecretMountResponse stamp m))))"

definition ListSecretMountsHandler :: "(time \<Rightarrow> string) \<Rightarrow> handler" where
  "ListSecretMountsHandler stamp r = withUser r (\<lambda>userID.
     serve (ListSecretMounts_Execute (rq_PathValue r ''id'') userID)
       (writeSecretsError r) (\<lambda>ms. writeJSON 200 (listBody (toSecretMountResponse stamp) ms)))"

definition TestConnectionHandler :: "(err \<Rightarrow> string) \<Rightarrow> crypto \<Rightarrow> string \<Rightarrow> vault_server \<Rightarrow> handler" where
  "TestConnectionHandler errText cr masterKey srv r = withUser r (\<lambda>userID.
     serve (TestConnection_Execute cr masterKey srv (rq_Scopes r) (rq_PathValue r ''id'') (rq_PathValue r ''mount'') userID)
       (\<lambda>e. if e = ErrForbidden \<or> e = ErrSecretMountNotFound then writeSecretsError r e
            else WriteProblem r 502 ''connection test failed'' (errText e))
       (\<lambda>_. writeStatus 204))"

definition writeSecretRequest :: "string list" where
  "writeSecretRequest = [''path'', ''value'']"

definition WriteSecretHandler :: "(err \<Rightarrow> string) \<Rightarrow> crypto \<Rightarrow> string \<Rightarrow> vault_server \<Rightarrow> handler" where
  "WriteSecretHandler errText cr masterKey srv r = withUser r (\<lambda>userID. withStrings writeSecretRequest r (\<lambda>req.
     serve (WriteSecret_Execute cr masterKey srv (rq_Scopes r) (rq_PathValue r ''id'') (rq_PathValue r ''mount'') userID (req ''path'') (req ''value''))
       (\<lambda>e. case e of ValidationError _ \<Rightarrow> writeSecretsError r e
          | _ \<Rightarrow> if e = ErrForbidden \<or> e = ErrSecretMountNotFound then writeSecretsError r e
                 else WriteProblem r 502 ''secret write failed'' (errText e))
       (\<lambda>_. writeStatus 204)))"

end
