(* ===== verification/Audit_Handlers.thy ===== *)
theory Audit_Handlers
  imports Http Audit_Log
begin

text \<open>
  The REST adapter of Audit (\<^verbatim>\<open>internal/audit/adapters/http\<close>). \<open>stamp\<close> is the text of a time; \<open>zone\<close> and \<open>fallback\<close> are the
  parameters of the cursor.
\<close>

text \<open>\<^verbatim>\<open>strconv.Atoi\<close>: an optional sign and at least one decimal digit, in the range of an \<^verbatim>\<open>int\<close> of 64 bits.\<close>

definition digits_value :: "string \<Rightarrow> int" where
  "digits_value s = foldl (\<lambda>n c. 10 * n + (of_char c - 48)) 0 s"

definition Atoi :: "string \<Rightarrow> int option" where
  "Atoi s = (let (sign, ds) = (case s of
       [] \<Rightarrow> (1, [])
     | c # cs \<Rightarrow> if c = CHR ''-'' then (- 1, cs) else if c = CHR ''+'' then (1, cs) else (1, s));
     n = sign * digits_value ds in
     if ds = [] \<or> \<not> list_all is_digit ds \<or> n < - (2 ^ 63) \<or> 2 ^ 63 \<le> n then None else Some n)"

text \<open>\<^verbatim>\<open>encoding/json\<close> writes the keys of a map in order.\<close>

definition toAuditEntryResponse :: "(time \<Rightarrow> string) \<Rightarrow> Entry \<Rightarrow> json" where
  "toAuditEntryResponse stamp e = JObject [(''id'', JString (ae_ID e)), (''actor'', JString (ae_Actor e)),
     (''action'', JString (ae_Action e)), (''target_type'', JString (ae_TargetType e)), (''target_id'', JString (ae_TargetID e)),
     (''metadata'', JObject (map (\<lambda>(k, v). (k, JString v)) (sort_key fst (ae_Metadata e)))),
     (''created_at'', JString (stamp (ae_CreatedAt e)))]"

definition ListAuditLogHandler :: "(time \<Rightarrow> string) \<Rightarrow> (time \<Rightarrow> int) \<Rightarrow> (string \<Rightarrow> time option) \<Rightarrow> handler" where
  "ListAuditLogHandler stamp zone fallback r = withUser r (\<lambda>userID.
     let raw = rq_Query r ''limit'' in
     case (if raw = [] then Some 0 else Atoi raw) of
       None \<Rightarrow> Done (WriteProblem r 400 ''validation failed'' ''limit must be a non-negative integer'')
     | Some lim \<Rightarrow>
       if lim < 0 then Done (WriteProblem r 400 ''validation failed'' ''limit must be a non-negative integer'')
       else serve (ListAuditEntries_Execute zone fallback (rq_Scopes r) (rq_PathValue r ''id'') userID lim (rq_Query r ''cursor''))
         (invalid r (problem r [(ErrForbidden, 403, ''forbidden'', [])] ''failed to fetch audit log''))
         (\<lambda>page. writeJSON 200 (JObject ([(''data'', JArray (map (toAuditEntryResponse stamp) (page_Entries page)))]
            @ omitempty ''next_cursor'' (page_NextCursor page)))))"

end
