(* ===== verification/Identity_Handlers.thy ===== *)
theory Identity_Handlers
  imports Http
begin

text \<open>
  The REST adapter of Identity (\<^verbatim>\<open>internal/identity/adapters/http\<close>). \<open>stamp\<close> is the text of a time, \<open>timeOf\<close> decodes the text of
  one (\<^verbatim>\<open>time.Time.UnmarshalJSON\<close>); \<open>rnd\<close> are the random bytes of a new token and \<open>salt\<close> those of a password hash.
\<close>

section \<open>Users\<close>

definition createUserRequest :: "string list" where
  "createUserRequest = [''username'', ''email'', ''auth_source'', ''password'']"

definition userResponse :: "(time \<Rightarrow> string) \<Rightarrow> User \<Rightarrow> json" where
  "userResponse stamp usr = JObject [(''id'', JString (usr_ID usr)), (''username'', JString (usr_Username usr)),
     (''email'', JString (usr_Email usr)), (''auth_source'', JString (usr_AuthSource usr)), (''status'', JString (usr_Status usr)),
     (''created_at'', JString (stamp (usr_CreatedAt usr))), (''is_platform_admin'', JBool (usr_IsPlatformAdmin usr))]"

definition CreateUserHandler :: "(time \<Rightarrow> string) \<Rightarrow> bcrypt \<Rightarrow> string \<Rightarrow> (nat \<Rightarrow> id) \<Rightarrow> handler" where
  "CreateUserHandler stamp bc salt u r = withStrings createUserRequest r (\<lambda>req.
     serve (CreateUser_Execute bc salt u (req ''username'') (req ''email'') (req ''auth_source'') (req ''password''))
       (invalid r (problem r
         [(ErrUserAlreadyExists, 409, ''user already exists'', ''a user with this username or email already exists'')]
         ''failed to create user''))
       (\<lambda>usr. writeJSON 201 (userResponse stamp usr)))"

definition GetOwnUserHandler :: "(time \<Rightarrow> string) \<Rightarrow> handler" where
  "GetOwnUserHandler stamp r = withUser r (\<lambda>userID.
     serve (GetOwnUser_Execute userID)
       (problem r [(ErrUserNotFound, 404, ''user not found'', [])] ''failed to fetch user'')
       (\<lambda>usr. writeJSON 200 (userResponse stamp usr)))"

definition decodeSetPlatformAdmin :: "string \<Rightarrow> json \<Rightarrow> bool \<Rightarrow> bool option" where
  "decodeSetPlatformAdmin k v b = (if k = ''is_platform_admin'' then scalar asBool (\<lambda>x _. x) v b else Some b)"

definition SetPlatformAdminHandler :: handler where
  "SetPlatformAdminHandler r = withUser r (\<lambda>userID. withBody decodeSetPlatformAdmin False r (\<lambda>isPlatformAdmin.
     serve (SetPlatformAdmin_Execute userID (rq_PathValue r ''id'') isPlatformAdmin)
       (problem r
         [(ErrForbidden, 403, ''forbidden'', ''requires platform admin''), (ErrUserNotFound, 404, ''user not found'', [])]
         ''failed to update platform admin status'')
       (\<lambda>_. writeStatus 204)))"

section \<open>Sessions and passwords\<close>

definition loginRequest :: "string list" where
  "loginRequest = [''username'', ''password'']"

definition loginResponse :: "string \<Rightarrow> string \<Rightarrow> json" where
  "loginResponse token refreshToken = JObject [(''access_token'', JString token), (''token_type'', JString ''Bearer''),
     (''expires_in'', JInt (AccessTokenTTL div seconds 1)), (''refresh_token'', JString refreshToken)]"

definition LoginHandler :: "bcrypt \<Rightarrow> (string \<Rightarrow> nat list) \<Rightarrow> jwt \<Rightarrow> string \<Rightarrow> string \<Rightarrow> id \<Rightarrow> handler" where
  "LoginHandler bc sha jw secret rnd uuid r = withStrings loginRequest r (\<lambda>req.
     res_bind (limiter_Allow ''login'' (req ''username'')) (\<lambda>(allowed, retryAfter).
     if \<not> allowed then Done (tooMany r retryAfter ''too many login attempts'')
     else serve
       (bindE (Authenticate_Execute bc (req ''username'') (req ''password'')) (\<lambda>usr.
        bindE (IssueAccessToken jw secret (usr_ID usr)) (\<lambda>token.
        bindE (RefreshToken_Issue sha rnd uuid (usr_ID usr)) (\<lambda>refreshToken.
        retE (token, refreshToken)))))
       (problem r [(ErrInvalidCredentials, 401, ''invalid credentials'', [])] ''login failed'')
       (\<lambda>(token, refreshToken). writeJSON 200 (loginResponse token refreshToken))))"

definition refreshRequest :: "string list" where
  "refreshRequest = [''refresh_token'']"

definition RefreshTokenHandler :: "(string \<Rightarrow> nat list) \<Rightarrow> jwt \<Rightarrow> string \<Rightarrow> string \<Rightarrow> id \<Rightarrow> handler" where
  "RefreshTokenHandler sha jw secret rnd uuid r = withStrings refreshRequest r (\<lambda>req.
     serve
       (bindE (RefreshToken_Refresh sha rnd uuid (req ''refresh_token'')) (\<lambda>(userID, newRefreshToken).
        bindE (IssueAccessToken jw secret userID) (\<lambda>token.
        retE (token, newRefreshToken))))
       (problem r [(ErrRefreshTokenInvalid, 401, ''invalid refresh token'', [])] ''refresh failed'')
       (\<lambda>(token, newRefreshToken). writeJSON 200 (loginResponse token newRefreshToken)))"

definition requestPasswordResetRequest :: "string list" where
  "requestPasswordResetRequest = [''email'']"

definition RequestPasswordResetHandler :: "(string \<Rightarrow> nat list) \<Rightarrow> string \<Rightarrow> id \<Rightarrow> handler" where
  "RequestPasswordResetHandler sha rnd uuid r = withStrings requestPasswordResetRequest r (\<lambda>req.
     serve (RequestReset sha rnd uuid (req ''email''))
       (problem r [] ''password reset request failed'') (\<lambda>_. writeStatus 202))"

definition confirmPasswordResetRequest :: "string list" where
  "confirmPasswordResetRequest = [''token'', ''new_password'']"

definition ConfirmPasswordResetHandler :: "(string \<Rightarrow> nat list) \<Rightarrow> bcrypt \<Rightarrow> string \<Rightarrow> handler" where
  "ConfirmPasswordResetHandler sha bc salt r = withStrings confirmPasswordResetRequest r (\<lambda>req.
     serve (ConfirmReset sha bc salt (req ''token'') (req ''new_password''))
       (invalid r (problem r [(ErrPasswordResetTokenInvalid, 401, ''invalid or expired token'', [])] ''password reset failed''))
       (\<lambda>_. writeStatus 204))"

section \<open>Service accounts and API keys\<close>

definition writeIdentityError :: "Request \<Rightarrow> string \<Rightarrow> err \<Rightarrow> Response" where
  "writeIdentityError r notFoundMessage = invalid r (problem r
     [(ErrForbidden, 403, ''forbidden'', ''requires organization:manage''),
      (ErrServiceAccountNotFound, 404, notFoundMessage, []),
      (ErrAPIKeyInvalid, 404, notFoundMessage, [])]
     ''internal error'')"

definition createServiceAccountRequest :: "string list" where
  "createServiceAccountRequest = [''name'', ''description'']"

definition toServiceAccountResponse :: "(time \<Rightarrow> string) \<Rightarrow> ServiceAccount \<Rightarrow> json" where
  "toServiceAccountResponse stamp sa = JObject [(''id'', JString (sa_ID sa)), (''organization_id'', JString (sa_OrganizationID sa)),
     (''name'', JString (sa_Name sa)), (''description'', JString (sa_Description sa)), (''created_at'', JString (stamp (sa_CreatedAt sa)))]"

definition CreateServiceAccountHandler :: "(time \<Rightarrow> string) \<Rightarrow> id \<Rightarrow> handler" where
  "CreateServiceAccountHandler stamp uuid r = withUser r (\<lambda>userID. withStrings createServiceAccountRequest r (\<lambda>req.
     serve (CreateServiceAccount_Execute uuid (rq_Scopes r) (rq_PathValue r ''id'') userID (req ''name'') (req ''description''))
       (writeIdentityError r ''organization not found'') (\<lambda>sa. writeJSON 201 (toServiceAccountResponse stamp sa))))"

record createAPIKeyRequest =
  car_Name :: string
  car_Scopes :: "string list option"
  car_ExpiresAt :: "time option"

definition decodeCreateAPIKey :: "(string \<Rightarrow> time option) \<Rightarrow> string \<Rightarrow> json \<Rightarrow> createAPIKeyRequest \<Rightarrow> createAPIKeyRequest option" where
  "decodeCreateAPIKey timeOf k v req =
     (if k = ''name'' then scalar asString (\<lambda>x req. req\<lparr>car_Name := x\<rparr>) v req
      else if k = ''scopes'' then pointer asStrings (\<lambda>x req. req\<lparr>car_Scopes := x\<rparr>) v req
      else if k = ''expires_at''
      then pointer (\<lambda>j. Option.bind (asString j) timeOf) (\<lambda>x req. req\<lparr>car_ExpiresAt := x\<rparr>) v req
      else Some req)"

text \<open>
  The slice of the scopes is the one of the request; \<open>None\<close> is the slice \<^verbatim>\<open>nil\<close>, which grants the same as an
  empty one but is written \<^verbatim>\<open>null\<close>.
\<close>

definition toAPIKeyResponse :: "(time \<Rightarrow> string) \<Rightarrow> APIKey \<Rightarrow> string list option \<Rightarrow> string option \<Rightarrow> json" where
  "toAPIKeyResponse stamp k scopes plaintext = JObject ([(''id'', JString (ak_ID k)), (''owner_type'', JString (ak_OwnerType k)),
     (''owner_id'', JString (ak_OwnerID k)), (''name'', JString (ak_Name k)),
     (''scopes'', case scopes of None \<Rightarrow> JNull | Some _ \<Rightarrow> JArray (map JString (ak_Scopes k))), (''expires_at'', JString (stamp (ak_ExpiresAt k)))]
     @ optional ''last_used_at'' (map_option stamp (ak_LastUsedAt k)) @ [(''created_at'', JString (stamp (ak_CreatedAt k)))]
     @ optional ''key'' plaintext)"

definition CreateAPIKeyHandler :: "(time \<Rightarrow> string) \<Rightarrow> (string \<Rightarrow> time option) \<Rightarrow> (string \<Rightarrow> nat list) \<Rightarrow> string \<Rightarrow> id \<Rightarrow> handler" where
  "CreateAPIKeyHandler stamp timeOf sha rnd uuid r = withUser r (\<lambda>userID.
     withBody (decodeCreateAPIKey timeOf) \<lparr>car_Name = [], car_Scopes = None, car_ExpiresAt = None\<rparr> r (\<lambda>req.
     serve (CreateAPIKey_Execute sha rnd uuid (rq_Scopes r) (rq_PathValue r ''id'') userID (rq_PathValue r ''sa'') (car_Name req)
         (case car_Scopes req of None \<Rightarrow> [] | Some scopes \<Rightarrow> scopes) (car_ExpiresAt req))
       (writeIdentityError r ''service account not found'')
       (\<lambda>(key, plaintext). writeJSON 201 (toAPIKeyResponse stamp key (car_Scopes req) (Some plaintext)))))"

definition RevokeAPIKeyHandler :: handler where
  "RevokeAPIKeyHandler r = withUser r (\<lambda>userID.
     serve (RevokeAPIKey_Execute (rq_Scopes r) (rq_PathValue r ''id'') userID (rq_PathValue r ''key''))
       (writeIdentityError r ''api key not found'') (\<lambda>_. writeStatus 204))"

end
