(* ===== verification/Fleet_Handlers.thy ===== *)
theory Fleet_Handlers
  imports Http Fleet_Compose
begin

text \<open>
  The REST adapter of Fleet (\<^verbatim>\<open>internal/fleet/adapters/http\<close>). The handlers of its variables are named \<open>FleetVariable\<close> here, to
  distinguish them from those of the context Variables. \<open>stamp\<close> is the text of a time.
\<close>

definition writeFleetError :: "Request \<Rightarrow> string \<Rightarrow> err \<Rightarrow> Response" where
  "writeFleetError r notFoundTitle = invalid r (problem r
     [(ErrForbidden, 403, ''forbidden'', []),
      (ErrMachineNotFound, 404, notFoundTitle, []), (ErrNetworkNotFound, 404, notFoundTitle, []),
      (ErrVolumeNotFound, 404, notFoundTitle, []), (ErrComposeFileNotFound, 404, notFoundTitle, []),
      (ErrVariableNotFound, 404, notFoundTitle, []), (ErrOperationNotFound, 404, notFoundTitle, []),
      (ErrProjectNotFound, 404, notFoundTitle, []),
      (ErrNetworkInUse, 409, ''network is still attached to a compose file'', []),
      (ErrVolumeInUse, 409, ''volume is still attached to a compose file'', []),
      (ErrGlobalComposeFileExists, 409, ''this organization already has a global compose file'', []),
      (ErrMachineHasHistory, 409, ''machine has operation history and cannot be hard-deleted'', []),
      (ErrComposeFileHasHistory, 409, ''compose file has operation history and cannot be deleted'', []),
      (ErrMachineNameTaken, 409, ''a machine with this name already exists in this organization'', []),
      (ErrVariableKeyTaken, 409, ''a variable with this key already exists on this compose file'', [])]
     ''internal error'')"

section \<open>Machines\<close>

text \<open>The bodies of the requests that create a machine and that test a connection: strings and the port.\<close>

definition createMachineRequest :: "string list" where
  "createMachineRequest = [''name'', ''host'', ''ssh_user'', ''credential_type'', ''credential_storage'', ''credential_mount_id'',
     ''credential_path'', ''credential_secret'', ''deploy_base_path'']"

definition testMachineConnectionRequest :: "string list" where
  "testMachineConnectionRequest = [''host'', ''ssh_user'', ''credential_type'', ''credential_storage'', ''credential_mount_id'',
     ''credential_path'', ''credential_secret'']"

definition decodeMachine :: "string list \<Rightarrow> string \<Rightarrow> json \<Rightarrow> (string \<Rightarrow> string) \<times> int \<Rightarrow> ((string \<Rightarrow> string) \<times> int) option" where
  "decodeMachine names k v req =
     (if k = ''ssh_port'' then scalar asInt (\<lambda>x (f, _). (f, x)) v req
      else map_option (\<lambda>f. (f, snd req)) (setStrings names k v (fst req)))"

definition toMachineResponse :: "(time \<Rightarrow> string) \<Rightarrow> Machine \<Rightarrow> json" where
  "toMachineResponse stamp m = JObject ([(''id'', JString (mch_ID m)), (''organization_id'', JString (mch_OrganizationID m)),
     (''name'', JString (mch_Name m)), (''host'', JString (mch_Host m)), (''ssh_port'', JInt (mch_SSHPort m)),
     (''ssh_user'', JString (mch_SSHUser m)), (''credential_type'', JString (mch_CredentialType m)),
     (''credential_storage'', JString (mch_CredentialStorage m))]
     @ omitempty ''credential_mount_id'' (sr_MountID (mch_CredentialRef m)) @ omitempty ''credential_path'' (sr_Path (mch_CredentialRef m))
     @ [(''deploy_base_path'', JString (mch_DeployBasePath m)), (''connection_status'', JString (mch_ConnectionStatus m)),
     (''docker_status'', JString (mch_DockerStatus m))]
     @ optional ''last_checked_at'' (map_option stamp (mch_LastCheckedAt m))
     @ [(''archived'', JBool (mch_Archived m)), (''created_at'', JString (stamp (mch_CreatedAt m)))])"

definition CreateMachineHandler :: "(time \<Rightarrow> string) \<Rightarrow> crypto \<Rightarrow> string \<Rightarrow> (nat \<Rightarrow> id) \<Rightarrow> handler" where
  "CreateMachineHandler stamp cr masterKey u r = withUser r (\<lambda>userID.
     withBody (decodeMachine createMachineRequest) (\<lambda>_. [], 0) r (\<lambda>(req, sshPort).
     serve (CreateMachine_Execute cr masterKey u (rq_Scopes r) (rq_PathValue r ''id'') userID (req ''name'') (req ''host'') sshPort
         (req ''ssh_user'') (req ''credential_type'') (req ''credential_storage'') (req ''credential_mount_id'') (req ''credential_path'')
         (req ''credential_secret'') (req ''deploy_base_path''))
       (writeFleetError r []) (\<lambda>m. writeJSON 201 (toMachineResponse stamp m))))"

definition ListMachinesHandler :: "(time \<Rightarrow> string) \<Rightarrow> handler" where
  "ListMachinesHandler stamp r = withUser r (\<lambda>userID.
     serve (ListMachines_Execute (rq_Scopes r) (rq_PathValue r ''id'') userID (rq_Query r ''include_archived'' = ''true''))
       (writeFleetError r []) (\<lambda>ms. writeJSON 200 (listBody (toMachineResponse stamp) ms)))"

definition GetMachineHandler :: "(time \<Rightarrow> string) \<Rightarrow> handler" where
  "GetMachineHandler stamp r = withUser r (\<lambda>userID.
     serve (GetMachine_Execute (rq_Scopes r) (rq_PathValue r ''id'') userID (rq_PathValue r ''machineID''))
       (writeFleetError r ''machine not found'') (\<lambda>m. writeJSON 200 (toMachineResponse stamp m)))"

definition updateMachineRequest :: "string list" where
  "updateMachineRequest = [''ssh_user'', ''credential_type'', ''credential_mount_id'', ''credential_path'', ''credential_secret'', ''deploy_base_path'']"

definition UpdateMachineHandler :: "(time \<Rightarrow> string) \<Rightarrow> crypto \<Rightarrow> string \<Rightarrow> (nat \<Rightarrow> id) \<Rightarrow> handler" where
  "UpdateMachineHandler stamp cr masterKey u r = withUser r (\<lambda>userID. withPointers updateMachineRequest r (\<lambda>req.
     serve (UpdateMachine_Execute cr masterKey u (rq_Scopes r) (rq_PathValue r ''id'') userID (rq_PathValue r ''machineID'') (req ''ssh_user'')
         (req ''credential_type'') (req ''credential_mount_id'') (req ''credential_path'') (req ''credential_secret'') (req ''deploy_base_path''))
       (writeFleetError r ''machine not found'') (\<lambda>m. writeJSON 200 (toMachineResponse stamp m))))"

definition ArchiveMachineHandler :: "id \<Rightarrow> handler" where
  "ArchiveMachineHandler uuid r = withUser r (\<lambda>userID.
     serve (ArchiveMachine_Execute uuid (rq_Scopes r) (rq_PathValue r ''id'') userID (rq_PathValue r ''machineID''))
       (writeFleetError r ''machine not found'') (\<lambda>_. writeStatus 204))"

definition UnarchiveMachineHandler :: "id \<Rightarrow> handler" where
  "UnarchiveMachineHandler uuid r = withUser r (\<lambda>userID.
     serve (UnarchiveMachine_Execute uuid (rq_Scopes r) (rq_PathValue r ''id'') userID (rq_PathValue r ''machineID''))
       (writeFleetError r ''machine not found'') (\<lambda>_. writeStatus 204))"

definition DeleteMachineHandler :: "id \<Rightarrow> handler" where
  "DeleteMachineHandler uuid r = withUser r (\<lambda>userID.
     serve (DeleteMachine_Execute uuid (rq_Scopes r) (rq_PathValue r ''id'') userID (rq_PathValue r ''machineID''))
       (writeFleetError r ''machine not found'') (\<lambda>_. writeStatus 204))"

definition duplicateMachineRequest :: "string list" where
  "duplicateMachineRequest = [''name'']"

text \<open>An empty body (the error \<^verbatim>\<open>io.EOF\<close>, whose text is \<^verbatim>\<open>EOF\<close>) is the empty request.\<close>

definition DuplicateMachineHandler :: "(time \<Rightarrow> string) \<Rightarrow> (nat \<Rightarrow> id) \<Rightarrow> handler" where
  "DuplicateMachineHandler stamp u r = withUser r (\<lambda>userID.
     let k = (\<lambda>req. serve (DuplicateMachine_Execute u (rq_Scopes r) (rq_PathValue r ''id'') userID (rq_PathValue r ''machineID'') (req ''name''))
       (writeFleetError r ''machine not found'') (\<lambda>m. writeJSON 201 (toMachineResponse stamp m))) in
     if rq_Body r = None \<and> rq_BodyError r = ''EOF'' then k (\<lambda>_. []) else withStrings duplicateMachineRequest r k)"

definition TestMachineConnectionHandler :: "resolver \<Rightarrow> ssh_host \<Rightarrow> handler" where
  "TestMachineConnectionHandler resolveSecret h r = withUser r (\<lambda>userID.
     withBody (decodeMachine testMachineConnectionRequest) (\<lambda>_. [], 0) r (\<lambda>(req, sshPort).
     serve (TestMachineConnection_Execute resolveSecret h (rq_Scopes r) (rq_PathValue r ''id'') userID (req ''host'') sshPort (req ''ssh_user'')
         (req ''credential_type'') (req ''credential_storage'') (req ''credential_mount_id'') (req ''credential_path'') (req ''credential_secret''))
       (writeFleetError r [])
       (\<lambda>(connStatus, dockerStatus). writeJSON 200
          (JObject [(''connection_status'', JString connStatus), (''docker_status'', JString dockerStatus)]))))"

definition CheckMachineConnectionHandler :: "(time \<Rightarrow> string) \<Rightarrow> resolver \<Rightarrow> crypto \<Rightarrow> string \<Rightarrow> ssh_host \<Rightarrow> id \<Rightarrow> handler" where
  "CheckMachineConnectionHandler stamp resolveSecret cr masterKey h uuid r = withUser r (\<lambda>userID.
     serve (CheckMachineConnection_Execute resolveSecret cr masterKey h uuid (rq_Scopes r) (rq_PathValue r ''id'') userID (rq_PathValue r ''machineID''))
       (writeFleetError r ''machine not found'') (\<lambda>m. writeJSON 200 (toMachineResponse stamp m)))"

section \<open>Networks and volumes\<close>

definition decodeCreateNetwork :: "string \<Rightarrow> json \<Rightarrow> string \<times> bool \<Rightarrow> (string \<times> bool) option" where
  "decodeCreateNetwork k v req =
     (if k = ''name'' then scalar asString (\<lambda>x (_, external). (x, external)) v req
      else if k = ''external'' then scalar asBool (\<lambda>x (name, _). (name, x)) v req
      else Some req)"

definition toNetworkResponse :: "(time \<Rightarrow> string) \<Rightarrow> Network \<Rightarrow> json" where
  "toNetworkResponse stamp n = JObject [(''id'', JString (net_ID n)), (''organization_id'', JString (net_OrganizationID n)),
     (''name'', JString (net_Name n)), (''external'', JBool (net_External n)), (''created_by'', JString (net_CreatedBy n)),
     (''created_at'', JString (stamp (net_CreatedAt n)))]"

definition CreateNetworkHandler :: "(time \<Rightarrow> string) \<Rightarrow> (nat \<Rightarrow> id) \<Rightarrow> handler" where
  "CreateNetworkHandler stamp u r = withUser r (\<lambda>userID. withBody decodeCreateNetwork ([], False) r (\<lambda>(name, external).
     serve (CreateNetwork_Execute u (rq_Scopes r) (rq_PathValue r ''id'') userID name external)
       (writeFleetError r []) (\<lambda>n. writeJSON 201 (toNetworkResponse stamp n))))"

definition ListNetworksHandler :: "(time \<Rightarrow> string) \<Rightarrow> handler" where
  "ListNetworksHandler stamp r = withUser r (\<lambda>userID.
     serve (ListNetworks_Execute (rq_Scopes r) (rq_PathValue r ''id'') userID)
       (writeFleetError r []) (\<lambda>ns. writeJSON 200 (listBody (toNetworkResponse stamp) ns)))"

definition DeleteNetworkHandler :: "id \<Rightarrow> handler" where
  "DeleteNetworkHandler uuid r = withUser r (\<lambda>userID.
     serve (DeleteNetwork_Execute uuid (rq_Scopes r) (rq_PathValue r ''id'') userID (rq_PathValue r ''networkID''))
       (writeFleetError r ''network not found'') (\<lambda>_. writeStatus 204))"

definition createVolumeRequest :: "string list" where
  "createVolumeRequest = [''name'', ''host_path'']"

definition toVolumeResponse :: "(time \<Rightarrow> string) \<Rightarrow> Volume \<Rightarrow> json" where
  "toVolumeResponse stamp v = JObject [(''id'', JString (vol_ID v)), (''organization_id'', JString (vol_OrganizationID v)),
     (''name'', JString (vol_Name v)), (''host_path'', JString (vol_HostPath v)), (''created_by'', JString (vol_CreatedBy v)),
     (''created_at'', JString (stamp (vol_CreatedAt v)))]"

definition CreateVolumeHandler :: "(time \<Rightarrow> string) \<Rightarrow> (nat \<Rightarrow> id) \<Rightarrow> handler" where
  "CreateVolumeHandler stamp u r = withUser r (\<lambda>userID. withStrings createVolumeRequest r (\<lambda>req.
     serve (CreateVolume_Execute u (rq_Scopes r) (rq_PathValue r ''id'') userID (req ''name'') (req ''host_path''))
       (writeFleetError r []) (\<lambda>v. writeJSON 201 (toVolumeResponse stamp v))))"

definition ListVolumesHandler :: "(time \<Rightarrow> string) \<Rightarrow> handler" where
  "ListVolumesHandler stamp r = withUser r (\<lambda>userID.
     serve (ListVolumes_Execute (rq_Scopes r) (rq_PathValue r ''id'') userID)
       (writeFleetError r []) (\<lambda>vs. writeJSON 200 (listBody (toVolumeResponse stamp) vs)))"

definition DeleteVolumeHandler :: "id \<Rightarrow> handler" where
  "DeleteVolumeHandler uuid r = withUser r (\<lambda>userID.
     serve (DeleteVolume_Execute uuid (rq_Scopes r) (rq_PathValue r ''id'') userID (rq_PathValue r ''volumeID''))
       (writeFleetError r ''volume not found'') (\<lambda>_. writeStatus 204))"

section \<open>Compose files\<close>

record createComposeFileRequest =
  ccf_Name :: string
  ccf_ComposeContent :: string
  ccf_IsGlobal :: bool

definition decodeCreateComposeFile :: "string \<Rightarrow> json \<Rightarrow> createComposeFileRequest \<Rightarrow> createComposeFileRequest option" where
  "decodeCreateComposeFile k v req =
     (if k = ''name'' then scalar asString (\<lambda>x req. req\<lparr>ccf_Name := x\<rparr>) v req
      else if k = ''compose_content'' then scalar asString (\<lambda>x req. req\<lparr>ccf_ComposeContent := x\<rparr>) v req
      else if k = ''is_global'' then scalar asBool (\<lambda>x req. req\<lparr>ccf_IsGlobal := x\<rparr>) v req
      else Some req)"

definition toComposeFileResponse :: "(time \<Rightarrow> string) \<Rightarrow> ComposeFile \<Rightarrow> json" where
  "toComposeFileResponse stamp c = JObject [(''id'', JString (cf_ID c)), (''organization_id'', JString (cf_OrganizationID c)),
     (''name'', JString (cf_Name c)), (''is_global'', JBool (cf_IsGlobal c)), (''compose_content'', JString (cf_ComposeContent c)),
     (''created_by'', JString (cf_CreatedBy c)), (''created_at'', JString (stamp (cf_CreatedAt c)))]"

definition CreateComposeFileHandler :: "(time \<Rightarrow> string) \<Rightarrow> yaml \<Rightarrow> map_order \<Rightarrow> (nat \<Rightarrow> id) \<Rightarrow> handler" where
  "CreateComposeFileHandler stamp y ord u r = withUser r (\<lambda>userID.
     withBody decodeCreateComposeFile \<lparr>ccf_Name = [], ccf_ComposeContent = [], ccf_IsGlobal = False\<rparr> r (\<lambda>req.
     serve (CreateComposeFile_Execute y ord u (rq_Scopes r) (rq_PathValue r ''id'') userID (ccf_Name req) (ccf_ComposeContent req) (ccf_IsGlobal req))
       (writeFleetError r []) (\<lambda>c. writeJSON 201 (toComposeFileResponse stamp c))))"

definition ListComposeFilesHandler :: "(time \<Rightarrow> string) \<Rightarrow> handler" where
  "ListComposeFilesHandler stamp r = withUser r (\<lambda>userID.
     serve (ListComposeFiles_Execute (rq_Scopes r) (rq_PathValue r ''id'') userID)
       (writeFleetError r []) (\<lambda>cs. writeJSON 200 (listBody (toComposeFileResponse stamp) cs)))"

definition GetComposeFileHandler :: "(time \<Rightarrow> string) \<Rightarrow> handler" where
  "GetComposeFileHandler stamp r = withUser r (\<lambda>userID.
     serve (GetComposeFile_Execute (rq_Scopes r) (rq_PathValue r ''id'') userID (rq_PathValue r ''composeFileID''))
       (writeFleetError r ''compose file not found'') (\<lambda>c. writeJSON 200 (toComposeFileResponse stamp c)))"

definition updateComposeFileContentRequest :: "string list" where
  "updateComposeFileContentRequest = [''compose_content'']"

definition UpdateComposeFileContentHandler :: "yaml \<Rightarrow> map_order \<Rightarrow> (nat \<Rightarrow> id) \<Rightarrow> handler" where
  "UpdateComposeFileContentHandler y ord u r = withUser r (\<lambda>userID. withStrings updateComposeFileContentRequest r (\<lambda>req.
     serve (UpdateComposeFileContent_Execute y ord u (rq_Scopes r) (rq_PathValue r ''id'') userID (rq_PathValue r ''composeFileID'') (req ''compose_content''))
       (writeFleetError r ''compose file not found'') (\<lambda>_. writeStatus 204)))"

definition DeleteComposeFileHandler :: "id \<Rightarrow> handler" where
  "DeleteComposeFileHandler uuid r = withUser r (\<lambda>userID.
     serve (DeleteComposeFile_Execute uuid (rq_Scopes r) (rq_PathValue r ''id'') userID (rq_PathValue r ''composeFileID''))
       (writeFleetError r ''compose file not found'') (\<lambda>_. writeStatus 204))"

section \<open>Attachments\<close>

definition attachNetworkRequest :: "string list" where
  "attachNetworkRequest = [''network_id'']"

definition AttachNetworkHandler :: "id \<Rightarrow> handler" where
  "AttachNetworkHandler uuid r = withUser r (\<lambda>userID. withStrings attachNetworkRequest r (\<lambda>req.
     serve (AttachNetwork uuid (rq_Scopes r) (rq_PathValue r ''id'') userID (rq_PathValue r ''composeFileID'') (req ''network_id''))
       (writeFleetError r []) (\<lambda>_. writeStatus 204)))"

definition DetachNetworkHandler :: "id \<Rightarrow> handler" where
  "DetachNetworkHandler uuid r = withUser r (\<lambda>userID.
     serve (DetachNetwork uuid (rq_Scopes r) (rq_PathValue r ''id'') userID (rq_PathValue r ''composeFileID'') (rq_PathValue r ''networkID''))
       (writeFleetError r []) (\<lambda>_. writeStatus 204))"

definition ListComposeFileNetworksHandler :: "(time \<Rightarrow> string) \<Rightarrow> handler" where
  "ListComposeFileNetworksHandler stamp r = withUser r (\<lambda>userID.
     serve (Attachment_ListNetworks (rq_Scopes r) (rq_PathValue r ''id'') userID (rq_PathValue r ''composeFileID''))
       (writeFleetError r []) (\<lambda>ns. writeJSON 200 (listBody (toNetworkResponse stamp) ns)))"

definition attachVolumeRequest :: "string list" where
  "attachVolumeRequest = [''volume_id'', ''container_path'']"

definition AttachVolumeHandler :: "id \<Rightarrow> handler" where
  "AttachVolumeHandler uuid r = withUser r (\<lambda>userID. withStrings attachVolumeRequest r (\<lambda>req.
     serve (AttachVolume uuid (rq_Scopes r) (rq_PathValue r ''id'') userID (rq_PathValue r ''composeFileID'') (req ''volume_id'') (req ''container_path''))
       (writeFleetError r []) (\<lambda>_. writeStatus 204)))"

definition DetachVolumeHandler :: "id \<Rightarrow> handler" where
  "DetachVolumeHandler uuid r = withUser r (\<lambda>userID.
     serve (DetachVolume uuid (rq_Scopes r) (rq_PathValue r ''id'') userID (rq_PathValue r ''composeFileID'') (rq_PathValue r ''volumeID''))
       (writeFleetError r []) (\<lambda>_. writeStatus 204))"

definition volumeAttachmentResponse :: "(time \<Rightarrow> string) \<Rightarrow> VolumeAttachmentView \<Rightarrow> json" where
  "volumeAttachmentResponse stamp v = JObject [(''volume'', toVolumeResponse stamp (vav_Volume v)), (''container_path'', JString (vav_ContainerPath v))]"

definition ListComposeFileVolumesHandler :: "(time \<Rightarrow> string) \<Rightarrow> handler" where
  "ListComposeFileVolumesHandler stamp r = withUser r (\<lambda>userID.
     serve (Attachment_ListVolumes (rq_Scopes r) (rq_PathValue r ''id'') userID (rq_PathValue r ''composeFileID''))
       (writeFleetError r []) (\<lambda>vs. writeJSON 200 (listBody (volumeAttachmentResponse stamp) vs)))"

definition ListProjectComposeFilesHandler :: "(time \<Rightarrow> string) \<Rightarrow> handler" where
  "ListProjectComposeFilesHandler stamp r = withUser r (\<lambda>userID.
     serve (ListComposeFilesForProject (rq_Scopes r) (rq_PathValue r ''id'') userID (rq_PathValue r ''projectID''))
       (writeFleetError r []) (\<lambda>cs. writeJSON 200 (listBody (toComposeFileResponse stamp) cs)))"

definition attachProjectRequest :: "string list" where
  "attachProjectRequest = [''project_id'']"

definition toProjectSummaryResponse :: "ProjectSummary \<Rightarrow> json" where
  "toProjectSummaryResponse p = JObject [(''id'', JString (psum_ID p)), (''name'', JString (psum_Name p)), (''slug'', JString (psum_Slug p))]"

definition AttachProjectHandler :: "id \<Rightarrow> handler" where
  "AttachProjectHandler uuid r = withUser r (\<lambda>userID. withStrings attachProjectRequest r (\<lambda>req.
     serve (AttachProject uuid (rq_Scopes r) (rq_PathValue r ''id'') userID (rq_PathValue r ''composeFileID'') (req ''project_id''))
       (writeFleetError r ''project not found'') (\<lambda>_. writeStatus 204)))"

definition DetachProjectHandler :: "id \<Rightarrow> handler" where
  "DetachProjectHandler uuid r = withUser r (\<lambda>userID.
     serve (DetachProject uuid (rq_Scopes r) (rq_PathValue r ''id'') userID (rq_PathValue r ''composeFileID'') (rq_PathValue r ''projectID''))
       (writeFleetError r []) (\<lambda>_. writeStatus 204))"

definition ListComposeFileProjectsHandler :: handler where
  "ListComposeFileProjectsHandler r = withUser r (\<lambda>userID.
     serve (Attachment_ListProjects (rq_Scopes r) (rq_PathValue r ''id'') userID (rq_PathValue r ''composeFileID''))
       (writeFleetError r []) (\<lambda>ps. writeJSON 200 (listBody toProjectSummaryResponse ps)))"

section \<open>Variables\<close>

definition createFleetVariableRequest :: "string list" where
  "createFleetVariableRequest = [''key'', ''var_type'', ''value'', ''secret_mount_id'', ''secret_path'', ''file_target_path'']"

text \<open>\<open>value\<close> is a pointer with \<^verbatim>\<open>omitempty\<close>: it is left out only if the variable refers to a secret.\<close>

definition toFleetVariableResponse :: "(time \<Rightarrow> string) \<Rightarrow> FleetVariable \<Rightarrow> json" where
  "toFleetVariableResponse stamp v = JObject ([(''id'', JString (fv_ID v)), (''organization_id'', JString (fv_OrganizationID v)),
     (''compose_file_id'', JString (fv_ComposeFileID v)), (''key'', JString (fv_Key v)), (''var_type'', JString (fv_VarType v))]
     @ (case fv_SecretRef v of
          Some s \<Rightarrow> [(''secret_ref'', JObject [(''mount_id'', JString (sr_MountID s)), (''path'', JString (sr_Path s))])]
        | None \<Rightarrow> [(''value'', JString (fv_Value v))])
     @ omitempty ''file_target_path'' (fv_FileTargetPath v) @ [(''created_at'', JString (stamp (fv_CreatedAt v)))])"

definition CreateFleetVariableHandler :: "(time \<Rightarrow> string) \<Rightarrow> (nat \<Rightarrow> id) \<Rightarrow> handler" where
  "CreateFleetVariableHandler stamp u r = withUser r (\<lambda>userID. withStrings createFleetVariableRequest r (\<lambda>req.
     serve (CreateFleetVariable_Execute u (rq_Scopes r) (rq_PathValue r ''id'') userID (rq_PathValue r ''composeFileID'') (req ''key'')
         (req ''var_type'') (req ''value'') (req ''secret_mount_id'') (req ''secret_path'') (req ''file_target_path''))
       (writeFleetError r []) (\<lambda>v. writeJSON 201 (toFleetVariableResponse stamp v))))"

definition createSecretVariableRequest :: "string list" where
  "createSecretVariableRequest = [''key'', ''mount_id'', ''value'']"

definition CreateSecretVariableHandler :: "(time \<Rightarrow> string) \<Rightarrow> (id \<Rightarrow> id \<Rightarrow> string \<Rightarrow> string \<Rightarrow> unit io) \<Rightarrow> (nat \<Rightarrow> id) \<Rightarrow> handler" where
  "CreateSecretVariableHandler stamp writeSecret u r = withUser r (\<lambda>userID. withStrings createSecretVariableRequest r (\<lambda>req.
     serve (CreateSecretVariable_Execute writeSecret u (rq_Scopes r) (rq_PathValue r ''id'') userID (rq_PathValue r ''composeFileID'')
         (req ''key'') (req ''mount_id'') (req ''value''))
       (writeFleetError r []) (\<lambda>v. writeJSON 201 (toFleetVariableResponse stamp v))))"

definition RevealVariableHandler :: "resolver \<Rightarrow> handler" where
  "RevealVariableHandler resolveSecret r = withUser r (\<lambda>userID.
     serve (RevealVariable_Execute resolveSecret (rq_Scopes r) (rq_PathValue r ''id'') userID (rq_PathValue r ''variableID''))
       (writeFleetError r ''variable not found'') (\<lambda>val. writeJSON 200 (JObject [(''value'', JString val)])))"

definition ListFleetVariablesHandler :: "(time \<Rightarrow> string) \<Rightarrow> handler" where
  "ListFleetVariablesHandler stamp r = withUser r (\<lambda>userID.
     serve (ListFleetVariables_Execute (rq_Scopes r) (rq_PathValue r ''id'') userID (rq_PathValue r ''composeFileID''))
       (writeFleetError r []) (\<lambda>vs. writeJSON 200 (listBody (toFleetVariableResponse stamp) vs)))"

definition updateFleetVariableRequest :: "string list" where
  "updateFleetVariableRequest = [''value'', ''secret_mount_id'', ''secret_path'', ''file_target_path'']"

definition UpdateFleetVariableHandler :: "(time \<Rightarrow> string) \<Rightarrow> id \<Rightarrow> handler" where
  "UpdateFleetVariableHandler stamp uuid r = withUser r (\<lambda>userID. withPointers updateFleetVariableRequest r (\<lambda>req.
     serve (UpdateFleetVariable_Execute uuid (rq_Scopes r) (rq_PathValue r ''id'') userID (rq_PathValue r ''variableID'') (req ''value'')
         (req ''secret_mount_id'') (req ''secret_path'') (req ''file_target_path''))
       (writeFleetError r ''variable not found'') (\<lambda>v. writeJSON 200 (toFleetVariableResponse stamp v))))"

definition DeleteFleetVariableHandler :: "id \<Rightarrow> handler" where
  "DeleteFleetVariableHandler uuid r = withUser r (\<lambda>userID.
     serve (DeleteFleetVariable_Execute uuid (rq_Scopes r) (rq_PathValue r ''id'') userID (rq_PathValue r ''variableID''))
       (writeFleetError r ''variable not found'') (\<lambda>_. writeStatus 204))"

section \<open>Operations\<close>

definition triggerOperationRequest :: "string list" where
  "triggerOperationRequest = [''compose_file_id'', ''machine_id'', ''operation_type'']"

definition toOperationResponse :: "(time \<Rightarrow> string) \<Rightarrow> Operation \<Rightarrow> json" where
  "toOperationResponse stamp x = JObject ([(''id'', JString (op_ID x)), (''organization_id'', JString (op_OrganizationID x)),
     (''compose_file_id'', JString (op_ComposeFileID x)), (''machine_id'', JString (op_MachineID x)),
     (''operation_type'', JString (op_OperationType x)), (''status'', JString (op_Status x)), (''triggered_by'', JString (op_TriggeredBy x)),
     (''created_at'', JString (stamp (op_CreatedAt x)))]
     @ optional ''started_at'' (map_option stamp (op_StartedAt x)) @ optional ''finished_at'' (map_option stamp (op_FinishedAt x))
     @ (case op_ExitCode x of None \<Rightarrow> [] | Some n \<Rightarrow> [(''exit_code'', JInt n)]) @ omitempty ''output'' (op_Output x))"

definition TriggerOperationHandler :: "(time \<Rightarrow> string) \<Rightarrow> (nat \<Rightarrow> id) \<Rightarrow> handler" where
  "TriggerOperationHandler stamp u r = withUser r (\<lambda>userID. withStrings triggerOperationRequest r (\<lambda>req.
     serve (TriggerOperation_Execute u (rq_Scopes r) (rq_PathValue r ''id'') userID (req ''compose_file_id'') (req ''machine_id'') (req ''operation_type''))
       (writeFleetError r []) (\<lambda>x. writeJSON 201 (toOperationResponse stamp x))))"

definition ListOperationsHandler :: "(time \<Rightarrow> string) \<Rightarrow> handler" where
  "ListOperationsHandler stamp r = withUser r (\<lambda>userID.
     serve (ListOperations_Execute (rq_Scopes r) (rq_PathValue r ''id'') userID (rq_Query r ''compose_file_id'') (rq_Query r ''machine_id''))
       (writeFleetError r []) (\<lambda>xs. writeJSON 200 (listBody (toOperationResponse stamp) xs)))"

definition GetOperationHandler :: "(time \<Rightarrow> string) \<Rightarrow> handler" where
  "GetOperationHandler stamp r = withUser r (\<lambda>userID.
     serve (GetOperation_Execute (rq_Scopes r) (rq_PathValue r ''id'') userID (rq_PathValue r ''operationID''))
       (writeFleetError r ''operation not found'') (\<lambda>x. writeJSON 200 (toOperationResponse stamp x)))"

section \<open>The stream of an operation's output\<close>

text \<open>
  The body of a stream is not JSON; it is represented by the string of its text. \<^verbatim>\<open>select\<close> takes whatever arrives first: a message
  of the operation's channel (\<open>None\<close> if its payload is not the JSON of one), the tick of the clock every two seconds,
  or the end of the subscription. The argument \<open>inputs\<close> is what arrives; after it the client is gone. Buffers of
  the scanner hold 64 KB.
\<close>

datatype StreamInput = StreamMessage "LogMessage option" | StreamRecheck | StreamClosed

definition writeSSEData :: "string \<Rightarrow> string" where
  "writeSSEData payload = concat (map (\<lambda>l. ''data: '' @ l @ [newline, newline]) (scan_lines 65536 payload))
     @ (if payload = [] then ''data: '' @ [newline, newline] else [])"

definition writeSSEEvent :: "string \<Rightarrow> string \<Rightarrow> string" where
  "writeSSEEvent event payload = ''event: '' @ event @ [newline] @ ''data: '' @ payload @ [newline, newline]"

definition intOrZero :: "int option \<Rightarrow> int" where
  "intOrZero p = (case p of None \<Rightarrow> 0 | Some n \<Rightarrow> n)"

definition doneEvent :: "int option \<Rightarrow> string" where
  "doneEvent exitCode = writeSSEEvent ''done'' (''{'' @ CHR 0x22 # ''exit_code'' @ CHR 0x22 # '':''
     @ (if intOrZero exitCode < 0 then ''-'' else []) @ appendInt 1 (nat \<bar>intOrZero exitCode\<bar>) @ ''}'')"

definition operation_ended :: "Operation \<Rightarrow> bool" where
  "operation_ended x = (op_Status x = ''success'' \<or> op_Status x = ''failed'')"

fun stream_loop :: "Operation io \<Rightarrow> StreamInput list \<Rightarrow> (world, string) res" where
  "stream_loop current [] = Done []"
| "stream_loop current (StreamClosed # inputs) = Done []"
| "stream_loop current (StreamMessage None # inputs) = stream_loop current inputs"
| "stream_loop current (StreamMessage (Some m) # inputs) =
     (if lm_Done m then Done (doneEvent (lm_ExitCode m))
      else res_bind (stream_loop current inputs) (\<lambda>rest. Done (writeSSEData (lm_Line m) @ rest)))"
| "stream_loop current (StreamRecheck # inputs) = res_bind current (\<lambda>x. case x of
     Inl _ \<Rightarrow> stream_loop current inputs
   | Inr y \<Rightarrow> if operation_ended y then Done (doneEvent (op_ExitCode y)) else stream_loop current inputs)"

definition eventStream :: "string \<Rightarrow> Response" where
  "eventStream body = \<lparr>rs_Status = 200, rs_Headers = [(''Content-Type'', ''text/event-stream''), (''Cache-Control'', ''no-cache''),
     (''Connection'', ''keep-alive'')], rs_Body = Some (JString body)\<rparr>"

definition StreamOperationHandler :: "StreamInput list \<Rightarrow> handler" where
  "StreamOperationHandler inputs r = withUser r (\<lambda>userID.
     let current = GetOperation_Execute (rq_Scopes r) (rq_PathValue r ''id'') userID (rq_PathValue r ''operationID'') in
     res_bind current (\<lambda>x. case x of
       Inl e \<Rightarrow> Done (writeFleetError r ''operation not found'' e)
     | Inr y \<Rightarrow> if operation_ended y then Done (eventStream (writeSSEData (op_Output y) @ doneEvent (op_ExitCode y)))
         else res_bind (stream_loop current inputs) (\<lambda>body. Done (eventStream body))))"

end
