(* ===== verification/Routes.thy ===== *)
theory Routes
  imports Run_Handlers Tenancy_Handlers Rbac_Handlers Workspace_Handlers Variable_Handlers Secret_Handlers Audit_Handlers
    Identity_Handlers Fleet_Handlers
begin

text \<open>
  The HTTP server of the control plane (\<^verbatim>\<open>cmd/control-plane/main.go\<close>): the routes with the middleware in front of their
  handlers, the multiplexer of \<^verbatim>\<open>net/http\<close>, and around it the rate limiter and the request ids.

  The record \<open>server\<close> has the configuration and what the program does not define itself: the libraries, the outside servers
  and the name of this replica. The record \<open>fresh\<close> has what a request draws at random, and what a stream receives.
\<close>

section \<open>Configuration\<close>

record server =
  sv_crypto :: crypto
  sv_masterKey :: string
  sv_yaml :: yaml
  sv_order :: map_order
  sv_bcrypt :: bcrypt
  sv_sha :: "string \<Rightarrow> nat list"
  sv_vault :: vault_server
  sv_ssh :: ssh_host
  sv_jwt :: jwt
  sv_JWTSigningKey :: string
  sv_zone :: "time \<Rightarrow> int"
  sv_parseTime :: "string \<Rightarrow> time option"
  sv_timeOf :: "string \<Rightarrow> time option"
  sv_errText :: "err \<Rightarrow> string"
  sv_instance :: string

record fresh =
  fr_ID :: "nat \<Rightarrow> id"
  fr_RequestID :: id
  fr_Token :: string
  fr_Salt :: string
  fr_Stream :: "StreamInput list"

text \<open>The layout \<^verbatim>\<open>2006-01-02T15:04:05Z07:00\<close>, with the offset \<open>sv_zone\<close> of the location in seconds.\<close>

definition format_RFC3339 :: "int \<Rightarrow> time \<Rightarrow> string" where
  "format_RFC3339 z t = (let l = t + z * 1000000000 in
     case civil (l div nanos_per_day + unix_epoch_day) of (y, m, d) \<Rightarrow>
       year_str y @ CHR ''-'' # appendInt 2 m @ CHR ''-'' # appendInt 2 (nat d) @ CHR ''T'' #
       clock_str (nat (l mod nanos_per_day) div 1000000000) @ zone_str z)"

definition stamp :: "server \<Rightarrow> time \<Rightarrow> string" where
  "stamp sv t = format_RFC3339 (sv_zone sv t) t"

text \<open>
  The ports through which Variables and Fleet use Secrets. A validation error of Secrets is of another type than theirs, and
  their handlers do not recognise it.
\<close>

definition foreignError :: "'a io \<Rightarrow> 'a io" where
  "foreignError m = bindE (tryE m) (\<lambda>x. case x of
     Inr a \<Rightarrow> retE a
   | Inl e \<Rightarrow> throwE (case e of ValidationError _ \<Rightarrow> ErrVault | _ \<Rightarrow> e))"

definition resolveSecretFor :: "server \<Rightarrow> resolver" where
  "resolveSecretFor sv organizationID mountID path =
     foreignError (ResolveSecret_ResolveValue (sv_crypto sv) (sv_masterKey sv) (sv_vault sv) organizationID mountID path)"

definition writeSecretFor :: "server \<Rightarrow> id \<Rightarrow> id \<Rightarrow> string \<Rightarrow> string \<Rightarrow> unit io" where
  "writeSecretFor sv organizationID mountID path val =
     foreignError (WriteSecret_WriteValue (sv_crypto sv) (sv_masterKey sv) (sv_vault sv) organizationID mountID path val)"

section \<open>The routes\<close>

text \<open>
  A pattern is a method and the segments of a path. A segment in braces is a wildcard, which stands for one segment that is not
  empty.
\<close>

datatype seg = Lit string | Wild string

type_synonym route = "string \<times> seg list \<times> handler"

text \<open>The paths under \<^verbatim>\<open>/api/v1\<close> and those under \<^verbatim>\<open>/api/v1/orgs/{id}\<close>.\<close>

abbreviation api :: "seg list \<Rightarrow> seg list" where "api p \<equiv> Lit ''api'' # Lit ''v1'' # p"

abbreviation org :: "seg list \<Rightarrow> seg list" where "org p \<equiv> api (Lit ''orgs'' # Wild ''id'' # p)"

definition authenticated :: "server \<Rightarrow> handler \<Rightarrow> handler" where
  "authenticated sv = RequireAuth (sv_jwt sv) (sv_JWTSigningKey sv) (Some (apiKeyResolver (sv_sha sv)))"

text \<open>\<^verbatim>\<open>pool.Ping\<close> fails when the database does.\<close>

definition healthHandler :: "(err \<Rightarrow> string) \<Rightarrow> handler" where
  "healthHandler errText r = res_bind (query (\<lambda>_. Inr ())) (\<lambda>x. Done (case x of
     Inl e \<Rightarrow> \<lparr>rs_Status = 503, rs_Headers = [], rs_Body = Some (JObject [(''error'', JString (errText e)), (''status'', JString ''unhealthy'')])\<rparr>
   | Inr _ \<Rightarrow> \<lparr>rs_Status = 200, rs_Headers = [], rs_Body = Some (JObject [(''status'', JString ''healthy'')])\<rparr>))"

definition identity_routes :: "server \<Rightarrow> fresh \<Rightarrow> route list" where
  "identity_routes sv fr = [
     (''GET'', [Lit ''healthz''], healthHandler (sv_errText sv)),
     (''POST'', api [Lit ''users''], RequireAuthOrFirstUserBootstrap (sv_jwt sv) (sv_JWTSigningKey sv) (Some (apiKeyResolver (sv_sha sv))) UserRepository_Count (CreateUserHandler (stamp sv) (sv_bcrypt sv) (fr_Salt fr) (fr_ID fr))),
     (''PUT'', api [Lit ''users'', Wild ''id'', Lit ''platform-admin''], authenticated sv SetPlatformAdminHandler),
     (''GET'', api [Lit ''users'', Lit ''me''], authenticated sv (GetOwnUserHandler (stamp sv))),
     (''POST'', api [Lit ''auth'', Lit ''login''], LoginHandler (sv_bcrypt sv) (sv_sha sv) (sv_jwt sv) (sv_JWTSigningKey sv) (fr_Token fr) (fr_ID fr 0)),
     (''POST'', api [Lit ''auth'', Lit ''refresh''], RefreshTokenHandler (sv_sha sv) (sv_jwt sv) (sv_JWTSigningKey sv) (fr_Token fr) (fr_ID fr 0)),
     (''POST'', api [Lit ''auth'', Lit ''password-reset'', Lit ''request''], RequestPasswordResetHandler (sv_sha sv) (fr_Token fr) (fr_ID fr 0)),
     (''POST'', api [Lit ''auth'', Lit ''password-reset'', Lit ''confirm''], ConfirmPasswordResetHandler (sv_sha sv) (sv_bcrypt sv) (fr_Salt fr))]"

definition organization_routes :: "server \<Rightarrow> fresh \<Rightarrow> route list" where
  "organization_routes sv fr = [
     (''GET'', api [Lit ''orgs''], authenticated sv (ListMyOrganizationsHandler (stamp sv))),
     (''POST'', api [Lit ''orgs''], authenticated sv (CreateOrganizationHandler (stamp sv) (fr_ID fr))),
     (''GET'', org [], authenticated sv (GetOrganizationHandler (stamp sv))),
     (''POST'', org [Lit ''members''], authenticated sv (AddMemberHandler (fr_ID fr))),
     (''GET'', org [Lit ''members''], authenticated sv (ListMembersHandler (stamp sv))),
     (''GET'', org [Lit ''members'', Lit ''available''], authenticated sv ListAvailableUsersHandler),
     (''PUT'', org [Lit ''members'', Wild ''userID'', Lit ''role''], authenticated sv (ChangeMemberRoleHandler (fr_ID fr 0))),
     (''PUT'', org [Lit ''members'', Wild ''userID'', Lit ''block''], authenticated sv BlockMemberHandler),
     (''PUT'', org [Lit ''members'', Wild ''userID'', Lit ''unblock''], authenticated sv UnblockMemberHandler),
     (''DELETE'', org [Lit ''members'', Wild ''userID''], authenticated sv RemoveMemberHandler),
     (''DELETE'', org [], authenticated sv (ArchiveOrganizationHandler (stamp sv) (fr_ID fr 0))),
     (''POST'', org [Lit ''hard-delete''], authenticated sv DeleteOrganizationHandler)]"

definition team_routes :: "server \<Rightarrow> fresh \<Rightarrow> route list" where
  "team_routes sv fr = [
     (''POST'', org [Lit ''teams''], authenticated sv (CreateTeamHandler (stamp sv) (fr_ID fr 0))),
     (''GET'', org [Lit ''teams''], authenticated sv (ListTeamsHandler (stamp sv))),
     (''POST'', org [Lit ''teams'', Wild ''team'', Lit ''members''], authenticated sv (AddTeamMemberHandler (fr_ID fr 0))),
     (''GET'', org [Lit ''teams'', Wild ''team'', Lit ''members''], authenticated sv (ListTeamMembersHandler (stamp sv))),
     (''DELETE'', org [Lit ''teams'', Wild ''team'', Lit ''members'', Wild ''user_id''], authenticated sv RemoveTeamMemberHandler),
     (''PUT'', org [Lit ''teams'', Wild ''team''], authenticated sv (UpdateTeamHandler (stamp sv))),
     (''DELETE'', org [Lit ''teams'', Wild ''team''], authenticated sv DeleteTeamHandler)]"

definition rbac_routes :: "server \<Rightarrow> fresh \<Rightarrow> route list" where
  "rbac_routes sv fr = [
     (''POST'', org [Lit ''roles''], authenticated sv (CreateRoleHandler (fr_ID fr 0))),
     (''GET'', org [Lit ''roles''], authenticated sv ListRolesHandler),
     (''PUT'', org [Lit ''roles'', Wild ''role''], authenticated sv UpdateRoleHandler),
     (''POST'', org [Lit ''role-bindings''], authenticated sv (CreateRoleBindingHandler (stamp sv) (fr_ID fr 0))),
     (''GET'', org [Lit ''role-bindings''], authenticated sv (ListRoleBindingsHandler (stamp sv))),
     (''DELETE'', org [Lit ''role-bindings'', Wild ''bindingID''], authenticated sv DeleteRoleBindingHandler)]"

definition project_routes :: "server \<Rightarrow> fresh \<Rightarrow> route list" where
  "project_routes sv fr = [
     (''POST'', org [Lit ''projects''], authenticated sv (CreateProjectHandler (stamp sv) (fr_ID fr 0))),
     (''GET'', org [Lit ''projects''], authenticated sv (ListProjectsHandler (stamp sv))),
     (''GET'', org [Lit ''projects'', Wild ''projectID''], authenticated sv (GetProjectHandler (stamp sv))),
     (''DELETE'', org [Lit ''projects'', Wild ''projectID''], authenticated sv DeleteProjectHandler),
     (''POST'', org [Lit ''projects'', Wild ''projectID'', Lit ''environments''], authenticated sv (CreateEnvironmentHandler (stamp sv) (fr_ID fr 0))),
     (''GET'', org [Lit ''projects'', Wild ''projectID'', Lit ''environments''], authenticated sv (ListEnvironmentsHandler (stamp sv))),
     (''GET'', org [Lit ''projects'', Wild ''projectID'', Lit ''environments'', Wild ''envID''], authenticated sv (GetEnvironmentHandler (stamp sv))),
     (''POST'', org [Lit ''projects'', Wild ''projectID'', Lit ''workspaces''], authenticated sv (CreateWorkspaceHandler (stamp sv) (fr_ID fr 0))),
     (''GET'', org [Lit ''projects'', Wild ''projectID'', Lit ''workspaces''], authenticated sv (ListWorkspacesHandler (stamp sv))),
     (''GET'', org [Lit ''projects'', Wild ''projectID'', Lit ''workspaces'', Wild ''workspaceID''], authenticated sv (GetWorkspaceHandler (stamp sv))),
     (''DELETE'', org [Lit ''projects'', Wild ''projectID'', Lit ''workspaces'', Wild ''workspaceID''], authenticated sv DeleteWorkspaceHandler),
     (''GET'', org [Lit ''projects'', Wild ''projectID'', Lit ''compose-files''], authenticated sv (ListProjectComposeFilesHandler (stamp sv)))]"

definition run_routes :: "server \<Rightarrow> fresh \<Rightarrow> route list" where
  "run_routes sv fr = [
     (''POST'', org [Lit ''projects'', Wild ''projectID'', Lit ''workspaces'', Wild ''workspaceID'', Lit ''runs''], authenticated sv (Middleware (TriggerRunHandler (stamp sv) (fr_ID fr)))),
     (''GET'', org [Lit ''projects'', Wild ''projectID'', Lit ''workspaces'', Wild ''workspaceID'', Lit ''runs''], authenticated sv (ListRunsHandler (stamp sv))),
     (''GET'', org [Lit ''projects'', Wild ''projectID'', Lit ''workspaces'', Wild ''workspaceID'', Lit ''runs'', Wild ''runID''], authenticated sv (GetRunHandler (stamp sv))),
     (''POST'', org [Lit ''projects'', Wild ''projectID'', Lit ''workspaces'', Wild ''workspaceID'', Lit ''runs'', Wild ''runID'', Lit ''cancel''], authenticated sv (CancelRunHandler (stamp sv) (fr_ID fr 0) (sv_instance sv)))]"

definition variable_routes :: "server \<Rightarrow> fresh \<Rightarrow> route list" where
  "variable_routes sv fr = [
     (''POST'', org [Lit ''variables''], authenticated sv (CreateVariableHandler (stamp sv) (fr_ID fr 0))),
     (''GET'', org [Lit ''variables''], authenticated sv (ListVariablesHandler (stamp sv))),
     (''PUT'', org [Lit ''variables'', Wild ''variableID''], authenticated sv (UpdateVariableHandler (stamp sv))),
     (''DELETE'', org [Lit ''variables'', Wild ''variableID''], authenticated sv DeleteVariableHandler),
     (''GET'', org [Lit ''projects'', Wild ''projectID'', Lit ''workspaces'', Wild ''workspaceID'', Lit ''variables'', Lit ''resolve''], authenticated sv (ResolveVariableHandler (stamp sv) (resolveSecretFor sv)))]"

definition secret_routes :: "server \<Rightarrow> fresh \<Rightarrow> route list" where
  "secret_routes sv fr = [
     (''POST'', org [Lit ''secret-mounts''], authenticated sv (CreateSecretMountHandler (stamp sv) (sv_crypto sv) (sv_masterKey sv) (fr_ID fr))),
     (''GET'', org [Lit ''secret-mounts''], authenticated sv (ListSecretMountsHandler (stamp sv))),
     (''POST'', org [Lit ''secret-mounts'', Wild ''mount'', Lit ''test-connection''], authenticated sv (TestConnectionHandler (sv_errText sv) (sv_crypto sv) (sv_masterKey sv) (sv_vault sv))),
     (''POST'', org [Lit ''secret-mounts'', Wild ''mount'', Lit ''secrets''], authenticated sv (WriteSecretHandler (sv_errText sv) (sv_crypto sv) (sv_masterKey sv) (sv_vault sv)))]"

definition audit_and_account_routes :: "server \<Rightarrow> fresh \<Rightarrow> route list" where
  "audit_and_account_routes sv fr = [
     (''GET'', org [Lit ''audit-log''], authenticated sv (ListAuditLogHandler (stamp sv) (sv_zone sv) (sv_parseTime sv))),
     (''POST'', org [Lit ''service-accounts''], authenticated sv (CreateServiceAccountHandler (stamp sv) (fr_ID fr 0))),
     (''POST'', org [Lit ''service-accounts'', Wild ''sa'', Lit ''api-keys''], authenticated sv (CreateAPIKeyHandler (stamp sv) (sv_timeOf sv) (sv_sha sv) (fr_Token fr) (fr_ID fr 0))),
     (''DELETE'', org [Lit ''service-accounts'', Wild ''sa'', Lit ''api-keys'', Wild ''key''], authenticated sv RevokeAPIKeyHandler)]"

definition machine_routes :: "server \<Rightarrow> fresh \<Rightarrow> route list" where
  "machine_routes sv fr = [
     (''POST'', org [Lit ''machines''], authenticated sv (CreateMachineHandler (stamp sv) (sv_crypto sv) (sv_masterKey sv) (fr_ID fr))),
     (''GET'', org [Lit ''machines''], authenticated sv (ListMachinesHandler (stamp sv))),
     (''POST'', org [Lit ''machines'', Lit ''test-connection''], authenticated sv (TestMachineConnectionHandler (resolveSecretFor sv) (sv_ssh sv))),
     (''GET'', org [Lit ''machines'', Wild ''machineID''], authenticated sv (GetMachineHandler (stamp sv))),
     (''PATCH'', org [Lit ''machines'', Wild ''machineID''], authenticated sv (UpdateMachineHandler (stamp sv) (sv_crypto sv) (sv_masterKey sv) (fr_ID fr))),
     (''DELETE'', org [Lit ''machines'', Wild ''machineID''], authenticated sv (ArchiveMachineHandler (fr_ID fr 0))),
     (''POST'', org [Lit ''machines'', Wild ''machineID'', Lit ''unarchive''], authenticated sv (UnarchiveMachineHandler (fr_ID fr 0))),
     (''POST'', org [Lit ''machines'', Wild ''machineID'', Lit ''hard-delete''], authenticated sv (DeleteMachineHandler (fr_ID fr 0))),
     (''POST'', org [Lit ''machines'', Wild ''machineID'', Lit ''duplicate''], authenticated sv (DuplicateMachineHandler (stamp sv) (fr_ID fr))),
     (''POST'', org [Lit ''machines'', Wild ''machineID'', Lit ''check-connection''], authenticated sv (CheckMachineConnectionHandler (stamp sv) (resolveSecretFor sv) (sv_crypto sv) (sv_masterKey sv) (sv_ssh sv) (fr_ID fr 0))),
     (''POST'', org [Lit ''networks''], authenticated sv (CreateNetworkHandler (stamp sv) (fr_ID fr))),
     (''GET'', org [Lit ''networks''], authenticated sv (ListNetworksHandler (stamp sv))),
     (''DELETE'', org [Lit ''networks'', Wild ''networkID''], authenticated sv (DeleteNetworkHandler (fr_ID fr 0))),
     (''POST'', org [Lit ''volumes''], authenticated sv (CreateVolumeHandler (stamp sv) (fr_ID fr))),
     (''GET'', org [Lit ''volumes''], authenticated sv (ListVolumesHandler (stamp sv))),
     (''DELETE'', org [Lit ''volumes'', Wild ''volumeID''], authenticated sv (DeleteVolumeHandler (fr_ID fr 0)))]"

definition compose_file_routes :: "server \<Rightarrow> fresh \<Rightarrow> route list" where
  "compose_file_routes sv fr = [
     (''POST'', org [Lit ''compose-files''], authenticated sv (CreateComposeFileHandler (stamp sv) (sv_yaml sv) (sv_order sv) (fr_ID fr))),
     (''GET'', org [Lit ''compose-files''], authenticated sv (ListComposeFilesHandler (stamp sv))),
     (''GET'', org [Lit ''compose-files'', Wild ''composeFileID''], authenticated sv (GetComposeFileHandler (stamp sv))),
     (''PUT'', org [Lit ''compose-files'', Wild ''composeFileID'', Lit ''content''], authenticated sv (UpdateComposeFileContentHandler (sv_yaml sv) (sv_order sv) (fr_ID fr))),
     (''DELETE'', org [Lit ''compose-files'', Wild ''composeFileID''], authenticated sv (DeleteComposeFileHandler (fr_ID fr 0))),
     (''POST'', org [Lit ''compose-files'', Wild ''composeFileID'', Lit ''networks''], authenticated sv (AttachNetworkHandler (fr_ID fr 0))),
     (''GET'', org [Lit ''compose-files'', Wild ''composeFileID'', Lit ''networks''], authenticated sv (ListComposeFileNetworksHandler (stamp sv))),
     (''DELETE'', org [Lit ''compose-files'', Wild ''composeFileID'', Lit ''networks'', Wild ''networkID''], authenticated sv (DetachNetworkHandler (fr_ID fr 0))),
     (''POST'', org [Lit ''compose-files'', Wild ''composeFileID'', Lit ''volumes''], authenticated sv (AttachVolumeHandler (fr_ID fr 0))),
     (''GET'', org [Lit ''compose-files'', Wild ''composeFileID'', Lit ''volumes''], authenticated sv (ListComposeFileVolumesHandler (stamp sv))),
     (''DELETE'', org [Lit ''compose-files'', Wild ''composeFileID'', Lit ''volumes'', Wild ''volumeID''], authenticated sv (DetachVolumeHandler (fr_ID fr 0))),
     (''POST'', org [Lit ''compose-files'', Wild ''composeFileID'', Lit ''projects''], authenticated sv (AttachProjectHandler (fr_ID fr 0))),
     (''GET'', org [Lit ''compose-files'', Wild ''composeFileID'', Lit ''projects''], authenticated sv ListComposeFileProjectsHandler),
     (''DELETE'', org [Lit ''compose-files'', Wild ''composeFileID'', Lit ''projects'', Wild ''projectID''], authenticated sv (DetachProjectHandler (fr_ID fr 0))),
     (''POST'', org [Lit ''compose-files'', Wild ''composeFileID'', Lit ''variables''], authenticated sv (CreateFleetVariableHandler (stamp sv) (fr_ID fr))),
     (''GET'', org [Lit ''compose-files'', Wild ''composeFileID'', Lit ''variables''], authenticated sv (ListFleetVariablesHandler (stamp sv))),
     (''PUT'', org [Lit ''compose-files'', Wild ''composeFileID'', Lit ''variables'', Wild ''variableID''], authenticated sv (UpdateFleetVariableHandler (stamp sv) (fr_ID fr 0))),
     (''DELETE'', org [Lit ''compose-files'', Wild ''composeFileID'', Lit ''variables'', Wild ''variableID''], authenticated sv (DeleteFleetVariableHandler (fr_ID fr 0))),
     (''POST'', org [Lit ''compose-files'', Wild ''composeFileID'', Lit ''variables'', Lit ''secret''], authenticated sv (CreateSecretVariableHandler (stamp sv) (writeSecretFor sv) (fr_ID fr))),
     (''GET'', org [Lit ''compose-files'', Wild ''composeFileID'', Lit ''variables'', Wild ''variableID'', Lit ''reveal''], authenticated sv (RevealVariableHandler (resolveSecretFor sv)))]"

definition operation_routes :: "server \<Rightarrow> fresh \<Rightarrow> route list" where
  "operation_routes sv fr = [
     (''POST'', org [Lit ''operations''], authenticated sv (Middleware (TriggerOperationHandler (stamp sv) (fr_ID fr)))),
     (''GET'', org [Lit ''operations''], authenticated sv (ListOperationsHandler (stamp sv))),
     (''GET'', org [Lit ''operations'', Wild ''operationID''], authenticated sv (GetOperationHandler (stamp sv))),
     (''GET'', org [Lit ''operations'', Wild ''operationID'', Lit ''stream''], authenticated sv (StreamOperationHandler (fr_Stream fr)))]"

definition routes :: "server \<Rightarrow> fresh \<Rightarrow> route list" where
  "routes sv fr = identity_routes sv fr @ organization_routes sv fr @ team_routes sv fr @ rbac_routes sv fr @ project_routes sv fr @ run_routes sv fr @ variable_routes sv fr @ secret_routes sv fr @ audit_and_account_routes sv fr @ machine_routes sv fr @ compose_file_routes sv fr @ operation_routes sv fr"

section \<open>The multiplexer of net/http\<close>

text \<open>
  The multiplexer keeps the patterns in a tree and descends segment by segment, first by the literal and, if that leads
  nowhere, by the wildcard. A request with the method HEAD is also served by a pattern for GET. Paths are clean: the multiplexer
  redirects the others before it looks for a pattern, which is not modelled, nor is that the answer to a HEAD request has no body.
\<close>

definition literalChild :: "string \<Rightarrow> (seg list \<times> 'h) list \<Rightarrow> (seg list \<times> 'h) list" where
  "literalChild s rs = [(ps, h). (Lit l # ps, h) \<leftarrow> rs, l = s]"

definition wildcardChild :: "(seg list \<times> 'h) list \<Rightarrow> (seg list \<times> 'h) list" where
  "wildcardChild rs = [(ps, h). (Wild n # ps, h) \<leftarrow> rs]"

function walk :: "(seg list \<times> 'h) list \<Rightarrow> string list \<Rightarrow> 'h option" where
  "walk rs [] = map_option snd (List.find (\<lambda>(p, _). p = []) rs)"
| "walk rs (s # ss) = (case walk (literalChild s rs) ss of
     Some h \<Rightarrow> Some h
   | None \<Rightarrow> if s = [] then None else walk (wildcardChild rs) ss)"
  by pat_completeness auto
termination by (relation "measure (\<lambda>(_, ss). length ss)") auto

fun bindPath :: "seg list \<Rightarrow> string list \<Rightarrow> (string \<times> string) list" where
  "bindPath (Lit _ # ps) (s # ss) = bindPath ps ss"
| "bindPath (Wild n # ps) (s # ss) = (n, s) # bindPath ps ss"
| "bindPath _ _ = []"

definition ofMethod :: "string \<Rightarrow> route list \<Rightarrow> (seg list \<times> route) list" where
  "ofMethod meth rs = [(fst (snd x), x). x \<leftarrow> rs, fst x = meth]"

definition findRoute :: "route list \<Rightarrow> string \<Rightarrow> string list \<Rightarrow> route option" where
  "findRoute rs meth path = (case walk (ofMethod meth rs) path of
     Some x \<Rightarrow> Some x
   | None \<Rightarrow> if meth = ''HEAD'' then walk (ofMethod ''GET'' rs) path else None)"

definition textError :: "int \<Rightarrow> string \<Rightarrow> Response" where
  "textError status body = \<lparr>rs_Status = status, rs_Headers = [(''Content-Type'', ''text/plain; charset=utf-8''),
     (''X-Content-Type-Options'', ''nosniff'')], rs_Body = Some (JString body)\<rparr>"

definition allowedMethods :: "route list \<Rightarrow> string list \<Rightarrow> string list" where
  "allowedMethods rs path = [m. m \<leftarrow> [''DELETE'', ''GET'', ''HEAD'', ''PATCH'', ''POST'', ''PUT''], findRoute rs m path \<noteq> None]"

definition ServeMux :: "route list \<Rightarrow> handler" where
  "ServeMux rs r = (case findRoute rs (rq_Method r) (rq_Path r) of
     Some (_, pattern, h) \<Rightarrow>
       let vs = bindPath pattern (rq_Path r) in
       h (r\<lparr>rq_PathValue := (\<lambda>n. case map_of vs n of None \<Rightarrow> [] | Some v \<Rightarrow> v)\<rparr>)
   | None \<Rightarrow> Done (case allowedMethods rs (rq_Path r) of
       [] \<Rightarrow> textError 404 ''404 page not found''
     | m # ms \<Rightarrow> (textError 405 ''Method Not Allowed'')\<lparr>rs_Headers := [(''Allow'', concat (m # map (\<lambda>x. '', '' @ x) ms)),
         (''Content-Type'', ''text/plain; charset=utf-8''), (''X-Content-Type-Options'', ''nosniff'')]\<rparr>))"

section \<open>The server\<close>

definition RequestID :: "id \<Rightarrow> handler \<Rightarrow> handler" where
  "RequestID uuid next r = (let i = (if rq_RequestID r = [] then uuid else rq_RequestID r) in
     res_bind (next (r\<lparr>rq_RequestID := i\<rparr>)) (\<lambda>rs. Done (rs\<lparr>rs_Headers := (''X-Request-ID'', i) # rs_Headers rs\<rparr>)))"

definition control_plane :: "server \<Rightarrow> fresh \<Rightarrow> handler" where
  "control_plane sv fr = RequestID (fr_RequestID fr) (RateLimit ''general'' (ServeMux (routes sv fr)))"

end
