(* ===== verification/Routes_Props.thy ===== *)
theory Routes_Props
  imports Routes
begin

text \<open>
  What the routing of requests guarantees: which routes answer without credentials, that every route is reached by
  the requests its pattern describes, and what an internal error tells.
\<close>

section \<open>Routes and credentials\<close>

text \<open>The routes without \<open>RequireAuth\<close>; the first user is created without credentials too.\<close>

definition open_patterns :: "(string \<times> seg list) list" where
  "open_patterns = [(''GET'', [Lit ''healthz'']), (''POST'', api [Lit ''auth'', Lit ''login'']), (''POST'', api [Lit ''auth'', Lit ''refresh'']),
     (''POST'', api [Lit ''auth'', Lit ''password-reset'', Lit ''request'']), (''POST'', api [Lit ''auth'', Lit ''password-reset'', Lit ''confirm''])]"

definition bootstrap_pattern :: "string \<times> seg list" where
  "bootstrap_pattern = (''POST'', api [Lit ''users''])"

definition guarded :: "server \<Rightarrow> route \<Rightarrow> bool" where
  "guarded sv = (\<lambda>(m, p, h). (m, p) \<in> set open_patterns \<or> (m, p) = bootstrap_pattern \<or> (\<exists>h'. h = authenticated sv h'))"

lemma guarded_authenticated [simp]: "guarded sv (m, p, authenticated sv h)"
  by (auto simp: guarded_def)

lemmas route_tables = identity_routes_def organization_routes_def team_routes_def rbac_routes_def project_routes_def run_routes_def
  variable_routes_def secret_routes_def audit_and_account_routes_def machine_routes_def compose_file_routes_def operation_routes_def

lemma guarded_open: "(m, p) \<in> set open_patterns \<Longrightarrow> guarded sv (m, p, h)" "guarded sv (''POST'', api [Lit ''users''], h)"
  by (simp_all add: guarded_def bootstrap_pattern_def)

lemma routes_guarded: "list_all (guarded sv) (routes sv fr)"
  by (simp add: routes_def route_tables guarded_open open_patterns_def)

section \<open>The multiplexer\<close>

text \<open>\<open>covers p path\<close>: the path is one the pattern describes. \<open>fill v p\<close>: the path of the pattern for the values \<open>v\<close> of its wildcards.\<close>

fun covers :: "seg list \<Rightarrow> string list \<Rightarrow> bool" where
  "covers [] [] = True"
| "covers (Lit l # p) (s # ss) = (l = s \<and> covers p ss)"
| "covers (Wild n # p) (s # ss) = (s \<noteq> [] \<and> covers p ss)"
| "covers _ _ = False"

definition fill :: "(string \<Rightarrow> string) \<Rightarrow> seg list \<Rightarrow> string list" where
  "fill v p = map (\<lambda>x. case x of Lit l \<Rightarrow> l | Wild n \<Rightarrow> v n) p"

lemma covers_Nil [simp]: "covers p [] \<longleftrightarrow> p = []" "covers [] ss \<longleftrightarrow> ss = []"
  by (cases "(p, [] :: string list)" rule: covers.cases; simp) (cases ss; simp)

lemma covers_Cons: "covers (x # p) path \<longleftrightarrow> (\<exists>s ss. path = s # ss \<and> covers p ss \<and> (case x of Lit l \<Rightarrow> l = s | Wild n \<Rightarrow> s \<noteq> []))"
  by (cases path; cases x) auto

lemma covers_fill: "(\<And>n. Wild n \<in> set p \<Longrightarrow> v n \<noteq> []) \<Longrightarrow> covers p (fill v p)"
  by (induction p) (auto simp: fill_def split: seg.split)

lemma map_of_bindPath: "map_of (bindPath p (fill v p)) n = (if Wild n \<in> set p then Some (v n) else None)"
  by (induction p) (auto simp: fill_def split: seg.split)

lemma literalChild_iff [simp]: "(p, h) \<in> set (literalChild s rs) \<longleftrightarrow> (Lit s # p, h) \<in> set rs"
  by (force simp: literalChild_def split: list.splits seg.splits)

lemma wildcardChild_iff [simp]: "(p, h) \<in> set (wildcardChild rs) \<longleftrightarrow> (\<exists>n. (Wild n # p, h) \<in> set rs)"
  by (force simp: wildcardChild_def split: list.splits seg.splits)

lemma walk_sound: "walk rs path = Some h \<Longrightarrow> \<exists>p. (p, h) \<in> set rs \<and> covers p path"
proof (induction rs path rule: walk.induct)
  case (1 rs)
  then show ?case by (auto dest!: find_SomeD)
next
  case (2 rs s ss)
  show ?case
  proof (cases "walk (literalChild s rs) ss")
    case None
    with "2.prems" have "s \<noteq> []" "walk (wildcardChild rs) ss = Some h" by (auto split: if_splits)
    with "2.IH"(2) [OF None] obtain p n where "(Wild n # p, h) \<in> set rs" "covers p ss" by auto
    with \<open>s \<noteq> []\<close> show ?thesis by force
  next
    case (Some h')
    with "2.prems" "2.IH"(1) obtain p where "(Lit s # p, h) \<in> set rs" "covers p ss" by auto
    then show ?thesis by force
  qed
qed

lemma walk_complete: "(p, h) \<in> set rs \<Longrightarrow> covers p path \<Longrightarrow> walk rs path \<noteq> None"
proof (induction rs path arbitrary: p rule: walk.induct)
  case (1 rs)
  then show ?case by (auto simp: find_None_iff)
next
  case (2 rs s ss)
  from "2.prems"(2) obtain x q where p: "p = x # q" by (cases p) auto
  show ?case
  proof (cases "walk (literalChild s rs) ss")
    case None
    with "2.IH"(1) [of q] "2.prems" p obtain n where x: "x = Wild n" by (cases x) auto
    with "2.IH"(2) [OF None, of q] "2.prems" p None show ?thesis by auto
  qed simp
qed

text \<open>No two patterns of the same method describe a common path, so it does not matter which one the multiplexer prefers.\<close>

fun apart :: "seg list \<Rightarrow> seg list \<Rightarrow> bool" where
  "apart (Lit a # p) (Lit b # q) = (if a = b then apart p q else True)"
| "apart (_ # p) (_ # q) = apart p q"
| "apart [] [] = False"
| "apart _ _ = True"

fun separated :: "seg list list \<Rightarrow> bool" where
  "separated [] = True"
| "separated (p # ps) = (list_all (apart p) ps \<and> separated ps)"

lemma apart_covers: "apart p q \<Longrightarrow> covers p path \<Longrightarrow> covers q path \<Longrightarrow> False"
  by (induction p q arbitrary: path rule: apart.induct) (auto simp: covers_Cons split: if_splits)

lemma separated_unique:
  "separated (map fst xs) \<Longrightarrow> x \<in> set xs \<Longrightarrow> y \<in> set xs \<Longrightarrow> covers (fst x) path \<Longrightarrow> covers (fst y) path \<Longrightarrow> x = y"
  by (induction xs) (auto simp: list_all_iff dest: apart_covers)

definition methods :: "string list" where
  "methods = [''GET'', ''POST'', ''PUT'', ''PATCH'', ''DELETE'']"

lemma routes_separated: "list_all (\<lambda>m. separated (map fst (ofMethod m (routes sv fr)))) methods"
  apply (simp add: ofMethod_def routes_def route_tables methods_def del: separated.simps)
  apply (intro conjI)
      apply code_simp+
  done

lemma routes_methods: "list_all (\<lambda>x. fst x \<in> set methods) (routes sv fr)"
  by (simp add: routes_def route_tables methods_def)

lemma in_ofMethod: "(p, x) \<in> set (ofMethod m rs) \<longleftrightarrow> x \<in> set rs \<and> fst x = m \<and> p = fst (snd x)"
  by (auto simp: ofMethod_def)

lemma findRoute_unique:
  assumes "(m, p, h) \<in> set (routes sv fr)" and "covers p path"
  shows "findRoute (routes sv fr) m path = Some (m, p, h)"
proof -
  let ?rs = "ofMethod m (routes sv fr)"
  have x: "(p, (m, p, h)) \<in> set ?rs" using assms(1) by (simp add: in_ofMethod)
  have "m \<in> set methods" using routes_methods [of sv fr] assms(1) by (auto simp: list_all_iff)
  then have sep: "separated (map fst ?rs)" using routes_separated [of sv fr] by (auto simp: list_all_iff)
  obtain y where y: "walk ?rs path = Some y" using walk_complete [OF x assms(2)] by blast
  obtain q where "(q, y) \<in> set ?rs" "covers q path" using walk_sound [OF y] by blast
  then have "(q, y) = (p, (m, p, h))" using separated_unique [OF sep _ x] assms(2) by simp
  with y show ?thesis by (simp add: findRoute_def)
qed

lemma findRoute_in: "findRoute rs m path = Some x \<Longrightarrow> x \<in> set rs"
  by (auto simp: findRoute_def in_ofMethod dest!: walk_sound split: option.splits if_splits)

text \<open>
  C10: Every route is reached. For every pattern the server registers and all non-empty values for its wildcards, a request with the
  pattern's method and the path the values make of it is answered by the handler registered with this pattern, and the handler reads exactly
  these values as the path's values: no other pattern, whatever the order of registration, takes the request away, and no
  two wildcards are confused.
\<close>

theorem every_route_is_reached:
  assumes "(m, p, h) \<in> set (routes sv fr)" and "rq_Method r = m" and "rq_Path r = fill v p" and "\<forall>n. Wild n \<in> set p \<longrightarrow> v n \<noteq> []"
  shows "ServeMux (routes sv fr) r = h (r\<lparr>rq_PathValue := (\<lambda>n. if Wild n \<in> set p then v n else [])\<rparr>)"
proof -
  have "findRoute (routes sv fr) (rq_Method r) (rq_Path r) = Some (m, p, h)"
    using assms findRoute_unique covers_fill by metis
  moreover have "(\<lambda>n. case map_of (bindPath p (fill v p)) n of None \<Rightarrow> [] | Some x \<Rightarrow> x) = (\<lambda>n. if Wild n \<in> set p then v n else [])"
    by (auto simp: map_of_bindPath)
  ultimately show ?thesis using assms(3) by (simp add: ServeMux_def)
qed

theorem every_route_is_reached_witness:
  "\<forall>sv fr r. ServeMux (routes sv fr) (r\<lparr>rq_Method := ''PUT'', rq_Path := [''api'', ''v1'', ''orgs'', ''o1'', ''members'', ''bob'', ''role'']\<rparr>)
    = authenticated sv (ChangeMemberRoleHandler (fr_ID fr 0)) (r\<lparr>rq_Method := ''PUT'',
        rq_Path := [''api'', ''v1'', ''orgs'', ''o1'', ''members'', ''bob'', ''role''],
        rq_PathValue := (\<lambda>n. if n = ''id'' then ''o1'' else if n = ''userID'' then ''bob'' else [])\<rparr>)"
proof (intro allI)
  fix sv fr and r :: Request
  let ?p = "org [Lit ''members'', Wild ''userID'', Lit ''role'']"
  let ?v = "(\<lambda>n. if n = ''id'' then ''o1'' else ''bob'') :: string \<Rightarrow> string"
  let ?r = "r\<lparr>rq_Method := ''PUT'', rq_Path := [''api'', ''v1'', ''orgs'', ''o1'', ''members'', ''bob'', ''role'']\<rparr>"
  have "(''PUT'', ?p, authenticated sv (ChangeMemberRoleHandler (fr_ID fr 0))) \<in> set (routes sv fr)"
    by (simp add: routes_def organization_routes_def)
  moreover have "rq_Method ?r = ''PUT''" "rq_Path ?r = fill ?v ?p" "\<forall>n. Wild n \<in> set ?p \<longrightarrow> ?v n \<noteq> []"
    by (simp_all add: fill_def)
  ultimately have "ServeMux (routes sv fr) ?r = authenticated sv (ChangeMemberRoleHandler (fr_ID fr 0))
      (?r\<lparr>rq_PathValue := (\<lambda>n. if Wild n \<in> set ?p then ?v n else [])\<rparr>)" by (rule every_route_is_reached)
  also have "(\<lambda>n. if Wild n \<in> set ?p then ?v n else []) = (\<lambda>n. if n = ''id'' then ''o1'' else if n = ''userID'' then ''bob'' else [])"
    by (rule ext) simp
  finally show "ServeMux (routes sv fr) ?r = authenticated sv (ChangeMemberRoleHandler (fr_ID fr 0)) (r\<lparr>rq_Method := ''PUT'',
      rq_Path := [''api'', ''v1'', ''orgs'', ''o1'', ''members'', ''bob'', ''role''],
      rq_PathValue := (\<lambda>n. if n = ''id'' then ''o1'' else if n = ''userID'' then ''bob'' else [])\<rparr>)" by simp
qed

section \<open>Requests without credentials\<close>

text \<open>What the \<open>Authorization\<close> header of a request is worth: the user and the scopes it stands for, if the server accepts it.\<close>

abbreviation login_of :: "server \<Rightarrow> Request \<Rightarrow> (id \<times> string list) option io" where
  "login_of sv r \<equiv> authenticate (sv_jwt sv) (sv_JWTSigningKey sv) (Some (apiKeyResolver (sv_sha sv))) r"

definition accepted :: "server \<Rightarrow> Request \<Rightarrow> world \<Rightarrow> bool" where
  "accepted sv r w \<longleftrightarrow> (\<exists>p. fst (run (login_of sv r) w) = Inr (Some p))"

lemma login_of_request [simp]:
  "login_of sv (r\<lparr>rq_PathValue := v\<rparr>) = login_of sv r" "login_of sv (r\<lparr>rq_RequestID := i\<rparr>) = login_of sv r"
  by (simp_all add: authenticate_def)

lemma run_apiKeyResolver:
  "run (apiKeyResolver sha token) w =
     (if fault_now w then (Inl ErrDB, pop w)
      else case List.find (\<lambda>x. ak_KeyHash (akr_Key x) = HashOpaqueToken sha token) (api_keys (db w)) of
        None \<Rightarrow> (Inl ErrAPIKeyInvalid, pop w)
      | Some x \<Rightarrow> if APIKey_Valid (clock w) (akr_Key x)
          then (Inr (ak_OwnerID (akr_Key x), ak_Scopes (akr_Key x)), snd (run (TouchLastUsed (ak_ID (akr_Key x))) (pop w)))
          else (Inl ErrAPIKeyInvalid, pop w))"
  by (simp add: apiKeyResolver_def APIKeyRepository_GetByHash_def run_head oneRow_def case_prod_beta split: option.split)

text \<open>A refused request has changed nothing but what the database will fail next, and the rate limiters have no say in it.\<close>

lemma run_login_of:
  "run (login_of sv r) w = (case CutPrefix (rq_Authorization r) ''Bearer '' of
     None \<Rightarrow> (Inr None, w)
   | Some token \<Rightarrow>
     if token = [] then (Inr None, w)
     else if count_list token CHR ''.'' = 2 then
       (case jwt_Parse (sv_jwt sv) (clock w) (sv_JWTSigningKey sv) token of
          None \<Rightarrow> (Inl ErrInvalidToken, w)
        | Some subject \<Rightarrow> if subject \<noteq> [] then (Inr (Some (subject, [])), w) else (Inl ErrInvalidToken, w))
     else (case run (apiKeyResolver (sv_sha sv) token) w of
         (Inl e, w') \<Rightarrow> (Inl e, w') | (Inr p, w') \<Rightarrow> (Inr (Some p), w')))"
  by (auto simp: authenticate_def ParseAccessToken_def run_head run_bindE run_nowE run_guardE split: option.split prod.split sum.split)

lemma refused_unchanged:
  "run (login_of sv r) w = (x, w') \<Longrightarrow> (\<And>p. x \<noteq> Inr (Some p)) \<Longrightarrow> w' = w\<lparr>faults := faults w'\<rparr>"
  by (auto simp: run_login_of run_apiKeyResolver pop_def split: option.splits if_splits)

lemma accepted_limiters [simp]: "accepted sv r (w\<lparr>limiters := l\<rparr>) = accepted sv r w"
proof -
  have "fst (run (apiKeyResolver sha token) (w\<lparr>limiters := l\<rparr>)) = fst (run (apiKeyResolver sha token) w)" for sha token
    by (simp add: run_apiKeyResolver fault_now_def split: option.split)
  then have "fst (run (login_of sv r) (w\<lparr>limiters := l\<rparr>)) = fst (run (login_of sv r) w)"
    by (auto simp: run_login_of split: option.split prod.split sum.split dest!: arg_cong [of _ _ fst])
  then show ?thesis by (simp add: accepted_def)
qed

lemma run_limiter_Allow:
  "run (limiter_Allow name key) w = (let (answer, l) = Limiter_Allow (clock w) key (limiters w name) in
     (answer, w\<lparr>limiters := (limiters w)(name := l)\<rparr>))"
  by (simp add: limiter_Allow_def run_atomic Let_def split: prod.split)

lemma WriteProblem_status [simp]: "rs_Status (WriteProblem r status title detail) = status"
  by (simp add: WriteProblem_def)

definition untouched :: "world \<Rightarrow> world \<Rightarrow> bool" where
  "untouched w w' \<longleftrightarrow> w' = w\<lparr>faults := faults w', limiters := limiters w'\<rparr>"

lemma run_authenticated_refused:
  assumes "\<not> accepted sv r w" and "rq_Authorization r' = rq_Authorization r"
  shows "fst (run (authenticated sv h r') w) = WriteProblem r' 401 ''missing or malformed Authorization header'' []
    \<and> untouched w (snd (run (authenticated sv h r') w))"
proof -
  have same: "login_of sv r' = login_of sv r" using assms(2) by (simp add: authenticate_def)
  obtain x w' where x: "run (login_of sv r) w = (x, w')" by (cases "run (login_of sv r) w")
  with assms(1) have no: "\<And>p. x \<noteq> Inr (Some p)" by (auto simp: accepted_def)
  then have "(case x of Inr (Some (i, s)) \<Rightarrow> h (r'\<lparr>rq_UserID := Some i, rq_Scopes := s\<rparr>) | _ \<Rightarrow> Done (WriteProblem r' 401 t [])) = Done (WriteProblem r' 401 t [])" for t
    by (auto split: sum.split option.split)
  with x refused_unchanged [OF x no] show ?thesis
    by (simp add: authenticated_def RequireAuth_def run_bind same untouched_def)
qed

lemma route_handler_unique: "(m, p, h) \<in> set (routes sv fr) \<Longrightarrow> (m, p, h') \<in> set (routes sv fr) \<Longrightarrow> h = h'"
  using findRoute_unique [of m p h sv fr "fill (\<lambda>_. ''x'') p"] findRoute_unique [of m p h' sv fr "fill (\<lambda>_. ''x'') p"]
  by (simp add: covers_fill)

definition bootstrap_handler :: "server \<Rightarrow> fresh \<Rightarrow> handler" where
  "bootstrap_handler sv fr = RequireAuthOrFirstUserBootstrap (sv_jwt sv) (sv_JWTSigningKey sv) (Some (apiKeyResolver (sv_sha sv))) UserRepository_Count
     (CreateUserHandler (stamp sv) (sv_bcrypt sv) (fr_Salt fr) (fr_ID fr))"

lemma bootstrap_route: "(''POST'', api [Lit ''users''], h) \<in> set (routes sv fr) \<Longrightarrow> h = bootstrap_handler sv fr"
proof (rule route_handler_unique)
  show "(''POST'', api [Lit ''users''], bootstrap_handler sv fr) \<in> set (routes sv fr)"
    by (simp add: routes_def identity_routes_def bootstrap_handler_def)
qed

lemma run_bootstrap_refused:
  assumes "\<not> accepted sv r w" and "rq_Authorization r' = rq_Authorization r" and "users (db w) \<noteq> []"
  shows "rs_Status (fst (run (bootstrap_handler sv fr r') w)) \<in> {401, 500} \<and> untouched w (snd (run (bootstrap_handler sv fr r') w))"
proof (cases "CutPrefix (rq_Authorization r') ''Bearer '' \<noteq> None \<and> rq_Authorization r' \<noteq> ''Bearer ''")
  case True
  have same: "login_of sv r' = login_of sv r" using assms(2) by (simp add: authenticate_def)
  obtain x w' where x: "run (login_of sv r) w = (x, w')" by (cases "run (login_of sv r) w")
  with assms(1) have no: "\<And>p. x \<noteq> Inr (Some p)" by (auto simp: accepted_def)
  then have "(\<exists>e. x = Inl e) \<or> x = Inr None" by (metis not_Some_eq obj_sumE surj_pair)
  with True x refused_unchanged [OF x no] show ?thesis
    unfolding bootstrap_handler_def RequireAuthOrFirstUserBootstrap_def by (auto simp: run_bind same untouched_def)
next
  case False
  with assms(3) show ?thesis
    unfolding bootstrap_handler_def RequireAuthOrFirstUserBootstrap_def
    by (auto simp: run_bind UserRepository_Count_def run_query untouched_def pop_def)
qed

definition demo_served :: world where
  "demo_served = demo\<lparr>limiters := (\<lambda>_. \<lparr>lim_windows = Map.empty, lim_limit = 100, lim_interval = seconds 60\<rparr>)\<rparr>"

definition demo_anonymous :: Request where
  "demo_anonymous = \<lparr>rq_Method = ''DELETE'', rq_Path = [''api'', ''v1'', ''orgs'', ''o1''], rq_Authorization = [], rq_IdempotencyKey = [],
     rq_RequestID = [], rq_RemoteAddr = ''10.0.0.7:4000'', rq_PathValue = (\<lambda>_. []), rq_Query = (\<lambda>_. []), rq_Body = None, rq_BodyError = [],
     rq_UserID = None, rq_Scopes = []\<rparr>"

text \<open>
  C3: Without accepted credentials nothing can be done. A request whose \<open>Authorization\<close> header the server does not accept (there is
  none, it is malformed, the token is unknown, expired or revoked, or the check itself fails) and whose route is not one of the
  five open ones is answered with an error (401; 404 or 405 if no route fits; 429 if the address sent too many; 500 if the
  database fails), and neither the database nor any other state outside the rate limiters has changed. The
  route that creates a user is covered as soon as there is a user.
\<close>

theorem anonymous_requests_change_nothing:
  assumes "\<not> accepted sv r w"
    and "\<And>m p h. findRoute (routes sv fr) (rq_Method r) (rq_Path r) = Some (m, p, h) \<Longrightarrow> (m, p) \<notin> set open_patterns"
    and "users (db w) \<noteq> []"
    and "run (control_plane sv fr r) w = (resp, w')"
  shows "rs_Status resp \<in> {401, 404, 405, 429, 500} \<and> w' = w\<lparr>faults := faults w', limiters := limiters w'\<rparr>"
proof -
  let ?r = "r\<lparr>rq_RequestID := (if rq_RequestID r = [] then fr_RequestID fr else rq_RequestID r)\<rparr>"
  obtain a after l where lim: "Limiter_Allow (clock w) (clientIP ?r) (limiters w ''general'') = ((a, after), l)"
    by (metis surj_pair)
  let ?w = "w\<lparr>limiters := (limiters w)(''general'' := l)\<rparr>"
  have mux: "rs_Status (fst (run (ServeMux (routes sv fr) ?r) ?w)) \<in> {401, 404, 405, 500} \<and> untouched ?w (snd (run (ServeMux (routes sv fr) ?r) ?w))"
  proof (cases "findRoute (routes sv fr) (rq_Method r) (rq_Path r)")
    case None
    then show ?thesis by (auto simp: ServeMux_def textError_def untouched_def split: list.split)
  next
    case (Some x)
    obtain m p h where x: "x = (m, p, h)" by (metis surj_pair)
    let ?v = "\<lambda>n. case map_of (bindPath p (rq_Path r)) n of None \<Rightarrow> [] | Some v \<Rightarrow> v"
    from Some x have mem: "(m, p, h) \<in> set (routes sv fr)" by (blast dest: findRoute_in)
    then have "guarded sv (m, p, h)" using routes_guarded by (auto simp: list_all_iff)
    with assms(2) Some x consider h' where "h = authenticated sv h'" | "(m, p) = bootstrap_pattern"
      by (auto simp: guarded_def)
    moreover have "\<not> accepted sv r ?w" using assms(1) by simp
    moreover have "run (ServeMux (routes sv fr) ?r) ?w = run (h (?r\<lparr>rq_PathValue := ?v\<rparr>)) ?w"
      using Some x by (simp add: ServeMux_def)
    ultimately show ?thesis
    proof cases
      case 1
      with run_authenticated_refused [of sv r ?w "?r\<lparr>rq_PathValue := ?v\<rparr>" h'] \<open>\<not> accepted sv r ?w\<close>
        \<open>run (ServeMux (routes sv fr) ?r) ?w = run (h (?r\<lparr>rq_PathValue := ?v\<rparr>)) ?w\<close>
      show ?thesis by simp
    next
      case 2
      then have "h = bootstrap_handler sv fr" using mem bootstrap_route by (simp add: bootstrap_pattern_def)
      with run_bootstrap_refused [of sv r ?w "?r\<lparr>rq_PathValue := ?v\<rparr>" fr] \<open>\<not> accepted sv r ?w\<close> assms(3)
        \<open>run (ServeMux (routes sv fr) ?r) ?w = run (h (?r\<lparr>rq_PathValue := ?v\<rparr>)) ?w\<close>
      show ?thesis by auto
    qed
  qed
  show ?thesis
  proof (cases a)
    case True
    with assms(4) lim mux show ?thesis
      by (auto simp: control_plane_def RequestID_def RateLimit_def Let_def run_bind run_limiter_Allow untouched_def split: prod.splits)
  next
    case False
    with assms(4) lim show ?thesis
      by (auto simp: control_plane_def RequestID_def RateLimit_def Let_def run_bind run_limiter_Allow untouched_def tooMany_def Let_def)
  qed
qed

theorem anonymous_requests_change_nothing_witness:
  "\<forall>sv fr. rs_Status (fst (run (control_plane sv fr demo_anonymous) demo_served)) \<in> {401, 404, 405, 429, 500}
     \<and> db (snd (run (control_plane sv fr demo_anonymous) demo_served)) = demo_db"
proof (intro allI)
  fix sv fr
  obtain resp w' where run: "run (control_plane sv fr demo_anonymous) demo_served = (resp, w')" by fastforce
  have no: "\<not> accepted sv demo_anonymous demo_served"
    by (simp add: accepted_def authenticate_def CutPrefix_def demo_anonymous_def)
  have route: "findRoute (routes sv fr) (rq_Method demo_anonymous) (rq_Path demo_anonymous)
      = Some (''DELETE'', org [], authenticated sv (ArchiveOrganizationHandler (stamp sv) (fr_ID fr 0)))"
    unfolding demo_anonymous_def Request.simps by (rule findRoute_unique) (simp_all add: routes_def organization_routes_def)
  have users: "users (db demo_served) \<noteq> []" by (simp add: demo_served_def demo_db_def)
  have "rs_Status resp \<in> {401, 404, 405, 429, 500} \<and> w' = demo_served\<lparr>faults := faults w', limiters := limiters w'\<rparr>"
  proof (rule anonymous_requests_change_nothing [OF no _ users run])
    fix m p h
    assume "findRoute (routes sv fr) (rq_Method demo_anonymous) (rq_Path demo_anonymous) = Some (m, p, h)"
    with route show "(m, p) \<notin> set open_patterns" by (auto simp: open_patterns_def)
  qed
  moreover from this have "db w' = db demo_served" by (metis world.select_convs(1) world.surjective world.update_convs(3,7))
  ultimately show "rs_Status (fst (run (control_plane sv fr demo_anonymous) demo_served)) \<in> {401, 404, 405, 429, 500}
     \<and> db (snd (run (control_plane sv fr demo_anonymous) demo_served)) = demo_db"
    using run by (simp add: demo_served_def)
qed

end
