(* ===== verification/Routes_Errors.thy ===== *)
theory Routes_Errors
  imports Routes_Props
begin

text \<open>
  What the server tells about its internal errors: an answer with status 500 is one of a fixed list of titles, whatever
  went wrong.
\<close>

section \<open>All answers of a program\<close>

text \<open>\<open>answers P m\<close>: whatever the state is before each of its steps, the program \<open>m\<close> ends with an answer in \<open>P\<close>.\<close>

primrec answers :: "('a \<Rightarrow> bool) \<Rightarrow> ('w, 'a) res \<Rightarrow> bool" where
  "answers P (Done a) = P a"
| "answers P (Step f) = (\<forall>w. case (map_prod (answers P) id \<circ> f) w of (p, _) \<Rightarrow> p)"

lemma answers_Step: "answers P (Step f) \<longleftrightarrow> (\<forall>w. answers P (fst (f w)))"
  by (simp add: map_prod_def case_prod_beta)

lemma answers_run: "answers P m \<Longrightarrow> P (fst (run m w))"
  by (induction m arbitrary: w rule: res_induct) (simp_all add: answers_Step run_Step del: answers.simps(2) run.simps(2))

lemma answers_bind: "(\<And>x. answers P (k x)) \<Longrightarrow> answers P (res_bind m k)"
  by (induction m rule: res_induct) (simp_all add: answers_Step bind_Step del: answers.simps(2) res_bind.simps(2))

lemma answers_bind_with: "answers Q m \<Longrightarrow> (\<And>x. Q x \<Longrightarrow> answers P (k x)) \<Longrightarrow> answers P (res_bind m k)"
  by (induction m rule: res_induct) (simp_all add: answers_Step bind_Step del: answers.simps(2) res_bind.simps(2))

section \<open>Opaque errors\<close>

definition internal_titles :: "string list" where
  "internal_titles = [''failed to create organization'', ''failed to fetch organization'', ''failed to list organizations'', ''failed to archive organization'',
     ''failed to delete organization'', ''failed to add member'', ''failed to change member role'', ''failed to block member'',
     ''failed to unblock member'', ''failed to remove member'', ''failed to list members'', ''failed to list available users'',
     ''failed to create project'', ''failed to list projects'', ''failed to fetch project'', ''failed to delete project'',
     ''internal error'', ''failed to create environment'', ''failed to list environments'', ''failed to fetch environment'',
     ''failed to create workspace'', ''failed to list workspaces'', ''failed to delete workspace'', ''failed to fetch workspace'',
     ''failed to fetch audit log'', ''failed to create user'', ''failed to fetch user'', ''failed to update platform admin status'',
     ''login failed'', ''refresh failed'', ''password reset request failed'', ''password reset failed'',
     ''failed to check bootstrap eligibility'', ''idempotency check failed'']"

definition opaque :: "string \<Rightarrow> Response \<Rightarrow> bool" where
  "opaque i rs \<longleftrightarrow> (rs_Status rs = 500 \<longrightarrow> (\<exists>t \<in> set internal_titles. rs_Body rs = Some (JObject ([(''type'', JString ''about:blank''),
     (''title'', JString t), (''status'', JInt 500)] @ omitempty ''request_id'' i))))"

named_theorems opaque_intros "programs whose internal errors are opaque"

lemma opaque_WriteProblem [simp]:
  "status \<noteq> 500 \<Longrightarrow> opaque i (WriteProblem r status title detail)"
  "title \<in> set internal_titles \<Longrightarrow> opaque (rq_RequestID r) (WriteProblem r 500 title [])"
  by (simp_all add: opaque_def WriteProblem_def omitempty_def)

lemma opaque_simps [simp]:
  "status \<noteq> 500 \<Longrightarrow> opaque i (writeJSON status body)" "status \<noteq> 500 \<Longrightarrow> opaque i (writeStatus status)"
  "status \<noteq> 500 \<Longrightarrow> opaque i (textError status msg)" "opaque i aborted" "opaque i (tooMany r t title)" "opaque i (eventStream msg)"
  "opaque i (rs\<lparr>rs_Headers := hs\<rparr>) = opaque i rs"
  by (simp_all add: opaque_def writeJSON_def writeStatus_def textError_def aborted_def tooMany_def Let_def WriteProblem_def eventStream_def)

lemma opaque_problem [opaque_intros]:
  "list_all (\<lambda>(_, status, _). status \<noteq> 500) table \<Longrightarrow> internal \<in> set internal_titles \<Longrightarrow> opaque (rq_RequestID r) (problem r table internal e)"
  by (auto simp: problem_def list_all_iff split: option.split dest!: map_of_SomeD)

lemma opaque_invalid [opaque_intros]: "opaque i (onError e) \<Longrightarrow> opaque i (invalid r onError e)"
  by (cases e) (simp_all add: invalid_def)

lemma opaque_serve [opaque_intros]:
  "(\<And>e. opaque i (onError e)) \<Longrightarrow> (\<And>a. opaque i (onResult a)) \<Longrightarrow> answers (opaque i) (serve m onError onResult)"
  unfolding serve_def by (rule answers_bind) (simp split: sum.split)

lemma opaque_withUser [opaque_intros]: "(\<And>userID. answers (opaque i) (k userID)) \<Longrightarrow> answers (opaque i) (withUser r k)"
  by (simp add: withUser_def split: option.split)

lemma opaque_withBody [opaque_intros]: "(\<And>req. answers (opaque i) (k req)) \<Longrightarrow> answers (opaque i) (withBody setf zero r k)"
  by (simp add: withBody_def split: option.split)

lemma opaque_withStrings [opaque_intros]: "(\<And>req. answers (opaque i) (k req)) \<Longrightarrow> answers (opaque i) (withStrings names r k)"
  unfolding withStrings_def by (rule opaque_withBody)

lemma opaque_withPointers [opaque_intros]: "(\<And>req. answers (opaque i) (k req)) \<Longrightarrow> answers (opaque i) (withPointers names r k)"
  unfolding withPointers_def by (rule opaque_withBody)

lemma opaque_cases [opaque_intros]:
  "(\<And>a b. answers P (f a b)) \<Longrightarrow> answers P (case_prod f x)" "answers P (g y) \<Longrightarrow> answers P (Let y g)"
  "(b \<Longrightarrow> answers P m) \<Longrightarrow> (\<not> b \<Longrightarrow> answers P n) \<Longrightarrow> answers P (if b then m else n)"
  "answers P m \<Longrightarrow> (\<And>a. answers P (k a)) \<Longrightarrow> answers P (case_option m k v)"
  "(\<And>e. answers P (l e)) \<Longrightarrow> (\<And>a. answers P (k a)) \<Longrightarrow> answers P (case_sum l k z)"
  "P a \<Longrightarrow> answers P (Done a)" "(\<And>a b. opaque i (f' a b)) \<Longrightarrow> opaque i (case_prod f' x)"
  by (auto split: prod.split option.split sum.split)

lemmas [opaque_intros] = answers_bind

lemma opaque_authenticated [opaque_intros]:
  "(\<And>u s. answers (opaque i) (h (r\<lparr>rq_UserID := u, rq_Scopes := s\<rparr>))) \<Longrightarrow> answers (opaque i) (authenticated sv h r)"
  unfolding authenticated_def RequireAuth_def by (rule answers_bind) (auto split: sum.split option.split)

lemma opaque_writers [opaque_intros]:
  "opaque (rq_RequestID r) (writeTeamError r t e)" "opaque (rq_RequestID r) (writeRBACError r e)"
  "opaque (rq_RequestID r) (writeVariablesError r t e)" "opaque (rq_RequestID r) (writeSecretsError r e)"
  "opaque (rq_RequestID r) (writeIdentityError r t e)" "opaque (rq_RequestID r) (writeFleetError r t e)"
  "opaque (rq_RequestID r) (writeExecutionError r t e)"
  unfolding writeTeamError_def writeRBACError_def writeVariablesError_def writeSecretsError_def writeIdentityError_def writeFleetError_def
  by (intro opaque_intros; simp add: internal_titles_def; fail)+ (cases e; simp add: writeExecutionError_def internal_titles_def)

lemma opaque_writeNotFoundOrForbidden [opaque_intros]:
  "internal \<in> set internal_titles \<Longrightarrow> opaque (rq_RequestID r) (writeNotFoundOrForbidden r t internal e)"
  unfolding writeNotFoundOrForbidden_def by (rule opaque_problem) simp_all

section \<open>The handlers\<close>

lemma tenancy_opaque [opaque_intros]:
  "answers (opaque (rq_RequestID r)) (CreateOrganizationHandler st u r)"
  "answers (opaque (rq_RequestID r)) (GetOrganizationHandler st r)"
  "answers (opaque (rq_RequestID r)) (ListMyOrganizationsHandler st r)"
  "answers (opaque (rq_RequestID r)) (ArchiveOrganizationHandler st uuid r)"
  "answers (opaque (rq_RequestID r)) (DeleteOrganizationHandler r)"
  "answers (opaque (rq_RequestID r)) (AddMemberHandler u r)"
  "answers (opaque (rq_RequestID r)) (ChangeMemberRoleHandler uuid r)"
  "answers (opaque (rq_RequestID r)) (BlockMemberHandler r)"
  "answers (opaque (rq_RequestID r)) (UnblockMemberHandler r)"
  "answers (opaque (rq_RequestID r)) (RemoveMemberHandler r)"
  "answers (opaque (rq_RequestID r)) (ListMembersHandler st r)"
  "answers (opaque (rq_RequestID r)) (ListAvailableUsersHandler r)"
  "answers (opaque (rq_RequestID r)) (CreateProjectHandler st uuid r)"
  "answers (opaque (rq_RequestID r)) (ListProjectsHandler st r)"
  unfolding CreateOrganizationHandler_def GetOrganizationHandler_def ListMyOrganizationsHandler_def ArchiveOrganizationHandler_def DeleteOrganizationHandler_def AddMemberHandler_def ChangeMemberRoleHandler_def BlockMemberHandler_def UnblockMemberHandler_def RemoveMemberHandler_def ListMembersHandler_def ListAvailableUsersHandler_def CreateProjectHandler_def ListProjectsHandler_def
  by (intro opaque_intros; simp add: internal_titles_def)+

lemma tenancy_opaque_2 [opaque_intros]:
  "answers (opaque (rq_RequestID r)) (GetProjectHandler st r)"
  "answers (opaque (rq_RequestID r)) (DeleteProjectHandler r)"
  "answers (opaque (rq_RequestID r)) (CreateTeamHandler st uuid r)"
  "answers (opaque (rq_RequestID r)) (UpdateTeamHandler st r)"
  "answers (opaque (rq_RequestID r)) (DeleteTeamHandler r)"
  "answers (opaque (rq_RequestID r)) (ListTeamsHandler st r)"
  "answers (opaque (rq_RequestID r)) (AddTeamMemberHandler uuid r)"
  "answers (opaque (rq_RequestID r)) (ListTeamMembersHandler st r)"
  "answers (opaque (rq_RequestID r)) (RemoveTeamMemberHandler r)"
  unfolding GetProjectHandler_def DeleteProjectHandler_def CreateTeamHandler_def UpdateTeamHandler_def DeleteTeamHandler_def ListTeamsHandler_def AddTeamMemberHandler_def ListTeamMembersHandler_def RemoveTeamMemberHandler_def
  by (intro opaque_intros; simp add: internal_titles_def)+

lemma rbac_opaque [opaque_intros]:
  "answers (opaque (rq_RequestID r)) (CreateRoleHandler uuid r)"
  "answers (opaque (rq_RequestID r)) (UpdateRoleHandler r)"
  "answers (opaque (rq_RequestID r)) (ListRolesHandler r)"
  "answers (opaque (rq_RequestID r)) (CreateRoleBindingHandler st uuid r)"
  "answers (opaque (rq_RequestID r)) (ListRoleBindingsHandler st r)"
  "answers (opaque (rq_RequestID r)) (DeleteRoleBindingHandler r)"
  unfolding CreateRoleHandler_def UpdateRoleHandler_def ListRolesHandler_def CreateRoleBindingHandler_def ListRoleBindingsHandler_def DeleteRoleBindingHandler_def
  by (intro opaque_intros; simp add: internal_titles_def)+

lemma workspace_opaque [opaque_intros]:
  "answers (opaque (rq_RequestID r)) (CreateEnvironmentHandler st uuid r)"
  "answers (opaque (rq_RequestID r)) (ListEnvironmentsHandler st r)"
  "answers (opaque (rq_RequestID r)) (GetEnvironmentHandler st r)"
  "answers (opaque (rq_RequestID r)) (CreateWorkspaceHandler st uuid r)"
  "answers (opaque (rq_RequestID r)) (ListWorkspacesHandler st r)"
  "answers (opaque (rq_RequestID r)) (DeleteWorkspaceHandler r)"
  "answers (opaque (rq_RequestID r)) (GetWorkspaceHandler st r)"
  unfolding CreateEnvironmentHandler_def ListEnvironmentsHandler_def GetEnvironmentHandler_def CreateWorkspaceHandler_def ListWorkspacesHandler_def DeleteWorkspaceHandler_def GetWorkspaceHandler_def
  by (intro opaque_intros; simp add: internal_titles_def)+

lemma variable_opaque [opaque_intros]:
  "answers (opaque (rq_RequestID r)) (UpdateVariableHandler st r)"
  "answers (opaque (rq_RequestID r)) (DeleteVariableHandler r)"
  "answers (opaque (rq_RequestID r)) (CreateVariableHandler st uuid r)"
  "answers (opaque (rq_RequestID r)) (ListVariablesHandler st r)"
  "answers (opaque (rq_RequestID r)) (ResolveVariableHandler st resolveSecret r)"
  unfolding UpdateVariableHandler_def DeleteVariableHandler_def CreateVariableHandler_def ListVariablesHandler_def ResolveVariableHandler_def
  by (intro opaque_intros; simp add: internal_titles_def)+

lemma secret_opaque [opaque_intros]:
  "answers (opaque (rq_RequestID r)) (CreateSecretMountHandler st cr masterKey u r)"
  "answers (opaque (rq_RequestID r)) (ListSecretMountsHandler st r)"
  unfolding CreateSecretMountHandler_def ListSecretMountsHandler_def
  by (intro opaque_intros; simp add: internal_titles_def)+

lemma identity_opaque [opaque_intros]:
  "answers (opaque (rq_RequestID r)) (CreateUserHandler st bc salt u r)"
  "answers (opaque (rq_RequestID r)) (GetOwnUserHandler st r)"
  "answers (opaque (rq_RequestID r)) (SetPlatformAdminHandler r)"
  "answers (opaque (rq_RequestID r)) (RefreshTokenHandler sha jw secret rnd uuid r)"
  "answers (opaque (rq_RequestID r)) (RequestPasswordResetHandler sha rnd uuid r)"
  "answers (opaque (rq_RequestID r)) (ConfirmPasswordResetHandler sha bc salt r)"
  "answers (opaque (rq_RequestID r)) (CreateServiceAccountHandler st uuid r)"
  "answers (opaque (rq_RequestID r)) (CreateAPIKeyHandler st timeOf sha rnd uuid r)"
  "answers (opaque (rq_RequestID r)) (RevokeAPIKeyHandler r)"
  unfolding CreateUserHandler_def GetOwnUserHandler_def SetPlatformAdminHandler_def RefreshTokenHandler_def RequestPasswordResetHandler_def ConfirmPasswordResetHandler_def CreateServiceAccountHandler_def CreateAPIKeyHandler_def RevokeAPIKeyHandler_def
  by (intro opaque_intros; simp add: internal_titles_def)+

lemma fleet_opaque [opaque_intros]:
  "answers (opaque (rq_RequestID r)) (CreateMachineHandler st cr masterKey u r)"
  "answers (opaque (rq_RequestID r)) (ListMachinesHandler st r)"
  "answers (opaque (rq_RequestID r)) (GetMachineHandler st r)"
  "answers (opaque (rq_RequestID r)) (UpdateMachineHandler st cr masterKey u r)"
  "answers (opaque (rq_RequestID r)) (ArchiveMachineHandler uuid r)"
  "answers (opaque (rq_RequestID r)) (UnarchiveMachineHandler uuid r)"
  "answers (opaque (rq_RequestID r)) (DeleteMachineHandler uuid r)"
  "answers (opaque (rq_RequestID r)) (TestMachineConnectionHandler resolveSecret h r)"
  "answers (opaque (rq_RequestID r)) (CheckMachineConnectionHandler st resolveSecret cr masterKey h uuid r)"
  "answers (opaque (rq_RequestID r)) (CreateNetworkHandler st u r)"
  "answers (opaque (rq_RequestID r)) (ListNetworksHandler st r)"
  "answers (opaque (rq_RequestID r)) (DeleteNetworkHandler uuid r)"
  "answers (opaque (rq_RequestID r)) (CreateVolumeHandler st u r)"
  "answers (opaque (rq_RequestID r)) (ListVolumesHandler st r)"
  unfolding CreateMachineHandler_def ListMachinesHandler_def GetMachineHandler_def UpdateMachineHandler_def ArchiveMachineHandler_def UnarchiveMachineHandler_def DeleteMachineHandler_def TestMachineConnectionHandler_def CheckMachineConnectionHandler_def CreateNetworkHandler_def ListNetworksHandler_def DeleteNetworkHandler_def CreateVolumeHandler_def ListVolumesHandler_def
  by (intro opaque_intros; simp add: internal_titles_def)+

lemma fleet_opaque_2 [opaque_intros]:
  "answers (opaque (rq_RequestID r)) (DeleteVolumeHandler uuid r)"
  "answers (opaque (rq_RequestID r)) (CreateComposeFileHandler st y ord u r)"
  "answers (opaque (rq_RequestID r)) (ListComposeFilesHandler st r)"
  "answers (opaque (rq_RequestID r)) (GetComposeFileHandler st r)"
  "answers (opaque (rq_RequestID r)) (UpdateComposeFileContentHandler y ord u r)"
  "answers (opaque (rq_RequestID r)) (DeleteComposeFileHandler uuid r)"
  "answers (opaque (rq_RequestID r)) (AttachNetworkHandler uuid r)"
  "answers (opaque (rq_RequestID r)) (DetachNetworkHandler uuid r)"
  "answers (opaque (rq_RequestID r)) (ListComposeFileNetworksHandler st r)"
  "answers (opaque (rq_RequestID r)) (AttachVolumeHandler uuid r)"
  "answers (opaque (rq_RequestID r)) (DetachVolumeHandler uuid r)"
  "answers (opaque (rq_RequestID r)) (ListComposeFileVolumesHandler st r)"
  "answers (opaque (rq_RequestID r)) (ListProjectComposeFilesHandler st r)"
  "answers (opaque (rq_RequestID r)) (AttachProjectHandler uuid r)"
  unfolding DeleteVolumeHandler_def CreateComposeFileHandler_def ListComposeFilesHandler_def GetComposeFileHandler_def UpdateComposeFileContentHandler_def DeleteComposeFileHandler_def AttachNetworkHandler_def DetachNetworkHandler_def ListComposeFileNetworksHandler_def AttachVolumeHandler_def DetachVolumeHandler_def ListComposeFileVolumesHandler_def ListProjectComposeFilesHandler_def AttachProjectHandler_def
  by (intro opaque_intros; simp add: internal_titles_def)+

lemma fleet_opaque_3 [opaque_intros]:
  "answers (opaque (rq_RequestID r)) (DetachProjectHandler uuid r)"
  "answers (opaque (rq_RequestID r)) (ListComposeFileProjectsHandler r)"
  "answers (opaque (rq_RequestID r)) (CreateFleetVariableHandler st u r)"
  "answers (opaque (rq_RequestID r)) (CreateSecretVariableHandler st writeSecret u r)"
  "answers (opaque (rq_RequestID r)) (RevealVariableHandler resolveSecret r)"
  "answers (opaque (rq_RequestID r)) (ListFleetVariablesHandler st r)"
  "answers (opaque (rq_RequestID r)) (UpdateFleetVariableHandler st uuid r)"
  "answers (opaque (rq_RequestID r)) (DeleteFleetVariableHandler uuid r)"
  "answers (opaque (rq_RequestID r)) (TriggerOperationHandler st u r)"
  "answers (opaque (rq_RequestID r)) (ListOperationsHandler st r)"
  "answers (opaque (rq_RequestID r)) (GetOperationHandler st r)"
  unfolding DetachProjectHandler_def ListComposeFileProjectsHandler_def CreateFleetVariableHandler_def CreateSecretVariableHandler_def RevealVariableHandler_def ListFleetVariablesHandler_def UpdateFleetVariableHandler_def DeleteFleetVariableHandler_def TriggerOperationHandler_def ListOperationsHandler_def GetOperationHandler_def
  by (intro opaque_intros; simp add: internal_titles_def)+

lemma run_opaque [opaque_intros]:
  "answers (opaque (rq_RequestID r)) (TriggerRunHandler st u r)"
  "answers (opaque (rq_RequestID r)) (CancelRunHandler st uuid inst r)"
  "answers (opaque (rq_RequestID r)) (ListRunsHandler st r)"
  "answers (opaque (rq_RequestID r)) (GetRunHandler st r)"
  unfolding TriggerRunHandler_def CancelRunHandler_def ListRunsHandler_def GetRunHandler_def
  by (intro opaque_intros; simp add: internal_titles_def)+

lemma secret_errors_opaque [opaque_intros]:
  "opaque (rq_RequestID r) (if e = ErrForbidden \<or> e = ErrSecretMountNotFound then writeSecretsError r e else WriteProblem r 502 t d)"
  "opaque (rq_RequestID r) (case e of ValidationError _ \<Rightarrow> writeSecretsError r e
     | _ \<Rightarrow> if e = ErrForbidden \<or> e = ErrSecretMountNotFound then writeSecretsError r e else WriteProblem r 502 t d)"
  using opaque_writers(4) [of r e] by (cases e; simp)+

lemma special_opaque [opaque_intros]:
  "answers (opaque (rq_RequestID r)) (ListAuditLogHandler st zone fallback r)"
  "answers (opaque (rq_RequestID r)) (LoginHandler bc sha jw secret rnd uuid r)"
  "answers (opaque (rq_RequestID r)) (DuplicateMachineHandler st u r)"
  "answers (opaque (rq_RequestID r)) (TestConnectionHandler errText cr masterKey srv r)"
  "answers (opaque (rq_RequestID r)) (WriteSecretHandler errText cr masterKey srv r)"
  "answers (opaque (rq_RequestID r)) (StreamOperationHandler inputs r)"
  "answers (opaque (rq_RequestID r)) (healthHandler errText r)"
  unfolding ListAuditLogHandler_def LoginHandler_def DuplicateMachineHandler_def TestConnectionHandler_def WriteSecretHandler_def
    StreamOperationHandler_def healthHandler_def
  by (intro opaque_intros; simp add: internal_titles_def)+ (rule answers_bind; simp add: opaque_def split: sum.split)

section \<open>The server\<close>

definition secretive :: "handler \<Rightarrow> bool" where
  "secretive h \<longleftrightarrow> (\<forall>r. rq_IdempotencyKey r = [] \<longrightarrow> answers (opaque (rq_RequestID r)) (h r))"

lemma secretiveI: "(\<And>r. answers (opaque (rq_RequestID r)) (h r)) \<Longrightarrow> secretive h"
  by (simp add: secretive_def)

lemma secretiveD: "secretive h \<Longrightarrow> rq_IdempotencyKey r = [] \<Longrightarrow> rq_RequestID r = i \<Longrightarrow> answers (opaque i) (h r)"
  by (auto simp: secretive_def)

lemma secretive_authenticated: "secretive h \<Longrightarrow> secretive (authenticated sv h)"
  unfolding secretive_def authenticated_def RequireAuth_def
proof (intro allI impI answers_bind)
  fix r :: Request and x
  assume h: "\<forall>r. rq_IdempotencyKey r = [] \<longrightarrow> answers (opaque (rq_RequestID r)) (h r)" and r: "rq_IdempotencyKey r = []"
  have "answers (opaque (rq_RequestID r)) (h (r\<lparr>rq_UserID := Some i, rq_Scopes := s\<rparr>))" for i s
    using h [rule_format, of "r\<lparr>rq_UserID := Some i, rq_Scopes := s\<rparr>"] r by simp
  then show "answers (opaque (rq_RequestID r)) (case x of Inr (Some (subjectID, scopes)) \<Rightarrow> h (r\<lparr>rq_UserID := Some subjectID, rq_Scopes := scopes\<rparr>)
      | _ \<Rightarrow> Done (WriteProblem r 401 ''missing or malformed Authorization header'' []))"
    by (auto split: sum.split option.split)
qed

lemma secretive_Middleware: "secretive h \<Longrightarrow> secretive (Middleware h)"
  by (simp add: secretive_def Middleware_def)

lemma secretive_bootstrap: "secretive h \<Longrightarrow> secretive (RequireAuthOrFirstUserBootstrap jw secret res users_count h)"
  unfolding secretive_def
proof (intro allI impI)
  fix r :: Request
  assume h: "\<forall>r. rq_IdempotencyKey r = [] \<longrightarrow> answers (opaque (rq_RequestID r)) (h r)" and r: "rq_IdempotencyKey r = []"
  have "answers (opaque (rq_RequestID r)) (h (r\<lparr>rq_UserID := Some i, rq_Scopes := s\<rparr>))" for i s
    using h [rule_format, of "r\<lparr>rq_UserID := Some i, rq_Scopes := s\<rparr>"] r by simp
  then show "answers (opaque (rq_RequestID r)) (RequireAuthOrFirstUserBootstrap jw secret res users_count h r)"
    using h r unfolding RequireAuthOrFirstUserBootstrap_def
    by (auto intro!: answers_bind simp: internal_titles_def split: sum.split option.split)
qed

lemma list_all_Nil: "list_all P []"
  by simp

lemma routes_secretive: "list_all (\<lambda>(m, p, h). secretive h) (routes sv fr)"
proof -
  note rules = conjI list_all_Nil secretive_authenticated secretive_Middleware secretive_bootstrap secretiveI opaque_intros
  have "list_all (\<lambda>(m, p, h). secretive h) (identity_routes sv fr)" "list_all (\<lambda>(m, p, h). secretive h) (organization_routes sv fr)"
    "list_all (\<lambda>(m, p, h). secretive h) (team_routes sv fr)" "list_all (\<lambda>(m, p, h). secretive h) (rbac_routes sv fr)"
    "list_all (\<lambda>(m, p, h). secretive h) (project_routes sv fr)" "list_all (\<lambda>(m, p, h). secretive h) (run_routes sv fr)"
    "list_all (\<lambda>(m, p, h). secretive h) (variable_routes sv fr)" "list_all (\<lambda>(m, p, h). secretive h) (secret_routes sv fr)"
    "list_all (\<lambda>(m, p, h). secretive h) (audit_and_account_routes sv fr)" "list_all (\<lambda>(m, p, h). secretive h) (machine_routes sv fr)"
    "list_all (\<lambda>(m, p, h). secretive h) (compose_file_routes sv fr)" "list_all (\<lambda>(m, p, h). secretive h) (operation_routes sv fr)"
    unfolding route_tables list.pred_inject prod.case by (intro rules)+
  then show ?thesis by (simp add: routes_def)
qed

section \<open>A login with a failing database\<close>

definition demo_login :: Request where
  "demo_login = \<lparr>rq_Method = ''POST'', rq_Path = [''api'', ''v1'', ''auth'', ''login''], rq_Authorization = [], rq_IdempotencyKey = [],
     rq_RequestID = ''req-1'', rq_RemoteAddr = ''10.0.0.7:4000'', rq_PathValue = (\<lambda>_. []), rq_Query = (\<lambda>_. []),
     rq_Body = Some (JObject [(''username'', JString ''alice''), (''password'', JString ''x'')]), rq_BodyError = [],
     rq_UserID = None, rq_Scopes = []\<rparr>"

lemma unused_limiter_allows: "Limiter_Allow now key \<lparr>lim_windows = Map.empty, lim_limit = 100, lim_interval = i\<rparr>
    = ((True, 0), \<lparr>lim_windows = [key \<mapsto> \<lparr>win_count = 1, win_resetAt = now + i\<rparr>], lim_limit = 100, lim_interval = i\<rparr>)"
  by (simp add: Limiter_Allow_def current_window_def Let_def)

lemma decode_login: "decodeStruct (setStrings loginRequest) (\<lambda>_. []) (rq_Body demo_login)
    = Some ((\<lambda>_. [])(''username'' := ''alice'', ''password'' := ''x''))"
proof -
  have "map Http.to_lower ''username'' = ''username''" "map Http.to_lower ''password'' = ''password''" by code_simp+
  then show ?thesis by (simp add: decodeStruct_def setStrings_def loginRequest_def scalar_def demo_login_def del: list.map)
qed

lemma run_login_fault:
  assumes "rq_Body r = rq_Body demo_login" and "limiters w ''login'' = \<lparr>lim_windows = Map.empty, lim_limit = 100, lim_interval = j\<rparr>" and "faults w = [True]"
  shows "rs_Status (fst (run (LoginHandler bc sha jw secret rnd uuid r) w)) = 500"
  using assms by (simp add: run_query fault_now_def LoginHandler_def withStrings_def withBody_def decode_login run_bind run_limiter_Allow unused_limiter_allows
      Authenticate_Execute_def UserRepository_GetByUsername_def serve_def problem_def WriteProblem_def oneRow_def run_head)

lemma run_demo_login:
  fixes fr :: fresh
  shows "rs_Status (fst (run (control_plane sv fr demo_login) (demo_served\<lparr>faults := [True]\<rparr>))) = 500"
proof -
  let ?v = "\<lambda>n. case map_of (bindPath (api [Lit ''auth'', Lit ''login'']) (rq_Path demo_login)) n of None \<Rightarrow> [] | Some v \<Rightarrow> v"
  have "findRoute (routes sv fr) (rq_Method demo_login) (rq_Path demo_login) = Some (''POST'', api [Lit ''auth'', Lit ''login''],
      LoginHandler (sv_bcrypt sv) (sv_sha sv) (sv_jwt sv) (sv_JWTSigningKey sv) (fr_Token fr) (fr_ID fr 0))"
    unfolding demo_login_def Request.simps by (rule findRoute_unique) (simp_all add: routes_def identity_routes_def)
  then have "ServeMux (routes sv fr) (demo_login\<lparr>rq_RequestID := ''req-1''\<rparr>)
      = LoginHandler (sv_bcrypt sv) (sv_sha sv) (sv_jwt sv) (sv_JWTSigningKey sv) (fr_Token fr) (fr_ID fr 0) (demo_login\<lparr>rq_RequestID := ''req-1'', rq_PathValue := ?v\<rparr>)"
    by (simp add: ServeMux_def)
  moreover have "rq_RequestID demo_login = ''req-1''" by (simp add: demo_login_def)
  moreover have "limiters demo_served = (\<lambda>_. \<lparr>lim_windows = Map.empty, lim_limit = 100, lim_interval = seconds 60\<rparr>)"
    by (simp add: demo_served_def)
  moreover have "rs_Status (fst (run (LoginHandler (sv_bcrypt sv) (sv_sha sv) (sv_jwt sv) (sv_JWTSigningKey sv) (fr_Token fr) (fr_ID fr 0)
      (demo_login\<lparr>rq_RequestID := ''req-1'', rq_PathValue := ?v\<rparr>)) (demo_served\<lparr>faults := [True], limiters := (limiters demo_served)(''general'' := l)\<rparr>))) = 500" for l
    by (rule run_login_fault) (simp_all add: demo_served_def)
  ultimately show ?thesis
    by (simp add: control_plane_def RequestID_def RateLimit_def Let_def run_bind run_limiter_Allow unused_limiter_allows case_prod_beta)
qed

section \<open>The property\<close>

text \<open>
  C7: Internal errors are opaque. When the server answers a request with status 500, the body is one of a fixed list of titles
  with the request id, and nothing else: whatever failed (a query, a constraint, a decryption, the Vault or SSH client), on
  whatever route, its text and the values involved are not part of the answer. (A request with an idempotency key may
  be answered with a stored answer instead.)
\<close>

theorem internal_errors_are_opaque:
  assumes "rq_IdempotencyKey r = []" and "fst (run (control_plane sv fr r) w) = resp" and "rs_Status resp = 500"
  shows "\<exists>t \<in> set internal_titles. rs_Body resp = Some (JObject ([(''type'', JString ''about:blank''), (''title'', JString t), (''status'', JInt 500)]
    @ omitempty ''request_id'' (if rq_RequestID r = [] then fr_RequestID fr else rq_RequestID r)))"
proof -
  let ?i = "if rq_RequestID r = [] then fr_RequestID fr else rq_RequestID r"
  let ?r = "r\<lparr>rq_RequestID := ?i\<rparr>"
  have "answers (opaque ?i) (ServeMux (routes sv fr) ?r)"
  proof (cases "findRoute (routes sv fr) (rq_Method r) (rq_Path r)")
    case None
    then show ?thesis by (auto simp: ServeMux_def split: list.split)
  next
    case (Some x)
    obtain m p h where x: "x = (m, p, h)" by (metis surj_pair)
    let ?v = "\<lambda>n. case map_of (bindPath p (rq_Path r)) n of None \<Rightarrow> [] | Some v \<Rightarrow> v"
    from Some x have "secretive h" using routes_secretive [of sv fr] by (auto simp: list_all_iff dest!: findRoute_in)
    then have "answers (opaque ?i) (h (?r\<lparr>rq_PathValue := ?v\<rparr>))" by (rule secretiveD) (simp_all add: assms(1))
    with Some x show ?thesis by (simp add: ServeMux_def)
  qed
  moreover obtain i where i: "i = ?i" by blast
  ultimately have mux: "answers (opaque i) (ServeMux (routes sv fr) (r\<lparr>rq_RequestID := i\<rparr>))" by simp
  have "answers (opaque i) (RateLimit ''general'' (ServeMux (routes sv fr)) (r\<lparr>rq_RequestID := i\<rparr>))"
    unfolding RateLimit_def by (rule answers_bind) (use mux in \<open>auto split: prod.split simp: tooMany_def opaque_def Let_def\<close>)
  then have "answers (opaque i) (control_plane sv fr r)"
    unfolding control_plane_def RequestID_def Let_def i [symmetric] by (rule answers_bind_with) (simp add: opaque_def)
  from answers_run [OF this, of w] assms(2,3) i show ?thesis by (simp add: opaque_def)
qed

theorem internal_errors_are_opaque_witness:
  "\<forall>sv fr. \<exists>t \<in> set internal_titles. rs_Body (fst (run (control_plane sv fr demo_login) (demo_served\<lparr>faults := [True]\<rparr>)))
     = Some (JObject [(''type'', JString ''about:blank''), (''title'', JString t), (''status'', JInt 500), (''request_id'', JString ''req-1'')])"
proof (intro allI)
  fix sv and fr :: fresh
  have "rq_IdempotencyKey demo_login = []" and i: "(if rq_RequestID demo_login = [] then fr_RequestID fr else rq_RequestID demo_login) = ''req-1''"
    by (simp_all add: demo_login_def)
  from internal_errors_are_opaque [OF this(1) refl run_demo_login [of sv fr]]
  show "\<exists>t \<in> set internal_titles. rs_Body (fst (run (control_plane sv fr demo_login) (demo_served\<lparr>faults := [True]\<rparr>)))
     = Some (JObject [(''type'', JString ''about:blank''), (''title'', JString t), (''status'', JInt 500), (''request_id'', JString ''req-1'')])"
    unfolding i by (simp add: omitempty_def)
qed

end
