(* ===== verification/Spec2Isabelle.thy ===== *)
theory Spec2Isabelle
  imports Findings Relay Http_Props Run_Handlers Deploy_Ends Fleet_Variables Fleet_Findings Compose_Props Routes_Errors
begin

text \<open>
  A verification development of the Control Plane of platform-of-platform: a Go monolith in which each bounded
  context (\<^verbatim>\<open>internal/<context>\<close>) has a \<^verbatim>\<open>domain\<close> package with its aggregates, an \<^verbatim>\<open>application\<close> package with one
  service per use case, and \<^verbatim>\<open>adapters\<close> for PostgreSQL, HTTP, gRPC and Vault. Every organization is a tenant;
  users reach its projects and workspaces through role bindings; a run of a workspace is queued,
  announced through the transactional outbox, dispatched to a connected Worker, reported on and audited.

  \<^bold>\<open>The program and its model.\<close> All contexts share one database. A repository method opens one transaction,
  so a service is a sequence of transactions with pure code between them, and the transactions of requests,
  background loops and replicas interleave freely. \<^theory_text>\<open>Prelude\<close> has the small language for this: a program is a resumption
  (\<^theory_text>\<open>res\<close>), one atomic \<^theory_text>\<open>Step\<close> per transaction, with \<open>run\<close> for the execution of a program alone, \<open>pool_step\<close> for the
  interleaving of many, and the locale \<open>rely_guarantee\<close>, whose soundness theorem gives invariants of pools.
  \<^theory_text>\<open>Store\<close> has the state: a record per row type, \<open>db\<close> with a list per table, \<open>world\<close> with the clock, the Worker
  registries of all replicas, Redis and the requests sent to Vault. \<open>tx\<close> is a transaction: it commits, or returns an
  error and changes nothing. Which transactions fail is the list \<open>faults\<close> of the world.

  \<^item> \<^theory_text>\<open>Tenancy_Store\<close>, \<^theory_text>\<open>Rbac_Store\<close>, \<^theory_text>\<open>Workspace_Store\<close>: aggregates and repositories (\<^verbatim>\<open>domain\<close>, \<^verbatim>\<open>adapters/postgres\<close>) of these
    contexts; evaluation of permissions (\<open>HasPermissionAtScope\<close>), the workspace lock.
  \<^item> \<^theory_text>\<open>Access\<close>: the gates \<^verbatim>\<open>project_visibility.go\<close> of the contexts. \<^theory_text>\<open>Purge\<close>: the hard delete of an organization.
  \<^item> \<^theory_text>\<open>Tenancy\<close>, \<^theory_text>\<open>Rbac\<close>, \<^theory_text>\<open>Workspaces\<close>, \<^theory_text>\<open>Variables\<close>, \<^theory_text>\<open>Secrets\<close>, \<^theory_text>\<open>Execution\<close>: the services (\<^verbatim>\<open>application\<close>) of each context, and for
    the last three the aggregates and repositories as well. \<^theory_text>\<open>Envelope\<close>: \<^verbatim>\<open>internal/platform/envelope\<close>.
  \<^item> \<^theory_text>\<open>Worker_Registry\<close>: \<^verbatim>\<open>internal/execution/adapters/grpc\<close>, the directory of connected Workers.
  \<^item> \<^theory_text>\<open>Audit_Log\<close>: the Audit context. \<^theory_text>\<open>Relay\<close>: \<^verbatim>\<open>internal/platform/outbox/relay.go\<close> with the handler of \<^verbatim>\<open>main.go\<close>.
  \<^item> \<^theory_text>\<open>Identity\<close>, \<^theory_text>\<open>Opaque_Tokens\<close>: users, refresh tokens, password resets, service accounts and API keys
    (\<^verbatim>\<open>internal/identity\<close>). \<^theory_text>\<open>Rate_Limit\<close>: \<^verbatim>\<open>internal/platform/ratelimit\<close>.
  \<^item> \<^theory_text>\<open>Fleet_Store\<close>, \<^theory_text>\<open>Fleet\<close>, \<^theory_text>\<open>Fleet_Compose\<close>: machines, networks, volumes, compose files with variables and attachments
    (\<^verbatim>\<open>internal/fleet\<close>: \<^verbatim>\<open>domain\<close> and \<^verbatim>\<open>adapters/postgres\<close>, then \<^verbatim>\<open>application\<close>). \<^theory_text>\<open>Compose\<close>: \<^verbatim>\<open>render_compose.go\<close> and the scan of
    \<^verbatim>\<open>scan_compose_variables.go\<close>. \<^theory_text>\<open>Ssh_Client\<close>: \<^verbatim>\<open>adapters/ssh\<close>, \<^verbatim>\<open>adapters/redisstream\<close>. \<^theory_text>\<open>Deploy\<close>: \<^verbatim>\<open>deploy_executor.go\<close>.
  \<^item> \<^theory_text>\<open>Http\<close>: requests and responses, authentication, the rate-limit and idempotency middleware
    (\<^verbatim>\<open>internal/platform/httpserver\<close>, \<^verbatim>\<open>auth\<close>, \<^verbatim>\<open>idempotency\<close>).
  \<^item> \<^theory_text>\<open>Tenancy_Handlers\<close>, \<^theory_text>\<open>Rbac_Handlers\<close>, \<^theory_text>\<open>Workspace_Handlers\<close>, \<^theory_text>\<open>Variable_Handlers\<close>, \<^theory_text>\<open>Secret_Handlers\<close>, \<^theory_text>\<open>Audit_Handlers\<close>,
    \<^theory_text>\<open>Identity_Handlers\<close>, \<^theory_text>\<open>Fleet_Handlers\<close>, \<^theory_text>\<open>Run_Handlers\<close>: the HTTP handlers of each context (\<^verbatim>\<open>adapters/http\<close>). A request struct
    whose fields are all strings is the list of their names, the others are records with a decoder per member; a response
    struct is the JSON value its function makes. \<open>serve\<close> runs a service and answers with its error or its result.
  \<^item> \<^theory_text>\<open>Routes\<close>: the table of routes and the composition of the server in \<^verbatim>\<open>cmd/control-plane/main.go\<close>, on a model of the pattern tree
    of \<^verbatim>\<open>net/http\<close>. The records \<open>server\<close> and \<open>fresh\<close> hold the parameters of the process and the random values of one request.
  \<^item> \<^theory_text>\<open>Go_Library\<close>: what the sources use of Go's \<^verbatim>\<open>encoding/base64\<close>, \<^verbatim>\<open>strconv\<close> and \<^verbatim>\<open>time\<close>; \<^theory_text>\<open>Go_Strings\<close>: of
    \<^verbatim>\<open>strings\<close>, \<^verbatim>\<open>path\<close> and \<^verbatim>\<open>bufio\<close>.

  A definition has the name of the Go function it translates, with the type of the receiver in front where
  several have the same name. The arguments of a service are the fields of its input struct, after
  what Go passes implicitly: values of \<^verbatim>\<open>uuid.NewString()\<close>, and \<open>ctx\<close>, the scopes an API key put into the context.

  \<^bold>\<open>What is shown.\<close>
  \<^item> \<^theory_text>\<open>Run_Safety\<close>, \<^theory_text>\<open>Run_Pool\<close>: the rely-guarantee proof for runs. In any interleaving a workspace has at most one
    active run, which holds the lock, and a terminal run stays terminal.
  \<^item> \<^theory_text>\<open>Run_Lifecycle\<close>: the effect of each operation on a run when it is alone, errors included.
  \<^item> \<^theory_text>\<open>Relay\<close>: the audit log records each event exactly once although delivery is at least once; a batch of the relay
    makes progress. \<^theory_text>\<open>Audit_Log\<close>: following the cursors visits every entry exactly once.
  \<^item> \<^theory_text>\<open>Management\<close>, \<^theory_text>\<open>Guarantees\<close>: every state-changing request, and the proof that one without permission changes
    nothing; how allow, deny, teams, scopes and API keys combine; visibility; members and roles; the purge.
  \<^item> \<^theory_text>\<open>Variables\<close>, \<^theory_text>\<open>Secrets\<close>, \<^theory_text>\<open>Worker_Registry\<close>: the cascade of variables, round trips of encrypted and stored secrets,
    correctness of the choice of a Worker.
  \<^item> \<^theory_text>\<open>Identity_Props\<close>: a created user can log in; a password reset works once; along a chain of refreshes each new token is
    accepted and every used one refused, yet two concurrent requests can both use one. \<^theory_text>\<open>Rate_Limit\<close>: the bound on admitted requests.
  \<^item> \<^theory_text>\<open>Http_Props\<close>: an API key authenticates until it is revoked. \<^theory_text>\<open>Run_Handlers\<close>: a retried request is replayed.
  \<^item> \<^theory_text>\<open>Routes_Props\<close>: every registered route is reached with the values of its path, whatever the order of registration; a request without accepted
    credentials changes nothing outside the open routes. \<^theory_text>\<open>Routes_Errors\<close>: an internal error tells the client
    nothing but a fixed title; it is proved by a small logic (\<open>answers\<close>) for what a program can answer in any world.
  \<^item> \<^theory_text>\<open>Fleet_Pool\<close>: however many control planes poll, an operation is executed at most once. \<^theory_text>\<open>Deploy_Ends\<close>: every execution ends with a
    final status. \<^theory_text>\<open>Deploy_Props\<close>: quoting for the shell, redaction of secrets and its limits. \<^theory_text>\<open>Fleet_Variables\<close>: own variables override global
    ones. \<^theory_text>\<open>Compose_Props\<close>: substitution of placeholders, what rendering adds to a
    compose file. \<^theory_text>\<open>Fleet_Props\<close>: permissions and stored credentials.
  \<^item> \<^theory_text>\<open>Findings\<close>, \<^theory_text>\<open>Fleet_Findings\<close>: behaviour that contradicts comments or other parts of the code; the small deployment of \<^theory_text>\<open>Demo\<close>
    shows that it occurs.

  \<^bold>\<open>Assumptions.\<close> A transaction that returns an error was rolled back (a lost acknowledgement of a commit is not
  modelled). Generated ids are new where a statement says so. Strings stand for uuids; that a \<open>uuid\<close> column rejects
  other strings is not modelled. Times are kept in nanoseconds. The payload of an event, a JSON object in the code, is a map of
  strings. Cryptographic primitives (AES, bcrypt, SHA-256), the JWT library, the Vault server, the YAML library, the
  SSH library with the machine behind it, the order in which Go ranges over a map, the text of an error, of a time and its location are
  parameters; an SSH call that never returns is not modelled. The body of a request or response is a JSON value, not its text, and
  numbers in it are integers; that of an event stream is a string. The path of a request is given as its clean segments: the redirects of the multiplexer for others are not modelled.
  The \<^verbatim>\<open>ResponseWriter\<close> can flush. The pools of runs,
  of the relay and of Fleet have no purge of organizations.

  \<^bold>\<open>Bounds and termination.\<close> Every definition is total and no fuel is used: loops run over finite lists read from the
  database, the background loops are modelled by one iteration, and \<open>pool_reach\<close> ranges over any number of them.

  \<^bold>\<open>Not modelled.\<close> Process start-up and configuration, TLS and tracing, generated protobuf code, and the Worker's execution of external tools.
\<close>

end
